(* ===== verification/Prelude.thy ===== *)
theory Prelude
  imports Main
begin

text \<open>
  What the component theories share: the model's basic types, Python's truth values and
  string methods, database tables as lists of rows, and two interfaces as locales (a row
  update that keeps its key, and a transition system with an invariant).

  Conventions.
  \<^item> A Python \<open>str\<close> is a \<^typ>\<open>string\<close>; the characters of the model are the first 256
    code points. Message texts that the code only hands on are constructors of a datatype.
  \<^item> \<open>None\<close> is \<^const>\<open>None\<close>, so \<open>str | None\<close> is \<^typ>\<open>string option\<close>.
  \<^item> A \<open>datetime\<close> is the number of microseconds since the epoch (the resolution of
    Python's \<open>datetime\<close>), an \<^typ>\<open>int\<close>; a \<open>timedelta\<close> is an \<^typ>\<open>int\<close> too.
    The current time and fresh \<open>uuid4\<close> identifiers are arguments of the operations.
  \<^item> A database table is the list of its rows in insertion order.
\<close>

section \<open>Types, truth values, strings\<close>

type_synonym timestamp = int
type_synonym timedelta = int

definition seconds :: "int \<Rightarrow> timedelta" where
  "seconds n = n * 1000000"

definition minutes :: "int \<Rightarrow> timedelta" where
  "minutes n = seconds (60 * n)"

definition hours :: "int \<Rightarrow> timedelta" where
  "hours n = seconds (3600 * n)"

lemmas time_units = seconds_def minutes_def hours_def

text \<open>Python's truth value of a \<open>str | None\<close> and of an \<open>int | None\<close>.\<close>

definition truthy :: "string option \<Rightarrow> bool" where
  "truthy s = (case s of None \<Rightarrow> False | Some t \<Rightarrow> t \<noteq> [])"

definition truthy_int :: "int option \<Rightarrow> bool" where
  "truthy_int n = (case n of None \<Rightarrow> False | Some k \<Rightarrow> k \<noteq> 0)"

text \<open>\<open>value or default\<close> for strings.\<close>

definition str_or :: "string option \<Rightarrow> string \<Rightarrow> string" where
  "str_or s d = (case s of None \<Rightarrow> d | Some t \<Rightarrow> if t = [] then d else t)"

lemma truthy_simps [simp]:
  "\<not> truthy None"
  "truthy (Some t) \<longleftrightarrow> t \<noteq> []"
  by (simp_all add: truthy_def)

lemma truthy_int_simps [simp]:
  "\<not> truthy_int None"
  "truthy_int (Some k) \<longleftrightarrow> k \<noteq> 0"
  by (simp_all add: truthy_int_def)

lemma str_or_simps [simp]:
  "str_or None d = d"
  "str_or (Some []) d = d"
  "t \<noteq> [] \<Longrightarrow> str_or (Some t) d = t"
  by (simp_all add: str_or_def)

lemma truthy_str_or: "truthy s \<longleftrightarrow> str_or s [] \<noteq> []"
  by (simp add: truthy_def str_or_def split: option.split)

text \<open>White space of \<open>str.strip\<close> within the first 256 code points.\<close>

definition py_space :: "char \<Rightarrow> bool" where
  "py_space c = (let n = (of_char c :: nat) in
     (9 \<le> n \<and> n \<le> 13) \<or> (28 \<le> n \<and> n \<le> 32) \<or> n = 133 \<or> n = 160)"

definition strip :: "string \<Rightarrow> string" where
  "strip s = rev (dropWhile py_space (rev (dropWhile py_space s)))"

definition lower_char :: "char \<Rightarrow> char" where
  "lower_char c = (let n = (of_char c :: nat) in
     if 65 \<le> n \<and> n \<le> 90 then char_of (n + 32) else c)"

definition upper_char :: "char \<Rightarrow> char" where
  "upper_char c = (let n = (of_char c :: nat) in
     if 97 \<le> n \<and> n \<le> 122 then char_of (n - 32) else c)"

text \<open>Case mapping on the ASCII letters: the code compares its results with ASCII constants.\<close>

definition lower :: "string \<Rightarrow> string" where
  "lower s = map lower_char s"

definition upper :: "string \<Rightarrow> string" where
  "upper s = map upper_char s"

lemma dropWhile_hd: "dropWhile P xs \<noteq> [] \<Longrightarrow> \<not> P (hd (dropWhile P xs))"
  by (rule hd_dropWhile)

lemma strip_Nil [simp]: "strip [] = []"
  by (simp add: strip_def)

lemma strip_last: "strip s \<noteq> [] \<Longrightarrow> \<not> py_space (last (strip s))"
proof -
  assume "strip s \<noteq> []"
  then have "dropWhile py_space (rev (dropWhile py_space s)) \<noteq> []"
    by (simp add: strip_def)
  then have "\<not> py_space (hd (dropWhile py_space (rev (dropWhile py_space s))))"
    by (rule dropWhile_hd)
  then show ?thesis by (simp add: strip_def last_rev)
qed

text \<open>Decimal output of an \<open>int\<close>.\<close>

fun show_nat :: "nat \<Rightarrow> string" where
  "show_nat n = (if n < 10 then [char_of (48 + n)]
     else show_nat (n div 10) @ [char_of (48 + n mod 10)])"

declare show_nat.simps [simp del]

definition show_int :: "int \<Rightarrow> string" where
  "show_int i = (if i < 0 then CHR ''-'' # show_nat (nat (- i)) else show_nat (nat i))"

definition is_digit :: "char \<Rightarrow> bool" where
  "is_digit c = (let n = (of_char c :: nat) in 48 \<le> n \<and> n \<le> 57)"

lemma is_digit_char_of: "d < 10 \<Longrightarrow> is_digit (char_of (48 + d :: nat))"
  by (simp add: is_digit_def of_char_of)

lemma show_nat_nonempty [simp]: "show_nat n \<noteq> []"
  by (subst show_nat.simps) simp

lemma show_nat_digits: "c \<in> set (show_nat n) \<Longrightarrow> is_digit c"
proof (induction n rule: show_nat.induct)
  case (1 n)
  show ?case
  proof (cases "n < 10")
    case True
    with "1.prems" show ?thesis by (simp add: show_nat.simps [of n] is_digit_char_of)
  next
    case False
    with "1" show ?thesis by (auto simp: show_nat.simps [of n] is_digit_char_of)
  qed
qed

section \<open>Tables\<close>

text \<open>
  \<open>session.get(ORM, key)\<close>, the assignment of attributes of one fetched row, and
  \<open>UPDATE ... WHERE\<close> with its row count.
\<close>

definition get_row :: "('r \<Rightarrow> 'k) \<Rightarrow> 'r list \<Rightarrow> 'k \<Rightarrow> 'r option" where
  "get_row key t k = find (\<lambda>r. key r = k) t"

definition set_row :: "('r \<Rightarrow> 'k) \<Rightarrow> 'r list \<Rightarrow> 'k \<Rightarrow> ('r \<Rightarrow> 'r) \<Rightarrow> 'r list" where
  "set_row key t k f = map (\<lambda>r. if key r = k then f r else r) t"

definition update_where :: "('r \<Rightarrow> bool) \<Rightarrow> ('r \<Rightarrow> 'r) \<Rightarrow> 'r list \<Rightarrow> 'r list" where
  "update_where p f t = map (\<lambda>r. if p r then f r else r) t"

definition rowcount :: "('r \<Rightarrow> bool) \<Rightarrow> 'r list \<Rightarrow> nat" where
  "rowcount p t = length (filter p t)"

definition keys_distinct :: "('r \<Rightarrow> 'k) \<Rightarrow> 'r list \<Rightarrow> bool" where
  "keys_distinct key t = distinct (map key t)"

lemma get_row_Nil [simp]: "get_row key [] k = None"
  by (simp add: get_row_def)

lemma get_row_Cons [simp]:
  "get_row key (r # t) k = (if key r = k then Some r else get_row key t k)"
  by (simp add: get_row_def)

lemma get_row_SomeD: "get_row key t k = Some r \<Longrightarrow> r \<in> set t \<and> key r = k"
  by (induction t) (auto split: if_splits)

lemma get_row_None_iff: "get_row key t k = None \<longleftrightarrow> k \<notin> key ` set t"
  by (induction t) auto

lemma get_row_append:
  "get_row key (t @ u) k = (case get_row key t k of None \<Rightarrow> get_row key u k | Some r \<Rightarrow> Some r)"
  by (induction t) auto

lemma get_row_distinct:
  "keys_distinct key t \<Longrightarrow> r \<in> set t \<Longrightarrow> get_row key t (key r) = Some r"
  by (induction t) (auto simp: keys_distinct_def)

lemma keys_distinct_eq:
  "keys_distinct key t \<Longrightarrow> r \<in> set t \<Longrightarrow> s \<in> set t \<Longrightarrow> key r = key s \<Longrightarrow> r = s"
  by (metis get_row_distinct option.inject)

lemma get_row_map:
  assumes "\<And>x. x \<in> set rows \<Longrightarrow> key (f x) = key x"
  shows "get_row key (map f rows) k = map_option f (get_row key rows k)"
  using assms by (induction rows) auto

lemma update_where_Nil [simp]: "update_where p f [] = []"
  by (simp add: update_where_def)

lemma update_where_Cons [simp]:
  "update_where p f (r # t) = (if p r then f r else r) # update_where p f t"
  by (simp add: update_where_def)

lemma set_row_update_where: "set_row key t k f = update_where (\<lambda>r. key r = k) f t"
  by (simp add: set_row_def update_where_def)

lemma update_where_none: "rowcount p t = 0 \<Longrightarrow> update_where p f t = t"
  by (induction t) (auto simp: rowcount_def split: if_splits)

lemma length_update_where [simp]: "length (update_where p f t) = length t"
  by (simp add: update_where_def)

lemma in_update_whereE:
  assumes "x \<in> set (update_where p f t)"
  obtains r where "r \<in> set t" "p r" "x = f r" | "x \<in> set t" "\<not> p x"
  using assms by (auto simp: update_where_def split: if_splits)

lemma keys_distinct_Cons [simp]:
  "keys_distinct key (r # t) \<longleftrightarrow> key r \<notin> key ` set t \<and> keys_distinct key t"
  by (simp add: keys_distinct_def)

lemma keys_distinct_append1:
  "keys_distinct key t \<Longrightarrow> get_row key t (key r) = None \<Longrightarrow> keys_distinct key (t @ [r])"
  by (auto simp: keys_distinct_def get_row_None_iff)

lemma list_all_update_where:
  "list_all P t \<Longrightarrow> (\<And>r. r \<in> set t \<Longrightarrow> p r \<Longrightarrow> P r \<Longrightarrow> P (f r)) \<Longrightarrow> list_all P (update_where p f t)"
  by (auto simp: update_where_def list_all_iff)

lemma list_all_set_row:
  "list_all P t \<Longrightarrow> (\<And>r. r \<in> set t \<Longrightarrow> key r = k \<Longrightarrow> P r \<Longrightarrow> P (f r)) \<Longrightarrow> list_all P (set_row key t k f)"
  by (auto simp: set_row_def list_all_iff)

text \<open>At most one row satisfies a condition that fixes the key.\<close>

lemma rowcount_keyed_le_1:
  "keys_distinct key t \<Longrightarrow> (\<And>r. p r \<Longrightarrow> key r = k) \<Longrightarrow> rowcount p t \<le> 1"
proof (induction t)
  case Nil
  then show ?case by (simp add: rowcount_def)
next
  case (Cons r t)
  show ?case
  proof (cases "p r")
    case True
    then have "key r = k" by (rule Cons.prems(2))
    with Cons.prems have "filter p t = []"
      by (auto simp: filter_empty_conv) (metis imageI)
    with True show ?thesis by (simp add: rowcount_def)
  next
    case False
    with Cons show ?thesis by (simp add: rowcount_def)
  qed
qed

lemma rowcount_eq_1_keyed:
  assumes "keys_distinct key t" and "\<And>r. p r \<Longrightarrow> key r = k"
  shows "rowcount p t = 1 \<longleftrightarrow> (\<exists>r. get_row key t k = Some r \<and> p r)"
proof
  assume "rowcount p t = 1"
  then have "filter p t \<noteq> []" by (auto simp: rowcount_def)
  then obtain r where "r \<in> set t" "p r" by (auto simp: filter_empty_conv)
  with assms show "\<exists>r. get_row key t k = Some r \<and> p r"
    by (metis get_row_distinct)
next
  assume "\<exists>r. get_row key t k = Some r \<and> p r"
  then obtain r where "get_row key t k = Some r" "p r" by blast
  then have "filter p t \<noteq> []"
    by (auto simp: filter_empty_conv dest: get_row_SomeD)
  then have "rowcount p t \<noteq> 0" by (simp add: rowcount_def)
  moreover have "rowcount p t \<le> 1" using assms by (rule rowcount_keyed_le_1)
  ultimately show "rowcount p t = 1" by linarith
qed

text \<open>A row update that leaves the primary key alone.\<close>

locale row_update =
  fixes key :: "'r \<Rightarrow> 'k" and f :: "'r \<Rightarrow> 'r"
  assumes key_kept: "key (f r) = key r"
begin

lemma keys_kept: "map key (update_where p f t) = map key t"
  by (simp add: update_where_def key_kept)

lemma distinct_kept [intro]: "keys_distinct key t \<Longrightarrow> keys_distinct key (update_where p f t)"
  by (simp add: keys_distinct_def keys_kept)

lemma get_updated:
  "get_row key (update_where p f t) k =
     map_option (\<lambda>r. if p r then f r else r) (get_row key t k)"
  by (induction t) (auto simp: key_kept)

lemma get_set_row_same:
  "get_row key (set_row key t k f) k = map_option f (get_row key t k)"
  by (induction t) (auto simp: set_row_def key_kept)

lemma get_set_row_other: "j \<noteq> k \<Longrightarrow> get_row key (set_row key t k f) j = get_row key t j"
  by (induction t) (auto simp: set_row_def key_kept)

text \<open>A conditional update that hits exactly one keyed row: what is read back afterwards.\<close>

lemma update_one:
  assumes "keys_distinct key t" and "\<And>r. p r \<Longrightarrow> key r = k" and "rowcount p t = 1"
  obtains r where "get_row key t k = Some r" "p r" "get_row key (update_where p f t) k = Some (f r)"
  using rowcount_eq_1_keyed [of key t p k] assms by (auto simp: get_updated)

lemma distinct_set_row [intro]: "keys_distinct key t \<Longrightarrow> keys_distinct key (set_row key t k f)"
  by (simp add: set_row_update_where distinct_kept)

end

text \<open>
  A fetched or newly added row after it was assigned to and committed: the row with the
  same key is replaced, or the row is appended.
\<close>

definition put_row :: "('r \<Rightarrow> 'k) \<Rightarrow> 'r \<Rightarrow> 'r list \<Rightarrow> 'r list" where
  "put_row key row rows =
     (if get_row key rows (key row) = None then rows @ [row]
      else set_row key rows (key row) (\<lambda>_. row))"

lemma get_put_row: "get_row key (put_row key row rows) k = (if k = key row then Some row else get_row key rows k)"
proof -
  have "get_row key (set_row key rows (key row) (\<lambda>_. row)) k =
      (if k = key row then map_option (\<lambda>_. row) (get_row key rows k) else get_row key rows k)"
    by (induction rows) (auto simp: set_row_def)
  then show ?thesis
    by (auto simp: put_row_def get_row_append split: option.splits)
qed

lemma keys_distinct_put_row:
  assumes "keys_distinct key rows"
  shows "keys_distinct key (put_row key row rows)"
proof -
  have "map key (set_row key rows (key row) (\<lambda>_. row)) = map key rows"
    by (induction rows) (auto simp: set_row_def)
  with assms show ?thesis
    by (simp add: put_row_def keys_distinct_append1) (simp add: keys_distinct_def)
qed

lemma in_put_row: "r \<in> set (put_row key row rows) \<Longrightarrow> r = row \<or> (r \<in> set rows \<and> key r \<noteq> key row)"
  by (auto simp: put_row_def set_row_def get_row_None_iff image_iff split: if_splits)

lemma find_SomeD: "find P xs = Some x \<Longrightarrow> x \<in> set xs \<and> P x"
  by (induction xs) (auto split: if_splits)

lemma put_row_twice:
  assumes "key r = key s"
  shows "put_row key s (put_row key r rows) = put_row key s rows"
proof -
  have g: "get_row key (put_row key r rows) (key s) = Some r" using assms by (simp add: get_put_row)
  have n: "map (\<lambda>x. if key x = key s then s else x) rows = rows" if "get_row key rows (key s) = None"
    using that by (intro map_idI) (metis get_row_None_iff imageI)
  show ?thesis
    unfolding put_row_def [of key s "put_row key r rows"] g
    using assms n by (simp add: put_row_def set_row_def)
qed

text \<open>An update of the one row with a key and a condition, as writing that row.\<close>

lemma update_one_row:
  assumes d: "keys_distinct key rows" and g: "get_row key rows k = Some r" and "p r"
    and p: "\<And>s. p s \<Longrightarrow> key s = k" and f: "key (f r) = k"
  shows "update_where p f rows = put_row key (f r) rows" and "rowcount p rows = 1"
proof -
  have eq: "p s \<longleftrightarrow> s = r" if "s \<in> set rows" for s
    using that p keys_distinct_eq [OF d that] get_row_SomeD [OF g] \<open>p r\<close> by metis
  have eq': "key s = k \<longleftrightarrow> s = r" if "s \<in> set rows" for s
    using that keys_distinct_eq [OF d that] get_row_SomeD [OF g] by metis
  show "update_where p f rows = put_row key (f r) rows"
    using eq eq' g f by (auto simp: put_row_def set_row_def update_where_def)
  have "filter p rows = filter (\<lambda>s. s = r) rows" using eq by (intro filter_cong) auto
  moreover have "distinct rows" using d by (simp add: keys_distinct_def distinct_map)
  ultimately show "rowcount p rows = 1"
    using get_row_SomeD [OF g] by (simp add: rowcount_def distinct_length_filter Collect_conv_if)
qed

text \<open>Replacing a row by one with the same second key keeps that key unique.\<close>

lemma put_row_keeps_distinct:
  assumes d: "keys_distinct key rows" and r: "r \<in> set rows" "key r' = key r" and k: "keys_distinct k2 (filter q rows)"
    and same: "k2 r' = k2 r" "q r' = q r"
  shows "keys_distinct k2 (filter q (put_row key r' rows))"
proof -
  have g: "get_row key rows (key r') = Some r" using get_row_distinct [OF d r(1)] r(2) by simp
  have eq: "(if key x = key r' then r' else x) = (if x = r then r' else x)" if "x \<in> set rows" for x
    using that keys_distinct_eq [OF d that r(1)] r(2) by auto
  have "put_row key r' rows = map (\<lambda>x. if x = r then r' else x) rows"
    using g eq by (simp add: put_row_def set_row_def)
  moreover have "map k2 (filter q (map (\<lambda>x. if x = r then r' else x) xs)) = map k2 (filter q xs)" for xs
    by (induction xs) (auto simp: same)
  ultimately show ?thesis using k by (simp add: keys_distinct_def)
qed

lemma put_row_new:
  "get_row key rows (key r) = None \<Longrightarrow> put_row key r rows = rows @ [r]"
  by (simp add: put_row_def)

text \<open>\<open>ORDER BY key LIMIT 1\<close>: the first row with the least key.\<close>

fun first_by :: "('r \<Rightarrow> 'k::linorder) \<Rightarrow> 'r list \<Rightarrow> 'r option" where
  "first_by key [] = None"
| "first_by key (r # rs) =
     (case first_by key rs of
        None \<Rightarrow> Some r
      | Some s \<Rightarrow> if key r \<le> key s then Some r else Some s)"

lemma first_by_None_iff [simp]: "first_by key rs = None \<longleftrightarrow> rs = []"
  by (cases rs) (auto split: option.splits)

lemma first_by_SomeD:
  "first_by key rs = Some r \<Longrightarrow> r \<in> set rs \<and> (\<forall>s\<in>set rs. key r \<le> key s)"
proof (induction rs arbitrary: r)
  case (Cons a rs)
  show ?case
  proof (cases "first_by key rs")
    case None
    with Cons.prems show ?thesis by simp
  next
    case (Some s)
    with Cons.IH [OF Some] Cons.prems show ?thesis by (auto split: if_splits)
  qed
qed simp

section \<open>Transition systems with an invariant\<close>

locale invariant_system =
  fixes init :: "'s \<Rightarrow> bool" and step :: "'s \<Rightarrow> 's \<Rightarrow> bool" and inv :: "'s \<Rightarrow> bool"
  assumes init_inv: "init s \<Longrightarrow> inv s"
    and step_inv: "step s t \<Longrightarrow> inv s \<Longrightarrow> inv t"
begin

lemma steps_inv: "step\<^sup>*\<^sup>* s t \<Longrightarrow> inv s \<Longrightarrow> inv t"
  by (induction rule: rtranclp_induct) (auto intro: step_inv)

lemma reachable_inv: "init s \<Longrightarrow> step\<^sup>*\<^sup>* s t \<Longrightarrow> inv t"
  by (blast intro: init_inv steps_inv)

end

section \<open>Exclusive claims\<close>

text \<open>
  Several components hand a piece of work to at most one of the callers that race for it.
  \<^term>\<open>claim_all claim as s\<close> lets the callers \<open>as\<close> try one after the other (each claim is
  one database transaction) and returns who succeeded.
\<close>

fun claim_all :: "('a \<Rightarrow> 's \<Rightarrow> 's \<times> bool) \<Rightarrow> 'a list \<Rightarrow> 's \<Rightarrow> 's \<times> bool list" where
  "claim_all claim [] s = (s, [])"
| "claim_all claim (a # as) s =
     (let (t, ok) = claim a s; (u, oks) = claim_all claim as t in (u, ok # oks))"

definition winners :: "bool list \<Rightarrow> nat" where
  "winners oks = length (filter id oks)"

locale one_shot =
  fixes claim :: "'a \<Rightarrow> 's \<Rightarrow> 's \<times> bool" and claimable :: "'s \<Rightarrow> bool" and valid :: "'s \<Rightarrow> bool"
  assumes claim_needs: "valid s \<Longrightarrow> claim a s = (t, True) \<Longrightarrow> claimable s"
    and claim_takes: "valid s \<Longrightarrow> claim a s = (t, True) \<Longrightarrow> \<not> claimable t"
    and claim_stays: "valid s \<Longrightarrow> \<not> claimable s \<Longrightarrow> claim a s = (t, False) \<Longrightarrow> \<not> claimable t"
    and claim_valid: "valid s \<Longrightarrow> claim a s = (t, ok) \<Longrightarrow> valid t"
begin

lemma none_wins: "valid s \<Longrightarrow> \<not> claimable s \<Longrightarrow> claim_all claim as s = (u, oks) \<Longrightarrow> winners oks = 0"
proof (induction as arbitrary: s u oks)
  case Nil
  then show ?case by (simp add: winners_def)
next
  case (Cons a as)
  obtain t ok where c: "claim a s = (t, ok)" by fastforce
  with Cons.prems(1,2) claim_needs have ok: "\<not> ok" by (cases ok) auto
  with Cons.prems(1,2) c have t: "valid t" "\<not> claimable t" by (auto dest: claim_stays claim_valid)
  obtain v oks' where r: "claim_all claim as t = (v, oks')" by fastforce
  with Cons.prems c ok have "oks = False # oks'" by auto
  with Cons.IH [OF t r] show ?case by (simp add: winners_def)
qed

lemma at_most_one_wins: "valid s \<Longrightarrow> claim_all claim as s = (u, oks) \<Longrightarrow> winners oks \<le> 1"
proof (induction as arbitrary: s u oks)
  case Nil
  then show ?case by (simp add: winners_def)
next
  case (Cons a as)
  obtain t ok where c: "claim a s = (t, ok)" by fastforce
  with Cons.prems(1) have v: "valid t" by (rule claim_valid)
  obtain w oks' where r: "claim_all claim as t = (w, oks')" by fastforce
  with Cons.prems c have o: "oks = ok # oks'" by auto
  show ?case
  proof (cases ok)
    case True
    with Cons.prems(1) c have "\<not> claimable t" by (auto dest: claim_takes)
    with v r have "winners oks' = 0" by (blast dest: none_wins)
    with True o show ?thesis by (simp add: winners_def)
  next
    case False
    with Cons.IH [OF v r] o show ?thesis by (simp add: winners_def)
  qed
qed

end

text \<open>A claim that changes nothing when it is refused.\<close>

locale exclusive_claim =
  fixes claim :: "'a \<Rightarrow> 's \<Rightarrow> 's \<times> bool" and claimable :: "'s \<Rightarrow> bool" and valid :: "'s \<Rightarrow> bool"
  assumes excl_needs: "valid s \<Longrightarrow> claim a s = (t, True) \<Longrightarrow> claimable s"
    and excl_takes: "valid s \<Longrightarrow> claim a s = (t, True) \<Longrightarrow> \<not> claimable t"
    and excl_refused: "valid s \<Longrightarrow> claim a s = (t, False) \<Longrightarrow> t = s"
    and excl_valid: "valid s \<Longrightarrow> claim a s = (t, ok) \<Longrightarrow> valid t"

sublocale exclusive_claim \<subseteq> one_shot claim claimable valid
proof
  show "\<not> claimable t" if "valid s" "\<not> claimable s" "claim a s = (t, False)" for a s t
    using that excl_refused by blast
qed (blast dest: excl_needs excl_takes excl_valid)+

end
