(* ===== verification/Network.thy ===== *)
theory Network
  imports Prelude
begin

text \<open>
  The network route of an account: \<open>account_network.py\<close> (which route a stored account may
  use) and \<open>integrations/xianyu_core/proxy.py\<close> (the SOCKS URL the protocol client dials).
  The lemmas show that the two modules together fail closed: a bound account is either
  refused or gets a SOCKS URL, never a direct connection.
\<close>

section \<open>The route policy\<close>

datatype network_mode = Direct | Socks5

text \<open>One constructor per message of \<open>AccountNetworkPolicyError\<close>.\<close>

datatype policy_error =
    HiddenLegacyProxy
  | BoundProxyDisabled
  | BoundProxySchemeInvalid
  | BoundProxyIncomplete

record proxy_payload =
  pp_enabled :: bool
  pp_scheme :: string
  pp_host :: "string option"
  pp_port :: "int option"
  pp_username :: "string option"
  pp_password :: "string option"

definition validate_account_network_route ::
  "string option \<Rightarrow> proxy_payload \<Rightarrow> policy_error + network_mode" where
  "validate_account_network_route proxy_id proxy =
     (case proxy_id of
        None \<Rightarrow>
          if pp_enabled proxy
             \<or> (pp_host proxy \<noteq> None \<and> pp_host proxy \<noteq> Some [])
             \<or> pp_port proxy \<noteq> None
             \<or> (pp_username proxy \<noteq> None \<and> pp_username proxy \<noteq> Some [])
             \<or> (pp_password proxy \<noteq> None \<and> pp_password proxy \<noteq> Some [])
          then Inl HiddenLegacyProxy
          else Inr Direct
      | Some _ \<Rightarrow>
          if \<not> pp_enabled proxy then Inl BoundProxyDisabled
          else if pp_scheme proxy \<notin> {''socks5'', ''socks5h''} then Inl BoundProxySchemeInvalid
          else if \<not> truthy (pp_host proxy) \<or> \<not> truthy_int (pp_port proxy)
          then Inl BoundProxyIncomplete
          else Inr Socks5)"

record core_proxy =
  pc_enabled :: bool
  pc_required :: bool
  pc_scheme :: string
  pc_host :: string
  pc_port :: "int option"
  pc_username :: "string option"
  pc_password :: "string option"

definition ProxyConfig_default :: core_proxy where
  "ProxyConfig_default = \<lparr>pc_enabled = False, pc_required = False, pc_scheme = ''socks5h'',
     pc_host = [], pc_port = None, pc_username = None, pc_password = None\<rparr>"

definition build_core_account_proxy ::
  "string option \<Rightarrow> proxy_payload \<Rightarrow> policy_error + core_proxy" where
  "build_core_account_proxy proxy_id proxy =
     (case validate_account_network_route proxy_id proxy of
        Inl e \<Rightarrow> Inl e
      | Inr Direct \<Rightarrow>
          Inr (ProxyConfig_default\<lparr>pc_enabled := False, pc_required := False\<rparr>)
      | Inr Socks5 \<Rightarrow>
          Inr \<lparr>pc_enabled = True, pc_required = True, pc_scheme = pp_scheme proxy,
               pc_host = str_or (pp_host proxy) [], pc_port = pp_port proxy,
               pc_username = pp_username proxy, pc_password = pp_password proxy\<rparr>)"

section \<open>The SOCKS URL\<close>

text \<open>
  \<open>urllib.parse.quote(s, safe="")\<close>: the UTF-8 bytes of the string, letters, digits and
  \<open>_.-~\<close> as they are, every other byte as \<open>%XX\<close> with upper-case hexadecimal digits.
\<close>

definition utf8 :: "char \<Rightarrow> nat list" where
  "utf8 c = (let n = of_char c in
     if n < 128 then [n] else [192 + n div 64, 128 + n mod 64])"

definition hex_digit :: "nat \<Rightarrow> char" where
  "hex_digit n = (if n < 10 then char_of (48 + n) else char_of (55 + n))"

definition unreserved :: "nat \<Rightarrow> bool" where
  "unreserved n \<longleftrightarrow> (48 \<le> n \<and> n \<le> 57) \<or> (65 \<le> n \<and> n \<le> 90) \<or> (97 \<le> n \<and> n \<le> 122)
     \<or> n = 95 \<or> n = 46 \<or> n = 45 \<or> n = 126"

definition quote_byte :: "nat \<Rightarrow> string" where
  "quote_byte n = (if unreserved n then [char_of n]
     else [CHR ''%'', hex_digit (n div 16), hex_digit (n mod 16)])"

definition quote :: "string \<Rightarrow> string" where
  "quote s = concat (map quote_byte (concat (map utf8 s)))"

datatype proxy_url_error =
    BoundProxyIsDisabled
  | UnsupportedScheme string
  | HostRequired
  | PortRequired

definition SUPPORTED_SOCKS_SCHEMES :: "string set" where
  "SUPPORTED_SOCKS_SCHEMES = {''socks5'', ''socks5h''}"

definition proxy_auth :: "core_proxy \<Rightarrow> string" where
  "proxy_auth proxy =
     (if truthy (pc_username proxy)
      then quote (str_or (pc_username proxy) [])
           @ (if truthy (pc_password proxy)
              then '':'' @ quote (str_or (pc_password proxy) []) else [])
           @ ''@''
      else [])"

definition build_socks_proxy_url :: "core_proxy option \<Rightarrow> proxy_url_error + string option" where
  "build_socks_proxy_url proxy_opt =
     (case proxy_opt of
        None \<Rightarrow> Inr None
      | Some proxy \<Rightarrow>
          if \<not> pc_enabled proxy
          then (if pc_required proxy then Inl BoundProxyIsDisabled else Inr None)
          else let scheme = lower (if pc_scheme proxy = [] then ''socks5h'' else pc_scheme proxy)
            in if scheme \<notin> SUPPORTED_SOCKS_SCHEMES then Inl (UnsupportedScheme (pc_scheme proxy))
               else if pc_host proxy = [] then Inl HostRequired
               else if \<not> truthy_int (pc_port proxy) then Inl PortRequired
               else Inr (Some (scheme @ ''://'' @ proxy_auth proxy @ pc_host proxy @ '':''
                               @ (case pc_port proxy of None \<Rightarrow> [] | Some n \<Rightarrow> show_int n))))"

section \<open>Lemmas\<close>

lemma validate_bound:
  "validate_account_network_route (Some pid) proxy = Inr m \<Longrightarrow>
     m = Socks5 \<and> pp_enabled proxy \<and> pp_scheme proxy \<in> {''socks5'', ''socks5h''}
     \<and> truthy (pp_host proxy) \<and> truthy_int (pp_port proxy)"
  by (auto simp: validate_account_network_route_def split: if_splits)

lemma validate_direct_iff:
  "validate_account_network_route proxy_id proxy = Inr Direct \<longleftrightarrow>
     proxy_id = None \<and> \<not> pp_enabled proxy \<and> \<not> truthy (pp_host proxy) \<and> pp_port proxy = None
     \<and> \<not> truthy (pp_username proxy) \<and> \<not> truthy (pp_password proxy)"
  by (auto simp: validate_account_network_route_def truthy_def split: option.splits)

lemma lower_socks [simp]: "lower ''socks5'' = ''socks5''" "lower ''socks5h'' = ''socks5h''"
  by (simp_all add: lower_def lower_char_def)

lemma bound_url_exists:
  assumes "build_core_account_proxy (Some pid) proxy = Inr c"
  shows "build_socks_proxy_url (Some c) =
     Inr (Some (pp_scheme proxy @ ''://'' @ proxy_auth c @ str_or (pp_host proxy) [] @ '':''
                @ show_int (the (pp_port proxy))))"
proof -
  from assms have v: "validate_account_network_route (Some pid) proxy = Inr Socks5"
    by (auto simp: build_core_account_proxy_def split: sum.splits network_mode.splits
             dest: validate_bound)
  then have "pp_scheme proxy \<in> {''socks5'', ''socks5h''}" "truthy (pp_host proxy)"
      "truthy_int (pp_port proxy)"
    by (blast dest: validate_bound)+
  with assms v show ?thesis
    by (auto simp: build_core_account_proxy_def build_socks_proxy_url_def
          SUPPORTED_SOCKS_SCHEMES_def truthy_str_or truthy_int_def split: option.splits)
qed

lemma unbound_url_none:
  "build_core_account_proxy None proxy = Inr c \<Longrightarrow> build_socks_proxy_url (Some c) = Inr None"
  by (auto simp: build_core_account_proxy_def validate_account_network_route_def
        build_socks_proxy_url_def ProxyConfig_default_def split: if_splits)

text \<open>Characters that a quoted string can hold.\<close>

definition url_safe :: "char \<Rightarrow> bool" where
  "url_safe c \<longleftrightarrow> unreserved (of_char c) \<or> c = CHR ''%''"

lemma unreserved_less: "unreserved n \<Longrightarrow> n < 256"
  by (auto simp: unreserved_def)

lemma hex_digit_safe: "n < 16 \<Longrightarrow> url_safe (hex_digit n)"
  by (auto simp: hex_digit_def url_safe_def unreserved_def of_char_of)

lemma of_char_byte: "(of_char c :: nat) < 256"
  by (metis nat_of_char_less_256)

lemma utf8_byte: "b \<in> set (utf8 c) \<Longrightarrow> b < 256"
proof -
  have n: "(of_char c :: nat) < 256" by (rule of_char_byte)
  then have "(of_char c :: nat) div 64 < 4" by linarith
  moreover have "(of_char c :: nat) mod 64 < 64" by simp
  moreover assume "b \<in> set (utf8 c)"
  ultimately show ?thesis using n
    by (auto simp: utf8_def Let_def split: if_splits)
qed

lemma quote_byte_safe:
  assumes "n < 256" and "c \<in> set (quote_byte n)"
  shows "url_safe c"
proof (cases "unreserved n")
  case True
  with assms show ?thesis by (simp add: quote_byte_def url_safe_def of_char_of)
next
  case False
  with assms(2) have "c = CHR ''%'' \<or> c = hex_digit (n div 16) \<or> c = hex_digit (n mod 16)"
    by (auto simp: quote_byte_def)
  moreover from assms(1) have "url_safe (hex_digit (n div 16))" "url_safe (hex_digit (n mod 16))"
    by (simp_all add: hex_digit_safe)
  moreover have "url_safe (CHR ''%'')" by (simp add: url_safe_def)
  ultimately show ?thesis by blast
qed

lemma quote_safe: "c \<in> set (quote s) \<Longrightarrow> url_safe c"
  by (auto simp: quote_def intro: quote_byte_safe dest: utf8_byte)

lemma quote_delimiters: "CHR ''@'' \<notin> set (quote s)" "CHR '':'' \<notin> set (quote s)"
    "CHR ''/'' \<notin> set (quote s)"
  by (auto dest!: quote_safe simp: url_safe_def unreserved_def)

section \<open>Properties\<close>

text \<open>C29. The route fails closed. Whenever the policy accepts an account, the client's proxy
  configuration yields a URL decision without an error, and that decision is "no proxy"
  exactly for an account with no bound proxy node: a bound account is never connected
  directly.\<close>

theorem route_fails_closed:
  assumes "build_core_account_proxy proxy_id proxy = Inr c"
  shows "(\<exists>u. build_socks_proxy_url (Some c) = Inr u)
     \<and> (build_socks_proxy_url (Some c) = Inr None \<longleftrightarrow> proxy_id = None)"
proof (cases proxy_id)
  case None
  with assms show ?thesis by (simp add: unbound_url_none)
next
  case (Some pid)
  with assms have "build_core_account_proxy (Some pid) proxy = Inr c" by simp
  from bound_url_exists [OF this] Some show ?thesis by simp
qed

theorem route_fails_closed_witness:
  "\<exists>u. build_socks_proxy_url (Some \<lparr>pc_enabled = True, pc_required = True,
      pc_scheme = ''socks5'', pc_host = ''10.0.0.2'', pc_port = Some 1080,
      pc_username = None, pc_password = None\<rparr>) = Inr (Some u)"
proof -
  have "build_core_account_proxy (Some ''p1'') \<lparr>pp_enabled = True, pp_scheme = ''socks5'',
      pp_host = Some ''10.0.0.2'', pp_port = Some 1080, pp_username = None, pp_password = None\<rparr>
    = Inr \<lparr>pc_enabled = True, pc_required = True, pc_scheme = ''socks5'',
      pc_host = ''10.0.0.2'', pc_port = Some 1080, pc_username = None, pc_password = None\<rparr>"
    by (simp add: build_core_account_proxy_def validate_account_network_route_def)
  from route_fails_closed [OF this] show ?thesis by (metis option.distinct(1) option.exhaust)
qed

text \<open>Credentials cannot change where the URL points. The URL is the scheme, an
  authority part and the configured host and port; the user name and the password are
  quoted so that neither contains a character that delimits the parts of an authority.\<close>

theorem socks_url_shape:
  assumes "build_socks_proxy_url (Some c) = Inr (Some url)"
  shows "\<exists>scheme auth n. scheme \<in> SUPPORTED_SOCKS_SCHEMES \<and> pc_port c = Some n
     \<and> url = scheme @ ''://'' @ auth @ pc_host c @ '':'' @ show_int n
     \<and> (auth = [] \<or> (\<exists>user. auth = user @ ''@'' \<and> set user \<inter> set ''@/:'' = {})
         \<or> (\<exists>user pw. auth = user @ '':'' @ pw @ ''@''
              \<and> (set user \<union> set pw) \<inter> set ''@/:'' = {}))"
proof -
  have q: "set (quote s) \<inter> set ''@/:'' = {}" for s
    using quote_delimiters [of s] by auto
  let ?u = "quote (str_or (pc_username c) [])" and ?p = "quote (str_or (pc_password c) [])"
  have "proxy_auth c = [] \<or> proxy_auth c = ?u @ ''@'' \<or> proxy_auth c = ?u @ '':'' @ ?p @ ''@''"
    by (simp add: proxy_auth_def)
  then have "proxy_auth c = [] \<or> (\<exists>user. proxy_auth c = user @ ''@'' \<and> set user \<inter> set ''@/:'' = {})
      \<or> (\<exists>user pw. proxy_auth c = user @ '':'' @ pw @ ''@''
           \<and> (set user \<union> set pw) \<inter> set ''@/:'' = {})"
    using q by (metis Int_Un_distrib2 Un_empty)
  moreover from assms obtain n where "pc_port c = Some n"
      "lower (if pc_scheme c = [] then ''socks5h'' else pc_scheme c) \<in> SUPPORTED_SOCKS_SCHEMES"
      "url = lower (if pc_scheme c = [] then ''socks5h'' else pc_scheme c) @ ''://'' @ proxy_auth c
        @ pc_host c @ '':'' @ show_int n"
    by (cases "pc_port c") (auto simp: build_socks_proxy_url_def Let_def split: if_splits)
  ultimately show ?thesis by blast
qed

theorem socks_url_shape_witness:
  "\<exists>scheme auth n. scheme \<in> SUPPORTED_SOCKS_SCHEMES \<and> Some 1080 = Some n
     \<and> ''socks5h://a%40b:c%2Fd@h:1080'' = scheme @ ''://'' @ auth @ ''h'' @ '':'' @ show_int n"
proof -
  have "build_socks_proxy_url (Some \<lparr>pc_enabled = True, pc_required = True, pc_scheme = [],
      pc_host = ''h'', pc_port = Some 1080, pc_username = Some ''a@b'',
      pc_password = Some ''c/d''\<rparr>) = Inr (Some ''socks5h://a%40b:c%2Fd@h:1080'')"
    by code_simp
  from socks_url_shape [OF this] show ?thesis by auto
qed

end
