(* ===== verification/Accounts.thy ===== *)
theory Accounts
  imports Network
begin

text \<open>
  The rows of \<open>orm.py\<close> that several components of \<open>store.py\<close> read and write: accounts and
  proxy nodes, with every column. \<open>account_network_view\<close> is the part of
  \<open>AccountStore._row_to_record\<close> that decides which proxy an account is given.
\<close>

record account_row =
  ac_account_id :: string
  ac_remark :: "string option"
  ac_platform :: string
  ac_platform_user_id :: "string option"
  ac_platform_display_name :: "string option"
  ac_platform_avatar_url :: "string option"
  ac_platform_identity_source :: "string option"
  ac_platform_identity_checked_at :: "timestamp option"
  ac_sort_order :: int
  ac_cookie :: string
  ac_enabled :: bool
  ac_conversation_visible :: bool
  ac_chat_enabled :: bool
  ac_order_management_visible :: bool
  ac_product_management_visible :: bool
  ac_automation_owner_user_id :: "string option"
  ac_proxy_id :: "string option"
  ac_proxy_enabled :: bool
  ac_proxy_scheme :: string
  ac_proxy_host :: "string option"
  ac_proxy_port :: "int option"
  ac_proxy_username :: "string option"
  ac_proxy_password :: "string option"
  ac_cookie_updated_at :: "timestamp option"
  ac_cookie_update_source :: "string option"
  ac_im_token :: "string option"
  ac_im_token_expires_at :: "timestamp option"
  ac_created_at :: timestamp
  ac_updated_at :: timestamp

text \<open>The column defaults of the table, for a row created with an identifier and a time.\<close>

definition account_defaults :: "string \<Rightarrow> timestamp \<Rightarrow> account_row" where
  "account_defaults account_id now = \<lparr>
     ac_account_id = account_id, ac_remark = None, ac_platform = ''xianyu'',
     ac_platform_user_id = None, ac_platform_display_name = None, ac_platform_avatar_url = None,
     ac_platform_identity_source = None, ac_platform_identity_checked_at = None,
     ac_sort_order = 0, ac_cookie = [], ac_enabled = True, ac_conversation_visible = True,
     ac_chat_enabled = False, ac_order_management_visible = True,
     ac_product_management_visible = True, ac_automation_owner_user_id = None,
     ac_proxy_id = None, ac_proxy_enabled = False, ac_proxy_scheme = ''socks5h'',
     ac_proxy_host = None, ac_proxy_port = None, ac_proxy_username = None,
     ac_proxy_password = None, ac_cookie_updated_at = None, ac_cookie_update_source = None,
     ac_im_token = None, ac_im_token_expires_at = None,
     ac_created_at = now, ac_updated_at = now\<rparr>"

definition clear_legacy_proxy :: "account_row \<Rightarrow> account_row" where
  "clear_legacy_proxy row = row\<lparr>
     ac_proxy_enabled := False, ac_proxy_scheme := ''socks5h'', ac_proxy_host := None,
     ac_proxy_port := None, ac_proxy_username := None, ac_proxy_password := None\<rparr>"

record proxy_row =
  px_proxy_id :: string
  px_name :: string
  px_enabled :: bool
  px_scheme :: string
  px_host :: string
  px_port :: int
  px_username :: "string option"
  px_password :: "string option"
  px_last_test_ok :: "bool option"
  px_last_test_message :: "string option"
  px_last_test_latency_ms :: "int option"
  px_last_test_at :: "timestamp option"
  px_exit_ip :: "string option"
  px_exit_ipv4 :: "string option"
  px_exit_ipv6 :: "string option"
  px_exit_country :: "string option"
  px_exit_region :: "string option"
  px_exit_city :: "string option"
  px_exit_isp :: "string option"
  px_exit_ipv6_country :: "string option"
  px_exit_ipv6_continent :: "string option"
  px_exit_checked_at :: "timestamp option"
  px_last_platform_status :: "int option"
  px_created_at :: timestamp
  px_updated_at :: timestamp

text \<open>
  \<open>bound_proxy\<close> is the row the foreign key \<open>proxy_id\<close> points to; \<open>_row_to_record\<close> takes
  both the record's \<open>proxy_id\<close> and its proxy settings from it, and falls back to the
  legacy columns of the account when there is no such row.
\<close>

definition bound_proxy :: "proxy_row list \<Rightarrow> account_row \<Rightarrow> proxy_row option" where
  "bound_proxy proxies row =
     (case ac_proxy_id row of None \<Rightarrow> None | Some pid \<Rightarrow> get_row px_proxy_id proxies pid)"

definition account_network_view ::
  "proxy_row list \<Rightarrow> account_row \<Rightarrow> string option \<times> proxy_payload" where
  "account_network_view proxies row =
     (case bound_proxy proxies row of
        Some p \<Rightarrow>
          (Some (px_proxy_id p),
           \<lparr>pp_enabled = px_enabled p,
            pp_scheme = (if px_scheme p = [] then ''socks5h'' else px_scheme p),
            pp_host = Some (px_host p), pp_port = Some (px_port p),
            pp_username = px_username p, pp_password = px_password p\<rparr>)
      | None \<Rightarrow>
          (None,
           \<lparr>pp_enabled = ac_proxy_enabled row,
            pp_scheme = (if ac_proxy_scheme row = [] then ''socks5h'' else ac_proxy_scheme row),
            pp_host = Some (str_or (ac_proxy_host row) []), pp_port = ac_proxy_port row,
            pp_username = ac_proxy_username row, pp_password = ac_proxy_password row\<rparr>))"

text \<open>The columns every operation that replaces an account's cookie writes.\<close>

definition store_cookie :: "timestamp \<Rightarrow> string \<Rightarrow> string \<Rightarrow> account_row \<Rightarrow> account_row" where
  "store_cookie now cookie source a = a\<lparr>ac_cookie := cookie, ac_cookie_updated_at := Some now,
     ac_cookie_update_source := Some source, ac_updated_at := now\<rparr>"

interpretation stored: row_update ac_account_id "store_cookie now cookie source" for now cookie source
  by unfold_locales (simp add: store_cookie_def)

end
