(* ===== verification/ProxyPool.thy ===== *)
theory ProxyPool
  imports Accounts
begin

text \<open>
  The pool of proxy nodes and their exclusive assignment to accounts: the proxy operations
  of \<open>store.py\<close> (\<open>_create_proxy_sync\<close> to \<open>_record_proxy_test_sync\<close>), the assignment guard
  \<open>_require_assignable_proxy\<close> with the unique index behind it, and the compare-and-set of
  an account's cookie, which can rebind the proxy. Each operation is one transaction: it
  returns the new database or the error it raised, in which case nothing is committed.
\<close>

section \<open>State and operations\<close>

record pool_db =
  proxies :: "proxy_row list"
  accounts :: "account_row list"

datatype pool_error =
    ProxyNameExists
  | AssignedCannotBeDisabled
  | FieldCannotBeNull string
  | ProxyIsAssigned
  | ProxyNotFound
  | ProxyIsDisabled
  | ProxyAssignmentConflict "string option" string
  | CommitIntegrityError

record proxy_create =
  pn_name :: string
  pn_enabled :: bool
  pn_scheme :: string
  pn_host :: string
  pn_port :: int
  pn_username :: "string option"
  pn_password :: "string option"

definition create_proxy ::
  "string \<Rightarrow> timestamp \<Rightarrow> proxy_create \<Rightarrow> pool_db \<Rightarrow> pool_error + (pool_db \<times> proxy_row)" where
  "create_proxy fresh_id now payload db =
     (if get_row px_name (proxies db) (pn_name payload) \<noteq> None then Inl ProxyNameExists
      else let row = \<lparr>px_proxy_id = fresh_id, px_name = pn_name payload,
             px_enabled = pn_enabled payload, px_scheme = pn_scheme payload,
             px_host = pn_host payload, px_port = pn_port payload,
             px_username = pn_username payload, px_password = pn_password payload,
             px_last_test_ok = None, px_last_test_message = None,
             px_last_test_latency_ms = None, px_last_test_at = None, px_exit_ip = None,
             px_exit_ipv4 = None, px_exit_ipv6 = None, px_exit_country = None,
             px_exit_region = None, px_exit_city = None, px_exit_isp = None,
             px_exit_ipv6_country = None, px_exit_ipv6_continent = None,
             px_exit_checked_at = None, px_last_platform_status = None,
             px_created_at = now, px_updated_at = now\<rparr>
           in Inr (db\<lparr>proxies := proxies db @ [row]\<rparr>, row))"

text \<open>
  A field of \<open>ProxyUpdatePayload\<close>: \<^const>\<open>None\<close> when it is not in \<open>model_fields_set\<close>,
  \<open>Some None\<close> when it was sent as null. For \<open>name\<close> the code does not tell the two apart.
\<close>

record proxy_update =
  pu_name :: "string option"
  pu_enabled :: "bool option option"
  pu_scheme :: "string option option"
  pu_host :: "string option option"
  pu_port :: "int option option"
  pu_username :: "string option option"
  pu_password :: "string option option"

definition connection_signature ::
  "proxy_row \<Rightarrow> string \<times> string \<times> int \<times> string option \<times> string option" where
  "connection_signature row =
     (px_scheme row, px_host row, px_port row, px_username row, px_password row)"

definition null_field :: "proxy_update \<Rightarrow> string option" where
  "null_field payload =
     (if pu_enabled payload = Some None then Some ''enabled''
      else if pu_scheme payload = Some None then Some ''scheme''
      else if pu_host payload = Some None then Some ''host''
      else if pu_port payload = Some None then Some ''port''
      else None)"

definition assign_fields :: "proxy_update \<Rightarrow> proxy_row \<Rightarrow> proxy_row" where
  "assign_fields payload row = row\<lparr>
     px_name := (case pu_name payload of Some v \<Rightarrow> v | None \<Rightarrow> px_name row),
     px_enabled := (case pu_enabled payload of Some (Some v) \<Rightarrow> v | _ \<Rightarrow> px_enabled row),
     px_scheme := (case pu_scheme payload of Some (Some v) \<Rightarrow> v | _ \<Rightarrow> px_scheme row),
     px_host := (case pu_host payload of Some (Some v) \<Rightarrow> v | _ \<Rightarrow> px_host row),
     px_port := (case pu_port payload of Some (Some v) \<Rightarrow> v | _ \<Rightarrow> px_port row),
     px_username := (case pu_username payload of Some v \<Rightarrow> v | None \<Rightarrow> px_username row),
     px_password := (case pu_password payload of Some v \<Rightarrow> v | None \<Rightarrow> px_password row)\<rparr>"

definition updated_proxy :: "timestamp \<Rightarrow> proxy_update \<Rightarrow> proxy_row \<Rightarrow> proxy_row" where
  "updated_proxy now payload row =
     (let new = assign_fields payload row;
          tested = (if connection_signature new \<noteq> connection_signature row
            then new\<lparr>px_last_test_ok := None, px_last_test_message := None,
                     px_last_test_latency_ms := None, px_last_test_at := None,
                     px_last_platform_status := None\<rparr>
            else new)
      in tested\<lparr>px_updated_at := now\<rparr>)"

definition assigned_to_any :: "pool_db \<Rightarrow> string \<Rightarrow> bool" where
  "assigned_to_any db pid \<longleftrightarrow> list_ex (\<lambda>a. ac_proxy_id a = Some pid) (accounts db)"

definition update_proxy ::
  "timestamp \<Rightarrow> string \<Rightarrow> proxy_update \<Rightarrow> pool_db \<Rightarrow> pool_error + (pool_db \<times> proxy_row option)" where
  "update_proxy now pid payload db =
     (case get_row px_proxy_id (proxies db) pid of
        None \<Rightarrow> Inr (db, None)
      | Some row \<Rightarrow>
          if pu_enabled payload = Some (Some False) \<and> assigned_to_any db pid
          then Inl AssignedCannotBeDisabled
          else if (case pu_name payload of None \<Rightarrow> False
                   | Some n \<Rightarrow> list_ex (\<lambda>p. px_name p = n \<and> px_proxy_id p \<noteq> pid) (proxies db))
          then Inl ProxyNameExists
          else (case null_field payload of
                  Some f \<Rightarrow> Inl (FieldCannotBeNull f)
                | None \<Rightarrow>
                    Inr (db\<lparr>proxies := set_row px_proxy_id (proxies db) pid
                              (updated_proxy now payload)\<rparr>,
                         Some (updated_proxy now payload row))))"

definition delete_proxy :: "string \<Rightarrow> pool_db \<Rightarrow> pool_error + (pool_db \<times> bool)" where
  "delete_proxy pid db =
     (case get_row px_proxy_id (proxies db) pid of
        None \<Rightarrow> Inr (db, False)
      | Some _ \<Rightarrow>
          if assigned_to_any db pid then Inl ProxyIsAssigned
          else Inr (db\<lparr>proxies := filter (\<lambda>p. px_proxy_id p \<noteq> pid) (proxies db)\<rparr>, True))"

record proxy_test =
  pt_ok :: bool
  pt_message :: string
  pt_latency_ms :: "int option"
  pt_exit_ip :: "string option"
  pt_exit_ipv4 :: "string option"
  pt_exit_ipv6 :: "string option"
  pt_exit_country :: "string option"
  pt_exit_region :: "string option"
  pt_exit_city :: "string option"
  pt_exit_isp :: "string option"
  pt_exit_ipv6_country :: "string option"
  pt_exit_ipv6_continent :: "string option"
  pt_platform_status :: "int option"

definition tested_proxy :: "timestamp \<Rightarrow> proxy_test \<Rightarrow> proxy_row \<Rightarrow> proxy_row" where
  "tested_proxy now t row =
     (let row1 = row\<lparr>px_last_test_ok := Some (pt_ok t), px_last_test_message := Some (pt_message t),
            px_last_test_latency_ms := pt_latency_ms t, px_last_test_at := Some now,
            px_last_platform_status := pt_platform_status t\<rparr>;
          row2 = (if pt_ok t \<and> truthy (pt_exit_ip t)
            then row1\<lparr>px_exit_ip := pt_exit_ip t, px_exit_ipv4 := pt_exit_ipv4 t,
                   px_exit_ipv6 := pt_exit_ipv6 t, px_exit_country := pt_exit_country t,
                   px_exit_region := pt_exit_region t, px_exit_city := pt_exit_city t,
                   px_exit_isp := pt_exit_isp t, px_exit_ipv6_country := pt_exit_ipv6_country t,
                   px_exit_ipv6_continent := pt_exit_ipv6_continent t,
                   px_exit_checked_at := Some now\<rparr>
            else row1)
      in row2\<lparr>px_updated_at := now\<rparr>)"

definition record_proxy_test ::
  "timestamp \<Rightarrow> string \<Rightarrow> proxy_test
   \<Rightarrow> (string \<times> string \<times> int \<times> string option \<times> string option) option
   \<Rightarrow> pool_db \<Rightarrow> pool_db \<times> proxy_row option" where
  "record_proxy_test now pid t expected_connection db =
     (case get_row px_proxy_id (proxies db) pid of
        None \<Rightarrow> (db, None)
      | Some row \<Rightarrow>
          if expected_connection \<noteq> None \<and> expected_connection \<noteq> Some (connection_signature row)
          then (db, Some row)
          else (db\<lparr>proxies := set_row px_proxy_id (proxies db) pid (tested_proxy now t)\<rparr>,
                Some (tested_proxy now t row)))"

section \<open>Assignment of a proxy to an account\<close>

text \<open>The oldest other account bound to the proxy (\<open>ORDER BY created_at LIMIT 1\<close>).\<close>

definition proxy_assignment_owner ::
  "pool_db \<Rightarrow> string \<Rightarrow> string option \<Rightarrow> account_row option" where
  "proxy_assignment_owner db pid account_id =
     first_by ac_created_at (filter (\<lambda>a. ac_proxy_id a = Some pid
        \<and> (case account_id of None \<Rightarrow> True | Some i \<Rightarrow> ac_account_id a \<noteq> i)) (accounts db))"

definition require_assignable_proxy ::
  "pool_db \<Rightarrow> string \<Rightarrow> string option \<Rightarrow> pool_error + proxy_row" where
  "require_assignable_proxy db pid account_id =
     (case get_row px_proxy_id (proxies db) pid of
        None \<Rightarrow> Inl ProxyNotFound
      | Some proxy \<Rightarrow>
          if \<not> px_enabled proxy then Inl ProxyIsDisabled
          else (case proxy_assignment_owner db pid account_id of
                  Some owner \<Rightarrow>
                    Inl (ProxyAssignmentConflict (Some (px_name proxy)) (ac_account_id owner))
                | None \<Rightarrow> Inr proxy))"

text \<open>
  The commit of a change to \<open>xianyu_accounts\<close>: the unique index on \<open>proxy_id\<close> rejects a
  table in which two accounts hold the same proxy; the handler turns that into a conflict
  when it finds the other owner.
\<close>

definition proxy_ids :: "account_row list \<Rightarrow> string list" where
  "proxy_ids as = concat (map (\<lambda>a. case ac_proxy_id a of None \<Rightarrow> [] | Some p \<Rightarrow> [p]) as)"

definition commit_account_proxy_change ::
  "pool_db \<Rightarrow> string option \<Rightarrow> string \<Rightarrow> pool_db \<Rightarrow> pool_error + pool_db" where
  "commit_account_proxy_change old proxy_id account_id new =
     (if distinct (proxy_ids (accounts new)) then Inr new
      else case proxy_id of
             None \<Rightarrow> Inl CommitIntegrityError
           | Some pid \<Rightarrow>
               (case proxy_assignment_owner old pid (Some account_id) of
                  None \<Rightarrow> Inl CommitIntegrityError
                | Some owner \<Rightarrow>
                    Inl (ProxyAssignmentConflict
                      (map_option px_name (get_row px_proxy_id (proxies old) pid))
                      (ac_account_id owner))))"

definition bind_proxy :: "string \<Rightarrow> account_row \<Rightarrow> account_row" where
  "bind_proxy pid a = clear_legacy_proxy (a\<lparr>ac_proxy_id := Some pid\<rparr>)"

text \<open>
  \<open>_compare_and_set_account_cookie_sync\<close>. After the rebinding the condition
  \<open>proxy_id in {None, account.proxy_id}\<close> always holds, and the session is dirty exactly when
  the proxy was rebound.
\<close>

definition compare_and_set_account_cookie ::
  "timestamp \<Rightarrow> string \<Rightarrow> string \<Rightarrow> string \<Rightarrow> string \<Rightarrow> string option
   \<Rightarrow> pool_db \<Rightarrow> pool_error + (pool_db \<times> bool)" where
  "compare_and_set_account_cookie now account_id expected_cookie new_cookie source proxy_id db =
     (case get_row ac_account_id (accounts db) account_id of
        None \<Rightarrow> Inr (db, False)
      | Some account \<Rightarrow>
          if ac_cookie account \<noteq> expected_cookie then Inr (db, False)
          else let rebind = proxy_id \<noteq> None \<and> proxy_id \<noteq> ac_proxy_id account in
            (case (if rebind then map_sum id (\<lambda>_. ())
                    (require_assignable_proxy db (the proxy_id) (Some account_id)) else Inr ()) of
              Inl e \<Rightarrow> Inl e
            | Inr _ \<Rightarrow>
                if expected_cookie = new_cookie \<and> \<not> rebind then Inr (db, True)
                else let f = (\<lambda>a. store_cookie now new_cookie source
                               (if rebind then bind_proxy (the proxy_id) a else a));
                         new = db\<lparr>accounts := set_row ac_account_id (accounts db) account_id f\<rparr>
                     in map_sum id (\<lambda>d. (d, True))
                          (commit_account_proxy_change db (ac_proxy_id (f account)) account_id new)))"

text \<open>The deletion of an account, on the tables of the pool.\<close>

definition delete_account :: "string \<Rightarrow> pool_db \<Rightarrow> pool_db \<times> bool" where
  "delete_account account_id db =
     (case get_row ac_account_id (accounts db) account_id of
        None \<Rightarrow> (db, False)
      | Some _ \<Rightarrow>
          (db\<lparr>accounts := filter (\<lambda>a. ac_account_id a \<noteq> account_id) (accounts db)\<rparr>, True))"

section \<open>The invariant of the pool\<close>

text \<open>
  The unique keys of the two tables, the unique index on the binding, the foreign key, and
  what the schemas guarantee of a stored node: every account that is bound is bound to an
  existing, enabled node with a SOCKS scheme, a host and a port.
\<close>

definition node_ok :: "proxy_row \<Rightarrow> bool" where
  "node_ok p \<longleftrightarrow> (px_scheme p = ''socks5'' \<or> px_scheme p = ''socks5h'') \<and> px_host p \<noteq> [] \<and> px_port p \<noteq> 0"

definition binding_ok :: "proxy_row list \<Rightarrow> account_row \<Rightarrow> bool" where
  "binding_ok ps a \<longleftrightarrow>
     (case ac_proxy_id a of
        None \<Rightarrow> True
      | Some pid \<Rightarrow> (case get_row px_proxy_id ps pid of None \<Rightarrow> False | Some p \<Rightarrow> px_enabled p))"

definition pool_ok :: "pool_db \<Rightarrow> bool" where
  "pool_ok db \<longleftrightarrow>
     keys_distinct px_proxy_id (proxies db) \<and> keys_distinct px_name (proxies db)
     \<and> keys_distinct ac_account_id (accounts db) \<and> distinct (proxy_ids (accounts db))
     \<and> list_all node_ok (proxies db) \<and> list_all (binding_ok (proxies db)) (accounts db)"

text \<open>What \<open>ProxyCreatePayload\<close> and \<open>ProxyUpdatePayload\<close> validate before the store is called.\<close>

definition create_valid :: "proxy_create \<Rightarrow> bool" where
  "create_valid c \<longleftrightarrow> (pn_scheme c = ''socks5'' \<or> pn_scheme c = ''socks5h'') \<and> pn_host c \<noteq> []
     \<and> 1 \<le> pn_port c \<and> pn_port c \<le> 65535"

definition update_valid :: "proxy_update \<Rightarrow> bool" where
  "update_valid u \<longleftrightarrow>
     (case pu_scheme u of Some (Some v) \<Rightarrow> v = ''socks5'' \<or> v = ''socks5h'' | _ \<Rightarrow> True)
     \<and> (case pu_host u of Some (Some v) \<Rightarrow> v \<noteq> [] | _ \<Rightarrow> True)
     \<and> (case pu_port u of Some (Some n) \<Rightarrow> 1 \<le> n \<and> n \<le> 65535 | _ \<Rightarrow> True)"

inductive pool_step :: "pool_db \<Rightarrow> pool_db \<Rightarrow> bool" where
  create: "create_valid c \<Longrightarrow> get_row px_proxy_id (proxies db) fresh = None \<Longrightarrow>
     create_proxy fresh now c db = Inr (db', row) \<Longrightarrow> pool_step db db'"
| update: "update_valid u \<Longrightarrow> update_proxy now pid u db = Inr (db', r) \<Longrightarrow> pool_step db db'"
| delete: "delete_proxy pid db = Inr (db', ok) \<Longrightarrow> pool_step db db'"
| test: "record_proxy_test now pid t expected db = (db', r) \<Longrightarrow> pool_step db db'"
| cookie: "compare_and_set_account_cookie now aid old new source proxy_id db = Inr (db', ok) \<Longrightarrow>
     pool_step db db'"
| remove: "delete_account aid db = (db', ok) \<Longrightarrow> pool_step db db'"

section \<open>Every operation keeps the invariant\<close>

interpretation updated: row_update px_proxy_id "updated_proxy now payload" for now payload
  by unfold_locales (simp add: updated_proxy_def assign_fields_def Let_def)

interpretation tested: row_update px_proxy_id "tested_proxy now t" for now t
  by unfold_locales (simp add: tested_proxy_def Let_def)

interpretation tested_name: row_update px_name "tested_proxy now t" for now t
  by unfold_locales (simp add: tested_proxy_def Let_def)

interpretation rebound: row_update ac_account_id
    "\<lambda>a. store_cookie now cookie source (if b then bind_proxy pid a else a)"
    for now cookie source b pid
  by unfold_locales (simp add: store_cookie_def bind_proxy_def clear_legacy_proxy_def)

lemma pool_okD:
  assumes "pool_ok db"
  shows "keys_distinct px_proxy_id (proxies db)" "keys_distinct px_name (proxies db)"
    "keys_distinct ac_account_id (accounts db)" "distinct (proxy_ids (accounts db))"
    "list_all node_ok (proxies db)" "list_all (binding_ok (proxies db)) (accounts db)"
  using assms by (simp_all add: pool_ok_def)

lemma binding_ok_mono:
  assumes "\<And>pid p. ac_proxy_id a = Some pid \<Longrightarrow> get_row px_proxy_id ps pid = Some p \<Longrightarrow> px_enabled p \<Longrightarrow>
      \<exists>q. get_row px_proxy_id qs pid = Some q \<and> px_enabled q"
  shows "binding_ok ps a \<Longrightarrow> binding_ok qs a"
  using assms by (fastforce simp: binding_ok_def split: option.splits)

lemma create_proxy_ok:
  assumes "pool_ok db" "create_valid c" "get_row px_proxy_id (proxies db) fresh = None"
    and c: "create_proxy fresh now c db = Inr (db', row)"
  shows "pool_ok db'"
proof -
  from c have n: "get_row px_name (proxies db) (pn_name c) = None"
    and db': "db' = db\<lparr>proxies := proxies db @ [row]\<rparr>"
    and row: "px_proxy_id row = fresh" "px_name row = pn_name c" "px_scheme row = pn_scheme c"
      "px_host row = pn_host c" "px_port row = pn_port c"
    by (auto simp: create_proxy_def Let_def split: if_splits)
  have "list_all (binding_ok (proxies db @ [row])) (accounts db)"
    using pool_okD(6) [OF assms(1)]
    by (auto simp: list_all_iff get_row_append split: option.split intro: binding_ok_mono [rotated])
  moreover have "node_ok row" using assms(2) row by (auto simp: node_ok_def create_valid_def)
  ultimately show ?thesis
    using pool_okD [OF assms(1)] assms(3) n row
    by (simp add: db' pool_ok_def keys_distinct_append1)
qed

lemma updated_proxy_fields:
  "px_enabled (updated_proxy now u p) =
     (case pu_enabled u of Some (Some v) \<Rightarrow> v | _ \<Rightarrow> px_enabled p)"
  "px_scheme (updated_proxy now u p) = (case pu_scheme u of Some (Some v) \<Rightarrow> v | _ \<Rightarrow> px_scheme p)"
  "px_host (updated_proxy now u p) = (case pu_host u of Some (Some v) \<Rightarrow> v | _ \<Rightarrow> px_host p)"
  "px_port (updated_proxy now u p) = (case pu_port u of Some (Some v) \<Rightarrow> v | _ \<Rightarrow> px_port p)"
  "px_name (updated_proxy now u p) = (case pu_name u of Some v \<Rightarrow> v | None \<Rightarrow> px_name p)"
  by (simp_all add: updated_proxy_def assign_fields_def Let_def)

lemma updated_proxy_node_ok: "node_ok p \<Longrightarrow> update_valid u \<Longrightarrow> node_ok (updated_proxy now u p)"
  unfolding node_ok_def update_valid_def updated_proxy_fields
  by (intro conjI) (auto split: option.splits)

text \<open>Renaming one row to a name no other row has keeps the names distinct.\<close>

lemma rename_distinct:
  assumes "keys_distinct px_proxy_id ps" "keys_distinct px_name ps"
    and "\<And>p. p \<in> set ps \<Longrightarrow> px_proxy_id p = pid \<Longrightarrow> px_name (f p) = px_name p \<or>
       (\<forall>q\<in>set ps. px_proxy_id q \<noteq> pid \<longrightarrow> px_name q \<noteq> px_name (f p))"
  shows "keys_distinct px_name (set_row px_proxy_id ps pid f)"
  using assms
proof (induction ps)
  case Nil
  then show ?case by (simp add: set_row_def keys_distinct_def)
next
  case (Cons p ps)
  let ?u = "set_row px_proxy_id ps pid f"
  have rest: "keys_distinct px_name ?u"
    by (rule Cons.IH) (use Cons.prems in \<open>simp_all, fastforce\<close>)
  have fresh: "px_name (if px_proxy_id p = pid then f p else p) \<notin> px_name ` set ?u"
  proof (cases "px_proxy_id p = pid")
    case True
    with Cons.prems(1) have "?u = ps"
      unfolding set_row_def by (intro map_idI) (auto simp: image_iff)
    with True Cons.prems show ?thesis by (fastforce simp: image_iff)
  next
    case False
    have "px_name p \<noteq> px_name (if px_proxy_id q = pid then f q else q)" if "q \<in> set ps" for q
      using Cons.prems(2) Cons.prems(3) [of q] that False by (auto simp: image_iff)
    then have "px_name p \<notin> px_name ` set ?u"
      unfolding set_row_def by (metis (no_types, lifting) image_iff list.set_map)
    with False show ?thesis by simp
  qed
  from rest fresh show ?case by (simp add: set_row_def)
qed

lemma bound_assigned:
  "a \<in> set (accounts db) \<Longrightarrow> ac_proxy_id a = Some pid \<Longrightarrow> assigned_to_any db pid"
  by (auto simp: assigned_to_any_def list_ex_iff)

lemma update_proxy_ok:
  assumes ok: "pool_ok db" and v: "update_valid u" and c: "update_proxy now pid u db = Inr (db', r)"
  shows "pool_ok db'"
proof (cases "get_row px_proxy_id (proxies db) pid")
  case None
  with c ok show ?thesis by (simp add: update_proxy_def)
next
  case (Some row)
  let ?f = "updated_proxy now u" and ?ps = "proxies db"
  let ?qs = "set_row px_proxy_id ?ps pid ?f"
  from c Some have en: "\<not> (pu_enabled u = Some (Some False) \<and> assigned_to_any db pid)"
    and nm: "\<And>n. pu_name u = Some n \<Longrightarrow> \<not> list_ex (\<lambda>p. px_name p = n \<and> px_proxy_id p \<noteq> pid) ?ps"
    and db': "db' = db\<lparr>proxies := ?qs\<rparr>"
    by (auto simp: update_proxy_def split: if_splits option.splits)
  have "keys_distinct px_name ?qs"
  proof (rule rename_distinct)
    show "px_name (?f p) = px_name p \<or>
        (\<forall>q\<in>set ?ps. px_proxy_id q \<noteq> pid \<longrightarrow> px_name q \<noteq> px_name (?f p))" for p
      using nm by (auto simp: updated_proxy_fields list_ex_iff split: option.splits)
  qed (use pool_okD [OF ok] in simp_all)
  moreover have "list_all node_ok ?qs"
    using pool_okD(5) [OF ok] v by (auto intro: list_all_set_row updated_proxy_node_ok)
  moreover have "list_all (binding_ok ?qs) (accounts db)"
    unfolding list_all_iff
  proof
    fix a assume a: "a \<in> set (accounts db)"
    with pool_okD(6) [OF ok] have "binding_ok ?ps a" by (simp add: list_all_iff)
    then show "binding_ok ?qs a"
    proof (rule binding_ok_mono [rotated])
      fix i p assume i: "ac_proxy_id a = Some i" and g: "get_row px_proxy_id ?ps i = Some p" "px_enabled p"
      show "\<exists>q. get_row px_proxy_id ?qs i = Some q \<and> px_enabled q"
      proof (cases "i = pid")
        case True
        with a i have "assigned_to_any db pid" by (blast intro: bound_assigned)
        with en have "pu_enabled u \<noteq> Some (Some False)" by blast
        then have "px_enabled (?f p)"
          using g by (auto simp: updated_proxy_fields split: option.splits)
        with True g show ?thesis by (simp add: updated.get_set_row_same)
      next
        case False
        with g show ?thesis by (simp add: updated.get_set_row_other)
      qed
    qed
  qed
  ultimately show ?thesis
    using pool_okD [OF ok] by (simp add: db' pool_ok_def updated.distinct_set_row)
qed

lemma keys_distinct_filter: "keys_distinct key t \<Longrightarrow> keys_distinct key (filter P t)"
  by (simp add: keys_distinct_def distinct_map_filter)

lemma get_row_filter_other:
  "(\<And>r. key r = k \<Longrightarrow> P r) \<Longrightarrow> get_row key (filter P t) k = get_row key t k"
  by (induction t) auto

lemma delete_proxy_ok:
  assumes ok: "pool_ok db" and c: "delete_proxy pid db = Inr (db', b)"
  shows "pool_ok db'"
proof (cases "get_row px_proxy_id (proxies db) pid")
  case None
  with c ok show ?thesis by (simp add: delete_proxy_def)
next
  case (Some row)
  let ?qs = "filter (\<lambda>p. px_proxy_id p \<noteq> pid) (proxies db)"
  from c Some have na: "\<not> assigned_to_any db pid" and db': "db' = db\<lparr>proxies := ?qs\<rparr>"
    by (auto simp: delete_proxy_def split: if_splits)
  have "list_all (binding_ok ?qs) (accounts db)"
    unfolding list_all_iff
  proof
    fix a assume a: "a \<in> set (accounts db)"
    with pool_okD(6) [OF ok] have "binding_ok (proxies db) a" by (simp add: list_all_iff)
    moreover from a na have "ac_proxy_id a \<noteq> Some pid" by (blast intro: bound_assigned)
    ultimately show "binding_ok ?qs a"
      by (auto simp: get_row_filter_other intro: binding_ok_mono [rotated])
  qed
  moreover have "list_all node_ok ?qs" using pool_okD(5) [OF ok] by (simp add: list_all_iff)
  ultimately show ?thesis
    using pool_okD [OF ok] by (simp add: db' pool_ok_def keys_distinct_filter)
qed

lemma tested_proxy_fields:
  "px_enabled (tested_proxy now t p) = px_enabled p"
  "node_ok (tested_proxy now t p) = node_ok p"
  by (simp_all add: tested_proxy_def node_ok_def Let_def)

lemma record_proxy_test_ok:
  assumes ok: "pool_ok db" and c: "record_proxy_test now pid t ex db = (db', r)"
  shows "pool_ok db'"
proof (cases "db' = db")
  case False
  let ?qs = "set_row px_proxy_id (proxies db) pid (tested_proxy now t)"
  from c False have db': "db' = db\<lparr>proxies := ?qs\<rparr>"
    by (auto simp: record_proxy_test_def split: option.splits if_splits)
  have "\<exists>q. get_row px_proxy_id ?qs i = Some q \<and> px_enabled q"
    if "get_row px_proxy_id (proxies db) i = Some p" "px_enabled p" for i p
    using that by (cases "i = pid")
      (simp_all add: tested.get_set_row_same tested.get_set_row_other tested_proxy_fields)
  then have "list_all (binding_ok ?qs) (accounts db)"
    using pool_okD(6) [OF ok] by (auto simp: list_all_iff intro: binding_ok_mono [rotated])
  moreover have "list_all node_ok ?qs"
    using pool_okD(5) [OF ok] by (auto intro: list_all_set_row simp: tested_proxy_fields)
  ultimately show ?thesis
    using pool_okD [OF ok]
    by (simp add: db' pool_ok_def tested.distinct_kept tested_name.distinct_kept set_row_update_where)
qed (use ok in simp)

lemma delete_account_ok:
  assumes ok: "pool_ok db" and c: "delete_account aid db = (db', b)"
  shows "pool_ok db'"
proof (cases "db' = db")
  case False
  let ?as = "filter (\<lambda>a. ac_account_id a \<noteq> aid) (accounts db)"
  from c False have db': "db' = db\<lparr>accounts := ?as\<rparr>"
    by (auto simp: delete_account_def split: option.splits)
  have "distinct (proxy_ids (filter P as))" if "distinct (proxy_ids as)" for P as
    using that by (induction as) (auto simp: proxy_ids_def split: option.splits)
  with pool_okD [OF ok] show ?thesis
    by (simp add: db' pool_ok_def keys_distinct_filter list_all_iff)
qed (use ok in simp)

lemma require_assignable_enabled:
  "require_assignable_proxy db pid aid = Inr p \<Longrightarrow>
     get_row px_proxy_id (proxies db) pid = Some p \<and> px_enabled p"
  by (auto simp: require_assignable_proxy_def split: option.splits if_splits)

lemma commit_ok:
  "commit_account_proxy_change old pid aid new = Inr db' \<Longrightarrow>
     db' = new \<and> distinct (proxy_ids (accounts new))"
  by (auto simp: commit_account_proxy_change_def split: if_splits option.splits)

lemma map_sum_id_Inr: "map_sum id f x = Inr y \<Longrightarrow> \<exists>z. x = Inr z \<and> y = f z"
  by (cases x) auto

text \<open>What a successful compare-and-set that writes has done.\<close>

lemma compare_and_setE:
  assumes "compare_and_set_account_cookie now aid old new source proxy_id db = Inr (db', ok)"
  obtains "db' = db" "ok \<longrightarrow> old = new"
  | account rebind where "get_row ac_account_id (accounts db) aid = Some account"
      "ac_cookie account = old" "rebind = (proxy_id \<noteq> None \<and> proxy_id \<noteq> ac_proxy_id account)"
      "db' = db\<lparr>accounts := set_row ac_account_id (accounts db) aid
        (\<lambda>a. store_cookie now new source (if rebind then bind_proxy (the proxy_id) a else a))\<rparr>"
      "distinct (proxy_ids (accounts db'))"
      "rebind \<longrightarrow> (\<exists>p. get_row px_proxy_id (proxies db) (the proxy_id) = Some p \<and> px_enabled p)" "ok"
proof (cases "get_row ac_account_id (accounts db) aid")
  case None
  with assms that(1) show ?thesis by (simp add: compare_and_set_account_cookie_def)
next
  case (Some account)
  let ?rebind = "proxy_id \<noteq> None \<and> proxy_id \<noteq> ac_proxy_id account"
  show ?thesis
  proof (cases "ac_cookie account = old \<and> (old \<noteq> new \<or> ?rebind)")
    case False
    with assms Some that(1) show ?thesis
      by (auto simp: compare_and_set_account_cookie_def Let_def split: if_splits sum.splits)
  next
    case True
    let ?f = "\<lambda>a. store_cookie now new source (if ?rebind then bind_proxy (the proxy_id) a else a)"
    let ?new = "db\<lparr>accounts := set_row ac_account_id (accounts db) aid ?f\<rparr>"
    from assms Some True have c: "map_sum id (\<lambda>d. (d, True))
        (commit_account_proxy_change db (ac_proxy_id (?f account)) aid ?new) = Inr (db', ok)"
      and r: "?rebind \<Longrightarrow> \<exists>p. require_assignable_proxy db (the proxy_id) (Some aid) = Inr p"
      by (auto simp: compare_and_set_account_cookie_def Let_def split: if_splits sum.splits
               dest!: map_sum_id_Inr)
    from map_sum_id_Inr [OF c] have "db' = ?new" "ok" "distinct (proxy_ids (accounts ?new))"
      by (auto dest: commit_ok)
    with True Some r show ?thesis
      by (intro that(2) [OF Some]) (auto dest: require_assignable_enabled)
  qed
qed

lemma compare_and_set_ok:
  assumes ok: "pool_ok db"
    and c: "compare_and_set_account_cookie now aid old new source proxy_id db = Inr (db', b)"
  shows "pool_ok db'"
  using c
proof (cases rule: compare_and_setE)
  case 1
  with ok show ?thesis by simp
next
  case (2 account rebind)
  have "list_all (binding_ok (proxies db)) (accounts db')"
    unfolding \<open>db' = _\<close> using pool_okD(6) [OF ok] 2(6)
    by (auto intro!: list_all_set_row
         simp: binding_ok_def store_cookie_def bind_proxy_def clear_legacy_proxy_def)
  moreover have "keys_distinct ac_account_id (accounts db')"
    using pool_okD(3) [OF ok] by (simp add: \<open>db' = _\<close> rebound.distinct_set_row)
  moreover have "proxies db' = proxies db" by (simp add: \<open>db' = _\<close>)
  ultimately show ?thesis using pool_okD [OF ok] 2(5) by (simp add: pool_ok_def)
qed

interpretation pool: invariant_system pool_ok pool_step pool_ok
proof
  show "pool_ok t" if "pool_step s t" "pool_ok s" for s t
    using that
    by (induction rule: pool_step.induct)
       (blast intro: create_proxy_ok update_proxy_ok delete_proxy_ok record_proxy_test_ok
                     compare_and_set_ok delete_account_ok)+
qed

section \<open>Properties\<close>

lemma proxy_ids_unique:
  "distinct (proxy_ids as) \<Longrightarrow> a \<in> set as \<Longrightarrow> b \<in> set as \<Longrightarrow>
   ac_proxy_id a = Some pid \<Longrightarrow> ac_proxy_id b = Some pid \<Longrightarrow> a = b"
proof (induction as)
  case (Cons c as)
  have mem: "pid \<in> set (proxy_ids as)" if "d \<in> set as" "ac_proxy_id d = Some pid" for d
    using that by (force simp: proxy_ids_def)
  from Cons.prems Cons.IH mem show ?case
    by (auto simp: proxy_ids_def split: option.splits)
qed simp

lemma bound_view:
  assumes "pool_ok db" "a \<in> set (accounts db)" "ac_proxy_id a = Some pid"
  shows "\<exists>p. get_row px_proxy_id (proxies db) pid = Some p \<and> px_enabled p \<and> node_ok p"
proof -
  from assms pool_okD(6) [OF assms(1)] obtain p
    where p: "get_row px_proxy_id (proxies db) pid = Some p" "px_enabled p"
    by (auto simp: list_all_iff binding_ok_def split: option.splits)
  then have "node_ok p"
    using pool_okD(5) [OF assms(1)] by (auto simp: list_all_iff dest: get_row_SomeD)
  with p show ?thesis by blast
qed

text \<open>In every state the store operations can reach from a well-formed database, an account
  that is bound to a proxy node is routed through that node (the policy accepts it with
  the SOCKS route, it is never refused and never direct), and no other account shares the
  node.\<close>

theorem bound_account_has_own_route:
  assumes "pool_ok db0" and "pool_step\<^sup>*\<^sup>* db0 db"
    and "a \<in> set (accounts db)" and "ac_proxy_id a = Some pid"
  shows "fst (account_network_view (proxies db) a) = Some pid
     \<and> validate_account_network_route (fst (account_network_view (proxies db) a))
           (snd (account_network_view (proxies db) a)) = Inr Socks5
     \<and> (\<forall>b\<in>set (accounts db). ac_proxy_id b = Some pid \<longrightarrow> b = a)"
proof -
  from assms(1,2) have ok: "pool_ok db" by (rule pool.reachable_inv)
  from bound_view [OF ok assms(3,4)] obtain p
    where "get_row px_proxy_id (proxies db) pid = Some p" "px_enabled p" "node_ok p" by blast
  moreover have "b = a" if "b \<in> set (accounts db)" "ac_proxy_id b = Some pid" for b
    by (rule proxy_ids_unique [OF pool_okD(4) [OF ok] that(1) assms(3) that(2) assms(4)])
  ultimately show ?thesis using assms(4)
    by (auto simp: account_network_view_def bound_proxy_def validate_account_network_route_def
          node_ok_def dest: get_row_SomeD)
qed

definition sample_node :: proxy_row where
  "sample_node = \<lparr>px_proxy_id = ''p1'', px_name = ''node'', px_enabled = True,
     px_scheme = ''socks5'', px_host = ''h'', px_port = 1080, px_username = None,
     px_password = None, px_last_test_ok = Some True, px_last_test_message = None,
     px_last_test_latency_ms = None, px_last_test_at = Some 5, px_exit_ip = None,
     px_exit_ipv4 = None, px_exit_ipv6 = None, px_exit_country = None, px_exit_region = None,
     px_exit_city = None, px_exit_isp = None, px_exit_ipv6_country = None,
     px_exit_ipv6_continent = None, px_exit_checked_at = None, px_last_platform_status = None,
     px_created_at = 0, px_updated_at = 0\<rparr>"

definition sample_pool :: pool_db where
  "sample_pool = \<lparr>proxies = [sample_node],
     accounts = [account_defaults ''a'' 1, account_defaults ''b'' 2]\<rparr>"

definition sample_bound :: account_row where
  "sample_bound = store_cookie 9 ''c2'' ''qr'' (bind_proxy ''p1'' (account_defaults ''a'' 1))"

lemma sample_pool_ok: "pool_ok sample_pool"
  by code_simp

lemma sample_pool_bind:
  "compare_and_set_account_cookie 9 ''a'' [] ''c2'' ''qr'' (Some ''p1'') sample_pool
     = Inr (\<lparr>proxies = [sample_node], accounts = [sample_bound, account_defaults ''b'' 2]\<rparr>, True)"
  by code_simp

theorem bound_account_has_own_route_witness:
  "validate_account_network_route (fst (account_network_view [sample_node] sample_bound))
     (snd (account_network_view [sample_node] sample_bound)) = Inr Socks5"
proof -
  have "pool_step\<^sup>*\<^sup>* sample_pool \<lparr>proxies = [sample_node], accounts = [sample_bound, account_defaults ''b'' 2]\<rparr>"
    by (rule r_into_rtranclp) (rule pool_step.cookie [OF sample_pool_bind])
  moreover have "ac_proxy_id sample_bound = Some ''p1''" by code_simp
  ultimately show ?thesis
    using bound_account_has_own_route [OF sample_pool_ok, of _ sample_bound "''p1''"] by fastforce
qed

text \<open>A proxy test cannot certify a connection it did not use. When an edit changes the
  connection of a node, the recorded test results are cleared, and a test that was started
  against the previous connection leaves the database as it is.\<close>

theorem stale_proxy_test_discarded:
  assumes "update_proxy now pid u db = Inr (db', Some r')"
    and "get_row px_proxy_id (proxies db) pid = Some r"
    and "connection_signature r' \<noteq> connection_signature r"
  shows "px_last_test_ok r' = None \<and> px_last_test_at r' = None \<and> px_last_platform_status r' = None
     \<and> record_proxy_test later pid t (Some (connection_signature r)) db' = (db', Some r')"
proof -
  from assms(1,2) have r': "r' = updated_proxy now u r"
    and db': "db' = db\<lparr>proxies := set_row px_proxy_id (proxies db) pid (updated_proxy now u)\<rparr>"
    by (auto simp: update_proxy_def split: if_splits option.splits)
  then have "get_row px_proxy_id (proxies db') pid = Some r'"
    using assms(2) by (simp add: updated.get_set_row_same)
  moreover from assms(3) have "connection_signature (assign_fields u r) \<noteq> connection_signature r"
    by (auto simp: r' updated_proxy_def Let_def connection_signature_def split: if_splits)
  ultimately show ?thesis
    using assms(3) by (auto simp: r' updated_proxy_def Let_def record_proxy_test_def)
qed

theorem stale_proxy_test_discarded_witness:
  "px_last_test_ok (updated_proxy 9 \<lparr>pu_name = None, pu_enabled = None, pu_scheme = None,
      pu_host = Some (Some ''h2''), pu_port = None, pu_username = None, pu_password = None\<rparr>
      sample_node) = None"
proof -
  let ?u = "\<lparr>pu_name = None, pu_enabled = None, pu_scheme = None,
      pu_host = Some (Some ''h2''), pu_port = None, pu_username = None, pu_password = None\<rparr>"
  have "update_proxy 9 ''p1'' ?u sample_pool
      = Inr (sample_pool\<lparr>proxies := [updated_proxy 9 ?u sample_node]\<rparr>, Some (updated_proxy 9 ?u sample_node))"
    by code_simp
  moreover have "get_row px_proxy_id (proxies sample_pool) ''p1'' = Some sample_node" by code_simp
  moreover have "connection_signature (updated_proxy 9 ?u sample_node) \<noteq> connection_signature sample_node"
    by code_simp
  ultimately show ?thesis using stale_proxy_test_discarded by blast
qed

text \<open>
  Callers that race to replace the same cookie value, each with a new value of its own.
\<close>

definition replace_cookie_claim ::
  "string \<Rightarrow> string \<Rightarrow> timestamp \<times> string \<times> string \<Rightarrow> pool_db \<Rightarrow> pool_db \<times> bool" where
  "replace_cookie_claim aid expected = (\<lambda>(now, new, source) db.
     if new = expected then (db, False)
     else case compare_and_set_account_cookie now aid expected new source None db of
            Inl _ \<Rightarrow> (db, False)
          | Inr r \<Rightarrow> r)"

definition cookie_is :: "string \<Rightarrow> string \<Rightarrow> pool_db \<Rightarrow> bool" where
  "cookie_is aid c db \<longleftrightarrow> (case get_row ac_account_id (accounts db) aid of
      None \<Rightarrow> False | Some a \<Rightarrow> ac_cookie a = c)"

lemma replace_cookie_claim_cases:
  assumes "replace_cookie_claim aid expected (now, new, source) db = (db', ok)"
  obtains "\<not> ok" "db' = db" | "ok" "cookie_is aid expected db" "cookie_is aid new db'" "new \<noteq> expected"
proof (cases "new = expected")
  case True
  with assms that(1) show ?thesis by (simp add: replace_cookie_claim_def)
next
  case False
  show ?thesis
  proof (cases "compare_and_set_account_cookie now aid expected new source None db")
    case (Inl e)
    with assms False that(1) show ?thesis by (simp add: replace_cookie_claim_def)
  next
    case (Inr r)
    with assms False have "compare_and_set_account_cookie now aid expected new source None db = Inr (db', ok)"
      by (simp add: replace_cookie_claim_def)
    then show ?thesis
    proof (cases rule: compare_and_setE)
      case 1
      with False that(1) show ?thesis by blast
    next
      case (2 account rebind)
      then have "get_row ac_account_id (accounts db') aid = Some (store_cookie now new source account)"
        by (simp add: stored.get_set_row_same)
      then have "cookie_is aid new db'" by (simp add: cookie_is_def store_cookie_def)
      with 2 False that(2) show ?thesis by (simp add: cookie_is_def)
    qed
  qed
qed

interpretation cookie_race: exclusive_claim "replace_cookie_claim aid expected"
    "cookie_is aid expected" "\<lambda>_. True"
  for aid expected
proof
  fix a :: "timestamp \<times> string \<times> string" and s t
  obtain now new source where a: "a = (now, new, source)" by (cases a)
  show "cookie_is aid expected s" "\<not> cookie_is aid expected t"
    if "replace_cookie_claim aid expected a s = (t, True)"
    using that unfolding a
    by (auto elim!: replace_cookie_claim_cases simp: cookie_is_def split: option.splits)
  show "t = s" if "replace_cookie_claim aid expected a s = (t, False)"
    using that unfolding a by (auto elim!: replace_cookie_claim_cases)
qed simp

text \<open>No lost cookie update: of any number of callers that race to replace the same stored
  cookie of an account, in any order, at most one succeeds.\<close>

theorem at_most_one_cookie_replacement:
  "winners (snd (claim_all (replace_cookie_claim aid expected) callers db)) \<le> 1"
  by (metis cookie_race.at_most_one_wins prod.collapse)

end
