(* ===== verification/CookieRenewal.thy ===== *)
theory CookieRenewal
  imports Accounts
begin

text \<open>
  The persistent side of Cookie renewal (\<open>store.py\<close>, \<open>_get_cookie_renewal_status_sync\<close> to
  \<open>_record_cookie_validation_sync\<close>): one renewal row per account, a history of attempts, and
  the account's cookie, which a renewal may replace only if nobody changed it meanwhile.
  The list of updated cookie names is stored as JSON text; the model keeps the list.
\<close>

section \<open>State\<close>

datatype renewal_state = Idle | Renewing | Applying | Succeeded | RenewalFailed | Conflict

datatype renewal_phase = PhaseIdle | PhaseRenewing | PhaseRuntime | PhaseCompleted

text \<open>
  The message texts: those the store writes itself, a text from outside, and the texts the
  manager composes from another one.
\<close>

datatype renewal_message =
    MsgRenewing
  | MsgInterrupted
  | MsgApplyingRuntime
  | MsgNotOverwritten
  | MsgLoginVerified
  | MsgRenewalFailed renewal_message
  | MsgGiven string
  | MsgPolicyError policy_error
  | MsgInternalError
  | MsgConfirmedExpired renewal_message
  | MsgRecheckLater renewal_message
  | MsgNotAppliedToRuntime renewal_message
  | MsgAccountDisabled renewal_message

record renewal_row =
  cr_account_id :: string
  cr_state :: renewal_state
  cr_phase :: "renewal_phase option"
  cr_trigger :: "string option"
  cr_active_attempt_id :: "string option"
  cr_message :: "renewal_message option"
  cr_updated_cookie_names :: "string list"
  cr_attempt_count :: int
  cr_last_started_at :: "timestamp option"
  cr_last_succeeded_at :: "timestamp option"
  cr_last_verified_at :: "timestamp option"
  cr_last_verified_source :: "string option"
  cr_last_failed_at :: "timestamp option"
  cr_last_finished_at :: "timestamp option"
  cr_last_error_kind :: "string option"
  cr_last_error_source :: "string option"
  cr_runtime_applied :: "bool option"
  cr_next_attempt_at :: "timestamp option"
  cr_updated_at :: timestamp

definition new_renewal :: "string \<Rightarrow> timestamp \<Rightarrow> renewal_row" where
  "new_renewal account_id now = \<lparr>cr_account_id = account_id, cr_state = Idle, cr_phase = None,
     cr_trigger = None, cr_active_attempt_id = None, cr_message = None,
     cr_updated_cookie_names = [], cr_attempt_count = 0, cr_last_started_at = None,
     cr_last_succeeded_at = None, cr_last_verified_at = None, cr_last_verified_source = None,
     cr_last_failed_at = None, cr_last_finished_at = None, cr_last_error_kind = None,
     cr_last_error_source = None, cr_runtime_applied = None, cr_next_attempt_at = None,
     cr_updated_at = now\<rparr>"

record attempt_row =
  at_attempt_id :: string
  at_account_id :: string
  at_trigger :: string
  at_state :: renewal_state
  at_phase :: renewal_phase
  at_message :: "renewal_message option"
  at_error_kind :: "string option"
  at_updated_cookie_names :: "string list"
  at_runtime_applied :: "bool option"
  at_started_at :: timestamp
  at_finished_at :: "timestamp option"
  at_next_attempt_at :: "timestamp option"
  at_created_at :: timestamp
  at_updated_at :: timestamp

record event_row =
  ev_event_id :: string
  ev_account_id :: string
  ev_level :: string
  ev_state :: string
  ev_message :: "renewal_message option"
  ev_created_at :: timestamp

record cookie_db =
  cd_accounts :: "account_row list"
  cd_runtime_state :: "string \<rightharpoonup> string"
  cd_renewals :: "renewal_row list"
  cd_attempts :: "attempt_row list"
  cd_events :: "event_row list"

section \<open>The status reported to callers\<close>

record renewal_status =
  rs_account_id :: string
  rs_state :: renewal_state
  rs_phase :: renewal_phase
  rs_trigger :: "string option"
  rs_active_attempt_id :: "string option"
  rs_message :: "renewal_message option"
  rs_updated_cookie_names :: "string list"
  rs_attempt_count :: int
  rs_last_started_at :: "timestamp option"
  rs_last_succeeded_at :: "timestamp option"
  rs_last_verified_at :: "timestamp option"
  rs_last_verified_source :: "string option"
  rs_last_failed_at :: "timestamp option"
  rs_last_finished_at :: "timestamp option"
  rs_last_error_kind :: "string option"
  rs_last_error_source :: "string option"
  rs_manual_action_required :: bool
  rs_runtime_applied :: "bool option"
  rs_next_attempt_at :: "timestamp option"
  rs_cookie_updated_at :: "timestamp option"
  rs_cookie_update_source :: "string option"
  rs_recent_attempts :: "attempt_row list"
  rs_updated_at :: "timestamp option"

definition manual_action_required :: "renewal_row \<Rightarrow> bool" where
  "manual_action_required row \<longleftrightarrow>
     cr_last_error_kind row = Some ''auth_expired''
     \<and> (case cr_last_verified_at row of
          None \<Rightarrow> True
        | Some v \<Rightarrow> (case cr_last_failed_at row of None \<Rightarrow> False | Some f \<Rightarrow> v \<le> f))"

definition recent_attempts :: "string \<Rightarrow> attempt_row list \<Rightarrow> attempt_row list" where
  "recent_attempts account_id attempts =
     take 10 (sort_key (\<lambda>a. - at_started_at a) (filter (\<lambda>a. at_account_id a = account_id) attempts))"

definition cookie_renewal_to_payload ::
  "account_row \<Rightarrow> attempt_row list \<Rightarrow> renewal_row \<Rightarrow> renewal_status" where
  "cookie_renewal_to_payload account attempts row = \<lparr>
     rs_account_id = cr_account_id row, rs_state = cr_state row,
     rs_phase = (case cr_phase row of
         Some p \<Rightarrow> p
       | None \<Rightarrow> if cr_state row = Renewing then PhaseRenewing
           else if cr_state row \<in> {Succeeded, RenewalFailed, Conflict} then PhaseCompleted
           else PhaseIdle),
     rs_trigger = cr_trigger row, rs_active_attempt_id = cr_active_attempt_id row,
     rs_message = cr_message row, rs_updated_cookie_names = cr_updated_cookie_names row,
     rs_attempt_count = cr_attempt_count row, rs_last_started_at = cr_last_started_at row,
     rs_last_succeeded_at = cr_last_succeeded_at row,
     rs_last_verified_at = cr_last_verified_at row,
     rs_last_verified_source = cr_last_verified_source row,
     rs_last_failed_at = cr_last_failed_at row, rs_last_finished_at = cr_last_finished_at row,
     rs_last_error_kind = cr_last_error_kind row, rs_last_error_source = cr_last_error_source row,
     rs_manual_action_required = manual_action_required row,
     rs_runtime_applied = cr_runtime_applied row, rs_next_attempt_at = cr_next_attempt_at row,
     rs_cookie_updated_at = ac_cookie_updated_at account,
     rs_cookie_update_source = ac_cookie_update_source account,
     rs_recent_attempts = attempts, rs_updated_at = Some (cr_updated_at row)\<rparr>"

definition status_without_row :: "account_row \<Rightarrow> renewal_status" where
  "status_without_row account = \<lparr>
     rs_account_id = ac_account_id account, rs_state = Idle, rs_phase = PhaseIdle,
     rs_trigger = None, rs_active_attempt_id = None, rs_message = None,
     rs_updated_cookie_names = [], rs_attempt_count = 0, rs_last_started_at = None,
     rs_last_succeeded_at = None, rs_last_verified_at = None, rs_last_verified_source = None,
     rs_last_failed_at = None, rs_last_finished_at = None, rs_last_error_kind = None,
     rs_last_error_source = None, rs_manual_action_required = False, rs_runtime_applied = None,
     rs_next_attempt_at = None, rs_cookie_updated_at = ac_cookie_updated_at account,
     rs_cookie_update_source = ac_cookie_update_source account, rs_recent_attempts = [],
     rs_updated_at = None\<rparr>"

definition get_cookie_renewal_status :: "string \<Rightarrow> cookie_db \<Rightarrow> renewal_status option" where
  "get_cookie_renewal_status account_id db =
     (case get_row ac_account_id (cd_accounts db) account_id of
        None \<Rightarrow> None
      | Some account \<Rightarrow>
          (case get_row cr_account_id (cd_renewals db) account_id of
             None \<Rightarrow> Some (status_without_row account)
           | Some row \<Rightarrow>
               Some (cookie_renewal_to_payload account
                 (recent_attempts account_id (cd_attempts db)) row)))"

section \<open>Operations\<close>

text \<open>
  \<open>session.get\<close> of the renewal row or a new one that is added to the session, and the
  table after the row was assigned to and committed.
\<close>

definition renewal_or_new :: "string \<Rightarrow> timestamp \<Rightarrow> cookie_db \<Rightarrow> renewal_row" where
  "renewal_or_new account_id now db =
     (case get_row cr_account_id (cd_renewals db) account_id of
        None \<Rightarrow> new_renewal account_id now
      | Some row \<Rightarrow> row)"

abbreviation put_renewal :: "renewal_row \<Rightarrow> renewal_row list \<Rightarrow> renewal_row list" where
  "put_renewal \<equiv> put_row cr_account_id"

text \<open>Assignments to the active attempt, when there is one.\<close>

definition set_active_attempt ::
  "renewal_row \<Rightarrow> (attempt_row \<Rightarrow> attempt_row) \<Rightarrow> attempt_row list \<Rightarrow> attempt_row list" where
  "set_active_attempt row f attempts =
     (if truthy (cr_active_attempt_id row)
      then set_row at_attempt_id attempts (the (cr_active_attempt_id row)) f
      else attempts)"

definition attempt_open :: "attempt_row \<Rightarrow> bool" where
  "attempt_open a \<longleftrightarrow> at_state a = Renewing \<or> at_state a = Applying"

definition interrupt :: "timestamp \<Rightarrow> attempt_row \<Rightarrow> attempt_row" where
  "interrupt now a = (if attempt_open a
     then a\<lparr>at_state := RenewalFailed, at_message := Some MsgInterrupted,
            at_error_kind := Some ''interrupted'', at_finished_at := Some now, at_updated_at := now\<rparr>
     else a)"

definition new_attempt :: "string \<Rightarrow> string \<Rightarrow> string \<Rightarrow> timestamp \<Rightarrow> attempt_row" where
  "new_attempt attempt_id account_id trigger now = \<lparr>at_attempt_id = attempt_id,
     at_account_id = account_id, at_trigger = trigger, at_state = Renewing,
     at_phase = PhaseRenewing, at_message = Some MsgRenewing, at_error_kind = None,
     at_updated_cookie_names = [], at_runtime_applied = None, at_started_at = now,
     at_finished_at = None, at_next_attempt_at = None, at_created_at = now, at_updated_at = now\<rparr>"

definition begin_row :: "timestamp \<Rightarrow> string \<Rightarrow> string \<Rightarrow> renewal_row \<Rightarrow> renewal_row" where
  "begin_row now trigger attempt_id row = row\<lparr>cr_state := Renewing, cr_phase := Some PhaseRenewing,
     cr_trigger := Some trigger, cr_active_attempt_id := Some attempt_id,
     cr_message := Some MsgRenewing, cr_updated_cookie_names := [],
     cr_attempt_count := cr_attempt_count row + 1, cr_last_started_at := Some now,
     cr_next_attempt_at := None, cr_last_error_kind := None, cr_runtime_applied := None,
     cr_updated_at := now\<rparr>"

definition begin_cookie_renewal ::
  "timestamp \<Rightarrow> string \<Rightarrow> string \<Rightarrow> string \<Rightarrow> cookie_db \<Rightarrow> cookie_db \<times> renewal_status option" where
  "begin_cookie_renewal now fresh_id account_id trigger db =
     (case get_row ac_account_id (cd_accounts db) account_id of
        None \<Rightarrow> (db, None)
      | Some account \<Rightarrow>
          let row = renewal_or_new account_id now db;
              attempts = set_active_attempt row (interrupt now) (cd_attempts db)
                         @ [new_attempt fresh_id account_id trigger now];
              db' = db\<lparr>cd_renewals := put_renewal (begin_row now trigger fresh_id row) (cd_renewals db),
                       cd_attempts := attempts\<rparr>
          in (db', get_cookie_renewal_status account_id db'))"

text \<open>Where a cookie came from, by what triggered the renewal.\<close>

definition renewal_source :: "string option \<Rightarrow> string" where
  "renewal_source trigger =
     (let t = str_or trigger ''scheduled'' in
      if t = ''manual'' then ''manual_renewal''
      else if t = ''auth_recovery'' then ''auth_recovery''
      else ''scheduled_renewal'')"

definition applying_row ::
  "timestamp \<Rightarrow> string list \<Rightarrow> timestamp \<Rightarrow> renewal_row \<Rightarrow> renewal_row" where
  "applying_row now names next_at row = row\<lparr>cr_state := Applying, cr_phase := Some PhaseRuntime,
     cr_message := Some MsgApplyingRuntime, cr_updated_cookie_names := names,
     cr_next_attempt_at := Some next_at, cr_last_error_kind := None, cr_runtime_applied := None,
     cr_updated_at := now\<rparr>"

definition applying_attempt ::
  "timestamp \<Rightarrow> string list \<Rightarrow> timestamp \<Rightarrow> attempt_row \<Rightarrow> attempt_row" where
  "applying_attempt now names next_at a = a\<lparr>at_state := Applying, at_phase := PhaseRuntime,
     at_message := Some MsgApplyingRuntime, at_updated_cookie_names := names,
     at_next_attempt_at := Some next_at, at_updated_at := now\<rparr>"

definition conflict_row :: "timestamp \<Rightarrow> renewal_row \<Rightarrow> renewal_row" where
  "conflict_row now row = row\<lparr>cr_state := Conflict, cr_phase := Some PhaseCompleted,
     cr_message := Some MsgNotOverwritten, cr_updated_cookie_names := [],
     cr_next_attempt_at := Some (now + seconds 60), cr_last_finished_at := Some now,
     cr_last_error_kind := Some ''cookie_conflict'', cr_runtime_applied := None,
     cr_active_attempt_id := None, cr_updated_at := now\<rparr>"

definition conflict_attempt :: "timestamp \<Rightarrow> attempt_row \<Rightarrow> attempt_row" where
  "conflict_attempt now a = a\<lparr>at_state := Conflict, at_phase := PhaseCompleted,
     at_message := Some MsgNotOverwritten, at_error_kind := Some ''cookie_conflict'',
     at_finished_at := Some now, at_next_attempt_at := Some (now + seconds 60), at_updated_at := now\<rparr>"

definition persist_cookie_renewal ::
  "timestamp \<Rightarrow> string \<Rightarrow> string \<Rightarrow> string \<Rightarrow> string list \<Rightarrow> timestamp \<Rightarrow> cookie_db
   \<Rightarrow> cookie_db \<times> renewal_status option \<times> bool" where
  "persist_cookie_renewal now account_id expected_cookie new_cookie names next_at db =
     (case get_row ac_account_id (cd_accounts db) account_id of
        None \<Rightarrow> (db, None, False)
      | Some _ \<Rightarrow>
          let row = renewal_or_new account_id now db;
              p = (\<lambda>a. ac_account_id a = account_id \<and> ac_cookie a = expected_cookie);
              persisted = (rowcount p (cd_accounts db) \<noteq> 0);
              accounts = update_where p
                (store_cookie now new_cookie (renewal_source (cr_trigger row))) (cd_accounts db);
              db' = (if persisted
                then db\<lparr>cd_accounts := accounts,
                        cd_renewals := put_renewal (applying_row now names next_at row) (cd_renewals db),
                        cd_attempts := set_active_attempt row (applying_attempt now names next_at)
                          (cd_attempts db)\<rparr>
                else db\<lparr>cd_accounts := accounts,
                        cd_renewals := put_renewal (conflict_row now row) (cd_renewals db),
                        cd_attempts := set_active_attempt row (conflict_attempt now)
                          (cd_attempts db)\<rparr>)
          in (db', get_cookie_renewal_status account_id db', persisted))"

definition succeeded_row ::
  "timestamp \<Rightarrow> renewal_message \<Rightarrow> bool option \<Rightarrow> renewal_row \<Rightarrow> renewal_row" where
  "succeeded_row now message applied row = row\<lparr>cr_state := Succeeded,
     cr_phase := Some PhaseCompleted, cr_message := Some message, cr_attempt_count := 0,
     cr_last_succeeded_at := Some now, cr_last_verified_at := Some now,
     cr_last_verified_source := Some (renewal_source (cr_trigger row)),
     cr_last_finished_at := Some now, cr_last_error_kind := None, cr_last_error_source := None,
     cr_runtime_applied := applied, cr_active_attempt_id := None, cr_updated_at := now\<rparr>"

definition succeeded_attempt ::
  "timestamp \<Rightarrow> renewal_message \<Rightarrow> bool option \<Rightarrow> attempt_row \<Rightarrow> attempt_row" where
  "succeeded_attempt now message applied a = a\<lparr>at_state := Succeeded, at_phase := PhaseCompleted,
     at_message := Some message, at_runtime_applied := applied, at_finished_at := Some now,
     at_updated_at := now\<rparr>"

definition finish_cookie_renewal ::
  "timestamp \<Rightarrow> string \<Rightarrow> renewal_message \<Rightarrow> bool option \<Rightarrow> cookie_db
   \<Rightarrow> cookie_db \<times> renewal_status option" where
  "finish_cookie_renewal now account_id message applied db =
     (case (get_row ac_account_id (cd_accounts db) account_id,
            get_row cr_account_id (cd_renewals db) account_id) of
        (Some _, Some row) \<Rightarrow>
          let db' = db\<lparr>cd_renewals := put_renewal (succeeded_row now message applied row) (cd_renewals db),
                       cd_attempts := set_active_attempt row (succeeded_attempt now message applied)
                         (cd_attempts db)\<rparr>
          in (db', get_cookie_renewal_status account_id db')
      | _ \<Rightarrow> (db, None))"

definition failed_row ::
  "timestamp \<Rightarrow> renewal_message \<Rightarrow> timestamp option \<Rightarrow> string \<Rightarrow> renewal_phase \<Rightarrow> string option
   \<Rightarrow> renewal_row \<Rightarrow> renewal_row" where
  "failed_row now message next_at error_kind phase error_source row = row\<lparr>
     cr_state := RenewalFailed, cr_phase := Some phase, cr_message := Some message,
     cr_updated_cookie_names := (if phase \<noteq> PhaseRuntime then [] else cr_updated_cookie_names row),
     cr_last_failed_at := Some now, cr_last_finished_at := Some now,
     cr_last_error_kind := Some error_kind,
     cr_last_error_source := (if truthy error_source then error_source else cr_trigger row),
     cr_runtime_applied := (if phase = PhaseRuntime then Some False else None),
     cr_next_attempt_at := next_at, cr_active_attempt_id := None, cr_updated_at := now\<rparr>"

definition failed_attempt ::
  "timestamp \<Rightarrow> renewal_message \<Rightarrow> timestamp option \<Rightarrow> string \<Rightarrow> renewal_phase
   \<Rightarrow> attempt_row \<Rightarrow> attempt_row" where
  "failed_attempt now message next_at error_kind phase a = a\<lparr>at_state := RenewalFailed,
     at_phase := phase, at_message := Some message, at_error_kind := Some error_kind,
     at_runtime_applied := (if phase = PhaseRuntime then Some False else None),
     at_finished_at := Some now, at_next_attempt_at := next_at, at_updated_at := now\<rparr>"

definition fail_cookie_renewal ::
  "timestamp \<Rightarrow> string \<Rightarrow> string \<Rightarrow> renewal_message \<Rightarrow> timestamp option \<Rightarrow> string \<Rightarrow> renewal_phase
   \<Rightarrow> string option \<Rightarrow> cookie_db \<Rightarrow> cookie_db \<times> renewal_status option" where
  "fail_cookie_renewal now fresh_id account_id message next_at error_kind phase error_source db =
     (case get_row ac_account_id (cd_accounts db) account_id of
        None \<Rightarrow> (db, None)
      | Some _ \<Rightarrow>
          let row = renewal_or_new account_id now db;
              event = \<lparr>ev_event_id = fresh_id, ev_account_id = account_id, ev_level = ''error'',
                ev_state = (case cd_runtime_state db account_id of None \<Rightarrow> ''stopped'' | Some s \<Rightarrow> s),
                ev_message = Some (MsgRenewalFailed message), ev_created_at = now\<rparr>;
              db' = db\<lparr>cd_renewals :=
                         put_renewal (failed_row now message next_at error_kind phase error_source row)
                           (cd_renewals db),
                       cd_attempts := set_active_attempt row
                         (failed_attempt now message next_at error_kind phase) (cd_attempts db),
                       cd_events := cd_events db @ [event]\<rparr>
          in (db', get_cookie_renewal_status account_id db'))"

definition reschedule_cookie_renewal ::
  "timestamp \<Rightarrow> string \<Rightarrow> timestamp \<Rightarrow> cookie_db \<Rightarrow> cookie_db \<times> renewal_status option" where
  "reschedule_cookie_renewal now account_id next_at db =
     (case get_row ac_account_id (cd_accounts db) account_id of
        None \<Rightarrow> (db, None)
      | Some _ \<Rightarrow>
          let row = (case get_row cr_account_id (cd_renewals db) account_id of
                 None \<Rightarrow> (new_renewal account_id now)\<lparr>cr_state := Idle, cr_phase := Some PhaseIdle\<rparr>
               | Some r \<Rightarrow> r);
              db' = db\<lparr>cd_renewals := put_renewal
                (row\<lparr>cr_next_attempt_at := Some next_at, cr_updated_at := now\<rparr>) (cd_renewals db)\<rparr>
          in (db', get_cookie_renewal_status account_id db'))"

definition login_row :: "timestamp \<Rightarrow> timestamp \<Rightarrow> string \<Rightarrow> renewal_row \<Rightarrow> renewal_row" where
  "login_row now next_at source row = row\<lparr>cr_state := Idle, cr_phase := Some PhaseIdle,
     cr_trigger := None, cr_active_attempt_id := None, cr_message := Some MsgLoginVerified,
     cr_updated_cookie_names := [], cr_attempt_count := 0, cr_last_verified_at := Some now,
     cr_last_verified_source := Some source, cr_last_error_kind := None,
     cr_last_error_source := None, cr_runtime_applied := Some True,
     cr_next_attempt_at := Some next_at, cr_updated_at := now\<rparr>"

definition reset_cookie_renewal_after_login ::
  "timestamp \<Rightarrow> string \<Rightarrow> timestamp \<Rightarrow> string \<Rightarrow> cookie_db \<Rightarrow> cookie_db \<times> renewal_status option" where
  "reset_cookie_renewal_after_login now account_id next_at source db =
     (case get_row ac_account_id (cd_accounts db) account_id of
        None \<Rightarrow> (db, None)
      | Some _ \<Rightarrow>
          let db' = db\<lparr>cd_renewals := put_renewal
                (login_row now next_at source (renewal_or_new account_id now db)) (cd_renewals db)\<rparr>
          in (db', get_cookie_renewal_status account_id db'))"

definition validated_row :: "timestamp \<Rightarrow> string \<Rightarrow> renewal_message \<Rightarrow> renewal_row \<Rightarrow> renewal_row" where
  "validated_row now source message row =
     (let r1 = (if cr_state row = RenewalFailed \<and> cr_last_error_kind row \<noteq> Some ''auth_expired''
                then row\<lparr>cr_state := Idle, cr_phase := Some PhaseIdle\<rparr> else row)
      in r1\<lparr>cr_message := Some message, cr_last_verified_at := Some now,
            cr_last_verified_source := Some source, cr_last_error_kind := None,
            cr_last_error_source := None, cr_updated_at := now\<rparr>)"

text \<open>On a cookie mismatch the session is closed without a commit: a new row is not stored.\<close>

definition record_cookie_validation ::
  "timestamp \<Rightarrow> string \<Rightarrow> string \<Rightarrow> string \<Rightarrow> string \<Rightarrow> renewal_message \<Rightarrow> cookie_db
   \<Rightarrow> cookie_db \<times> renewal_status option \<times> bool" where
  "record_cookie_validation now account_id expected_cookie new_cookie source message db =
     (case get_row ac_account_id (cd_accounts db) account_id of
        None \<Rightarrow> (db, None, False)
      | Some account \<Rightarrow>
          let row = renewal_or_new account_id now db in
          if ac_cookie account \<noteq> expected_cookie
          then (db, Some (cookie_renewal_to_payload account
                      (recent_attempts account_id (cd_attempts db)) row), False)
          else let db' = db\<lparr>
                 cd_accounts := (if new_cookie \<noteq> expected_cookie
                    then set_row ac_account_id (cd_accounts db) account_id
                           (store_cookie now new_cookie source)
                    else cd_accounts db),
                 cd_renewals := put_renewal (validated_row now source message row) (cd_renewals db)\<rparr>
               in (db', get_cookie_renewal_status account_id db', True))"

section \<open>The invariant of the renewal tables\<close>

text \<open>
  A row that names an active attempt is renewing or applying, and the attempt is an open
  attempt of the same account.
\<close>

definition active_ok :: "attempt_row list \<Rightarrow> renewal_row \<Rightarrow> bool" where
  "active_ok atts row \<longleftrightarrow>
     (case cr_active_attempt_id row of
        None \<Rightarrow> True
      | Some i \<Rightarrow> i \<noteq> [] \<and> (cr_state row = Renewing \<or> cr_state row = Applying)
          \<and> (case get_row at_attempt_id atts i of
               None \<Rightarrow> False
             | Some a \<Rightarrow> at_account_id a = cr_account_id row \<and> attempt_open a))"

definition attempts_ok :: "renewal_row list \<Rightarrow> attempt_row list \<Rightarrow> bool" where
  "attempts_ok rows atts \<longleftrightarrow> keys_distinct cr_account_id rows \<and> keys_distinct at_attempt_id atts
     \<and> list_all (active_ok atts) rows"

definition cookie_ok :: "cookie_db \<Rightarrow> bool" where
  "cookie_ok db \<longleftrightarrow> keys_distinct ac_account_id (cd_accounts db)
     \<and> attempts_ok (cd_renewals db) (cd_attempts db)"

inductive cookie_step :: "cookie_db \<Rightarrow> cookie_db \<Rightarrow> bool" where
  start: "fresh \<noteq> [] \<Longrightarrow> get_row at_attempt_id (cd_attempts db) fresh = None \<Longrightarrow>
     begin_cookie_renewal now fresh aid trigger db = (db', s) \<Longrightarrow> cookie_step db db'"
| persist: "persist_cookie_renewal now aid old new names next_at db = (db', s, b) \<Longrightarrow> cookie_step db db'"
| finish: "finish_cookie_renewal now aid msg applied db = (db', s) \<Longrightarrow> cookie_step db db'"
| fail: "fail_cookie_renewal now fresh aid msg next_at kind phase src db = (db', s) \<Longrightarrow> cookie_step db db'"
| reschedule: "reschedule_cookie_renewal now aid next_at db = (db', s) \<Longrightarrow> cookie_step db db'"
| login: "reset_cookie_renewal_after_login now aid next_at src db = (db', s) \<Longrightarrow> cookie_step db db'"
| validate: "record_cookie_validation now aid old new src msg db = (db', s, b) \<Longrightarrow> cookie_step db db'"

section \<open>Lemmas\<close>

lemmas get_put_renewal = get_put_row [of cr_account_id]
lemmas keys_distinct_put_renewal = keys_distinct_put_row [of cr_account_id]
lemmas in_put_renewal = in_put_row [of _ cr_account_id]

lemma renewal_or_new_account: "cr_account_id (renewal_or_new aid now db) = aid"
  by (auto simp: renewal_or_new_def new_renewal_def split: option.split dest: get_row_SomeD)

lemma renewal_or_new_active_ok:
  "cookie_ok db \<Longrightarrow> active_ok (cd_attempts db) (renewal_or_new aid now db)"
  by (auto simp: renewal_or_new_def new_renewal_def cookie_ok_def attempts_ok_def list_all_iff
           split: option.split dest: get_row_SomeD) (simp add: active_ok_def)

lemma set_active_attempt_get:
  assumes "\<And>a. at_attempt_id (f a) = at_attempt_id a"
  shows "get_row at_attempt_id (set_active_attempt row f atts) i =
     (if cr_active_attempt_id row = Some i \<and> i \<noteq> [] then map_option f (get_row at_attempt_id atts i)
      else get_row at_attempt_id atts i)"
proof -
  have "row_update at_attempt_id f" using assms by unfold_locales
  then show ?thesis
    by (cases "cr_active_attempt_id row")
       (auto simp: set_active_attempt_def row_update.get_set_row_same row_update.get_set_row_other)
qed

lemma set_active_attempt_distinct:
  assumes "\<And>a. at_attempt_id (f a) = at_attempt_id a" "keys_distinct at_attempt_id atts"
  shows "keys_distinct at_attempt_id (set_active_attempt row f atts)"
proof -
  have "row_update at_attempt_id f" using assms(1) by unfold_locales
  with assms(2) show ?thesis
    by (simp add: set_active_attempt_def row_update.distinct_set_row)
qed

text \<open>
  One lemma for every operation but the beginning of an attempt: the row of one account is
  replaced and its active attempt is updated, either dropping the active attempt or keeping
  it open.
\<close>

lemma attempts_ok_update:
  assumes ok: "cookie_ok db" and row: "row = renewal_or_new aid now db"
    and key: "cr_account_id row' = aid"
    and f: "\<And>a. at_attempt_id (f a) = at_attempt_id a" "\<And>a. at_account_id (f a) = at_account_id a"
    and act: "cr_active_attempt_id row' = None \<or>
      (cr_active_attempt_id row' = cr_active_attempt_id row
       \<and> (active_ok (cd_attempts db) row \<longrightarrow> cr_active_attempt_id row \<noteq> None \<longrightarrow>
            cr_state row' = Renewing \<or> cr_state row' = Applying)
       \<and> (\<forall>a. attempt_open a \<longrightarrow> attempt_open (f a)))"
  shows "attempts_ok (put_renewal row' (cd_renewals db)) (set_active_attempt row f (cd_attempts db))"
proof -
  let ?atts = "set_active_attempt row f (cd_attempts db)"
  have row_ok: "active_ok (cd_attempts db) row" unfolding row using ok by (rule renewal_or_new_active_ok)
  have row_key: "cr_account_id row = aid" by (simp add: row renewal_or_new_account)
  have other: "active_ok ?atts r" if r: "r \<in> set (cd_renewals db)" "cr_account_id r \<noteq> aid" for r
  proof (cases "cr_active_attempt_id r")
    case (Some i)
    from ok r have "active_ok (cd_attempts db) r" by (simp add: cookie_ok_def attempts_ok_def list_all_iff)
    moreover from this Some row_ok row_key r(2) have "cr_active_attempt_id row \<noteq> Some i"
      by (auto simp: active_ok_def split: option.splits)
    ultimately show ?thesis using Some by (simp add: active_ok_def set_active_attempt_get [OF f(1)])
  qed (simp add: active_ok_def)
  have "active_ok ?atts row'"
  proof (cases "cr_active_attempt_id row'")
    case (Some i)
    with act row_ok row_key key show ?thesis
      by (auto simp: active_ok_def set_active_attempt_get [OF f(1)] f(2) split: option.splits)
  qed (simp add: active_ok_def)
  with other key have "list_all (active_ok ?atts) (put_renewal row' (cd_renewals db))"
    by (auto simp: list_all_iff dest!: in_put_renewal)
  with ok f(1) show ?thesis
    by (simp add: attempts_ok_def cookie_ok_def keys_distinct_put_renewal set_active_attempt_distinct)
qed

text \<open>The same when the attempts are left alone.\<close>

lemma set_active_attempt_id: "set_active_attempt row (\<lambda>a. a) atts = atts"
  by (simp add: set_active_attempt_def set_row_def)

lemmas attempts_ok_row = attempts_ok_update [where f = "\<lambda>a. a", unfolded set_active_attempt_id]

lemma begin_ok:
  assumes ok: "cookie_ok db" and fresh: "fresh \<noteq> []" "get_row at_attempt_id (cd_attempts db) fresh = None"
    and b: "begin_cookie_renewal now fresh aid trigger db = (db', s)"
  shows "cookie_ok db'"
proof (cases "get_row ac_account_id (cd_accounts db) aid")
  case None
  with b ok show ?thesis by (simp add: begin_cookie_renewal_def)
next
  case (Some account)
  define row where "row = renewal_or_new aid now db"
  let ?new = "new_attempt fresh aid trigger now"
  let ?atts = "set_active_attempt row (interrupt now) (cd_attempts db) @ [?new]"
  let ?row = "begin_row now trigger fresh row"
  have f: "at_attempt_id (interrupt now a) = at_attempt_id a" "at_account_id (interrupt now a) = at_account_id a" for a
    by (simp_all add: interrupt_def)
  have row_key: "cr_account_id row = aid" by (simp add: row_def renewal_or_new_account)
  have "attempts_ok (put_renewal (conflict_row now row) (cd_renewals db))
      (set_active_attempt row (interrupt now) (cd_attempts db))"
    by (rule attempts_ok_update [OF ok row_def _ f]) (simp_all add: conflict_row_def row_key)
  then have d: "keys_distinct at_attempt_id (set_active_attempt row (interrupt now) (cd_attempts db))"
    and old: "\<And>r. r \<in> set (cd_renewals db) \<Longrightarrow> cr_account_id r \<noteq> aid \<Longrightarrow>
       active_ok (set_active_attempt row (interrupt now) (cd_attempts db)) r"
    by (auto simp: attempts_ok_def list_all_iff put_row_def set_row_def conflict_row_def row_key
             split: if_splits)
  have none: "get_row at_attempt_id (set_active_attempt row (interrupt now) (cd_attempts db)) fresh = None"
    using fresh(2) by (simp add: set_active_attempt_get [OF f(1)])
  have mono: "active_ok atts r \<Longrightarrow> active_ok (atts @ [?new]) r" for atts r
    by (auto simp: active_ok_def get_row_append split: option.splits)
  have "active_ok ?atts ?row"
    using none fresh(1) row_key
    by (simp add: active_ok_def begin_row_def get_row_append new_attempt_def attempt_open_def)
  with old mono have "list_all (active_ok ?atts) (put_renewal ?row (cd_renewals db))"
    by (auto simp: list_all_iff begin_row_def row_key dest!: in_put_renewal)
  moreover have "keys_distinct at_attempt_id ?atts"
    using d none by (simp add: keys_distinct_append1 new_attempt_def)
  moreover from b Some have "db' = db\<lparr>cd_renewals := put_renewal ?row (cd_renewals db), cd_attempts := ?atts\<rparr>"
    by (simp add: begin_cookie_renewal_def Let_def row_def)
  ultimately show ?thesis
    using ok by (simp add: cookie_ok_def attempts_ok_def keys_distinct_put_renewal)
qed

lemmas renewal_rows = applying_row_def conflict_row_def succeeded_row_def failed_row_def login_row_def
  validated_row_def applying_attempt_def conflict_attempt_def succeeded_attempt_def failed_attempt_def

lemma stored_accounts:
  "keys_distinct ac_account_id t \<Longrightarrow> keys_distinct ac_account_id (update_where p (store_cookie now c s) t)"
  "keys_distinct ac_account_id t \<Longrightarrow> keys_distinct ac_account_id (set_row ac_account_id t k (store_cookie now c s))"
  by blast+

lemma persist_ok:
  assumes ok: "cookie_ok db" and p: "persist_cookie_renewal now aid old new names next_at db = (db', s, b)"
  shows "cookie_ok db'"
proof (cases "get_row ac_account_id (cd_accounts db) aid")
  case None
  with p ok show ?thesis by (simp add: persist_cookie_renewal_def)
next
  case (Some account)
  have row: "cr_account_id (renewal_or_new aid now db) = aid" by (rule renewal_or_new_account)
  have "attempts_ok (put_renewal (applying_row now names next_at (renewal_or_new aid now db)) (cd_renewals db))
      (set_active_attempt (renewal_or_new aid now db) (applying_attempt now names next_at) (cd_attempts db))"
    by (rule attempts_ok_update [OF ok refl]) (simp_all add: renewal_rows row attempt_open_def)
  moreover have "attempts_ok (put_renewal (conflict_row now (renewal_or_new aid now db)) (cd_renewals db))
      (set_active_attempt (renewal_or_new aid now db) (conflict_attempt now) (cd_attempts db))"
    by (rule attempts_ok_update [OF ok refl]) (simp_all add: renewal_rows row)
  moreover have "keys_distinct ac_account_id (cd_accounts db)" using ok by (simp add: cookie_ok_def)
  ultimately show ?thesis using p Some
    by (auto simp: persist_cookie_renewal_def Let_def cookie_ok_def stored_accounts split: if_splits)
qed

lemma finish_ok:
  assumes ok: "cookie_ok db" and p: "finish_cookie_renewal now aid msg applied db = (db', s)"
  shows "cookie_ok db'"
proof (cases "get_row ac_account_id (cd_accounts db) aid = None \<or> get_row cr_account_id (cd_renewals db) aid = None")
  case True
  with p ok show ?thesis by (auto simp: finish_cookie_renewal_def split: option.splits)
next
  case False
  then obtain row where r: "get_row cr_account_id (cd_renewals db) aid = Some row" by blast
  then have row: "row = renewal_or_new aid now db" by (simp add: renewal_or_new_def)
  then have key: "cr_account_id row = aid" by (simp add: renewal_or_new_account)
  have "attempts_ok (put_renewal (succeeded_row now msg applied row) (cd_renewals db))
      (set_active_attempt row (succeeded_attempt now msg applied) (cd_attempts db))"
    by (rule attempts_ok_update [OF ok row]) (simp_all add: renewal_rows key)
  with p ok r False show ?thesis
    by (auto simp: finish_cookie_renewal_def Let_def cookie_ok_def)
qed

lemma fail_ok:
  assumes ok: "cookie_ok db"
    and p: "fail_cookie_renewal now fresh aid msg next_at kind phase src db = (db', s)"
  shows "cookie_ok db'"
proof -
  have row: "cr_account_id (renewal_or_new aid now db) = aid" by (rule renewal_or_new_account)
  have "attempts_ok (put_renewal (failed_row now msg next_at kind phase src (renewal_or_new aid now db)) (cd_renewals db))
      (set_active_attempt (renewal_or_new aid now db) (failed_attempt now msg next_at kind phase) (cd_attempts db))"
    by (rule attempts_ok_update [OF ok refl]) (simp_all add: renewal_rows row)
  with p ok show ?thesis
    by (auto simp: fail_cookie_renewal_def Let_def cookie_ok_def split: option.splits)
qed

lemma row_only_ok:
  assumes ok: "cookie_ok db" and "cr_account_id row' = aid"
    and "cr_active_attempt_id row' = None \<or>
      (cr_active_attempt_id row' = cr_active_attempt_id (renewal_or_new aid now db)
       \<and> (cr_state row' = cr_state (renewal_or_new aid now db)
          \<or> cr_state (renewal_or_new aid now db) = RenewalFailed))"
  shows "attempts_ok (put_renewal row' (cd_renewals db)) (cd_attempts db)"
proof (rule attempts_ok_row [OF ok refl assms(2)])
  show "cr_active_attempt_id row' = None \<or>
      (cr_active_attempt_id row' = cr_active_attempt_id (renewal_or_new aid now db)
       \<and> (active_ok (cd_attempts db) (renewal_or_new aid now db) \<longrightarrow>
            cr_active_attempt_id (renewal_or_new aid now db) \<noteq> None \<longrightarrow>
            cr_state row' = Renewing \<or> cr_state row' = Applying)
       \<and> (\<forall>a. attempt_open a \<longrightarrow> attempt_open a))"
    using assms(3) by (auto simp: active_ok_def)
qed simp_all

lemma reschedule_ok:
  assumes ok: "cookie_ok db" and p: "reschedule_cookie_renewal now aid next_at db = (db', s)"
  shows "cookie_ok db'"
proof (cases "get_row cr_account_id (cd_renewals db) aid")
  case None
  have "attempts_ok (put_renewal ((new_renewal aid now)\<lparr>cr_state := Idle, cr_phase := Some PhaseIdle,
      cr_next_attempt_at := Some next_at, cr_updated_at := now\<rparr>) (cd_renewals db)) (cd_attempts db)"
    by (rule row_only_ok [OF ok]) (simp_all add: new_renewal_def)
  with p ok None show ?thesis
    by (auto simp: reschedule_cookie_renewal_def Let_def cookie_ok_def split: option.splits)
next
  case (Some row)
  then have "row = renewal_or_new aid now db" by (simp add: renewal_or_new_def)
  then have "attempts_ok (put_renewal (row\<lparr>cr_next_attempt_at := Some next_at, cr_updated_at := now\<rparr>)
      (cd_renewals db)) (cd_attempts db)"
    by (intro row_only_ok [OF ok, where now = now and aid = aid]) (simp_all add: renewal_or_new_account)
  with p ok Some show ?thesis
    by (auto simp: reschedule_cookie_renewal_def Let_def cookie_ok_def split: option.splits)
qed

lemma login_ok:
  assumes ok: "cookie_ok db" and p: "reset_cookie_renewal_after_login now aid next_at src db = (db', s)"
  shows "cookie_ok db'"
proof -
  have "attempts_ok (put_renewal (login_row now next_at src (renewal_or_new aid now db)) (cd_renewals db))
      (cd_attempts db)"
    by (rule row_only_ok [OF ok, where now = now]) (simp_all add: renewal_rows renewal_or_new_account)
  with p ok show ?thesis
    by (auto simp: reset_cookie_renewal_after_login_def Let_def cookie_ok_def split: option.splits)
qed

lemma validation_ok:
  assumes ok: "cookie_ok db" and p: "record_cookie_validation now aid old new src msg db = (db', s, b)"
  shows "cookie_ok db'"
proof -
  have "attempts_ok (put_renewal (validated_row now src msg (renewal_or_new aid now db)) (cd_renewals db))
      (cd_attempts db)"
    by (rule row_only_ok [OF ok, where now = now and aid = aid])
       (simp_all add: renewal_rows Let_def renewal_or_new_account)
  moreover have "keys_distinct ac_account_id (cd_accounts db)" using ok by (simp add: cookie_ok_def)
  ultimately show ?thesis using p ok
    by (auto simp: record_cookie_validation_def Let_def cookie_ok_def stored_accounts
             split: option.splits if_splits)
qed

lemma cookie_step_ok: "cookie_step db db' \<Longrightarrow> cookie_ok db \<Longrightarrow> cookie_ok db'"
  by (induction rule: cookie_step.induct)
     (blast intro: begin_ok persist_ok finish_ok fail_ok reschedule_ok login_ok validation_ok)+

interpretation cookies: invariant_system cookie_ok cookie_step cookie_ok
  by unfold_locales (auto intro: cookie_step_ok)

section \<open>Properties\<close>

text \<open>In every state the store reaches, a renewal that is marked as in progress with an
  active attempt names an open attempt of its own account, and a renewal row that is not
  in progress names none: no attempt is shared by two accounts or closed while active.\<close>

theorem active_attempt_is_open:
  assumes "cookie_ok db0" and "cookie_step\<^sup>*\<^sup>* db0 db"
    and "get_row cr_account_id (cd_renewals db) aid = Some row"
  shows "case cr_active_attempt_id row of
      None \<Rightarrow> True
    | Some i \<Rightarrow> (cr_state row = Renewing \<or> cr_state row = Applying)
        \<and> (\<exists>a. get_row at_attempt_id (cd_attempts db) i = Some a \<and> at_account_id a = aid
             \<and> (at_state a = Renewing \<or> at_state a = Applying))"
proof -
  have "cookie_ok db" by (rule cookies.reachable_inv [OF assms(1,2)])
  with assms(3) have "active_ok (cd_attempts db) row" "cr_account_id row = aid"
    by (auto simp: cookie_ok_def attempts_ok_def list_all_iff dest: get_row_SomeD)
  then show ?thesis by (auto simp: active_ok_def attempt_open_def split: option.splits)
qed

definition sample_cookie_db :: cookie_db where
  "sample_cookie_db = \<lparr>cd_accounts = [(account_defaults ''a'' 1)\<lparr>ac_cookie := ''c0''\<rparr>],
     cd_runtime_state = Map.empty, cd_renewals = [], cd_attempts = [], cd_events = []\<rparr>"

definition sample_begun :: cookie_db where
  "sample_begun = fst (begin_cookie_renewal 10 ''x1'' ''a'' ''manual'' sample_cookie_db)"

lemma sample_cookie_ok: "cookie_ok sample_cookie_db"
  by code_simp

lemma sample_begun_reachable: "cookie_step\<^sup>*\<^sup>* sample_cookie_db sample_begun"
proof (rule r_into_rtranclp, rule cookie_step.start)
  show "begin_cookie_renewal 10 ''x1'' ''a'' ''manual'' sample_cookie_db =
     (sample_begun, snd (begin_cookie_renewal 10 ''x1'' ''a'' ''manual'' sample_cookie_db))"
    by (simp add: sample_begun_def)
qed (simp_all add: sample_cookie_db_def)

lemma sample_begun_row:
  "get_row cr_account_id (cd_renewals sample_begun) ''a'' = Some (begin_row 10 ''manual'' ''x1'' (new_renewal ''a'' 10))"
  by code_simp

theorem active_attempt_is_open_witness:
  "\<exists>a. get_row at_attempt_id (cd_attempts sample_begun) ''x1'' = Some a \<and> at_account_id a = ''a''"
  using active_attempt_is_open [OF sample_cookie_ok sample_begun_reachable sample_begun_row]
  by (auto simp: begin_row_def)

text \<open>C27. A renewal never overwrites a newer cookie. Persisting a renewed cookie reports
  success exactly when the stored cookie is still the one the renewal started from; then
  the new cookie is stored. Otherwise every account is left as it is, the renewal ends as
  a conflict with no active attempt and is tried again a minute later.\<close>

theorem renewal_never_overwrites:
  assumes "cookie_ok db" and "get_row ac_account_id (cd_accounts db) aid = Some a"
    and "persist_cookie_renewal now aid expected new names next_at db = (db', s, persisted)"
  shows "(persisted \<longleftrightarrow> ac_cookie a = expected)
     \<and> (persisted \<longrightarrow> map_option ac_cookie (get_row ac_account_id (cd_accounts db') aid) = Some new)
     \<and> (\<not> persisted \<longrightarrow> cd_accounts db' = cd_accounts db
          \<and> (\<exists>row. get_row cr_account_id (cd_renewals db') aid = Some row \<and> cr_state row = Conflict
               \<and> cr_active_attempt_id row = None \<and> cr_next_attempt_at row = Some (now + seconds 60)))"
proof -
  let ?p = "\<lambda>x. ac_account_id x = aid \<and> ac_cookie x = expected"
  have d: "keys_distinct ac_account_id (cd_accounts db)" using assms(1) by (simp add: cookie_ok_def)
  have a: "a \<in> set (cd_accounts db)" "ac_account_id a = aid"
    using get_row_SomeD [OF assms(2)] by simp_all
  have cnt: "rowcount ?p (cd_accounts db) \<noteq> 0 \<longleftrightarrow> ac_cookie a = expected"
  proof
    assume "rowcount ?p (cd_accounts db) \<noteq> 0"
    then obtain x where x: "x \<in> set (cd_accounts db)" "ac_account_id x = aid" "ac_cookie x = expected"
      by (auto simp: rowcount_def filter_empty_conv)
    with get_row_distinct [OF d x(1)] assms(2) show "ac_cookie a = expected" by simp
  next
    assume "ac_cookie a = expected"
    with a show "rowcount ?p (cd_accounts db) \<noteq> 0" by (auto simp: rowcount_def filter_empty_conv)
  qed
  show ?thesis
  proof (cases "ac_cookie a = expected")
    case True
    with cnt assms(2,3) show ?thesis
      by (auto simp: persist_cookie_renewal_def Let_def stored.get_updated a(2))
         (simp add: store_cookie_def)
  next
    case False
    with cnt have z: "rowcount ?p (cd_accounts db) = 0" by blast
    with assms(2,3) False cnt show ?thesis
      by (auto simp: persist_cookie_renewal_def Let_def update_where_none get_put_renewal
            conflict_row_def renewal_or_new_account)
  qed
qed

theorem renewal_never_overwrites_witness:
  "\<exists>db' s. persist_cookie_renewal 20 ''a'' ''stale'' ''new'' [] 99 sample_begun = (db', s, False)
     \<and> cd_accounts db' = cd_accounts sample_begun"
proof -
  have "cookie_ok sample_begun"
    using cookies.reachable_inv [OF sample_cookie_ok sample_begun_reachable] .
  moreover have "get_row ac_account_id (cd_accounts sample_begun) ''a'' = Some ((account_defaults ''a'' 1)\<lparr>ac_cookie := ''c0''\<rparr>)"
    by code_simp
  moreover obtain db' s b where p: "persist_cookie_renewal 20 ''a'' ''stale'' ''new'' [] 99 sample_begun = (db', s, b)"
    by (cases "persist_cookie_renewal 20 ''a'' ''stale'' ''new'' [] 99 sample_begun")
  ultimately have "(b \<longleftrightarrow> ac_cookie ((account_defaults ''a'' 1)\<lparr>ac_cookie := ''c0''\<rparr>) = ''stale'')
      \<and> (\<not> b \<longrightarrow> cd_accounts db' = cd_accounts sample_begun)"
    using renewal_never_overwrites by blast
  with p show ?thesis by auto
qed

text \<open>An attempt that no renewal row names as active is never touched again.\<close>

definition unreferenced :: "string \<Rightarrow> cookie_db \<Rightarrow> bool" where
  "unreferenced i db \<longleftrightarrow> list_all (\<lambda>r. cr_active_attempt_id r \<noteq> Some i) (cd_renewals db)"

lemma unreferenced_or_new: "unreferenced i db \<Longrightarrow> cr_active_attempt_id (renewal_or_new aid now db) \<noteq> Some i"
  by (auto simp: unreferenced_def renewal_or_new_def new_renewal_def list_all_iff
           split: option.split dest: get_row_SomeD)

lemma unreferenced_put:
  "list_all (\<lambda>r. cr_active_attempt_id r \<noteq> Some i) rows \<Longrightarrow> cr_active_attempt_id row \<noteq> Some i \<Longrightarrow>
   list_all (\<lambda>r. cr_active_attempt_id r \<noteq> Some i) (put_renewal row rows)"
  by (auto simp: list_all_iff dest!: in_put_renewal)

lemma attempt_values_key [simp]:
  "at_attempt_id (interrupt now a) = at_attempt_id a"
  "at_attempt_id (applying_attempt now names next_at a) = at_attempt_id a"
  "at_attempt_id (conflict_attempt now a) = at_attempt_id a"
  "at_attempt_id (succeeded_attempt now msg applied a) = at_attempt_id a"
  "at_attempt_id (failed_attempt now msg nx kind phase a) = at_attempt_id a"
  by (simp_all add: renewal_rows interrupt_def)

lemma active_values [simp]:
  "cr_active_attempt_id (begin_row now trigger fresh row) = Some fresh"
  "cr_active_attempt_id (applying_row now names nx row) = cr_active_attempt_id row"
  "cr_active_attempt_id (conflict_row now row) = None"
  "cr_active_attempt_id (succeeded_row now msg applied row) = None"
  "cr_active_attempt_id (failed_row now msg nx' kind phase src row) = None"
  "cr_active_attempt_id (login_row now nx src' row) = None"
  "cr_active_attempt_id (validated_row now src' msg row) = cr_active_attempt_id row"
  by (simp_all add: renewal_rows begin_row_def Let_def)

lemma step_unreferenced:
  assumes "cookie_step db db'" "unreferenced i db" "get_row at_attempt_id (cd_attempts db) i = Some a"
  shows "unreferenced i db' \<and> get_row at_attempt_id (cd_attempts db') i = Some a"
  using assms
proof (induction rule: cookie_step.induct)
  case (start fresh db now aid trigger db' s)
  then show ?case
    by (auto simp: begin_cookie_renewal_def Let_def unreferenced_def set_active_attempt_get get_row_append
          unreferenced_or_new [unfolded unreferenced_def] intro!: unreferenced_put split: option.splits)
next
  case (reschedule now aid next_at db db' s)
  then show ?case
    using unreferenced_or_new [OF reschedule.prems(1), of aid now]
    by (auto simp: reschedule_cookie_renewal_def Let_def unreferenced_def renewal_or_new_def new_renewal_def
          intro!: unreferenced_put split: option.splits)
next
  case (finish now aid msg applied db db' s)
  then show ?case
    using unreferenced_or_new [OF finish.prems(1), of aid now]
    by (auto simp: finish_cookie_renewal_def Let_def unreferenced_def set_active_attempt_get renewal_or_new_def
          intro!: unreferenced_put split: option.splits)
qed (auto simp: persist_cookie_renewal_def fail_cookie_renewal_def reset_cookie_renewal_after_login_def
        record_cookie_validation_def Let_def unreferenced_def set_active_attempt_get
        unreferenced_or_new [unfolded unreferenced_def]
        intro!: unreferenced_put split: option.splits if_splits)

lemma steps_unreferenced:
  assumes "cookie_step\<^sup>*\<^sup>* db db'" "unreferenced i db" "get_row at_attempt_id (cd_attempts db) i = Some a"
  shows "get_row at_attempt_id (cd_attempts db') i = Some a"
proof -
  from assms have "unreferenced i db' \<and> get_row at_attempt_id (cd_attempts db') i = Some a"
    by (induction rule: rtranclp_induct) (blast dest: step_unreferenced)+
  then show ?thesis ..
qed

text \<open>A login that completes while a renewal runs leaves the renewal's attempt behind: the
  reset clears the reference to the active attempt without closing it, and from then on,
  whatever the store does, that attempt stays in the history as in progress, unchanged.\<close>

theorem login_reset_orphans_attempt:
  assumes "cookie_ok db" and "get_row ac_account_id (cd_accounts db) aid = Some account"
    and "get_row cr_account_id (cd_renewals db) aid = Some row"
    and "cr_active_attempt_id row = Some i"
    and "reset_cookie_renewal_after_login now aid next_at src db = (db1, s)"
    and "cookie_step\<^sup>*\<^sup>* db1 db2"
  shows "\<exists>a. get_row at_attempt_id (cd_attempts db2) i = Some a
     \<and> (at_state a = Renewing \<or> at_state a = Applying) \<and> a \<in> set (cd_attempts db)"
proof -
  have ok: "list_all (active_ok (cd_attempts db)) (cd_renewals db)"
    using assms(1) by (simp add: cookie_ok_def attempts_ok_def)
  then have "active_ok (cd_attempts db) row" and key: "cr_account_id row = aid"
    using get_row_SomeD [OF assms(3)] by (auto simp: list_all_iff)
  with assms(4) obtain a where a: "get_row at_attempt_id (cd_attempts db) i = Some a"
      "at_account_id a = aid" "attempt_open a"
    by (auto simp: active_ok_def split: option.splits)
  have row: "renewal_or_new aid now db = row" using assms(3) by (simp add: renewal_or_new_def)
  from assms(2,5) have db1: "db1 = db\<lparr>cd_renewals := put_renewal (login_row now next_at src row) (cd_renewals db)\<rparr>"
    by (simp add: reset_cookie_renewal_after_login_def Let_def row)
  have "cr_active_attempt_id r \<noteq> Some i" if "r \<in> set (cd_renewals db)" "cr_account_id r \<noteq> aid" for r
  proof -
    have "active_ok (cd_attempts db) r" using ok that(1) by (simp add: list_all_iff)
    with that(2) a show ?thesis by (auto simp: active_ok_def)
  qed
  then have "unreferenced i db1"
    unfolding unreferenced_def list_all_iff
    by (auto simp: db1 login_row_def key dest!: in_put_renewal)
  moreover have "get_row at_attempt_id (cd_attempts db1) i = Some a" using a(1) by (simp add: db1)
  ultimately have "get_row at_attempt_id (cd_attempts db2) i = Some a"
    by (rule steps_unreferenced [OF assms(6)])
  with a(1,3) get_row_SomeD [OF a(1)] show ?thesis by (auto simp: attempt_open_def)
qed

theorem login_reset_orphans_attempt_witness:
  "\<exists>a. get_row at_attempt_id (cd_attempts
     (fst (reset_cookie_renewal_after_login 15 ''a'' 99 ''qr_login'' sample_begun))) ''x1'' = Some a
     \<and> (at_state a = Renewing \<or> at_state a = Applying) \<and> a \<in> set (cd_attempts sample_begun)"
proof (rule login_reset_orphans_attempt)
  show "cookie_ok sample_begun"
    using cookies.reachable_inv [OF sample_cookie_ok sample_begun_reachable] .
  show "get_row ac_account_id (cd_accounts sample_begun) ''a'' = Some ((account_defaults ''a'' 1)\<lparr>ac_cookie := ''c0''\<rparr>)"
    by code_simp
  show "get_row cr_account_id (cd_renewals sample_begun) ''a'' = Some (begin_row 10 ''manual'' ''x1'' (new_renewal ''a'' 10))"
    by (rule sample_begun_row)
  show "reset_cookie_renewal_after_login 15 ''a'' 99 ''qr_login'' sample_begun =
     (fst (reset_cookie_renewal_after_login 15 ''a'' 99 ''qr_login'' sample_begun),
      snd (reset_cookie_renewal_after_login 15 ''a'' 99 ''qr_login'' sample_begun))" by simp
qed simp_all

end
