(* ===== verification/AccountAdmin.thy ===== *)
theory AccountAdmin
  imports ProxyPool CookieRenewal
begin

text \<open>
  How accounts are added and changed (\<open>store.py\<close>): creation, import of a migrated account, update,
  workspace visibility, order, the identity reported by the platform, and the browser identity
  with its snapshots. The routes of \<open>main.py\<close> that normalise a browser identity, preview and
  carry out an import and decide what the runtime does after an update.
\<close>

section \<open>Browser identities\<close>

text \<open>The writable fields of \<open>AccountBrowserIdentityPayload\<close>.\<close>

record identity_values =
  iv_browser_engine :: string
  iv_fingerprint_seed :: "int option"
  iv_browser_version :: "string option"
  iv_platform :: string
  iv_platform_version :: string
  iv_brand :: string
  iv_language :: string
  iv_accept_language :: string
  iv_timezone :: string
  iv_hardware_concurrency :: "int option"
  iv_spoof_canvas :: bool
  iv_spoof_webgl :: bool
  iv_spoof_audio :: bool
  iv_spoof_fonts :: bool
  iv_spoof_client_rects :: bool
  iv_webrtc_policy :: string

text \<open>A snapshot of the fingerprint: its two keys, and every other field by name.\<close>

record fingerprint_snapshot =
  fs_config_revision :: int
  fs_browser_version :: string
  fs_field :: "string \<Rightarrow> string list"
  fs_stability_status :: string
  fs_changed_fields :: "string list"

record identity_row =
  bi_account_id :: string
  bi_values :: identity_values
  bi_snapshot :: "fingerprint_snapshot option"
  bi_config_revision :: int
  bi_created_at :: timestamp
  bi_updated_at :: timestamp

definition new_browser_identity_row :: "string \<Rightarrow> identity_values \<Rightarrow> timestamp \<Rightarrow> identity_row" where
  "new_browser_identity_row account_id v now = \<lparr>bi_account_id = account_id, bi_values = v, bi_snapshot = None,
     bi_config_revision = 1, bi_created_at = now, bi_updated_at = now\<rparr>"

definition apply_browser_identity :: "timestamp \<Rightarrow> identity_values \<Rightarrow> identity_row \<Rightarrow> identity_row" where
  "apply_browser_identity now v row =
     (if bi_values row \<noteq> v
      then row\<lparr>bi_values := v, bi_config_revision := max 1 (if bi_config_revision row = 0 then 1 else bi_config_revision row) + 1,
             bi_updated_at := now\<rparr>
      else row)"

text \<open>Whether the seed is taken by another account.\<close>

definition seed_taken :: "int option \<Rightarrow> string \<Rightarrow> identity_row list \<Rightarrow> bool" where
  "seed_taken seed account_id rows \<longleftrightarrow>
     seed \<noteq> None \<and> list_ex (\<lambda>r. iv_fingerprint_seed (bi_values r) = seed \<and> bi_account_id r \<noteq> account_id) rows"

definition comparable_fields :: "string list" where
  "comparable_fields = [''brand'', ''observed_platform'', ''user_agent'', ''ua_ch_platform'', ''ua_ch_brands'', ''language'',
     ''languages'', ''accept_language'', ''timezone'', ''hardware_concurrency'', ''device_memory'', ''canvas_hash'',
     ''webgl_vendor'', ''webgl_renderer'', ''webgl_hash'', ''audio_hash'', ''fonts_hash'', ''detected_fonts'',
     ''client_rects_hash'', ''spoof_canvas'', ''spoof_webgl'', ''spoof_audio'', ''spoof_fonts'', ''spoof_client_rects'',
     ''navigator_webdriver'', ''automation_window_markers'', ''has_window_chrome'', ''plugins_count'',
     ''notification_permission'', ''iframe_webdriver'', ''worker_webdriver'', ''cdp_stack_probe_detected'',
     ''automation_protection_level'']"

definition compared_snapshot :: "fingerprint_snapshot option \<Rightarrow> fingerprint_snapshot \<Rightarrow> fingerprint_snapshot" where
  "compared_snapshot previous s =
     (case previous of
        Some p \<Rightarrow>
          if fs_config_revision p = fs_config_revision s \<and> fs_browser_version p = fs_browser_version s
          then let changed = filter (\<lambda>n. fs_field p n \<noteq> fs_field s n) comparable_fields in
            s\<lparr>fs_stability_status := (if changed \<noteq> [] then ''changed'' else ''stable''), fs_changed_fields := changed\<rparr>
          else s\<lparr>fs_stability_status := ''baseline'', fs_changed_fields := []\<rparr>
      | None \<Rightarrow> s\<lparr>fs_stability_status := ''baseline'', fs_changed_fields := []\<rparr>)"

section \<open>Tables\<close>

datatype account_event = AccountCreated | AccountImported | AccountUpdated

text \<open>
  The tables around accounts. Of the rows that are created with fixed defaults (automatic reply
  and delivery settings, the settings of a user) only the key is kept.
\<close>

record account_db =
  ab_pool :: pool_db
  ab_identities :: "identity_row list"
  ab_renewals :: "renewal_row list"
  ab_runtime_state :: "string \<rightharpoonup> string"
  ab_reply_settings :: "string list"
  ab_delivery_settings :: "string list"
  ab_users :: "string list"
  ab_user_settings :: "string list"
  ab_events :: "(string \<times> string \<times> account_event) list"

datatype account_error =
    AutomationOwnerNotFound
  | PoolError pool_error
  | SeedTaken
  | ImportIdentityMismatch
  | AccountExists string
  | ImportProxyExists string
  | ImportConflict
  | PlatformUserIdRequired
  | IdentityOfOtherAccount
  | IdentityConflictsWithCache
  | AccountListChanged

record account_create =
  cc_remark :: "string option"
  cc_cookie :: string
  cc_enabled :: bool
  cc_conversation_visible :: bool
  cc_chat_enabled :: bool
  cc_order_management_visible :: bool
  cc_product_management_visible :: bool
  cc_proxy_id :: "string option"
  cc_identity :: identity_values

text \<open>The fields of an update that are set; an identity that is set to \<open>None\<close> changes nothing.\<close>

record account_update =
  cu_remark :: "string option option"
  cu_cookie :: "string option"
  cu_enabled :: "bool option"
  cu_proxy_id :: "string option option"
  cu_identity :: "identity_values option"

section \<open>The user of a cookie\<close>

text \<open>\<open>re.search(r"(?:^|;\s*)unb=([^;]+)", cookie)\<close>: a value at this position, then the search.\<close>

definition unb_here :: "string \<Rightarrow> string option" where
  "unb_here t = (if take 4 t = ''unb='' \<and> takeWhile (\<lambda>c. c \<noteq> CHR '';'') (drop 4 t) \<noteq> []
     then Some (takeWhile (\<lambda>c. c \<noteq> CHR '';'') (drop 4 t)) else None)"

fun unb_later :: "string \<Rightarrow> string option" where
  "unb_later [] = None"
| "unb_later (c # t) =
     (case (if c = CHR '';'' then unb_here (dropWhile py_space t) else None) of
        Some v \<Rightarrow> Some v | None \<Rightarrow> unb_later t)"

definition cookie_match :: "string \<Rightarrow> string option" where
  "cookie_match cookie =
     map_option strip (case unb_here cookie of Some v \<Rightarrow> Some v | None \<Rightarrow> unb_later cookie)"

text \<open>\<open>cookie.split(";")\<close>, and \<open>MigratedAccount.cookie_user_id\<close>.\<close>

fun semicolon_parts :: "string \<Rightarrow> string list" where
  "semicolon_parts [] = [[]]"
| "semicolon_parts (c # t) = (if c = CHR '';'' then [] # semicolon_parts t
     else (case semicolon_parts t of p # ps \<Rightarrow> (c # p) # ps | [] \<Rightarrow> [[c]]))"

lemma parts_no_semicolon: "p \<in> set (semicolon_parts t) \<Longrightarrow> CHR '';'' \<notin> set p"
  by (induction t arbitrary: p) (auto split: if_splits list.splits)

definition unb_part :: "string \<Rightarrow> string option" where
  "unb_part part = (let p = strip part in
     if takeWhile (\<lambda>c. c \<noteq> CHR ''='') p = ''unb'' \<and> dropWhile (\<lambda>c. c \<noteq> CHR ''='') p \<noteq> []
     then (let v = strip (tl (dropWhile (\<lambda>c. c \<noteq> CHR ''='') p)) in if v = [] then None else Some v)
     else None)"

definition cookie_user_id :: "string \<Rightarrow> string option" where
  "cookie_user_id cookie = (case filter (\<lambda>v. v \<noteq> None) (map unb_part (semicolon_parts cookie)) of [] \<Rightarrow> None | v # _ \<Rightarrow> v)"

section \<open>Creation, import and update\<close>

text \<open>\<open>select(func.max(sort_order)) or 0\<close>.\<close>

definition max_sort_order :: "account_row list \<Rightarrow> int" where
  "max_sort_order rows = (case map ac_sort_order rows of [] \<Rightarrow> 0 | s # ss \<Rightarrow> foldl max s ss)"

definition truthy_or_none :: "string option \<Rightarrow> string option" where
  "truthy_or_none s = (if truthy s then s else None)"

text \<open>
  The commit: besides the unique index on the binding, the foreign key of the binding and the
  unique index on the fingerprint seeds.
\<close>

definition proxy_exists :: "proxy_row list \<Rightarrow> account_row \<Rightarrow> bool" where
  "proxy_exists ps a \<longleftrightarrow> (case ac_proxy_id a of None \<Rightarrow> True | Some pid \<Rightarrow> get_row px_proxy_id ps pid \<noteq> None)"

definition seeds :: "identity_row list \<Rightarrow> int list" where
  "seeds rows = concat (map (\<lambda>r. case iv_fingerprint_seed (bi_values r) of None \<Rightarrow> [] | Some s \<Rightarrow> [s]) rows)"

definition commit_account :: "account_db \<Rightarrow> string option \<Rightarrow> string \<Rightarrow> account_db \<Rightarrow> account_error + account_db" where
  "commit_account old proxy_id account_id new =
     (if \<not> list_all (proxy_exists (proxies (ab_pool new))) (accounts (ab_pool new)) \<or> \<not> distinct (seeds (ab_identities new))
      then Inl (PoolError CommitIntegrityError)
      else case commit_account_proxy_change (ab_pool old) proxy_id account_id (ab_pool new) of
        Inl e \<Rightarrow> Inl (PoolError e) | Inr _ \<Rightarrow> Inr new)"

text \<open>The rows that go with a new account.\<close>

definition add_account ::
  "timestamp \<Rightarrow> account_row \<Rightarrow> identity_values \<Rightarrow> string \<Rightarrow> account_event \<Rightarrow> account_db \<Rightarrow> account_db" where
  "add_account now row v state event db = db\<lparr>
     ab_pool := (ab_pool db)\<lparr>accounts := accounts (ab_pool db) @ [row]\<rparr>,
     ab_identities := ab_identities db @ [new_browser_identity_row (ac_account_id row) v now],
     ab_runtime_state := (ab_runtime_state db)(ac_account_id row \<mapsto> state),
     ab_reply_settings := ab_reply_settings db @ [ac_account_id row],
     ab_delivery_settings := ab_delivery_settings db @ [ac_account_id row],
     ab_events := ab_events db @ [(ac_account_id row, state, event)]\<rparr>"

definition new_account :: "timestamp \<Rightarrow> string \<Rightarrow> account_create \<Rightarrow> string \<Rightarrow> string option \<Rightarrow> account_row" where
  "new_account now account_id p cookie_source owner =
     (account_defaults account_id now)\<lparr>ac_remark := cc_remark p, ac_cookie := cc_cookie p, ac_enabled := cc_enabled p,
        ac_conversation_visible := cc_conversation_visible p, ac_chat_enabled := cc_chat_enabled p,
        ac_order_management_visible := cc_order_management_visible p,
        ac_product_management_visible := cc_product_management_visible p,
        ac_automation_owner_user_id := owner, ac_proxy_id := cc_proxy_id p,
        ac_cookie_updated_at := (if cc_cookie p \<noteq> [] then Some now else None),
        ac_cookie_update_source := (if cc_cookie p \<noteq> [] then Some cookie_source else None)\<rparr>"

definition create_account ::
  "timestamp \<Rightarrow> string \<Rightarrow> account_create \<Rightarrow> string \<Rightarrow> string option \<Rightarrow> account_db \<Rightarrow> account_error + (account_db \<times> account_row)" where
  "create_account now account_id p cookie_source owner db =
     (if (case owner of None \<Rightarrow> False | Some u \<Rightarrow> u \<notin> set (ab_users db)) then Inl AutomationOwnerNotFound
      else case (if truthy (cc_proxy_id p) then map_sum id (\<lambda>_. ()) (require_assignable_proxy (ab_pool db) (the (cc_proxy_id p)) (Some account_id))
                 else Inr ()) of
        Inl e \<Rightarrow> Inl (PoolError e)
      | Inr _ \<Rightarrow>
          if seed_taken (iv_fingerprint_seed (cc_identity p)) account_id (ab_identities db) then Inl SeedTaken
          else let row = (new_account now account_id p cookie_source owner)\<lparr>ac_sort_order := max_sort_order (accounts (ab_pool db)) + 100\<rparr>;
                   new = add_account now row (cc_identity p) ''stopped'' AccountCreated
                     (case owner of None \<Rightarrow> db
                      | Some u \<Rightarrow> if u \<in> set (ab_user_settings db) then db else db\<lparr>ab_user_settings := ab_user_settings db @ [u]\<rparr>)
               in map_sum id (\<lambda>d. (d, row)) (commit_account db (cc_proxy_id p) account_id new))"

definition normal_id :: "string option \<Rightarrow> string option" where
  "normal_id s = (let t = strip (str_or s []) in if t = [] then None else Some t)"

definition known_account :: "string \<Rightarrow> account_row \<Rightarrow> bool" where
  "known_account uid a \<longleftrightarrow> normal_id (ac_platform_user_id a) = Some uid \<or> cookie_match (ac_cookie a) = Some uid"

definition imported_proxy :: "string \<Rightarrow> timestamp \<Rightarrow> proxy_create \<Rightarrow> proxy_row" where
  "imported_proxy proxy_id now c = \<lparr>px_proxy_id = proxy_id, px_name = pn_name c, px_enabled = True, px_scheme = pn_scheme c,
     px_host = pn_host c, px_port = pn_port c, px_username = pn_username c, px_password = pn_password c,
     px_last_test_ok = None, px_last_test_message = None, px_last_test_latency_ms = None, px_last_test_at = None,
     px_exit_ip = None, px_exit_ipv4 = None, px_exit_ipv6 = None, px_exit_country = None, px_exit_region = None,
     px_exit_city = None, px_exit_isp = None, px_exit_ipv6_country = None, px_exit_ipv6_continent = None,
     px_exit_checked_at = None, px_last_platform_status = None, px_created_at = now, px_updated_at = now\<rparr>"

text \<open>The account of an import: the platform identity comes from the archive or from its cookie.\<close>

definition imported_account ::
  "timestamp \<Rightarrow> string \<Rightarrow> account_create \<Rightarrow> string option \<Rightarrow> string option \<Rightarrow> string option \<Rightarrow> string option \<Rightarrow> int \<Rightarrow> account_row" where
  "imported_account now account_id p uid display_name avatar_url proxy_id sort_order =
     (new_account now account_id p ''account_import'' None)\<lparr>ac_platform_user_id := uid,
        ac_platform_display_name := truthy_or_none (Some (take 255 (strip (str_or display_name [])))),
        ac_platform_avatar_url := truthy_or_none (Some (take 1000 (strip (str_or avatar_url [])))),
        ac_platform_identity_source := Some ''account_import'',
        ac_platform_identity_checked_at := (if truthy uid then Some now else None),
        ac_sort_order := sort_order, ac_proxy_id := proxy_id\<rparr>"

definition import_user_id :: "account_create \<Rightarrow> string option \<Rightarrow> string option" where
  "import_user_id p uid = (if normal_id uid \<noteq> None then normal_id uid else cookie_match (cc_cookie p))"

definition with_imported_proxy :: "string \<Rightarrow> timestamp \<Rightarrow> proxy_create option \<Rightarrow> pool_db \<Rightarrow> pool_db" where
  "with_imported_proxy proxy_id now proxy pool = (case proxy of None \<Rightarrow> pool
     | Some c \<Rightarrow> pool\<lparr>proxies := proxies pool @ [imported_proxy proxy_id now c]\<rparr>)"

definition imported_tables ::
  "timestamp \<Rightarrow> string \<Rightarrow> string \<Rightarrow> account_create \<Rightarrow> string option \<Rightarrow> string option \<Rightarrow> string option \<Rightarrow> proxy_create option
   \<Rightarrow> account_db \<Rightarrow> account_db \<times> account_row" where
  "imported_tables now account_id proxy_id p uid display_name avatar_url proxy db =
     (let row = imported_account now account_id p (import_user_id p uid) display_name avatar_url
            (map_option (\<lambda>_. proxy_id) proxy) (max_sort_order (accounts (ab_pool db)) + 100)
      in (add_account now row (cc_identity p) (if cc_enabled p then ''stopped'' else ''disabled'') AccountImported
            (db\<lparr>ab_pool := with_imported_proxy proxy_id now proxy (ab_pool db)\<rparr>), row))"

definition import_migrated_account ::
  "timestamp \<Rightarrow> string \<Rightarrow> string \<Rightarrow> account_create \<Rightarrow> string option \<Rightarrow> string option \<Rightarrow> string option \<Rightarrow> proxy_create option
   \<Rightarrow> account_db \<Rightarrow> account_error + (account_db \<times> account_row)" where
  "import_migrated_account now account_id proxy_id p uid display_name avatar_url proxy db =
     (if normal_id uid \<noteq> None \<and> truthy (cookie_match (cc_cookie p)) \<and> normal_id uid \<noteq> cookie_match (cc_cookie p)
      then Inl ImportIdentityMismatch
      else case (if truthy (import_user_id p uid) then find (known_account (the (import_user_id p uid))) (accounts (ab_pool db)) else None) of
        Some a \<Rightarrow> Inl (AccountExists (take 8 (ac_account_id a)))
      | None \<Rightarrow>
          if seed_taken (iv_fingerprint_seed (cc_identity p)) account_id (ab_identities db) then Inl SeedTaken
          else if (case proxy of None \<Rightarrow> False | Some c \<Rightarrow> get_row px_name (proxies (ab_pool db)) (pn_name c) \<noteq> None)
          then Inl (ImportProxyExists (pn_name (the proxy)))
          else let (new, row) = imported_tables now account_id proxy_id p uid display_name avatar_url proxy db
               in if distinct (proxy_ids (accounts (ab_pool new))) \<and> distinct (seeds (ab_identities new))
                  then Inr (new, row) else Inl ImportConflict)"

text \<open>
  The renewal row after the cookie was changed by hand. The message is one of those that the
  model of renewals does not tell apart.
\<close>

definition reset_renewal :: "renewal_message \<Rightarrow> timestamp \<Rightarrow> renewal_row \<Rightarrow> renewal_row" where
  "reset_renewal message now r = (if cr_state r \<in> {Renewing, Applying} then r else
     r\<lparr>cr_state := Idle, cr_phase := Some PhaseIdle, cr_trigger := None, cr_message := Some message,
       cr_updated_cookie_names := [], cr_attempt_count := 0, cr_last_succeeded_at := None, cr_last_verified_at := None,
       cr_last_verified_source := None, cr_next_attempt_at := Some now, cr_last_error_kind := None,
       cr_last_error_source := None, cr_runtime_applied := None, cr_updated_at := now\<rparr>)"

definition cookie_changes :: "account_update \<Rightarrow> account_row \<Rightarrow> bool" where
  "cookie_changes p a \<longleftrightarrow> (case cu_cookie p of None \<Rightarrow> False | Some c \<Rightarrow> c \<noteq> ac_cookie a)"

definition updated_account :: "timestamp \<Rightarrow> account_update \<Rightarrow> string \<Rightarrow> account_row \<Rightarrow> account_row" where
  "updated_account now p cookie_source a =
     (let b = (case cu_remark p of None \<Rightarrow> a | Some r \<Rightarrow> a\<lparr>ac_remark := r\<rparr>);
          c = (if cookie_changes p a then b\<lparr>ac_cookie := the (cu_cookie p), ac_cookie_updated_at := Some now,
                 ac_cookie_update_source := Some cookie_source\<rparr> else b);
          d = (case cu_enabled p of None \<Rightarrow> c | Some e \<Rightarrow> c\<lparr>ac_enabled := e\<rparr>);
          e = (case cu_proxy_id p of None \<Rightarrow> d | Some pid \<Rightarrow> clear_legacy_proxy (d\<lparr>ac_proxy_id := pid\<rparr>))
      in e\<lparr>ac_updated_at := now\<rparr>)"

definition update_identity :: "timestamp \<Rightarrow> string \<Rightarrow> identity_values \<Rightarrow> identity_row list \<Rightarrow> identity_row list" where
  "update_identity now account_id v rows =
     put_row bi_account_id (case get_row bi_account_id rows account_id of
       None \<Rightarrow> new_browser_identity_row account_id v now | Some r \<Rightarrow> apply_browser_identity now v r) rows"

definition update_account ::
  "renewal_message \<Rightarrow> timestamp \<Rightarrow> string \<Rightarrow> account_update \<Rightarrow> string \<Rightarrow> account_db
   \<Rightarrow> account_error + (account_db \<times> account_row option)" where
  "update_account message now account_id p cookie_source db =
     (case get_row ac_account_id (accounts (ab_pool db)) account_id of
        None \<Rightarrow> Inr (db, None)
      | Some a \<Rightarrow>
          (case (case cu_proxy_id p of Some (Some pid) \<Rightarrow>
                   if pid \<noteq> [] then map_sum id (\<lambda>_. ()) (require_assignable_proxy (ab_pool db) pid (Some account_id)) else Inr ()
                 | _ \<Rightarrow> Inr ()) of
             Inl e \<Rightarrow> Inl (PoolError e)
           | Inr _ \<Rightarrow>
               if (case cu_identity p of None \<Rightarrow> False | Some v \<Rightarrow> seed_taken (iv_fingerprint_seed v) account_id (ab_identities db))
               then Inl SeedTaken
               else let row = updated_account now p cookie_source a;
                        new = db\<lparr>ab_pool := (ab_pool db)\<lparr>accounts := put_row ac_account_id row (accounts (ab_pool db))\<rparr>,
                          ab_renewals := (if cookie_changes p a
                            then update_where (\<lambda>r. cr_account_id r = account_id) (reset_renewal message now) (ab_renewals db)
                            else ab_renewals db),
                          ab_identities := (case cu_identity p of None \<Rightarrow> ab_identities db
                            | Some v \<Rightarrow> update_identity now account_id v (ab_identities db)),
                          ab_events := ab_events db @ [(account_id, (case ab_runtime_state db account_id of None \<Rightarrow> ''stopped'' | Some s \<Rightarrow> s),
                            AccountUpdated)]\<rparr>
                    in map_sum id (\<lambda>d. (d, Some row)) (commit_account db (ac_proxy_id row) account_id new)))"

record visibility_update =
  vu_conversation_visible :: "bool option"
  vu_chat_enabled :: "bool option"
  vu_order_management_visible :: "bool option"
  vu_product_management_visible :: "bool option"

definition set_or :: "'a option \<Rightarrow> 'a \<Rightarrow> 'a" where
  "set_or v d = (case v of None \<Rightarrow> d | Some x \<Rightarrow> x)"

definition with_accounts :: "account_row list \<Rightarrow> account_db \<Rightarrow> account_db" where
  "with_accounts rows db = db\<lparr>ab_pool := (ab_pool db)\<lparr>accounts := rows\<rparr>\<rparr>"

definition update_account_workspace_visibility ::
  "timestamp \<Rightarrow> string \<Rightarrow> visibility_update \<Rightarrow> account_db \<Rightarrow> account_db \<times> account_row option" where
  "update_account_workspace_visibility now account_id p db =
     (case get_row ac_account_id (accounts (ab_pool db)) account_id of
        None \<Rightarrow> (db, None)
      | Some a \<Rightarrow>
          let row = a\<lparr>ac_conversation_visible := set_or (vu_conversation_visible p) (ac_conversation_visible a),
                ac_chat_enabled := set_or (vu_chat_enabled p) (ac_chat_enabled a),
                ac_order_management_visible := set_or (vu_order_management_visible p) (ac_order_management_visible a),
                ac_product_management_visible := set_or (vu_product_management_visible p) (ac_product_management_visible a),
                ac_updated_at := now\<rparr>
          in (with_accounts (put_row ac_account_id row (accounts (ab_pool db))) db, Some row))"

section \<open>The order of accounts\<close>

text \<open>\<open>_list_accounts_sync\<close>: by \<open>sort_order\<close>, then age, then identifier.\<close>

fun id_before :: "string \<Rightarrow> string \<Rightarrow> bool" where
  "id_before s [] = False"
| "id_before [] (d # t) = True"
| "id_before (c # s) (d # t) = ((of_char c :: nat) < of_char d \<or> c = d \<and> id_before s t)"

definition account_before :: "account_row \<Rightarrow> account_row \<Rightarrow> bool" where
  "account_before a b \<longleftrightarrow> ac_sort_order a < ac_sort_order b \<or> ac_sort_order a = ac_sort_order b \<and>
     (ac_created_at a < ac_created_at b \<or> ac_created_at a = ac_created_at b \<and> id_before (ac_account_id a) (ac_account_id b))"

fun insert_account :: "account_row \<Rightarrow> account_row list \<Rightarrow> account_row list" where
  "insert_account a [] = [a]"
| "insert_account a (b # bs) = (if account_before b a then b # insert_account a bs else a # b # bs)"

definition list_accounts :: "account_db \<Rightarrow> account_row list" where
  "list_accounts db = foldr insert_account (accounts (ab_pool db)) []"

fun reorder_rows :: "timestamp \<Rightarrow> int \<Rightarrow> string list \<Rightarrow> account_row list \<Rightarrow> account_row list" where
  "reorder_rows now position [] rows = rows"
| "reorder_rows now position (i # ids) rows = reorder_rows now (position + 1) ids
     (set_row ac_account_id rows i (\<lambda>a. a\<lparr>ac_sort_order := position * 100, ac_updated_at := now\<rparr>))"

definition reorder_accounts :: "timestamp \<Rightarrow> string list \<Rightarrow> account_db \<Rightarrow> account_error + (account_db \<times> account_row list)" where
  "reorder_accounts now ids db =
     (if set ids \<noteq> ac_account_id ` set (accounts (ab_pool db)) then Inl AccountListChanged
      else let rows = reorder_rows now 1 ids (accounts (ab_pool db))
           in Inr (with_accounts rows db, map (\<lambda>i. the (get_row ac_account_id rows i)) ids))"

section \<open>The identity reported by the platform\<close>

definition update_account_platform_identity ::
  "timestamp \<Rightarrow> string \<Rightarrow> string \<Rightarrow> string option \<Rightarrow> string option \<Rightarrow> string \<Rightarrow> account_db
   \<Rightarrow> account_error + (account_db \<times> account_row option)" where
  "update_account_platform_identity now account_id uid display_name avatar_url source db =
     (if strip uid = [] then Inl PlatformUserIdRequired
      else case get_row ac_account_id (accounts (ab_pool db)) account_id of
        None \<Rightarrow> Inr (db, None)
      | Some a \<Rightarrow>
          if truthy (cookie_match (ac_cookie a)) \<and> cookie_match (ac_cookie a) \<noteq> Some (strip uid) then Inl IdentityOfOtherAccount
          else if truthy (ac_platform_user_id a) \<and> ac_platform_user_id a \<noteq> Some (strip uid) then Inl IdentityConflictsWithCache
          else let name = strip (str_or display_name []); avatar = strip (str_or avatar_url []);
                   row = a\<lparr>ac_platform_user_id := Some (take 128 (strip uid)),
                     ac_platform_display_name := (if name \<noteq> [] then Some (take 255 name) else ac_platform_display_name a),
                     ac_platform_avatar_url := (if avatar \<noteq> [] then Some (take 1000 avatar) else ac_platform_avatar_url a),
                     ac_platform_identity_source := Some (take 32 (if source = [] then ''mtop_nav'' else source)),
                     ac_platform_identity_checked_at := Some now, ac_updated_at := now\<rparr>
               in Inr (with_accounts (put_row ac_account_id row (accounts (ab_pool db))) db, Some row))"

definition save_account_browser_fingerprint_snapshot ::
  "timestamp \<Rightarrow> string \<Rightarrow> fingerprint_snapshot \<Rightarrow> account_db \<Rightarrow> account_db \<times> fingerprint_snapshot option" where
  "save_account_browser_fingerprint_snapshot now account_id s db =
     (case get_row bi_account_id (ab_identities db) account_id of
        None \<Rightarrow> (db, None)
      | Some r \<Rightarrow>
          let persisted = compared_snapshot (bi_snapshot r) s
          in (db\<lparr>ab_identities := put_row bi_account_id (r\<lparr>bi_snapshot := Some persisted, bi_updated_at := now\<rparr>) (ab_identities db)\<rparr>,
              Some persisted))"

text \<open>The deletion of an account with the rows that its relations cascade to.\<close>

definition delete_account_rows :: "string \<Rightarrow> account_db \<Rightarrow> account_db" where
  "delete_account_rows account_id db = db\<lparr>ab_pool := fst (delete_account account_id (ab_pool db)),
     ab_identities := filter (\<lambda>r. bi_account_id r \<noteq> account_id) (ab_identities db),
     ab_renewals := filter (\<lambda>r. cr_account_id r \<noteq> account_id) (ab_renewals db),
     ab_runtime_state := (ab_runtime_state db)(account_id := None),
     ab_reply_settings := filter (\<lambda>i. i \<noteq> account_id) (ab_reply_settings db),
     ab_delivery_settings := filter (\<lambda>i. i \<noteq> account_id) (ab_delivery_settings db),
     ab_events := filter (\<lambda>(i, _). i \<noteq> account_id) (ab_events db)\<rparr>"

section \<open>Routes\<close>

text \<open>\<open>bm_active\<close> and \<open>bm_installed\<close> ask the managers of the two browser engines for their versions.\<close>

record browser_managers =
  bm_standard_active :: "string option"
  bm_standard_installed :: "string \<Rightarrow> bool"
  bm_fingerprint_active :: "string option"
  bm_fingerprint_installed :: "string \<Rightarrow> bool"
  bm_system_available :: bool

datatype identity_refusal = BrowserMissing | FingerprintBrowserRequired | ModulesFixedBelow144

definition version_major :: "string \<Rightarrow> nat" where
  "version_major v = (let m = takeWhile (\<lambda>c. c \<noteq> CHR ''.'') v in
     if m \<noteq> [] \<and> list_all is_digit m then foldl (\<lambda>n c. 10 * n + (of_char c - 48)) 0 m else 0)"

definition normalize_browser_identity_for_save ::
  "browser_managers \<Rightarrow> bool \<Rightarrow> identity_values \<Rightarrow> identity_refusal + identity_values" where
  "normalize_browser_identity_for_save bm apply_standard_default v =
     (if iv_browser_engine v = ''system_chromium''
      then let given = strip (str_or (iv_browser_version v) []);
               version = (if given = [] \<and> apply_standard_default then strip (str_or (bm_standard_active bm) []) else given)
           in if version \<noteq> [] \<and> \<not> bm_standard_installed bm version then Inl BrowserMissing
              else Inr (v\<lparr>iv_browser_version := (if version = [] then None else Some version), iv_fingerprint_seed := None\<rparr>)
      else let version = strip (if truthy (iv_browser_version v) then the (iv_browser_version v) else str_or (bm_fingerprint_active bm) [])
           in if version = [] then Inl FingerprintBrowserRequired
              else if \<not> bm_fingerprint_installed bm version then Inl BrowserMissing
              else if version_major version < 144 \<and> \<not> (iv_spoof_canvas v \<and> iv_spoof_webgl v \<and> iv_spoof_audio v \<and> iv_spoof_fonts v
                \<and> iv_spoof_client_rects v) then Inl ModulesFixedBelow144
              else Inr (v\<lparr>iv_browser_version := Some version\<rparr>))"

definition migration_browser_available :: "browser_managers \<Rightarrow> identity_values \<Rightarrow> bool" where
  "migration_browser_available bm v =
     (if iv_browser_engine v = ''fingerprint_chromium'' then bm_fingerprint_installed bm (str_or (iv_browser_version v) [])
      else if truthy (iv_browser_version v) then bm_standard_installed bm (the (iv_browser_version v))
      else bm_system_available bm)"

record migrated_account =
  ma_platform_user_id :: "string option"
  ma_platform_display_name :: "string option"
  ma_platform_avatar_url :: "string option"
  ma_remark :: "string option"
  ma_cookie :: string
  ma_conversation_visible :: bool
  ma_order_management_visible :: bool
  ma_product_management_visible :: bool
  ma_identity :: identity_values
  ma_proxy :: "proxy_create option"

datatype import_conflict = UserExists string | SeedInUse string

definition migrated_user_id :: "migrated_account \<Rightarrow> string option" where
  "migrated_user_id m = (if truthy (ma_platform_user_id m) then ma_platform_user_id m else cookie_user_id (ma_cookie m))"

text \<open>The conflicts that the preview of an import lists; an account without identity row has no seed.\<close>

definition account_seed :: "account_db \<Rightarrow> string \<Rightarrow> int option" where
  "account_seed db account_id = (case get_row bi_account_id (ab_identities db) account_id of
     None \<Rightarrow> None | Some r \<Rightarrow> iv_fingerprint_seed (bi_values r))"

definition preview_conflicts :: "migrated_account \<Rightarrow> account_db \<Rightarrow> import_conflict list" where
  "preview_conflicts m db = remdups (concat (map (\<lambda>a.
     (if truthy (migrated_user_id m) \<and> (migrated_user_id m = ac_platform_user_id a \<or> migrated_user_id m = cookie_user_id (ac_cookie a))
      then [UserExists (ac_account_id a)] else []) @
     (if iv_fingerprint_seed (ma_identity m) \<noteq> None \<and> iv_fingerprint_seed (ma_identity m) = account_seed db (ac_account_id a)
      then [SeedInUse (ac_account_id a)] else [])) (list_accounts db)))"

record import_request =
  ir_enable_after_import :: bool
  ir_enable_chatwoot_after_import :: bool
  ir_import_proxy :: bool

datatype import_refusal = PreviewConflicts "import_conflict list" | NoCookie | NoBrowser | ProxyNameTaken | StoreRefused account_error

definition import_payload :: "import_request \<Rightarrow> migrated_account \<Rightarrow> account_create" where
  "import_payload q m = \<lparr>cc_remark = ma_remark m, cc_cookie = ma_cookie m, cc_enabled = ir_enable_after_import q,
     cc_conversation_visible = ma_conversation_visible m,
     cc_chat_enabled = (ir_enable_after_import q \<and> ir_enable_chatwoot_after_import q),
     cc_order_management_visible = ma_order_management_visible m, cc_product_management_visible = ma_product_management_visible m,
     cc_proxy_id = None, cc_identity = ma_identity m\<rparr>"

text \<open>
  \<open>import_account_migration\<close> up to the copy of the browser profile, \<open>installed\<close>, which undoes the
  import when it fails.
\<close>

definition import_account_migration ::
  "browser_managers \<Rightarrow> timestamp \<Rightarrow> string \<Rightarrow> string \<Rightarrow> bool \<Rightarrow> import_request \<Rightarrow> migrated_account \<Rightarrow> account_db
   \<Rightarrow> account_db \<times> (import_refusal + account_row option)" where
  "import_account_migration bm now account_id proxy_id installed q m db =
     (if preview_conflicts m db \<noteq> [] then (db, Inl (PreviewConflicts (preview_conflicts m db)))
      else if ir_enable_after_import q \<and> ma_cookie m = [] then (db, Inl NoCookie)
      else if ir_enable_after_import q \<and> \<not> migration_browser_available bm (ma_identity m) then (db, Inl NoBrowser)
      else let proxy = (if ir_import_proxy q then map_option (\<lambda>c. c\<lparr>pn_enabled := True\<rparr>) (ma_proxy m) else None) in
        if (case proxy of None \<Rightarrow> False | Some c \<Rightarrow> list_ex (\<lambda>r. px_name r = pn_name c) (proxies (ab_pool db)))
        then (db, Inl ProxyNameTaken)
        else (case import_migrated_account now account_id proxy_id (import_payload q m)
                (migrated_user_id m) (ma_platform_display_name m) (ma_platform_avatar_url m) proxy db of
            Inl e \<Rightarrow> (db, Inl (StoreRefused e))
          | Inr (db', row) \<Rightarrow>
              if installed then (db', Inr (Some row))
              else (let removed = delete_account_rows account_id db' in
                 case ac_proxy_id row of None \<Rightarrow> (removed, Inr None)
                 | Some pid \<Rightarrow> (case delete_proxy pid (ab_pool removed) of
                       Inl _ \<Rightarrow> (removed, Inr None) | Inr (pool, _) \<Rightarrow> (removed\<lparr>ab_pool := pool\<rparr>, Inr None)))))"

text \<open>What \<open>update_account\<close> of \<open>main.py\<close> does to the running client.\<close>

datatype runtime_reaction = StopDisabled | StartClient | ReplaceCookie string | LeaveRunning

definition runtime_reaction_to ::
  "proxy_row list \<Rightarrow> proxy_row list \<Rightarrow> bool \<Rightarrow> account_row \<Rightarrow> account_row \<Rightarrow> runtime_reaction" where
  "runtime_reaction_to old_proxies new_proxies identity_changed previous row =
     (let proxy_changed = account_network_view old_proxies previous \<noteq> account_network_view new_proxies row;
          cookie_changed = ac_cookie previous \<noteq> ac_cookie row
      in if \<not> ac_enabled row then StopDisabled
         else if \<not> ac_enabled previous then StartClient
         else if proxy_changed \<or> identity_changed then StartClient
         else if cookie_changed then (if ac_cookie row \<noteq> [] then ReplaceCookie (ac_cookie row) else StartClient)
         else LeaveRunning)"

end
