(* ===== verification/AccountSafety.thy ===== *)
theory AccountSafety
  imports AccountAdmin
begin

text \<open>
  Properties of the administration of accounts: every account keeps its own route and
  fingerprint, an import that fails leaves nothing behind, a new order takes effect, the
  preview of an import agrees with the import.
\<close>

section \<open>Failed imports\<close>

text \<open>No row mentions the identifier.\<close>

definition account_unused :: "string \<Rightarrow> account_db \<Rightarrow> bool" where
  "account_unused i db \<longleftrightarrow>
     get_row ac_account_id (accounts (ab_pool db)) i = None \<and> get_row bi_account_id (ab_identities db) i = None
     \<and> get_row cr_account_id (ab_renewals db) i = None \<and> ab_runtime_state db i = None \<and> i \<notin> set (ab_reply_settings db)
     \<and> i \<notin> set (ab_delivery_settings db) \<and> i \<notin> fst ` set (ab_events db)"

lemma filter_unused_key: "get_row key rows i = None \<Longrightarrow> filter (\<lambda>r. key r \<noteq> i) rows = rows"
  by (auto simp: get_row_None_iff filter_id_conv)

lemma filter_unused_id: "i \<notin> set xs \<Longrightarrow> filter (\<lambda>j. j \<noteq> i) xs = xs"
  by (auto simp: filter_id_conv)

lemma filter_unused_event: "i \<notin> fst ` set es \<Longrightarrow> filter (\<lambda>(j, _). j \<noteq> i) es = es"
  by (auto simp: filter_id_conv image_iff)

lemma fst_delete_account: "fst (delete_account i db) = db\<lparr>accounts := filter (\<lambda>a. ac_account_id a \<noteq> i) (accounts db)\<rparr>"
proof (cases "get_row ac_account_id (accounts db) i")
  case None
  then show ?thesis by (simp add: delete_account_def filter_unused_key)
qed (simp add: delete_account_def)

lemma delete_added_account:
  assumes "account_unused (ac_account_id row) db"
  shows "delete_account_rows (ac_account_id row) (add_account now row v state event db) = db"
  using assms
  by (simp add: delete_account_rows_def add_account_def account_unused_def fst_delete_account filter_unused_key
      filter_unused_id filter_unused_event new_browser_identity_row_def fun_upd_idem)

lemma imported_account_key [simp]:
  "ac_account_id (imported_account now i p uid name avatar pid n) = i"
  "ac_proxy_id (imported_account now i p uid name avatar pid n) = pid"
  by (simp_all add: imported_account_def new_account_def account_defaults_def)

lemma import_accepted:
  assumes "import_migrated_account now i pid p uid name avatar proxy db = Inr r"
  shows "r = imported_tables now i pid p uid name avatar proxy db"
    and "distinct (proxy_ids (accounts (ab_pool (fst r))))" and "distinct (seeds (ab_identities (fst r)))"
    and "truthy (import_user_id p uid) \<Longrightarrow> \<not> list_ex (known_account (the (import_user_id p uid))) (accounts (ab_pool db))"
    and "proxy = Some c \<Longrightarrow> get_row px_name (proxies (ab_pool db)) (pn_name c) = None"
    and "\<not> seed_taken (iv_fingerprint_seed (cc_identity p)) i (ab_identities db)"
  using assms unfolding import_migrated_account_def
  by (auto simp: list_ex_iff find_None_iff case_prod_beta Let_def split: if_splits option.splits)

text \<open>C26. 
  When the browser profile of an imported account cannot be installed, the import is undone
  completely: the tables are what they were before, the proxy of the archive included.
\<close>

theorem failed_import_leaves_nothing:
  assumes "account_unused i db" and "get_row px_proxy_id (proxies (ab_pool db)) pid = None"
    and "list_all (\<lambda>a. ac_proxy_id a \<noteq> Some pid) (accounts (ab_pool db))"
  shows "fst (import_account_migration bm now i pid False q m db) = db"
proof (cases "import_migrated_account now i pid (import_payload q m) (migrated_user_id m) (ma_platform_display_name m)
    (ma_platform_avatar_url m) (if ir_import_proxy q then map_option (\<lambda>c. c\<lparr>pn_enabled := True\<rparr>) (ma_proxy m) else None) db")
  case (Inl e)
  then show ?thesis by (simp add: import_account_migration_def Let_def)
next
  case (Inr r)
  define proxy where "proxy = (if ir_import_proxy q then map_option (\<lambda>c. c\<lparr>pn_enabled := True\<rparr>) (ma_proxy m) else None)"
  define pool where "pool = with_imported_proxy pid now proxy (ab_pool db)"
  note r = import_accepted(1) [OF Inr, folded proxy_def]
  have "account_unused i (db\<lparr>ab_pool := pool\<rparr>)"
    using assms(1) by (simp add: account_unused_def pool_def with_imported_proxy_def split: option.split)
  with delete_added_account [of "snd r" "db\<lparr>ab_pool := pool\<rparr>"]
  have del: "delete_account_rows i (fst r) = db\<lparr>ab_pool := pool\<rparr>" and pid: "ac_proxy_id (snd r) = map_option (\<lambda>_. pid) proxy"
    by (simp_all add: r imported_tables_def Let_def pool_def)
  have free: "delete_proxy pid pool = Inr (ab_pool db, True)" if "proxy = Some c" for c
    using assms(2,3) that
    by (auto simp: delete_proxy_def pool_def with_imported_proxy_def get_row_append imported_proxy_def assigned_to_any_def
        list_all_iff list_ex_iff filter_unused_key split: option.splits)
  have keep: "proxy = None \<Longrightarrow> pool = ab_pool db" by (simp add: pool_def with_imported_proxy_def)
  obtain db' row where "r = (db', row)" by fastforce
  with Inr del pid free keep show ?thesis
    unfolding import_account_migration_def Let_def proxy_def [symmetric]
    by (cases proxy) simp_all
qed

definition plain_identity :: "int option \<Rightarrow> identity_values" where
  "plain_identity seed = \<lparr>iv_browser_engine = ''system_chromium'', iv_fingerprint_seed = seed, iv_browser_version = None,
     iv_platform = ''windows'', iv_platform_version = ''10.0.0'', iv_brand = ''Chrome'', iv_language = ''zh-CN'',
     iv_accept_language = ''zh-CN'', iv_timezone = ''Asia/Shanghai'', iv_hardware_concurrency = None, iv_spoof_canvas = True,
     iv_spoof_webgl = True, iv_spoof_audio = True, iv_spoof_fonts = True, iv_spoof_client_rects = True,
     iv_webrtc_policy = ''proxy_only''\<rparr>"

definition new_account_request :: "string \<Rightarrow> string option \<Rightarrow> int option \<Rightarrow> account_create" where
  "new_account_request cookie proxy_id seed = \<lparr>cc_remark = None, cc_cookie = cookie, cc_enabled = True, cc_conversation_visible = True,
     cc_chat_enabled = False, cc_order_management_visible = True, cc_product_management_visible = True, cc_proxy_id = proxy_id,
     cc_identity = plain_identity seed\<rparr>"

definition sample_account_db :: account_db where
  "sample_account_db = \<lparr>ab_pool = \<lparr>proxies = [sample_node], accounts = []\<rparr>, ab_identities = [], ab_renewals = [],
     ab_runtime_state = (\<lambda>_. None), ab_reply_settings = [], ab_delivery_settings = [], ab_users = [], ab_user_settings = [],
     ab_events = []\<rparr>"

definition sample_archive :: migrated_account where
  "sample_archive = \<lparr>ma_platform_user_id = Some ''7'', ma_platform_display_name = None, ma_platform_avatar_url = None, ma_remark = None,
     ma_cookie = ''unb=7'', ma_conversation_visible = True, ma_order_management_visible = True, ma_product_management_visible = True,
     ma_identity = plain_identity (Some 3), ma_proxy = Some \<lparr>pn_name = ''moved'', pn_enabled = True, pn_scheme = ''socks5'',
       pn_host = ''h'', pn_port = 1080, pn_username = None, pn_password = None\<rparr>\<rparr>"

definition sample_managers :: browser_managers where
  "sample_managers = \<lparr>bm_standard_active = None, bm_standard_installed = (\<lambda>_. True), bm_fingerprint_active = None,
     bm_fingerprint_installed = (\<lambda>_. True), bm_system_available = True\<rparr>"

definition sample_import :: import_request where
  "sample_import = \<lparr>ir_enable_after_import = True, ir_enable_chatwoot_after_import = False, ir_import_proxy = True\<rparr>"

theorem failed_import_leaves_nothing_witness:
  "fst (import_account_migration sample_managers 5 ''a1'' ''p2'' False sample_import sample_archive sample_account_db) = sample_account_db
   \<and> map ac_account_id (accounts (ab_pool (fst
       (import_account_migration sample_managers 5 ''a1'' ''p2'' True sample_import sample_archive sample_account_db)))) = [''a1'']"
proof
  show "fst (import_account_migration sample_managers 5 ''a1'' ''p2'' False sample_import sample_archive sample_account_db) = sample_account_db"
    by (rule failed_import_leaves_nothing) (simp_all add: account_unused_def sample_account_db_def sample_node_def)
  show "map ac_account_id (accounts (ab_pool (fst
       (import_account_migration sample_managers 5 ''a1'' ''p2'' True sample_import sample_archive sample_account_db)))) = [''a1'']"
    by code_simp
qed

section \<open>The order of accounts\<close>

interpretation placed: row_update ac_account_id "\<lambda>a. a\<lparr>ac_sort_order := n, ac_updated_at := now\<rparr>" for n now
  by unfold_locales simp

lemma reorder_keys: "map ac_account_id (reorder_rows now k ids rows) = map ac_account_id rows"
  by (induction ids arbitrary: k rows) (simp_all add: set_row_update_where placed.keys_kept)

lemma reorder_unlisted: "i \<notin> set ids \<Longrightarrow> get_row ac_account_id (reorder_rows now k ids rows) i = get_row ac_account_id rows i"
  by (induction ids arbitrary: k rows) (simp_all add: placed.get_set_row_other)

lemma reorder_listed:
  assumes "distinct ids" and "j < length ids" and "get_row ac_account_id rows (ids ! j) \<noteq> None"
  shows "map_option ac_sort_order (get_row ac_account_id (reorder_rows now k ids rows) (ids ! j)) = Some ((k + int j) * 100)"
  using assms
proof (induction ids arbitrary: k j rows)
  case (Cons i ids)
  define rows1 where "rows1 = set_row ac_account_id rows i (\<lambda>a. a\<lparr>ac_sort_order := k * 100, ac_updated_at := now\<rparr>)"
  show ?case
  proof (cases j)
    case 0
    with Cons.prems show ?thesis by (auto simp: reorder_unlisted placed.get_set_row_same)
  next
    case (Suc l)
    with Cons.prems have "ids ! l \<noteq> i" by (auto simp: nth_mem)
    with Cons.prems Suc have "get_row ac_account_id rows1 (ids ! l) \<noteq> None"
      by (simp add: rows1_def placed.get_set_row_other)
    with Cons.IH [of l rows1 "k + 1"] Cons.prems Suc show ?thesis by (simp add: rows1_def algebra_simps)
  qed
qed simp

lemma insert_account_insort:
  assumes "inj_on ac_sort_order (insert a (set bs))" and "a \<notin> set bs"
  shows "insert_account a bs = insort_key ac_sort_order a bs"
  using assms
proof (induction bs)
  case (Cons b bs)
  then have "ac_sort_order a \<noteq> ac_sort_order b" by (auto dest: inj_onD)
  then have "account_before b a \<longleftrightarrow> \<not> ac_sort_order a \<le> ac_sort_order b" by (auto simp: account_before_def)
  moreover have "insert_account a bs = insort_key ac_sort_order a bs"
    using Cons.prems by (intro Cons.IH) (auto intro: inj_on_subset)
  ultimately show ?case by simp
qed simp

lemma foldr_insert_account:
  assumes "inj_on ac_sort_order (set as)" and "distinct as"
  shows "foldr insert_account as [] = sort_key ac_sort_order as"
  using assms
proof (induction as)
  case (Cons a as)
  then have "foldr insert_account as [] = sort_key ac_sort_order as" by (auto intro: inj_on_subset)
  with Cons.prems insert_account_insort [of a "sort_key ac_sort_order as"] show ?case by simp
qed simp

text \<open>
  A new order of the accounts takes effect: when it is accepted, the list of accounts is in
  exactly that order, whatever the order was before.
\<close>

theorem reordered_accounts_listed:
  assumes ids: "distinct ids" and keys: "keys_distinct ac_account_id (accounts (ab_pool db))"
    and ok: "reorder_accounts now ids db = Inr (db', rows)"
  shows "list_accounts db' = rows \<and> map ac_account_id rows = ids"
proof -
  define new where "new = reorder_rows now 1 ids (accounts (ab_pool db))"
  from ok have set: "set ids = ac_account_id ` set (accounts (ab_pool db))"
    and rows: "rows = map (\<lambda>i. the (get_row ac_account_id new i)) ids" and db': "accounts (ab_pool db') = new"
    by (auto simp: reorder_accounts_def new_def with_accounts_def Let_def split: if_splits)
  have new_keys: "map ac_account_id new = map ac_account_id (accounts (ab_pool db))" by (simp add: new_def reorder_keys)
  with keys have d: "keys_distinct ac_account_id new" by (simp add: keys_distinct_def)
  have ex: "\<exists>a. get_row ac_account_id new i = Some a \<and> a \<in> set new \<and> ac_account_id a = i" if "i \<in> set ids" for i
    using that set new_keys get_row_None_iff [of ac_account_id new i] by (metis get_row_SomeD list.set_map not_None_eq)
  then have ids': "map ac_account_id rows = ids" by (force simp: rows intro: map_idI)
  have sub: "set rows \<subseteq> set new" using ex by (force simp: rows)
  have sup: "set new \<subseteq> set rows"
  proof
    fix a assume a: "a \<in> set new"
    then have i: "ac_account_id a \<in> set ids" using set new_keys by (metis image_eqI list.set_map)
    moreover have "get_row ac_account_id new (ac_account_id a) = Some a" using d a by (rule get_row_distinct)
    ultimately show "a \<in> set rows" by (force simp: rows)
  qed
  have orders: "map ac_sort_order rows = map (\<lambda>j. (1 + int j) * 100) [0..<length ids]"
  proof (rule nth_equalityI)
    fix j assume "j < length (map ac_sort_order rows)"
    then have j: "j < length ids" by (simp add: rows)
    then have "get_row ac_account_id (accounts (ab_pool db)) (ids ! j) \<noteq> None"
      using set by (simp add: get_row_None_iff) (metis nth_mem)
    with reorder_listed [OF ids j, of "accounts (ab_pool db)" now 1] ex [OF nth_mem [OF j]] j
    show "map ac_sort_order rows ! j = map (\<lambda>j. (1 + int j) * 100) [0..<length ids] ! j"
      by (auto simp: rows new_def)
  qed (simp add: rows)
  have sorted: "sorted (map ac_sort_order rows)" and dist: "distinct (map ac_sort_order rows)"
    unfolding orders by (simp_all add: sorted_iff_nth_mono distinct_map inj_on_def)
  then have inj: "inj_on ac_sort_order (set new)" using sub sup by (metis distinct_map subset_antisym)
  have "distinct new" using d by (simp add: keys_distinct_def distinct_map)
  with inj have "list_accounts db' = sort_key ac_sort_order new" by (simp add: list_accounts_def db' foldr_insert_account)
  moreover have "sort_key ac_sort_order new = rows"
    using inj sorted dist sub sup \<open>distinct new\<close>
    by (intro map_sorted_distinct_set_unique [of ac_sort_order]) (auto simp: distinct_map)
  ultimately show ?thesis using ids' by simp
qed

theorem reordered_accounts_listed_witness:
  "case reorder_accounts 9 [''b'', ''a''] (sample_account_db\<lparr>ab_pool := sample_pool\<rparr>) of
     Inr (db, rows) \<Rightarrow> list_accounts db = rows \<and> map ac_account_id rows = [''b'', ''a''] | Inl _ \<Rightarrow> False"
proof -
  define r where "r = reorder_accounts 9 [''b'', ''a''] (sample_account_db\<lparr>ab_pool := sample_pool\<rparr>)"
  have "case r of Inr _ \<Rightarrow> True | Inl _ \<Rightarrow> False" unfolding r_def by code_simp
  then obtain db rows where r: "r = Inr (db, rows)" by (auto split: sum.splits)
  have "distinct [''b'', ''a'']" "keys_distinct ac_account_id (accounts (ab_pool (sample_account_db\<lparr>ab_pool := sample_pool\<rparr>)))"
    by (simp_all add: sample_pool_def account_defaults_def keys_distinct_def)
  from reordered_accounts_listed [OF this r [unfolded r_def]] r show ?thesis unfolding r_def [symmetric] by simp
qed

section \<open>Own routes and fingerprints\<close>

definition account_ok :: "account_db \<Rightarrow> bool" where
  "account_ok db \<longleftrightarrow> pool_ok (ab_pool db) \<and> list_all (\<lambda>p. px_proxy_id p \<noteq> []) (proxies (ab_pool db))
     \<and> keys_distinct bi_account_id (ab_identities db) \<and> distinct (seeds (ab_identities db))"

text \<open>Every operation on accounts, proxies and their bindings; fresh identifiers are new and not empty.\<close>

inductive account_step :: "account_db \<Rightarrow> account_db \<Rightarrow> bool" where
  created: "account_unused i db \<Longrightarrow> create_account now i p source owner db = Inr (db', row) \<Longrightarrow> account_step db db'"
| imported: "account_unused i db \<Longrightarrow> get_row px_proxy_id (proxies (ab_pool db)) pid = None \<Longrightarrow> pid \<noteq> [] \<Longrightarrow>
     (\<And>c. proxy = Some c \<Longrightarrow> create_valid c) \<Longrightarrow>
     import_migrated_account now i pid p uid name avatar proxy db = Inr (db', row) \<Longrightarrow> account_step db db'"
| updated: "update_account message now i u source db = Inr (db', r) \<Longrightarrow> account_step db db'"
| visibility: "account_step db (fst (update_account_workspace_visibility now i v db))"
| identified: "update_account_platform_identity now i uid name avatar source db = Inr (db', r) \<Longrightarrow> account_step db db'"
| reordered: "reorder_accounts now ids db = Inr (db', rows) \<Longrightarrow> account_step db db'"
| snapshot: "account_step db (fst (save_account_browser_fingerprint_snapshot now i s db))"
| deleted: "account_step db (delete_account_rows i db)"
| pooled: "pool_step (ab_pool db) pool \<Longrightarrow> list_all (\<lambda>p. px_proxy_id p \<noteq> []) (proxies pool) \<Longrightarrow>
     account_step db (db\<lparr>ab_pool := pool\<rparr>)"

lemma pool_ok_put:
  assumes "pool_ok pool" and "binding_ok (proxies pool) row"
    and "distinct (proxy_ids (put_row ac_account_id row (accounts pool)))"
  shows "pool_ok (pool\<lparr>accounts := put_row ac_account_id row (accounts pool)\<rparr>)"
  using pool_okD [OF assms(1)] assms(2,3)
  by (auto simp: pool_ok_def keys_distinct_put_row list_all_iff dest!: in_put_row)

lemma pool_ok_same_bindings:
  assumes "pool_ok pool" and "map ac_account_id rows = map ac_account_id (accounts pool)"
    and "map ac_proxy_id rows = map ac_proxy_id (accounts pool)"
  shows "pool_ok (pool\<lparr>accounts := rows\<rparr>)"
proof -
  have p: "proxy_ids rows = concat (map (\<lambda>x. case x of None \<Rightarrow> [] | Some p \<Rightarrow> [p]) (map ac_proxy_id rows))" for rows
    by (simp add: proxy_ids_def o_def)
  have b: "list_all (binding_ok ps) rows = list_all (\<lambda>x. case x of None \<Rightarrow> True
      | Some pid \<Rightarrow> (case get_row px_proxy_id ps pid of None \<Rightarrow> False | Some p \<Rightarrow> px_enabled p)) (map ac_proxy_id rows)" for ps rows
    by (auto simp: list_all_iff binding_ok_def split: option.splits)
  show ?thesis
    using pool_okD [OF assms(1)] assms(2,3) by (simp add: pool_ok_def keys_distinct_def p [of rows] p [of "accounts pool"] b [of _ rows] b [of _ "accounts pool"])
qed

lemma map_put_row_same:
  assumes "keys_distinct key rows" and "get_row key rows k = Some a" and "key r = k" and "f r = f a"
  shows "map f (put_row key r rows) = map f rows"
proof -
  have "x = a" if "x \<in> set rows" "key x = k" for x
    using that assms(1,2) by (metis get_row_distinct option.inject)
  with assms show ?thesis by (auto simp: put_row_def set_row_def)
qed

text \<open>An account row that keeps its binding is written.\<close>

lemma rewritten_account_ok:
  assumes "account_ok db" and "get_row ac_account_id (accounts (ab_pool db)) i = Some a"
    and "ac_account_id r = ac_account_id a" and "ac_proxy_id r = ac_proxy_id a"
  shows "account_ok (with_accounts (put_row ac_account_id r (accounts (ab_pool db))) db)"
proof -
  have d: "keys_distinct ac_account_id (accounts (ab_pool db))" using assms(1) by (simp add: account_ok_def pool_ok_def)
  note same = map_put_row_same [OF d assms(2)]
  have "ac_account_id r = i" using assms(2,3) by (auto dest: get_row_SomeD)
  then show ?thesis
    using assms same [of r ac_account_id] same [of r ac_proxy_id]
    by (simp add: account_ok_def with_accounts_def pool_ok_same_bindings)
qed

lemma committed:
  assumes "commit_account old pid i new = Inr db'"
  shows "db' = new" and "distinct (seeds (ab_identities new))" and "distinct (proxy_ids (accounts (ab_pool new)))"
    and "list_all (proxy_exists (proxies (ab_pool new))) (accounts (ab_pool new))"
  using assms by (auto simp: commit_account_def dest: commit_ok split: if_splits sum.splits)

lemma assignable_binding:
  assumes "pool_ok pool" and ne: "list_all (\<lambda>p. px_proxy_id p \<noteq> []) (proxies pool)"
    and "proxy_exists (proxies pool) row"
    and "truthy (ac_proxy_id row) \<Longrightarrow> \<exists>p. require_assignable_proxy pool (the (ac_proxy_id row)) (Some i) = Inr p"
  shows "binding_ok (proxies pool) row"
proof (cases "ac_proxy_id row")
  case (Some pid)
  with assms(3) obtain p where p: "get_row px_proxy_id (proxies pool) pid = Some p" by (auto simp: proxy_exists_def)
  with ne have "pid \<noteq> []" by (auto simp: list_all_iff dest: get_row_SomeD)
  with Some assms(4) p show ?thesis by (auto simp: binding_ok_def dest: require_assignable_enabled)
qed (simp add: binding_ok_def)

text \<open>A new account with its identity: the commit checks the indexes, the binding was checked before.\<close>

lemma added_account_ok:
  assumes ok: "account_ok db" and u: "account_unused (ac_account_id row) db"
    and b: "binding_ok (proxies (ab_pool db)) row"
    and s: "distinct (seeds (ab_identities (add_account now row v state event db)))"
    and p: "distinct (proxy_ids (accounts (ab_pool (add_account now row v state event db))))"
  shows "account_ok (add_account now row v state event db)"
proof -
  from u have n: "get_row ac_account_id (accounts (ab_pool db)) (ac_account_id row) = None"
    and i: "get_row bi_account_id (ab_identities db) (ac_account_id row) = None" by (simp_all add: account_unused_def)
  have "pool_ok (ab_pool (add_account now row v state event db))"
    using ok b p pool_ok_put [of "ab_pool db" row] by (simp add: account_ok_def add_account_def put_row_new [OF n, symmetric])
  moreover have "keys_distinct bi_account_id (ab_identities (add_account now row v state event db))"
    using ok i by (simp add: account_ok_def add_account_def keys_distinct_append1 new_browser_identity_row_def)
  ultimately show ?thesis using ok s by (simp add: account_ok_def add_account_def)
qed

lemma create_account_ok:
  assumes ok: "account_ok db" and u: "account_unused i db" and c: "create_account now i p source owner db = Inr (db', row)"
  shows "account_ok db'"
proof -
  define db1 where "db1 = (case owner of None \<Rightarrow> db
    | Some u \<Rightarrow> if u \<in> set (ab_user_settings db) then db else db\<lparr>ab_user_settings := ab_user_settings db @ [u]\<rparr>)"
  define new where "new = add_account now row (cc_identity p) ''stopped'' AccountCreated db1"
  have same: "ab_pool db1 = ab_pool db" "ab_identities db1 = ab_identities db" "account_unused i db1 = account_unused i db"
    by (simp_all add: db1_def account_unused_def split: option.split)
  from c have row: "row = (new_account now i p source owner)\<lparr>ac_sort_order := max_sort_order (accounts (ab_pool db)) + 100\<rparr>"
    and com: "commit_account db (cc_proxy_id p) i new = Inr db'"
    and req: "truthy (cc_proxy_id p) \<Longrightarrow> \<exists>q. require_assignable_proxy (ab_pool db) (the (cc_proxy_id p)) (Some i) = Inr q"
    unfolding create_account_def Let_def db1_def [symmetric] new_def
    by (auto split: if_splits sum.splits dest!: map_sum_id_Inr)
  have key: "ac_account_id row = i" "ac_proxy_id row = cc_proxy_id p" by (simp_all add: row new_account_def account_defaults_def)
  note com = committed [OF com]
  have "proxy_exists (proxies (ab_pool db)) row" using com(4) by (simp add: new_def add_account_def same)
  with ok req key have "binding_ok (proxies (ab_pool db)) row"
    by (intro assignable_binding [where i = i]) (simp_all add: account_ok_def)
  moreover have "account_ok db1" using ok by (simp add: account_ok_def same)
  ultimately show ?thesis
    unfolding com(1) new_def using com(2,3) u key by (intro added_account_ok) (simp_all add: new_def same)
qed

lemma imported_pool_ok:
  assumes ok: "pool_ok pool" and new: "get_row px_proxy_id (proxies pool) pid = None"
    and name: "get_row px_name (proxies pool) (pn_name c) = None" and v: "create_valid c"
  shows "pool_ok (with_imported_proxy pid now (Some c) pool)"
proof -
  have "create_proxy pid now (c\<lparr>pn_enabled := True\<rparr>) pool = Inr (with_imported_proxy pid now (Some c) pool, imported_proxy pid now c)"
    using name by (simp add: create_proxy_def with_imported_proxy_def imported_proxy_def Let_def)
  from create_proxy_ok [OF ok _ new this] v show ?thesis by (simp add: create_valid_def)
qed

lemma import_account_ok:
  assumes ok: "account_ok db" and u: "account_unused i db" and new: "get_row px_proxy_id (proxies (ab_pool db)) pid = None"
    and ne: "pid \<noteq> []" and v: "\<And>c. proxy = Some c \<Longrightarrow> create_valid c"
    and imp: "import_migrated_account now i pid p uid name avatar proxy db = Inr (db', row)"
  shows "account_ok db'"
proof -
  define pool where "pool = with_imported_proxy pid now proxy (ab_pool db)"
  define db1 where "db1 = db\<lparr>ab_pool := pool\<rparr>"
  note acc = import_accepted [OF imp]
  from acc(1) have row: "ac_account_id row = i" "ac_proxy_id row = map_option (\<lambda>_. pid) proxy"
    and db': "db' = add_account now row (cc_identity p) (if cc_enabled p then ''stopped'' else ''disabled'') AccountImported db1"
    by (auto simp: imported_tables_def Let_def db1_def pool_def)
  have "pool_ok pool"
  proof (cases proxy)
    case None
    with ok show ?thesis by (simp add: pool_def with_imported_proxy_def account_ok_def)
  next
    case (Some c)
    with ok new acc(5) v imported_pool_ok [of "ab_pool db" pid c now] show ?thesis by (simp add: pool_def account_ok_def)
  qed
  moreover have "list_all (\<lambda>p. px_proxy_id p \<noteq> []) (proxies pool)"
    using ok ne by (simp add: pool_def with_imported_proxy_def imported_proxy_def account_ok_def split: option.split)
  ultimately have "account_ok db1" using ok by (simp add: account_ok_def db1_def)
  moreover have "account_unused i db1"
    using u by (simp add: account_unused_def db1_def pool_def with_imported_proxy_def split: option.split)
  moreover have "binding_ok (proxies pool) row"
    using row(2) new by (simp add: binding_ok_def pool_def with_imported_proxy_def get_row_append imported_proxy_def split: option.split)
  ultimately show ?thesis
    using acc(2,3) row(1) by (auto simp: db' db1_def intro!: added_account_ok)
qed

lemma update_identity_distinct:
  "keys_distinct bi_account_id rows \<Longrightarrow> keys_distinct bi_account_id (update_identity now i v rows)"
  by (simp add: update_identity_def keys_distinct_put_row)

lemma updated_account_key:
  "ac_account_id (updated_account now u source a) = ac_account_id a"
  "ac_proxy_id (updated_account now u source a) = (case cu_proxy_id u of None \<Rightarrow> ac_proxy_id a | Some pid \<Rightarrow> pid)"
  by (simp_all add: updated_account_def Let_def clear_legacy_proxy_def split: option.split)

lemma update_account_ok:
  assumes ok: "account_ok db" and up: "update_account message now i u source db = Inr (db', r)"
  shows "account_ok db'"
proof (cases "get_row ac_account_id (accounts (ab_pool db)) i")
  case None
  with up ok show ?thesis by (simp add: update_account_def)
next
  case (Some a)
  define row where "row = updated_account now u source a"
  from up Some obtain new where com: "commit_account db (ac_proxy_id row) i new = Inr db'"
    and pool: "ab_pool new = (ab_pool db)\<lparr>accounts := put_row ac_account_id row (accounts (ab_pool db))\<rparr>"
    and ids: "ab_identities new = (case cu_identity u of None \<Rightarrow> ab_identities db | Some v \<Rightarrow> update_identity now i v (ab_identities db))"
    and req: "\<And>pid. cu_proxy_id u = Some (Some pid) \<Longrightarrow> pid \<noteq> [] \<Longrightarrow> \<exists>q. require_assignable_proxy (ab_pool db) pid (Some i) = Inr q"
    unfolding update_account_def Let_def row_def
    by (auto split: if_splits sum.splits option.splits dest!: map_sum_id_Inr)
  note com = committed [OF com]
  have a: "a \<in> set (accounts (ab_pool db))" using Some by (auto dest: get_row_SomeD)
  have exists: "proxy_exists (proxies (ab_pool db)) row"
  proof -
    have "get_row ac_account_id (put_row ac_account_id row (accounts (ab_pool db))) (ac_account_id row) = Some row"
      by (simp add: get_put_row)
    then have "row \<in> set (accounts (ab_pool new))" by (auto simp: pool dest: get_row_SomeD)
    with com(4) show ?thesis by (simp add: list_all_iff pool)
  qed
  have "binding_ok (proxies (ab_pool db)) row"
  proof (cases "cu_proxy_id u")
    case None
    then have "ac_proxy_id row = ac_proxy_id a" by (simp add: row_def updated_account_key)
    with ok a show ?thesis by (auto simp: account_ok_def pool_ok_def list_all_iff binding_ok_def)
  next
    case (Some pid)
    with exists ok req show ?thesis
      by (intro assignable_binding [where i = i]) (auto simp: account_ok_def row_def updated_account_key truthy_def split: option.splits)
  qed
  with ok com(3) have "pool_ok (ab_pool new)" by (simp add: pool pool_ok_put account_ok_def)
  moreover have "keys_distinct bi_account_id (ab_identities new)"
    using ok by (simp add: ids account_ok_def update_identity_distinct split: option.split)
  ultimately show ?thesis using ok com(1,2) by (simp add: account_ok_def pool)
qed

lemma seeds_unchanged: "map bi_values rows = map bi_values rows' \<Longrightarrow> seeds rows = seeds rows'"
proof -
  have "seeds rows = concat (map (\<lambda>v. case iv_fingerprint_seed v of None \<Rightarrow> [] | Some s \<Rightarrow> [s]) (map bi_values rows))" for rows
    by (simp add: seeds_def o_def)
  then show "map bi_values rows = map bi_values rows' \<Longrightarrow> ?thesis" by metis
qed

lemma snapshot_ok: "account_ok db \<Longrightarrow> account_ok (fst (save_account_browser_fingerprint_snapshot now i s db))"
proof (cases "get_row bi_account_id (ab_identities db) i")
  case (Some r)
  assume ok: "account_ok db"
  define r' where "r' = r\<lparr>bi_snapshot := Some (compared_snapshot (bi_snapshot r) s), bi_updated_at := now\<rparr>"
  have "map bi_values (put_row bi_account_id r' (ab_identities db)) = map bi_values (ab_identities db)"
    using ok Some by (intro map_put_row_same [OF _ Some]) (auto simp: account_ok_def r'_def dest: get_row_SomeD)
  from seeds_unchanged [OF this] ok Some show ?thesis
    by (simp add: save_account_browser_fingerprint_snapshot_def Let_def r'_def account_ok_def keys_distinct_put_row)
qed (simp add: save_account_browser_fingerprint_snapshot_def)

lemma distinct_seeds_filter: "distinct (seeds rows) \<Longrightarrow> distinct (seeds (filter P rows))"
  by (induction rows) (auto simp: seeds_def split: option.splits)

lemma deleted_rows_ok:
  assumes "account_ok db"
  shows "account_ok (delete_account_rows i db)"
proof -
  have "pool_ok (fst (delete_account i (ab_pool db)))"
    using assms by (metis account_ok_def delete_account_ok prod.collapse)
  with assms show ?thesis
    by (simp add: account_ok_def delete_account_rows_def distinct_seeds_filter keys_distinct_filter fst_delete_account)
qed

lemma reorder_bindings: "map ac_proxy_id (reorder_rows now k ids rows) = map ac_proxy_id rows"
  by (induction ids arbitrary: k rows) (simp_all add: set_row_def o_def if_distrib cong: if_cong)

lemma reorder_ok: "account_ok db \<Longrightarrow> reorder_accounts now ids db = Inr (db', rows) \<Longrightarrow> account_ok db'"
  by (auto simp: reorder_accounts_def with_accounts_def account_ok_def Let_def reorder_keys reorder_bindings
      intro!: pool_ok_same_bindings split: if_splits)

lemma identified_ok:
  "account_ok db \<Longrightarrow> update_account_platform_identity now i uid name avatar source db = Inr (db', r) \<Longrightarrow> account_ok db'"
  by (auto simp: update_account_platform_identity_def Let_def intro!: rewritten_account_ok split: if_splits option.splits)

lemma visibility_ok: "account_ok db \<Longrightarrow> account_ok (fst (update_account_workspace_visibility now i v db))"
  by (auto simp: update_account_workspace_visibility_def Let_def intro!: rewritten_account_ok split: option.split)

interpretation account_tables: invariant_system account_ok account_step account_ok
proof
  show "account_ok t" if "account_step s t" "account_ok s" for s t
    using that
  proof (induction rule: account_step.induct)
    case (pooled db pool)
    then show ?case by (auto simp: account_ok_def intro: pool.step_inv)
  qed (blast intro: create_account_ok import_account_ok update_account_ok visibility_ok identified_ok reorder_ok
      snapshot_ok deleted_rows_ok)+
qed

lemma seeds_own:
  assumes "distinct (seeds rows)" and "r \<in> set rows" and "r' \<in> set rows"
    and "iv_fingerprint_seed (bi_values r) = Some s" and "iv_fingerprint_seed (bi_values r') = Some s"
  shows "r = r'"
  using assms
proof (induction rows)
  case (Cons x rows)
  have mem: "s \<in> set (seeds rows)" if "y \<in> set rows" "iv_fingerprint_seed (bi_values y) = Some s" for y
    using that by (force simp: seeds_def)
  from Cons.prems Cons.IH mem show ?case by (auto simp: seeds_def split: option.splits)
qed simp

text \<open>C12. 
  Accounts stay separate under every operation on accounts and proxies (creation, import,
  update, login, deletion, changes of nodes): an account that is bound to a node is routed
  through it and no other account uses that node, and no two accounts share a fingerprint seed.
\<close>

theorem accounts_stay_separate:
  assumes "account_ok db0" and "account_step\<^sup>*\<^sup>* db0 db" and "a \<in> set (accounts (ab_pool db))"
  shows "(ac_proxy_id a = Some pid \<longrightarrow>
      fst (account_network_view (proxies (ab_pool db)) a) = Some pid
      \<and> validate_account_network_route (fst (account_network_view (proxies (ab_pool db)) a))
          (snd (account_network_view (proxies (ab_pool db)) a)) = Inr Socks5
      \<and> (\<forall>b\<in>set (accounts (ab_pool db)). ac_proxy_id b = Some pid \<longrightarrow> b = a))
    \<and> (account_seed db i = Some s \<longrightarrow> account_seed db j = Some s \<longrightarrow> i = j)"
proof -
  have ok: "account_ok db" using assms(1,2) by (rule account_tables.reachable_inv)
  then have pool: "pool_ok (ab_pool db)" by (simp add: account_ok_def)
  have "fst (account_network_view (proxies (ab_pool db)) a) = Some pid
      \<and> validate_account_network_route (fst (account_network_view (proxies (ab_pool db)) a))
          (snd (account_network_view (proxies (ab_pool db)) a)) = Inr Socks5
      \<and> (\<forall>b\<in>set (accounts (ab_pool db)). ac_proxy_id b = Some pid \<longrightarrow> b = a)" if pid: "ac_proxy_id a = Some pid"
  proof -
    from bound_view [OF pool assms(3) pid] obtain p
      where "get_row px_proxy_id (proxies (ab_pool db)) pid = Some p" "px_enabled p" "node_ok p" by blast
    moreover have "b = a" if "b \<in> set (accounts (ab_pool db))" "ac_proxy_id b = Some pid" for b
      by (rule proxy_ids_unique [OF pool_okD(4) [OF pool] that(1) assms(3) that(2) pid])
    ultimately show ?thesis using pid
      by (auto simp: account_network_view_def bound_proxy_def validate_account_network_route_def node_ok_def dest: get_row_SomeD)
  qed
  moreover have "i = j" if "account_seed db i = Some s" "account_seed db j = Some s"
  proof -
    from that obtain r r' where "get_row bi_account_id (ab_identities db) i = Some r" "iv_fingerprint_seed (bi_values r) = Some s"
      "get_row bi_account_id (ab_identities db) j = Some r'" "iv_fingerprint_seed (bi_values r') = Some s"
      by (auto simp: account_seed_def split: option.splits)
    moreover from this ok have "r = r'" by (auto simp: account_ok_def intro: seeds_own dest: get_row_SomeD)
    ultimately show ?thesis by (auto dest: get_row_SomeD)
  qed
  ultimately show ?thesis by blast
qed

lemma sample_account_db_ok: "account_ok sample_account_db"
  by code_simp

theorem accounts_stay_separate_witness:
  "case create_account 5 ''a1'' (new_account_request ''unb=7'' (Some ''p1'') (Some 3)) ''manual_update'' None sample_account_db of
     Inr (db, a) \<Rightarrow>
       validate_account_network_route (fst (account_network_view (proxies (ab_pool db)) a))
          (snd (account_network_view (proxies (ab_pool db)) a)) = Inr Socks5
       \<and> (case create_account 6 ''a2'' (new_account_request [] (Some ''p1'') None) ''manual_update'' None db of
            Inl e \<Rightarrow> e = PoolError (ProxyAssignmentConflict (Some ''node'') ''a1'') | Inr _ \<Rightarrow> False)
       \<and> (case create_account 6 ''a2'' (new_account_request [] None (Some 3)) ''manual_update'' None db of
            Inl e \<Rightarrow> e = SeedTaken | Inr _ \<Rightarrow> False)
   | Inl _ \<Rightarrow> False"
proof -
  define r where "r = create_account 5 ''a1'' (new_account_request ''unb=7'' (Some ''p1'') (Some 3)) ''manual_update'' None sample_account_db"
  have e: "case r of Inr (db, a) \<Rightarrow> ac_proxy_id a = Some ''p1'' \<and> accounts (ab_pool db) = [a]
       \<and> (case create_account 6 ''a2'' (new_account_request [] (Some ''p1'') None) ''manual_update'' None db of
            Inl e \<Rightarrow> e = PoolError (ProxyAssignmentConflict (Some ''node'') ''a1'') | Inr _ \<Rightarrow> False)
       \<and> (case create_account 6 ''a2'' (new_account_request [] None (Some 3)) ''manual_update'' None db of
            Inl e \<Rightarrow> e = SeedTaken | Inr _ \<Rightarrow> False)
     | Inl _ \<Rightarrow> False"
    unfolding r_def by code_simp
  then obtain db a where r: "r = Inr (db, a)" and a: "ac_proxy_id a = Some ''p1''" "accounts (ab_pool db) = [a]"
    by (auto split: sum.splits)
  have "account_unused ''a1'' sample_account_db" by (simp add: account_unused_def sample_account_db_def)
  from account_step.created [OF this r [unfolded r_def]] have st: "account_step\<^sup>*\<^sup>* sample_account_db db" by (rule r_into_rtranclp)
  have m: "a \<in> set (accounts (ab_pool db))" by (simp add: a)
  have "validate_account_network_route (fst (account_network_view (proxies (ab_pool db)) a))
      (snd (account_network_view (proxies (ab_pool db)) a)) = Inr Socks5"
    using accounts_stay_separate [OF sample_account_db_ok st m] a(1) by blast
  with e show ?thesis unfolding r_def [symmetric] r by (simp only: sum.case prod.case)
qed

section \<open>The user of a cookie\<close>

fun first_some :: "'a option list \<Rightarrow> 'a option" where
  "first_some [] = None"
| "first_some (None # vs) = first_some vs"
| "first_some (Some v # vs) = Some v"

lemma first_some_Cons: "first_some (v # vs) = (case v of None \<Rightarrow> first_some vs | Some w \<Rightarrow> Some w)"
  by (cases v) simp_all

lemma first_some_filter: "(case filter (\<lambda>v. v \<noteq> None) vs of [] \<Rightarrow> None | v # _ \<Rightarrow> v) = first_some vs"
  by (induction vs rule: first_some.induct) auto

lemma first_some_map: "map_option f (first_some vs) = first_some (map (map_option f) vs)"
  by (induction vs rule: first_some.induct) auto

lemma parts_takeWhile:
  "semicolon_parts t = takeWhile (\<lambda>c. c \<noteq> CHR '';'') t # tl (semicolon_parts t)"
  by (induction t) (auto split: list.split)

lemma unb_here_unb:
  "unb_here (''unb='' @ v) = (if takeWhile (\<lambda>c. c \<noteq> CHR '';'') v = [] then None else Some (takeWhile (\<lambda>c. c \<noteq> CHR '';'') v))"
  by (simp add: unb_here_def)

lemma unb_here_other: "(\<And>v. t \<noteq> ''unb='' @ v) \<Longrightarrow> unb_here t = None"
  unfolding unb_here_def by (metis append_take_drop_id)

lemma unb_here_part: "unb_here t = unb_here (takeWhile (\<lambda>c. c \<noteq> CHR '';'') t)"
proof (cases "\<exists>v. t = ''unb='' @ v")
  case True
  then obtain v where v: "t = ''unb='' @ v" by blast
  then have "takeWhile (\<lambda>c. c \<noteq> CHR '';'') t = ''unb='' @ takeWhile (\<lambda>c. c \<noteq> CHR '';'') v" by simp
  then show ?thesis unfolding v unb_here_unb by (simp only: unb_here_unb takeWhile_idem)
next
  case False
  then have "takeWhile (\<lambda>c. c \<noteq> CHR '';'') t \<noteq> ''unb='' @ v" for v
    by (metis append.assoc takeWhile_dropWhile_id)
  with False unb_here_other [of t] unb_here_other [of "takeWhile (\<lambda>c. c \<noteq> CHR '';'') t"] show ?thesis by auto
qed

lemma drop_space_part:
  "takeWhile (\<lambda>c. c \<noteq> CHR '';'') (dropWhile py_space t) = dropWhile py_space (takeWhile (\<lambda>c. c \<noteq> CHR '';'') t)"
  by (induction t) (auto simp: py_space_def)

definition unb_raw :: "string \<Rightarrow> string option" where
  "unb_raw part = unb_here (dropWhile py_space part)"

lemma unb_later_parts: "unb_later t = first_some (map unb_raw (tl (semicolon_parts t)))"
proof (induction t)
  case (Cons c t)
  show ?case
  proof (cases "c = CHR '';''")
    case True
    have "unb_here (dropWhile py_space t) = unb_raw (takeWhile (\<lambda>c. c \<noteq> CHR '';'') t)"
      unfolding unb_raw_def using unb_here_part [of "dropWhile py_space t"] by (simp add: drop_space_part)
    then have "first_some (map unb_raw (semicolon_parts t)) =
        (case unb_here (dropWhile py_space t) of None \<Rightarrow> unb_later t | Some v \<Rightarrow> Some v)"
      by (subst parts_takeWhile) (simp add: first_some_Cons Cons.IH split: option.split)
    with True show ?thesis by simp
  next
    case False
    then have "tl (semicolon_parts (c # t)) = tl (semicolon_parts t)" by (auto split: list.split)
    with False Cons.IH show ?thesis by simp
  qed
qed simp

text \<open>
  A cookie that does not start with a space, and in which no value of \<open>unb\<close> is only spaces.
\<close>

definition plain_part :: "string \<Rightarrow> bool" where
  "plain_part p \<longleftrightarrow> (strip p = ''unb='' \<longrightarrow> dropWhile py_space p = ''unb='')"

definition plain_cookie :: "string \<Rightarrow> bool" where
  "plain_cookie c \<longleftrightarrow> dropWhile py_space c = c \<and> list_all plain_part (semicolon_parts c)"

definition rstrip :: "string \<Rightarrow> string" where
  "rstrip s = rev (dropWhile py_space (rev s))"

lemma strip_rstrip: "strip s = rstrip (dropWhile py_space s)"
  by (simp add: strip_def rstrip_def)

lemma rstrip_prefix: "\<exists>w. s = rstrip s @ w"
  unfolding rstrip_def by (metis rev_append rev_rev_ident takeWhile_dropWhile_id)

lemma rstrip_unb: "rstrip (''unb='' @ v) = ''unb='' @ rstrip v"
proof -
  have "\<not> py_space (CHR ''='')" by (simp add: py_space_def)
  then show ?thesis by (simp add: rstrip_def dropWhile_append)
qed

lemma rstrip_idem: "rstrip (rstrip s) = rstrip s"
  by (simp add: rstrip_def dropWhile_idem)

lemma rstrip_Cons: "rstrip (c # s) = (if rstrip s = [] \<and> py_space c then [] else c # rstrip s)"
  by (auto simp: rstrip_def dropWhile_append dropWhile_eq_Nil_conv)

lemma strip_of_rstrip: "strip (rstrip s) = strip s"
proof (induction s)
  case (Cons c s)
  then have "rstrip s = [] \<Longrightarrow> strip s = []" by simp
  with Cons.IH show ?case
    by (cases "py_space c") (auto simp: strip_rstrip rstrip_Cons rstrip_idem)
qed (simp add: rstrip_def)

lemma strip_empty: "strip v = [] \<Longrightarrow> rstrip v = []"
proof (induction v)
  case (Cons c v)
  then show ?case by (cases "py_space c") (simp_all add: strip_rstrip rstrip_Cons split: if_splits)
qed (simp add: rstrip_def)

lemma unb_part_raw:
  assumes "plain_part p" and "CHR '';'' \<notin> set p"
  shows "unb_part p = map_option strip (unb_raw p)"
proof (cases "\<exists>v. dropWhile py_space p = ''unb='' @ v")
  case True
  then obtain v where v: "dropWhile py_space p = ''unb='' @ v" by blast
  then have s: "strip p = ''unb='' @ rstrip v" by (simp only: strip_rstrip rstrip_unb)
  have "set (''unb='' @ v) \<subseteq> set p" unfolding v [symmetric] by (auto dest: set_dropWhileD)
  then have "CHR '';'' \<notin> set v" using assms(2) by auto
  then have t: "takeWhile (\<lambda>c. c \<noteq> CHR '';'') v = v" by (auto simp: takeWhile_eq_all_conv)
  have "v = []" if "strip v = []"
  proof -
    have "rstrip v = []" using that by (rule strip_empty)
    with s v assms(1) show ?thesis by (simp add: plain_part_def)
  qed
  then have "unb_raw p = (if strip v = [] then None else Some v)"
    unfolding unb_raw_def v unb_here_unb t by auto
  moreover have "unb_part p = (if strip v = [] then None else Some (strip v))"
    by (simp add: unb_part_def s Let_def strip_of_rstrip)
  ultimately show ?thesis by simp
next
  case False
  have n: "strip p \<noteq> ''unb='' @ w" for w
  proof
    assume w: "strip p = ''unb='' @ w"
    obtain x where "dropWhile py_space p = strip p @ x" using rstrip_prefix unfolding strip_rstrip by blast
    with w False show False by simp
  qed
  have "\<not> (takeWhile (\<lambda>c. c \<noteq> CHR ''='') (strip p) = ''unb'' \<and> dropWhile (\<lambda>c. c \<noteq> CHR ''='') (strip p) \<noteq> [])"
  proof
    assume u: "takeWhile (\<lambda>c. c \<noteq> CHR ''='') (strip p) = ''unb'' \<and> dropWhile (\<lambda>c. c \<noteq> CHR ''='') (strip p) \<noteq> []"
    then obtain d w where d: "dropWhile (\<lambda>c. c \<noteq> CHR ''='') (strip p) = d # w" by (meson neq_Nil_conv)
    with hd_dropWhile [of "\<lambda>c. c \<noteq> CHR ''=''" "strip p"] have "d = CHR ''=''" by simp
    with d u takeWhile_dropWhile_id [of "\<lambda>c. c \<noteq> CHR ''=''" "strip p"] have "strip p = ''unb='' @ w" by simp
    with n show False by blast
  qed
  then have "unb_part p = None" unfolding unb_part_def Let_def by (simp only: if_False)
  moreover have "unb_raw p = None" using False by (simp add: unb_raw_def unb_here_other)
  ultimately show ?thesis by simp
qed

lemma cookie_match_parts:
  assumes "dropWhile py_space c = c"
  shows "cookie_match c = map_option strip (first_some (map unb_raw (semicolon_parts c)))"
proof -
  have "unb_here c = unb_raw (takeWhile (\<lambda>d. d \<noteq> CHR '';'') c)"
    unfolding unb_raw_def drop_space_part [symmetric] assms by (rule unb_here_part)
  then have "first_some (map unb_raw (semicolon_parts c)) = (case unb_here c of None \<Rightarrow> unb_later c | Some v \<Rightarrow> Some v)"
    by (subst parts_takeWhile) (simp add: first_some_Cons unb_later_parts split: option.split)
  then show ?thesis by (simp add: cookie_match_def)
qed

lemma plain_readings: "plain_cookie c \<Longrightarrow> cookie_match c = cookie_user_id c"
proof -
  assume c: "plain_cookie c"
  have "map unb_part (semicolon_parts c) = map (map_option strip) (map unb_raw (semicolon_parts c))"
    using c parts_no_semicolon [of _ c] by (auto simp: plain_cookie_def list_all_iff unb_part_raw)
  with c show ?thesis
    unfolding cookie_user_id_def first_some_filter
    by (simp only: cookie_match_parts plain_cookie_def first_some_map)
qed

text \<open>
  The store finds the platform user of a cookie with a regular expression, the preview of an
  import by splitting it: both agree on every cookie that does not start with a space and has
  no blank value of \<open>unb\<close>.
\<close>

theorem cookie_user_readings_agree:
  assumes "plain_cookie c"
  shows "cookie_match c = cookie_user_id c"
  using assms by (rule plain_readings)

theorem cookie_user_readings_agree_witness:
  "cookie_match ''cna=x; unb=22 ;t=1'' = cookie_user_id ''cna=x; unb=22 ;t=1'' \<and> cookie_user_id ''cna=x; unb=22 ;t=1'' = Some ''22''"
proof
  have "plain_cookie ''cna=x; unb=22 ;t=1''" by code_simp
  then show "cookie_match ''cna=x; unb=22 ;t=1'' = cookie_user_id ''cna=x; unb=22 ;t=1''" by (rule cookie_user_readings_agree)
  show "cookie_user_id ''cna=x; unb=22 ;t=1'' = Some ''22''" by code_simp
qed

section \<open>A clean preview is imported\<close>

lemma list_accounts_set: "set (list_accounts db) = set (accounts (ab_pool db))"
proof -
  have ins: "set (insert_account a bs) = insert a (set bs)" for a bs by (induction bs) auto
  have "set (foldr insert_account as []) = set as" for as by (induction as) (auto simp: ins)
  then show ?thesis by (simp add: list_accounts_def)
qed

lemma no_conflicts:
  assumes "preview_conflicts m db = []" and "a \<in> set (accounts (ab_pool db))"
  shows "truthy (migrated_user_id m) \<Longrightarrow> migrated_user_id m \<noteq> ac_platform_user_id a \<and> migrated_user_id m \<noteq> cookie_user_id (ac_cookie a)"
    and "iv_fingerprint_seed (ma_identity m) \<noteq> None \<Longrightarrow> iv_fingerprint_seed (ma_identity m) \<noteq> account_seed db (ac_account_id a)"
  using assms by (auto simp: preview_conflicts_def list_accounts_set [symmetric] split: if_splits)

text \<open>
  The tables and the archive as the writers of identities leave them: no spaces around an
  identity, plain cookies, one user per archive, every identity row with its account.
\<close>

definition normal_tables :: "account_db \<Rightarrow> bool" where
  "normal_tables db \<longleftrightarrow> list_all (\<lambda>a. normal_id (ac_platform_user_id a) = ac_platform_user_id a \<and> plain_cookie (ac_cookie a))
       (accounts (ab_pool db))
     \<and> list_all (\<lambda>r. get_row ac_account_id (accounts (ab_pool db)) (bi_account_id r) \<noteq> None) (ab_identities db)"

definition normal_archive :: "migrated_account \<Rightarrow> bool" where
  "normal_archive m \<longleftrightarrow> normal_id (ma_platform_user_id m) = ma_platform_user_id m \<and> plain_cookie (ma_cookie m)
     \<and> (ma_platform_user_id m = None \<or> cookie_user_id (ma_cookie m) = None \<or> ma_platform_user_id m = cookie_user_id (ma_cookie m))"

lemma strip_strip: "strip (strip s) = strip s"
  by (metis strip_of_rstrip strip_rstrip rstrip_idem dropWhile_idem)

lemma normal_id_idem: "normal_id (normal_id s) = normal_id s"
  by (simp add: normal_id_def Let_def strip_strip)

lemma first_some_mem: "first_some vs = Some v \<Longrightarrow> Some v \<in> set vs"
  by (induction vs rule: first_some.induct) auto

lemma cookie_user_id_normal: "cookie_user_id c = Some v \<Longrightarrow> normal_id (Some v) = Some v"
proof -
  assume "cookie_user_id c = Some v"
  then have "Some v \<in> set (map unb_part (semicolon_parts c))"
    unfolding cookie_user_id_def first_some_filter by (rule first_some_mem)
  then show ?thesis by (auto simp: unb_part_def Let_def normal_id_def strip_strip split: if_splits)
qed

lemma migrated_user_normal:
  assumes "normal_archive m"
  shows "normal_id (migrated_user_id m) = migrated_user_id m"
  using assms cookie_user_id_normal
  by (cases "cookie_user_id (ma_cookie m)") (auto simp: migrated_user_id_def normal_archive_def normal_id_def)

lemma normal_id_truthy: "normal_id s = s \<Longrightarrow> s \<noteq> None \<Longrightarrow> truthy s"
  by (cases s) (auto simp: normal_id_def Let_def split: if_splits)

lemma migrated_user_cookie:
  assumes "normal_archive m"
  shows "migrated_user_id m = None \<Longrightarrow> cookie_match (ma_cookie m) = None"
    and "truthy (cookie_match (ma_cookie m)) \<Longrightarrow> migrated_user_id m = cookie_match (ma_cookie m)"
proof -
  have c: "cookie_match (ma_cookie m) = cookie_user_id (ma_cookie m)"
    using assms by (metis normal_archive_def plain_readings)
  have "truthy (ma_platform_user_id m) \<longleftrightarrow> ma_platform_user_id m \<noteq> None"
    using assms normal_id_truthy [of "ma_platform_user_id m"] by (cases "ma_platform_user_id m") (auto simp: normal_archive_def)
  with assms show "migrated_user_id m = None \<Longrightarrow> cookie_match (ma_cookie m) = None"
    "truthy (cookie_match (ma_cookie m)) \<Longrightarrow> migrated_user_id m = cookie_match (ma_cookie m)"
    unfolding c by (auto simp: migrated_user_id_def normal_archive_def split: if_splits)
qed

lemma clean_user_unknown:
  assumes "normal_tables db" and "preview_conflicts m db = []" and "truthy (migrated_user_id m)"
  shows "find (known_account (the (migrated_user_id m))) (accounts (ab_pool db)) = None"
proof -
  have "\<not> known_account (the (migrated_user_id m)) a" if a: "a \<in> set (accounts (ab_pool db))" for a
  proof -
    have "normal_id (ac_platform_user_id a) = ac_platform_user_id a" "cookie_match (ac_cookie a) = cookie_user_id (ac_cookie a)"
      using assms(1) a plain_readings by (auto simp: normal_tables_def list_all_iff)
    with no_conflicts(1) [OF assms(2) a assms(3)] assms(3) show ?thesis
      by (auto simp: known_account_def truthy_def split: option.splits)
  qed
  then show ?thesis by (simp add: find_None_iff)
qed

lemma clean_seed_free:
  assumes "normal_tables db" and "account_ok db" and "preview_conflicts m db = []"
    and "iv_fingerprint_seed (ma_identity m) = Some s"
  shows "s \<notin> set (seeds (ab_identities db))"
proof
  assume "s \<in> set (seeds (ab_identities db))"
  then obtain r where r: "r \<in> set (ab_identities db)" "iv_fingerprint_seed (bi_values r) = Some s"
    by (auto simp: seeds_def split: option.splits)
  with assms(1) obtain a where a: "a \<in> set (accounts (ab_pool db))" "ac_account_id a = bi_account_id r"
    by (auto simp: normal_tables_def list_all_iff dest!: get_row_SomeD)
  have "get_row bi_account_id (ab_identities db) (bi_account_id r) = Some r"
    using assms(2) r(1) by (intro get_row_distinct) (simp_all add: account_ok_def)
  with r a have "account_seed db (ac_account_id a) = Some s" by (simp add: account_seed_def)
  with no_conflicts(2) [OF assms(3) a(1)] assms(4) show False by simp
qed

lemma fresh_proxy_unbound:
  assumes "pool_ok pool" and "get_row px_proxy_id (proxies pool) pid = None"
  shows "pid \<notin> set (proxy_ids (accounts pool))"
proof
  assume "pid \<in> set (proxy_ids (accounts pool))"
  then obtain a where "a \<in> set (accounts pool)" "ac_proxy_id a = Some pid"
    by (auto simp: proxy_ids_def split: option.splits)
  with pool_okD(6) [OF assms(1)] assms(2) show False by (auto simp: list_all_iff binding_ok_def)
qed

lemma seed_taken_seeds: "seed_taken seed i rows \<Longrightarrow> \<exists>s. seed = Some s \<and> s \<in> set (seeds rows)"
  by (force simp: seed_taken_def list_ex_iff seeds_def)

lemma imported_tables_accounts:
  "accounts (ab_pool (fst (imported_tables now i pid p uid name avatar proxy db))) =
     accounts (ab_pool db) @ [snd (imported_tables now i pid p uid name avatar proxy db)]"
  "ac_proxy_id (snd (imported_tables now i pid p uid name avatar proxy db)) = map_option (\<lambda>_. pid) proxy"
  "ac_account_id (snd (imported_tables now i pid p uid name avatar proxy db)) = i"
  "ab_identities (fst (imported_tables now i pid p uid name avatar proxy db)) =
     ab_identities db @ [new_browser_identity_row i (cc_identity p) now]"
  by (simp_all add: imported_tables_def Let_def add_account_def with_imported_proxy_def split: option.split)

text \<open>
  An import whose preview shows no conflict succeeds: when the browser is there (or the account
  stays disabled) and the name of the archived proxy is free, the store accepts it.
\<close>

theorem clean_preview_is_imported:
  assumes tabs: "normal_tables db" "account_ok db" and arch: "normal_archive m"
    and new: "account_unused i db" "get_row px_proxy_id (proxies (ab_pool db)) pid = None"
    and clean: "preview_conflicts m db = []"
    and enable: "ir_enable_after_import q \<Longrightarrow> ma_cookie m \<noteq> [] \<and> migration_browser_available bm (ma_identity m)"
    and name: "\<And>c. ma_proxy m = Some c \<Longrightarrow> ir_import_proxy q \<Longrightarrow> get_row px_name (proxies (ab_pool db)) (pn_name c) = None"
  shows "\<exists>db' row. import_account_migration bm now i pid True q m db = (db', Inr (Some row)) \<and> ac_account_id row = i
    \<and> accounts (ab_pool db') = accounts (ab_pool db) @ [row]"
proof -
  define proxy where "proxy = (if ir_import_proxy q then map_option (\<lambda>c. c\<lparr>pn_enabled := True\<rparr>) (ma_proxy m) else None)"
  define p where "p = import_payload q m"
  define r where "r = imported_tables now i pid p (migrated_user_id m) (ma_platform_display_name m) (ma_platform_avatar_url m) proxy db"
  have pp: "cc_cookie p = ma_cookie m" "cc_identity p = ma_identity m" by (simp_all add: p_def import_payload_def)
  note r_acc = imported_tables_accounts [of now i pid p "migrated_user_id m" "ma_platform_display_name m"
      "ma_platform_avatar_url m" proxy db, folded r_def]
  have uid: "import_user_id p (migrated_user_id m) = migrated_user_id m"
    using migrated_user_normal [OF arch] migrated_user_cookie(1) [OF arch] by (simp add: import_user_id_def pp)
  have pname: "get_row px_name (proxies (ab_pool db)) (pn_name c) = None" if "proxy = Some c" for c
    using that name by (auto simp: proxy_def split: if_splits)
  have seed: "\<not> seed_taken (iv_fingerprint_seed (ma_identity m)) i (ab_identities db)"
    using clean_seed_free [OF tabs clean] by (auto dest: seed_taken_seeds)
  have "distinct (proxy_ids (accounts (ab_pool (fst r))))"
    using tabs(2) fresh_proxy_unbound [OF _ new(2)] r_acc(2)
    by (auto simp: r_acc(1) proxy_ids_def account_ok_def pool_ok_def split: option.splits)
  moreover have "distinct (seeds (ab_identities (fst r)))"
    using tabs(2) clean_seed_free [OF tabs clean]
    by (auto simp: r_acc(4) seeds_def new_browser_identity_row_def pp account_ok_def split: option.splits)
  ultimately have "import_migrated_account now i pid p (migrated_user_id m) (ma_platform_display_name m)
      (ma_platform_avatar_url m) proxy db = Inr r"
    using seed pname clean_user_unknown [OF tabs(1) clean] migrated_user_normal [OF arch] migrated_user_cookie(2) [OF arch]
    unfolding import_migrated_account_def uid r_def [symmetric] pp
    by (auto simp: case_prod_beta split: option.split)
  moreover have "(case proxy of None \<Rightarrow> False | Some c \<Rightarrow> list_ex (\<lambda>x. px_name x = pn_name c) (proxies (ab_pool db))) = False"
    using pname by (auto simp: list_ex_iff split: option.split) (metis get_row_None_iff imageI)
  ultimately have "import_account_migration bm now i pid True q m db = (fst r, Inr (Some (snd r)))"
    using clean enable unfolding import_account_migration_def Let_def proxy_def [symmetric] p_def [symmetric]
    by (auto simp: case_prod_beta)
  with r_acc show ?thesis by blast
qed

theorem clean_preview_is_imported_witness:
  "\<exists>db' row. import_account_migration sample_managers 5 ''a1'' ''p2'' True sample_import sample_archive sample_account_db
     = (db', Inr (Some row)) \<and> ac_account_id row = ''a1'' \<and> accounts (ab_pool db') = [row]"
proof -
  have t: "normal_tables sample_account_db" "normal_archive sample_archive" "preview_conflicts sample_archive sample_account_db = []"
    by code_simp+
  have u: "account_unused ''a1'' sample_account_db" "get_row px_proxy_id (proxies (ab_pool sample_account_db)) ''p2'' = None"
    by (simp_all add: account_unused_def sample_account_db_def sample_node_def)
  have e: "ma_cookie sample_archive \<noteq> [] \<and> migration_browser_available sample_managers (ma_identity sample_archive)" by code_simp
  have "accounts (ab_pool sample_account_db) = []" by (simp add: sample_account_db_def)
  moreover have "get_row px_name (proxies (ab_pool sample_account_db)) (pn_name c) = None" if "ma_proxy sample_archive = Some c" for c
    using that by (auto simp: sample_archive_def sample_account_db_def sample_node_def)
  ultimately show ?thesis
    using clean_preview_is_imported [OF t(1) sample_account_db_ok t(2) u t(3) e, of sample_import 5] by (metis append_Nil)
qed

section \<open>What is not checked\<close>

text \<open>
  The update of an account takes the cookie of any platform user. When it belongs to another
  user than the one that was recorded, the identity of the account can never be refreshed
  again: every later report is refused.
\<close>

theorem foreign_cookie_blocks_identity:
  assumes a: "get_row ac_account_id (accounts (ab_pool db)) i = Some a" "ac_platform_user_id a = Some old" "old \<noteq> []"
    and u: "cu_cookie u = Some c" "c \<noteq> ac_cookie a" "cookie_match c = Some new" "new \<noteq> []" "new \<noteq> old"
    and ok: "update_account message now i u source db = Inr (db', r)"
  shows "\<exists>e. update_account_platform_identity later i uid name avatar src db' = Inl e"
proof -
  from ok a have g: "get_row ac_account_id (accounts (ab_pool db')) i = Some (updated_account now u source a)"
    unfolding update_account_def Let_def
    by (auto split: if_splits sum.splits option.splits dest!: map_sum_id_Inr committed(1)
        simp: get_put_row updated_account_key dest: get_row_SomeD)
  have "ac_platform_user_id (updated_account now u source a) = Some old" "ac_cookie (updated_account now u source a) = c"
    using a(2) u(1,2) by (simp_all add: updated_account_def Let_def clear_legacy_proxy_def cookie_changes_def split: option.split)
  with g a u show ?thesis by (auto simp: update_account_platform_identity_def)
qed

end
