(* ===== verification/BackgroundTasks.thy ===== *)
theory BackgroundTasks
  imports Accounts "HOL-Library.Product_Lexorder"
begin

text \<open>
  The durable background tasks of \<open>store.py\<close>: rows of \<open>BackgroundTaskORM\<close> that the API creates
  and the workers claim under a lease, renew, and finish. Redis only carries task ids, so
  the rows are the whole state. Every operation is one transaction on the table.
\<close>

section \<open>State and operations\<close>

datatype task_status = Pending | Running | Success | Failed | Cancelled

record task_row =
  tk_task_id :: string
  tk_account_id :: "string option"
  tk_task_type :: string
  tk_dedupe_key :: "string option"
  tk_status :: task_status
  tk_payload :: "string option"
  tk_result :: "string option"
  tk_error :: "string option"
  tk_worker_id :: "string option"
  tk_lease_expires_at :: "timestamp option"
  tk_run_after :: "timestamp option"
  tk_attempt_count :: int
  tk_created_at :: timestamp
  tk_updated_at :: timestamp
  tk_queued_at :: "timestamp option"
  tk_started_at :: "timestamp option"
  tk_finished_at :: "timestamp option"

type_synonym task_table = "task_row list"

record task_create =
  tc_account_id :: "string option"
  tc_task_type :: string
  tc_dedupe_key :: "string option"
  tc_payload :: "string option"
  tc_run_after :: "timestamp option"

datatype create_result =
    AccountMissing
  | ExistingTask task_row
  | CreatedTask task_row
  | DuplicateKeyError

definition new_task_row :: "string \<Rightarrow> timestamp \<Rightarrow> task_create \<Rightarrow> task_row" where
  "new_task_row fresh_id now payload = \<lparr>tk_task_id = fresh_id,
     tk_account_id = tc_account_id payload, tk_task_type = tc_task_type payload,
     tk_dedupe_key = tc_dedupe_key payload, tk_status = Pending,
     tk_payload = tc_payload payload, tk_result = None, tk_error = None, tk_worker_id = None,
     tk_lease_expires_at = None, tk_run_after = tc_run_after payload, tk_attempt_count = 0,
     tk_created_at = now, tk_updated_at = now, tk_queued_at = None, tk_started_at = None,
     tk_finished_at = None\<rparr>"

text \<open>
  \<open>_create_background_task_sync\<close>: the table afterwards and what is returned. The unique
  index on \<open>dedupe_key\<close> is checked at the commit.
\<close>

definition create_background_task ::
  "string \<Rightarrow> timestamp \<Rightarrow> account_row list \<Rightarrow> task_create \<Rightarrow> task_table \<Rightarrow> task_table \<times> create_result"
where
  "create_background_task fresh_id now accounts payload t =
     (if truthy (tc_account_id payload)
         \<and> get_row ac_account_id accounts (the (tc_account_id payload)) = None
      then (t, AccountMissing)
      else
        case (if truthy (tc_dedupe_key payload)
              then get_row tk_dedupe_key t (tc_dedupe_key payload) else None) of
          Some existing \<Rightarrow> (t, ExistingTask existing)
        | None \<Rightarrow>
            if tc_dedupe_key payload \<noteq> None
               \<and> get_row tk_dedupe_key t (tc_dedupe_key payload) \<noteq> None
            then (t, DuplicateKeyError)
            else (t @ [new_task_row fresh_id now payload],
                  CreatedTask (new_task_row fresh_id now payload)))"

definition retry_values :: "timestamp \<Rightarrow> task_row \<Rightarrow> task_row" where
  "retry_values now row = row\<lparr>tk_status := Pending, tk_error := None, tk_result := None,
     tk_queued_at := None, tk_started_at := None, tk_finished_at := None, tk_worker_id := None,
     tk_lease_expires_at := None, tk_updated_at := now\<rparr>"

definition reset_background_task_for_retry ::
  "timestamp \<Rightarrow> string \<Rightarrow> task_table \<Rightarrow> task_table \<times> task_row option" where
  "reset_background_task_for_retry now task_id t =
     (case get_row tk_task_id t task_id of
        None \<Rightarrow> (t, None)
      | Some row \<Rightarrow>
          if tk_status row = Failed
          then (set_row tk_task_id t task_id (retry_values now), Some (retry_values now row))
          else (t, Some row))"

definition queued_values :: "timestamp \<Rightarrow> task_row \<Rightarrow> task_row" where
  "queued_values now row = row\<lparr>tk_queued_at := Some now, tk_updated_at := now\<rparr>"

definition mark_background_task_queued ::
  "timestamp \<Rightarrow> string \<Rightarrow> task_table \<Rightarrow> task_table \<times> task_row option" where
  "mark_background_task_queued now task_id t =
     (case get_row tk_task_id t task_id of
        None \<Rightarrow> (t, None)
      | Some row \<Rightarrow>
          if tk_status row = Pending \<and> tk_queued_at row = None
          then (set_row tk_task_id t task_id (queued_values now), Some (queued_values now row))
          else (t, Some row))"

definition get_background_task :: "string \<Rightarrow> task_table \<Rightarrow> task_row option" where
  "get_background_task task_id t = get_row tk_task_id t task_id"

definition is_due :: "timestamp \<Rightarrow> task_row \<Rightarrow> bool" where
  "is_due now row \<longleftrightarrow> (case tk_run_after row of None \<Rightarrow> True | Some r \<Rightarrow> r \<le> now)"

definition due_key :: "task_row \<Rightarrow> timestamp \<times> timestamp" where
  "due_key row = ((case tk_run_after row of None \<Rightarrow> tk_created_at row | Some r \<Rightarrow> r), tk_created_at row)"

definition get_next_pending_background_task ::
  "timestamp \<Rightarrow> string list \<Rightarrow> task_table \<Rightarrow> task_row option" where
  "get_next_pending_background_task now exclude_task_ids t =
     first_by due_key (filter (\<lambda>row. tk_status row = Pending \<and> is_due now row
        \<and> tk_task_id row \<notin> set exclude_task_ids) t)"

definition bounded_lease_seconds :: "int \<Rightarrow> int" where
  "bounded_lease_seconds n = max 1 (min n 900)"

definition claim_where :: "timestamp \<Rightarrow> string \<Rightarrow> task_row \<Rightarrow> bool" where
  "claim_where now task_id row \<longleftrightarrow>
     tk_task_id row = task_id \<and> tk_status row = Pending \<and> is_due now row"

definition claim_values :: "timestamp \<Rightarrow> string option \<Rightarrow> int \<Rightarrow> task_row \<Rightarrow> task_row" where
  "claim_values now worker_id lease_seconds row = row\<lparr>tk_status := Running, tk_error := None,
     tk_worker_id := worker_id,
     tk_lease_expires_at := (if truthy worker_id
        then Some (now + seconds (bounded_lease_seconds lease_seconds)) else None),
     tk_attempt_count := tk_attempt_count row + 1, tk_started_at := Some now,
     tk_updated_at := now\<rparr>"

definition claim_background_task ::
  "timestamp \<Rightarrow> string \<Rightarrow> string option \<Rightarrow> int \<Rightarrow> task_table \<Rightarrow> task_table \<times> task_row option" where
  "claim_background_task now task_id worker_id lease_seconds t =
     (let t' = update_where (claim_where now task_id) (claim_values now worker_id lease_seconds) t
      in if rowcount (claim_where now task_id) t \<noteq> 1 then (t, None)
         else (t', get_row tk_task_id t' task_id))"

definition owned_where :: "string \<Rightarrow> string \<Rightarrow> task_row \<Rightarrow> bool" where
  "owned_where task_id worker_id row \<longleftrightarrow>
     tk_task_id row = task_id \<and> tk_status row = Running \<and> tk_worker_id row = Some worker_id"

definition renew_values :: "timestamp \<Rightarrow> int \<Rightarrow> task_row \<Rightarrow> task_row" where
  "renew_values now lease_seconds row = row\<lparr>
     tk_lease_expires_at := Some (now + seconds (bounded_lease_seconds lease_seconds)),
     tk_updated_at := now\<rparr>"

definition renew_background_task_lease ::
  "timestamp \<Rightarrow> string \<Rightarrow> string \<Rightarrow> int \<Rightarrow> task_table \<Rightarrow> task_table \<times> bool" where
  "renew_background_task_lease now task_id worker_id lease_seconds t =
     (if rowcount (owned_where task_id worker_id) t \<noteq> 1 then (t, False)
      else (update_where (owned_where task_id worker_id) (renew_values now lease_seconds) t, True))"

definition lease_expired_message :: string where
  "lease_expired_message =
     ''worker lease expired; external result is uncertain and was not replayed''"

definition stale_where :: "timestamp \<Rightarrow> task_row \<Rightarrow> bool" where
  "stale_where checked_at row \<longleftrightarrow> tk_status row = Running
     \<and> (case tk_lease_expires_at row of None \<Rightarrow> False | Some e \<Rightarrow> e \<le> checked_at)"

definition stale_values :: "timestamp \<Rightarrow> task_row \<Rightarrow> task_row" where
  "stale_values checked_at row = row\<lparr>tk_status := Failed, tk_result := None,
     tk_error := Some lease_expired_message, tk_lease_expires_at := None,
     tk_finished_at := Some checked_at, tk_updated_at := checked_at\<rparr>"

definition fail_stale_background_tasks :: "timestamp \<Rightarrow> task_table \<Rightarrow> task_table \<times> nat" where
  "fail_stale_background_tasks checked_at t =
     (update_where (stale_where checked_at) (stale_values checked_at) t,
      rowcount (stale_where checked_at) t)"

definition normalized_status :: "string \<Rightarrow> task_status" where
  "normalized_status s =
     (if s = ''pending'' then Pending else if s = ''running'' then Running
      else if s = ''success'' then Success else if s = ''failed'' then Failed
      else if s = ''cancelled'' then Cancelled else Failed)"

definition terminal :: "task_status \<Rightarrow> bool" where
  "terminal s \<longleftrightarrow> s = Success \<or> s = Failed \<or> s = Cancelled"

text \<open>The assignments made on behalf of a worker, and those made without one.\<close>

definition worker_finish_values ::
  "timestamp \<Rightarrow> task_status \<Rightarrow> string option \<Rightarrow> string option \<Rightarrow> task_row \<Rightarrow> task_row" where
  "worker_finish_values now s result error row =
     (let r1 = row\<lparr>tk_status := s, tk_result := result, tk_error := error, tk_updated_at := now,
            tk_lease_expires_at := None\<rparr>;
          r2 = (if terminal s then r1\<lparr>tk_finished_at := Some now\<rparr> else r1)
      in if s = Pending
         then r2\<lparr>tk_started_at := None, tk_finished_at := None, tk_worker_id := None\<rparr> else r2)"

definition plain_finish_values ::
  "timestamp \<Rightarrow> task_status \<Rightarrow> string option \<Rightarrow> string option \<Rightarrow> task_row \<Rightarrow> task_row" where
  "plain_finish_values now s result error row =
     (let r1 = row\<lparr>tk_status := s, tk_result := result, tk_error := error, tk_updated_at := now\<rparr>;
          r2 = (if terminal s then r1\<lparr>tk_finished_at := Some now, tk_lease_expires_at := None\<rparr>
                else r1)
      in if s = Pending
         then r2\<lparr>tk_started_at := None, tk_finished_at := None, tk_worker_id := None,
                 tk_lease_expires_at := None\<rparr> else r2)"

definition finish_background_task ::
  "timestamp \<Rightarrow> string \<Rightarrow> string \<Rightarrow> string option \<Rightarrow> string option \<Rightarrow> string option
   \<Rightarrow> task_table \<Rightarrow> task_table \<times> task_row option" where
  "finish_background_task now task_id status result error worker_id t =
     (let s = normalized_status status in
      if truthy worker_id
      then let p = owned_where task_id (the worker_id);
               t' = update_where p (worker_finish_values now s result error) t
           in if rowcount p t \<noteq> 1 then (t, None) else (t', get_row tk_task_id t' task_id)
      else case get_row tk_task_id t task_id of
             None \<Rightarrow> (t, None)
           | Some row \<Rightarrow>
               (set_row tk_task_id t task_id (plain_finish_values now s result error),
                Some (plain_finish_values now s result error row)))"

text \<open>The page of tasks an administrator sees: newest first, at most 500.\<close>

definition list_background_tasks :: "string option \<Rightarrow> int \<Rightarrow> task_table \<Rightarrow> task_row list" where
  "list_background_tasks account_id limit t =
     take (nat (max 1 (min limit 500)))
       (sort_key (\<lambda>r. - tk_created_at r)
         (if truthy account_id then filter (\<lambda>r. tk_account_id r = account_id) t else t))"

section \<open>The invariant of the table\<close>

definition row_ok :: "task_row \<Rightarrow> bool" where
  "row_ok r \<longleftrightarrow>
     (if tk_status r = Pending
      then tk_worker_id r = None \<and> tk_lease_expires_at r = None
         \<and> tk_started_at r = None \<and> tk_finished_at r = None else True)
     \<and> (tk_lease_expires_at r = None \<or> (tk_status r = Running \<and> tk_worker_id r \<noteq> None))
     \<and> (if terminal (tk_status r) then tk_finished_at r \<noteq> None else True)
     \<and> 0 \<le> tk_attempt_count r"

definition dedupe_keys :: "task_table \<Rightarrow> string list" where
  "dedupe_keys t = concat (map (\<lambda>r. case tk_dedupe_key r of None \<Rightarrow> [] | Some k \<Rightarrow> [k]) t)"

definition tasks_ok :: "task_table \<Rightarrow> bool" where
  "tasks_ok t \<longleftrightarrow> keys_distinct tk_task_id t \<and> distinct (dedupe_keys t) \<and> list_all row_ok t"

text \<open>The steps of the workers, and all steps of the store.\<close>

inductive worker_step :: "task_table \<Rightarrow> task_table \<Rightarrow> bool" where
  claim: "claim_background_task now tid w n t = (t', r) \<Longrightarrow> worker_step t t'"
| renew: "renew_background_task_lease now tid w n t = (t', ok) \<Longrightarrow> worker_step t t'"
| stale: "fail_stale_background_tasks now t = (t', k) \<Longrightarrow> worker_step t t'"
| finish: "w \<noteq> [] \<Longrightarrow> finish_background_task now tid s res err (Some w) t = (t', r) \<Longrightarrow>
     worker_step t t'"

inductive task_step :: "task_table \<Rightarrow> task_table \<Rightarrow> bool" where
  create: "get_row tk_task_id t fresh = None \<Longrightarrow>
     create_background_task fresh now accounts c t = (t', res) \<Longrightarrow> task_step t t'"
| retry: "reset_background_task_for_retry now tid t = (t', r) \<Longrightarrow> task_step t t'"
| queued: "mark_background_task_queued now tid t = (t', r) \<Longrightarrow> task_step t t'"
| worker: "worker_step t t' \<Longrightarrow> task_step t t'"
| plain_finish: "finish_background_task now tid s res err w t = (t', r) \<Longrightarrow> task_step t t'"

section \<open>Every operation keeps the invariant\<close>

lemmas task_values = retry_values_def queued_values_def claim_values_def renew_values_def
  stale_values_def worker_finish_values_def plain_finish_values_def Let_def

interpretation retried: row_update tk_task_id "retry_values now" for now
  by unfold_locales (simp add: task_values)
interpretation queued: row_update tk_task_id "queued_values now" for now
  by unfold_locales (simp add: task_values)
interpretation claimed: row_update tk_task_id "claim_values now w n" for now w n
  by unfold_locales (simp add: task_values)
interpretation renewed: row_update tk_task_id "renew_values now n" for now n
  by unfold_locales (simp add: task_values)
interpretation staled: row_update tk_task_id "stale_values now" for now
  by unfold_locales (simp add: task_values)
interpretation wfinished: row_update tk_task_id "worker_finish_values now s res err" for now s res err
  by unfold_locales (simp add: task_values)
interpretation pfinished: row_update tk_task_id "plain_finish_values now s res err" for now s res err
  by unfold_locales (simp add: task_values)

lemma dedupe_keys_update_where:
  "(\<And>r. tk_dedupe_key (f r) = tk_dedupe_key r) \<Longrightarrow> dedupe_keys (update_where p f t) = dedupe_keys t"
  by (induction t) (auto simp: dedupe_keys_def)

lemma tasks_ok_update_where:
  assumes "tasks_ok t" and "row_update tk_task_id f"
    and "\<And>r. tk_dedupe_key (f r) = tk_dedupe_key r"
    and "\<And>r. p r \<Longrightarrow> row_ok r \<Longrightarrow> row_ok (f r)"
  shows "tasks_ok (update_where p f t)"
  using assms row_update.distinct_kept [OF assms(2)]
  by (simp add: tasks_ok_def dedupe_keys_update_where list_all_update_where)

lemma row_ok_values:
  "row_ok r \<Longrightarrow> row_ok (retry_values now r)"
  "row_ok r \<Longrightarrow> row_ok (queued_values now r)"
  "row_ok r \<Longrightarrow> row_ok (claim_values now w n r)"
  "owned_where tid v r \<Longrightarrow> row_ok r \<Longrightarrow> row_ok (renew_values now n r)"
  "row_ok r \<Longrightarrow> row_ok (stale_values now r)"
  "row_ok r \<Longrightarrow> row_ok (worker_finish_values now s res err r)"
  "row_ok r \<Longrightarrow> row_ok (plain_finish_values now s res err r)"
  by (cases w; cases s; auto simp: row_ok_def task_values terminal_def owned_where_def)+

lemma dedupe_kept:
  "tk_dedupe_key (retry_values now r) = tk_dedupe_key r"
  "tk_dedupe_key (queued_values now r) = tk_dedupe_key r"
  "tk_dedupe_key (claim_values now w n r) = tk_dedupe_key r"
  "tk_dedupe_key (renew_values now n r) = tk_dedupe_key r"
  "tk_dedupe_key (stale_values now r) = tk_dedupe_key r"
  "tk_dedupe_key (worker_finish_values now s res err r) = tk_dedupe_key r"
  "tk_dedupe_key (plain_finish_values now s res err r) = tk_dedupe_key r"
  by (simp_all add: task_values)

lemmas tasks_ok_updates =
  tasks_ok_update_where [OF _ retried.row_update_axioms dedupe_kept(1) row_ok_values(1)]
  tasks_ok_update_where [OF _ queued.row_update_axioms dedupe_kept(2) row_ok_values(2)]
  tasks_ok_update_where [OF _ claimed.row_update_axioms dedupe_kept(3) row_ok_values(3)]
  tasks_ok_update_where [OF _ renewed.row_update_axioms dedupe_kept(4) row_ok_values(4)]
  tasks_ok_update_where [OF _ staled.row_update_axioms dedupe_kept(5) row_ok_values(5)]
  tasks_ok_update_where [OF _ wfinished.row_update_axioms dedupe_kept(6) row_ok_values(6)]
  tasks_ok_update_where [OF _ pfinished.row_update_axioms dedupe_kept(7) row_ok_values(7)]

lemma worker_step_ok: "worker_step t t' \<Longrightarrow> tasks_ok t \<Longrightarrow> tasks_ok t'"
  by (induction rule: worker_step.induct)
     (auto simp: claim_background_task_def renew_background_task_lease_def
        fail_stale_background_tasks_def finish_background_task_def Let_def
        intro: tasks_ok_updates split: if_splits)

lemma dedupe_keys_append:
  "dedupe_keys (t @ [r]) = dedupe_keys t @ (case tk_dedupe_key r of None \<Rightarrow> [] | Some k \<Rightarrow> [k])"
  by (simp add: dedupe_keys_def)

lemma in_dedupe_keys: "k \<in> set (dedupe_keys t) \<longleftrightarrow> get_row tk_dedupe_key t (Some k) \<noteq> None"
  by (induction t) (auto simp: dedupe_keys_def split: option.splits)

lemma create_cases:
  assumes "create_background_task fresh now accounts c t = (t', res)"
  obtains "t' = t" | "t' = t @ [new_task_row fresh now c]"
    "tc_dedupe_key c = None \<or> get_row tk_dedupe_key t (tc_dedupe_key c) = None"
  using assms by (auto simp: create_background_task_def split: if_splits option.splits)

lemma new_task_row_simps [simp]:
  "tk_task_id (new_task_row fresh now c) = fresh"
  "tk_dedupe_key (new_task_row fresh now c) = tc_dedupe_key c"
  "row_ok (new_task_row fresh now c)"
  by (simp_all add: new_task_row_def row_ok_def terminal_def)

lemma create_ok:
  assumes "tasks_ok t" "get_row tk_task_id t fresh = None"
    and c: "create_background_task fresh now accounts c t = (t', res)"
  shows "tasks_ok t'"
  using c
proof (cases rule: create_cases)
  case 2
  have "distinct (dedupe_keys t')"
    using assms(1) 2 in_dedupe_keys [of _ t]
    by (auto simp: tasks_ok_def dedupe_keys_append split: option.split)
  with assms 2 show ?thesis by (simp add: tasks_ok_def keys_distinct_append1)
qed (use assms in simp)

lemma task_step_ok: "task_step t t' \<Longrightarrow> tasks_ok t \<Longrightarrow> tasks_ok t'"
proof (induction rule: task_step.induct)
  case (create t fresh now accounts c t' res)
  then show ?case by (blast intro: create_ok)
next
  case (worker t t')
  then show ?case by (rule worker_step_ok)
qed (auto simp: reset_background_task_for_retry_def mark_background_task_queued_def
        finish_background_task_def Let_def set_row_update_where
        intro: tasks_ok_updates split: if_splits option.splits)

interpretation tasks: invariant_system "\<lambda>t. t = []" task_step tasks_ok
  by unfold_locales (simp add: tasks_ok_def keys_distinct_def dedupe_keys_def, rule task_step_ok)

section \<open>Claims, leases and fencing\<close>

lemma claim_where_key: "claim_where now tid r \<Longrightarrow> tk_task_id r = tid"
  by (simp add: claim_where_def)

lemma owned_where_key: "owned_where tid w r \<Longrightarrow> tk_task_id r = tid"
  by (simp add: owned_where_def)

lemma claim_count:
  assumes "keys_distinct tk_task_id t"
  shows "rowcount (claim_where now tid) t = 1 \<longleftrightarrow>
     (\<exists>r. get_row tk_task_id t tid = Some r \<and> tk_status r = Pending \<and> is_due now r)"
proof -
  have "rowcount (claim_where now tid) t = 1 \<longleftrightarrow>
      (\<exists>r. get_row tk_task_id t tid = Some r \<and> claim_where now tid r)"
    by (rule rowcount_eq_1_keyed [OF assms]) (rule claim_where_key)
  then show ?thesis by (auto simp: claim_where_def dest: get_row_SomeD)
qed

lemma owned_count:
  assumes "keys_distinct tk_task_id t"
  shows "rowcount (owned_where tid w) t = 1 \<longleftrightarrow>
     (\<exists>r. get_row tk_task_id t tid = Some r \<and> tk_status r = Running \<and> tk_worker_id r = Some w)"
proof -
  have "rowcount (owned_where tid w) t = 1 \<longleftrightarrow>
      (\<exists>r. get_row tk_task_id t tid = Some r \<and> owned_where tid w r)"
    by (rule rowcount_eq_1_keyed [OF assms]) (rule owned_where_key)
  then show ?thesis by (auto simp: owned_where_def dest: get_row_SomeD)
qed

lemma claim_result:
  assumes "keys_distinct tk_task_id t"
  shows "claim_background_task now tid w n t =
     (case get_row tk_task_id t tid of
        None \<Rightarrow> (t, None)
      | Some r \<Rightarrow> if tk_status r = Pending \<and> is_due now r
          then (update_where (claim_where now tid) (claim_values now w n) t, Some (claim_values now w n r))
          else (t, None))"
  unfolding claim_background_task_def claim_count [OF assms] Let_def
  by (auto simp: claimed.get_updated claim_where_def dest: get_row_SomeD split: option.split)

definition claim_attempt ::
  "string \<Rightarrow> timestamp \<times> string option \<times> int \<Rightarrow> task_table \<Rightarrow> task_table \<times> bool" where
  "claim_attempt tid = (\<lambda>(now, w, n) t.
     case claim_background_task now tid w n t of (t', r) \<Rightarrow> (t', r \<noteq> None))"

definition is_pending :: "string \<Rightarrow> task_table \<Rightarrow> bool" where
  "is_pending tid t \<longleftrightarrow>
     (case get_row tk_task_id t tid of None \<Rightarrow> False | Some r \<Rightarrow> tk_status r = Pending)"

lemma claim_attempt_cases:
  assumes "tasks_ok t" and "claim_attempt tid (now, w, n) t = (t', ok)"
  obtains "\<not> ok" "t' = t" | "ok" "is_pending tid t" "\<not> is_pending tid t'"
proof -
  from assms(1) have d: "keys_distinct tk_task_id t" by (simp add: tasks_ok_def)
  show ?thesis
  proof (cases ok)
    case True
    with assms(2) obtain r where r: "get_row tk_task_id t tid = Some r" "tk_status r = Pending" "is_due now r"
        "t' = update_where (claim_where now tid) (claim_values now w n) t"
      by (auto simp: claim_attempt_def claim_result [OF d] split: option.splits if_splits)
    then have "\<not> is_pending tid t'"
      by (auto simp: is_pending_def claimed.get_updated claim_where_def claim_values_def
               dest: get_row_SomeD)
    with True r that(2) show ?thesis by (simp add: is_pending_def)
  next
    case False
    with assms(2) that(1) show ?thesis
      by (auto simp: claim_attempt_def claim_result [OF d] split: option.splits if_splits)
  qed
qed

interpretation task_race: exclusive_claim "claim_attempt tid" "is_pending tid" tasks_ok for tid
proof
  fix a :: "timestamp \<times> string option \<times> int" and s t ok
  obtain now w n where a: "a = (now, w, n)" by (cases a)
  assume v: "tasks_ok s"
  show "is_pending tid s" "\<not> is_pending tid t" if "claim_attempt tid a s = (t, True)"
    using that v unfolding a by (auto elim!: claim_attempt_cases)
  show "t = s" if "claim_attempt tid a s = (t, False)"
    using that v unfolding a by (auto elim!: claim_attempt_cases)
  show "tasks_ok t" if "claim_attempt tid a s = (t, ok)"
    using that v unfolding a
    by (auto simp: claim_attempt_def intro: worker_step_ok worker_step.claim split: prod.splits)
qed

section \<open>Properties\<close>

text \<open>C13. A task is handed to at most one worker: in any table the store can reach, of any
  number of workers that try to claim a task, in any order and at any times, at most one
  succeeds (until the task is put back explicitly).\<close>

theorem at_most_one_worker_claims:
  assumes "task_step\<^sup>*\<^sup>* [] t"
  shows "winners (snd (claim_all (claim_attempt tid) workers t)) \<le> 1"
  using task_race.at_most_one_wins [OF tasks.reachable_inv [OF refl assms]]
  by (metis prod.collapse)

definition sample_task :: task_row where
  "sample_task = new_task_row ''t1'' 100 \<lparr>tc_account_id = None, tc_task_type = ''sync'',
     tc_dedupe_key = Some ''k'', tc_payload = None, tc_run_after = None\<rparr>"

lemma sample_reachable: "task_step\<^sup>*\<^sup>* [] [sample_task]"
proof (rule r_into_rtranclp, rule task_step.create)
  show "create_background_task ''t1'' 100 [] \<lparr>tc_account_id = None, tc_task_type = ''sync'',
     tc_dedupe_key = Some ''k'', tc_payload = None, tc_run_after = None\<rparr> [] =
     ([sample_task], CreatedTask sample_task)" by code_simp
qed simp

theorem at_most_one_worker_claims_witness:
  "winners (snd (claim_all (claim_attempt ''t1'')
     [(200, Some ''w1'', 60), (201, Some ''w2'', 60)] [sample_task])) \<le> 1"
  by (rule at_most_one_worker_claims [OF sample_reachable])

text \<open>The effect of one worker step on a finished row.\<close>

lemma worker_step_terminal:
  assumes "worker_step t t'" "get_row tk_task_id t tid = Some r" "terminal (tk_status r)"
  shows "get_row tk_task_id t' tid = Some r"
  using assms
proof (induction rule: worker_step.induct)
  case (claim now i w n t t' x)
  then show ?case
    by (auto simp: claim_background_task_def Let_def claimed.get_updated claim_where_def terminal_def
             split: if_splits)
next
  case (renew now i w n t t' ok)
  then show ?case
    by (auto simp: renew_background_task_lease_def renewed.get_updated owned_where_def terminal_def
             split: if_splits)
next
  case (stale now t t' k)
  then show ?case
    by (auto simp: fail_stale_background_tasks_def staled.get_updated stale_where_def terminal_def)
next
  case (finish w now i s res err t t' x)
  then show ?case
    by (auto simp: finish_background_task_def Let_def wfinished.get_updated owned_where_def terminal_def
             split: if_splits)
qed

text \<open>A finished task is final for the workers: whatever the workers do (claim, renew,
  expire leases, report results, late or repeated), a row whose status is success, failed
  or cancelled keeps every column. Nothing is replayed without an explicit retry.\<close>

theorem finished_task_is_final:
  assumes "worker_step\<^sup>*\<^sup>* t t'" and "get_row tk_task_id t tid = Some r"
    and "terminal (tk_status r)"
  shows "get_row tk_task_id t' tid = Some r"
  using assms by (induction rule: rtranclp_induct) (auto intro: worker_step_terminal)

theorem finished_task_is_final_witness:
  "get_row tk_task_id (fst (fail_stale_background_tasks 900 [sample_task\<lparr>tk_status := Success\<rparr>])) ''t1''
     = Some (sample_task\<lparr>tk_status := Success\<rparr>)"
proof -
  have "worker_step\<^sup>*\<^sup>* [sample_task\<lparr>tk_status := Success\<rparr>]
     (fst (fail_stale_background_tasks 900 [sample_task\<lparr>tk_status := Success\<rparr>]))"
    by (rule r_into_rtranclp, rule worker_step.stale [of 900 _ _ 0]) code_simp
  moreover have "get_row tk_task_id [sample_task\<lparr>tk_status := Success\<rparr>] ''t1''
     = Some (sample_task\<lparr>tk_status := Success\<rparr>)" by code_simp
  moreover have "terminal (tk_status (sample_task\<lparr>tk_status := Success\<rparr>))" by code_simp
  ultimately show ?thesis by (rule finished_task_is_final)
qed

text \<open>Expired leases fence their worker. When the sweep runs at a time at or after the end
  of a lease, the task is recorded as failed with an uncertain outcome, and the worker that
  held it can neither renew the lease nor report a result nor claim the task again.\<close>

theorem expired_lease_fences_worker:
  assumes "tasks_ok t" and "get_row tk_task_id t tid = Some r" and "tk_status r = Running"
    and "tk_worker_id r = Some w" and "w \<noteq> []"
    and "tk_lease_expires_at r = Some e" and "e \<le> checked"
    and "fail_stale_background_tasks checked t = (t', k)"
  shows "get_row tk_task_id t' tid = Some (stale_values checked r)
     \<and> tk_status (stale_values checked r) = Failed
     \<and> renew_background_task_lease later tid w n t' = (t', False)
     \<and> finish_background_task later tid s res err (Some w) t' = (t', None)
     \<and> claim_background_task later tid (Some w) n t' = (t', None)"
proof -
  from assms(8) have t': "t' = update_where (stale_where checked) (stale_values checked) t"
    by (simp add: fail_stale_background_tasks_def)
  have g: "get_row tk_task_id t' tid = Some (stale_values checked r)"
    using assms by (simp add: t' staled.get_updated stale_where_def)
  have d: "keys_distinct tk_task_id t'"
    using assms(1) by (auto simp: t' tasks_ok_def)
  have st: "tk_status (stale_values checked r) = Failed" by (simp add: stale_values_def)
  have "rowcount (owned_where tid w) t' \<noteq> 1" unfolding owned_count [OF d] using g st by simp
  with g st assms(5) show ?thesis
    by (simp add: renew_background_task_lease_def finish_background_task_def claim_result [OF d])
qed

theorem expired_lease_fences_worker_witness:
  "renew_background_task_lease 70000000 ''t1'' ''w1'' 60
     (fst (fail_stale_background_tasks 61000200 (fst (claim_background_task 200 ''t1'' (Some ''w1'') 60 [sample_task]))))
   = (fst (fail_stale_background_tasks 61000200 (fst (claim_background_task 200 ''t1'' (Some ''w1'') 60 [sample_task]))), False)"
proof -
  let ?t = "fst (claim_background_task 200 ''t1'' (Some ''w1'') 60 [sample_task])"
  let ?r = "claim_values 200 (Some ''w1'') 60 sample_task"
  obtain t' k where f: "fail_stale_background_tasks 61000200 ?t = (t', k)" by fastforce
  have "tasks_ok ?t" "get_row tk_task_id ?t ''t1'' = Some ?r" "tk_status ?r = Running"
    "tk_worker_id ?r = Some ''w1''" "''w1'' \<noteq> []" "tk_lease_expires_at ?r = Some 60000200"
    by code_simp+
  from expired_lease_fences_worker [OF this _ f] f show ?thesis by simp
qed

lemma filter_first_by:
  "first_by key (filter P t) = Some r \<Longrightarrow> r \<in> set t \<and> P r \<and> (\<forall>s\<in>set t. P s \<longrightarrow> key r \<le> key s)"
  by (auto dest: first_by_SomeD)

text \<open>The scheduler makes progress. The next task it is offered is pending, due, not excluded
  and earliest in the order of the queue, and claiming it at that time succeeds; it is
  offered nothing only when no task qualifies.\<close>

theorem next_pending_can_be_claimed:
  assumes "tasks_ok t"
  shows "(case get_next_pending_background_task now ex t of
      Some r \<Rightarrow> tk_status r = Pending \<and> is_due now r \<and> tk_task_id r \<notin> set ex
        \<and> (\<forall>s\<in>set t. tk_status s = Pending \<and> is_due now s \<and> tk_task_id s \<notin> set ex \<longrightarrow> due_key r \<le> due_key s)
        \<and> snd (claim_background_task now (tk_task_id r) w n t) = Some (claim_values now w n r)
    | None \<Rightarrow> \<forall>s\<in>set t. \<not> (tk_status s = Pending \<and> is_due now s \<and> tk_task_id s \<notin> set ex))"
proof (cases "get_next_pending_background_task now ex t")
  case None
  then show ?thesis by (auto simp: get_next_pending_background_task_def filter_empty_conv)
next
  case (Some r)
  from assms have d: "keys_distinct tk_task_id t" by (simp add: tasks_ok_def)
  from Some have r: "r \<in> set t" "tk_status r = Pending" "is_due now r" "tk_task_id r \<notin> set ex"
      "\<forall>s\<in>set t. tk_status s = Pending \<and> is_due now s \<and> tk_task_id s \<notin> set ex \<longrightarrow> due_key r \<le> due_key s"
    unfolding get_next_pending_background_task_def by (blast dest: filter_first_by)+
  from get_row_distinct [OF d r(1)] r have
    "snd (claim_background_task now (tk_task_id r) w n t) = Some (claim_values now w n r)"
    by (simp add: claim_result [OF d])
  with Some r show ?thesis by simp
qed

theorem next_pending_can_be_claimed_witness:
  "snd (claim_background_task 200 ''t1'' (Some ''w'') 60 [sample_task])
     = Some (claim_values 200 (Some ''w'') 60 sample_task)"
proof -
  have "tasks_ok [sample_task]" by code_simp
  moreover have "get_next_pending_background_task 200 [] [sample_task] = Some sample_task" by code_simp
  moreover have "tk_task_id sample_task = ''t1''" by code_simp
  ultimately show ?thesis
    using next_pending_can_be_claimed [of "[sample_task]" 200 "[]" "Some ''w''" 60] by simp
qed

text \<open>Rows are never deleted and keep their deduplication key.\<close>

definition has_task :: "string \<Rightarrow> string option \<Rightarrow> task_table \<Rightarrow> bool" where
  "has_task tid k t \<longleftrightarrow>
     (case get_row tk_task_id t tid of None \<Rightarrow> False | Some r \<Rightarrow> tk_dedupe_key r = k)"

lemma has_task_update:
  assumes "has_task tid k t" "row_update tk_task_id f" "\<And>r. tk_dedupe_key (f r) = tk_dedupe_key r"
  shows "has_task tid k (update_where p f t)"
  using assms by (auto simp: has_task_def row_update.get_updated split: option.splits)

lemmas has_task_updates =
  has_task_update [OF _ retried.row_update_axioms dedupe_kept(1)]
  has_task_update [OF _ queued.row_update_axioms dedupe_kept(2)]
  has_task_update [OF _ claimed.row_update_axioms dedupe_kept(3)]
  has_task_update [OF _ renewed.row_update_axioms dedupe_kept(4)]
  has_task_update [OF _ staled.row_update_axioms dedupe_kept(5)]
  has_task_update [OF _ wfinished.row_update_axioms dedupe_kept(6)]
  has_task_update [OF _ pfinished.row_update_axioms dedupe_kept(7)]

lemma worker_step_has_task: "worker_step t t' \<Longrightarrow> has_task tid k t \<Longrightarrow> has_task tid k t'"
  by (induction rule: worker_step.induct)
     (auto simp: claim_background_task_def renew_background_task_lease_def
        fail_stale_background_tasks_def finish_background_task_def Let_def
        intro: has_task_updates split: if_splits)

lemma task_step_has_task: "task_step t t' \<Longrightarrow> has_task tid k t \<Longrightarrow> has_task tid k t'"
proof (induction rule: task_step.induct)
  case (create t fresh now accounts c t' res)
  then show ?case
    by (auto elim!: create_cases simp: has_task_def get_row_append split: option.splits)
next
  case (worker t t')
  then show ?case by (rule worker_step_has_task)
qed (auto simp: reset_background_task_for_retry_def mark_background_task_queued_def
        finish_background_task_def Let_def set_row_update_where
        intro: has_task_updates split: if_splits option.splits)

lemma task_steps_has_task: "task_step\<^sup>*\<^sup>* t t' \<Longrightarrow> has_task tid k t \<Longrightarrow> has_task tid k t'"
  by (induction rule: rtranclp_induct) (auto intro: task_step_has_task)

lemma dedupe_unique:
  "distinct (dedupe_keys t) \<Longrightarrow> r \<in> set t \<Longrightarrow> tk_dedupe_key r = Some k \<Longrightarrow>
   get_row tk_dedupe_key t (Some k) = Some r"
proof (induction t)
  case (Cons a t)
  have "k \<in> set (dedupe_keys t)" if "r \<in> set t"
    using that Cons.prems(3) by (force simp: dedupe_keys_def)
  with Cons show ?case by (auto simp: dedupe_keys_def split: option.splits)
qed simp

text \<open>Creation is idempotent under a deduplication key: once a task was created with a
  non-empty key, then after any history of store operations another request with the same
  key for an existing account creates nothing and returns that same task.\<close>

theorem dedupe_key_creates_once:
  assumes "tasks_ok t" and "get_row tk_task_id t fresh = None"
    and "create_background_task fresh now accounts c t = (t1, CreatedTask row)"
    and "tc_dedupe_key c = Some k" and "k \<noteq> []" and "task_step\<^sup>*\<^sup>* t1 t2"
    and "tc_dedupe_key c' = Some k"
    and "\<not> truthy (tc_account_id c') \<or> get_row ac_account_id accounts' (the (tc_account_id c')) \<noteq> None"
  shows "\<exists>row'. create_background_task fresh' now' accounts' c' t2 = (t2, ExistingTask row')
     \<and> tk_task_id row' = tk_task_id row"
proof -
  have s1: "task_step t t1" using assms(2,3) by (rule task_step.create)
  have ok: "tasks_ok t2"
    using assms(1,6) s1 by (meson converse_rtranclp_into_rtranclp tasks.steps_inv)
  have row: "row = new_task_row fresh now c" "t1 = t @ [row]"
    using assms(3) by (auto simp: create_background_task_def split: if_splits option.splits)
  then have "has_task fresh (Some k) t1"
    using assms(2,4) by (simp add: has_task_def get_row_append)
  then have "has_task fresh (Some k) t2" by (rule task_steps_has_task [OF assms(6)])
  then obtain r where r: "r \<in> set t2" "tk_task_id r = fresh" "tk_dedupe_key r = Some k"
    by (auto simp: has_task_def split: option.splits dest: get_row_SomeD)
  with ok have "get_row tk_dedupe_key t2 (Some k) = Some r"
    by (intro dedupe_unique) (simp_all add: tasks_ok_def)
  with assms(5,7,8) r row show ?thesis
    by (auto simp: create_background_task_def)
qed

theorem dedupe_key_creates_once_witness:
  "\<exists>row'. create_background_task ''t2'' 300 [] \<lparr>tc_account_id = None, tc_task_type = ''sync'',
     tc_dedupe_key = Some ''k'', tc_payload = None, tc_run_after = None\<rparr> [sample_task]
     = ([sample_task], ExistingTask row') \<and> tk_task_id row' = tk_task_id sample_task"
proof (rule dedupe_key_creates_once)
  show "create_background_task ''t1'' 100 [] \<lparr>tc_account_id = None, tc_task_type = ''sync'',
     tc_dedupe_key = Some ''k'', tc_payload = None, tc_run_after = None\<rparr> [] =
     ([sample_task], CreatedTask sample_task)" by code_simp
  show "tasks_ok []" by code_simp
qed simp_all

end
