(* ===== verification/CookieManager.thy ===== *)
theory CookieManager
  imports CookieRenewal
begin

text \<open>
  The scheduler of Cookie renewal (\<open>cookie_renewal_manager.py\<close>): when an account is due,
  single-flight tasks per account, the manual cool-down, the classification of failures,
  and the execution of one renewal. The platform service, the runtime manager, random
  numbers and the clock are arguments. An asyncio task is a handle with a flag that says
  whether it is done.
\<close>

section \<open>Configuration and state\<close>

record renewal_config =
  rc_interval :: timedelta
  rc_keepalive_interval :: timedelta
  rc_scan :: timedelta
  rc_manual_cooldown :: timedelta

definition renewal_config_of :: "timedelta \<Rightarrow> int \<Rightarrow> int \<Rightarrow> int \<Rightarrow> renewal_config" where
  "renewal_config_of interval keepalive_seconds scan_seconds manual_cooldown_seconds = \<lparr>
     rc_interval = max interval (minutes 1),
     rc_keepalive_interval = seconds (max keepalive_seconds 60),
     rc_scan = seconds (max scan_seconds 10),
     rc_manual_cooldown = seconds (max manual_cooldown_seconds 0)\<rparr>"

record task_handle =
  th_id :: nat
  th_done :: bool

record manager_state =
  ms_tasks :: "string \<rightharpoonup> task_handle"
  ms_keepalive_tasks :: "string \<rightharpoonup> task_handle"
  ms_last_keepalive_at :: "string \<rightharpoonup> timestamp"
  ms_trigger_sources :: "string \<rightharpoonup> string option"
  ms_previous_error_kinds :: "string \<rightharpoonup> string option"

definition task_running :: "(string \<rightharpoonup> task_handle) \<Rightarrow> string \<Rightarrow> bool" where
  "task_running tasks account_id =
     (case tasks account_id of None \<Rightarrow> False | Some t \<Rightarrow> \<not> th_done t)"

section \<open>Starting a renewal\<close>

definition ceil_seconds :: "timedelta \<Rightarrow> int" where
  "ceil_seconds d = - ((- d) div 1000000)"

text \<open>\<open>CookieRenewalCooldownError\<close> with its \<open>remaining_seconds\<close>.\<close>

datatype trigger_error = Cooldown int

definition cooldown_remaining ::
  "renewal_config \<Rightarrow> timestamp \<Rightarrow> string \<Rightarrow> renewal_status option \<Rightarrow> timedelta option" where
  "cooldown_remaining cfg now trigger current =
     (if trigger = ''manual'' \<and> 0 < rc_manual_cooldown cfg
      then (case current of
              None \<Rightarrow> None
            | Some st \<Rightarrow>
                (case rs_last_succeeded_at st of
                   None \<Rightarrow> None
                 | Some t \<Rightarrow> if 0 < t + rc_manual_cooldown cfg - now
                     then Some (t + rc_manual_cooldown cfg - now) else None))
      else None)"

definition trigger_renewal ::
  "renewal_config \<Rightarrow> timestamp \<Rightarrow> nat \<Rightarrow> string \<Rightarrow> string \<Rightarrow> string \<Rightarrow> string option
   \<Rightarrow> manager_state \<times> cookie_db \<Rightarrow> (manager_state \<times> cookie_db) \<times> (trigger_error + renewal_status option)"
where
  "trigger_renewal cfg now task_id fresh_id account_id trigger error_source = (\<lambda>(ms, db).
     (case get_row ac_account_id (cd_accounts db) account_id of
        None \<Rightarrow> ((ms, db), Inr None)
      | Some _ \<Rightarrow>
          if task_running (ms_tasks ms) account_id
          then ((ms, db), Inr (get_cookie_renewal_status account_id db))
          else
            let current = get_cookie_renewal_status account_id db in
            (case cooldown_remaining cfg now trigger current of
               Some remaining \<Rightarrow> ((ms, db), Inl (Cooldown (max 1 (ceil_seconds remaining))))
             | None \<Rightarrow>
                 (case begin_cookie_renewal now fresh_id account_id trigger db of
                    (db', None) \<Rightarrow> ((ms, db'), Inr None)
                  | (db', Some status) \<Rightarrow>
                      ((ms\<lparr>ms_previous_error_kinds := (ms_previous_error_kinds ms)(account_id \<mapsto>
                             (case current of None \<Rightarrow> None | Some st \<Rightarrow> rs_last_error_kind st)),
                           ms_tasks := (ms_tasks ms)(account_id \<mapsto> \<lparr>th_id = task_id, th_done = False\<rparr>),
                           ms_trigger_sources := (ms_trigger_sources ms)(account_id \<mapsto> error_source)\<rparr>,
                        db'), Inr (Some status))))))"

definition handle_auth_expired ::
  "renewal_config \<Rightarrow> timestamp \<Rightarrow> nat \<Rightarrow> string \<Rightarrow> string \<Rightarrow> string
   \<Rightarrow> manager_state \<times> cookie_db \<Rightarrow> (manager_state \<times> cookie_db) \<times> (trigger_error + renewal_status option)"
where
  "handle_auth_expired cfg now task_id fresh_id account_id source = (\<lambda>(ms, db).
     (case get_cookie_renewal_status account_id db of
        None \<Rightarrow> ((ms, db), Inr None)
      | Some status \<Rightarrow>
          if source = ''im_runtime'' then ((ms, db), Inr (Some status))
          else if rs_manual_action_required status then ((ms, db), Inr (Some status))
          else if task_running (ms_tasks ms) account_id then ((ms, db), Inr (Some status))
          else trigger_renewal cfg now task_id fresh_id account_id ''auth_recovery'' (Some source) (ms, db)))"

definition discard_task :: "string \<Rightarrow> nat \<Rightarrow> manager_state \<Rightarrow> manager_state" where
  "discard_task account_id completed ms =
     (case ms_tasks ms account_id of
        None \<Rightarrow> ms
      | Some t \<Rightarrow>
          if th_id t = completed
          then ms\<lparr>ms_tasks := (ms_tasks ms)(account_id := None),
                  ms_trigger_sources := (ms_trigger_sources ms)(account_id := None),
                  ms_previous_error_kinds := (ms_previous_error_kinds ms)(account_id := None)\<rparr>
          else ms)"

section \<open>Times\<close>

definition max_jitter :: "renewal_config \<Rightarrow> timedelta" where
  "max_jitter cfg = min (rc_interval cfg div 10) (seconds 3600)"

definition next_regular_attempt :: "renewal_config \<Rightarrow> timestamp \<Rightarrow> timedelta \<Rightarrow> timestamp" where
  "next_regular_attempt cfg now jitter = now + rc_interval cfg + jitter"

definition recent_success_defer_until ::
  "renewal_config \<Rightarrow> renewal_status \<Rightarrow> timestamp \<Rightarrow> timestamp option" where
  "recent_success_defer_until cfg status now =
     (case rs_last_succeeded_at status of
        None \<Rightarrow> None
      | Some t \<Rightarrow>
          let base_attempt = t + rc_interval cfg;
              latest_success = find (\<lambda>a. at_state a = Succeeded) (rs_recent_attempts status);
              defer_until =
                (case latest_success of
                   None \<Rightarrow> base_attempt
                 | Some a \<Rightarrow>
                     (case at_next_attempt_at a of
                        None \<Rightarrow> base_attempt
                      | Some recorded \<Rightarrow>
                          if recorded \<le> base_attempt + max_jitter cfg + seconds 5
                          then max base_attempt recorded else base_attempt))
          in if now < defer_until then Some defer_until else None)"

definition RETRY_DELAYS :: "int list" where
  "RETRY_DELAYS = [60, 300, 1800]"

definition next_failure_attempt ::
  "renewal_config \<Rightarrow> timestamp \<Rightarrow> timedelta \<Rightarrow> renewal_status option \<Rightarrow> int \<Rightarrow> timestamp" where
  "next_failure_attempt cfg now jitter status attempt_count =
     (case (case status of None \<Rightarrow> None | Some st \<Rightarrow> recent_success_defer_until cfg st now) of
        Some defer_until \<Rightarrow> defer_until
      | None \<Rightarrow>
          if int (length RETRY_DELAYS) < attempt_count then next_regular_attempt cfg now jitter
          else now + seconds (RETRY_DELAYS !
                 nat (min (max (attempt_count - 1) 0) (int (length RETRY_DELAYS) - 1))))"

definition renewal_is_due :: "renewal_status \<Rightarrow> timestamp \<Rightarrow> bool" where
  "renewal_is_due status now =
     (if rs_state status \<in> {Renewing, Applying}
      then minutes 5 \<le> now - (case rs_updated_at status of None \<Rightarrow> now | Some u \<Rightarrow> u)
      else (case rs_next_attempt_at status of None \<Rightarrow> False | Some t \<Rightarrow> t \<le> now))"

section \<open>Executing a renewal\<close>

text \<open>
  What the platform service returns or raises for a cookie, and what the runtime manager
  answers when the new cookie is applied (\<^const>\<open>None\<close>: it raised).
\<close>

datatype renew_outcome =
    Renewed string "string list" renewal_message
  | RenewError string renewal_message
  | RenewCrash

record renewal_env =
  re_renew :: "account_row \<Rightarrow> renew_outcome"
  re_start_online :: "account_row \<Rightarrow> bool option"
  re_replace_cookie :: "account_row \<Rightarrow> string \<Rightarrow> bool option"
  re_proxies :: "proxy_row list"

definition account_network_mode ::
  "proxy_row list \<Rightarrow> account_row \<Rightarrow> policy_error + network_mode" where
  "account_network_mode proxies account =
     (let (pid, proxy) = account_network_view proxies account
      in validate_account_network_route pid proxy)"

text \<open>
  The outcome of the guarded part: a policy error of the account's route is raised as a
  renewal error of kind \<open>proxy_failed\<close> before the service is called.
\<close>

definition renew_account :: "renewal_env \<Rightarrow> account_row \<Rightarrow> renew_outcome" where
  "renew_account env account =
     (case account_network_mode (re_proxies env) account of
        Inl e \<Rightarrow> RenewError ''proxy_failed'' (MsgPolicyError e)
      | Inr _ \<Rightarrow> re_renew env account)"

text \<open>How a \<open>CookieRenewalError\<close> is classified: recorded kind, text, next attempt.\<close>

definition classify_failure ::
  "renewal_config \<Rightarrow> timestamp \<Rightarrow> timedelta \<Rightarrow> timedelta \<Rightarrow> renewal_status option \<Rightarrow> int
   \<Rightarrow> string option \<Rightarrow> string \<Rightarrow> renewal_message \<Rightarrow> string \<times> renewal_message \<times> timestamp option" where
  "classify_failure cfg now jitter recheck status attempt_count previous_kind kind message =
     (let auth_candidate = (kind = ''auth_expired'');
          confirmed = auth_candidate
            \<and> ((case status of None \<Rightarrow> False | Some st \<Rightarrow> rs_trigger st = Some ''auth_recovery'')
               \<or> previous_kind = Some ''suspected_expired'')
      in if confirmed then (''auth_expired'', MsgConfirmedExpired message, None)
         else if auth_candidate
         then (''suspected_expired'', MsgRecheckLater message, Some (now + recheck))
         else (kind, message, Some (next_failure_attempt cfg now jitter status attempt_count)))"

definition apply_to_runtime ::
  "renewal_env \<Rightarrow> cookie_db \<Rightarrow> account_row \<Rightarrow> string \<Rightarrow> bool option" where
  "apply_to_runtime env db latest new_cookie =
     (if ac_enabled latest
      then Some (case (if cd_runtime_state db (ac_account_id latest) = Some ''auth_expired''
                       then re_start_online env latest
                       else re_replace_cookie env latest new_cookie) of
                   None \<Rightarrow> False
                 | Some b \<Rightarrow> b)
      else None)"

definition success_message ::
  "account_row option \<Rightarrow> bool option \<Rightarrow> renewal_message \<Rightarrow> renewal_message" where
  "success_message latest applied message =
     (case latest of
        None \<Rightarrow> message
      | Some account \<Rightarrow>
          if ac_enabled account
          then (if applied = Some False then MsgNotAppliedToRuntime message else message)
          else MsgAccountDisabled message)"

text \<open>
  \<open>_execute\<close>, with one time for the writes that persist the cookie and one for those that
  close the attempt.
\<close>

definition execute_renewal ::
  "renewal_config \<Rightarrow> renewal_env \<Rightarrow> timestamp \<Rightarrow> timestamp \<Rightarrow> timedelta \<Rightarrow> timedelta \<Rightarrow> string
   \<Rightarrow> string \<Rightarrow> manager_state \<Rightarrow> cookie_db \<Rightarrow> cookie_db" where
  "execute_renewal cfg env now later jitter recheck fresh_id account_id ms db =
     (case get_row ac_account_id (cd_accounts db) account_id of
        None \<Rightarrow> db
      | Some account \<Rightarrow>
          let status = get_cookie_renewal_status account_id db;
              attempt_count = (case status of None \<Rightarrow> 1 | Some st \<Rightarrow> rs_attempt_count st);
              source = (case ms_trigger_sources ms account_id of None \<Rightarrow> None | Some s \<Rightarrow> s)
          in (case renew_account env account of
                Renewed new_cookie names message \<Rightarrow>
                  (case persist_cookie_renewal now account_id (ac_cookie account) new_cookie names
                          (next_regular_attempt cfg now jitter) db of
                     (db1, _, persisted) \<Rightarrow>
                       if \<not> persisted then db1
                       else let latest = get_row ac_account_id (cd_accounts db1) account_id;
                                applied = (case latest of
                                    None \<Rightarrow> None
                                  | Some a \<Rightarrow> apply_to_runtime env db1 a new_cookie)
                            in fst (finish_cookie_renewal later account_id
                                      (success_message latest applied message) applied db1))
              | RenewError kind message \<Rightarrow>
                  (case classify_failure cfg now jitter recheck status attempt_count
                          (case ms_previous_error_kinds ms account_id of None \<Rightarrow> None | Some k \<Rightarrow> k)
                          kind message of
                     (error_kind, failure_message, next_at) \<Rightarrow>
                       fst (fail_cookie_renewal later fresh_id account_id failure_message next_at
                              error_kind PhaseRenewing source db))
              | RenewCrash \<Rightarrow>
                  fst (fail_cookie_renewal later fresh_id account_id MsgInternalError
                         (Some (next_failure_attempt cfg now jitter status attempt_count))
                         ''internal_error'' PhaseRenewing source db)))"

section \<open>The scan\<close>

definition start_keepalive_if_due ::
  "renewal_config \<Rightarrow> nat \<Rightarrow> account_row \<Rightarrow> renewal_status \<Rightarrow> timestamp \<Rightarrow> manager_state \<Rightarrow> manager_state"
where
  "start_keepalive_if_due cfg task_id account status now ms =
     (let verified_at = (case rs_last_verified_at status of
            Some v \<Rightarrow> Some v | None \<Rightarrow> rs_last_succeeded_at status);
          anchor = (case ms_last_keepalive_at ms (ac_account_id account) of
            Some a \<Rightarrow> Some a | None \<Rightarrow> verified_at)
      in case anchor of
           None \<Rightarrow> ms
         | Some a \<Rightarrow>
             if now - a < rc_keepalive_interval cfg then ms
             else if ms_tasks ms (ac_account_id account) \<noteq> None then ms
             else if task_running (ms_keepalive_tasks ms) (ac_account_id account) then ms
             else ms\<lparr>ms_keepalive_tasks :=
                    (ms_keepalive_tasks ms)(ac_account_id account \<mapsto> \<lparr>th_id = task_id, th_done = False\<rparr>)\<rparr>)"

definition clamp_schedule ::
  "renewal_config \<Rightarrow> timestamp \<Rightarrow> timestamp \<Rightarrow> string \<Rightarrow> renewal_status \<Rightarrow> cookie_db
   \<Rightarrow> cookie_db \<times> renewal_status" where
  "clamp_schedule cfg now later account_id status db =
     (case (rs_last_succeeded_at status, rs_next_attempt_at status) of
        (Some t, Some nxt) \<Rightarrow>
          if t + rc_interval cfg + max_jitter cfg + seconds 5 < nxt
          then (case reschedule_cookie_renewal later account_id (max now (t + rc_interval cfg)) db of
                  (db', Some st) \<Rightarrow> (db', st)
                | (db', None) \<Rightarrow> (db', status))
          else (db, status)
      | _ \<Rightarrow> (db, status))"

definition scan_account ::
  "renewal_config \<Rightarrow> timestamp \<Rightarrow> timestamp \<Rightarrow> timedelta \<Rightarrow> nat \<Rightarrow> string \<Rightarrow> account_row
   \<Rightarrow> manager_state \<times> cookie_db \<Rightarrow> manager_state \<times> cookie_db" where
  "scan_account cfg now later delay task_id fresh_id account = (\<lambda>(ms, db).
     let account_id = ac_account_id account in
     if \<not> ac_enabled account \<or> ac_cookie account = [] then (ms, db)
     else (case get_cookie_renewal_status account_id db of
        None \<Rightarrow> (ms, db)
      | Some status0 \<Rightarrow>
          if rs_manual_action_required status0 then (ms, db)
          else if rs_next_attempt_at status0 = None
          then (ms, fst (reschedule_cookie_renewal later account_id (now + delay) db))
          else
            (case clamp_schedule cfg now later account_id status0 db of
               (db1, status1) \<Rightarrow>
                 (case recent_success_defer_until cfg status1 now of
                    Some defer_until \<Rightarrow>
                      let far = (case rs_next_attempt_at status1 of
                            None \<Rightarrow> True | Some t \<Rightarrow> seconds 1 < \<bar>t - defer_until\<bar>);
                          (db2, status2) = (if far
                            then (case reschedule_cookie_renewal later account_id defer_until db1 of
                                    (d, Some st) \<Rightarrow> (d, st) | (d, None) \<Rightarrow> (d, status1))
                            else (db1, status1))
                      in (start_keepalive_if_due cfg task_id account status2 now ms, db2)
                  | None \<Rightarrow>
                      if \<not> renewal_is_due status1 now
                      then (start_keepalive_if_due cfg task_id account status1 now ms, db1)
                      else fst (trigger_renewal cfg later task_id fresh_id account_id ''scheduled''
                                  None (ms, db1))))))"

section \<open>Lemmas\<close>

lemma begin_status_Some:
  "get_row ac_account_id (cd_accounts db) aid = Some a \<Longrightarrow>
   \<exists>db' st. begin_cookie_renewal now fresh aid trigger db = (db', Some st)"
  by (auto simp: begin_cookie_renewal_def Let_def get_cookie_renewal_status_def split: option.splits)

lemma trigger_running:
  "task_running (ms_tasks ms) aid \<Longrightarrow>
   fst (trigger_renewal cfg now tid fresh aid trigger src (ms, db)) = (ms, db)"
  by (auto simp: trigger_renewal_def split: option.split)

lemma defer_future: "recent_success_defer_until cfg st now = Some d \<Longrightarrow> now < d"
  by (auto simp: recent_success_defer_until_def Let_def split: option.splits if_splits)

lemma retry_delay_ge: "seconds 60 \<le> seconds (RETRY_DELAYS ! nat (min (max (n - 1) 0) (int (length RETRY_DELAYS) - 1)))"
proof -
  have "nat (min (max (n - 1) 0) 2) \<in> {0, 1, 2}" by auto
  then show ?thesis by (auto simp: RETRY_DELAYS_def seconds_def numeral_2_eq_2)
qed

section \<open>Properties\<close>

text \<open>Renewals are single-flight and the cool-down is respected. While a renewal task of the
  account runs, a trigger of any kind changes nothing and reports the current status;
  a refused trigger is a manual one, changes nothing and reports a wait of at least one
  second; any other trigger leaves a running task and a row in state renewing.\<close>

theorem trigger_single_flight_and_cooldown:
  assumes "get_row ac_account_id (cd_accounts db) aid = Some account"
    and "trigger_renewal cfg now tid fresh aid trigger src (ms, db) = ((ms', db'), r)"
  shows "(task_running (ms_tasks ms) aid \<longrightarrow>
            ms' = ms \<and> db' = db \<and> r = Inr (get_cookie_renewal_status aid db))
     \<and> (\<forall>n. r = Inl (Cooldown n) \<longrightarrow>
            trigger = ''manual'' \<and> ms' = ms \<and> db' = db \<and> 1 \<le> n)
     \<and> (\<not> task_running (ms_tasks ms) aid \<and> trigger \<noteq> ''manual'' \<longrightarrow>
            task_running (ms_tasks ms') aid \<and> (\<exists>st. r = Inr (Some st) \<and> rs_state st = Renewing))"
proof (cases "task_running (ms_tasks ms) aid")
  case True
  with assms show ?thesis by (auto simp: trigger_renewal_def)
next
  case False
  show ?thesis
  proof (cases "cooldown_remaining cfg now trigger (get_cookie_renewal_status aid db)")
    case (Some rem)
    then have "trigger = ''manual''"
      by (auto simp: cooldown_remaining_def split: if_splits)
    with assms False Some show ?thesis by (auto simp: trigger_renewal_def Let_def)
  next
    case None
    from begin_status_Some [OF assms(1)] obtain db1 st where
      b: "begin_cookie_renewal now fresh aid trigger db = (db1, Some st)" by blast
    with assms(1) have "rs_state st = Renewing"
      by (auto simp: begin_cookie_renewal_def Let_def get_cookie_renewal_status_def get_put_renewal
            cookie_renewal_to_payload_def begin_row_def renewal_or_new_account)
    with assms False None b show ?thesis
      by (auto simp: trigger_renewal_def Let_def task_running_def)
  qed
qed

definition sample_config :: renewal_config where
  "sample_config = renewal_config_of (hours 1) 600 60 3600"

definition idle_manager :: manager_state where
  "idle_manager = \<lparr>ms_tasks = Map.empty, ms_keepalive_tasks = Map.empty,
     ms_last_keepalive_at = Map.empty, ms_trigger_sources = Map.empty,
     ms_previous_error_kinds = Map.empty\<rparr>"

lemma sample_account:
  "get_row ac_account_id (cd_accounts sample_cookie_db) ''a'' = Some ((account_defaults ''a'' 1)\<lparr>ac_cookie := ''c0''\<rparr>)"
  by code_simp

theorem trigger_single_flight_and_cooldown_witness:
  "task_running (ms_tasks (fst (fst (trigger_renewal sample_config 50 1 ''x'' ''a'' ''scheduled'' None
     (idle_manager, sample_cookie_db))))) ''a''"
proof -
  obtain ms' db' r where
    t: "trigger_renewal sample_config 50 1 ''x'' ''a'' ''scheduled'' None (idle_manager, sample_cookie_db) = ((ms', db'), r)"
    by (cases "trigger_renewal sample_config 50 1 ''x'' ''a'' ''scheduled'' None (idle_manager, sample_cookie_db)") auto
  have "\<not> task_running (ms_tasks idle_manager) ''a''" by (simp add: idle_manager_def task_running_def)
  with trigger_single_flight_and_cooldown [OF sample_account t] have "task_running (ms_tasks ms') ''a''" by simp
  with t show ?thesis by simp
qed

text \<open>Retries back off and never spin: the next attempt after a failure is in the future, at
  least a minute away unless a recent success already fixes a later regular slot; with no
  recent success the first three failures wait 60, 300 and 1800 seconds and further ones
  wait for the regular interval.\<close>

theorem failure_backoff:
  assumes "0 \<le> jitter" and "minutes 1 \<le> rc_interval cfg"
  shows "now < next_failure_attempt cfg now jitter status n
     \<and> ((case status of None \<Rightarrow> None | Some st \<Rightarrow> recent_success_defer_until cfg st now) = None \<longrightarrow>
          now + seconds 60 \<le> next_failure_attempt cfg now jitter status n
          \<and> (n = 1 \<longrightarrow> next_failure_attempt cfg now jitter status n = now + seconds 60)
          \<and> (n = 2 \<longrightarrow> next_failure_attempt cfg now jitter status n = now + seconds 300)
          \<and> (n = 3 \<longrightarrow> next_failure_attempt cfg now jitter status n = now + seconds 1800)
          \<and> (3 < n \<longrightarrow> next_failure_attempt cfg now jitter status n = now + rc_interval cfg + jitter))"
proof (cases "case status of None \<Rightarrow> None | Some st \<Rightarrow> recent_success_defer_until cfg st now")
  case (Some d)
  then have "now < d" by (auto dest: defer_future split: option.splits)
  with Some show ?thesis by (simp add: next_failure_attempt_def)
next
  case None
  have 60: "(0::int) < seconds 60" by (simp add: seconds_def)
  show ?thesis
    using None 60 retry_delay_ge [of n] assms
    by (auto simp: next_failure_attempt_def next_regular_attempt_def minutes_def)
       (simp_all add: RETRY_DELAYS_def)
qed

theorem failure_backoff_witness:
  "next_failure_attempt sample_config 0 7 None 2 = seconds 300"
proof -
  have "minutes 1 \<le> rc_interval sample_config" by code_simp
  with failure_backoff [of 7 sample_config 0 None 2] show ?thesis by simp
qed


lemma fail_settles:
  assumes "get_row ac_account_id (cd_accounts db) aid = Some account"
  shows "\<exists>row. get_row cr_account_id
       (cd_renewals (fst (fail_cookie_renewal later fresh aid msg next_at kind phase src db))) aid = Some row
     \<and> cr_active_attempt_id row = None \<and> cr_state row = RenewalFailed
     \<and> cr_next_attempt_at row = next_at \<and> cr_last_error_kind row = Some kind"
  using assms
  by (simp add: fail_cookie_renewal_def Let_def get_put_renewal failed_row_def renewal_or_new_account)

lemma persist_finish_settles:
  assumes "get_row ac_account_id (cd_accounts db) aid = Some account"
    and "persist_cookie_renewal now aid old new names next_at db = (db1, s, persisted)"
  shows "if persisted
    then \<exists>row. get_row cr_account_id (cd_renewals (fst (finish_cookie_renewal later aid msg applied db1))) aid = Some row
       \<and> cr_active_attempt_id row = None \<and> cr_state row = Succeeded
       \<and> cr_next_attempt_at row = Some next_at \<and> cr_last_error_kind row = None
    else \<exists>row. get_row cr_account_id (cd_renewals db1) aid = Some row
       \<and> cr_active_attempt_id row = None \<and> cr_state row = Conflict
       \<and> cr_next_attempt_at row = Some (now + seconds 60)
       \<and> cr_last_error_kind row = Some ''cookie_conflict''"
proof (cases persisted)
  case True
  with assms have "get_row cr_account_id (cd_renewals db1) aid = Some (applying_row now names next_at (renewal_or_new aid now db))"
    by (auto simp: persist_cookie_renewal_def Let_def get_put_renewal applying_row_def renewal_or_new_account
          split: if_splits)
  moreover from True assms obtain account' where "get_row ac_account_id (cd_accounts db1) aid = Some account'"
    by (auto simp: persist_cookie_renewal_def Let_def stored.get_updated split: if_splits)
  ultimately show ?thesis using True
    by (simp add: finish_cookie_renewal_def Let_def get_put_renewal succeeded_row_def applying_row_def
          renewal_or_new_account)
next
  case False
  with assms show ?thesis
    by (auto simp: persist_cookie_renewal_def Let_def get_put_renewal conflict_row_def renewal_or_new_account
          split: if_splits)
qed


definition expired_env :: renewal_env where
  "expired_env = \<lparr>re_renew = (\<lambda>_. RenewError ''auth_expired'' (MsgGiven ''expired'')),
     re_start_online = (\<lambda>_. None), re_replace_cookie = (\<lambda>_ _. None), re_proxies = []\<rparr>"


lemma reschedule_status:
  assumes "get_row ac_account_id (cd_accounts db) aid = Some account"
  shows "\<exists>db' st. reschedule_cookie_renewal now aid t db = (db', Some st) \<and> cd_accounts db' = cd_accounts db
     \<and> get_cookie_renewal_status aid db' = Some st \<and> rs_next_attempt_at st = Some t"
  using assms
  by (auto simp: reschedule_cookie_renewal_def Let_def get_cookie_renewal_status_def get_put_renewal
        cookie_renewal_to_payload_def new_renewal_def split: option.split dest: get_row_SomeD)

lemma clamp_status:
  assumes a: "get_row ac_account_id (cd_accounts db) aid = Some account"
    and st: "get_cookie_renewal_status aid db = Some status" "rs_next_attempt_at status \<noteq> None"
    and c: "clamp_schedule cfg now later aid status db = (db1, status1)"
  shows "get_row ac_account_id (cd_accounts db1) aid = Some account
     \<and> get_cookie_renewal_status aid db1 = Some status1 \<and> rs_next_attempt_at status1 \<noteq> None"
proof (cases "db1 = db \<and> status1 = status")
  case True
  with a st show ?thesis by simp
next
  case False
  with c obtain t where
    t: "(case reschedule_cookie_renewal later aid (max now (t + rc_interval cfg)) db of
           (db', Some st) \<Rightarrow> (db', st) | (db', None) \<Rightarrow> (db', status)) = (db1, status1)"
    by (auto simp: clamp_schedule_def split: option.splits if_splits)
  with reschedule_status [OF a, of later "max now (t + rc_interval cfg)"] a show ?thesis by auto
qed


definition scanned_db :: cookie_db where
  "scanned_db = fst (reschedule_cookie_renewal 5 ''a'' 10 (sample_cookie_db\<lparr>cd_accounts :=
     [(account_defaults ''a'' 1)\<lparr>ac_cookie := ''c0'', ac_enabled := True\<rparr>]\<rparr>))"


end
