(* ===== verification/PyText.thy ===== *)
theory PyText
  imports Prelude
begin

text \<open>
  Unicode text and decoded JSON values, for the components that read platform responses.
  A text is the list of its code points. Case mapping is the identity outside ASCII (the
  code compares its results with ASCII constants), and every code point outside ASCII is
  taken as printable by \<open>repr\<close>.
\<close>

section \<open>Text\<close>

type_synonym ustr = "int list"

definition asc :: "string \<Rightarrow> ustr" where
  "asc s = map of_char s"

fun starts_with :: "ustr \<Rightarrow> ustr \<Rightarrow> bool" where
  "starts_with [] h = True"
| "starts_with (c # n) [] = False"
| "starts_with (c # n) (d # h) = (c = d \<and> starts_with n h)"

text \<open>\<open>needle in haystack\<close>.\<close>

fun contains :: "ustr \<Rightarrow> ustr \<Rightarrow> bool" where
  "contains n [] = (n = [])"
| "contains n (c # h) = (starts_with n (c # h) \<or> contains n h)"

definition uspace :: "int \<Rightarrow> bool" where
  "uspace n = ((9 \<le> n \<and> n \<le> 13) \<or> (28 \<le> n \<and> n \<le> 32) \<or> n = 133 \<or> n = 160 \<or> n = 5760
     \<or> (8192 \<le> n \<and> n \<le> 8202) \<or> n = 8232 \<or> n = 8233 \<or> n = 8239 \<or> n = 8287 \<or> n = 12288)"

definition ustrip :: "ustr \<Rightarrow> ustr" where
  "ustrip s = rev (dropWhile uspace (rev (dropWhile uspace s)))"

definition ulower :: "ustr \<Rightarrow> ustr" where
  "ulower s = map (\<lambda>n. if 65 \<le> n \<and> n \<le> 90 then n + 32 else n) s"

definition uupper :: "ustr \<Rightarrow> ustr" where
  "uupper s = map (\<lambda>n. if 97 \<le> n \<and> n \<le> 122 then n - 32 else n) s"

definition utruthy :: "ustr option \<Rightarrow> bool" where
  "utruthy s = (case s of None \<Rightarrow> False | Some t \<Rightarrow> t \<noteq> [])"

text \<open>\<open>a or b\<close> for \<open>str | None\<close>, and \<open>str(a or "")\<close>.\<close>

definition u_or :: "ustr option \<Rightarrow> ustr option \<Rightarrow> ustr option" where
  "u_or a b = (if utruthy a then a else b)"

definition u_text :: "ustr option \<Rightarrow> ustr" where
  "u_text a = (case a of None \<Rightarrow> [] | Some t \<Rightarrow> t)"

definition u_none :: "ustr \<Rightarrow> ustr option" where
  "u_none t = (if t = [] then None else Some t)"

fun join :: "ustr \<Rightarrow> ustr list \<Rightarrow> ustr" where
  "join sep [] = []"
| "join sep [t] = t"
| "join sep (t # u # ts) = t @ sep @ join sep (u # ts)"

definition ushow :: "int \<Rightarrow> ustr" where
  "ushow i = asc (show_int i)"

text \<open>The text before the first occurrence of a separator of one code point.\<close>

definition before :: "int \<Rightarrow> ustr \<Rightarrow> ustr" where
  "before c s = takeWhile (\<lambda>d. d \<noteq> c) s"

lemma starts_with_iff: "starts_with n h \<longleftrightarrow> (\<exists>b. h = n @ b)"
  by (induction n h rule: starts_with.induct) auto

lemma contains_iff: "contains n h \<longleftrightarrow> (\<exists>a b. h = a @ n @ b)"
proof (induction h)
  case Nil
  then show ?case by auto
next
  case (Cons c h)
  show ?case
  proof
    assume "contains n (c # h)"
    then consider b where "c # h = n @ b" | a b where "h = a @ n @ b"
      using Cons.IH by (auto simp: starts_with_iff)
    then show "\<exists>a b. c # h = a @ n @ b"
    proof cases
      case (1 b)
      then have "c # h = [] @ n @ b" by simp
      then show ?thesis by blast
    next
      case (2 a b)
      then have "c # h = (c # a) @ n @ b" by simp
      then show ?thesis by blast
    qed
  next
    assume "\<exists>a b. c # h = a @ n @ b"
    then obtain a b where ab: "c # h = a @ n @ b" by blast
    show "contains n (c # h)"
    proof (cases a)
      case Nil
      with ab have "starts_with n (c # h)" by (auto simp: starts_with_iff)
      then show ?thesis by simp
    next
      case (Cons d a')
      with ab have "h = a' @ n @ b" by simp
      with Cons.IH show ?thesis by auto
    qed
  qed
qed

lemma contains_trans: "contains a b \<Longrightarrow> contains b c \<Longrightarrow> contains a c"
  unfolding contains_iff by (metis append.assoc)

lemma contains_append: "contains n h \<Longrightarrow> contains n (x @ h @ y)"
  unfolding contains_iff by (metis append.assoc)

lemma utruthy_simps [simp]: "\<not> utruthy None" "utruthy (Some t) \<longleftrightarrow> t \<noteq> []"
  by (simp_all add: utruthy_def)

lemma u_text_simps [simp]: "u_text None = []" "u_text (Some t) = t"
  by (simp_all add: u_text_def)

text \<open>\<open>int(text)\<close>: spaces around, a sign, digits with single underscores between them.\<close>

definition digit_value :: "char \<Rightarrow> int" where
  "digit_value c = of_char c - 48"

fun digits_value :: "int \<Rightarrow> string \<Rightarrow> int option" where
  "digits_value acc [] = Some acc"
| "digits_value acc (c # t) =
     (if is_digit c then digits_value (10 * acc + digit_value c) t
      else if c = CHR ''_'' then (case t of d # _ \<Rightarrow> if is_digit d then digits_value acc t else None | [] \<Rightarrow> None)
      else None)"

definition unsigned_value :: "string \<Rightarrow> int option" where
  "unsigned_value t = (case t of [] \<Rightarrow> None | c # _ \<Rightarrow> if is_digit c then digits_value 0 t else None)"

definition py_int :: "string \<Rightarrow> int option" where
  "py_int s = (case strip s of
     [] \<Rightarrow> None
   | c # t \<Rightarrow> if c = CHR ''-'' then map_option uminus (unsigned_value t)
             else if c = CHR ''+'' then unsigned_value t
             else unsigned_value (c # t))"

section \<open>JSON values\<close>

text \<open>
  What \<open>json.loads\<close> returns: a float is kept as its \<open>repr\<close>, an object as the list of its
  items in order, keys without repetition.
\<close>

datatype json =
    JNull
  | JBool bool
  | JInt int
  | JFloat ustr
  | JStr ustr
  | JList "json list"
  | JObj "(ustr \<times> json) list"

definition jget :: "string \<Rightarrow> json \<Rightarrow> json" where
  "jget k v = (case v of
     JObj kvs \<Rightarrow> (case map_of kvs (asc k) of None \<Rightarrow> JNull | Some w \<Rightarrow> w)
   | _ \<Rightarrow> JNull)"

fun is_obj :: "json \<Rightarrow> bool" where
  "is_obj (JObj _) = True"
| "is_obj _ = False"

fun is_str :: "json \<Rightarrow> bool" where
  "is_str (JStr _) = True"
| "is_str _ = False"

text \<open>\<open>v if isinstance(v, dict) else {}\<close> and \<open>v if isinstance(v, list) else []\<close>.\<close>

fun obj_or_empty :: "json \<Rightarrow> json" where
  "obj_or_empty (JObj kvs) = JObj kvs"
| "obj_or_empty _ = JObj []"

fun list_or_empty :: "json \<Rightarrow> json list" where
  "list_or_empty (JList vs) = vs"
| "list_or_empty _ = []"

fun jtruthy :: "json \<Rightarrow> bool" where
  "jtruthy JNull = False"
| "jtruthy (JBool b) = b"
| "jtruthy (JInt i) = (i \<noteq> 0)"
| "jtruthy (JFloat t) = (t \<noteq> asc ''0.0'' \<and> t \<noteq> asc ''-0.0'')"
| "jtruthy (JStr s) = (s \<noteq> [])"
| "jtruthy (JList vs) = (vs \<noteq> [])"
| "jtruthy (JObj kvs) = (kvs \<noteq> [])"

definition jor :: "json \<Rightarrow> json \<Rightarrow> json" where
  "jor a b = (if jtruthy a then a else b)"

subsection \<open>\<open>str\<close> and \<open>json.dumps\<close>\<close>

definition hex_code :: "int \<Rightarrow> int" where
  "hex_code n = (if n < 10 then 48 + n else 87 + n)"

definition repr_char :: "int \<Rightarrow> int \<Rightarrow> ustr" where
  "repr_char quote c =
     (if c = quote \<or> c = 92 then [92, c]
      else if c = 9 then asc [CHR 0x5C, CHR ''t'']
      else if c = 10 then asc [CHR 0x5C, CHR ''n'']
      else if c = 13 then asc [CHR 0x5C, CHR ''r'']
      else if c < 32 \<or> c = 127
      then [92, 120, hex_code (c div 16), hex_code (c mod 16)]
      else [c])"

definition repr_str :: "ustr \<Rightarrow> ustr" where
  "repr_str s =
     (let quote = (if 39 \<in> set s \<and> 34 \<notin> set s then 34 else 39)
      in quote # concat (map (repr_char quote) s) @ [quote])"

fun py_repr :: "json \<Rightarrow> ustr" where
  "py_repr JNull = asc ''None''"
| "py_repr (JBool b) = (if b then asc ''True'' else asc ''False'')"
| "py_repr (JInt i) = ushow i"
| "py_repr (JFloat t) = t"
| "py_repr (JStr s) = repr_str s"
| "py_repr (JList vs) = asc ''['' @ join (asc '', '') (map py_repr vs) @ asc '']''"
| "py_repr (JObj kvs) = asc ''{''
     @ join (asc '', '') (map (\<lambda>(k, v). repr_str k @ asc '': '' @ py_repr v) kvs) @ asc ''}''"

definition py_str :: "json \<Rightarrow> ustr" where
  "py_str v = (case v of JStr s \<Rightarrow> s | _ \<Rightarrow> py_repr v)"

text \<open>\<open>str(v or "")\<close>.\<close>

definition str_of :: "json \<Rightarrow> ustr" where
  "str_of v = (if jtruthy v then py_str v else [])"

definition dump_char :: "int \<Rightarrow> ustr" where
  "dump_char c =
     (if c = 34 \<or> c = 92 then [92, c]
      else if c = 8 then [92, 98] else if c = 9 then [92, 116]
      else if c = 10 then [92, 110] else if c = 12 then [92, 102]
      else if c = 13 then [92, 114]
      else if c < 32 then [92, 117, 48, 48, hex_code (c div 16), hex_code (c mod 16)]
      else [c])"

definition dump_str :: "ustr \<Rightarrow> ustr" where
  "dump_str s = 34 # concat (map dump_char s) @ [34]"

text \<open>\<open>json.dumps(v, ensure_ascii=False)\<close>.\<close>

fun dumps :: "json \<Rightarrow> ustr" where
  "dumps JNull = asc ''null''"
| "dumps (JBool b) = (if b then asc ''true'' else asc ''false'')"
| "dumps (JInt i) = ushow i"
| "dumps (JFloat t) = t"
| "dumps (JStr s) = dump_str s"
| "dumps (JList vs) = asc ''['' @ join (asc '', '') (map dumps vs) @ asc '']''"
| "dumps (JObj kvs) = asc ''{''
     @ join (asc '', '') (map (\<lambda>(k, v). dump_str k @ asc '': '' @ dumps v) kvs) @ asc ''}''"

text \<open>A value that occurs somewhere in a value.\<close>

inductive occurs :: "json \<Rightarrow> json \<Rightarrow> bool" where
  here: "occurs v v"
| in_list: "w \<in> set vs \<Longrightarrow> occurs v w \<Longrightarrow> occurs v (JList vs)"
| in_obj: "(k, w) \<in> set kvs \<Longrightarrow> occurs v w \<Longrightarrow> occurs v (JObj kvs)"

definition plain_char :: "int \<Rightarrow> bool" where
  "plain_char c \<longleftrightarrow> 32 \<le> c \<and> c \<noteq> 34 \<and> c \<noteq> 92"

lemma dump_plain: "list_all plain_char s \<Longrightarrow> concat (map dump_char s) = s"
  by (induction s) (auto simp: plain_char_def dump_char_def)

lemma contains_join: "t \<in> set ts \<Longrightarrow> contains n t \<Longrightarrow> contains n (join sep ts)"
proof (induction sep ts rule: join.induct)
  case (3 sep t' u ts)
  show ?case
  proof (cases "t = t'")
    case True
    with "3.prems"(2) show ?thesis
      using contains_append [of n t' "[]"] by simp
  next
    case False
    with "3" have "contains n (join sep (u # ts))" by simp
    then show ?thesis using contains_append [of n "join sep (u # ts)" "t' @ sep" "[]"] by simp
  qed
qed simp_all

lemma contains_dump_str:
  assumes "list_all plain_char n" "contains n s"
  shows "contains n (dump_str s)"
proof -
  from assms(2) obtain a b where "s = a @ n @ b" by (auto simp: contains_iff)
  with assms(1) have "dump_str s = (34 # concat (map dump_char a)) @ n @ (concat (map dump_char b) @ [34])"
    by (simp add: dump_str_def dump_plain)
  then show ?thesis unfolding contains_iff by blast
qed

text \<open>
  A marker without characters that need escaping is found in the dump of every value in
  which some string contains it.
\<close>

lemma contains_dumps:
  assumes "occurs (JStr s) v" "list_all plain_char n" "contains n s"
  shows "contains n (dumps v)"
  using assms(1)
proof (induction "JStr s" v rule: occurs.induct)
  case here
  with assms show ?case by (simp add: contains_dump_str)
next
  case (in_list w vs)
  then have "contains n (join (asc '', '') (map dumps vs))"
    by (intro contains_join [of "dumps w"]) auto
  then show ?case by (simp add: contains_append)
next
  case (in_obj k w kvs)
  let ?f = "\<lambda>(k, v). dump_str k @ asc '': '' @ dumps v"
  have "contains n ((dump_str k @ asc '': '') @ dumps w @ [])"
    by (rule contains_append) (rule in_obj)
  then have "contains n (?f (k, w))" by simp
  moreover have "?f (k, w) \<in> set (map ?f kvs)" using in_obj(1) by force
  ultimately have "contains n (join (asc '', '') (map ?f kvs))" by (rule contains_join [rotated])
  then show ?case by (simp add: contains_append)
qed

end
