(* ===== verification/PeerNames.thy ===== *)
theory PeerNames
  imports PyText
begin

text \<open>
  Display names of conversation partners (\<open>peer_names.py\<close>). NFKC normalisation and case
  folding are arguments: the tables of the Unicode database are not part of the model.
\<close>

text \<open>The titles of protocol and transaction notices, as code points, in the order of the source.\<close>

definition NOTICE_TITLES :: "ustr list" where
  "NOTICE_TITLES = [
     [20320, 26377, 19968, 26465, 26032, 28040, 24687],
     [20320, 26377, 26032, 30340, 28040, 24687],
     [24744, 26377, 19968, 26465, 26032, 28040, 24687],
     [21457, 26469, 19968, 26465, 26032, 28040, 24687],
     [38386, 40060, 26032, 28040, 24687],
     [38386, 40060, 28040, 24687],
     [20132, 26131, 28040, 24687],
     [31995, 32479, 28040, 24687],
     [24555, 32473, 116, 97, 19968, 20010, 35780, 20215, 21543, 126],
     [25105, 23436, 25104, 20102, 35780, 20215],
     [21334, 23478, 20154, 19981, 38169, 63, 36865, 116, 97, 38386, 40060, 23567, 32418, 33457],
     [21487, 20197, 36865, 116, 97, 38386, 40060, 23567, 32418, 33457, 21527, 126],
     [20080, 23478, 24050, 25293, 19979, 44, 24453, 20184, 27454],
     [31561, 24453, 24744, 21457, 36135],
     [31561, 24453, 20320, 21457, 36135],
     [25105, 21457, 36215, 20102, 36864, 27454, 30003, 35831],
     [25105, 23558, 12300, 36864, 36135, 36864, 27454, 12301, 20462, 25913, 20026, 12300, 36864, 27454, 12301],
     [38386, 40060, 28216, 25103, 20132, 26131, 23433, 20840, 25552, 37266]]"

definition comparable_name :: "(ustr \<Rightarrow> ustr) \<Rightarrow> (ustr \<Rightarrow> ustr) \<Rightarrow> ustr \<Rightarrow> ustr" where
  "comparable_name nfkc casefold name = casefold (ustrip (nfkc name))"

definition normalize_peer_name ::
  "(ustr \<Rightarrow> ustr) \<Rightarrow> (ustr \<Rightarrow> ustr) \<Rightarrow> ustr option \<Rightarrow> ustr option \<Rightarrow> ustr option" where
  "normalize_peer_name nfkc casefold v peer_user_id =
     (case v of
        None \<Rightarrow> None
      | Some value \<Rightarrow>
          let name = ustrip value in
          if name = [] then None
          else if comparable_name nfkc casefold name \<in> set NOTICE_TITLES then None
          else if utruthy peer_user_id
            \<and> comparable_name nfkc casefold name = casefold (ustrip (u_text peer_user_id)) then None
          else Some name)"

text \<open>\<open>extract_peer_name\<close>: the metadata values of \<open>senderNick\<close> and \<open>reminderTitle\<close>.\<close>

definition metadata_text :: "json \<Rightarrow> ustr option" where
  "metadata_text v = (if v = JNull then None else Some (py_str v))"

definition extract_peer_name ::
  "(ustr \<Rightarrow> ustr) \<Rightarrow> (ustr \<Rightarrow> ustr) \<Rightarrow> json \<Rightarrow> ustr option \<Rightarrow> ustr option" where
  "extract_peer_name nfkc casefold metadata peer_user_id =
     (case normalize_peer_name nfkc casefold (metadata_text (jget ''senderNick'' metadata)) peer_user_id of
        Some candidate \<Rightarrow> Some candidate
      | None \<Rightarrow>
          normalize_peer_name nfkc casefold (metadata_text (jget ''reminderTitle'' metadata)) peer_user_id)"

definition merge_peer_name ::
  "(ustr \<Rightarrow> ustr) \<Rightarrow> (ustr \<Rightarrow> ustr) \<Rightarrow> ustr option \<Rightarrow> ustr option \<Rightarrow> ustr option \<Rightarrow> ustr option" where
  "merge_peer_name nfkc casefold current candidate peer_user_id =
     (case normalize_peer_name nfkc casefold candidate peer_user_id of
        Some n \<Rightarrow> Some n
      | None \<Rightarrow> normalize_peer_name nfkc casefold current peer_user_id)"

lemma dropWhile_idem: "dropWhile P (dropWhile P xs) = dropWhile P xs"
  by (induction xs) auto

lemma dropWhile_rev_front: "xs \<noteq> [] \<Longrightarrow> \<not> P (hd xs) \<Longrightarrow> dropWhile P (rev (dropWhile P (rev xs))) = rev (dropWhile P (rev xs))"
proof -
  assume xs: "xs \<noteq> []" "\<not> P (hd xs)"
  then have "xs = hd xs # tl xs" by simp
  then have "rev xs = rev (tl xs) @ [hd xs]" by (metis rev.simps(2))
  then obtain ys where "dropWhile P (rev xs) = ys @ [hd xs]"
    using xs(2) by (metis dropWhile.simps dropWhile_append3 dropWhile_append1)
  with xs(2) show ?thesis by simp
qed

lemma ustrip_idem [simp]: "ustrip (ustrip s) = ustrip s"
proof (cases "dropWhile uspace s")
  case Nil
  have "ustrip s = []" unfolding ustrip_def Nil by simp
  then show ?thesis by (simp only: ustrip_def dropWhile.simps rev.simps)
next
  case (Cons c cs)
  then have "\<not> uspace c" by (metis hd_dropWhile list.distinct(1) list.sel(1))
  with Cons dropWhile_rev_front [of "dropWhile uspace s" uspace] show ?thesis
    by (simp add: ustrip_def dropWhile_idem)
qed

lemma normalize_idem:
  "normalize_peer_name f g v p = Some n \<Longrightarrow> normalize_peer_name f g (Some n) p = Some n"
  by (auto simp: normalize_peer_name_def Let_def split: option.splits if_splits)

lemma normalize_usable:
  "normalize_peer_name f g v p = Some n \<Longrightarrow>
     n \<noteq> [] \<and> ustrip n = n \<and> comparable_name f g n \<notin> set NOTICE_TITLES
     \<and> (utruthy p \<longrightarrow> comparable_name f g n \<noteq> g (ustrip (u_text p)))"
  by (auto simp: normalize_peer_name_def Let_def split: option.splits if_splits)

text \<open>Merging a name never degrades a valid one: the result is a usable name (stripped, not
  empty, no notice title, not the partner's own identifier) or absent; it is absent only
  when neither name is usable, and merging the same candidate again changes nothing.\<close>

theorem merge_peer_name_usable:
  "(\<forall>n. merge_peer_name f g cur cand p = Some n \<longrightarrow>
      n \<noteq> [] \<and> ustrip n = n \<and> comparable_name f g n \<notin> set NOTICE_TITLES
      \<and> (utruthy p \<longrightarrow> comparable_name f g n \<noteq> g (ustrip (u_text p))))
   \<and> (normalize_peer_name f g cur p \<noteq> None \<longrightarrow> merge_peer_name f g cur cand p \<noteq> None)
   \<and> merge_peer_name f g (merge_peer_name f g cur cand p) cand p = merge_peer_name f g cur cand p"
proof (intro conjI)
  show "\<forall>n. merge_peer_name f g cur cand p = Some n \<longrightarrow>
      n \<noteq> [] \<and> ustrip n = n \<and> comparable_name f g n \<notin> set NOTICE_TITLES
      \<and> (utruthy p \<longrightarrow> comparable_name f g n \<noteq> g (ustrip (u_text p)))"
    by (auto simp: merge_peer_name_def dest: normalize_usable split: option.splits)
  show "normalize_peer_name f g cur p \<noteq> None \<longrightarrow> merge_peer_name f g cur cand p \<noteq> None"
    by (auto simp: merge_peer_name_def split: option.split)
  show "merge_peer_name f g (merge_peer_name f g cur cand p) cand p = merge_peer_name f g cur cand p"
  proof (cases "normalize_peer_name f g cand p")
    case None
    then show ?thesis
      by (cases "normalize_peer_name f g cur p")
         (auto simp: merge_peer_name_def normalize_idem, simp add: normalize_peer_name_def)
  qed (simp add: merge_peer_name_def)
qed

theorem merge_peer_name_usable_witness:
  "merge_peer_name id id (Some (asc '' Ann '')) (Some (hd NOTICE_TITLES)) (Some (asc ''77'')) = Some (asc ''Ann'')
   \<and> merge_peer_name id id (Some (asc ''Ann'')) (Some (hd NOTICE_TITLES)) (Some (asc ''77'')) = Some (asc ''Ann'')"
proof -
  have m: "merge_peer_name id id (Some (asc '' Ann '')) (Some (hd NOTICE_TITLES)) (Some (asc ''77'')) = Some (asc ''Ann'')"
    by code_simp
  with merge_peer_name_usable [of id id "Some (asc '' Ann '')" "Some (hd NOTICE_TITLES)" "Some (asc ''77'')"]
  show ?thesis by simp
qed

end
