(* ===== verification/Orders.thy ===== *)
theory Orders
  imports PeerNames "HOL-Library.List_Lexorder"
begin

text \<open>
  The order tables and how platform responses are written into them (\<open>store.py\<close>,
  \<open>_apply_order_detail_snapshot_sync\<close> to \<open>_apply_order_headinfo_sync\<close>). A column that stores
  JSON text holds the value the text decodes to, \<^const>\<open>JNull\<close> for NULL. Identifiers and
  the fixed vocabularies (status, role, source) are ASCII strings; what comes from the
  platform is Unicode text. \<open>json.loads\<close> of a text field and the Unicode tables are
  arguments.
\<close>

section \<open>Rows\<close>

record order_row =
  od_order_pk :: string
  od_account_id :: string
  od_platform_order_id :: "ustr option"
  od_trade_role :: "string option"
  od_data_source :: "string option"
  od_first_seen_source :: "string option"
  od_platform_confirmed :: bool
  od_sync_state :: string
  od_conversation_id :: ustr
  od_peer_user_id :: "ustr option"
  od_peer_name :: "ustr option"
  od_buyer_user_id :: "ustr option"
  od_buyer_name :: "ustr option"
  od_receiver_name :: "ustr option"
  od_receiver_phone :: "ustr option"
  od_receiver_address :: "ustr option"
  od_item_id :: "ustr option"
  od_title :: "ustr option"
  od_price :: "ustr option"
  od_quantity :: "int option"
  od_image_url :: "ustr option"
  od_status :: string
  od_status_text :: "ustr option"
  od_platform_status :: "ustr option"
  od_platform_created_at :: "timestamp option"
  od_platform_paid_at :: "timestamp option"
  od_platform_completed_at :: "timestamp option"
  od_is_bargain :: bool
  od_seller_rate_status :: "ustr option"
  od_refund_status :: "ustr option"
  od_refund_id :: "ustr option"
  od_platform_refund_actions :: json
  od_refund_refuse_options :: json
  od_logistics_type :: "string option"
  od_carrier_code :: "ustr option"
  od_tracking_no :: "ustr option"
  od_platform_shipping_methods :: json
  od_platform_shipping_context :: json
  od_source_message_pk :: "string option"
  od_last_event_at :: "timestamp option"
  od_last_synced_at :: "timestamp option"
  od_last_detail_synced_at :: "timestamp option"
  od_headinfo_confirmed_at :: "timestamp option"
  od_platform_capabilities :: json
  od_platform_action_links :: json
  od_sync_error :: "ustr option"
  od_raw_summary :: json
  od_created_at :: timestamp
  od_updated_at :: timestamp

text \<open>The column defaults of a row created with its keys.\<close>

definition order_defaults :: "string \<Rightarrow> string \<Rightarrow> ustr \<Rightarrow> timestamp \<Rightarrow> order_row" where
  "order_defaults order_pk account_id conversation_id now = \<lparr>
     od_order_pk = order_pk, od_account_id = account_id, od_platform_order_id = None,
     od_trade_role = None, od_data_source = None, od_first_seen_source = None,
     od_platform_confirmed = False, od_sync_state = ''provisional'',
     od_conversation_id = conversation_id, od_peer_user_id = None, od_peer_name = None,
     od_buyer_user_id = None, od_buyer_name = None, od_receiver_name = None,
     od_receiver_phone = None, od_receiver_address = None, od_item_id = None,
     od_title = None, od_price = None, od_quantity = None, od_image_url = None,
     od_status = ''unknown'', od_status_text = None, od_platform_status = None,
     od_platform_created_at = None, od_platform_paid_at = None,
     od_platform_completed_at = None, od_is_bargain = False, od_seller_rate_status = None,
     od_refund_status = None, od_refund_id = None, od_platform_refund_actions = JNull,
     od_refund_refuse_options = JNull, od_logistics_type = None, od_carrier_code = None,
     od_tracking_no = None, od_platform_shipping_methods = JNull,
     od_platform_shipping_context = JNull, od_source_message_pk = None,
     od_last_event_at = None, od_last_synced_at = None, od_last_detail_synced_at = None,
     od_headinfo_confirmed_at = None, od_platform_capabilities = JNull,
     od_platform_action_links = JNull, od_sync_error = None, od_raw_summary = JNull,
     od_created_at = now, od_updated_at = now\<rparr>"

record order_event =
  oe_event_pk :: string
  oe_order_pk :: "string option"
  oe_account_id :: string
  oe_conversation_id :: ustr
  oe_message_pk :: string
  oe_platform_order_id :: "ustr option"
  oe_item_id :: "ustr option"
  oe_event_type :: string
  oe_status :: string
  oe_status_text :: "ustr option"
  oe_raw_summary :: json
  oe_created_at :: timestamp

datatype order_action =
    ConfirmShipping | OfflineShipping | FreeShipping | CloseOrder | RateBuyer | RefuseRefund

datatype operation_status = Processing | OpSucceeded | OpFailed | Uncertain

record operation_row =
  op_operation_id :: string
  op_order_pk :: string
  op_account_id :: string
  op_platform_order_id :: ustr
  op_action :: order_action
  op_status :: operation_status
  op_idempotency_key :: ustr
  op_requested_by :: "string option"
  op_pre_status :: "string option"
  op_post_status :: "string option"
  op_message :: "ustr option"
  op_error :: "ustr option"
  op_platform_code :: "ustr option"
  op_request_json :: json
  op_response_json :: json
  op_created_at :: timestamp
  op_updated_at :: timestamp
  op_started_at :: "timestamp option"
  op_finished_at :: "timestamp option"

record order_db =
  ob_orders :: "order_row list"
  ob_events :: "order_event list"
  ob_operations :: "operation_row list"

section \<open>Helpers\<close>

definition string_value :: "json \<Rightarrow> ustr option" where
  "string_value v = (case v of
     JNull \<Rightarrow> None
   | JList _ \<Rightarrow> None
   | JObj _ \<Rightarrow> None
   | _ \<Rightarrow> u_none (ustrip (py_str v)))"

text \<open>\<open>new or old\<close> where the new value is a \<open>str\<close>.\<close>

definition u_keep :: "ustr \<Rightarrow> ustr option \<Rightarrow> ustr option" where
  "u_keep new old = (if new = [] then old else Some new)"

definition jopt :: "ustr option \<Rightarrow> json" where
  "jopt v = (case v of None \<Rightarrow> JNull | Some t \<Rightarrow> JStr t)"

definition jobj :: "(string \<times> json) list \<Rightarrow> json" where
  "jobj kvs = JObj (map (\<lambda>(k, v). (asc k, v)) kvs)"

definition jstrs :: "ustr list \<Rightarrow> json" where
  "jstrs ts = JList (map JStr ts)"

text \<open>\<open>{str(item or "").strip().upper() for item in items if str(item or "").strip()}\<close>, as a list.\<close>

definition upper_texts :: "json list \<Rightarrow> ustr list" where
  "upper_texts items = map uupper (filter (\<lambda>t. t \<noteq> []) (map (\<lambda>i. ustrip (str_of i)) items))"

definition sorted_texts :: "ustr list \<Rightarrow> ustr list" where
  "sorted_texts ts = sort (remdups ts)"

definition any_marker :: "ustr list \<Rightarrow> ustr \<Rightarrow> bool" where
  "any_marker markers text = list_ex (\<lambda>m. contains m text) markers"

definition order_event_row ::
  "string \<Rightarrow> string \<Rightarrow> timestamp \<Rightarrow> order_row \<Rightarrow> string \<Rightarrow> ustr option \<Rightarrow> json \<Rightarrow> order_event" where
  "order_event_row event_pk message_pk now row event_type text summary = \<lparr>
     oe_event_pk = event_pk, oe_order_pk = Some (od_order_pk row),
     oe_account_id = od_account_id row, oe_conversation_id = od_conversation_id row,
     oe_message_pk = message_pk, oe_platform_order_id = od_platform_order_id row,
     oe_item_id = od_item_id row, oe_event_type = event_type, oe_status = od_status row,
     oe_status_text = text, oe_raw_summary = summary, oe_created_at = now\<rparr>"

section \<open>The detail snapshot\<close>

record detail_snapshot =
  sn_item_id :: ustr
  sn_buyer_id :: ustr
  sn_price :: ustr
  sn_quantity :: int
  sn_status :: string
  sn_status_text :: ustr
  sn_platform_status :: ustr
  sn_receiver_name :: ustr
  sn_receiver_phone :: ustr
  sn_receiver_address :: ustr
  sn_is_bargain :: bool
  sn_raw_response :: json

definition settled_status :: "string \<Rightarrow> bool" where
  "settled_status s \<longleftrightarrow> s \<in> {''shipped'', ''completed'', ''closed''}"

definition early_status :: "string \<Rightarrow> bool" where
  "early_status s \<longleftrightarrow> s \<in> {''pending_payment'', ''paid_waiting_delivery''}"

definition snapshot_status :: "detail_snapshot \<Rightarrow> order_row \<Rightarrow> order_row" where
  "snapshot_status snap row =
     (let status = (if sn_status snap = [] then ''unknown'' else sn_status snap);
          stale_downgrade = settled_status (od_status row) \<and> early_status status
      in if status \<noteq> ''unknown'' \<and> \<not> stale_downgrade
         then row\<lparr>od_status := status,
                  od_status_text := u_keep (sn_status_text snap) (od_status_text row),
                  od_platform_status := u_keep (sn_platform_status snap) (od_platform_status row)\<rparr>
         else row)"

definition snapshot_values :: "timestamp \<Rightarrow> detail_snapshot \<Rightarrow> order_row \<Rightarrow> order_row" where
  "snapshot_values now snap row = (snapshot_status snap row)\<lparr>
     od_item_id := u_keep (sn_item_id snap) (od_item_id row),
     od_peer_user_id := u_keep (sn_buyer_id snap) (od_peer_user_id row),
     od_buyer_user_id := u_keep (sn_buyer_id snap) (od_buyer_user_id row),
     od_price := u_keep (sn_price snap) (od_price row),
     od_quantity := (if sn_quantity snap \<noteq> 0 then Some (sn_quantity snap) else od_quantity row),
     od_receiver_name := u_keep (sn_receiver_name snap) (od_receiver_name row),
     od_receiver_phone := u_keep (sn_receiver_phone snap) (od_receiver_phone row),
     od_receiver_address := u_keep (sn_receiver_address snap) (od_receiver_address row),
     od_is_bargain := (sn_is_bargain snap \<or> od_is_bargain row),
     od_platform_confirmed := True, od_sync_state := ''confirmed'',
     od_last_detail_synced_at := Some now, od_last_synced_at := Some now, od_sync_error := None,
     od_raw_summary := (if jtruthy (sn_raw_response snap)
        then jobj [(''source'', JStr (asc ''order_detail'')), (''response'', sn_raw_response snap)]
        else od_raw_summary row),
     od_updated_at := now\<rparr>"

definition apply_order_detail_snapshot ::
  "timestamp \<Rightarrow> string \<Rightarrow> string \<Rightarrow> string \<Rightarrow> detail_snapshot \<Rightarrow> order_db \<Rightarrow> order_db \<times> string option" where
  "apply_order_detail_snapshot now event_pk uid order_pk snap db =
     (case get_row od_order_pk (ob_orders db) order_pk of
        None \<Rightarrow> (db, None)
      | Some row \<Rightarrow>
          let row' = snapshot_values now snap row in
          (db\<lparr>ob_orders := put_row od_order_pk row' (ob_orders db),
              ob_events := (if od_status row' \<noteq> od_status row
                then ob_events db @ [order_event_row event_pk (''detail:'' @ uid) now row' ''platform_detail''
                       (od_status_text row')
                       (jobj [(''source'', JStr (asc ''order_detail'')),
                              (''previous_status'', JStr (asc (od_status row)))])]
                else ob_events db)\<rparr>,
           Some order_pk))"

section \<open>Shipping options\<close>

definition shipping_values :: "timestamp \<Rightarrow> json \<Rightarrow> order_row \<Rightarrow> order_row" where
  "shipping_values now raw row =
     (let sender = obj_or_empty (jget ''senderAddressInfo'' raw);
          present = (\<lambda>k v. case v of None \<Rightarrow> [] | Some t \<Rightarrow> [(k, JStr t)])
      in row\<lparr>
        od_platform_shipping_methods :=
          jstrs (sorted_texts (upper_texts (list_or_empty (jget ''idleLogisticTypes'' raw)))),
        od_platform_shipping_context :=
          jobj (present ''sender_address_id''
                  (string_value (jor (jget ''addressId'' sender) (jget ''deliverId'' sender)))
                @ present ''biz_identity'' (string_value (jget ''bizIdentity'' raw))),
        od_last_synced_at := Some now, od_updated_at := now\<rparr>)"

definition apply_order_shipping_options ::
  "timestamp \<Rightarrow> string \<Rightarrow> json \<Rightarrow> order_db \<Rightarrow> order_db \<times> string option" where
  "apply_order_shipping_options now order_pk raw db =
     (case get_row od_order_pk (ob_orders db) order_pk of
        None \<Rightarrow> (db, None)
      | Some row \<Rightarrow>
          (db\<lparr>ob_orders := put_row od_order_pk (shipping_values now raw row) (ob_orders db)\<rparr>,
           Some order_pk))"

section \<open>Refund details\<close>

text \<open>The markers of \<open>_apply_order_refund_detail_sync\<close>: refund succeeded, refunded.\<close>

definition refunded_markers :: "ustr list" where
  "refunded_markers = [[36864, 27454, 25104, 21151],
     [24050, 36864, 27454]]"

text \<open>Refusal of the refund succeeded, refund refused, refund closed.\<close>

definition rejected_markers :: "ustr list" where
  "rejected_markers = [[25298, 32477, 36864, 27454, 25104, 21151],
     [24050, 25298, 32477, 36864, 27454],
     [36864, 27454, 20851, 38381]]"

text \<open>Names of buttons: agree to the refund; refuse the application, refuse the refund.\<close>

definition agree_name :: ustr where
  "agree_name = [21516, 24847, 36864, 27454]"

definition refuse_names :: "ustr list" where
  "refuse_names = [[25298, 32477, 30003, 35831],
     [25298, 32477, 36864, 27454]]"

definition agree_codes :: "ustr list" where
  "agree_codes = map asc [''agreerefundapply'', ''sellerconfirm'', ''agreerefundapplyforhmos'',
     ''agreerefundapplyforwxapplet'']"

definition button_actions :: "json \<Rightarrow> string list" where
  "button_actions v =
     (let code = ulower (ustrip (str_of (jget ''code'' v)));
          name = ustrip (str_of (jget ''name'' v))
      in (if code \<in> set agree_codes \<or> contains agree_name name then [''AGREE_REFUND''] else [])
         @ (if code = asc ''rejectapply'' \<or> any_marker refuse_names name then [''REFUSE_REFUND''] else []))"

fun refund_detail_actions :: "json \<Rightarrow> string list" where
  "refund_detail_actions (JObj kvs) =
     button_actions (JObj kvs) @ concat (map (\<lambda>(k, v). refund_detail_actions v) kvs)"
| "refund_detail_actions (JList vs) = concat (map refund_detail_actions vs)"
| "refund_detail_actions _ = []"

definition refund_status_of :: "json \<Rightarrow> ustr option \<Rightarrow> ustr option" where
  "refund_status_of raw current =
     (let actions = refund_detail_actions raw;
          raw_text = ulower (dumps raw)
      in if any_marker refunded_markers raw_text then Some (asc ''refunded'')
         else if any_marker rejected_markers raw_text then Some (asc ''rejected'')
         else if ''AGREE_REFUND'' \<in> set actions \<or> ''REFUSE_REFUND'' \<in> set actions
         then Some (asc ''pending'')
         else if ustrip (str_of (jget ''refundStatus'' raw)) = asc ''1'' then Some (asc ''pending'')
         else current)"

definition refund_values :: "timestamp \<Rightarrow> json \<Rightarrow> order_row \<Rightarrow> order_row" where
  "refund_values now raw row =
     (let actions = refund_detail_actions raw in
      row\<lparr>od_refund_id := u_or (string_value (jget ''refundId'' raw)) (od_refund_id row),
          od_refund_status := refund_status_of raw (od_refund_status row),
          od_platform_refund_actions := jstrs (sorted_texts (map asc actions)),
          od_refund_refuse_options :=
            (if ''REFUSE_REFUND'' \<notin> set actions then JList [] else od_refund_refuse_options row),
          od_last_synced_at := Some now, od_updated_at := now\<rparr>)"

text \<open>The event text is a fixed prefix (refund status) and the status, or a word for unknown.\<close>

definition refund_event_text :: "ustr option \<Rightarrow> ustr" where
  "refund_event_text status = [36864, 27454, 29366, 24577, 65306] @
     (if utruthy status then u_text status else [26410, 30693])"

definition apply_order_refund_detail ::
  "timestamp \<Rightarrow> string \<Rightarrow> string \<Rightarrow> string \<Rightarrow> json \<Rightarrow> order_db \<Rightarrow> order_db \<times> string option" where
  "apply_order_refund_detail now event_pk uid order_pk raw db =
     (case get_row od_order_pk (ob_orders db) order_pk of
        None \<Rightarrow> (db, None)
      | Some row \<Rightarrow>
          let row' = refund_values now raw row in
          (db\<lparr>ob_orders := put_row od_order_pk row' (ob_orders db),
              ob_events := (if od_refund_status row' \<noteq> od_refund_status row
                then ob_events db @ [order_event_row event_pk (''refund:'' @ uid) now row'
                       ''platform_refund_detail'' (Some (refund_event_text (od_refund_status row')))
                       (jobj [(''source'', JStr (asc ''refund_detail'')),
                              (''previous_refund_status'', jopt (od_refund_status row)),
                              (''refund_status'', jopt (od_refund_status row'))])]
                else ob_events db)\<rparr>,
           Some order_pk))"

section \<open>Reasons for refusing a refund\<close>

definition refuse_option :: "json \<Rightarrow> json \<Rightarrow> json list" where
  "refuse_option raw item =
     (if is_obj item
      then (case (string_value (jget ''refuseReasonId'' item), string_value (jget ''reasonName'' item)) of
              (Some reason_id, Some name) \<Rightarrow>
                let prf = obj_or_empty (jget ''refuseProof'' raw) in
                [jobj [(''id'', JStr reason_id), (''name'', JStr name),
                       (''proof_required'', JBool (jtruthy (jget ''mustProof'' prf))),
                       (''proof_type'', jopt (string_value (jget ''bizType'' prf))),
                       (''has_negotiation'', JBool (is_obj (jget ''refuseNegotiation'' raw)))]]
            | _ \<Rightarrow> [])
      else [])"

definition refuse_values :: "timestamp \<Rightarrow> json \<Rightarrow> order_row \<Rightarrow> order_row" where
  "refuse_values now raw row = row\<lparr>
     od_refund_refuse_options :=
       JList (concat (map (refuse_option raw) (list_or_empty (jget ''refuseReasonList'' raw)))),
     od_last_synced_at := Some now, od_updated_at := now\<rparr>"

definition apply_order_refuse_options ::
  "timestamp \<Rightarrow> string \<Rightarrow> json \<Rightarrow> order_db \<Rightarrow> order_db \<times> string option" where
  "apply_order_refuse_options now order_pk raw db =
     (case get_row od_order_pk (ob_orders db) order_pk of
        None \<Rightarrow> (db, None)
      | Some row \<Rightarrow>
          (db\<lparr>ob_orders := put_row od_order_pk (refuse_values now raw row) (ob_orders db)\<rparr>,
           Some order_pk))"

definition failure_values :: "timestamp \<Rightarrow> ustr \<Rightarrow> order_row \<Rightarrow> order_row" where
  "failure_values now err row = row\<lparr>
     od_sync_error := Some (take 1000 (if err = [] then [35746, 21333, 35814, 24773, 21047, 26032, 22833, 36133] else err)),
     od_updated_at := now\<rparr>"

definition mark_order_detail_refresh_failure ::
  "timestamp \<Rightarrow> string \<Rightarrow> ustr \<Rightarrow> order_db \<Rightarrow> order_db \<times> bool" where
  "mark_order_detail_refresh_failure now order_pk err db =
     (case get_row od_order_pk (ob_orders db) order_pk of
        None \<Rightarrow> (db, False)
      | Some row \<Rightarrow>
          (db\<lparr>ob_orders := put_row od_order_pk (failure_values now err row) (ob_orders db)\<rparr>, True))"

section \<open>Conversation head information\<close>

definition head_section :: "json \<Rightarrow> string \<Rightarrow> json" where
  "head_section raw name =
     (let v = jget name raw in
      if is_obj v then (if is_obj (jget ''data'' v) then jget ''data'' v else v) else JObj [])"

definition headinfo_capabilities :: "json \<Rightarrow> ustr list" where
  "headinfo_capabilities right =
     upper_texts (map (jget ''tradeAction'') (filter is_obj (list_or_empty (jget ''btnList'' right))))"

subsection \<open>\<open>urlsplit\<close>\<close>

text \<open>
  Scheme and host name as \<open>urllib.parse.urlsplit\<close> computes them; \<^const>\<open>None\<close> when it raises
  because the brackets of the authority do not match. Its checks of bracketed addresses
  and of characters that normalise to delimiters are left out: a host that fails them is
  not one of the hosts the code accepts.
\<close>

definition url_clean :: "ustr \<Rightarrow> ustr" where
  "url_clean u = filter (\<lambda>c. c \<noteq> 9 \<and> c \<noteq> 10 \<and> c \<noteq> 13) (dropWhile (\<lambda>c. c \<le> 32) u)"

definition ascii_alpha :: "int \<Rightarrow> bool" where
  "ascii_alpha c \<longleftrightarrow> (65 \<le> c \<and> c \<le> 90) \<or> (97 \<le> c \<and> c \<le> 122)"

definition scheme_char :: "int \<Rightarrow> bool" where
  "scheme_char c \<longleftrightarrow> ascii_alpha c \<or> (48 \<le> c \<and> c \<le> 57) \<or> c = 43 \<or> c = 45 \<or> c = 46"

definition split_scheme :: "ustr \<Rightarrow> ustr \<times> ustr" where
  "split_scheme u =
     (let s = before 58 u in
      if s \<noteq> [] \<and> length s < length u \<and> ascii_alpha (hd s) \<and> list_all scheme_char s
      then (ulower s, drop (Suc (length s)) u) else ([], u))"

definition netloc_of :: "ustr \<Rightarrow> ustr" where
  "netloc_of rest =
     (if starts_with (asc ''//'') rest
      then takeWhile (\<lambda>c. c \<noteq> 47 \<and> c \<noteq> 63 \<and> c \<noteq> 35) (drop 2 rest) else [])"

text \<open>The part after the last \<open>@\<close>, up to a port, or inside brackets.\<close>

definition hostname_of :: "ustr \<Rightarrow> ustr option" where
  "hostname_of netloc =
     (let hostinfo = rev (takeWhile (\<lambda>c. c \<noteq> 64) (rev netloc));
          after_bracket = drop 1 (dropWhile (\<lambda>c. c \<noteq> 91) hostinfo);
          host = (if 91 \<in> set hostinfo then before 93 after_bracket else before 58 hostinfo)
      in if host = [] then None else Some (ulower host))"

definition urlsplit :: "ustr \<Rightarrow> (ustr \<times> ustr option) option" where
  "urlsplit url =
     (let (scheme, rest) = split_scheme (url_clean url);
          netloc = netloc_of rest
      in if (91 \<in> set netloc) \<noteq> (93 \<in> set netloc) then None
         else Some (scheme, hostname_of netloc))"

definition action_hosts :: "ustr list" where
  "action_hosts = map asc [''h5.m.goofish.com'', ''www.goofish.com'', ''seller.goofish.com'']"

text \<open>A dict as an association list: an assignment keeps the position of an existing key.\<close>

fun dict_set :: "ustr \<Rightarrow> json \<Rightarrow> (ustr \<times> json) list \<Rightarrow> (ustr \<times> json) list" where
  "dict_set k v [] = [(k, v)]"
| "dict_set k v ((j, w) # d) = (if j = k then (j, v) # d else (j, w) # dict_set k v d)"

definition button_link :: "json \<Rightarrow> (ustr \<times> ustr) option" where
  "button_link button =
     (let action = uupper (ustrip (str_of (jget ''tradeAction'' button)));
          data = jget ''data'' (obj_or_empty (jget ''clickEvent'' button));
          target = ustrip (str_of (jor (jget ''url'' data)
                     (jor (jget ''targetUrl'' data) (jget ''jumpUrl'' data))))
      in if is_obj button \<and> action \<noteq> [] \<and> is_obj data \<and> target \<noteq> [] then Some (action, target) else None)"

fun headinfo_links :: "json list \<Rightarrow> (ustr \<times> json) list \<Rightarrow> (ustr \<times> json) list option" where
  "headinfo_links [] links = Some links"
| "headinfo_links (button # buttons) links =
     (case button_link button of
        None \<Rightarrow> headinfo_links buttons links
      | Some (action, target) \<Rightarrow>
          (case urlsplit target of
             None \<Rightarrow> None
           | Some (scheme, host) \<Rightarrow>
               headinfo_links buttons
                 (if scheme = asc ''https'' \<and> (\<exists>h\<in>set action_hosts. host = Some h)
                  then dict_set action (JStr (take 2000 target)) links else links)))"

definition headinfo_action_links :: "json \<Rightarrow> json option" where
  "headinfo_action_links right =
     map_option JObj (headinfo_links (list_or_empty (jget ''btnList'' right)) [])"

subsection \<open>Status\<close>

text \<open>The markers of \<open>_normalize_headinfo_status\<close>, per status.\<close>

definition headinfo_markers :: "(string \<times> ustr list) list" where
  "headinfo_markers = [
     (''closed'', [[20132, 26131, 20851, 38381],
     [35746, 21333, 20851, 38381],
     [24050, 20851, 38381]]),
     (''completed'', [[20132, 26131, 25104, 21151],
     [24050, 23436, 25104],
     [34, 114, 97, 116, 101, 34]]),
     (''shipped'', [[30830, 35748, 25910, 36135],
     [25552, 37266, 25910, 36135],
     [114, 101, 109, 105, 110, 100, 95, 99, 111, 110, 102, 105, 114, 109]]),
     (''paid_waiting_delivery'', [[24453, 21457, 36135],
     [31561, 24453, 21334, 23478, 21457, 36135],
     [108, 111, 103, 105, 115, 116, 105, 99, 115, 95, 115, 101, 110, 100]]),
     (''pending_payment'', [[24453, 20184, 27454],
     [31435, 21363, 20184, 27454],
     [34, 112, 97, 121, 34]])]"

definition normalize_headinfo_status :: "ustr \<Rightarrow> json \<Rightarrow> string \<times> ustr option" where
  "normalize_headinfo_status raw_text middle =
     (let status_text = string_value (jor (jget ''subTitle'' middle)
             (jor (jget ''title'' middle) (jget ''statusText'' middle)))
      in (case find (\<lambda>(s, ms). any_marker ms (ulower raw_text)) headinfo_markers of
            Some (s, _) \<Rightarrow> (s, status_text)
          | None \<Rightarrow> (''unknown'', status_text)))"

definition seller_headinfo_actions :: "ustr list" where
  "seller_headinfo_actions = map asc [''CLOSE_ORDER'', ''DEAL_REFUND'', ''LOGISTICS_SEND'',
     ''MODIFY_PRICE'', ''RATE'', ''REMIND_BUYER_TO_CONFIRM'', ''SELLER_DELAY_CONFIRM'', ''VIEW_CASH'',
     ''VIEW_LOGISTICS'', ''VIEW_RATE'', ''VIEW_REFUND'']"

definition buyer_headinfo_actions :: "ustr list" where
  "buyer_headinfo_actions = map asc [''BUYER_CONFIRM'', ''BUY_NOW'', ''DELAY_TIMEOUT'', ''PAY'', ''RATE'',
     ''REFUND'', ''REMIND_SELLER_TO_SEND'']"

text \<open>The order the response is about: the given one, the account's order with that number, or a new one.\<close>

definition headinfo_target :: "string \<Rightarrow> timestamp \<Rightarrow> ustr option \<Rightarrow> order_row \<Rightarrow> order_row list \<Rightarrow> order_row" where
  "headinfo_target fresh now platform_order_id source orders =
     (if utruthy platform_order_id \<and> platform_order_id \<noteq> od_platform_order_id source
      then (case find (\<lambda>r. od_account_id r = od_account_id source
                        \<and> od_platform_order_id r = platform_order_id) orders of
              Some r \<Rightarrow> r
            | None \<Rightarrow> (order_defaults fresh (od_account_id source) (od_conversation_id source) now)\<lparr>
                od_platform_order_id := platform_order_id, od_trade_role := od_trade_role source,
                od_data_source := od_data_source source,
                od_first_seen_source := od_first_seen_source source,
                od_peer_user_id := od_peer_user_id source, od_peer_name := od_peer_name source,
                od_item_id := od_item_id source\<rparr>)
      else source)"

definition headinfo_role :: "ustr list \<Rightarrow> string option \<Rightarrow> string option" where
  "headinfo_role capabilities role =
     (if role = Some ''seller'' \<or> role = Some ''buyer'' then role
      else if list_ex (\<lambda>c. c \<in> set seller_headinfo_actions) capabilities then Some ''seller''
      else if list_ex (\<lambda>c. c \<in> set buyer_headinfo_actions) capabilities then Some ''buyer''
      else role)"

definition headinfo_status :: "string \<Rightarrow> ustr option \<Rightarrow> order_row \<Rightarrow> order_row" where
  "headinfo_status status status_text row =
     (let preserve_seller_source = (od_data_source row = Some ''seller_sold'');
          stale_downgrade = settled_status (od_status row) \<and> early_status status
      in if status \<noteq> ''unknown''
            \<and> (\<not> preserve_seller_source \<or> status = ''refunding'' \<or> status = ''refunded'')
            \<and> \<not> stale_downgrade
         then row\<lparr>od_status := status, od_status_text := u_or status_text (od_status_text row),
                  od_platform_status := u_or status_text (od_platform_status row)\<rparr>
         else row)"

definition headinfo_refund :: "string \<Rightarrow> ustr list \<Rightarrow> ustr option \<Rightarrow> ustr option" where
  "headinfo_refund status capabilities current =
     (if asc ''DEAL_REFUND'' \<in> set capabilities then Some (asc ''pending'')
      else if status \<noteq> ''unknown'' \<and> asc ''VIEW_REFUND'' \<notin> set capabilities
              \<and> current = Some (asc ''pending'') then None
      else current)"

definition headinfo_texts ::
  "(ustr \<Rightarrow> ustr) \<Rightarrow> (ustr \<Rightarrow> ustr) \<Rightarrow> (ustr \<Rightarrow> json option) \<Rightarrow> json \<Rightarrow> order_row \<Rightarrow> order_row" where
  "headinfo_texts nfkc casefold loads raw row =
     (let common = head_section raw ''commonData''; left = head_section raw ''left'';
          middle = head_section raw ''middle'';
          buyer = obj_or_empty (jget ''buyer'' common);
          pre_info = obj_or_empty (case jget ''itemPreInfo'' common of
             JStr t \<Rightarrow> (case loads t of None \<Rightarrow> JStr t | Some v \<Rightarrow> v) | _ \<Rightarrow> JNull);
          peer = u_or (string_value (jor (jget ''userId'' buyer) (jget ''id'' buyer))) (od_peer_user_id row)
      in row\<lparr>
        od_item_id := u_or (string_value (jget ''itemId'' common)) (od_item_id row),
        od_peer_user_id := peer,
        od_peer_name := merge_peer_name nfkc casefold (od_peer_name row)
          (string_value (jor (jget ''userNick'' buyer) (jor (jget ''nick'' buyer) (jget ''name'' buyer)))) peer,
        od_title := u_or (string_value (jor (jget ''title'' pre_info)
          (jor (jget ''title'' middle) (jget ''itemTitle'' common)))) (od_title row),
        od_price := u_or (string_value (jget ''price'' middle)) (od_price row),
        od_image_url := u_or (string_value (jor (jget ''picUrl'' left) (jget ''imageUrl'' left)))
          (od_image_url row)\<rparr>)"

definition headinfo_summary :: "json \<Rightarrow> ustr option \<Rightarrow> ustr option \<Rightarrow> (ustr \<Rightarrow> json option) \<Rightarrow> json" where
  "headinfo_summary raw platform_order_id item_id loads =
     (let common = head_section raw ''commonData'';
          pre_info = obj_or_empty (case jget ''itemPreInfo'' common of
             JStr t \<Rightarrow> (case loads t of None \<Rightarrow> JStr t | Some v \<Rightarrow> v) | _ \<Rightarrow> JNull)
      in jobj [(''source'', JStr (asc ''headinfo'')),
               (''commonData'', jobj [(''orderId'', jopt platform_order_id), (''itemId'', jopt item_id),
                  (''supportPCTrade'', jget ''supportPCTrade'' common), (''itemTitle'', jget ''title'' pre_info)]),
               (''middle'', head_section raw ''middle''), (''right'', head_section raw ''right'')])"

definition headinfo_order_id :: "json \<Rightarrow> ustr option" where
  "headinfo_order_id raw =
     (let common = head_section raw ''commonData''
      in string_value (jor (jget ''orderId'' common) (jget ''bizOrderId'' common)))"

definition headinfo_values ::
  "(ustr \<Rightarrow> ustr) \<Rightarrow> (ustr \<Rightarrow> ustr) \<Rightarrow> (ustr \<Rightarrow> json option) \<Rightarrow> timestamp \<Rightarrow> json \<Rightarrow> json
   \<Rightarrow> order_row \<Rightarrow> order_row" where
  "headinfo_values nfkc casefold loads now raw links row =
     (let platform_order_id = headinfo_order_id raw;
          capabilities = headinfo_capabilities (head_section raw ''right'');
          (status, status_text) = normalize_headinfo_status (dumps raw) (head_section raw ''middle'');
          preserve = (od_data_source row = Some ''seller_sold'');
          r1 = headinfo_texts nfkc casefold loads raw
                 (row\<lparr>od_platform_order_id := u_or platform_order_id (od_platform_order_id row)\<rparr>);
          r2 = headinfo_status status status_text
                 (r1\<lparr>od_trade_role := headinfo_role capabilities (od_trade_role r1)\<rparr>);
          r3 = r2\<lparr>od_refund_status := headinfo_refund status capabilities (od_refund_status r2)\<rparr>;
          r4 = (if utruthy platform_order_id \<and> od_trade_role r3 = Some ''seller''
                then r3\<lparr>od_platform_confirmed := True, od_sync_state := ''confirmed'',
                        od_headinfo_confirmed_at := Some now\<rparr> else r3);
          r5 = r4\<lparr>od_platform_capabilities := jstrs (sorted_texts capabilities),
                  od_platform_action_links := links, od_last_synced_at := Some now\<rparr>;
          r6 = (if preserve then r5
                else r5\<lparr>od_data_source := Some ''headinfo'',
                        od_raw_summary := headinfo_summary raw platform_order_id (od_item_id r5) loads\<rparr>)
      in r6\<lparr>od_updated_at := now\<rparr>)"

text \<open>The response cannot be applied when the URL of a button cannot be split.\<close>

datatype headinfo_error = InvalidUrl

definition apply_order_headinfo ::
  "(ustr \<Rightarrow> ustr) \<Rightarrow> (ustr \<Rightarrow> ustr) \<Rightarrow> (ustr \<Rightarrow> json option) \<Rightarrow> timestamp \<Rightarrow> string \<Rightarrow> string \<Rightarrow> json
   \<Rightarrow> order_db \<Rightarrow> headinfo_error + (order_db \<times> string option)" where
  "apply_order_headinfo nfkc casefold loads now fresh order_pk raw db =
     (case get_row od_order_pk (ob_orders db) order_pk of
        None \<Rightarrow> Inr (db, None)
      | Some source \<Rightarrow>
          (case headinfo_action_links (head_section raw ''right'') of
             None \<Rightarrow> Inl InvalidUrl
           | Some links \<Rightarrow>
               let target = headinfo_target fresh now (headinfo_order_id raw) source (ob_orders db);
                   row = headinfo_values nfkc casefold loads now raw links target
               in Inr (db\<lparr>ob_orders := put_row od_order_pk row (ob_orders db)\<rparr>,
                       Some (od_order_pk row))))"

end
