(* ===== verification/OrderPolicy.thy ===== *)
theory OrderPolicy
  imports Orders
begin

text \<open>
  Which seller actions an order allows (\<open>order_action_policy.py\<close>) and the view of an order
  that the service works on (\<open>_order_to_payload\<close>). The reasons shown to the user are
  constructors.
\<close>

section \<open>Tables\<close>

text \<open>The label of an action and whether it is dangerous.\<close>

definition ACTION_META :: "(order_action \<times> ustr \<times> bool) list" where
  "ACTION_META = [
     (ConfirmShipping, [30830, 35748, 26080, 29289, 27969, 21457, 36135], False),
     (OfflineShipping, [33258, 34892, 23492, 20214, 21457, 36135], False),
     (FreeShipping, [30830, 35748, 20813, 25340, 21457, 36135], False),
     (CloseOrder, [20851, 38381, 35746, 21333], True),
     (RateBuyer, [35780, 20215, 20080, 23478], False),
     (RefuseRefund, [25298, 32477, 36864, 27454], True)]"

fun ACTION_CAPABILITY :: "order_action \<Rightarrow> ustr option" where
  "ACTION_CAPABILITY ConfirmShipping = Some (asc ''LOGISTICS_SEND'')"
| "ACTION_CAPABILITY OfflineShipping = Some (asc ''LOGISTICS_SEND'')"
| "ACTION_CAPABILITY FreeShipping = Some (asc ''GROUPON_FREE_SHIPPING'')"
| "ACTION_CAPABILITY CloseOrder = Some (asc ''CLOSE_ORDER'')"
| "ACTION_CAPABILITY RateBuyer = Some (asc ''RATE'')"
| "ACTION_CAPABILITY RefuseRefund = None"

datatype unavailable_reason =
    NotASellerOrder
  | NotConfirmed
  | NoPlatformOrderId
  | CapabilityMissing ustr
  | AlreadyRefunded
  | NotWaitingDelivery
  | NoDummyConsign
  | NoOfflineConsign
  | NotABargain
  | NoItemId
  | NoBuyerId
  | RefundInProgress
  | NotClosable
  | NotCompleted
  | AlreadyRated
  | NoRefuseAction
  | NoRefundId
  | NoActiveRefund
  | NoRefuseReasons

record action_availability =
  av_action :: order_action
  av_reason :: "unavailable_reason option"
  av_label :: ustr
  av_danger :: bool

definition av_enabled :: "action_availability \<Rightarrow> bool" where
  "av_enabled a \<longleftrightarrow> av_reason a = None"

section \<open>The rules\<close>

definition string_set :: "json \<Rightarrow> ustr list" where
  "string_set raw = upper_texts (list_or_empty raw)"

definition object_list :: "json \<Rightarrow> json list" where
  "object_list raw = filter is_obj (list_or_empty raw)"

definition common_reason :: "order_row \<Rightarrow> unavailable_reason option" where
  "common_reason order =
     (if od_trade_role order \<noteq> Some ''seller'' then Some NotASellerOrder
      else if \<not> od_platform_confirmed order then Some NotConfirmed
      else if ustrip (u_text (od_platform_order_id order)) = [] then Some NoPlatformOrderId
      else None)"

definition refund_state :: "order_row \<Rightarrow> ustr" where
  "refund_state order = ulower (ustrip (u_text (od_refund_status order)))"

definition refund_finished :: "order_row \<Rightarrow> bool" where
  "refund_finished order \<longleftrightarrow>
     refund_state order \<in> set (map asc [''refunded'', ''success'', ''completed''])"

definition refund_active :: "order_row \<Rightarrow> bool" where
  "refund_active order \<longleftrightarrow>
     refund_state order \<in> set (map asc [''pending'', ''processing'', ''refunding'', ''requested''])"

definition shipping_action :: "order_action \<Rightarrow> bool" where
  "shipping_action a \<longleftrightarrow> a = ConfirmShipping \<or> a = OfflineShipping \<or> a = FreeShipping"

definition shipping_reason :: "order_row \<Rightarrow> order_action \<Rightarrow> unavailable_reason option" where
  "shipping_reason order action =
     (let methods = string_set (od_platform_shipping_methods order) in
      if refund_finished order then Some AlreadyRefunded
      else if od_status order \<noteq> ''paid_waiting_delivery'' then Some NotWaitingDelivery
      else if action = ConfirmShipping \<and> asc ''DUMMY_CONSIGN'' \<notin> set methods then Some NoDummyConsign
      else if action = OfflineShipping \<and> asc ''OFFLINE_CONSIGN'' \<notin> set methods then Some NoOfflineConsign
      else if action = FreeShipping \<and> \<not> od_is_bargain order then Some NotABargain
      else if action = FreeShipping \<and> ustrip (u_text (od_item_id order)) = [] then Some NoItemId
      else if action = FreeShipping
        \<and> ustrip (u_text (u_or (od_buyer_user_id order) (od_peer_user_id order))) = [] then Some NoBuyerId
      else None)"

definition action_reason :: "order_row \<Rightarrow> order_action \<Rightarrow> unavailable_reason option" where
  "action_reason order action =
     (case action of
        CloseOrder \<Rightarrow>
          if refund_active order then Some RefundInProgress
          else if od_status order \<notin> {''pending_payment'', ''paid_waiting_delivery''} then Some NotClosable
          else None
      | RateBuyer \<Rightarrow>
          if od_status order \<noteq> ''completed'' then Some NotCompleted
          else if u_text (od_seller_rate_status order) = asc ''4'' then Some AlreadyRated
          else None
      | RefuseRefund \<Rightarrow>
          if asc ''REFUSE_REFUND'' \<notin> set (string_set (od_platform_refund_actions order)) then Some NoRefuseAction
          else if ustrip (u_text (od_refund_id order)) = [] then Some NoRefundId
          else if \<not> refund_active order then Some NoActiveRefund
          else if object_list (od_refund_refuse_options order) = [] then Some NoRefuseReasons
          else None
      | _ \<Rightarrow> shipping_reason order action)"

definition capability_reason :: "order_row \<Rightarrow> order_action \<Rightarrow> ustr \<Rightarrow> unavailable_reason option" where
  "capability_reason order action label =
     (case ACTION_CAPABILITY action of
        Some cap \<Rightarrow>
          if od_headinfo_confirmed_at order \<noteq> None
             \<and> cap \<notin> set (string_set (od_platform_capabilities order))
          then Some (CapabilityMissing label) else None
      | None \<Rightarrow> None)"

text \<open>The first reason that applies: \<open>a or b\<close>.\<close>

definition first_reason ::
  "unavailable_reason option \<Rightarrow> unavailable_reason option \<Rightarrow> unavailable_reason option" where
  "first_reason a b = (case a of None \<Rightarrow> b | Some r \<Rightarrow> Some r)"

definition order_action_availability :: "order_row \<Rightarrow> action_availability list" where
  "order_action_availability order =
     map (\<lambda>(action, label, danger). \<lparr>av_action = action,
            av_reason = first_reason (common_reason order)
              (first_reason (capability_reason order action label) (action_reason order action)),
            av_label = label, av_danger = danger\<rparr>)
         ACTION_META"

text \<open>\<open>{item.action: item for item in availability}[action]\<close>.\<close>

definition selected_action :: "order_row \<Rightarrow> order_action \<Rightarrow> action_availability" where
  "selected_action order action =
     the (get_row av_action (order_action_availability order) action)"

section \<open>The payload\<close>

definition line_break :: "int \<Rightarrow> bool" where
  "line_break c \<longleftrightarrow> (10 \<le> c \<and> c \<le> 13) \<or> (28 \<le> c \<and> c \<le> 30) \<or> c = 133 \<or> c = 8232 \<or> c = 8233"

text \<open>\<open>splitlines\<close>; an empty line between CR and LF makes no difference to the callers, which drop empty lines.\<close>

function usplitlines :: "ustr \<Rightarrow> ustr list" where
  "usplitlines t = (if t = [] then []
     else takeWhile (\<lambda>c. \<not> line_break c) t # usplitlines (drop 1 (dropWhile (\<lambda>c. \<not> line_break c) t)))"
  by auto
termination
proof (relation "measure length")
  fix t :: ustr
  assume "t \<noteq> []"
  then have "0 < length t" by simp
  then show "(drop 1 (dropWhile (\<lambda>c. \<not> line_break c) t), t) \<in> measure length"
    using length_dropWhile_le [of "\<lambda>c. \<not> line_break c" t]
    by (simp only: in_measure length_drop)
qed simp

declare usplitlines.simps [simp del]

definition load_string_list :: "json \<Rightarrow> ustr list" where
  "load_string_list raw = (case raw of
     JList items \<Rightarrow> filter (\<lambda>t. t \<noteq> [])
       (map (\<lambda>i. case i of JStr t \<Rightarrow> ustrip t | _ \<Rightarrow> []) items)
   | JStr t \<Rightarrow> filter (\<lambda>t. t \<noteq> []) (map ustrip (usplitlines t))
   | _ \<Rightarrow> [])"

definition load_string_map :: "json \<Rightarrow> json" where
  "load_string_map raw = (case raw of
     JObj kvs \<Rightarrow> JObj (filter (\<lambda>(k, v). case v of JStr t \<Rightarrow> ustrip t \<noteq> [] | _ \<Rightarrow> False) kvs)
   | _ \<Rightarrow> JObj [])"

text \<open>\<open>_order_to_payload\<close>: the same columns, with the list columns decoded and filtered and the buyer filled in.\<close>

definition order_to_payload :: "order_row \<Rightarrow> order_row" where
  "order_to_payload row = row\<lparr>
     od_trade_role := Some (str_or (od_trade_role row) ''unknown''),
     od_buyer_user_id := u_or (od_buyer_user_id row) (od_peer_user_id row),
     od_buyer_name := u_or (od_buyer_name row) (od_peer_name row),
     od_platform_refund_actions := jstrs (load_string_list (od_platform_refund_actions row)),
     od_refund_refuse_options := JList (object_list (od_refund_refuse_options row)),
     od_platform_shipping_methods := jstrs (load_string_list (od_platform_shipping_methods row)),
     od_platform_shipping_context := obj_or_empty (od_platform_shipping_context row),
     od_platform_capabilities := jstrs (load_string_list (od_platform_capabilities row)),
     od_platform_action_links := load_string_map (od_platform_action_links row)\<rparr>"

section \<open>Lemmas\<close>

lemma selected_reason:
  "av_reason (selected_action order action) = first_reason (common_reason order)
     (first_reason (capability_reason order action (av_label (selected_action order action)))
        (action_reason order action))"
  "av_action (selected_action order action) = action"
  by (cases action; simp add: selected_action_def order_action_availability_def ACTION_META_def)+

lemma enabled_iff:
  "av_enabled (selected_action order action) \<longleftrightarrow>
     common_reason order = None
     \<and> (case ACTION_CAPABILITY action of None \<Rightarrow> True
        | Some cap \<Rightarrow> od_headinfo_confirmed_at order = None
            \<or> cap \<in> set (string_set (od_platform_capabilities order)))
     \<and> action_reason order action = None"
  by (auto simp: av_enabled_def selected_reason first_reason_def capability_reason_def split: option.splits)

text \<open>Columns that hold lists of texts, as the store writes them.\<close>

definition text_list :: "json \<Rightarrow> bool" where
  "text_list raw = (case raw of
     JNull \<Rightarrow> True | JList items \<Rightarrow> list_all is_str items | _ \<Rightarrow> False)"

lemma is_str_iff: "is_str v \<longleftrightarrow> (\<exists>t. v = JStr t)"
  by (cases v) auto

lemma ustrip_str_of_JStr [simp]: "ustrip (str_of (JStr t)) = ustrip t"
  by (auto simp: str_of_def py_str_def)

lemma string_set_load: "text_list raw \<Longrightarrow> string_set (jstrs (load_string_list raw)) = string_set raw"
proof (cases raw)
  case (JList items)
  assume "text_list raw"
  with JList have "list_all is_str items" by (simp add: text_list_def)
  then have "upper_texts (map JStr (filter (\<lambda>t. t \<noteq> []) (map (\<lambda>i. case i of JStr t \<Rightarrow> ustrip t | _ \<Rightarrow> []) items)))
      = upper_texts items"
    by (induction items) (auto simp: upper_texts_def is_str_iff)
  with JList show ?thesis by (simp add: string_set_def jstrs_def load_string_list_def)
qed (simp_all add: text_list_def string_set_def jstrs_def load_string_list_def)

lemma text_list_jstrs [simp]: "text_list (jstrs ts)"
  by (simp add: text_list_def jstrs_def list_all_iff)

definition columns_ok :: "order_row \<Rightarrow> bool" where
  "columns_ok row \<longleftrightarrow> text_list (od_platform_refund_actions row)
     \<and> text_list (od_platform_shipping_methods row) \<and> text_list (od_platform_capabilities row)"

lemma payload_fields:
  "od_status (order_to_payload row) = od_status row"
  "od_platform_confirmed (order_to_payload row) = od_platform_confirmed row"
  "od_platform_order_id (order_to_payload row) = od_platform_order_id row"
  "od_refund_status (order_to_payload row) = od_refund_status row"
  "od_refund_id (order_to_payload row) = od_refund_id row"
  "od_is_bargain (order_to_payload row) = od_is_bargain row"
  "od_item_id (order_to_payload row) = od_item_id row"
  "od_peer_user_id (order_to_payload row) = od_peer_user_id row"
  "od_seller_rate_status (order_to_payload row) = od_seller_rate_status row"
  "od_headinfo_confirmed_at (order_to_payload row) = od_headinfo_confirmed_at row"
  "od_trade_role (order_to_payload row) = Some (str_or (od_trade_role row) ''unknown'')"
  "od_buyer_user_id (order_to_payload row) = u_or (od_buyer_user_id row) (od_peer_user_id row)"
  "od_order_pk (order_to_payload row) = od_order_pk row"
  "od_account_id (order_to_payload row) = od_account_id row"
  "od_data_source (order_to_payload row) = od_data_source row"
  "od_conversation_id (order_to_payload row) = od_conversation_id row"
  by (simp_all add: order_to_payload_def)

lemma payload_lists:
  "columns_ok row \<Longrightarrow> string_set (od_platform_refund_actions (order_to_payload row)) = string_set (od_platform_refund_actions row)"
  "columns_ok row \<Longrightarrow> string_set (od_platform_shipping_methods (order_to_payload row)) = string_set (od_platform_shipping_methods row)"
  "columns_ok row \<Longrightarrow> string_set (od_platform_capabilities (order_to_payload row)) = string_set (od_platform_capabilities row)"
  "object_list (od_refund_refuse_options (order_to_payload row)) = object_list (od_refund_refuse_options row)"
  by (simp_all add: order_to_payload_def columns_ok_def string_set_load object_list_def)

lemma u_or_nested [simp]: "u_or (u_or a b) b = u_or a b"
  by (simp add: u_or_def)

section \<open>Properties\<close>

text \<open>The actions offered and the actions enforced agree: for an order whose list columns
  hold lists of texts, as the store writes them, the rules give the same answer for the
  stored row (shown in the order list) and for the payload the service decides on.\<close>

theorem payload_availability_agrees:
  assumes "columns_ok row"
  shows "order_action_availability (order_to_payload row) = order_action_availability row"
proof -
  have c: "common_reason (order_to_payload row) = common_reason row"
    by (auto simp: common_reason_def payload_fields str_or_def split: option.splits if_splits)
  have r: "refund_finished (order_to_payload row) = refund_finished row"
    "refund_active (order_to_payload row) = refund_active row"
    by (simp_all add: refund_finished_def refund_active_def refund_state_def payload_fields)
  have s: "shipping_reason (order_to_payload row) a = shipping_reason row a" for a
    by (simp add: shipping_reason_def Let_def payload_fields payload_lists assms r)
  have a: "action_reason (order_to_payload row) a = action_reason row a" for a
    by (simp add: action_reason_def s payload_fields payload_lists assms r split: order_action.split)
  have k: "capability_reason (order_to_payload row) a l = capability_reason row a l" for a l
    by (simp add: capability_reason_def payload_fields payload_lists assms split: option.split)
  show ?thesis by (simp add: order_action_availability_def c a k)
qed

definition sample_order :: order_row where
  "sample_order = (order_defaults ''o1'' ''a'' (asc ''77'') 1)\<lparr>
     od_platform_order_id := Some (asc ''900''), od_trade_role := Some ''seller'',
     od_data_source := Some ''seller_sold'', od_platform_confirmed := True,
     od_status := ''paid_waiting_delivery'',
     od_platform_shipping_methods := jstrs [asc ''DUMMY_CONSIGN'']\<rparr>"

theorem payload_availability_agrees_witness:
  "av_enabled (selected_action (order_to_payload sample_order) ConfirmShipping)"
proof -
  have "columns_ok sample_order" by code_simp
  then have "order_action_availability (order_to_payload sample_order) = order_action_availability sample_order"
    by (rule payload_availability_agrees)
  then have "selected_action (order_to_payload sample_order) ConfirmShipping = selected_action sample_order ConfirmShipping"
    by (simp add: selected_action_def)
  moreover have "av_enabled (selected_action sample_order ConfirmShipping)" by code_simp
  ultimately show ?thesis by simp
qed

end
