(* ===== verification/OrderActions.thy ===== *)
theory OrderActions
  imports OrderPolicy
begin

text \<open>
  The durable execution of seller actions (\<open>order_action_service.py\<close>). The platform client,
  the cookie merge that follows each of its calls, the clock and fresh identifiers are the
  environment; a call is labelled with the purpose the code passes to it, so that the
  preflight and the read-back may see different answers. The list of platform writes that
  an execution makes is part of its result.
\<close>

section \<open>Errors and environment\<close>

datatype service_error =
    OrderNotFound
  | AccountNotFound
  | OperationNotFound
  | OperationRunning
  | KeyUsedElsewhere
  | OtherOrderReturned
  | NoConversation
  | NoPlatformOrder
  | ActionUnavailable unavailable_reason
  | TrackingMissing
  | CarrierMissing
  | RefuseReasonMissing
  | RefuseReasonChanged
  | LogisticProofMissing
  | RefuseProofMissing
  | CommitFailed
  | ClientUnavailable ustr
  | ClientFailed ustr
  | HeadinfoInvalid
  | CookieMergeFailed
  | InternalError

record action_args =
  aa_order_id :: ustr
  aa_item_id :: ustr
  aa_buyer_id :: ustr
  aa_feedback :: ustr
  aa_close_reason :: ustr
  aa_tracking_no :: ustr
  aa_carrier_code :: ustr
  aa_carrier_brand_code :: ustr
  aa_sender_address_id :: ustr
  aa_refund_id :: ustr
  aa_refund_reason_id :: ustr
  aa_refund_proof :: json
  aa_refund_logistic_info :: json
  aa_refund_negotiation_apply :: json

text \<open>What \<open>client.execute\<close> returns or raises: a result, an \<open>OrderActionError\<close>, another exception.\<close>

record action_result =
  ar_success :: bool
  ar_message :: ustr
  ar_platform_code :: "ustr option"
  ar_already_applied :: bool
  ar_raw_response :: json

record action_error =
  ae_message :: ustr
  ae_uncertain :: bool
  ae_raw_response :: json

datatype exec_outcome =
    Executed action_result
  | ActionRaised action_error
  | ExecCrashed ustr ustr

record order_env =
  en_account :: "string \<Rightarrow> bool"
  en_client :: "string \<Rightarrow> ustr option"
  en_headinfo :: "string \<Rightarrow> ustr \<Rightarrow> ustr \<Rightarrow> ustr + json"
  en_detail :: "string \<Rightarrow> ustr \<Rightarrow> ustr + detail_snapshot"
  en_shipping :: "string \<Rightarrow> ustr \<Rightarrow> ustr + json"
  en_refund :: "string \<Rightarrow> ustr \<Rightarrow> ustr + json"
  en_refuse_options :: "string \<Rightarrow> ustr \<Rightarrow> ustr \<Rightarrow> ustr + json"
  en_merge :: "string \<Rightarrow> bool"
  en_execute :: "order_action \<Rightarrow> action_args \<Rightarrow> exec_outcome"
  en_nfkc :: "ustr \<Rightarrow> ustr"
  en_casefold :: "ustr \<Rightarrow> ustr"
  en_loads :: "ustr \<Rightarrow> json option"
  en_now :: timestamp
  en_uid :: "string \<Rightarrow> string"

text \<open>
  A computation on the tables that may raise: the writes committed before the exception
  stay.
\<close>

type_synonym 'a act = "order_db \<Rightarrow> order_db \<times> (service_error + 'a)"

definition retE :: "'a \<Rightarrow> 'a act" where
  "retE x = (\<lambda>db. (db, Inr x))"

definition failE :: "service_error \<Rightarrow> 'a act" where
  "failE e = (\<lambda>db. (db, Inl e))"

definition bindE :: "'a act \<Rightarrow> ('a \<Rightarrow> 'b act) \<Rightarrow> 'b act" where
  "bindE m f = (\<lambda>db. case m db of (db', Inl e) \<Rightarrow> (db', Inl e) | (db', Inr x) \<Rightarrow> f x db')"

definition guardE :: "bool \<Rightarrow> service_error \<Rightarrow> unit act" where
  "guardE ok e = (if ok then retE () else failE e)"

definition callE :: "ustr + 'a \<Rightarrow> 'a act" where
  "callE r = (case r of Inl e \<Rightarrow> failE (ClientFailed e) | Inr x \<Rightarrow> retE x)"

section \<open>The repository\<close>

definition get_by_idempotency :: "string \<Rightarrow> ustr \<Rightarrow> order_db \<Rightarrow> operation_row option" where
  "get_by_idempotency account_id key db =
     find (\<lambda>op. op_account_id op = account_id \<and> op_idempotency_key op = key) (ob_operations db)"

definition active_operation :: "string \<Rightarrow> order_db \<Rightarrow> operation_row option" where
  "active_operation order_pk db =
     find (\<lambda>op. op_order_pk op = order_pk \<and> op_status op = Processing) (ob_operations db)"

definition new_operation ::
  "timestamp \<Rightarrow> string \<Rightarrow> string \<Rightarrow> string \<Rightarrow> ustr \<Rightarrow> order_action \<Rightarrow> ustr \<Rightarrow> string option \<Rightarrow> string
   \<Rightarrow> json \<Rightarrow> operation_row" where
  "new_operation now fresh order_pk account_id platform_order_id action key requested_by pre_status summary = \<lparr>
     op_operation_id = fresh, op_order_pk = order_pk, op_account_id = account_id,
     op_platform_order_id = platform_order_id, op_action = action, op_status = Processing,
     op_idempotency_key = key, op_requested_by = requested_by, op_pre_status = Some pre_status,
     op_post_status = None, op_message = None, op_error = None, op_platform_code = None,
     op_request_json = summary, op_response_json = JNull, op_created_at = now, op_updated_at = now,
     op_started_at = Some now, op_finished_at = None\<rparr>"

text \<open>
  The primary key or the unique index on account and key rejects the commit; the operation
  that holds the key is returned when there is one.
\<close>

definition create_operation ::
  "timestamp \<Rightarrow> string \<Rightarrow> string \<Rightarrow> string \<Rightarrow> ustr \<Rightarrow> order_action \<Rightarrow> ustr \<Rightarrow> string option \<Rightarrow> string
   \<Rightarrow> json \<Rightarrow> (operation_row \<times> bool) act" where
  "create_operation now fresh order_pk account_id platform_order_id action key requested_by pre_status summary db =
     (case get_row od_order_pk (ob_orders db) order_pk of
        None \<Rightarrow> (db, Inl OrderNotFound)
      | Some _ \<Rightarrow>
          (case active_operation order_pk db of
             Some _ \<Rightarrow> (db, Inl OperationRunning)
           | None \<Rightarrow>
               (case get_by_idempotency account_id key db of
                  Some existing \<Rightarrow> (db, Inr (existing, False))
                | None \<Rightarrow>
                    if get_row op_operation_id (ob_operations db) fresh \<noteq> None then (db, Inl CommitFailed)
                    else let row = new_operation now fresh order_pk account_id platform_order_id action key
                               requested_by pre_status summary
                         in (db\<lparr>ob_operations := ob_operations db @ [row]\<rparr>, Inr (row, True)))))"

text \<open>Status texts of an order: shipped, and transaction closed.\<close>

definition shipped_text :: ustr where
  "shipped_text = [24050, 21457, 36135]"

definition closed_text :: ustr where
  "closed_text = [20132, 26131, 20851, 38381]"

definition logistics_of :: "order_action \<Rightarrow> string" where
  "logistics_of action = (case action of
     ConfirmShipping \<Rightarrow> ''dummy'' | OfflineShipping \<Rightarrow> ''offline'' | _ \<Rightarrow> ''bargain_free_shipping'')"

definition action_values :: "order_action \<Rightarrow> json \<Rightarrow> order_row \<Rightarrow> order_row" where
  "action_values action summary order =
     (let shipped = order\<lparr>od_status := ''shipped'', od_status_text := Some shipped_text,
            od_platform_status := Some shipped_text, od_logistics_type := Some (logistics_of action)\<rparr>
      in case action of
           OfflineShipping \<Rightarrow> shipped\<lparr>
             od_carrier_code := u_or (u_none (ustrip (str_of (jget ''carrier_code'' summary)))) (od_carrier_code order),
             od_tracking_no := u_or (u_none (ustrip (str_of (jget ''tracking_no'' summary)))) (od_tracking_no order)\<rparr>
         | CloseOrder \<Rightarrow> order\<lparr>od_status := ''closed'', od_status_text := Some closed_text,
             od_platform_status := Some closed_text\<rparr>
         | RateBuyer \<Rightarrow> order\<lparr>od_seller_rate_status := Some (asc ''4'')\<rparr>
         | RefuseRefund \<Rightarrow> order\<lparr>od_refund_status := Some (asc ''rejected''),
             od_platform_refund_actions := JList [], od_refund_refuse_options := JList []\<rparr>
         | _ \<Rightarrow> shipped)"

definition confirmed_values :: "timestamp \<Rightarrow> order_row \<Rightarrow> order_row" where
  "confirmed_values now order = order\<lparr>od_last_synced_at := Some now, od_sync_state := ''confirmed'',
     od_sync_error := None, od_updated_at := now\<rparr>"

fun action_name :: "order_action \<Rightarrow> string" where
  "action_name ConfirmShipping = ''confirm_shipping''"
| "action_name OfflineShipping = ''offline_shipping''"
| "action_name FreeShipping = ''free_shipping''"
| "action_name CloseOrder = ''close_order''"
| "action_name RateBuyer = ''rate_buyer''"
| "action_name RefuseRefund = ''refuse_refund''"

record finish_values =
  fv_status :: operation_status
  fv_message :: "ustr option"
  fv_error :: "ustr option"
  fv_platform_code :: "ustr option"
  fv_post_status :: "string option"
  fv_response :: json

definition finished_operation :: "timestamp \<Rightarrow> finish_values \<Rightarrow> operation_row \<Rightarrow> operation_row" where
  "finished_operation now v row = row\<lparr>op_status := fv_status v, op_message := fv_message v,
     op_error := fv_error v, op_platform_code := fv_platform_code v, op_post_status := fv_post_status v,
     op_response_json := fv_response v, op_updated_at := now, op_finished_at := Some now\<rparr>"

text \<open>The unique index on account and message rejects a second event of the same operation.\<close>

definition finish_operation ::
  "timestamp \<Rightarrow> string \<Rightarrow> string \<Rightarrow> finish_values \<Rightarrow> bool \<Rightarrow> operation_row act" where
  "finish_operation now event_pk operation_id v apply_action_state db =
     (case get_row op_operation_id (ob_operations db) operation_id of
        None \<Rightarrow> (db, Inl OperationNotFound)
      | Some row0 \<Rightarrow>
          let row = finished_operation now v row0;
              plain = (db\<lparr>ob_operations := put_row op_operation_id row (ob_operations db)\<rparr>, Inr row)
          in if apply_action_state \<and> fv_status v = OpSucceeded
             then (case get_row od_order_pk (ob_orders db) (op_order_pk row) of
                     None \<Rightarrow> plain
                   | Some order \<Rightarrow>
                       let order' = confirmed_values now (action_values (op_action row) (obj_or_empty (op_request_json row)) order);
                           event = order_event_row event_pk (''action:'' @ op_operation_id row) now order'
                             (''platform_action_'' @ action_name (op_action row)) (fv_message v)
                             (jobj [(''action'', JStr (asc (action_name (op_action row)))),
                                    (''previous_status'', JStr (asc (od_status order))),
                                    (''platform_code'', jopt (fv_platform_code v))]);
                           row' = row\<lparr>op_post_status := Some (od_status order')\<rparr>
                       in if list_ex (\<lambda>e. oe_account_id e = oe_account_id event \<and> oe_message_pk e = oe_message_pk event) (ob_events db)
                          then (db, Inl CommitFailed)
                          else (db\<lparr>ob_orders := put_row od_order_pk order' (ob_orders db),
                                   ob_events := ob_events db @ [event],
                                   ob_operations := put_row op_operation_id row' (ob_operations db)\<rparr>, Inr row'))
             else plain)"

section \<open>Refreshing the platform state\<close>

definition get_order :: "string \<Rightarrow> order_db \<Rightarrow> order_row option" where
  "get_order order_pk db = map_option order_to_payload (get_row od_order_pk (ob_orders db) order_pk)"

definition require_order :: "string \<Rightarrow> order_row act" where
  "require_order order_pk db =
     (case get_order order_pk db of None \<Rightarrow> (db, Inl OrderNotFound) | Some o' \<Rightarrow> (db, Inr o'))"

definition mergeE :: "order_env \<Rightarrow> string \<Rightarrow> unit act" where
  "mergeE env source = guardE (en_merge env source) CookieMergeFailed"

text \<open>\<open>store.apply_...\<close>: the write, then the order it reports, if any.\<close>

definition applied :: "(order_db \<Rightarrow> order_db \<times> string option) \<Rightarrow> order_row option act" where
  "applied write db = (case write db of
     (db', None) \<Rightarrow> (db', Inr None)
   | (db', Some target_pk) \<Rightarrow> (db', Inr (get_order target_pk db')))"

definition requireE :: "order_row option \<Rightarrow> order_row act" where
  "requireE r = (case r of None \<Rightarrow> failE OrderNotFound | Some o' \<Rightarrow> retE o')"

text \<open>
  The guarded part that asks for the head information: the tables, the value of
  \<open>refreshed\<close> when the part ends, and the exception, if one was raised.
\<close>

definition refresh_headinfo ::
  "order_env \<Rightarrow> string \<Rightarrow> order_row \<Rightarrow> order_db \<Rightarrow> order_db \<times> order_row option \<times> service_error option" where
  "refresh_headinfo env source order db =
     (case en_headinfo env source (u_text (od_item_id order)) (od_conversation_id order) of
        Inl e \<Rightarrow> (db, Some order, Some (ClientFailed e))
      | Inr raw \<Rightarrow>
          (case apply_order_headinfo (en_nfkc env) (en_casefold env) (en_loads env) (en_now env)
                  (en_uid env (source @ ''_order'')) (od_order_pk order) raw db of
             Inl _ \<Rightarrow> (db, Some order, Some HeadinfoInvalid)
           | Inr (db', target) \<Rightarrow>
               (case Option.bind target (\<lambda>pk. get_order pk db') of
                  None \<Rightarrow> (db', None, Some OrderNotFound)
                | Some refreshed \<Rightarrow>
                    if od_order_pk refreshed \<noteq> od_order_pk order
                    then (db', Some refreshed, Some OtherOrderReturned)
                    else if en_merge env (source @ ''_headinfo'') then (db', Some refreshed, None)
                    else (db', Some refreshed, Some CookieMergeFailed))))"

definition refresh_head :: "order_env \<Rightarrow> string \<Rightarrow> bool \<Rightarrow> order_row \<Rightarrow> order_row act" where
  "refresh_head env source require_headinfo order db =
     (if utruthy (od_item_id order) \<and> od_conversation_id order \<noteq> []
      then (case refresh_headinfo env source order db of
              (db', refreshed, err) \<Rightarrow>
                if err \<noteq> None \<and> require_headinfo then (db', Inl (the err))
                else (case refreshed of None \<Rightarrow> (db', Inl InternalError) | Some r \<Rightarrow> (db', Inr r)))
      else if require_headinfo then (db, Inl NoConversation)
      else (db, Inr order))"

definition refresh_detail :: "order_env \<Rightarrow> string \<Rightarrow> string \<Rightarrow> order_row \<Rightarrow> order_row act" where
  "refresh_detail env source order_pk refreshed =
     bindE (callE (en_detail env source (u_text (od_platform_order_id refreshed)))) (\<lambda>snapshot.
     bindE (mergeE env source) (\<lambda>_.
     bindE (applied (apply_order_detail_snapshot (en_now env) (en_uid env (source @ ''_event''))
              (en_uid env (source @ ''_detail'')) order_pk snapshot)) requireE))"

definition refresh_shipping :: "order_env \<Rightarrow> string \<Rightarrow> string \<Rightarrow> ustr list \<Rightarrow> order_row \<Rightarrow> order_row act" where
  "refresh_shipping env source order_pk capabilities refreshed =
     (if asc ''LOGISTICS_SEND'' \<in> set capabilities
      then bindE (callE (en_shipping env source (u_text (od_platform_order_id refreshed)))) (\<lambda>options.
           bindE (applied (apply_order_shipping_options (en_now env) order_pk options)) (\<lambda>r.
           bindE (requireE r) (\<lambda>refreshed'.
           bindE (mergeE env (source @ ''_shipping'')) (\<lambda>_. retE refreshed'))))
      else bindE (applied (apply_order_shipping_options (en_now env) order_pk (JObj []))) (\<lambda>r.
           retE (case r of None \<Rightarrow> refreshed | Some r' \<Rightarrow> r')))"

definition refresh_refund :: "order_env \<Rightarrow> string \<Rightarrow> string \<Rightarrow> ustr list \<Rightarrow> order_row \<Rightarrow> order_row act" where
  "refresh_refund env source order_pk capabilities refreshed =
     (if asc ''DEAL_REFUND'' \<in> set capabilities \<or> asc ''VIEW_REFUND'' \<in> set capabilities
         \<or> (\<exists>s\<in>set (map asc [''pending'', ''processing'', ''refunding'']). od_refund_status refreshed = Some s)
      then bindE (callE (en_refund env source (u_text (od_platform_order_id refreshed)))) (\<lambda>detail.
           bindE (applied (apply_order_refund_detail (en_now env) (en_uid env (source @ ''_refund_event''))
                    (en_uid env (source @ ''_refund'')) order_pk detail)) (\<lambda>r.
           bindE (requireE r) (\<lambda>refreshed1.
           bindE (if asc ''REFUSE_REFUND'' \<in> set (load_string_list (od_platform_refund_actions refreshed1))
                     \<and> utruthy (od_refund_id refreshed1)
                  then bindE (callE (en_refuse_options env source (u_text (od_refund_id refreshed1)) [])) (\<lambda>options.
                       bindE (applied (apply_order_refuse_options (en_now env) order_pk options)) requireE)
                  else retE refreshed1) (\<lambda>refreshed2.
           bindE (mergeE env (source @ ''_refund'')) (\<lambda>_. retE refreshed2)))))
      else retE refreshed)"

definition refresh_platform_state :: "order_env \<Rightarrow> string \<Rightarrow> bool \<Rightarrow> order_row \<Rightarrow> order_row act" where
  "refresh_platform_state env source require_headinfo order =
     bindE (refresh_head env source require_headinfo order) (\<lambda>r0.
     bindE (refresh_detail env source (od_order_pk order) r0) (\<lambda>r1.
     let capabilities = string_set (od_platform_capabilities r1) in
     bindE (refresh_shipping env source (od_order_pk order) capabilities r1) (\<lambda>r2.
     refresh_refund env source (od_order_pk order) capabilities r2)))"

definition require_headinfo :: "order_row \<Rightarrow> bool" where
  "require_headinfo order \<longleftrightarrow>
     od_data_source order \<noteq> Some ''seller_sold'' \<or> od_headinfo_confirmed_at order \<noteq> None"

definition clientE :: "order_env \<Rightarrow> string \<Rightarrow> unit act" where
  "clientE env account_id =
     (if \<not> en_account env account_id then failE AccountNotFound
      else case en_client env account_id of
             Some e \<Rightarrow> failE (ClientUnavailable e)
           | None \<Rightarrow> retE ())"

definition refresh_order :: "order_env \<Rightarrow> string \<Rightarrow> order_row act" where
  "refresh_order env order_pk =
     bindE (require_order order_pk) (\<lambda>order.
     bindE (guardE (utruthy (od_platform_order_id order)) NoPlatformOrder) (\<lambda>_.
     bindE (clientE env (od_account_id order)) (\<lambda>_.
     refresh_platform_state env ''order_detail_refresh'' (require_headinfo order) order)))"

definition preview_action :: "order_env \<Rightarrow> string \<Rightarrow> order_action \<Rightarrow> (action_availability \<times> order_row) act" where
  "preview_action env order_pk action =
     bindE (refresh_order env order_pk) (\<lambda>order. retE (selected_action order action, order))"

section \<open>Execution\<close>

record execute_request =
  rq_action :: order_action
  rq_idempotency_key :: ustr
  rq_feedback :: "ustr option"
  rq_close_reason :: "ustr option"
  rq_tracking_no :: "ustr option"
  rq_carrier_code :: "ustr option"
  rq_carrier_brand_code :: "ustr option"
  rq_sender_address_id :: "ustr option"
  rq_refund_reason_id :: "ustr option"
  rq_refund_proof :: json
  rq_refund_logistic_info :: json
  rq_refund_negotiation_apply :: json

definition validate_refuse_request :: "order_env \<Rightarrow> order_row \<Rightarrow> execute_request \<Rightarrow> unit act" where
  "validate_refuse_request env order rq =
     (let reason_id = ustrip (u_text (rq_refund_reason_id rq));
          allowed_ids = map (\<lambda>item. ustrip (str_of (jget ''id'' item)))
            (filter is_obj (list_or_empty (od_refund_refuse_options order)))
      in bindE (guardE (reason_id \<noteq> []) RefuseReasonMissing) (\<lambda>_.
         bindE (guardE (reason_id \<in> set allowed_ids) RefuseReasonChanged) (\<lambda>_.
         bindE (callE (en_refuse_options env ''validate'' (u_text (od_refund_id order)) reason_id)) (\<lambda>rendered.
         let prf = obj_or_empty (jget ''refuseProof'' rendered);
             proof_type = uupper (if jtruthy (jget ''bizType'' prf) then py_str (jget ''bizType'' prf)
                                  else asc ''NORMAL'')
         in if \<not> jtruthy (jget ''mustProof'' prf) then retE ()
            else if proof_type = asc ''LOGISTIC'' \<and> \<not> jtruthy (rq_refund_logistic_info rq)
            then failE LogisticProofMissing
            else if proof_type \<noteq> asc ''LOGISTIC'' \<and> \<not> jtruthy (rq_refund_proof rq)
            then failE RefuseProofMissing
            else retE ()))))"

definition request_summary :: "execute_request \<Rightarrow> json" where
  "request_summary rq =
     (let only = (\<lambda>a v. if rq_action rq = a then jopt v else JNull)
      in jobj [(''action'', JStr (asc (action_name (rq_action rq)))),
               (''feedback'', only RateBuyer (rq_feedback rq)),
               (''close_reason'', only CloseOrder (rq_close_reason rq)),
               (''tracking_no'', only OfflineShipping (rq_tracking_no rq)),
               (''carrier_code'', only OfflineShipping (rq_carrier_code rq)),
               (''refund_reason_id'', only RefuseRefund (rq_refund_reason_id rq))])"

text \<open>The defaults for the feedback and for the reason of closing an order.\<close>

definition default_feedback :: ustr where
  "default_feedback = [19981, 38169, 30340, 20080, 23478, 65292, 26399, 24453, 20877, 27425, 20132, 26131]"

definition default_close_reason :: ustr where
  "default_close_reason = [20854, 20182, 21407, 22240]"

definition execute_args :: "order_row \<Rightarrow> execute_request \<Rightarrow> action_args" where
  "execute_args order rq = \<lparr>
     aa_order_id = u_text (od_platform_order_id order), aa_item_id = u_text (od_item_id order),
     aa_buyer_id = u_text (u_or (od_buyer_user_id order) (od_peer_user_id order)),
     aa_feedback = u_text (u_or (rq_feedback rq) (Some default_feedback)),
     aa_close_reason = u_text (u_or (rq_close_reason rq) (Some default_close_reason)),
     aa_tracking_no = u_text (rq_tracking_no rq), aa_carrier_code = u_text (rq_carrier_code rq),
     aa_carrier_brand_code = u_text (rq_carrier_brand_code rq),
     aa_sender_address_id = (if utruthy (rq_sender_address_id rq) then u_text (rq_sender_address_id rq)
        else str_of (jget ''sender_address_id'' (od_platform_shipping_context order))),
     aa_refund_id = u_text (od_refund_id order),
     aa_refund_reason_id = u_text (rq_refund_reason_id rq),
     aa_refund_proof = rq_refund_proof rq, aa_refund_logistic_info = rq_refund_logistic_info rq,
     aa_refund_negotiation_apply = rq_refund_negotiation_apply rq\<rparr>"

definition response_code :: "json \<Rightarrow> ustr option" where
  "response_code response =
     (case jget ''ret'' response of
        JList (r # _) \<Rightarrow>
          let t = py_str r;
              cut = (\<lambda>n. starts_with (asc ''::'') (drop n t))
          in Some (case find cut [0..<length t] of None \<Rightarrow> t | Some n \<Rightarrow> take n t)
      | _ \<Rightarrow> None)"

definition result_summary :: "action_result \<Rightarrow> json" where
  "result_summary r = jobj [(''success'', JBool (ar_success r)), (''already_applied'', JBool (ar_already_applied r)),
     (''platform_code'', jopt (ar_platform_code r)), (''ret'', jget ''ret'' (ar_raw_response r))]"

definition succeeded_values :: "action_result \<Rightarrow> finish_values" where
  "succeeded_values r = \<lparr>fv_status = OpSucceeded, fv_message = Some (ar_message r), fv_error = None,
     fv_platform_code = ar_platform_code r, fv_post_status = None, fv_response = result_summary r\<rparr>"

definition raised_values :: "action_error \<Rightarrow> order_row \<Rightarrow> finish_values" where
  "raised_values e order = \<lparr>fv_status = (if ae_uncertain e then Uncertain else OpFailed), fv_message = None,
     fv_error = Some (ae_message e), fv_platform_code = response_code (ae_raw_response e),
     fv_post_status = Some (od_status order),
     fv_response = jobj [(''ret'', jget ''ret'' (ae_raw_response e))]\<rparr>"

definition crashed_values :: "ustr \<Rightarrow> ustr \<Rightarrow> order_row \<Rightarrow> finish_values" where
  "crashed_values cls text order = \<lparr>fv_status = Uncertain, fv_message = None,
     fv_error = Some (cls @ asc '': '' @ text), fv_platform_code = None,
     fv_post_status = Some (od_status order), fv_response = jobj [(''exception'', JStr cls)]\<rparr>"

text \<open>\<open>except Exception\<close>: run the handler when the first computation raised.\<close>

definition catchE :: "'a act \<Rightarrow> (service_error \<Rightarrow> 'a act) \<Rightarrow> 'a act" where
  "catchE m h = (\<lambda>db. case m db of (db', Inl e) \<Rightarrow> h e db' | (db', Inr x) \<Rightarrow> (db', Inr x))"

definition best_effort_readback :: "order_env \<Rightarrow> string \<Rightarrow> unit act" where
  "best_effort_readback env order_pk =
     catchE (bindE (require_order order_pk) (\<lambda>order.
             bindE (refresh_platform_state env ''order_action_readback'' (require_headinfo order) order)
               (\<lambda>_. retE ())))
       (\<lambda>_. retE ())"

text \<open>What is recorded for an execution that the platform answered.\<close>

definition settle_execution ::
  "order_env \<Rightarrow> string \<Rightarrow> order_row \<Rightarrow> operation_row \<Rightarrow> order_action \<Rightarrow> exec_outcome \<Rightarrow> operation_row act" where
  "settle_execution env order_pk refreshed op action outcome =
     (let finish = (\<lambda>v. finish_operation (en_now env) (en_uid env ''action_event'') (op_operation_id op) v);
          source = ''order_action_'' @ action_name action
      in case outcome of
           Executed r \<Rightarrow>
             catchE (bindE (mergeE env source) (\<lambda>_.
                     bindE (finish (succeeded_values r) True) (\<lambda>op'.
                     bindE (best_effort_readback env order_pk) (\<lambda>_. retE op'))))
               (\<lambda>_. finish (crashed_values (asc ''Exception'') [] refreshed) False)
         | ActionRaised e \<Rightarrow>
             bindE (mergeE env (source @ ''_error'')) (\<lambda>_. finish (raised_values e refreshed) False)
         | ExecCrashed cls text \<Rightarrow> finish (crashed_values cls text refreshed) False)"

text \<open>The checks before an operation is recorded: the refreshed order the action is allowed on.\<close>

definition preflight :: "order_env \<Rightarrow> order_row \<Rightarrow> execute_request \<Rightarrow> order_row act" where
  "preflight env order rq =
     bindE (clientE env (od_account_id order)) (\<lambda>_.
     bindE (refresh_platform_state env ''order_action_preflight'' (require_headinfo order) order) (\<lambda>refreshed.
     bindE (case av_reason (selected_action refreshed (rq_action rq)) of
              Some reason \<Rightarrow> failE (ActionUnavailable reason) | None \<Rightarrow> retE ()) (\<lambda>_.
     bindE (guardE (rq_action rq = OfflineShipping \<longrightarrow> utruthy (rq_tracking_no rq)) TrackingMissing) (\<lambda>_.
     bindE (guardE (rq_action rq = OfflineShipping \<longrightarrow> utruthy (rq_carrier_code rq)) CarrierMissing) (\<lambda>_.
     bindE (if rq_action rq = RefuseRefund then validate_refuse_request env refreshed rq else retE ()) (\<lambda>_.
     retE refreshed))))))"

text \<open>\<open>current = await self.store.get_order(order_pk); assert current is not None\<close>.\<close>

definition with_current :: "string \<Rightarrow> operation_row \<Rightarrow> (operation_row \<times> order_row) act" where
  "with_current order_pk op db =
     (case get_order order_pk db of None \<Rightarrow> (db, Inl InternalError) | Some o' \<Rightarrow> (db, Inr (op, o')))"

type_synonym platform_write = "order_action \<times> action_args"

definition no_write :: "'a act \<Rightarrow> order_db \<Rightarrow> order_db \<times> platform_write list \<times> (service_error + 'a)" where
  "no_write m db = (case m db of (db', r) \<Rightarrow> (db', [], r))"

definition execute_order ::
  "order_env \<Rightarrow> string \<Rightarrow> execute_request \<Rightarrow> string option \<Rightarrow> order_db
   \<Rightarrow> order_db \<times> platform_write list \<times> (service_error + operation_row \<times> order_row)" where
  "execute_order env order_pk rq requested_by db =
     (case get_order order_pk db of
        None \<Rightarrow> (db, [], Inl OrderNotFound)
      | Some order \<Rightarrow>
          (case get_by_idempotency (od_account_id order) (rq_idempotency_key rq) db of
             Some existing \<Rightarrow>
               if op_order_pk existing \<noteq> order_pk \<or> op_action existing \<noteq> rq_action rq
               then (db, [], Inl KeyUsedElsewhere)
               else no_write (with_current order_pk existing) db
           | None \<Rightarrow>
               (case preflight env order rq db of
                  (db1, Inl e) \<Rightarrow> (db1, [], Inl e)
                | (db1, Inr refreshed) \<Rightarrow>
                    (case create_operation (en_now env) (en_uid env ''operation'') order_pk
                            (od_account_id refreshed) (u_text (od_platform_order_id refreshed)) (rq_action rq)
                            (rq_idempotency_key rq) requested_by (od_status refreshed) (request_summary rq) db1 of
                       (db2, Inl e) \<Rightarrow> (db2, [], Inl e)
                     | (db2, Inr (op, created)) \<Rightarrow>
                         if \<not> created \<or> op_status op \<noteq> Processing
                         then no_write (with_current order_pk op) db2
                         else let args = execute_args refreshed rq;
                                  outcome = en_execute env (rq_action rq) args
                              in (case bindE (settle_execution env order_pk refreshed op (rq_action rq) outcome)
                                        (with_current order_pk) db2 of
                                    (db3, r) \<Rightarrow> (db3, [(rq_action rq, args)], r))))))"


section \<open>Frames\<close>

text \<open>
  What a computation keeps of the tables, whether it raises or not. The locale gives the
  rules for a reflexive and transitive relation; it is interpreted on the relations the
  properties need.
\<close>

definition keeps :: "(order_db \<Rightarrow> order_db \<Rightarrow> bool) \<Rightarrow> 'a act \<Rightarrow> bool" where
  "keeps R m \<longleftrightarrow> (\<forall>db. R db (fst (m db)))"

locale act_frame =
  fixes R :: "order_db \<Rightarrow> order_db \<Rightarrow> bool"
  assumes R_refl: "R db db"
    and R_trans: "R a b \<Longrightarrow> R b c \<Longrightarrow> R a c"
begin

lemma keeps_ret [simp]: "keeps R (retE x)"
  by (simp add: keeps_def retE_def R_refl)

lemma keeps_fail [simp]: "keeps R (failE e)"
  by (simp add: keeps_def failE_def R_refl)

lemma keeps_guard [simp]: "keeps R (guardE b e)"
  by (simp add: guardE_def)

lemma keeps_call [simp]: "keeps R (callE r)"
  by (simp add: callE_def split: sum.split)

lemma keeps_merge [simp]: "keeps R (mergeE env source)"
  by (simp add: mergeE_def)

lemma keeps_require [simp]: "keeps R (requireE r)" "keeps R (require_order pk)"
  by (simp_all add: requireE_def keeps_def require_order_def R_refl split: option.split)
     (simp_all add: failE_def retE_def R_refl)

lemma keeps_client [simp]: "keeps R (clientE env acc)"
  by (simp add: clientE_def split: option.split)

lemma keeps_bind [intro]:
  assumes "keeps R m" and "\<And>x. keeps R (f x)"
  shows "keeps R (bindE m f)"
  unfolding keeps_def
proof
  fix db
  have 1: "R db (fst (m db))" using assms(1) by (simp add: keeps_def)
  have "R db' (fst (f x db'))" for db' x using assms(2) by (simp add: keeps_def)
  with 1 show "R db (fst (bindE m f db))"
    by (auto simp: bindE_def split: prod.split sum.split intro: R_trans)
qed

lemma keeps_catch [intro]:
  assumes "keeps R m" and "\<And>e. keeps R (h e)"
  shows "keeps R (catchE m h)"
  unfolding keeps_def
proof
  fix db
  have 1: "R db (fst (m db))" using assms(1) by (simp add: keeps_def)
  have "R db' (fst (h e db'))" for db' e using assms(2) by (simp add: keeps_def)
  with 1 show "R db (fst (catchE m h db))"
    by (auto simp: catchE_def split: prod.split sum.split intro: R_trans)
qed

lemma keeps_applied:
  assumes "\<And>db. R db (fst (write db))"
  shows "keeps R (applied write)"
  using assms by (auto simp: keeps_def applied_def split: prod.split option.split) (metis fst_conv)+

text \<open>The refresh of one order, given that the five writes keep the relation.\<close>

lemma keeps_refresh:
  assumes head: "\<And>now f raw db db' t.
        apply_order_headinfo (en_nfkc env) (en_casefold env) (en_loads env) now f (od_order_pk order) raw db
          = Inr (db', t) \<Longrightarrow> R db db'"
    and detail: "\<And>now e u snap db. R db (fst (apply_order_detail_snapshot now e u (od_order_pk order) snap db))"
    and shipping: "\<And>now raw db. R db (fst (apply_order_shipping_options now (od_order_pk order) raw db))"
    and refund: "\<And>now e u raw db. R db (fst (apply_order_refund_detail now e u (od_order_pk order) raw db))"
    and refuse: "\<And>now raw db. R db (fst (apply_order_refuse_options now (od_order_pk order) raw db))"
  shows "keeps R (refresh_platform_state env source req order)"
proof -
  have "R db (fst (refresh_headinfo env source order db))" for db
    by (auto simp: refresh_headinfo_def R_refl Let_def split: sum.split option.split prod.split dest: head)
  then have "keeps R (refresh_head env source req order)"
    by (auto simp: keeps_def refresh_head_def R_refl split: option.split prod.split) (metis fst_conv)+
  moreover have "keeps R (refresh_detail env source (od_order_pk order) r)" for r
    unfolding refresh_detail_def by (intro keeps_bind keeps_applied detail) simp_all
  moreover have "keeps R (refresh_shipping env source (od_order_pk order) caps r)" for caps r
    unfolding refresh_shipping_def by (auto intro!: keeps_bind keeps_applied shipping)
  moreover have "keeps R (refresh_refund env source (od_order_pk order) caps r)" for caps r
    unfolding refresh_refund_def by (auto intro!: keeps_bind keeps_applied refund refuse)
  ultimately show ?thesis
    unfolding refresh_platform_state_def Let_def by (intro keeps_bind) simp_all
qed

end

text \<open>Refreshing touches no operation, and the orders keep their accounts.\<close>

definition same_operations :: "order_db \<Rightarrow> order_db \<Rightarrow> bool" where
  "same_operations db db' \<longleftrightarrow> ob_operations db' = ob_operations db"

definition account_of :: "string \<Rightarrow> order_db \<Rightarrow> string option" where
  "account_of pk db = map_option od_account_id (get_row od_order_pk (ob_orders db) pk)"

definition same_account :: "string \<Rightarrow> order_db \<Rightarrow> order_db \<Rightarrow> bool" where
  "same_account pk db db' \<longleftrightarrow> account_of pk db' = account_of pk db"

interpretation ops: act_frame same_operations
  by unfold_locales (simp_all add: same_operations_def)

interpretation acct: act_frame "same_account pk" for pk
  by unfold_locales (simp_all add: same_account_def)

lemmas order_writes = apply_order_detail_snapshot_def apply_order_shipping_options_def
  apply_order_refund_detail_def apply_order_refuse_options_def apply_order_headinfo_def

lemma refresh_same_operations: "keeps same_operations (refresh_platform_state env source req order)"
  by (rule ops.keeps_refresh)
     (auto simp: same_operations_def order_writes Let_def split: option.splits)

lemma row_values_keep:
  "od_order_pk (snapshot_values now snap row) = od_order_pk row"
  "od_account_id (snapshot_values now snap row) = od_account_id row"
  "od_order_pk (shipping_values now raw row) = od_order_pk row"
  "od_account_id (shipping_values now raw row) = od_account_id row"
  "od_order_pk (refund_values now raw row) = od_order_pk row"
  "od_account_id (refund_values now raw row) = od_account_id row"
  "od_order_pk (refuse_values now raw row) = od_order_pk row"
  "od_account_id (refuse_values now raw row) = od_account_id row"
  by (simp_all add: snapshot_values_def snapshot_status_def shipping_values_def refund_values_def
        refuse_values_def Let_def)

lemma headinfo_parts_keep:
  "od_order_pk (headinfo_texts f g h raw row) = od_order_pk row"
  "od_account_id (headinfo_texts f g h raw row) = od_account_id row"
  "od_order_pk (headinfo_status s t row) = od_order_pk row"
  "od_account_id (headinfo_status s t row) = od_account_id row"
  by (simp_all add: headinfo_texts_def headinfo_status_def Let_def)

lemma headinfo_values_keep:
  "od_order_pk (headinfo_values f g h now raw links row) = od_order_pk row"
  "od_account_id (headinfo_values f g h now raw links row) = od_account_id row"
  by (simp_all add: headinfo_values_def Let_def headinfo_parts_keep split: prod.split)

lemma headinfo_target_account: "od_account_id (headinfo_target fresh now pid source orders) = od_account_id source"
  by (auto simp: headinfo_target_def order_defaults_def split: option.split dest: find_SomeD)

lemma refresh_same_account: "keeps (same_account (od_order_pk order)) (refresh_platform_state env source req order)"
proof (rule acct.keeps_refresh)
  fix now f raw db db' t
  assume a: "apply_order_headinfo (en_nfkc env) (en_casefold env) (en_loads env) now f (od_order_pk order) raw db
      = Inr (db', t)"
  show "same_account (od_order_pk order) db db'"
  proof (cases "get_row od_order_pk (ob_orders db) (od_order_pk order)")
    case (Some row)
    with a get_row_SomeD [OF Some] show ?thesis
      by (auto simp: apply_order_headinfo_def Let_def same_account_def account_of_def get_put_row
            headinfo_values_keep headinfo_target_account split: option.splits)
  qed (use a in \<open>simp add: apply_order_headinfo_def same_account_def\<close>)
qed (auto simp: same_account_def account_of_def order_writes Let_def get_put_row row_values_keep
        split: option.splits dest: get_row_SomeD)

section \<open>What a successful computation returns\<close>

lemma bindE_Inr:
  "bindE m f db = (db', Inr y) \<longleftrightarrow> (\<exists>db1 x. m db = (db1, Inr x) \<and> f x db1 = (db', Inr y))"
  by (auto simp: bindE_def split: prod.splits sum.splits)

lemma act_Inr:
  "retE x db = (db', Inr y) \<longleftrightarrow> db' = db \<and> y = x"
  "failE e db = (db', Inr y) \<longleftrightarrow> False"
  "guardE b e db = (db', Inr u) \<longleftrightarrow> b \<and> db' = db"
  "mergeE env source db = (db', Inr u) \<longleftrightarrow> en_merge env source \<and> db' = db"
  "callE r db = (db', Inr y) \<longleftrightarrow> r = Inr y \<and> db' = db"
  "requireE o' db = (db', Inr z) \<longleftrightarrow> o' = Some z \<and> db' = db"
  by (auto simp: retE_def failE_def guardE_def mergeE_def callE_def requireE_def
           split: sum.splits option.splits if_splits)

lemmas act_simps = bindE_Inr act_Inr

text \<open>What the store reports after a write is the order it was asked to change.\<close>

lemma applied_order:
  "applied (apply_order_detail_snapshot now e u pk snap) db = (db', Inr (Some r)) \<Longrightarrow> get_order pk db' = Some r"
  "applied (apply_order_shipping_options now pk raw) db = (db', Inr (Some r)) \<Longrightarrow> get_order pk db' = Some r"
  "applied (apply_order_refund_detail now e u pk raw) db = (db', Inr (Some r)) \<Longrightarrow> get_order pk db' = Some r"
  "applied (apply_order_refuse_options now pk raw) db = (db', Inr (Some r)) \<Longrightarrow> get_order pk db' = Some r"
  by (auto simp: applied_def order_writes Let_def split: option.splits)

lemma applied_shipping:
  "applied (apply_order_shipping_options now pk raw) db = (db', Inr q) \<Longrightarrow> get_order pk db = Some r0 \<Longrightarrow>
     \<exists>r. q = Some r \<and> get_order pk db' = Some r"
  by (auto simp: applied_def order_writes get_order_def get_put_row row_values_keep
           split: option.splits dest: get_row_SomeD)

lemma detail_result:
  assumes "refresh_detail env source pk r0 db = (db', Inr r)"
  shows "get_order pk db' = Some r"
  using assms unfolding refresh_detail_def by (auto simp: act_simps dest: applied_order)

lemma shipping_result:
  assumes "refresh_shipping env source pk caps r0 db = (db', Inr r)" and "get_order pk db = Some r0"
  shows "get_order pk db' = Some r"
  using assms unfolding refresh_shipping_def
  by (auto simp: act_simps split: if_splits dest: applied_order dest!: applied_shipping)

lemma refund_result:
  assumes "refresh_refund env source pk caps r0 db = (db', Inr r)" and "get_order pk db = Some r0"
  shows "get_order pk db' = Some r"
  using assms unfolding refresh_refund_def
  by (auto simp: act_simps split: if_splits dest: applied_order)

lemma refresh_result:
  assumes "refresh_platform_state env source req order db = (db', Inr r)"
  shows "get_order (od_order_pk order) db' = Some r"
  using assms unfolding refresh_platform_state_def Let_def
  by (auto simp: act_simps dest!: detail_result intro: refund_result shipping_result)

text \<open>A preflight that succeeds: the refreshed order is the stored one and allows the action.\<close>

lemma preflight_result:
  assumes "preflight env order rq db = (db', Inr r)"
  shows "get_order (od_order_pk order) db' = Some r \<and> av_enabled (selected_action r (rq_action rq))"
proof -
  have v: "db2 = db1" if "validate_refuse_request env r rq db1 = (db2, Inr u)" for db1 db2 u r
    using that unfolding validate_refuse_request_def Let_def
    by (auto simp: act_simps split: if_splits)
  have c: "db2 = db1" if "clientE env acc db1 = (db2, Inr u)" for db1 db2 u acc
    using that by (auto simp: clientE_def act_Inr split: if_splits option.splits)
  from assms show ?thesis unfolding preflight_def
    by (auto simp: act_simps av_enabled_def split: option.splits if_splits
             dest!: v c dest: refresh_result)
qed

lemma preflight_keeps:
  "keeps same_operations (preflight env order rq)"
  "keeps (same_account (od_order_pk order)) (preflight env order rq)"
proof -
  have v: "keeps R (validate_refuse_request env r rq)" if "act_frame R" for R r
    unfolding validate_refuse_request_def Let_def
    by (intro act_frame.keeps_bind [OF that])
       (auto simp: act_frame.keeps_guard [OF that] act_frame.keeps_call [OF that]
          act_frame.keeps_fail [OF that] act_frame.keeps_ret [OF that])
  show "keeps same_operations (preflight env order rq)"
    unfolding preflight_def
    by (auto intro!: ops.keeps_bind refresh_same_operations v ops.act_frame_axioms split: option.split)
  show "keeps (same_account (od_order_pk order)) (preflight env order rq)"
    unfolding preflight_def
    by (auto intro!: acct.keeps_bind refresh_same_account v acct.act_frame_axioms split: option.split)
qed

section \<open>Operations under execution\<close>

definition operations_valid :: "order_db \<Rightarrow> bool" where
  "operations_valid db \<longleftrightarrow> keys_distinct op_operation_id (ob_operations db)"

definition same_op :: "operation_row \<Rightarrow> operation_row \<Rightarrow> bool" where
  "same_op a b \<longleftrightarrow> op_operation_id b = op_operation_id a \<and> op_order_pk b = op_order_pk a
     \<and> op_account_id b = op_account_id a \<and> op_action b = op_action a
     \<and> op_idempotency_key b = op_idempotency_key a"

text \<open>Every operation survives; all but one are unchanged, and nothing new appears.\<close>

definition op_frame :: "string \<Rightarrow> order_db \<Rightarrow> order_db \<Rightarrow> bool" where
  "op_frame i db db' \<longleftrightarrow> (operations_valid db \<longrightarrow> operations_valid db'
     \<and> (\<forall>op\<in>set (ob_operations db). \<exists>op'\<in>set (ob_operations db'). same_op op op'
          \<and> (op_operation_id op \<noteq> i \<longrightarrow> op' = op))
     \<and> (\<forall>op'\<in>set (ob_operations db'). op_operation_id op' \<noteq> i \<longrightarrow> op' \<in> set (ob_operations db)))"

lemma same_op_refl [simp]: "same_op op op"
  by (simp add: same_op_def)

interpretation opf: act_frame "op_frame i" for i
proof
  show "op_frame i db db" for db by (auto simp: op_frame_def intro: same_op_refl)
  show "op_frame i a c" if "op_frame i a b" "op_frame i b c" for a b c
    unfolding op_frame_def
  proof (intro impI conjI ballI)
    assume v: "operations_valid a"
    with that have vb: "operations_valid b" by (simp add: op_frame_def)
    with that show "operations_valid c" by (simp add: op_frame_def)
    show "\<exists>op'\<in>set (ob_operations c). same_op op op' \<and> (op_operation_id op \<noteq> i \<longrightarrow> op' = op)"
      if op: "op \<in> set (ob_operations a)" for op
    proof -
      from op v \<open>op_frame i a b\<close> obtain op1 where
        1: "op1 \<in> set (ob_operations b)" "same_op op op1" "op_operation_id op \<noteq> i \<longrightarrow> op1 = op"
        by (auto simp: op_frame_def)
      with vb \<open>op_frame i b c\<close> obtain op2 where
        "op2 \<in> set (ob_operations c)" "same_op op1 op2" "op_operation_id op1 \<noteq> i \<longrightarrow> op2 = op1"
        by (auto simp: op_frame_def)
      with 1 show ?thesis by (auto simp: same_op_def)
    qed
    show "op' \<in> set (ob_operations a)" if "op' \<in> set (ob_operations c)" "op_operation_id op' \<noteq> i" for op'
      using that v vb \<open>op_frame i a b\<close> \<open>op_frame i b c\<close> by (auto simp: op_frame_def)
  qed
qed

lemma same_operations_frame: "same_operations db db' \<Longrightarrow> op_frame i db db'"
  by (auto simp: same_operations_def op_frame_def operations_valid_def intro: same_op_refl)

lemma keeps_mono: "keeps R m \<Longrightarrow> (\<And>a b. R a b \<Longrightarrow> Q a b) \<Longrightarrow> keeps Q m"
  by (simp add: keeps_def)

lemma put_operation_frame:
  assumes "get_row op_operation_id (ob_operations db) i = Some op" "same_op op op'"
    "ob_operations db' = put_row op_operation_id op' (ob_operations db)"
  shows "op_frame i db db'"
proof -
  have i: "op_operation_id op' = i" "op_operation_id op = i"
    using get_row_SomeD [OF assms(1)] assms(2) by (auto simp: same_op_def)
  have e: "ob_operations db' = map (\<lambda>r. if op_operation_id r = i then op' else r) (ob_operations db)"
    using assms i by (simp add: put_row_def set_row_def)
  show ?thesis
    unfolding op_frame_def
  proof (intro impI conjI ballI)
    assume v: "operations_valid db"
    then show "operations_valid db'"
      by (simp add: operations_valid_def assms(3) keys_distinct_put_row)
    show "\<exists>x\<in>set (ob_operations db'). same_op r x \<and> (op_operation_id r \<noteq> i \<longrightarrow> x = r)"
      if r: "r \<in> set (ob_operations db)" for r
    proof (cases "op_operation_id r = i")
      case True
      with v r assms(1) have "r = op"
        using get_row_distinct [of op_operation_id "ob_operations db" r] by (simp add: operations_valid_def)
      moreover have "op' \<in> set (ob_operations db')" using r True by (auto simp: e)
      ultimately show ?thesis using assms(2) True by blast
    next
      case False
      with r show ?thesis by (auto simp: e intro!: bexI [of _ r])
    qed
    show "x \<in> set (ob_operations db)" if "x \<in> set (ob_operations db')" "op_operation_id x \<noteq> i" for x
      using that i by (auto simp: e split: if_splits)
  qed
qed

lemma finish_frame: "keeps (op_frame i) (finish_operation now ev i v b)"
proof -
  have "op_frame i db (fst (finish_operation now ev i v b db))" for db
  proof (cases "get_row op_operation_id (ob_operations db) i")
    case None
    then show ?thesis by (simp add: finish_operation_def opf.R_refl)
  next
    case (Some op)
    have s: "same_op op (finished_operation now v op)"
      "same_op op ((finished_operation now v op)\<lparr>op_post_status := p\<rparr>)" for p
      by (simp_all add: same_op_def finished_operation_def)
    from Some show ?thesis
      by (auto simp: finish_operation_def Let_def opf.R_refl split: option.split
               intro: put_operation_frame [OF Some s(1)] put_operation_frame [OF Some s(2)])
  qed
  then show ?thesis by (simp add: keeps_def)
qed

lemma readback_same_operations: "keeps same_operations (best_effort_readback env pk)"
  unfolding best_effort_readback_def
  by (intro ops.keeps_catch ops.keeps_bind refresh_same_operations) simp_all

lemma settle_frame:
  "keeps (op_frame (op_operation_id op)) (settle_execution env pk refreshed op action outcome)"
  unfolding settle_execution_def Let_def
  by (auto intro!: opf.keeps_catch opf.keeps_bind finish_frame
        keeps_mono [OF readback_same_operations same_operations_frame] split: exec_outcome.split)

lemma with_current_db: "fst (with_current pk op db) = db"
  by (simp add: with_current_def split: option.split)

text \<open>The two kinds of execution: without a platform write, or with exactly one after all checks.\<close>

lemma execute_cases:
  assumes "execute_order env pk rq requested_by db = (db', w, r)"
  obtains (silent) "w = []" "same_operations db db'"
  | (written) order db1 refreshed op db2 where
      "get_order pk db = Some order"
      "get_by_idempotency (od_account_id order) (rq_idempotency_key rq) db = None"
      "preflight env order rq db = (db1, Inr refreshed)"
      "get_order pk db1 = Some refreshed"
      "av_enabled (selected_action refreshed (rq_action rq))"
      "active_operation pk db = None"
      "get_row op_operation_id (ob_operations db) (op_operation_id op) = None"
      "op = new_operation (en_now env) (en_uid env ''operation'') pk (od_account_id order)
         (u_text (od_platform_order_id refreshed)) (rq_action rq) (rq_idempotency_key rq) requested_by
         (od_status refreshed) (request_summary rq)"
      "db2 = db1\<lparr>ob_operations := ob_operations db @ [op]\<rparr>"
      "w = [(rq_action rq, execute_args refreshed rq)]"
      "bindE (settle_execution env pk refreshed op (rq_action rq)
         (en_execute env (rq_action rq) (execute_args refreshed rq))) (with_current pk) db2 = (db', r)"
proof (cases "get_order pk db")
  case None
  with assms that(1) show ?thesis by (simp add: execute_order_def same_operations_def)
next
  case (Some order)
  then have pk: "od_order_pk order = pk"
    by (auto simp: get_order_def payload_fields dest: get_row_SomeD)
  show ?thesis
  proof (cases "get_by_idempotency (od_account_id order) (rq_idempotency_key rq) db")
    case (Some existing)
    with assms \<open>get_order pk db = Some order\<close> that(1) with_current_db [of pk existing db] show ?thesis
      by (auto simp: execute_order_def no_write_def same_operations_def split: if_splits prod.splits)
  next
    case None
    obtain db1 pr where p: "preflight env order rq db = (db1, pr)" by fastforce
    from preflight_keeps(1) [of env order rq] p have o1: "ob_operations db1 = ob_operations db"
      by (simp add: keeps_def same_operations_def) (metis fst_conv)
    have acc: "account_of pk db1 = account_of pk db"
      using preflight_keeps(2) [of order env rq] p pk
      by (simp add: keeps_def same_account_def) (metis fst_conv)
    show ?thesis
    proof (cases pr)
      case (Inl e)
      with assms \<open>get_order pk db = Some order\<close> None p that(1) o1 show ?thesis
        by (simp add: execute_order_def same_operations_def)
    next
      case (Inr refreshed)
      with p preflight_result [of env order rq db db1 refreshed] pk
      have pre: "get_order pk db1 = Some refreshed" "av_enabled (selected_action refreshed (rq_action rq))"
        by simp_all
      then have a: "od_account_id refreshed = od_account_id order"
        using acc \<open>get_order pk db = Some order\<close>
        by (auto simp: account_of_def get_order_def payload_fields)
      let ?op = "new_operation (en_now env) (en_uid env ''operation'') pk (od_account_id order)
         (u_text (od_platform_order_id refreshed)) (rq_action rq) (rq_idempotency_key rq) requested_by
         (od_status refreshed) (request_summary rq)"
      have k: "get_by_idempotency (od_account_id order) (rq_idempotency_key rq) db1 = None"
        using None o1 by (simp add: get_by_idempotency_def)
      have n: "op_operation_id ?op = en_uid env ''operation''" "op_status ?op = Processing"
        by (simp_all add: new_operation_def)
      obtain row where row: "get_row od_order_pk (ob_orders db1) pk = Some row"
        using pre(1) by (auto simp: get_order_def)
      show ?thesis
      proof (cases "active_operation pk db1 = None \<and> get_row op_operation_id (ob_operations db1) (en_uid env ''operation'') = None")
        case True
        have "active_operation pk db = None" "get_row op_operation_id (ob_operations db) (op_operation_id ?op) = None"
          using True o1 n by (simp_all add: active_operation_def)
        moreover have "bindE (settle_execution env pk refreshed ?op (rq_action rq)
            (en_execute env (rq_action rq) (execute_args refreshed rq))) (with_current pk)
            (db1\<lparr>ob_operations := ob_operations db @ [?op]\<rparr>) = (db', r)"
          and "w = [(rq_action rq, execute_args refreshed rq)]"
          using assms \<open>get_order pk db = Some order\<close> None p Inr True k a row n o1
          by (auto simp: execute_order_def create_operation_def Let_def split: prod.splits)
        ultimately show ?thesis
          using that(2) [OF \<open>get_order pk db = Some order\<close> None _ pre] p Inr by blast
      next
        case False
        with assms \<open>get_order pk db = Some order\<close> None p Inr k a row o1 that(1) show ?thesis
          by (auto simp: execute_order_def create_operation_def Let_def same_operations_def split: option.splits)
      qed
    qed
  qed
qed

text \<open>After an execution every operation that was there is still there, unchanged, and the new one is recorded.\<close>

lemma execute_operations:
  assumes "execute_order env pk rq requested_by db = (db', w, r)" and v: "operations_valid db"
  shows "operations_valid db'" "set (ob_operations db) \<subseteq> set (ob_operations db')"
    "w \<noteq> [] \<Longrightarrow> \<exists>op'\<in>set (ob_operations db'). account_of pk db = Some (op_account_id op')
       \<and> op_idempotency_key op' = rq_idempotency_key rq \<and> op_order_pk op' = pk"
proof -
  have "operations_valid db' \<and> set (ob_operations db) \<subseteq> set (ob_operations db') \<and>
    (w \<noteq> [] \<longrightarrow> (\<exists>op'\<in>set (ob_operations db'). account_of pk db = Some (op_account_id op')
       \<and> op_idempotency_key op' = rq_idempotency_key rq \<and> op_order_pk op' = pk))"
    using assms(1)
  proof (cases rule: execute_cases)
    case silent
    with v show ?thesis by (simp add: same_operations_def operations_valid_def)
  next
    case (written order db1 refreshed op db2)
    obtain db3 q where s: "settle_execution env pk refreshed op (rq_action rq)
         (en_execute env (rq_action rq) (execute_args refreshed rq)) db2 = (db3, q)" by fastforce
    with written(11) have db': "db' = db3"
      by (auto simp: bindE_def with_current_def split: sum.splits option.splits)
    from settle_frame [of op env pk refreshed "rq_action rq"
        "en_execute env (rq_action rq) (execute_args refreshed rq)"] s
    have f: "op_frame (op_operation_id op) db2 db3" by (simp add: keeps_def) (metis fst_conv)
    have v2: "operations_valid db2"
      using v written(7) by (simp add: written(9) operations_valid_def keys_distinct_append1)
    have "x \<in> set (ob_operations db3)" if "x \<in> set (ob_operations db)" for x
    proof -
      have "op_operation_id x \<noteq> op_operation_id op"
        using that written(7) by (metis get_row_None_iff imageI)
      moreover have "x \<in> set (ob_operations db2)" using that by (simp add: written(9))
      ultimately show ?thesis using f v2 by (force simp: op_frame_def)
    qed
    moreover have "account_of pk db = Some (op_account_id op)"
      using written(1,8) by (auto simp: account_of_def get_order_def payload_fields new_operation_def)
    moreover have "op_idempotency_key op = rq_idempotency_key rq" "op_order_pk op = pk"
      by (simp_all add: written(8) new_operation_def)
    moreover obtain op' where "op' \<in> set (ob_operations db3)" "same_op op op'"
      using f v2 by (auto simp: op_frame_def written(9))
    moreover have "operations_valid db3" using f v2 by (simp add: op_frame_def)
    ultimately show ?thesis
      unfolding db' same_op_def by (intro conjI impI bexI [of _ op']) auto
  qed
  then show "operations_valid db'" "set (ob_operations db) \<subseteq> set (ob_operations db')"
    "w \<noteq> [] \<Longrightarrow> \<exists>op'\<in>set (ob_operations db'). account_of pk db = Some (op_account_id op')
       \<and> op_idempotency_key op' = rq_idempotency_key rq \<and> op_order_pk op' = pk" by blast+
qed

lemma by_idempotency_None:
  "get_by_idempotency acc key db = None \<longleftrightarrow>
     (\<forall>op\<in>set (ob_operations db). \<not> (op_account_id op = acc \<and> op_idempotency_key op = key))"
  by (auto simp: get_by_idempotency_def find_None_iff)

section \<open>Properties\<close>

text \<open>
  Requests that carry the same idempotency key for orders of one account, whoever sends
  them, for whatever order and action, in whatever environment.
\<close>

definition write_claim ::
  "string \<Rightarrow> ustr \<Rightarrow> order_env \<times> string \<times> execute_request \<times> string option \<Rightarrow> order_db \<Rightarrow> order_db \<times> bool" where
  "write_claim acc key = (\<lambda>(env, pk, rq, requested_by) db.
     if account_of pk db = Some acc \<and> rq_idempotency_key rq = key
     then (case execute_order env pk rq requested_by db of (db', w, _) \<Rightarrow> (db', w \<noteq> []))
     else (db, False))"

definition key_unused :: "string \<Rightarrow> ustr \<Rightarrow> order_db \<Rightarrow> bool" where
  "key_unused acc key db \<longleftrightarrow> get_by_idempotency acc key db = None"

lemma write_claim_cases:
  assumes "write_claim acc key (env, pk, rq, requested_by) db = (db', ok)"
  obtains "\<not> ok" "db' = db"
  | w r where "account_of pk db = Some acc" "rq_idempotency_key rq = key"
      "execute_order env pk rq requested_by db = (db', w, r)" "ok \<longleftrightarrow> w \<noteq> []"
  using assms by (auto simp: write_claim_def split: if_splits prod.splits)

interpretation key_race: one_shot "write_claim acc key" "key_unused acc key" operations_valid for acc key
proof
  fix a :: "order_env \<times> string \<times> execute_request \<times> string option" and s t ok
  obtain env pk rq rb where a: "a = (env, pk, rq, rb)" by (cases a)
  assume v: "operations_valid s"
  show "operations_valid t" if "write_claim acc key a s = (t, ok)"
    using that v unfolding a by (auto elim!: write_claim_cases dest: execute_operations(1))
  show "\<not> key_unused acc key t" if "write_claim acc key a s = (t, True)"
    using that v unfolding a
    by (auto elim!: write_claim_cases dest!: execute_operations(3) simp: key_unused_def by_idempotency_None)
  show "\<not> key_unused acc key t" if "\<not> key_unused acc key s" "write_claim acc key a s = (t, False)"
    using that v unfolding a
    by (auto elim!: write_claim_cases dest!: execute_operations(2) simp: key_unused_def by_idempotency_None)
  show "key_unused acc key s" if w: "write_claim acc key a s = (t, True)"
    using w unfolding a
  proof (cases rule: write_claim_cases)
    case (2 w r)
    from 2(3) show ?thesis
    proof (cases rule: execute_cases)
      case silent
      with 2(4) show ?thesis by simp
    next
      case (written order db1 refreshed op db2)
      with 2(1,2) show ?thesis
        by (auto simp: key_unused_def account_of_def get_order_def payload_fields)
    qed
  qed simp
qed


definition sample_snapshot :: "string \<Rightarrow> detail_snapshot" where
  "sample_snapshot status = \<lparr>sn_item_id = [], sn_buyer_id = [], sn_price = [], sn_quantity = 1,
     sn_status = status, sn_status_text = [], sn_platform_status = [], sn_receiver_name = [],
     sn_receiver_phone = [], sn_receiver_address = [], sn_is_bargain = False, sn_raw_response = JNull\<rparr>"

text \<open>A platform that answers: a waiting order that may be shipped without logistics.\<close>

definition sample_env :: order_env where
  "sample_env = \<lparr>en_account = (\<lambda>_. True), en_client = (\<lambda>_. None),
     en_headinfo = (\<lambda>_ _ _. Inr (JObj [])), en_detail = (\<lambda>_ _. Inr (sample_snapshot ''paid_waiting_delivery'')),
     en_shipping = (\<lambda>_ _. Inr (jobj [(''idleLogisticTypes'', jstrs [asc ''DUMMY_CONSIGN''])])),
     en_refund = (\<lambda>_ _. Inr (JObj [])), en_refuse_options = (\<lambda>_ _ _. Inr (JObj [])),
     en_merge = (\<lambda>_. True),
     en_execute = (\<lambda>_ _. Executed \<lparr>ar_success = True, ar_message = asc ''ok'', ar_platform_code = None,
        ar_already_applied = False, ar_raw_response = JObj []\<rparr>),
     en_nfkc = id, en_casefold = id, en_loads = (\<lambda>_. None), en_now = 5, en_uid = (\<lambda>s. s)\<rparr>"

definition sample_request :: "order_action \<Rightarrow> execute_request" where
  "sample_request action = \<lparr>rq_action = action, rq_idempotency_key = asc ''key-0001'', rq_feedback = None,
     rq_close_reason = None, rq_tracking_no = None, rq_carrier_code = None, rq_carrier_brand_code = None,
     rq_sender_address_id = None, rq_refund_reason_id = None, rq_refund_proof = JNull,
     rq_refund_logistic_info = JNull, rq_refund_negotiation_apply = JNull\<rparr>"

definition sample_db :: order_db where
  "sample_db = \<lparr>ob_orders = [sample_order\<lparr>od_platform_capabilities := jstrs [asc ''LOGISTICS_SEND'']\<rparr>],
     ob_events = [], ob_operations = []\<rparr>"

lemma sample_db_valid: "operations_valid sample_db"
  by (simp add: sample_db_def operations_valid_def keys_distinct_def)

lemma sample_execution:
  "fst (snd (execute_order sample_env ''o1'' (sample_request ConfirmShipping) None sample_db)) \<noteq> []"
  by code_simp


text \<open>C2. The platform is asked to act only on a checked order. When an execution makes a
  platform write it makes exactly one, for the requested action and for the stored order
  as it was just refreshed; that order is a confirmed seller order with a platform number,
  no other operation of it is running, a shipment is of an order that waits for delivery
  and is not refunded, a closing is of an open order without an active refund, a rating
  is of a completed, unrated order, a refusal is of an active refund.\<close>

theorem platform_write_is_checked:
  assumes "execute_order env pk rq requested_by db = (db', w, r)" and "w \<noteq> []"
  shows "\<exists>order db1 refreshed. preflight env order rq db = (db1, Inr refreshed)
     \<and> get_order pk db1 = Some refreshed \<and> w = [(rq_action rq, execute_args refreshed rq)]
     \<and> active_operation pk db = None
     \<and> od_trade_role refreshed = Some ''seller'' \<and> od_platform_confirmed refreshed
     \<and> ustrip (aa_order_id (execute_args refreshed rq)) \<noteq> []
     \<and> (shipping_action (rq_action rq) \<longrightarrow>
          od_status refreshed = ''paid_waiting_delivery'' \<and> \<not> refund_finished refreshed)
     \<and> (rq_action rq = CloseOrder \<longrightarrow>
          od_status refreshed \<in> {''pending_payment'', ''paid_waiting_delivery''} \<and> \<not> refund_active refreshed)
     \<and> (rq_action rq = RateBuyer \<longrightarrow>
          od_status refreshed = ''completed'' \<and> od_seller_rate_status refreshed \<noteq> Some (asc ''4''))
     \<and> (rq_action rq = RefuseRefund \<longrightarrow> refund_active refreshed)"
  using assms(1)
proof (cases rule: execute_cases)
  case silent
  with assms(2) show ?thesis by simp
next
  case (written order db1 refreshed op db2)
  from written(5) have c: "common_reason refreshed = None" and a: "action_reason refreshed (rq_action rq) = None"
    by (simp_all add: enabled_iff)
  from c have "od_trade_role refreshed = Some ''seller''" "od_platform_confirmed refreshed"
    "ustrip (aa_order_id (execute_args refreshed rq)) \<noteq> []"
    by (auto simp: common_reason_def execute_args_def split: if_splits)
  moreover from a have "shipping_action (rq_action rq) \<longrightarrow>
      od_status refreshed = ''paid_waiting_delivery'' \<and> \<not> refund_finished refreshed"
    by (auto simp: shipping_action_def action_reason_def shipping_reason_def Let_def split: if_splits)
  moreover from a have "rq_action rq = CloseOrder \<longrightarrow>
      od_status refreshed \<in> {''pending_payment'', ''paid_waiting_delivery''} \<and> \<not> refund_active refreshed"
    by (auto simp: action_reason_def split: if_splits)
  moreover from a have "rq_action rq = RateBuyer \<longrightarrow>
      od_status refreshed = ''completed'' \<and> od_seller_rate_status refreshed \<noteq> Some (asc ''4'')"
    by (auto simp: action_reason_def split: if_splits)
  moreover from a have "rq_action rq = RefuseRefund \<longrightarrow> refund_active refreshed"
    by (auto simp: action_reason_def split: if_splits)
  ultimately show ?thesis using written(3,4,6,10) by blast
qed

theorem platform_write_is_checked_witness:
  "\<exists>order db1 refreshed.
     preflight sample_env order (sample_request ConfirmShipping) sample_db = (db1, Inr refreshed)
     \<and> od_status refreshed = ''paid_waiting_delivery''"
proof -
  obtain db' w r where e: "execute_order sample_env ''o1'' (sample_request ConfirmShipping) None sample_db = (db', w, r)"
    by (cases "execute_order sample_env ''o1'' (sample_request ConfirmShipping) None sample_db")
  with sample_execution have "w \<noteq> []" by simp
  from platform_write_is_checked [OF e this] show ?thesis
    by (auto simp: sample_request_def shipping_action_def)
qed

subsection \<open>One operation per order\<close>

definition serial_ok :: "order_db \<Rightarrow> bool" where
  "serial_ok db \<longleftrightarrow> operations_valid db
     \<and> (\<forall>a\<in>set (ob_operations db). \<forall>b\<in>set (ob_operations db).
          op_status a = Processing \<and> op_status b = Processing \<and> op_order_pk a = op_order_pk b
          \<or> op_account_id a = op_account_id b \<and> op_idempotency_key a = op_idempotency_key b
          \<longrightarrow> a = b)"

inductive exec_step :: "order_db \<Rightarrow> order_db \<Rightarrow> bool" where
  "execute_order env pk rq requested_by db = (db', w, r) \<Longrightarrow> exec_step db db'"

lemma active_None: "active_operation pk db = None \<longleftrightarrow>
   (\<forall>op\<in>set (ob_operations db). \<not> (op_order_pk op = pk \<and> op_status op = Processing))"
  by (auto simp: active_operation_def find_None_iff)

lemma execute_serial:
  assumes e: "execute_order env pk rq requested_by db = (db', w, r)" and ok: "serial_ok db"
  shows "serial_ok db'"
  using e
proof (cases rule: execute_cases)
  case silent
  with ok show ?thesis by (simp add: serial_ok_def same_operations_def operations_valid_def)
next
  case (written order db1 refreshed op db2)
  have v: "operations_valid db" using ok by (simp add: serial_ok_def)
  have v': "operations_valid db'" using execute_operations(1) [OF e v] .
  obtain db3 q where s: "settle_execution env pk refreshed op (rq_action rq)
       (en_execute env (rq_action rq) (execute_args refreshed rq)) db2 = (db3, q)" by fastforce
  with written(11) have db': "db' = db3"
    by (auto simp: bindE_def with_current_def split: sum.splits option.splits)
  from settle_frame [of op env pk refreshed "rq_action rq"
      "en_execute env (rq_action rq) (execute_args refreshed rq)"] s
  have f: "op_frame (op_operation_id op) db2 db'" by (simp add: keeps_def db') (metis fst_conv)
  have v2: "operations_valid db2"
    using v written(7) by (simp add: written(9) operations_valid_def keys_distinct_append1)
  have old: "x \<in> set (ob_operations db)" if "x \<in> set (ob_operations db')" "op_operation_id x \<noteq> op_operation_id op" for x
    using f v2 that by (auto simp: op_frame_def written(9))
  obtain new where n: "new \<in> set (ob_operations db')" "same_op op new"
    using f v2 by (auto simp: op_frame_def written(9))
  have is_new: "x = new" if "x \<in> set (ob_operations db')" "op_operation_id x = op_operation_id op" for x
    using keys_distinct_eq [of op_operation_id "ob_operations db'" x new] v' that n
    by (simp add: operations_valid_def same_op_def)
  have new_op: "op_order_pk new = pk" "op_account_id new = od_account_id order"
    "op_idempotency_key new = rq_idempotency_key rq"
    using n(2) by (simp_all add: same_op_def written(8) new_operation_def)
  have alone: "\<not> (op_order_pk x = pk \<and> op_status x = Processing)"
    "\<not> (op_account_id x = od_account_id order \<and> op_idempotency_key x = rq_idempotency_key rq)"
    if "x \<in> set (ob_operations db)" for x
    using that written(2,6) by (auto simp: active_None by_idempotency_None)
  have "a = b" if ab: "a \<in> set (ob_operations db')" "b \<in> set (ob_operations db')"
      "op_status a = Processing \<and> op_status b = Processing \<and> op_order_pk a = op_order_pk b
       \<or> op_account_id a = op_account_id b \<and> op_idempotency_key a = op_idempotency_key b" for a b
  proof -
    consider "a = new" "b = new" | "a = new" "b \<in> set (ob_operations db)"
      | "b = new" "a \<in> set (ob_operations db)" | "a \<in> set (ob_operations db)" "b \<in> set (ob_operations db)"
      using ab(1,2) is_new old by blast
    then show ?thesis
    proof cases
      case 2
      with alone [of b] new_op ab(3) show ?thesis by auto
    next
      case 3
      with alone [of a] new_op ab(3) show ?thesis by auto
    next
      case 4
      with ok ab(3) show ?thesis by (auto simp: serial_ok_def)
    qed simp
  qed
  with v' show ?thesis by (auto simp: serial_ok_def)
qed

interpretation executions: invariant_system serial_ok exec_step serial_ok
  by unfold_locales (auto elim!: exec_step.cases intro: execute_serial)



end
