(* ===== verification/OrderSafety.thy ===== *)
theory OrderSafety
  imports OrderActions
begin

text \<open>
  What the writes to the order tables guarantee together: no write reopens a settled
  order, an applied action is not offered again; and three defects of the code, each with
  the inputs that show it.
\<close>

section \<open>Statuses\<close>

inductive order_write :: "order_db \<Rightarrow> order_db \<Rightarrow> bool" where
  detail: "apply_order_detail_snapshot now e u pk snap db = (db', t) \<Longrightarrow> order_write db db'"
| shipping: "apply_order_shipping_options now pk raw db = (db', t) \<Longrightarrow> order_write db db'"
| refund: "apply_order_refund_detail now e u pk raw db = (db', t) \<Longrightarrow> order_write db db'"
| refuse: "apply_order_refuse_options now pk raw db = (db', t) \<Longrightarrow> order_write db db'"
| failure: "mark_order_detail_refresh_failure now pk err db = (db', b) \<Longrightarrow> order_write db db'"
| headinfo: "get_row od_order_pk (ob_orders db) fresh = None \<Longrightarrow>
     apply_order_headinfo f g h now fresh pk raw db = Inr (db', t) \<Longrightarrow> order_write db db'"
| finish: "finish_operation now e i v b db = (db', r) \<Longrightarrow> order_write db db'"

lemma settled_not_early: "settled_status s \<Longrightarrow> \<not> early_status s"
  by (auto simp: settled_status_def early_status_def)

lemma status_kept:
  "od_status (shipping_values now raw row) = od_status row"
  "od_status (refund_values now raw row) = od_status row"
  "od_status (refuse_values now raw row) = od_status row"
  "od_status (headinfo_texts f g h raw row) = od_status row"
  by (simp_all add: shipping_values_def refund_values_def refuse_values_def headinfo_texts_def Let_def)

lemma snapshot_not_reopened:
  "settled_status (od_status row) \<Longrightarrow> \<not> early_status (od_status (snapshot_values now snap row))"
  by (auto simp: snapshot_values_def snapshot_status_def Let_def settled_not_early)

lemma headinfo_status_not_reopened:
  "settled_status (od_status row) \<Longrightarrow> \<not> early_status (od_status (headinfo_status s t row))"
  by (auto simp: headinfo_status_def Let_def settled_not_early)

lemma headinfo_not_reopened:
  assumes "settled_status (od_status row)"
  shows "\<not> early_status (od_status (headinfo_values f g h now raw links row))"
proof -
  have "\<not> early_status (od_status (headinfo_status s t (r\<lparr>od_trade_role := x\<rparr>)))" if "od_status r = od_status row" for s t r x
    using assms that by (intro headinfo_status_not_reopened) simp
  from this [of "headinfo_texts f g h raw (row\<lparr>od_platform_order_id := u_or (headinfo_order_id raw) (od_platform_order_id row)\<rparr>)"]
  show ?thesis by (simp add: headinfo_values_def Let_def status_kept split: prod.split)
qed

lemma action_not_reopened:
  "settled_status (od_status row) \<Longrightarrow> \<not> early_status (od_status (confirmed_values now (action_values a s row)))"
  by (cases a) (simp_all add: confirmed_values_def action_values_def Let_def settled_not_early,
      simp_all add: early_status_def)

lemma action_pk: "od_order_pk (confirmed_values now (action_values a s row)) = od_order_pk row"
  by (cases a) (simp_all add: confirmed_values_def action_values_def Let_def)

text \<open>A write that replaces one row by a row with the same key that is not early when the old one was settled.\<close>

lemma put_not_reopened:
  assumes d: "keys_distinct od_order_pk (ob_orders db)"
    and row: "get_row od_order_pk (ob_orders db) pk = Some row" "settled_status (od_status row)"
    and new: "get_row od_order_pk (ob_orders db) (od_order_pk new) = Some old \<and>
        (settled_status (od_status old) \<longrightarrow> \<not> early_status (od_status new))
      \<or> get_row od_order_pk (ob_orders db) (od_order_pk new) = None"
    and db': "ob_orders db' = put_row od_order_pk new (ob_orders db)"
  shows "\<exists>row'. get_row od_order_pk (ob_orders db') pk = Some row' \<and> \<not> early_status (od_status row')"
  using assms by (auto simp: get_put_row settled_not_early)

text \<open>A write leaves the orders alone or replaces a row without reopening it.\<close>

definition replaces :: "order_db \<Rightarrow> order_db \<Rightarrow> bool" where
  "replaces db db' \<longleftrightarrow> ob_orders db' = ob_orders db
     \<or> (\<exists>old new. get_row od_order_pk (ob_orders db) (od_order_pk new) = Some old
          \<and> (settled_status (od_status old) \<longrightarrow> \<not> early_status (od_status new))
          \<and> ob_orders db' = put_row od_order_pk new (ob_orders db))"

lemma replacesI:
  "get_row od_order_pk (ob_orders db) pk = Some old \<Longrightarrow> od_order_pk new = od_order_pk old \<Longrightarrow>
   (settled_status (od_status old) \<Longrightarrow> \<not> early_status (od_status new)) \<Longrightarrow>
   ob_orders db' = put_row od_order_pk new (ob_orders db) \<Longrightarrow> replaces db db'"
  unfolding replaces_def by (metis get_row_SomeD)

lemma write_replaces:
  "apply_order_detail_snapshot now e u pk snap db = (db', t) \<Longrightarrow> replaces db db'"
  "apply_order_shipping_options now pk raw db = (db', t) \<Longrightarrow> replaces db db'"
  "apply_order_refund_detail now e u pk raw db = (db', t) \<Longrightarrow> replaces db db'"
  "apply_order_refuse_options now pk raw db = (db', t) \<Longrightarrow> replaces db db'"
  "mark_order_detail_refresh_failure now pk err db = (db', b) \<Longrightarrow> replaces db db'"
proof -
  show "replaces db db'" if "apply_order_detail_snapshot now e u pk snap db = (db', t)"
    using that
    by (cases "get_row od_order_pk (ob_orders db) pk")
       (auto simp: apply_order_detail_snapshot_def Let_def replaces_def,
        metis row_values_keep(1) snapshot_not_reopened get_row_SomeD)
  show "replaces db db'" if "apply_order_shipping_options now pk raw db = (db', t)"
    using that
    by (cases "get_row od_order_pk (ob_orders db) pk")
       (auto simp: apply_order_shipping_options_def replaces_def status_kept settled_not_early,
        metis row_values_keep(3) status_kept(1) settled_not_early get_row_SomeD)
  show "replaces db db'" if "apply_order_refund_detail now e u pk raw db = (db', t)"
    using that
    by (cases "get_row od_order_pk (ob_orders db) pk")
       (auto simp: apply_order_refund_detail_def Let_def replaces_def,
        metis row_values_keep(5) status_kept(2) settled_not_early get_row_SomeD)
  show "replaces db db'" if "apply_order_refuse_options now pk raw db = (db', t)"
    using that
    by (cases "get_row od_order_pk (ob_orders db) pk")
       (auto simp: apply_order_refuse_options_def replaces_def,
        metis row_values_keep(7) status_kept(3) settled_not_early get_row_SomeD)
  have "od_order_pk (failure_values now err row) = od_order_pk row"
    "od_status (failure_values now err row) = od_status row" for row
    by (simp_all add: failure_values_def)
  then show "replaces db db'" if "mark_order_detail_refresh_failure now pk err db = (db', b)"
    using that
    by (cases "get_row od_order_pk (ob_orders db) pk")
       (auto simp: mark_order_detail_refresh_failure_def replaces_def, metis settled_not_early get_row_SomeD)
qed

lemma finish_replaces:
  assumes "finish_operation now e i v b db = (db', r)"
  shows "replaces db db'"
proof (cases "get_row op_operation_id (ob_operations db) i")
  case None
  with assms show ?thesis by (simp add: finish_operation_def replaces_def)
next
  case (Some op)
  let ?op = "finished_operation now v op"
  show ?thesis
  proof (cases "get_row od_order_pk (ob_orders db) (op_order_pk ?op)")
    case None
    with assms Some have "ob_orders db' = ob_orders db"
      unfolding finish_operation_def Let_def by (auto split: if_splits)
    then show ?thesis by (simp add: replaces_def)
  next
    case (Some order)
    let ?new = "confirmed_values now (action_values (op_action ?op) (obj_or_empty (op_request_json ?op)) order)"
    have "ob_orders db' = ob_orders db \<or> ob_orders db' = put_row od_order_pk ?new (ob_orders db)"
      using assms Some \<open>get_row op_operation_id (ob_operations db) i = Some op\<close>
      unfolding finish_operation_def Let_def
      by (auto split: if_splits)
    then show ?thesis
    proof
      assume "ob_orders db' = put_row od_order_pk ?new (ob_orders db)"
      with Some show ?thesis by (intro replacesI [OF Some, of ?new]) (simp_all add: action_pk action_not_reopened)
    qed (simp add: replaces_def)
  qed
qed

lemma replaces_not_reopened:
  assumes "replaces db db'" and d: "keys_distinct od_order_pk (ob_orders db)"
    and row: "get_row od_order_pk (ob_orders db) pk = Some row" "settled_status (od_status row)"
  shows "\<exists>row'. get_row od_order_pk (ob_orders db') pk = Some row' \<and> \<not> early_status (od_status row')"
  using assms(1) unfolding replaces_def
proof (elim disjE exE conjE)
  assume "ob_orders db' = ob_orders db"
  with row show ?thesis by (simp add: settled_not_early)
next
  fix old new
  assume "get_row od_order_pk (ob_orders db) (od_order_pk new) = Some old"
    "settled_status (od_status old) \<longrightarrow> \<not> early_status (od_status new)"
    "ob_orders db' = put_row od_order_pk new (ob_orders db)"
  then show ?thesis by (intro put_not_reopened [OF d row, of new old]) simp_all
qed

text \<open>C34. A settled order is not reopened by an answer of the platform: applying the detail, the
  shipping options, the refund detail, the refuse options or the head information of an order,
  or the result of a seller action, never moves an order that is shipped, completed or closed
  back to waiting for payment or for delivery.\<close>

theorem settled_order_not_reopened:
  assumes "order_write db db'" and "keys_distinct od_order_pk (ob_orders db)"
    and "get_row od_order_pk (ob_orders db) pk = Some row" and "settled_status (od_status row)"
  shows "\<exists>row'. get_row od_order_pk (ob_orders db') pk = Some row' \<and> \<not> early_status (od_status row')"
  using assms
proof (induction rule: order_write.induct)
  case (headinfo db fresh f g h now pk' raw db' t)
  show ?case
  proof (cases "get_row od_order_pk (ob_orders db) pk'")
    case None
    with headinfo show ?thesis by (auto simp: apply_order_headinfo_def settled_not_early)
  next
    case (Some source)
    define target where "target = headinfo_target fresh now (headinfo_order_id raw) source (ob_orders db)"
    obtain links where db': "ob_orders db' =
        put_row od_order_pk (headinfo_values f g h now raw links target) (ob_orders db)"
      using headinfo(2) Some by (auto simp: apply_order_headinfo_def Let_def target_def split: option.splits)
    have "target \<in> set (ob_orders db) \<or> od_order_pk target = fresh"
      using get_row_SomeD [OF Some]
      by (auto simp: target_def headinfo_target_def order_defaults_def split: option.split dest: find_SomeD)
    then show ?thesis
    proof
      assume "target \<in> set (ob_orders db)"
      then have "get_row od_order_pk (ob_orders db) (od_order_pk target) = Some target"
        using headinfo(3) by (rule get_row_distinct [rotated])
      then show ?thesis
        using put_not_reopened [OF headinfo(3-5) _ db', of target]
        by (auto simp: headinfo_values_keep headinfo_not_reopened)
    next
      assume "od_order_pk target = fresh"
      with headinfo(1) show ?thesis
        using put_not_reopened [OF headinfo(3-5) _ db'] by (auto simp: headinfo_values_keep)
    qed
  qed
qed (rule replaces_not_reopened, erule write_replaces finish_replaces, assumption+)+

definition shipped_db :: order_db where
  "shipped_db = \<lparr>ob_orders = [sample_order\<lparr>od_status := ''shipped''\<rparr>], ob_events = [], ob_operations = []\<rparr>"

theorem settled_order_not_reopened_witness:
  "\<exists>row'. get_row od_order_pk (ob_orders (fst (apply_order_detail_snapshot 9 ''e'' ''u'' ''o1''
       (sample_snapshot ''paid_waiting_delivery'') shipped_db))) ''o1'' = Some row'
     \<and> \<not> early_status (od_status row')"
proof (rule settled_order_not_reopened)
  show "order_write shipped_db (fst (apply_order_detail_snapshot 9 ''e'' ''u'' ''o1''
      (sample_snapshot ''paid_waiting_delivery'') shipped_db))"
    by (rule order_write.detail) (rule prod.collapse [symmetric])
  show "keys_distinct od_order_pk (ob_orders shipped_db)" by (simp add: shipped_db_def keys_distinct_def)
  show "get_row od_order_pk (ob_orders shipped_db) ''o1'' = Some (sample_order\<lparr>od_status := ''shipped''\<rparr>)"
    by (simp add: shipped_db_def sample_order_def order_defaults_def)
qed (simp add: settled_status_def)


section \<open>Applied actions\<close>

lemma string_set_empty [simp]: "string_set (JList []) = []" "string_set (jstrs []) = []"
  by (simp_all add: string_set_def upper_texts_def jstrs_def)

lemma disabledI: "action_reason order a \<noteq> None \<Longrightarrow> \<not> av_enabled (selected_action order a)"
  by (simp add: enabled_iff)

lemma applied_reason:
  fixes row :: order_row
  assumes "new = order_to_payload (confirmed_values now (action_values a s row))"
  shows "action_reason new a \<noteq> None"
    "shipping_action a \<Longrightarrow> shipping_action a' \<or> a' = CloseOrder \<Longrightarrow> action_reason new a' \<noteq> None"
    "a = CloseOrder \<Longrightarrow> shipping_action a' \<or> a' = CloseOrder \<Longrightarrow> action_reason new a' \<noteq> None"
proof -
  have st: "od_status new = (if shipping_action a then ''shipped'' else if a = CloseOrder then ''closed'' else od_status row)"
    unfolding assms payload_fields
    by (cases a) (simp_all add: confirmed_values_def action_values_def Let_def shipping_action_def)
  have rate: "a = RateBuyer \<Longrightarrow> od_seller_rate_status new = Some (asc ''4'')"
    unfolding assms payload_fields by (simp add: confirmed_values_def action_values_def Let_def)
  have refuse: "a = RefuseRefund \<Longrightarrow> od_platform_refund_actions new = jstrs []"
    by (simp add: assms order_to_payload_def confirmed_values_def action_values_def Let_def load_string_list_def)
  show "action_reason new a \<noteq> None"
    using st rate refuse
    by (cases a) (auto simp: action_reason_def shipping_reason_def shipping_action_def Let_def)
  show "action_reason new a' \<noteq> None" if "shipping_action a" "shipping_action a' \<or> a' = CloseOrder"
    using st that by (cases a') (auto simp: action_reason_def shipping_reason_def shipping_action_def Let_def)
  show "action_reason new a' \<noteq> None" if "a = CloseOrder" "shipping_action a' \<or> a' = CloseOrder"
    using st that by (cases a') (auto simp: action_reason_def shipping_reason_def shipping_action_def Let_def)
qed

text \<open>An action that succeeded is not offered again: after a successful operation is
  recorded, its own action is unavailable on the stored order, and after a shipment or a
  closing no form of shipping and no closing is available.\<close>

theorem applied_action_not_offered:
  assumes "finish_operation now e i v True db = (db', Inr op)" and "fv_status v = OpSucceeded"
    and "get_row od_order_pk (ob_orders db) (op_order_pk op) = Some row"
  shows "\<exists>order. get_order (op_order_pk op) db' = Some order
     \<and> \<not> av_enabled (selected_action order (op_action op))
     \<and> (shipping_action (op_action op) \<or> op_action op = CloseOrder \<longrightarrow>
          (\<forall>a. shipping_action a \<or> a = CloseOrder \<longrightarrow> \<not> av_enabled (selected_action order a)))"
proof -
  obtain op0 where op0: "get_row op_operation_id (ob_operations db) i = Some op0"
    using assms(1) by (auto simp: finish_operation_def split: option.splits)
  let ?op = "finished_operation now v op0"
  let ?new = "confirmed_values now (action_values (op_action ?op) (obj_or_empty (op_request_json ?op)) row)"
  have same: "op_order_pk op = op_order_pk ?op" "op_action op = op_action ?op"
    using assms(1,2) op0 unfolding finish_operation_def Let_def
    by (auto split: option.splits if_splits)
  then have "db' = db\<lparr>ob_orders := put_row od_order_pk ?new (ob_orders db), ob_events := ob_events db',
      ob_operations := ob_operations db'\<rparr>"
    using assms op0 unfolding finish_operation_def Let_def by (auto split: if_splits)
  then have "ob_orders db' = put_row od_order_pk ?new (ob_orders db)"
    by (metis order_db.select_convs(1) order_db.surjective order_db.update_convs(1,2,3))
  then have "get_order (op_order_pk op) db' = Some (order_to_payload ?new)"
    using get_row_SomeD [OF assms(3)] by (simp add: get_order_def get_put_row action_pk)
  then show ?thesis
    using applied_reason [where now = now and a = "op_action ?op" and s = "obj_or_empty (op_request_json ?op)"
        and row = row, OF refl]
    by (auto simp: same intro!: disabledI)
qed

definition running_db :: order_db where
  "running_db = sample_db\<lparr>ob_operations := [new_operation 1 ''i'' ''o1'' ''a'' (asc ''900'') ConfirmShipping
     (asc ''key-0001'') None ''paid_waiting_delivery'' (JObj [])]\<rparr>"

definition sample_success :: finish_values where
  "sample_success = \<lparr>fv_status = OpSucceeded, fv_message = None, fv_error = None, fv_platform_code = None,
     fv_post_status = None, fv_response = JNull\<rparr>"

theorem applied_action_not_offered_witness:
  "\<exists>db' op order. finish_operation 9 ''e'' ''i'' sample_success True running_db = (db', Inr op)
     \<and> get_order ''o1'' db' = Some order \<and> \<not> av_enabled (selected_action order OfflineShipping)"
proof -
  let ?f = "finish_operation 9 ''e'' ''i'' sample_success True running_db"
  have "case ?f of (db', Inr op) \<Rightarrow> op_order_pk op = ''o1'' \<and> op_action op = ConfirmShipping | _ \<Rightarrow> False"
    by code_simp
  then obtain db' op where f: "?f = (db', Inr op)" and o: "op_order_pk op = ''o1''" "op_action op = ConfirmShipping"
    by (auto split: prod.splits sum.splits)
  have "get_row od_order_pk (ob_orders running_db) (op_order_pk op)
      = Some (sample_order\<lparr>od_platform_capabilities := jstrs [asc ''LOGISTICS_SEND'']\<rparr>)"
    by (simp add: o running_db_def sample_db_def sample_order_def order_defaults_def)
  from applied_action_not_offered [OF f _ this] f o show ?thesis
    by (auto simp: sample_success_def shipping_action_def)
qed

section \<open>Defects\<close>

lemma same_fst: "m db = (db', r) \<Longrightarrow> fst (m db) = db'"
  by simp

lemma steps_keep_operations:
  assumes "exec_step\<^sup>*\<^sup>* db db'" and "operations_valid db"
  shows "operations_valid db' \<and> set (ob_operations db) \<subseteq> set (ob_operations db')"
  using assms
proof (induction rule: rtranclp_induct)
  case (step b c)
  then show ?case
    by (auto elim!: exec_step.cases dest: execute_operations)
qed simp

text \<open>C35. A cookie conflict while an error is handled blocks the order for good. When the
  platform rejects an action and the merge of the cookies of that answer fails, the
  exception leaves the operation in progress, and from then on, whatever is executed, no
  action of that order reaches the platform any more.\<close>

theorem failed_merge_blocks_order:
  assumes v: "operations_valid db" and e: "execute_order env pk rq requested_by db = (db1, w, r)" "w \<noteq> []"
    and raised: "en_execute env (rq_action rq) (snd (hd w)) = ActionRaised err"
    and merge: "\<not> en_merge env (''order_action_'' @ action_name (rq_action rq) @ ''_error'')"
    and steps: "exec_step\<^sup>*\<^sup>* db1 db2"
  shows "r = Inl CookieMergeFailed \<and> fst (snd (execute_order env' pk rq' requested_by' db2)) = []"
  using e(1)
proof (cases rule: execute_cases)
  case silent
  with e(2) show ?thesis by simp
next
  case (written order dba refreshed op dbb)
  from raised written(10) have "en_execute env (rq_action rq) (execute_args refreshed rq) = ActionRaised err" by simp
  with written(11) merge have r: "r = Inl CookieMergeFailed" and db1: "db1 = dbb"
    by (simp_all add: settle_execution_def Let_def bindE_def mergeE_def guardE_def failE_def)
  have "op \<in> set (ob_operations db2)"
    using steps_keep_operations [OF steps execute_operations(1) [OF e(1) v]]
    by (auto simp: db1 written(9))
  moreover have "op_order_pk op = pk" "op_status op = Processing"
    by (simp_all add: written(8) new_operation_def)
  ultimately have active: "active_operation pk db2 \<noteq> None" by (auto simp: active_None)
  obtain d w' q where x: "execute_order env' pk rq' requested_by' db2 = (d, w', q)"
    by (cases "execute_order env' pk rq' requested_by' db2")
  then have "w' = []" using active by (cases rule: execute_cases) auto
  with x r show ?thesis by simp
qed

definition rejecting_env :: order_env where
  "rejecting_env = sample_env\<lparr>
     en_execute := (\<lambda>_ _. ActionRaised \<lparr>ae_message = asc ''rejected'', ae_uncertain = False, ae_raw_response = JNull\<rparr>),
     en_merge := (\<lambda>s. s \<noteq> ''order_action_confirm_shipping_error'')\<rparr>"

theorem failed_merge_blocks_order_witness:
  "fst (snd (execute_order sample_env ''o1'' (sample_request ConfirmShipping) None
     (fst (execute_order rejecting_env ''o1'' (sample_request ConfirmShipping) None sample_db)))) = []"
proof -
  let ?e = "execute_order rejecting_env ''o1'' (sample_request ConfirmShipping) None sample_db"
  obtain d w r where e: "?e = (d, w, r)" by (cases ?e)
  have "fst (snd ?e) \<noteq> []" by code_simp
  with e have w: "w \<noteq> []" by simp
  have "r = Inl CookieMergeFailed \<and>
      fst (snd (execute_order sample_env ''o1'' (sample_request ConfirmShipping) None d)) = []"
    by (rule failed_merge_blocks_order [OF sample_db_valid e w, where err = "\<lparr>ae_message = asc ''rejected'',
          ae_uncertain = False, ae_raw_response = JNull\<rparr>" and ?db2.0 = d])
       (simp_all add: rejecting_env_def sample_request_def)
  with e show ?thesis by simp
qed

subsection \<open>A refused refund\<close>

definition fixed_by_lower :: "ustr \<Rightarrow> bool" where
  "fixed_by_lower t \<longleftrightarrow> ulower t = t"

lemma contains_lower_fixed: "fixed_by_lower n \<Longrightarrow> contains n h \<Longrightarrow> contains n (ulower h)"
proof -
  assume n: "fixed_by_lower n" and "contains n h"
  then obtain a b where "h = a @ n @ b" by (auto simp: contains_iff)
  then have "ulower h = ulower a @ n @ ulower b" using n by (simp add: ulower_def fixed_by_lower_def)
  then show ?thesis by (auto simp: contains_iff)
qed

text \<open>A refused refund is recorded as refunded. When any text of the refund detail says that
  the refusal of the refund succeeded, the stored refund status is \<open>refunded\<close>, not
  \<open>rejected\<close>, because the first marker that is looked for (refund succeeded) is a part of
  that text; after that no form of shipping is available for the order.\<close>

theorem refused_refund_recorded_as_refunded:
  assumes "get_row od_order_pk (ob_orders db) pk = Some row"
    and "occurs (JStr text) raw" and "contains (hd rejected_markers) text"
    and "apply_order_refund_detail now e u pk raw db = (db', t)"
  shows "\<exists>order. get_order pk db' = Some order \<and> od_refund_status order = Some (asc ''refunded'')
     \<and> (\<forall>a. shipping_action a \<longrightarrow> \<not> av_enabled (selected_action order a))"
proof -
  have "contains (hd refunded_markers) (hd rejected_markers)"
    by (simp add: refunded_markers_def rejected_markers_def)
  then have "contains (hd refunded_markers) text" using assms(3) by (rule contains_trans)
  moreover have "list_all plain_char (hd refunded_markers)" "fixed_by_lower (hd refunded_markers)"
    by (simp_all add: refunded_markers_def plain_char_def fixed_by_lower_def ulower_def)
  ultimately have "contains (hd refunded_markers) (ulower (dumps raw))"
    using assms(2) by (intro contains_lower_fixed contains_dumps)
  then have "refund_status_of raw s = Some (asc ''refunded'')" for s
    by (simp add: refund_status_of_def Let_def any_marker_def refunded_markers_def)
  then have st: "od_refund_status (order_to_payload (refund_values now raw row)) = Some (asc ''refunded'')"
    by (simp add: payload_fields refund_values_def Let_def)
  have "get_order pk db' = Some (order_to_payload (refund_values now raw row))"
    using assms(1,4) get_row_SomeD [OF assms(1)]
    by (auto simp: apply_order_refund_detail_def Let_def get_order_def get_put_row row_values_keep)
  moreover have "refund_finished (order_to_payload (refund_values now raw row))"
    unfolding refund_finished_def refund_state_def st by code_simp
  then have "\<not> av_enabled (selected_action (order_to_payload (refund_values now raw row)) a)" if "shipping_action a" for a
    using that by (intro disabledI) (auto simp: action_reason_def shipping_action_def shipping_reason_def Let_def)
  ultimately show ?thesis using st by blast
qed

theorem refused_refund_recorded_as_refunded_witness:
  "\<exists>order. get_order ''o1'' (fst (apply_order_refund_detail 9 ''e'' ''u'' ''o1''
       (jobj [(''statusText'', JStr (hd rejected_markers))]) sample_db)) = Some order
     \<and> od_refund_status order = Some (asc ''refunded'')"
proof -
  have 1: "get_row od_order_pk (ob_orders sample_db) ''o1''
      = Some (sample_order\<lparr>od_platform_capabilities := jstrs [asc ''LOGISTICS_SEND'']\<rparr>)"
    by (simp add: sample_db_def sample_order_def order_defaults_def)
  have 2: "occurs (JStr (hd rejected_markers)) (jobj [(''statusText'', JStr (hd rejected_markers))])"
    by (auto simp: jobj_def intro: occurs.intros)
  have 3: "contains (hd rejected_markers) (hd rejected_markers)" by (simp add: rejected_markers_def)
  show ?thesis
    using refused_refund_recorded_as_refunded [OF 1 2 3, of 9 "''e''" "''u''"] by (metis prod.collapse)
qed


subsection \<open>The answer for another order\<close>

lemma headinfo_parts_order_id:
  "od_platform_order_id (headinfo_texts f g h raw row) = od_platform_order_id row"
  "od_platform_order_id (headinfo_status s t row) = od_platform_order_id row"
  by (simp_all add: headinfo_texts_def headinfo_status_def Let_def)

lemma headinfo_values_order_id:
  "od_platform_order_id (headinfo_values f g h now raw links row) = u_or (headinfo_order_id raw) (od_platform_order_id row)"
  by (simp add: headinfo_values_def Let_def headinfo_parts_order_id split: prod.split)

text \<open>The detail of one order is written into another. For a sold order whose head
  information was never confirmed, an answer about a different order of the same account
  is not fatal, but it leaves the other order as the refreshed one: its number is used to
  ask for the detail, and that detail is stored in the row of the first order.\<close>

theorem foreign_detail_is_stored:
  assumes A: "get_row od_order_pk (ob_orders db) pk = Some row"
    and src: "od_data_source row = Some ''seller_sold''" "od_headinfo_confirmed_at row = None"
    and conv: "utruthy (od_item_id row)" "od_conversation_id row \<noteq> []"
    and head: "en_headinfo env source (u_text (od_item_id row)) (od_conversation_id row) = Inr raw"
      "headinfo_action_links (head_section raw ''right'') = Some links"
    and other: "headinfo_order_id raw = Some b" "b \<noteq> []" "od_platform_order_id row \<noteq> Some b"
      "find (\<lambda>r. od_account_id r = od_account_id row \<and> od_platform_order_id r = Some b) (ob_orders db) = Some rowB"
      "od_order_pk rowB \<noteq> pk"
    and detail: "en_detail env source b = Inr snap" "en_merge env source"
  shows "\<exists>db' r. bindE (refresh_head env source (require_headinfo (order_to_payload row)) (order_to_payload row))
            (refresh_detail env source pk) db = (db', Inr r)
     \<and> get_row od_order_pk (ob_orders db') pk = Some (snapshot_values (en_now env) snap row)"
proof -
  let ?o = "order_to_payload row"
  let ?B = "headinfo_values (en_nfkc env) (en_casefold env) (en_loads env) (en_now env) raw links rowB"
  let ?db1 = "db\<lparr>ob_orders := put_row od_order_pk ?B (ob_orders db)\<rparr>"
  have pk: "od_order_pk row = pk" using get_row_SomeD [OF A] by simp
  have nr: "\<not> require_headinfo ?o" using src by (simp add: require_headinfo_def payload_fields)
  have B: "od_order_pk ?B = od_order_pk rowB" by (rule headinfo_values_keep)
  have "headinfo_target fresh now (headinfo_order_id raw) row (ob_orders db) = rowB" for fresh now
    using other by (simp add: headinfo_target_def)
  then have "apply_order_headinfo (en_nfkc env) (en_casefold env) (en_loads env) (en_now env)
      (en_uid env (source @ ''_order'')) pk raw db = Inr (?db1, Some (od_order_pk ?B))"
    using A head by (simp add: apply_order_headinfo_def Let_def)
  moreover have "get_order (od_order_pk ?B) ?db1 = Some (order_to_payload ?B)"
    by (simp add: get_order_def get_put_row)
  ultimately have "refresh_headinfo env source ?o db = (?db1, Some (order_to_payload ?B), Some OtherOrderReturned)"
    using head other(5) by (simp add: refresh_headinfo_def payload_fields pk B)
  then have h: "refresh_head env source (require_headinfo ?o) ?o db = (?db1, Inr (order_to_payload ?B))"
    using nr conv by (simp add: refresh_head_def payload_fields)
  have A1: "get_row od_order_pk (ob_orders ?db1) pk = Some row"
    using A other(5) B by (simp add: get_put_row)
  have "u_text (od_platform_order_id (order_to_payload ?B)) = b"
    using other(1,2) by (simp add: payload_fields headinfo_values_order_id u_or_def)
  then have d: "\<exists>db' r. refresh_detail env source pk (order_to_payload ?B) ?db1 = (db', Inr r)
      \<and> ob_orders db' = put_row od_order_pk (snapshot_values (en_now env) snap row) (ob_orders ?db1)"
    using detail A1
    by (simp add: refresh_detail_def bindE_def callE_def mergeE_def guardE_def retE_def applied_def
          apply_order_detail_snapshot_def Let_def get_order_def get_put_row row_values_keep pk requireE_def)
  then show ?thesis
    using h pk by (auto simp: bindE_def get_put_row row_values_keep)
qed

definition other_order :: order_row where
  "other_order = sample_order\<lparr>od_order_pk := ''o2'', od_platform_order_id := Some (asc ''901'')\<rparr>"

definition talking_order :: order_row where
  "talking_order = sample_order\<lparr>od_item_id := Some (asc ''5''), od_status := ''pending_payment''\<rparr>"

definition mixing_env :: order_env where
  "mixing_env = sample_env\<lparr>
     en_headinfo := (\<lambda>_ _ _. Inr (jobj [(''commonData'', jobj [(''orderId'', JStr (asc ''901''))])])),
     en_detail := (\<lambda>_ n. Inr (sample_snapshot (if n = asc ''901'' then ''completed'' else ''pending_payment'')))\<rparr>"

theorem foreign_detail_is_stored_witness:
  "\<exists>db' r. bindE (refresh_head mixing_env ''s'' (require_headinfo (order_to_payload talking_order)) (order_to_payload talking_order))
       (refresh_detail mixing_env ''s'' ''o1'')
       \<lparr>ob_orders = [talking_order, other_order], ob_events = [], ob_operations = []\<rparr> = (db', Inr r)
     \<and> map_option od_status (get_row od_order_pk (ob_orders db') ''o1'') = Some ''completed''"
proof -
  let ?raw = "jobj [(''commonData'', jobj [(''orderId'', JStr (asc ''901''))])]"
  let ?db = "\<lparr>ob_orders = [talking_order, other_order], ob_events = [], ob_operations = []\<rparr>"
  have "\<exists>db' r. bindE (refresh_head mixing_env ''s'' (require_headinfo (order_to_payload talking_order)) (order_to_payload talking_order))
       (refresh_detail mixing_env ''s'' ''o1'') ?db = (db', Inr r)
     \<and> get_row od_order_pk (ob_orders db') ''o1'' = Some (snapshot_values (en_now mixing_env) (sample_snapshot ''completed'') talking_order)"
  proof (rule foreign_detail_is_stored)
    show "get_row od_order_pk (ob_orders ?db) ''o1'' = Some talking_order" by code_simp
    show "od_data_source talking_order = Some ''seller_sold''" by code_simp
    show "od_headinfo_confirmed_at talking_order = None" by code_simp
    show "utruthy (od_item_id talking_order)" by code_simp
    show "od_conversation_id talking_order \<noteq> []" by code_simp
    show "en_headinfo mixing_env ''s'' (u_text (od_item_id talking_order)) (od_conversation_id talking_order) = Inr ?raw"
      by (simp add: mixing_env_def)
    show "headinfo_action_links (head_section ?raw ''right'') = Some (JObj [])" by code_simp
    show "headinfo_order_id ?raw = Some (asc ''901'')" by code_simp
    show "asc ''901'' \<noteq> []" by code_simp
    show "od_platform_order_id talking_order \<noteq> Some (asc ''901'')" by code_simp
    show "find (\<lambda>r. od_account_id r = od_account_id talking_order \<and> od_platform_order_id r = Some (asc ''901'')) (ob_orders ?db) = Some other_order"
      by code_simp
    show "od_order_pk other_order \<noteq> ''o1''" by code_simp
    show "en_detail mixing_env ''s'' (asc ''901'') = Inr (sample_snapshot ''completed'')" by (simp add: mixing_env_def)
    show "en_merge mixing_env ''s''" by (simp add: mixing_env_def sample_env_def)
  qed
  moreover have "od_status (snapshot_values (en_now mixing_env) (sample_snapshot ''completed'') talking_order) = ''completed''"
    by (simp add: snapshot_values_def snapshot_status_def sample_snapshot_def talking_order_def sample_order_def
          order_defaults_def settled_status_def early_status_def)
  ultimately show ?thesis by auto
qed

end
