(* ===== verification/Conversations.thy ===== *)
theory Conversations
  imports PyText Accounts
begin

text \<open>
  Conversations and messages: the rows, and whether a human has taken a conversation over
  (\<open>_manual_takeover_mode\<close>, \<open>_set_manual_takeover_sync\<close> of \<open>store.py\<close>).
\<close>

section \<open>Rows\<close>

record conversation_row =
  cv_conversation_pk :: string
  cv_account_id :: string
  cv_conversation_id :: ustr
  cv_peer_user_id :: "ustr option"
  cv_peer_name :: "ustr option"
  cv_item_id :: "ustr option"
  cv_item_title :: "ustr option"
  cv_item_price :: "ustr option"
  cv_item_image_url :: "ustr option"
  cv_item_url :: "ustr option"
  cv_item_context_source :: "string option"
  cv_item_context_at :: "timestamp option"
  cv_last_message_content :: "ustr option"
  cv_last_message_type :: string
  cv_last_message_direction :: "string option"
  cv_last_message_at :: "timestamp option"
  cv_last_activity_at :: "timestamp option"
  cv_last_activity_content :: "ustr option"
  cv_last_activity_type :: "string option"
  cv_last_activity_direction :: "string option"
  cv_message_count :: int
  cv_unread_count :: int
  cv_needs_reply :: bool
  cv_last_inbound_at :: "timestamp option"
  cv_last_outbound_at :: "timestamp option"
  cv_manual_takeover_until :: "timestamp option"
  cv_manual_takeover_mode :: "string option"
  cv_created_at :: timestamp
  cv_updated_at :: timestamp

record message_row =
  mg_message_pk :: string
  mg_account_id :: string
  mg_conversation_id :: ustr
  mg_message_id :: "ustr option"
  mg_dedupe_key :: "string option"
  mg_client_request_id :: "string option"
  mg_direction :: string
  mg_message_type :: string
  mg_content :: ustr
  mg_peer_user_id :: "ustr option"
  mg_peer_name :: "ustr option"
  mg_item_id :: "ustr option"
  mg_send_success :: "bool option"
  mg_send_status :: "string option"
  mg_send_error :: "ustr option"
  mg_recalled_at :: "timestamp option"
  mg_raw_payload :: json
  mg_attachments :: "(string \<times> ustr option) list"
  mg_created_at_ms :: int
  mg_received_at_ms :: "int option"
  mg_created_at :: timestamp
  mg_received_at :: "timestamp option"

definition conversation_defaults :: "string \<Rightarrow> string \<Rightarrow> ustr \<Rightarrow> timestamp \<Rightarrow> conversation_row" where
  "conversation_defaults pk account_id conversation_id now = \<lparr>
     cv_conversation_pk = pk, cv_account_id = account_id, cv_conversation_id = conversation_id,
     cv_peer_user_id = None, cv_peer_name = None, cv_item_id = None, cv_item_title = None,
     cv_item_price = None, cv_item_image_url = None, cv_item_url = None,
     cv_item_context_source = None, cv_item_context_at = None, cv_last_message_content = None,
     cv_last_message_type = ''unknown'', cv_last_message_direction = None, cv_last_message_at = None,
     cv_last_activity_at = None, cv_last_activity_content = None, cv_last_activity_type = None,
     cv_last_activity_direction = None, cv_message_count = 0, cv_unread_count = 0,
     cv_needs_reply = False, cv_last_inbound_at = None, cv_last_outbound_at = None,
     cv_manual_takeover_until = None, cv_manual_takeover_mode = Some ''auto'',
     cv_created_at = now, cv_updated_at = now\<rparr>"

text \<open>The conversation with the given account and identifier (a unique pair).\<close>

definition find_conversation :: "string \<Rightarrow> ustr \<Rightarrow> conversation_row list \<Rightarrow> conversation_row option" where
  "find_conversation account_id conversation_id rows =
     find (\<lambda>c. cv_account_id c = account_id \<and> cv_conversation_id c = conversation_id) rows"

section \<open>Manual takeover\<close>

datatype takeover_mode = TakeoverAuto | TakeoverTemporary | TakeoverPermanent

definition is_future :: "timestamp \<Rightarrow> timestamp option \<Rightarrow> bool" where
  "is_future now t = (case t of None \<Rightarrow> False | Some v \<Rightarrow> now < v)"

definition manual_takeover_mode :: "timestamp \<Rightarrow> conversation_row \<Rightarrow> takeover_mode" where
  "manual_takeover_mode now c =
     (let mode = lower (str_or (cv_manual_takeover_mode c) []) in
      if mode = ''permanent'' then TakeoverPermanent
      else if is_future now (cv_manual_takeover_until c) then TakeoverTemporary
      else TakeoverAuto)"

definition manual_takeover_active :: "timestamp \<Rightarrow> conversation_row \<Rightarrow> bool" where
  "manual_takeover_active now c \<longleftrightarrow> manual_takeover_mode now c \<noteq> TakeoverAuto"

datatype takeover_error = UnsupportedMode

text \<open>\<open>minutes\<close> is the length of a temporary takeover.\<close>

definition set_manual_takeover ::
  "timestamp \<Rightarrow> string \<Rightarrow> ustr \<Rightarrow> bool option \<Rightarrow> int \<Rightarrow> string option \<Rightarrow> conversation_row list
   \<Rightarrow> takeover_error + (conversation_row list \<times> timestamp option)" where
  "set_manual_takeover now account_id conversation_id active mins mode rows =
     (case find_conversation account_id conversation_id rows of
        None \<Rightarrow> Inr (rows, None)
      | Some c \<Rightarrow>
          let resolved = lower (str_or mode (if active = Some True then ''temporary'' else ''auto'')) in
          if resolved \<notin> {''auto'', ''temporary'', ''permanent''} then Inl UnsupportedMode
          else let until = (if resolved = ''temporary'' then Some (now + minutes mins) else None)
               in Inr (put_row cv_conversation_pk (c\<lparr>cv_manual_takeover_mode := Some resolved,
                         cv_manual_takeover_until := until, cv_updated_at := now\<rparr>) rows, until))"

lemma find_conversation_SomeD:
  "find_conversation a i rows = Some c \<Longrightarrow> c \<in> set rows \<and> cv_account_id c = a \<and> cv_conversation_id c = i"
  by (induction rows) (auto simp: find_conversation_def split: if_splits)

lemma find_conversation_put:
  assumes "find_conversation a i rows = Some c" and "cv_conversation_pk c' = cv_conversation_pk c"
    and "cv_account_id c' = a" "cv_conversation_id c' = i"
  shows "find_conversation a i (put_row cv_conversation_pk c' rows) = Some c'"
proof -
  have "get_row cv_conversation_pk rows (cv_conversation_pk c') \<noteq> None"
    using find_conversation_SomeD [OF assms(1)] assms(2) by (metis get_row_None_iff imageI)
  moreover have "find_conversation a i (set_row cv_conversation_pk rows (cv_conversation_pk c') (\<lambda>_. c')) = Some c'"
    using assms by (induction rows) (auto simp: find_conversation_def set_row_def split: if_splits)
  ultimately show ?thesis by (auto simp: put_row_def)
qed

text \<open>A takeover that was set is in force: a permanent one always, a temporary one exactly until
  its end, and resetting it to automatic ends any takeover at once.\<close>

theorem takeover_in_force:
  assumes "find_conversation a i rows = Some c"
    and "set_manual_takeover now a i active mins (Some mode) rows = Inr (rows', until)"
    and "mode \<in> {''auto'', ''temporary'', ''permanent''}"
  shows "\<exists>c'. find_conversation a i rows' = Some c'
     \<and> (manual_takeover_active later c' \<longleftrightarrow>
          mode = ''permanent'' \<or> (mode = ''temporary'' \<and> later < now + minutes mins))"
proof -
  have l: "lower mode = mode" using assms(3) by (elim insertE) (simp_all add: lower_def lower_char_def of_char_def)
  have ne: "mode \<noteq> []" using assms(3) by auto
  let ?u = "if mode = ''temporary'' then Some (now + minutes mins) else None"
  let ?c = "c\<lparr>cv_manual_takeover_mode := Some mode, cv_manual_takeover_until := ?u, cv_updated_at := now\<rparr>"
  have "rows' = put_row cv_conversation_pk ?c rows"
    using assms l ne by (auto simp: set_manual_takeover_def Let_def split: if_splits)
  moreover have "find_conversation a i (put_row cv_conversation_pk ?c rows) = Some ?c"
    using find_conversation_SomeD [OF assms(1)] by (intro find_conversation_put [OF assms(1)]) simp_all
  moreover have "manual_takeover_active later ?c \<longleftrightarrow>
      mode = ''permanent'' \<or> (mode = ''temporary'' \<and> later < now + minutes mins)"
    using l ne assms(3) by (auto simp: manual_takeover_active_def manual_takeover_mode_def is_future_def)
  ultimately show ?thesis by blast
qed

theorem takeover_in_force_witness:
  "\<exists>rows' until c'. set_manual_takeover 0 ''a'' (asc ''7'') None 5 (Some ''temporary'')
        [conversation_defaults ''p'' ''a'' (asc ''7'') 0] = Inr (rows', until)
     \<and> find_conversation ''a'' (asc ''7'') rows' = Some c' \<and> manual_takeover_active (minutes 4) c'"
proof -
  let ?r = "[conversation_defaults ''p'' ''a'' (asc ''7'') 0]"
  have f: "find_conversation ''a'' (asc ''7'') ?r = Some (conversation_defaults ''p'' ''a'' (asc ''7'') 0)"
    by code_simp
  have "case set_manual_takeover 0 ''a'' (asc ''7'') None 5 (Some ''temporary'') ?r of Inl _ \<Rightarrow> False | Inr _ \<Rightarrow> True"
    by code_simp
  then obtain rows' until where s: "set_manual_takeover 0 ''a'' (asc ''7'') None 5 (Some ''temporary'') ?r = Inr (rows', until)"
    by (auto split: sum.splits)
  from takeover_in_force [OF f s, of "minutes 4"] s show ?thesis by (auto simp: time_units)
qed

end
