(* ===== verification/AutoReplyRules.thy ===== *)
theory AutoReplyRules
  imports OrderPolicy Conversations "HOL-Library.Product_Lexorder" "HOL-Library.Char_ord" "HOL-Library.Multiset"
begin

text \<open>
  The rules of automatic replies (\<open>store.py\<close>): when a rule applies to a message, which of
  the matching rules are used, the order of the rules and its change, and the warnings
  about rules that cannot take effect. \<open>str.lower\<close> is an argument.
\<close>

section \<open>Rules\<close>

text \<open>
  A row of \<open>UserAutoReplyRuleORM\<close>, or of \<open>AutoReplyRuleORM\<close> with the owner in place of the user
  and without accounts, platform, message type and sender.
\<close>

record reply_rule =
  ru_rule_id :: string
  ru_owner_id :: string
  ru_account_ids :: json
  ru_platform :: "string option"
  ru_enabled :: bool
  ru_group_name :: "ustr option"
  ru_keyword :: ustr
  ru_trigger_type :: string
  ru_match_mode :: string
  ru_case_sensitive :: bool
  ru_message_type :: "string option"
  ru_sender_user_id :: "ustr option"
  ru_conversation_id :: "ustr option"
  ru_item_id :: "ustr option"
  ru_cooldown_seconds :: int
  ru_action_type :: string
  ru_reply_text :: ustr
  ru_priority :: int
  ru_continue_matching :: bool
  ru_context_message_count :: int
  ru_context_fields :: json
  ru_ai_system_prompt :: "ustr option"
  ru_ai_temperature :: ustr
  ru_created_at :: timestamp
  ru_updated_at :: timestamp

definition auto_reply_rule_matches :: "(ustr \<Rightarrow> ustr) \<Rightarrow> reply_rule \<Rightarrow> ustr \<Rightarrow> bool" where
  "auto_reply_rule_matches low rule content =
     (if ru_trigger_type rule = ''always'' \<or> ru_trigger_type rule = ''fallback'' then True
      else let keyword = (if ru_case_sensitive rule then ru_keyword rule else low (ru_keyword rule));
               target = (if ru_case_sensitive rule then content else low content)
           in if ru_match_mode rule = ''exact'' then ustrip target = ustrip keyword
              else contains keyword target)"

text \<open>A condition that is not set, or equals the value.\<close>

definition cond_ok :: "ustr option \<Rightarrow> ustr option \<Rightarrow> bool" where
  "cond_ok cond v \<longleftrightarrow> \<not> utruthy cond \<or> cond = v"

definition auto_reply_rule_scope_matches :: "reply_rule \<Rightarrow> ustr option \<Rightarrow> ustr option \<Rightarrow> bool" where
  "auto_reply_rule_scope_matches rule conversation_id item_id \<longleftrightarrow>
     cond_ok (ru_conversation_id rule) conversation_id \<and> cond_ok (ru_item_id rule) item_id"

text \<open>What a message is matched on.\<close>

record message_scope =
  ms_account_id :: string
  ms_platform :: string
  ms_message_type :: string
  ms_sender_user_id :: "ustr option"
  ms_conversation_id :: "ustr option"
  ms_item_id :: "ustr option"

definition rule_in_scope :: "message_scope \<Rightarrow> reply_rule \<Rightarrow> bool" where
  "rule_in_scope m rule \<longleftrightarrow>
     (load_string_list (ru_account_ids rule) = []
      \<or> asc (ms_account_id m) \<in> set (load_string_list (ru_account_ids rule)))
     \<and> (\<not> truthy (ru_platform rule) \<or> ru_platform rule = Some (ms_platform m))
     \<and> (\<not> truthy (ru_message_type rule) \<or> ru_message_type rule = Some (ms_message_type m))
     \<and> cond_ok (ru_sender_user_id rule) (ms_sender_user_id m)
     \<and> auto_reply_rule_scope_matches rule (ms_conversation_id m) (ms_item_id m)"

text \<open>Why a rule is not applicable, as the preview explains it.\<close>

datatype scope_mismatch = WrongAccount | WrongPlatform | WrongMessageType | WrongSender
  | WrongConversation | WrongItem

definition auto_reply_preview_scope_mismatch :: "message_scope \<Rightarrow> reply_rule \<Rightarrow> scope_mismatch option" where
  "auto_reply_preview_scope_mismatch m rule =
     (let account_ids = load_string_list (ru_account_ids rule) in
      if account_ids \<noteq> [] \<and> asc (ms_account_id m) \<notin> set account_ids then Some WrongAccount
      else if truthy (ru_platform rule) \<and> ru_platform rule \<noteq> Some (ms_platform m) then Some WrongPlatform
      else if truthy (ru_message_type rule) \<and> ru_message_type rule \<noteq> Some (ms_message_type m)
      then Some WrongMessageType
      else if utruthy (ru_sender_user_id rule) \<and> ru_sender_user_id rule \<noteq> ms_sender_user_id m then Some WrongSender
      else if utruthy (ru_conversation_id rule) \<and> ru_conversation_id rule \<noteq> ms_conversation_id m
      then Some WrongConversation
      else if utruthy (ru_item_id rule) \<and> ru_item_id rule \<noteq> ms_item_id m then Some WrongItem
      else None)"

section \<open>Order and selection\<close>

text \<open>\<open>ORDER BY\<close> fallbacks last, priority, creation.\<close>

definition rule_key :: "reply_rule \<Rightarrow> int \<times> int \<times> timestamp" where
  "rule_key rule = (if ru_trigger_type rule = ''fallback'' then 1 else 0, ru_priority rule, ru_created_at rule)"

definition ordered_user_rules :: "string \<Rightarrow> reply_rule list \<Rightarrow> reply_rule list" where
  "ordered_user_rules user_id rules = sort_key rule_key (filter (\<lambda>r. ru_owner_id r = user_id) rules)"

definition matched_rules :: "(ustr \<Rightarrow> ustr) \<Rightarrow> ustr \<Rightarrow> reply_rule list \<Rightarrow> reply_rule list" where
  "matched_rules low content scoped =
     (let matched = filter (\<lambda>r. ru_trigger_type r \<noteq> ''fallback'' \<and> auto_reply_rule_matches low r content) scoped
      in if matched = [] then filter (\<lambda>r. ru_trigger_type r = ''fallback'') scoped else matched)"

text \<open>The loop over the rules after the first: templates, up to one that does not continue.\<close>

fun continued_rules :: "reply_rule list \<Rightarrow> reply_rule list" where
  "continued_rules [] = []"
| "continued_rules (rule # rules) =
     (if ru_action_type rule \<noteq> ''template'' then []
      else if \<not> ru_continue_matching rule then [rule]
      else rule # continued_rules rules)"

definition selected_rules :: "reply_rule list \<Rightarrow> reply_rule list" where
  "selected_rules matched = (case matched of
     [] \<Rightarrow> []
   | first # rest \<Rightarrow>
       if ru_action_type first = ''template'' \<and> ru_continue_matching first
       then first # continued_rules rest else [first])"

definition choose_rules ::
  "(ustr \<Rightarrow> ustr) \<Rightarrow> message_scope \<Rightarrow> ustr \<Rightarrow> string \<Rightarrow> reply_rule list \<Rightarrow> reply_rule list" where
  "choose_rules low m content user_id rules =
     selected_rules (matched_rules low content
       (filter (\<lambda>r. ru_enabled r \<and> rule_in_scope m r) (ordered_user_rules user_id rules)))"

section \<open>Changing the order\<close>

datatype reorder_error = RulesChanged

fun assign_positions :: "timestamp \<Rightarrow> int \<Rightarrow> reply_rule list \<Rightarrow> reply_rule list" where
  "assign_positions now position [] = []"
| "assign_positions now position (r # rs) =
     r\<lparr>ru_priority := position * 100, ru_updated_at := now\<rparr> # assign_positions now (position + 1) rs"

text \<open>
  The table after every given row was assigned to: \<open>rule_ids\<close> lists each rule once, which
  the payload validates.
\<close>

definition put_rules :: "reply_rule list \<Rightarrow> reply_rule list \<Rightarrow> reply_rule list" where
  "put_rules new rules = fold (put_row ru_rule_id) new rules"

definition reorder_user_auto_reply_rules ::
  "timestamp \<Rightarrow> string list \<Rightarrow> string \<Rightarrow> string list \<Rightarrow> reply_rule list
   \<Rightarrow> reorder_error + (reply_rule list \<times> reply_rule list option)" where
  "reorder_user_auto_reply_rules now users user_id rule_ids rules =
     (if user_id \<notin> set users then Inr (rules, None)
      else let rows = filter (\<lambda>r. ru_owner_id r = user_id) rules in
        if set rule_ids \<noteq> set (map ru_rule_id rows) then Inl RulesChanged
        else let requested = map (\<lambda>i. the (get_row ru_rule_id rows i)) rule_ids;
                 ordered = filter (\<lambda>r. ru_trigger_type r \<noteq> ''fallback'') requested
                           @ filter (\<lambda>r. ru_trigger_type r = ''fallback'') requested;
                 new = assign_positions now 1 ordered
             in Inr (put_rules new rules, Some new))"

section \<open>Creating, changing and deleting rules\<close>

text \<open>
  What \<open>AutoReplyRuleCreatePayload\<close> and \<open>AutoReplyRuleUpdatePayload\<close> check after their fields
  were read. A payload to create is a rule whose identifier, owner, priority and times are not used;
  a priority that was given comes apart.
\<close>

datatype rule_error = KeywordRequired | ReplyTextRequired

definition validate_rule_create :: "reply_rule \<Rightarrow> rule_error + reply_rule" where
  "validate_rule_create p =
     (if ru_trigger_type p = ''keyword'' \<and> ru_keyword p = [] then Inl KeywordRequired
      else if ru_action_type p = ''template'' \<and> ru_reply_text p = [] then Inl ReplyTextRequired
      else if ru_action_type p \<noteq> ''template'' then Inr (p\<lparr>ru_continue_matching := False\<rparr>)
      else Inr p)"

text \<open>\<open>SELECT max(priority)\<close> of the rules of the same section.\<close>

definition highest_priority :: "string \<Rightarrow> bool \<Rightarrow> reply_rule list \<Rightarrow> int option" where
  "highest_priority user_id fallback rules =
     (case map ru_priority (filter (\<lambda>r. ru_owner_id r = user_id
             \<and> (ru_trigger_type r = ''fallback'') = fallback) rules) of
        [] \<Rightarrow> None
      | x # xs \<Rightarrow> Some (fold max xs x))"

definition create_user_auto_reply_rule ::
  "timestamp \<Rightarrow> string list \<Rightarrow> string \<Rightarrow> int option \<Rightarrow> reply_rule \<Rightarrow> string \<Rightarrow> reply_rule list
   \<Rightarrow> reply_rule list \<times> reply_rule option" where
  "create_user_auto_reply_rule now users user_id given p new_id rules =
     (if user_id \<notin> set users then (rules, None)
      else let priority = (case given of
                 Some n \<Rightarrow> n
               | None \<Rightarrow> (case highest_priority user_id (ru_trigger_type p = ''fallback'') rules of
                            None \<Rightarrow> 0 | Some h \<Rightarrow> h) + 100);
               row = p\<lparr>ru_rule_id := new_id, ru_owner_id := user_id, ru_priority := priority,
                       ru_created_at := now, ru_updated_at := now\<rparr>
           in (rules @ [row], Some row))"

text \<open>
  A field of an update: \<open>None\<close> when it was not sent, \<open>Some None\<close> for a null.
\<close>

record rule_patch =
  rp_enabled :: "bool option option"
  rp_group_name :: "ustr option option"
  rp_keyword :: "ustr option option"
  rp_trigger_type :: "string option option"
  rp_match_mode :: "string option option"
  rp_case_sensitive :: "bool option option"
  rp_account_ids :: "ustr list option option"
  rp_platform :: "string option option"
  rp_message_type :: "string option option"
  rp_sender_user_id :: "ustr option option"
  rp_conversation_id :: "ustr option option"
  rp_item_id :: "ustr option option"
  rp_cooldown_seconds :: "int option option"
  rp_action_type :: "string option option"
  rp_reply_text :: "ustr option option"
  rp_priority :: "int option option"
  rp_continue_matching :: "bool option option"
  rp_context_message_count :: "int option option"
  rp_context_fields :: "ustr list option option"
  rp_ai_system_prompt :: "ustr option option"
  rp_ai_temperature :: "ustr option option"

text \<open>The value of a field that may be absent.\<close>

definition sent :: "'a option option \<Rightarrow> 'a option" where
  "sent f = (case f of Some (Some v) \<Rightarrow> Some v | _ \<Rightarrow> None)"

definition validate_rule_update :: "rule_patch \<Rightarrow> rule_error + rule_patch" where
  "validate_rule_update p =
     (if sent (rp_trigger_type p) = Some ''keyword'' \<and> \<not> utruthy (sent (rp_keyword p)) then Inl KeywordRequired
      else if sent (rp_action_type p) = Some ''template'' \<and> \<not> utruthy (sent (rp_reply_text p))
      then Inl ReplyTextRequired
      else if sent (rp_action_type p) \<noteq> None \<and> sent (rp_action_type p) \<noteq> Some ''template''
      then Inr (p\<lparr>rp_continue_matching := Some (Some False)\<rparr>)
      else Inr p)"

text \<open>A column that may not be null keeps its value when a null is sent; the others take it.\<close>

definition keep_null :: "'a option option \<Rightarrow> 'a \<Rightarrow> 'a" where
  "keep_null f old = (case sent f of Some v \<Rightarrow> v | None \<Rightarrow> old)"

definition take_null :: "'a option option \<Rightarrow> 'a option \<Rightarrow> 'a option" where
  "take_null f old = (case f of Some v \<Rightarrow> v | None \<Rightarrow> old)"

definition patch_list :: "ustr list option option \<Rightarrow> json \<Rightarrow> json" where
  "patch_list f old = (case f of None \<Rightarrow> old | Some v \<Rightarrow> jstrs (case v of None \<Rightarrow> [] | Some l \<Rightarrow> l))"

definition patch_rule :: "timestamp \<Rightarrow> rule_patch \<Rightarrow> reply_rule \<Rightarrow> reply_rule" where
  "patch_rule now p row =
     (let row = row\<lparr>
        ru_enabled := keep_null (rp_enabled p) (ru_enabled row),
        ru_group_name := take_null (rp_group_name p) (ru_group_name row),
        ru_keyword := keep_null (rp_keyword p) (ru_keyword row),
        ru_match_mode := keep_null (rp_match_mode p) (ru_match_mode row),
        ru_case_sensitive := keep_null (rp_case_sensitive p) (ru_case_sensitive row),
        ru_platform := take_null (rp_platform p) (ru_platform row),
        ru_message_type := take_null (rp_message_type p) (ru_message_type row),
        ru_sender_user_id := take_null (rp_sender_user_id p) (ru_sender_user_id row),
        ru_conversation_id := take_null (rp_conversation_id p) (ru_conversation_id row),
        ru_item_id := take_null (rp_item_id p) (ru_item_id row),
        ru_cooldown_seconds := keep_null (rp_cooldown_seconds p) (ru_cooldown_seconds row),
        ru_action_type := keep_null (rp_action_type p) (ru_action_type row),
        ru_reply_text := keep_null (rp_reply_text p) (ru_reply_text row),
        ru_priority := keep_null (rp_priority p) (ru_priority row),
        ru_trigger_type := keep_null (rp_trigger_type p) (ru_trigger_type row),
        ru_continue_matching := keep_null (rp_continue_matching p) (ru_continue_matching row),
        ru_context_message_count := keep_null (rp_context_message_count p) (ru_context_message_count row),
        ru_ai_system_prompt := take_null (rp_ai_system_prompt p) (ru_ai_system_prompt row),
        ru_ai_temperature := keep_null (rp_ai_temperature p) (ru_ai_temperature row),
        ru_account_ids := patch_list (rp_account_ids p) (ru_account_ids row),
        ru_context_fields := patch_list (rp_context_fields p) (ru_context_fields row)\<rparr>
      in row\<lparr>ru_continue_matching := ru_continue_matching row \<and> ru_action_type row = ''template'',
             ru_updated_at := now\<rparr>)"

definition update_user_auto_reply_rule ::
  "timestamp \<Rightarrow> string \<Rightarrow> string \<Rightarrow> rule_patch \<Rightarrow> reply_rule list \<Rightarrow> reply_rule list \<times> reply_rule option" where
  "update_user_auto_reply_rule now user_id rule_id p rules =
     (case get_row ru_rule_id rules rule_id of
        None \<Rightarrow> (rules, None)
      | Some row \<Rightarrow>
          if ru_owner_id row \<noteq> user_id then (rules, None)
          else let row = patch_rule now p row in (put_row ru_rule_id row rules, Some row))"

definition delete_user_auto_reply_rule :: "string \<Rightarrow> string \<Rightarrow> reply_rule list \<Rightarrow> reply_rule list \<times> bool" where
  "delete_user_auto_reply_rule user_id rule_id rules =
     (case get_row ru_rule_id rules rule_id of
        None \<Rightarrow> (rules, False)
      | Some row \<Rightarrow>
          if ru_owner_id row \<noteq> user_id then (rules, False)
          else (filter (\<lambda>r. ru_rule_id r \<noteq> rule_id) rules, True))"

section \<open>Warnings\<close>

text \<open>The string conditions of a rule, in the order the code compares them.\<close>

definition scope_fields :: "reply_rule \<Rightarrow> ustr option list" where
  "scope_fields r = [map_option asc (ru_platform r), map_option asc (ru_message_type r),
     ru_sender_user_id r, ru_conversation_id r, ru_item_id r]"

definition auto_reply_rule_scopes_overlap :: "reply_rule \<Rightarrow> reply_rule \<Rightarrow> bool" where
  "auto_reply_rule_scopes_overlap left right =
     (let la = load_string_list (ru_account_ids left); ra = load_string_list (ru_account_ids right) in
      \<not> (la \<noteq> [] \<and> ra \<noteq> [] \<and> (\<forall>x\<in>set la. x \<notin> set ra))
      \<and> list_all2 (\<lambda>l r. \<not> (utruthy l \<and> utruthy r \<and> l \<noteq> r)) (scope_fields left) (scope_fields right))"

definition auto_reply_rule_scope_covers :: "reply_rule \<Rightarrow> reply_rule \<Rightarrow> bool" where
  "auto_reply_rule_scope_covers covering candidate =
     (let ca = load_string_list (ru_account_ids covering); da = load_string_list (ru_account_ids candidate) in
      \<not> (ca \<noteq> [] \<and> (da = [] \<or> \<not> (\<forall>x\<in>set da. x \<in> set ca)))
      \<and> list_all2 (\<lambda>c d. \<not> (utruthy c \<and> c \<noteq> d)) (scope_fields covering) (scope_fields candidate))"

datatype rule_issue =
    AiProviderIncomplete "string list"
  | OverlappingFallbacks "string list"
  | RulesShadowedByAlways reply_rule "string list"

fun overlapping_ids :: "reply_rule list \<Rightarrow> string list" where
  "overlapping_ids [] = []"
| "overlapping_ids (left # rest) =
     concat (map (\<lambda>right. if auto_reply_rule_scopes_overlap left right
        then [ru_rule_id left, ru_rule_id right] else []) rest) @ overlapping_ids rest"

fun shadow_issues :: "reply_rule list \<Rightarrow> rule_issue list" where
  "shadow_issues [] = []"
| "shadow_issues (rule # rest) =
     (let shadowed = map ru_rule_id (filter (auto_reply_rule_scope_covers rule) rest) in
      (if ru_trigger_type rule = ''always''
          \<and> \<not> (ru_action_type rule = ''template'' \<and> ru_continue_matching rule) \<and> shadowed \<noteq> []
       then [RulesShadowedByAlways rule shadowed] else []) @ shadow_issues rest)"

definition list_user_auto_reply_rule_issues ::
  "bool \<Rightarrow> string \<Rightarrow> reply_rule list \<Rightarrow> rule_issue list" where
  "list_user_auto_reply_rule_issues ai_ready user_id all_rules =
     (let rules = ordered_user_rules user_id all_rules;
          ai_rules = filter (\<lambda>r. ru_enabled r \<and> ru_action_type r = ''ai'') rules;
          overlapping = overlapping_ids (filter (\<lambda>r. ru_enabled r \<and> ru_trigger_type r = ''fallback'') rules)
      in (if ai_rules \<noteq> [] \<and> \<not> ai_ready then [AiProviderIncomplete (map ru_rule_id ai_rules)] else [])
         @ (if overlapping \<noteq> [] then [OverlappingFallbacks (sort (remdups overlapping))] else [])
         @ shadow_issues (filter (\<lambda>r. ru_enabled r \<and> ru_trigger_type r \<noteq> ''fallback'') rules))"


text \<open>An example: two rules of a user, the later one hidden by an unconditional one, and a fallback.\<close>

definition sample_rule :: "string \<Rightarrow> string \<Rightarrow> int \<Rightarrow> reply_rule" where
  "sample_rule rule_id trigger priority = \<lparr>
     ru_rule_id = rule_id, ru_owner_id = ''u'', ru_account_ids = JList [], ru_platform = None,
     ru_enabled = True, ru_group_name = None, ru_keyword = asc ''hi'', ru_trigger_type = trigger,
     ru_match_mode = ''contains'', ru_case_sensitive = True, ru_message_type = None,
     ru_sender_user_id = None, ru_conversation_id = None, ru_item_id = None, ru_cooldown_seconds = 0,
     ru_action_type = ''template'', ru_reply_text = asc ''hello'', ru_priority = priority,
     ru_continue_matching = False, ru_context_message_count = 10, ru_context_fields = JList [],
     ru_ai_system_prompt = None, ru_ai_temperature = asc ''0.4'', ru_created_at = 0, ru_updated_at = 0\<rparr>"

definition sample_rules :: "reply_rule list" where
  "sample_rules = [sample_rule ''x'' ''keyword'' 200, sample_rule ''y'' ''always'' 100, sample_rule ''f'' ''fallback'' 100]"

definition sample_scope :: message_scope where
  "sample_scope = \<lparr>ms_account_id = ''a'', ms_platform = ''xianyu'', ms_message_type = ''text'',
     ms_sender_user_id = None, ms_conversation_id = None, ms_item_id = None\<rparr>"

section \<open>Which rules are used\<close>

lemma selected_rules_subset: "set (selected_rules ms) \<subseteq> set ms"
proof -
  have "set (continued_rules rs) \<subseteq> set rs" for rs by (induction rs) auto
  then show ?thesis by (cases ms) (auto simp: selected_rules_def)
qed

text \<open>A rule that ends the selection: no rule after it is used.\<close>

definition ends_selection :: "reply_rule \<Rightarrow> bool" where
  "ends_selection rule \<longleftrightarrow> \<not> (ru_action_type rule = ''template'' \<and> ru_continue_matching rule)"

lemma continued_rules_end:
  "ends_selection rule \<Longrightarrow> set (continued_rules (ps @ rule # ms)) \<subseteq> insert rule (set ps)"
  by (induction ps) (auto simp: ends_selection_def)

lemma selected_rules_end:
  "ends_selection rule \<Longrightarrow> set (selected_rules (ps @ rule # ms)) \<subseteq> insert rule (set ps)"
  using continued_rules_end [of rule "tl ps" ms]
  by (cases ps) (auto simp: selected_rules_def ends_selection_def)

text \<open>A condition of a covering rule is weaker than that of the covered one.\<close>

lemma cond_ok_weaker: "\<not> (utruthy c \<and> c \<noteq> d) \<Longrightarrow> cond_ok d v \<Longrightarrow> cond_ok c v"
  by (auto simp: cond_ok_def)

lemma cond_ok_asc: "cond_ok (map_option asc s) (Some (asc t)) \<longleftrightarrow> \<not> truthy s \<or> s = Some t"
proof -
  have "asc x = asc y \<longleftrightarrow> x = y" for x y by (simp add: asc_def inj_map_eq_map inj_def)
  then show ?thesis by (cases s) (auto simp: cond_ok_def asc_def)
qed

lemma rule_in_scope_conds:
  "rule_in_scope m rule \<longleftrightarrow>
     (load_string_list (ru_account_ids rule) = [] \<or> asc (ms_account_id m) \<in> set (load_string_list (ru_account_ids rule)))
     \<and> list_all2 cond_ok (scope_fields rule)
         [Some (asc (ms_platform m)), Some (asc (ms_message_type m)), ms_sender_user_id m,
          ms_conversation_id m, ms_item_id m]"
  by (simp add: rule_in_scope_def auto_reply_rule_scope_matches_def scope_fields_def cond_ok_asc)

lemma scope_covers_in_scope:
  assumes "auto_reply_rule_scope_covers covering candidate" and "rule_in_scope m candidate"
  shows "rule_in_scope m covering"
proof -
  from assms have
    c: "list_all2 (\<lambda>c d. \<not> (utruthy c \<and> c \<noteq> d)) (scope_fields covering) (scope_fields candidate)"
    and a: "load_string_list (ru_account_ids covering) = [] \<or> load_string_list (ru_account_ids candidate) \<noteq> []
      \<and> set (load_string_list (ru_account_ids candidate)) \<subseteq> set (load_string_list (ru_account_ids covering))"
    by (auto simp: auto_reply_rule_scope_covers_def Let_def)
  show ?thesis
    unfolding rule_in_scope_conds
  proof
    show "load_string_list (ru_account_ids covering) = []
        \<or> asc (ms_account_id m) \<in> set (load_string_list (ru_account_ids covering))"
      using assms(2) a unfolding rule_in_scope_conds by (elim conjE disjE) (simp_all add: subset_iff)
    show "list_all2 cond_ok (scope_fields covering)
        [Some (asc (ms_platform m)), Some (asc (ms_message_type m)), ms_sender_user_id m,
         ms_conversation_id m, ms_item_id m]"
      using assms(2) unfolding rule_in_scope_conds by (elim conjE) (rule list_all2_trans [OF cond_ok_weaker c])
  qed
qed

lemma shadow_issues_split:
  "RulesShadowedByAlways rule ids \<in> set (shadow_issues rs) \<Longrightarrow>
     \<exists>ps ms. rs = ps @ rule # ms \<and> ru_trigger_type rule = ''always'' \<and> ends_selection rule
       \<and> ids = map ru_rule_id (filter (auto_reply_rule_scope_covers rule) ms)"
proof (induction rs)
  case (Cons r rs)
  then consider "RulesShadowedByAlways rule ids \<in> set (shadow_issues rs)"
    | "r = rule" "ru_trigger_type rule = ''always''" "ends_selection rule"
      "ids = map ru_rule_id (filter (auto_reply_rule_scope_covers rule) rs)"
    by (auto simp: Let_def ends_selection_def split: if_splits)
  then show ?case
  proof cases
    case 1
    with Cons.IH obtain ps ms where "rs = ps @ rule # ms" "ru_trigger_type rule = ''always''"
      "ends_selection rule" "ids = map ru_rule_id (filter (auto_reply_rule_scope_covers rule) ms)" by blast
    then show ?thesis by (intro exI [of _ "r # ps"] exI [of _ ms]) simp
  next
    case 2
    then show ?thesis by (intro exI [of _ "[]"] exI [of _ rs]) simp
  qed
qed simp

lemma shadow_issue_listed:
  "RulesShadowedByAlways rule ids \<in> set (list_user_auto_reply_rule_issues ready user_id rules) \<Longrightarrow>
   RulesShadowedByAlways rule ids \<in> set (shadow_issues
     (filter (\<lambda>r. ru_enabled r \<and> ru_trigger_type r \<noteq> ''fallback'') (ordered_user_rules user_id rules)))"
  by (auto simp: list_user_auto_reply_rule_issues_def Let_def split: if_splits)

lemma ordered_user_rules_perm:
  "mset (ordered_user_rules user_id rules) = mset (filter (\<lambda>r. ru_owner_id r = user_id) rules)"
  by (simp add: ordered_user_rules_def)

lemma ordered_user_rules_set [simp]:
  "set (ordered_user_rules user_id rules) = {r \<in> set rules. ru_owner_id r = user_id}"
  by (auto simp: ordered_user_rules_def)

lemma distinct_ordered_user_rules:
  assumes "keys_distinct ru_rule_id rules"
  shows "distinct (map ru_rule_id (ordered_user_rules user_id rules))"
proof -
  have "distinct (map ru_rule_id (filter (\<lambda>r. ru_owner_id r = user_id) rules))"
    using assms by (simp add: keys_distinct_def distinct_map_filter)
  moreover have "mset (map ru_rule_id (ordered_user_rules user_id rules))
      = mset (map ru_rule_id (filter (\<lambda>r. ru_owner_id r = user_id) rules))"
    by (simp add: ordered_user_rules_perm)
  ultimately show ?thesis by (metis distinct_count_atmost_1 set_mset_mset)
qed

lemma matched_rules_cases:
  assumes "c \<in> set (matched_rules low content scoped)" and "ru_trigger_type c \<noteq> ''fallback''"
  shows "matched_rules low content scoped
     = filter (\<lambda>r. ru_trigger_type r \<noteq> ''fallback'' \<and> auto_reply_rule_matches low r content) scoped"
  using assms by (auto simp: matched_rules_def Let_def split: if_splits)

text \<open>The warning that an unconditional rule hides later ones is right: a rule it names is used
  for no message at all, whatever its text and wherever it comes from.\<close>

theorem shadowed_rule_never_selected:
  assumes d: "keys_distinct ru_rule_id rules"
    and w: "RulesShadowedByAlways rule ids \<in> set (list_user_auto_reply_rule_issues ready user_id rules)"
    and c: "c \<in> set rules" "ru_rule_id c \<in> set ids"
  shows "c \<notin> set (choose_rules low m content user_id rules)"
proof
  assume sel: "c \<in> set (choose_rules low m content user_id rules)"
  let ?all = "ordered_user_rules user_id rules"
  let ?E = "\<lambda>r. ru_enabled r \<and> ru_trigger_type r \<noteq> ''fallback''"
  let ?M = "\<lambda>r. rule_in_scope m r \<and> auto_reply_rule_matches low r content"
  obtain ps ms where rs: "filter ?E ?all = ps @ rule # ms" and al: "ru_trigger_type rule = ''always''"
    and e: "ends_selection rule" and ids: "ids = map ru_rule_id (filter (auto_reply_rule_scope_covers rule) ms)"
    using shadow_issues_split [OF shadow_issue_listed [OF w]] by blast
  have dd: "distinct (map ru_rule_id (ps @ rule # ms))"
    using distinct_map_filter [OF distinct_ordered_user_rules [OF d, of user_id], of ?E] unfolding rs .
  obtain c' where c': "c' \<in> set ms" "auto_reply_rule_scope_covers rule c'" "ru_rule_id c' = ru_rule_id c"
    using c(2) ids by auto
  have "c' \<in> set (filter ?E ?all)" using c' rs by simp
  then have "c' \<in> set rules" "ru_enabled c'" "ru_trigger_type c' \<noteq> ''fallback''" by auto
  with c' c(1) d have cc: "c' = c" by (metis keys_distinct_eq)
  have nf: "ru_trigger_type c \<noteq> ''fallback''" using \<open>ru_trigger_type c' \<noteq> _\<close> cc by simp
  let ?scoped = "filter (\<lambda>r. ru_enabled r \<and> rule_in_scope m r) ?all"
  have inm: "c \<in> set (matched_rules low content ?scoped)"
    using sel selected_rules_subset by (auto simp: choose_rules_def)
  have eq: "matched_rules low content ?scoped = filter ?M (filter ?E ?all)"
    unfolding matched_rules_cases [OF inm nf] filter_filter by (rule filter_cong) auto
  then have "?M c" using inm by simp
  then have "?M rule" using scope_covers_in_scope c' cc al by (auto simp: auto_reply_rule_matches_def)
  then have "matched_rules low content ?scoped = filter ?M ps @ rule # filter ?M ms"
    unfolding eq rs by simp
  then have "set (selected_rules (matched_rules low content ?scoped)) \<subseteq> insert rule (set ps)"
    using selected_rules_end [OF e, of "filter ?M ps" "filter ?M ms"] by auto
  then have "c \<in> insert rule (set ps)" using sel by (auto simp: choose_rules_def)
  with dd c' cc show False by auto
qed

section \<open>The order of the rules\<close>

lemma get_row_fold_put:
  "keys_distinct key new \<Longrightarrow>
   get_row key (fold (put_row key) new rows) k = (case get_row key new k of None \<Rightarrow> get_row key rows k | Some r \<Rightarrow> Some r)"
proof (induction new arbitrary: rows)
  case (Cons r rs)
  then have "get_row key rs (key r) = None" by (simp add: get_row_None_iff)
  with Cons show ?case by (auto simp: get_put_row split: option.splits)
qed simp

lemma keys_distinct_fold_put:
  "keys_distinct key rows \<Longrightarrow> keys_distinct key (fold (put_row key) new rows)"
  by (induction new arbitrary: rows) (auto intro: keys_distinct_put_row)

lemma keys_distinct_mem:
  "keys_distinct key rows \<Longrightarrow> r \<in> set rows \<longleftrightarrow> get_row key rows (key r) = Some r"
  using get_row_distinct get_row_SomeD by metis

lemma assign_positions_map [simp]:
  "map ru_rule_id (assign_positions now i rs) = map ru_rule_id rs"
  "map ru_trigger_type (assign_positions now i rs) = map ru_trigger_type rs"
  "map ru_owner_id (assign_positions now i rs) = map ru_owner_id rs"
  by (induction rs arbitrary: i) simp_all

lemma assign_positions_priority:
  "r \<in> set (assign_positions now i rs) \<Longrightarrow> i * 100 \<le> ru_priority r"
  by (induction rs arbitrary: i) fastforce+

lemma sorted_wrt_ConsI:
  "(\<And>s. s \<in> set rs \<Longrightarrow> R r s) \<Longrightarrow> sorted_wrt R rs \<Longrightarrow> sorted_wrt R (r # rs)"
  by simp

lemma assign_positions_trigger:
  "(\<And>r. r \<in> set rs \<Longrightarrow> P (ru_trigger_type r)) \<Longrightarrow> s \<in> set (assign_positions now i rs) \<Longrightarrow> P (ru_trigger_type s)"
  by (induction rs arbitrary: i) auto

lemma rule_key_less:
  "ru_trigger_type r = ''fallback'' \<longrightarrow> ru_trigger_type s = ''fallback'' \<Longrightarrow> ru_priority r < ru_priority s
   \<Longrightarrow> rule_key r < rule_key s"
  by (simp add: rule_key_def)

text \<open>Rules of the ordinary section before the fallbacks, each section by position.\<close>

lemma assign_positions_sorted:
  assumes "sorted_wrt (\<lambda>r s. ru_trigger_type r = ''fallback'' \<longrightarrow> ru_trigger_type s = ''fallback'') rs"
  shows "sorted_wrt (\<lambda>r s. rule_key r < rule_key s) (assign_positions now i rs)"
  using assms
proof (induction rs arbitrary: i)
  case (Cons r rs)
  let ?r = "r\<lparr>ru_priority := i * 100, ru_updated_at := now\<rparr>"
  have "rule_key ?r < rule_key s" if s: "s \<in> set (assign_positions now (i + 1) rs)" for s
  proof (rule rule_key_less)
    show "ru_trigger_type ?r = ''fallback'' \<longrightarrow> ru_trigger_type s = ''fallback''"
      using Cons.prems assign_positions_trigger [OF _ s, of "\<lambda>t. ru_trigger_type r = ''fallback'' \<longrightarrow> t = ''fallback''"]
      by simp
    show "ru_priority ?r < ru_priority s" using assign_positions_priority [OF s] by simp
  qed
  with Cons show ?case by simp
qed simp

lemma sort_key_unique:
  assumes "mset xs = mset ys" and "sorted_wrt (\<lambda>r s. f r < f s) ys"
  shows "sort_key f xs = ys"
proof (rule sort_key_inj_key_eq [OF assms(1)])
  have "sorted_wrt (<) (map f ys)" using assms(2) by (simp add: sorted_wrt_map)
  then have "sorted (map f ys) \<and> distinct (map f ys)" by (simp add: strict_sorted_iff)
  then show "sorted (map f ys)" "inj_on f (set xs)"
    using mset_eq_setD [OF assms(1)] by (simp_all add: distinct_map)
qed

lemma reordered_rows:
  assumes d: "keys_distinct ru_rule_id rules" and "distinct rule_ids"
    and s: "set rule_ids = set (map ru_rule_id (filter (\<lambda>r. ru_owner_id r = user_id) rules))"
  defines "requested \<equiv> map (\<lambda>i. the (get_row ru_rule_id (filter (\<lambda>r. ru_owner_id r = user_id) rules) i)) rule_ids"
  shows "map ru_rule_id requested = rule_ids"
    and "set requested = {r \<in> set rules. ru_owner_id r = user_id}"
proof -
  let ?rows = "filter (\<lambda>r. ru_owner_id r = user_id) rules"
  have dr: "keys_distinct ru_rule_id ?rows" using d by (simp add: keys_distinct_def distinct_map_filter)
  have get: "\<exists>r\<in>set ?rows. get_row ru_rule_id ?rows i = Some r \<and> ru_rule_id r = i" if "i \<in> set rule_ids" for i
    using that s get_row_distinct [OF dr] by fastforce
  then have eq: "ru_rule_id (the (get_row ru_rule_id ?rows i)) = i" if "i \<in> set rule_ids" for i
    using that by fastforce
  show ids: "map ru_rule_id requested = rule_ids"
    unfolding requested_def by (simp add: o_def eq map_idI)
  have "set requested \<subseteq> set ?rows" unfolding requested_def using get by fastforce
  moreover have "r \<in> set requested" if "r \<in> set ?rows" for r
  proof -
    have "ru_rule_id r \<in> set rule_ids" using that s by auto
    with get_row_distinct [OF dr that] show ?thesis
      unfolding requested_def set_map by (intro image_eqI [of r _ "ru_rule_id r"]) simp_all
  qed
  ultimately show "set requested = {r \<in> set rules. ru_owner_id r = user_id}" by auto
qed

lemma sections_sorted:
  "sorted_wrt (\<lambda>r s. fb r \<longrightarrow> fb s) (filter (\<lambda>r. \<not> fb r) xs @ filter fb xs)"
  by (induction xs) (auto simp: sorted_wrt_append)

lemma map_key_filter:
  assumes "keys_distinct key rules" and "set xs \<subseteq> set rules"
  shows "map key (filter P xs) = filter (\<lambda>i. \<exists>r\<in>set rules. key r = i \<and> P r) (map key xs)"
  using assms(2)
proof (induction xs)
  case (Cons x xs)
  have "(\<exists>r\<in>set rules. key r = key x \<and> P r) \<longleftrightarrow> P x"
    using Cons.prems assms(1) by (metis insert_subset keys_distinct_eq list.simps(15))
  with Cons show ?case by simp
qed simp

lemma set_fold_put:
  assumes "keys_distinct key rows" and "keys_distinct key new"
  shows "set (fold (put_row key) new rows) = set new \<union> {r \<in> set rows. key r \<notin> key ` set new}"
proof -
  have "r \<in> set (fold (put_row key) new rows) \<longleftrightarrow> r \<in> set new \<or> r \<in> set rows \<and> key r \<notin> key ` set new" for r
    unfolding keys_distinct_mem [OF keys_distinct_fold_put [OF assms(1)]] get_row_fold_put [OF assms(2)]
      keys_distinct_mem [OF assms(2)] keys_distinct_mem [OF assms(1)] get_row_None_iff [symmetric]
    by (auto split: option.splits)
  then show ?thesis by blast
qed

lemma assign_positions_owner:
  assumes "\<forall>r\<in>set rs. ru_owner_id r = u" and "s \<in> set (assign_positions now i rs)"
  shows "ru_owner_id s = u"
proof -
  have "ru_owner_id s \<in> ru_owner_id ` set rs"
    using assms(2) assign_positions_map(3) [of now i rs] by (metis image_eqI image_set)
  with assms(1) show ?thesis by (elim imageE) simp
qed

text \<open>After a reordering the rules are consulted exactly in the order that was returned: the
  requested order, with the fallback rules moved behind the others. Rules of other users keep
  their rows.\<close>

theorem reorder_takes_effect:
  assumes d: "keys_distinct ru_rule_id rules" and di: "distinct rule_ids"
    and r: "reorder_user_auto_reply_rules now users user_id rule_ids rules = Inr (rules', Some new)"
  shows "ordered_user_rules user_id rules' = new
    \<and> map ru_rule_id new = filter (\<lambda>i. \<exists>r\<in>set rules. ru_rule_id r = i \<and> ru_trigger_type r \<noteq> ''fallback'') rule_ids
       @ filter (\<lambda>i. \<exists>r\<in>set rules. ru_rule_id r = i \<and> ru_trigger_type r = ''fallback'') rule_ids
    \<and> {s \<in> set rules'. ru_owner_id s \<noteq> user_id} = {s \<in> set rules. ru_owner_id s \<noteq> user_id}"
proof -
  let ?rows = "filter (\<lambda>r. ru_owner_id r = user_id) rules"
  let ?req = "map (\<lambda>i. the (get_row ru_rule_id ?rows i)) rule_ids"
  let ?fb = "\<lambda>r. ru_trigger_type r = ''fallback''"
  let ?ord = "filter (\<lambda>r. \<not> ?fb r) ?req @ filter ?fb ?req"
  have s: "set rule_ids = set (map ru_rule_id ?rows)"
    and new: "new = assign_positions now 1 ?ord" and rules': "rules' = fold (put_row ru_rule_id) new rules"
    using r by (auto simp: reorder_user_auto_reply_rules_def Let_def put_rules_def split: if_splits)
  note req = reordered_rows [OF d di s]
  have so: "set ?ord = set ?req" by auto
  have "mset (map ru_rule_id ?ord) = mset (map ru_rule_id ?req)" 
    by (simp only: mset_map mset_append flip: image_mset_union) (simp add: union_filter_mset_complement)
  then have dn: "keys_distinct ru_rule_id new"
    unfolding new keys_distinct_def assign_positions_map req(1) using di by (metis mset_eq_imp_distinct_iff)
  have "set (map ru_rule_id new) = ru_rule_id ` set ?ord" unfolding new assign_positions_map by (rule set_map)
  also have "\<dots> = set (map ru_rule_id ?req)" unfolding so by (rule set_map [symmetric])
  finally have ids: "ru_rule_id ` set new = set rule_ids" unfolding req(1) set_map .
  have ow: "ru_owner_id n = user_id" if "n \<in> set new" for n
    using that req(2) so unfolding new by (intro assign_positions_owner) auto
  have mem: "ru_owner_id x = user_id \<longleftrightarrow> ru_rule_id x \<in> ru_rule_id ` set new" if "x \<in> set rules" for x
  proof
    assume "ru_rule_id x \<in> ru_rule_id ` set new"
    then obtain y where "y \<in> set ?rows" "ru_rule_id x = ru_rule_id y" unfolding ids s set_map by (elim imageE)
    then show "ru_owner_id x = user_id" using keys_distinct_eq [OF d that, of y] by simp
  qed (simp add: ids s that)
  note sr = set_fold_put [OF d dn, folded rules']
  have "mset (filter (\<lambda>r. ru_owner_id r = user_id) rules') = mset new"
  proof (rule set_eq_iff_mset_eq_distinct [THEN iffD1])
    show "distinct (filter (\<lambda>r. ru_owner_id r = user_id) rules')"
      using keys_distinct_fold_put [OF d, of new] unfolding rules' keys_distinct_def
      by (simp add: distinct_map distinct_filter)
    show "distinct new" using dn by (simp add: keys_distinct_def distinct_map)
    show "set (filter (\<lambda>r. ru_owner_id r = user_id) rules') = set new"
      unfolding set_filter sr using ow mem by blast
  qed
  moreover have "sorted_wrt (\<lambda>r s. rule_key r < rule_key s) new"
    unfolding new by (rule assign_positions_sorted [OF sections_sorted])
  ultimately have "ordered_user_rules user_id rules' = new"
    unfolding ordered_user_rules_def by (rule sort_key_unique)
  moreover have "map ru_rule_id new = map ru_rule_id ?ord" unfolding new by simp
  moreover have "map ru_rule_id (filter P ?req) = filter (\<lambda>i. \<exists>r\<in>set rules. ru_rule_id r = i \<and> P r) rule_ids" for P
    using map_key_filter [OF d, of ?req P] req by auto
  moreover have "{s \<in> set rules'. ru_owner_id s \<noteq> user_id} = {s \<in> set rules. ru_owner_id s \<noteq> user_id}"
    unfolding sr using ow mem by blast
  ultimately show ?thesis by (simp only: map_append)
qed

theorem reorder_takes_effect_witness:
  "\<exists>rules' new. reorder_user_auto_reply_rules 5 [''u''] ''u'' [''f'', ''y'', ''x''] sample_rules = Inr (rules', Some new)
     \<and> ordered_user_rules ''u'' rules' = new \<and> map ru_rule_id new = [''y'', ''x'', ''f'']"
proof -
  have k: "keys_distinct ru_rule_id sample_rules" by code_simp
  have "case reorder_user_auto_reply_rules 5 [''u''] ''u'' [''f'', ''y'', ''x''] sample_rules of
      Inr (_, Some _) \<Rightarrow> True | _ \<Rightarrow> False" by code_simp
  then obtain rules' new where
    r: "reorder_user_auto_reply_rules 5 [''u''] ''u'' [''f'', ''y'', ''x''] sample_rules = Inr (rules', Some new)"
    by (auto split: sum.splits option.splits)
  from reorder_takes_effect [OF k _ r] show ?thesis using r by (auto simp: sample_rules_def sample_rule_def)
qed

theorem shadowed_rule_never_selected_witness:
  "hd sample_rules \<notin> set (choose_rules (\<lambda>t. t) sample_scope (asc ''hi'') ''u'' sample_rules)"
proof -
  have k: "keys_distinct ru_rule_id sample_rules" by code_simp
  have w: "RulesShadowedByAlways (sample_rules ! 1) [''x''] \<in> set (list_user_auto_reply_rule_issues True ''u'' sample_rules)"
    by code_simp
  show ?thesis using shadowed_rule_never_selected [OF k w, of "hd sample_rules"] by (auto simp: sample_rules_def sample_rule_def)
qed

section \<open>New and changed rules\<close>

lemma sort_key_snoc:
  "\<forall>y\<in>set xs. f y \<le> f x \<Longrightarrow> sort_key f (xs @ [x]) = sort_key f xs @ [x]"
proof (induction xs)
  case (Cons a xs)
  have "insort_key f a (ys @ [x]) = insort_key f a ys @ [x]" for ys
    using Cons.prems by (induction ys) simp_all
  with Cons show ?case by simp
qed simp

lemma highest_priority_le:
  assumes "r \<in> set rules" "ru_owner_id r = user_id" "(ru_trigger_type r = ''fallback'') = fallback"
  shows "\<exists>h. highest_priority user_id fallback rules = Some h \<and> ru_priority r \<le> h"
proof -
  let ?ps = "map ru_priority (filter (\<lambda>r. ru_owner_id r = user_id \<and> (ru_trigger_type r = ''fallback'') = fallback) rules)"
  have mem: "ru_priority r \<in> set ?ps" using assms by simp
  then obtain x xs where ps: "?ps = x # xs" by (cases ?ps) simp_all
  have "ru_priority r \<le> fold max xs x"
    using mem unfolding ps by (simp flip: Max.set_eq_fold)
  with ps show ?thesis by (simp add: highest_priority_def)
qed

text \<open>A rule created without a priority is consulted after every rule its owner already has in
  the same section, and the order of those is unchanged.\<close>

theorem created_rule_is_last:
  assumes c: "create_user_auto_reply_rule now users user_id None p new_id rules = (rules', Some row)"
  shows "filter (\<lambda>r. (ru_trigger_type r = ''fallback'') = (ru_trigger_type p = ''fallback''))
       (ordered_user_rules user_id rules')
     = filter (\<lambda>r. (ru_trigger_type r = ''fallback'') = (ru_trigger_type p = ''fallback''))
       (ordered_user_rules user_id rules) @ [row]"
proof -
  let ?S = "\<lambda>r. (ru_trigger_type r = ''fallback'') = (ru_trigger_type p = ''fallback'')"
  let ?h = "highest_priority user_id (ru_trigger_type p = ''fallback'') rules"
  have rules': "rules' = rules @ [row]" and ow: "ru_owner_id row = user_id" and tr: "ru_trigger_type row = ru_trigger_type p"
    and pr: "ru_priority row = (case ?h of None \<Rightarrow> 0 | Some h \<Rightarrow> h) + 100"
    using c by (auto simp: create_user_auto_reply_rule_def Let_def split: if_splits)
  let ?old = "filter ?S (filter (\<lambda>r. ru_owner_id r = user_id) rules)"
  have "rule_key r \<le> rule_key row" if "r \<in> set ?old" for r
  proof -
    from that have "?S r" and "r \<in> set rules" "ru_owner_id r = user_id" by auto
    then obtain h where "?h = Some h" "ru_priority r \<le> h" using highest_priority_le by blast
    then have "ru_priority r < ru_priority row" using pr by simp
    then have "rule_key r < rule_key row" using \<open>?S r\<close> tr by (intro rule_key_less) simp_all
    then show ?thesis by (rule less_imp_le)
  qed
  then have "sort_key rule_key (?old @ [row]) = sort_key rule_key ?old @ [row]" by (intro sort_key_snoc) blast
  then show ?thesis using ow tr by (simp add: rules' ordered_user_rules_def filter_sort)
qed

theorem created_rule_is_last_witness:
  "\<exists>rules' row. create_user_auto_reply_rule 9 [''u''] ''u'' None (sample_rule [] ''keyword'' 1) ''z'' sample_rules
        = (rules', Some row)
     \<and> map ru_rule_id (filter (\<lambda>r. ru_trigger_type r \<noteq> ''fallback'') (ordered_user_rules ''u'' rules'))
         = [''y'', ''x'', ru_rule_id row]"
proof -
  obtain rules' row where c: "create_user_auto_reply_rule 9 [''u''] ''u'' None (sample_rule [] ''keyword'' 1) ''z'' sample_rules
        = (rules', Some row)" by (simp add: create_user_auto_reply_rule_def Let_def)
  have "map ru_rule_id (filter (\<lambda>r. ru_trigger_type r \<noteq> ''fallback'') (ordered_user_rules ''u'' sample_rules)) = [''y'', ''x'']"
    by code_simp
  with created_rule_is_last [OF c] c show ?thesis by (auto simp: sample_rule_def)
qed

lemma contains_Nil: "contains [] t"
  unfolding contains_iff by (intro exI [of _ "[]"] exI [of _ t]) simp

text \<open>An update that changes nothing.\<close>

definition no_patch :: rule_patch where
  "no_patch = \<lparr>rp_enabled = None, rp_group_name = None, rp_keyword = None, rp_trigger_type = None,
     rp_match_mode = None, rp_case_sensitive = None, rp_account_ids = None, rp_platform = None,
     rp_message_type = None, rp_sender_user_id = None, rp_conversation_id = None, rp_item_id = None,
     rp_cooldown_seconds = None, rp_action_type = None, rp_reply_text = None, rp_priority = None,
     rp_continue_matching = None, rp_context_message_count = None, rp_context_fields = None,
     rp_ai_system_prompt = None, rp_ai_temperature = None\<rparr>"

text \<open>A keyword rule cannot be created without a keyword, but its keyword can be emptied
  later: an update that only sends a blank keyword is accepted, and the rule then applies to every
  message.\<close>

theorem blank_keyword_update_matches_all:
  assumes g: "get_row ru_rule_id rules rule_id = Some row" and o: "ru_owner_id row = user_id"
    and "ru_trigger_type row = ''keyword''" and "ru_match_mode row = ''contains''" and l: "low [] = []"
  shows "(\<forall>p. ru_trigger_type p = ''keyword'' \<longrightarrow> ru_keyword p = [] \<longrightarrow> validate_rule_create p = Inl KeywordRequired)
     \<and> validate_rule_update (no_patch\<lparr>rp_keyword := Some (Some [])\<rparr>) = Inr (no_patch\<lparr>rp_keyword := Some (Some [])\<rparr>)
     \<and> (\<exists>row'. snd (update_user_auto_reply_rule now user_id rule_id (no_patch\<lparr>rp_keyword := Some (Some [])\<rparr>) rules) = Some row'
          \<and> ru_trigger_type row' = ''keyword'' \<and> ru_enabled row' = ru_enabled row
          \<and> (\<forall>content. auto_reply_rule_matches low row' content))"
proof -
  let ?p = "no_patch\<lparr>rp_keyword := Some (Some [])\<rparr>"
  let ?row = "patch_rule now ?p row"
  have f: "ru_trigger_type ?row = ''keyword''" "ru_match_mode ?row = ''contains''" "ru_keyword ?row = []"
      "ru_enabled ?row = ru_enabled row"
    using assms by (simp_all add: patch_rule_def Let_def no_patch_def keep_null_def sent_def)
  have "\<forall>content. auto_reply_rule_matches low ?row content"
    using l by (simp add: auto_reply_rule_matches_def f Let_def contains_Nil)
  moreover have "snd (update_user_auto_reply_rule now user_id rule_id ?p rules) = Some ?row"
    using g o by (simp add: update_user_auto_reply_rule_def Let_def)
  moreover have "validate_rule_update ?p = Inr ?p"
    by (simp add: validate_rule_update_def no_patch_def sent_def)
  ultimately show ?thesis using f by (simp add: validate_rule_create_def)
qed

theorem blank_keyword_update_matches_all_witness:
  "\<exists>row'. snd (update_user_auto_reply_rule 9 ''u'' ''x'' (no_patch\<lparr>rp_keyword := Some (Some [])\<rparr>) sample_rules) = Some row'
     \<and> auto_reply_rule_matches (\<lambda>t. t) row' (asc ''bye'')"
proof -
  have g: "get_row ru_rule_id sample_rules ''x'' = Some (sample_rule ''x'' ''keyword'' 200)"
    by (simp add: sample_rules_def sample_rule_def)
  from blank_keyword_update_matches_all [OF g, of "''u''" "\<lambda>t. t" 9] show ?thesis
    by (auto simp: sample_rule_def)
qed

end
