(* ===== verification/ReplyTemplates.thy ===== *)
theory ReplyTemplates
  imports Orders Conversations "HOL-Library.Product_Lexorder"
begin

text \<open>
  The context of an automatic reply and the templates filled from it (\<open>_build_auto_reply_context\<close>,
  \<open>_select_auto_reply_context\<close>, \<open>_render_auto_reply_template\<close> and \<open>_latest_auto_reply_order\<close> of
  \<open>store.py\<close>). \<open>datetime.isoformat\<close> is an argument. Rendering is shown to replace exactly the
  placeholders, and the selection of fields for a language model to hand out nothing else.
\<close>

section \<open>Context\<close>

text \<open>The attributes of an incoming message that are read, absent ones as \<open>None\<close>.\<close>

record inbound =
  in_message_pk :: "string option"
  in_direction :: "string option"
  in_conversation_id :: "ustr option"
  in_peer_user_id :: "ustr option"
  in_peer_name :: "ustr option"
  in_message_id :: "ustr option"
  in_message_type :: "string option"
  in_content :: "ustr option"
  in_item_id :: "ustr option"
  in_remote_urls :: "ustr option list"
  in_created_at :: "timestamp option"

definition no_inbound :: inbound where
  "no_inbound = \<lparr>in_message_pk = None, in_direction = None, in_conversation_id = None,
     in_peer_user_id = None, in_peer_name = None, in_message_id = None, in_message_type = None,
     in_content = None, in_item_id = None, in_remote_urls = [], in_created_at = None\<rparr>"

definition platform_account_display_name :: "account_row \<Rightarrow> ustr" where
  "platform_account_display_name a =
     (let normalized = strip (str_or (ac_platform_display_name a) []) in
      if normalized \<noteq> [] then asc normalized
      else (if lower (strip (ac_platform a)) = ''xianyu'' then [0x95F2, 0x9C7C] else [0x5E73, 0x53F0])
           @ [0x8D26, 0x6237, 45] @ asc (take 8 (ac_account_id a)))"

definition jopt :: "ustr option \<Rightarrow> json" where
  "jopt t = (case t of None \<Rightarrow> JNull | Some s \<Rightarrow> JStr s)"

definition jopt_int :: "int option \<Rightarrow> json" where
  "jopt_int n = (case n of None \<Rightarrow> JNull | Some k \<Rightarrow> JInt k)"

definition of_conversation :: "(conversation_row \<Rightarrow> ustr option) \<Rightarrow> conversation_row option \<Rightarrow> ustr option" where
  "of_conversation f c = (case c of None \<Rightarrow> None | Some r \<Rightarrow> f r)"

definition order_context :: "order_row option \<Rightarrow> json" where
  "order_context order = (case order of
     None \<Rightarrow> JObj [(asc ''id'', JNull), (asc ''status'', JNull), (asc ''price'', JNull),
               (asc ''quantity'', JNull), (asc ''trade_role'', JNull)]
   | Some r \<Rightarrow> JObj [(asc ''id'', jopt (od_platform_order_id r)),
               (asc ''status'', jopt (u_or (od_status_text r) (Some (asc (od_status r))))),
               (asc ''price'', jopt (od_price r)), (asc ''quantity'', jopt_int (od_quantity r)),
               (asc ''trade_role'', jopt (map_option asc (od_trade_role r)))])"

definition message_context :: "(timestamp \<Rightarrow> ustr) \<Rightarrow> inbound \<Rightarrow> ustr \<Rightarrow> json" where
  "message_context isoformat inb content =
     (let image_urls = take 9 (map the (filter utruthy (in_remote_urls inb))) in
      JObj [(asc ''id'', jopt (in_message_id inb)),
            (asc ''type'', JStr (asc (str_or (in_message_type inb) ''text''))),
            (asc ''text'', JStr content),
            (asc ''time'', jopt (map_option isoformat (in_created_at inb))),
            (asc ''image_urls'', JList (map JStr image_urls)),
            (asc ''image_count'', JInt (int (length image_urls)))])"

definition build_auto_reply_context ::
  "(timestamp \<Rightarrow> ustr) \<Rightarrow> timestamp \<Rightarrow> account_row \<Rightarrow> conversation_row option \<Rightarrow> order_row option \<Rightarrow> inbound
   \<Rightarrow> ustr \<Rightarrow> ustr option \<Rightarrow> json" where
  "build_auto_reply_context isoformat now account conv order inb content item_id = JObj [
     (asc ''platform'', JObj [(asc ''code'', JStr (asc (str_or (Some (ac_platform account)) ''xianyu''))),
        (asc ''name'', JStr [0x95F2, 0x9C7C])]),
     (asc ''account'', JObj [(asc ''id'', JStr (asc (ac_account_id account))),
        (asc ''name'', JStr (platform_account_display_name account))]),
     (asc ''sender'', JObj [
        (asc ''id'', jopt (u_or (in_peer_user_id inb) (of_conversation cv_peer_user_id conv))),
        (asc ''name'', jopt (u_or (in_peer_name inb) (of_conversation cv_peer_name conv)))]),
     (asc ''conversation'', JObj [(asc ''id'', jopt (u_or (in_conversation_id inb)
        (of_conversation (\<lambda>c. Some (cv_conversation_id c)) conv)))]),
     (asc ''message'', message_context isoformat inb content),
     (asc ''item'', JObj [(asc ''id'', jopt (u_or item_id (of_conversation cv_item_id conv))),
        (asc ''title'', jopt (of_conversation cv_item_title conv)),
        (asc ''price'', jopt (of_conversation cv_item_price conv)),
        (asc ''image_url'', jopt (of_conversation cv_item_image_url conv)),
        (asc ''url'', jopt (of_conversation cv_item_url conv))]),
     (asc ''order'', order_context order),
     (asc ''system'', JObj [(asc ''now'', JStr (isoformat now)), (asc ''timezone'', JStr (asc ''UTC''))])]"

text \<open>The order the context is about: the latest one of the conversation or of the item.\<close>

definition latest_auto_reply_order ::
  "string \<Rightarrow> ustr option \<Rightarrow> ustr option \<Rightarrow> order_row list \<Rightarrow> order_row option" where
  "latest_auto_reply_order account_id conversation_id item_id orders =
     (if \<not> utruthy conversation_id \<and> \<not> utruthy item_id then None
      else first_by (\<lambda>r. (- od_updated_at r, - od_created_at r))
        (filter (\<lambda>r. od_account_id r = account_id
            \<and> ((utruthy conversation_id \<and> Some (od_conversation_id r) = conversation_id)
               \<or> (utruthy item_id \<and> od_item_id r = item_id))) orders))"

section \<open>Paths\<close>

text \<open>\<open>source[part]\<close> for each part, or nothing as soon as one is missing.\<close>

fun lookup_path :: "ustr list \<Rightarrow> json \<Rightarrow> json option" where
  "lookup_path [] v = Some v"
| "lookup_path (p # ps) (JObj kvs) =
     (case map_of kvs p of None \<Rightarrow> None | Some w \<Rightarrow> lookup_path ps w)"
| "lookup_path (p # ps) v = None"

text \<open>\<open>str.split(".")\<close>.\<close>

fun split_on :: "int \<Rightarrow> ustr \<Rightarrow> ustr list" where
  "split_on d [] = [[]]"
| "split_on d (c # t) =
     (if c = d then [] # split_on d t
      else case split_on d t of [] \<Rightarrow> [[c]] | u # us \<Rightarrow> (c # u) # us)"

text \<open>\<open>d[k] = v\<close>: an existing key keeps its place.\<close>

fun dict_set :: "'k \<Rightarrow> 'v \<Rightarrow> ('k \<times> 'v) list \<Rightarrow> ('k \<times> 'v) list" where
  "dict_set k v [] = [(k, v)]"
| "dict_set k v ((k', v') # kvs) = (if k' = k then (k, v) # kvs else (k', v') # dict_set k v kvs)"

text \<open>The inner dictionaries on the way are created where there is none.\<close>

fun put_path :: "ustr list \<Rightarrow> json \<Rightarrow> (ustr \<times> json) list \<Rightarrow> (ustr \<times> json) list" where
  "put_path [] v target = target"
| "put_path [p] v target = dict_set p v target"
| "put_path (p # q # ps) v target =
     (let child = (case map_of target p of Some (JObj kvs) \<Rightarrow> kvs | _ \<Rightarrow> [])
      in dict_set p (JObj (put_path (q # ps) v child)) target)"

definition field_parts :: "ustr \<Rightarrow> ustr list" where
  "field_parts f = filter (\<lambda>p. p \<noteq> []) (split_on 46 f)"

definition select_field :: "json \<Rightarrow> (ustr \<times> json) list \<Rightarrow> ustr \<Rightarrow> (ustr \<times> json) list" where
  "select_field context selected f =
     (if field_parts f = [] then selected
      else case lookup_path (field_parts f) context of
             None \<Rightarrow> selected
           | Some JNull \<Rightarrow> selected
           | Some v \<Rightarrow> put_path (field_parts f) v selected)"

definition select_auto_reply_context :: "json \<Rightarrow> ustr list \<Rightarrow> json" where
  "select_auto_reply_context context names = JObj (foldl (select_field context) [] names)"

section \<open>Templates\<close>

text \<open>
  The pattern \<^verbatim>\<open>\{\{\s*([a-z][a-z0-9_]*(?:\.[a-z][a-z0-9_]*)+)\s*\}\}\<close> at the start of a
  text. No character can follow both a name and a shorter prefix of it, so the greedy match
  is the only one.
\<close>

definition name_start :: "int \<Rightarrow> bool" where
  "name_start c \<longleftrightarrow> 97 \<le> c \<and> c \<le> 122"

definition name_char :: "int \<Rightarrow> bool" where
  "name_char c \<longleftrightarrow> name_start c \<or> (48 \<le> c \<and> c \<le> 57) \<or> c = 95"

fun match_name :: "ustr \<Rightarrow> (ustr \<times> ustr) option" where
  "match_name [] = None"
| "match_name (c # t) =
     (if name_start c then Some (c # takeWhile name_char t, dropWhile name_char t) else None)"

lemma match_name_shorter: "match_name t = Some (n, r) \<Longrightarrow> length r < length t"
  by (cases t) (auto split: if_splits simp: le_imp_less_Suc length_dropWhile_le)

text \<open>\<open>(?:\.[a-z][a-z0-9_]*)*\<close>.\<close>

function match_tail :: "ustr \<Rightarrow> ustr list \<times> ustr" where
  "match_tail t = (case t of
     [] \<Rightarrow> ([], t)
   | c # u \<Rightarrow> if c \<noteq> 46 then ([], t)
       else (case match_name u of
               None \<Rightarrow> ([], t)
             | Some (n, r) \<Rightarrow> let (ns, s) = match_tail r in (n # ns, s)))"
  by pat_completeness auto
termination
  by (relation "measure length") (auto dest: match_name_shorter)

declare match_tail.simps [simp del]

definition match_placeholder :: "ustr \<Rightarrow> (ustr list \<times> ustr) option" where
  "match_placeholder t =
     (if \<not> starts_with [123, 123] t then None
      else case match_name (dropWhile uspace (drop 2 t)) of
             None \<Rightarrow> None
           | Some (n, r) \<Rightarrow>
               let (ns, s) = match_tail r; u = dropWhile uspace s in
               if ns \<noteq> [] \<and> starts_with [125, 125] u then Some (n # ns, drop 2 u) else None)"

definition placeholder_value :: "json \<Rightarrow> ustr list \<Rightarrow> ustr" where
  "placeholder_value context path = (case lookup_path path context of
     None \<Rightarrow> []
   | Some JNull \<Rightarrow> []
   | Some (JList vs) \<Rightarrow> join (asc '', '') (map py_str vs)
   | Some v \<Rightarrow> py_str v)"

lemma match_tail_length: "length (snd (match_tail t)) \<le> length t"
proof (induction t rule: match_tail.induct)
  case (1 t)
  show ?case
  proof (cases t)
    case (Cons c u)
    show ?thesis
    proof (cases "c = 46 \<and> match_name u \<noteq> None")
      case True
      then obtain n r where m: "match_name u = Some (n, r)" by auto
      with 1 Cons True have "length (snd (match_tail r)) \<le> length r" by blast
      also have "\<dots> < length u" using m by (rule match_name_shorter)
      finally show ?thesis using Cons True m by (subst match_tail.simps) (auto split: prod.splits)
    qed (use Cons in \<open>subst match_tail.simps, auto split: option.splits\<close>)
  qed (simp add: match_tail.simps)
qed

lemma match_placeholder_shorter:
  assumes "match_placeholder t = Some (ps, r)"
  shows "length r < length t"
proof -
  from assms obtain n q ns s where
    st: "starts_with [123, 123] t" and n: "match_name (dropWhile uspace (drop 2 t)) = Some (n, q)"
    and s: "match_tail q = (ns, s)" and r: "r = drop 2 (dropWhile uspace s)"
    by (auto simp: match_placeholder_def Let_def split: if_splits option.splits prod.splits)
  have "length r \<le> length s" unfolding r
    by (metis diff_le_self le_trans length_drop length_dropWhile_le)
  also have "\<dots> \<le> length q" using match_tail_length [of q] s by simp
  also have "\<dots> < length (dropWhile uspace (drop 2 t))" using n by (rule match_name_shorter)
  also have "\<dots> \<le> length t" by (metis diff_le_self le_trans length_drop length_dropWhile_le)
  finally show ?thesis .
qed

text \<open>\<open>pattern.sub(replace, template)\<close>: from left to right, never looking at a replacement again.\<close>

function render_auto_reply_template :: "ustr \<Rightarrow> json \<Rightarrow> ustr" where
  "render_auto_reply_template template context = (case template of
     [] \<Rightarrow> []
   | c # t \<Rightarrow>
       (case match_placeholder template of
          None \<Rightarrow> c # render_auto_reply_template t context
        | Some (path, r) \<Rightarrow> placeholder_value context path @ render_auto_reply_template r context))"
  by pat_completeness auto
termination
  by (relation "measure (\<lambda>(t, _). length t)") (auto dest: match_placeholder_shorter)

declare render_auto_reply_template.simps [simp del]

section \<open>What rendering does\<close>

text \<open>A template as its author means it: literal text and placeholders, with blanks inside the braces.\<close>

datatype segment = Literal ustr | Placeholder ustr "ustr list" ustr

definition valid_name :: "ustr \<Rightarrow> bool" where
  "valid_name n \<longleftrightarrow> n \<noteq> [] \<and> name_start (hd n) \<and> list_all name_char (tl n)"

fun valid_segment :: "segment \<Rightarrow> bool" where
  "valid_segment (Literal t) = (123 \<notin> set t)"
| "valid_segment (Placeholder a ps b) =
     (list_all uspace a \<and> list_all uspace b \<and> 2 \<le> length ps \<and> list_all valid_name ps)"

fun print_segment :: "segment \<Rightarrow> ustr" where
  "print_segment (Literal t) = t"
| "print_segment (Placeholder a ps b) = [123, 123] @ a @ join [46] ps @ b @ [125, 125]"

fun segment_value :: "json \<Rightarrow> segment \<Rightarrow> ustr" where
  "segment_value context (Literal t) = t"
| "segment_value context (Placeholder a ps b) = placeholder_value context ps"

definition no_name_next :: "ustr \<Rightarrow> bool" where
  "no_name_next r \<longleftrightarrow> (case r of [] \<Rightarrow> True | c # _ \<Rightarrow> \<not> name_char c)"

lemma dropWhile_space_append: "list_all uspace a \<Longrightarrow> dropWhile uspace (a @ t) = dropWhile uspace t"
  by (induction a) auto

lemma name_not_space: "name_start c \<Longrightarrow> \<not> uspace c"
  by (auto simp: name_start_def uspace_def)

lemma match_name_append: "valid_name n \<Longrightarrow> no_name_next r \<Longrightarrow> match_name (n @ r) = Some (n, r)"
proof (cases n)
  case (Cons c u)
  assume "valid_name n" "no_name_next r"
  with Cons have u: "\<forall>d\<in>set u. name_char d" and c: "name_start c"
    by (auto simp: valid_name_def list_all_iff)
  have "takeWhile name_char (u @ r) = u \<and> dropWhile name_char (u @ r) = r"
    using u \<open>no_name_next r\<close> by (cases r) (auto simp: no_name_next_def)
  with c Cons show ?thesis by simp
qed (simp add: valid_name_def)

lemma match_tail_append:
  "list_all valid_name ns \<Longrightarrow> no_name_next r \<Longrightarrow> r = [] \<or> hd r \<noteq> 46
   \<Longrightarrow> match_tail (concat (map (\<lambda>n. 46 # n) ns) @ r) = (ns, r)"
proof (induction ns)
  case Nil
  then show ?case by (subst match_tail.simps) (auto split: list.splits)
next
  case (Cons n ns)
  have "no_name_next (concat (map (\<lambda>n. 46 # n) ns) @ r)"
    using Cons.prems(2) by (cases ns) (auto simp: no_name_next_def name_char_def name_start_def)
  then have "match_name (n @ concat (map (\<lambda>n. 46 # n) ns) @ r) = Some (n, concat (map (\<lambda>n. 46 # n) ns) @ r)"
    using Cons.prems(1) by (intro match_name_append) simp_all
  with Cons show ?case by (subst match_tail.simps) simp
qed

lemma join_dots: "ns \<noteq> [] \<Longrightarrow> join [46] ns = hd ns @ concat (map (\<lambda>n. 46 # n) (tl ns))"
proof (induction ns)
  case (Cons n ns)
  then show ?case by (cases ns) auto
qed simp

lemma after_path:
  assumes "list_all uspace b"
  shows "no_name_next (b @ 125 # t)" "hd (b @ 125 # t) \<noteq> 46"
  using assms by (cases b; auto simp: no_name_next_def name_char_def name_start_def uspace_def)+

lemma match_placeholder_print:
  assumes "valid_segment (Placeholder a ps b)"
  shows "match_placeholder (print_segment (Placeholder a ps b) @ t) = Some (ps, t)"
proof -
  obtain n ns where ps: "ps = n # ns" and ns: "ns \<noteq> []" using assms by (cases ps; cases "tl ps") auto
  let ?r = "b @ [125, 125] @ t"
  let ?q = "concat (map (\<lambda>n. 46 # n) ns) @ ?r"
  have a: "list_all uspace a" and b: "list_all uspace b" and n: "valid_name n" and vs: "list_all valid_name ns"
    using assms ps by auto
  have "no_name_next ?q" using ns by (cases ns) (auto simp: no_name_next_def name_char_def name_start_def)
  with n have m: "match_name (n @ ?q) = Some (n, ?q)" by (rule match_name_append)
  have "match_tail ?q = (ns, ?r)" using after_path [OF b] vs by (intro match_tail_append) simp_all
  moreover have "dropWhile uspace (drop 2 (print_segment (Placeholder a ps b) @ t)) = n @ ?q"
    using n by (cases n) (auto simp: ps join_dots dropWhile_space_append [OF a] valid_name_def name_not_space)
  moreover have "dropWhile uspace ?r = [125, 125] @ t"
    by (simp add: dropWhile_space_append [OF b] uspace_def)
  ultimately show ?thesis using m ns
    by (simp add: match_placeholder_def Let_def ps del: dropWhile.simps)
qed

lemma render_literal:
  "123 \<notin> set l \<Longrightarrow> render_auto_reply_template (l @ t) context = l @ render_auto_reply_template t context"
proof (induction l)
  case (Cons c l)
  then have "match_placeholder (c # l @ t) = None" by (simp add: match_placeholder_def)
  with Cons show ?case by (subst append_Cons, subst render_auto_reply_template.simps) simp
qed simp

text \<open>C31. Rendering a template replaces each placeholder by the value at its path and copies the rest:
  for every sequence of literal texts and placeholders the rendering of the printed template
  is the concatenation of the literals and values, so an inserted value is never expanded
  again, whatever it contains.\<close>

theorem render_replaces_placeholders:
  assumes "list_all valid_segment segs"
  shows "render_auto_reply_template (concat (map print_segment segs)) context
       = concat (map (segment_value context) segs)"
  using assms
proof (induction segs)
  case Nil
  show ?case by (subst render_auto_reply_template.simps) simp
next
  case (Cons s segs)
  let ?t = "concat (map print_segment segs)"
  show ?case
  proof (cases s)
    case (Literal l)
    with Cons show ?thesis by (simp add: render_literal)
  next
    case (Placeholder a ps b)
    with Cons.prems have "match_placeholder (print_segment s @ ?t) = Some (ps, ?t)"
      using match_placeholder_print by simp
    with Cons Placeholder show ?thesis
      by (subst render_auto_reply_template.simps) simp
  qed
qed

theorem render_replaces_placeholders_witness:
  "render_auto_reply_template (asc ''Hi {{ sender.name }}!'')
     (JObj [(asc ''sender'', JObj [(asc ''name'', JStr (asc ''{{a.b}}''))])]) = asc ''Hi {{a.b}}!''"
proof -
  let ?segs = "[Literal (asc ''Hi ''), Placeholder [32] [asc ''sender'', asc ''name''] [32], Literal (asc ''!'')]"
  let ?ctx = "JObj [(asc ''sender'', JObj [(asc ''name'', JStr (asc ''{{a.b}}''))])]"
  have v: "list_all valid_segment ?segs" by code_simp
  have "asc ''Hi {{ sender.name }}!'' = concat (map print_segment ?segs)" by code_simp
  moreover have "concat (map (segment_value ?ctx) ?segs) = asc ''Hi {{a.b}}!''" by code_simp
  ultimately show ?thesis using render_replaces_placeholders [OF v, of ?ctx] by simp
qed

section \<open>What is handed to a language model\<close>

lemma lookup_path_append:
  "lookup_path (p @ r) v = (case lookup_path p v of None \<Rightarrow> None | Some w \<Rightarrow> lookup_path r w)"
  by (induction p v rule: lookup_path.induct) (auto split: option.splits)

lemma map_of_dict_set [simp]: "map_of (dict_set k v kvs) q = (if q = k then Some v else map_of kvs q)"
  by (induction kvs) auto

lemma lookup_put_path_only:
  assumes "lookup_path q (JObj (put_path p w sel)) = Some v" and "\<not> is_obj v" and "p \<noteq> []"
  shows "(\<exists>r. q = p @ r \<and> lookup_path r w = Some v) \<or> lookup_path q (JObj sel) = Some v"
  using assms
proof (induction p w sel arbitrary: q rule: put_path.induct)
  case (2 p w sel)
  then show ?case by (cases q) (auto split: if_splits)
next
  case (3 p p' ps w sel)
  let ?child = "case map_of sel p of Some (JObj kvs) \<Rightarrow> kvs | _ \<Rightarrow> []"
  obtain q0 qs where q: "q = q0 # qs" using 3 by (cases q) auto
  show ?case
  proof (cases "q0 = p")
    case True
    with 3 q have "lookup_path qs (JObj (put_path (p' # ps) w ?child)) = Some v" by simp
    then have "(\<exists>r. qs = (p' # ps) @ r \<and> lookup_path r w = Some v) \<or> lookup_path qs (JObj ?child) = Some v"
      using "3.IH" "3.prems" by blast
    moreover have "lookup_path q (JObj sel) = Some v" if l: "lookup_path qs (JObj ?child) = Some v"
    proof -
      have "qs \<noteq> []" using l "3.prems"(2) by auto
      with l True q show ?thesis by (cases qs) (auto split: option.splits json.splits)
    qed
    ultimately show ?thesis using q True by auto
  qed (use 3 q in simp)
qed simp

lemma lookup_put_path_new: "p \<noteq> [] \<Longrightarrow> lookup_path (p @ r) (JObj (put_path p w sel)) = lookup_path r w"
  by (induction p w sel rule: put_path.induct) (auto simp: Let_def)

lemma lookup_put_path_other:
  assumes "lookup_path q (JObj sel) = Some v" and "\<not> is_obj v" and "p \<noteq> []"
    and "\<nexists>r. q = p @ r" and "\<nexists>r. p = q @ r"
  shows "lookup_path q (JObj (put_path p w sel)) = Some v"
  using assms
proof (induction p w sel arbitrary: q rule: put_path.induct)
  case (2 p w sel)
  then show ?case by (cases q) auto
next
  case (3 p p' ps w sel)
  obtain q0 qs where q: "q = q0 # qs" using 3 by (cases q) auto
  show ?case
  proof (cases "q0 = p")
    case True
    with 3 q have "qs \<noteq> []" by auto
    with 3 q True obtain kvs where k: "map_of sel p = Some (JObj kvs)" "lookup_path qs (JObj kvs) = Some v"
      by (cases qs) (auto split: option.splits elim: lookup_path.elims)
    have "lookup_path qs (JObj (put_path (p' # ps) w kvs)) = Some v"
      using "3.IH" [of kvs qs] k 3 q True by auto
    with k q True show ?thesis by simp
  qed (use 3 q in simp)
qed simp

text \<open>The value at a path is a leaf with a value.\<close>

definition leaf_at :: "ustr list \<Rightarrow> json \<Rightarrow> json \<Rightarrow> bool" where
  "leaf_at q ctx v \<longleftrightarrow> lookup_path q ctx = Some v \<and> \<not> is_obj v \<and> v \<noteq> JNull"

definition requested :: "ustr list \<Rightarrow> ustr list \<Rightarrow> bool" where
  "requested names q \<longleftrightarrow> (\<exists>f\<in>set names. field_parts f \<noteq> [] \<and> (\<exists>r. q = field_parts f @ r))"

lemma leaf_no_extension:
  assumes "leaf_at q ctx v" and "lookup_path (q @ r) ctx = Some w"
  shows "r = []"
proof (rule ccontr)
  assume "r \<noteq> []"
  with assms show False
    by (cases r; cases v) (auto simp: leaf_at_def lookup_path_append)
qed

lemma select_field_leaf:
  assumes inv: "\<And>q v. leaf_at q (JObj sel) v \<longleftrightarrow> leaf_at q ctx v \<and> requested names q"
  shows "leaf_at q (JObj (select_field ctx sel f)) v \<longleftrightarrow> leaf_at q ctx v \<and> requested (names @ [f]) q"
proof (cases "field_parts f = [] \<or> lookup_path (field_parts f) ctx \<in> {None, Some JNull}")
  case True
  have "\<not> (field_parts f \<noteq> [] \<and> (\<exists>r. q = field_parts f @ r))" if "leaf_at q ctx v"
    using True that by (auto simp: leaf_at_def lookup_path_append elim: lookup_path.elims)
  moreover have "select_field ctx sel f = sel"
    using True by (auto simp: select_field_def)
  ultimately show ?thesis using inv by (auto simp: requested_def)
next
  case False
  then obtain w where w: "lookup_path (field_parts f) ctx = Some w" "w \<noteq> JNull" and p: "field_parts f \<noteq> []"
    by auto
  then have sf: "select_field ctx sel f = put_path (field_parts f) w sel"
    by (auto simp: select_field_def split: json.splits)
  have new: "lookup_path r w = lookup_path (field_parts f @ r) ctx" for r
    using w by (simp add: lookup_path_append)
  show ?thesis
  proof (cases "\<exists>r. q = field_parts f @ r")
    case True
    then obtain r where q: "q = field_parts f @ r" by blast
    then have "leaf_at q (JObj (put_path (field_parts f) w sel)) v \<longleftrightarrow> leaf_at q ctx v"
      using lookup_put_path_new [OF p] new by (simp add: leaf_at_def)
    moreover have "requested (names @ [f]) q" using q p by (auto simp: requested_def)
    ultimately show ?thesis unfolding sf by blast
  next
    case no: False
    then have rq: "requested (names @ [f]) q = requested names q" by (auto simp: requested_def)
    show ?thesis unfolding sf rq inv [symmetric]
    proof
      assume "leaf_at q (JObj (put_path (field_parts f) w sel)) v"
      then show "leaf_at q (JObj sel) v"
        using lookup_put_path_only [of q "field_parts f" w sel v] p no by (auto simp: leaf_at_def)
    next
      assume l: "leaf_at q (JObj sel) v"
      then have "leaf_at q ctx v" using inv by blast
      then have "\<nexists>r. field_parts f = q @ r"
        using leaf_no_extension w(1) no by (metis append_Nil2)
      with l no p show "leaf_at q (JObj (put_path (field_parts f) w sel)) v"
        using lookup_put_path_other [of q sel v "field_parts f" w] by (auto simp: leaf_at_def)
    qed
  qed
qed

text \<open>The context given to a language model holds exactly the requested fields: a value is found
  at a path of the selection if and only if the full context has it there and one of the
  requested fields names the path or an object around it.\<close>

theorem selected_context_exact:
  "leaf_at q (select_auto_reply_context context names) v \<longleftrightarrow> leaf_at q context v \<and> requested names q"
proof (induction names arbitrary: q v rule: rev_induct)
  case Nil
  show ?case by (cases q) (auto simp: leaf_at_def requested_def select_auto_reply_context_def)
next
  case (snoc f names)
  then show ?case
    using select_field_leaf [of "foldl (select_field context) [] names" "context" names q f v]
    by (simp add: select_auto_reply_context_def)
qed

end
