(* ===== verification/AutoReply.thy ===== *)
theory AutoReply
  imports AutoReplyRules ReplyTemplates
begin

text \<open>
  Automatic replies: the decision (\<open>_decide_auto_reply_sync\<close>, \<open>_decide_user_auto_reply\<close>), its preview,
  the claim of an execution and its log, the last check before sending (\<open>store.py\<close>), and the
  handler of an incoming message up to the call that sends the reply (\<open>_handle_auto_reply\<close> of
  \<open>runtime.py\<close>). The language model and the decryption of its key are arguments.
\<close>

section \<open>Tables\<close>

record reply_setting =
  se_account_id :: string
  se_enabled :: bool
  se_default_reply_enabled :: bool
  se_default_reply_text :: ustr
  se_cooldown_seconds :: int
  se_match_strategy :: string
  se_allowlist_conversation_ids :: json
  se_blocklist_conversation_ids :: json
  se_ai_enabled :: bool
  se_ai_base_url :: "ustr option"
  se_ai_api_key :: "ustr option"
  se_ai_model :: "ustr option"
  se_ai_system_prompt :: "ustr option"
  se_ai_context_messages :: int
  se_created_at :: timestamp
  se_updated_at :: timestamp

definition setting_defaults :: "string \<Rightarrow> timestamp \<Rightarrow> reply_setting" where
  "setting_defaults account_id now = \<lparr>se_account_id = account_id, se_enabled = False,
     se_default_reply_enabled = False, se_default_reply_text = [], se_cooldown_seconds = 0,
     se_match_strategy = ''priority_first'', se_allowlist_conversation_ids = JNull,
     se_blocklist_conversation_ids = JNull, se_ai_enabled = False, se_ai_base_url = None,
     se_ai_api_key = None, se_ai_model = None, se_ai_system_prompt = None,
     se_ai_context_messages = 10, se_created_at = now, se_updated_at = now\<rparr>"

record reply_log =
  lg_log_id :: string
  lg_user_id :: "string option"
  lg_account_id :: string
  lg_conversation_id :: ustr
  lg_inbound_message_pk :: "string option"
  lg_outbound_message_pk :: "string option"
  lg_rule_id :: "string option"
  lg_matched_keyword :: "ustr option"
  lg_reply_text :: ustr
  lg_success :: bool
  lg_error :: "ustr option"
  lg_created_at :: timestamp

record ai_provider =
  ai_base_url :: "ustr option"
  ai_model :: "ustr option"
  ai_api_key_encrypted :: "ustr option"

record reply_tables =
  rt_accounts :: "account_row list"
  rt_settings :: "reply_setting list"
  rt_conversations :: "conversation_row list"
  rt_orders :: "order_row list"
  rt_messages :: "message_row list"
  rt_account_rules :: "reply_rule list"
  rt_user_rules :: "reply_rule list"
  rt_logs :: "reply_log list"
  rt_provider :: "ai_provider option"

definition get_or_create_auto_reply_setting :: "timestamp \<Rightarrow> string \<Rightarrow> reply_tables \<Rightarrow> reply_tables \<times> reply_setting" where
  "get_or_create_auto_reply_setting now account_id db =
     (case get_row se_account_id (rt_settings db) account_id of
        Some row \<Rightarrow> (db, row)
      | None \<Rightarrow> let row = setting_defaults account_id now
                in (db\<lparr>rt_settings := rt_settings db @ [row]\<rparr>, row))"

section \<open>Decision\<close>

datatype decision_reason = EmptyMessage | AccountNotFound | AutoReplyDisabled | ConversationBlocked
  | ConversationNotAllowed | ManualTakeover | CooldownActive | NoRuleMatched | RuleSkipped
  | ByAi | ByTemplate | DefaultReply

record decision =
  dc_should_reply :: bool
  dc_rule_id :: "string option"
  dc_matched_keyword :: "ustr option"
  dc_reply_text :: "ustr option"
  dc_reason :: "decision_reason option"

definition no_reply :: "decision_reason \<Rightarrow> decision" where
  "no_reply reason = \<lparr>dc_should_reply = False, dc_rule_id = None, dc_matched_keyword = None,
     dc_reply_text = None, dc_reason = Some reason\<rparr>"

definition auto_reply_in_cooldown :: "timestamp \<Rightarrow> reply_log list \<Rightarrow> string \<Rightarrow> ustr option \<Rightarrow> int \<Rightarrow> bool" where
  "auto_reply_in_cooldown now logs account_id conversation_id cooldown_seconds \<longleftrightarrow>
     0 < cooldown_seconds \<and> utruthy conversation_id
     \<and> list_ex (\<lambda>l. lg_account_id l = account_id \<and> Some (lg_conversation_id l) = conversation_id
          \<and> lg_success l \<and> now - seconds cooldown_seconds \<le> lg_created_at l) logs"

text \<open>The conversation, when there is an identifier, and whether a human has taken it over.\<close>

definition conversation_of :: "string \<Rightarrow> ustr option \<Rightarrow> conversation_row list \<Rightarrow> conversation_row option" where
  "conversation_of account_id conversation_id rows =
     (if utruthy conversation_id then find_conversation account_id (the conversation_id) rows else None)"

definition taken_over :: "timestamp \<Rightarrow> conversation_row option \<Rightarrow> bool" where
  "taken_over now conv = (case conv of None \<Rightarrow> False | Some c \<Rightarrow> manual_takeover_active now c)"

definition max_list :: "int list \<Rightarrow> int" where
  "max_list xs = fold max xs 0"

definition message_scope_of :: "account_row \<Rightarrow> json \<Rightarrow> string \<Rightarrow> ustr option \<Rightarrow> ustr option \<Rightarrow> message_scope" where
  "message_scope_of account ctx message_type conversation_id item_id = \<lparr>
     ms_account_id = ac_account_id account, ms_platform = ac_platform account,
     ms_message_type = message_type,
     ms_sender_user_id = Some (str_of (jget ''id'' (jget ''sender'' ctx))),
     ms_conversation_id = conversation_id, ms_item_id = item_id\<rparr>"

definition render_rules :: "json \<Rightarrow> reply_rule list \<Rightarrow> ustr" where
  "render_rules ctx rules = ustrip (join [10] (map (\<lambda>r. render_auto_reply_template (ru_reply_text r) ctx) rules))"

text \<open>The keywords of the rules that have one, \<open>",".join\<close>.\<close>

definition keywords_of :: "reply_rule list \<Rightarrow> ustr option" where
  "keywords_of rules = Some (join [44] (filter (\<lambda>k. k \<noteq> []) (map ru_keyword rules)))"

definition decide_user_auto_reply ::
  "(ustr \<Rightarrow> ustr) \<Rightarrow> (timestamp \<Rightarrow> ustr) \<Rightarrow> timestamp \<Rightarrow> account_row \<Rightarrow> ustr \<Rightarrow> ustr option \<Rightarrow> ustr option \<Rightarrow> inbound
   \<Rightarrow> reply_tables \<Rightarrow> decision" where
  "decide_user_auto_reply low isoformat now account content conversation_id item_id inb db =
     (let account_id = ac_account_id account;
          conv = conversation_of account_id conversation_id (rt_conversations db) in
      if taken_over now conv then no_reply ManualTakeover
      else let ctx = build_auto_reply_context isoformat now account conv
                 (latest_auto_reply_order account_id conversation_id item_id (rt_orders db)) inb content item_id;
               m = message_scope_of account ctx (str_or (in_message_type inb) ''text'') conversation_id item_id
           in (case choose_rules low m content (the (ac_automation_owner_user_id account)) (rt_user_rules db) of
                 [] \<Rightarrow> no_reply NoRuleMatched
               | first # rest \<Rightarrow>
                   if ru_action_type first = ''skip'' then no_reply RuleSkipped
                   else if auto_reply_in_cooldown now (rt_logs db) account_id conversation_id
                       (max_list (map ru_cooldown_seconds (first # rest)))
                   then no_reply CooldownActive
                   else if ru_action_type first = ''ai''
                   then \<lparr>dc_should_reply = True, dc_rule_id = Some (ru_rule_id first),
                          dc_matched_keyword = keywords_of (first # rest), dc_reply_text = None,
                          dc_reason = Some ByAi\<rparr>
                   else let reply_text = render_rules ctx (first # rest) in
                        \<lparr>dc_should_reply = (reply_text \<noteq> []), dc_rule_id = Some (ru_rule_id first),
                          dc_matched_keyword = keywords_of (first # rest),
                          dc_reply_text = u_none reply_text, dc_reason = Some ByTemplate\<rparr>))"

definition account_rules :: "string \<Rightarrow> string \<Rightarrow> reply_rule list \<Rightarrow> reply_rule list" where
  "account_rules account_id strategy rules =
     (let ordered = sort_key (\<lambda>r. (ru_priority r, ru_created_at r))
            (filter (\<lambda>r. ru_owner_id r = account_id \<and> ru_enabled r) rules)
      in if strategy = ''first_created'' then sort_key ru_created_at ordered else ordered)"

definition decide_by_rules ::
  "timestamp \<Rightarrow> string \<Rightarrow> ustr option \<Rightarrow> reply_setting \<Rightarrow> reply_log list \<Rightarrow> reply_rule list \<Rightarrow> decision" where
  "decide_by_rules now account_id conversation_id setting logs matched =
     (let selected = (if se_match_strategy setting = ''all_join'' then matched else take 1 matched) in
      if auto_reply_in_cooldown now logs account_id conversation_id
           (max_list (se_cooldown_seconds setting # map ru_cooldown_seconds selected))
      then no_reply CooldownActive
      else \<lparr>dc_should_reply = True, dc_rule_id = Some (ru_rule_id (hd selected)),
            dc_matched_keyword = Some (join [44] (map ru_keyword selected)),
            dc_reply_text = Some (join [10] (map ru_reply_text selected)), dc_reason = None\<rparr>)"

definition decide_without_rules ::
  "timestamp \<Rightarrow> string \<Rightarrow> ustr option \<Rightarrow> reply_setting \<Rightarrow> reply_log list \<Rightarrow> decision" where
  "decide_without_rules now account_id conversation_id setting logs =
     (let cooling = auto_reply_in_cooldown now logs account_id conversation_id (se_cooldown_seconds setting) in
      if se_ai_enabled setting \<and> utruthy (se_ai_base_url setting) \<and> utruthy (se_ai_api_key setting)
         \<and> utruthy (se_ai_model setting)
      then if cooling then no_reply CooldownActive
           else \<lparr>dc_should_reply = True, dc_rule_id = None, dc_matched_keyword = None,
                  dc_reply_text = None, dc_reason = Some ByAi\<rparr>
      else if se_default_reply_enabled setting \<and> ustrip (se_default_reply_text setting) \<noteq> []
      then if cooling then no_reply CooldownActive
           else \<lparr>dc_should_reply = True, dc_rule_id = None, dc_matched_keyword = None,
                  dc_reply_text = Some (se_default_reply_text setting), dc_reason = Some DefaultReply\<rparr>
      else no_reply NoRuleMatched)"

definition decide_account_auto_reply ::
  "(ustr \<Rightarrow> ustr) \<Rightarrow> timestamp \<Rightarrow> string \<Rightarrow> ustr \<Rightarrow> ustr option \<Rightarrow> ustr option \<Rightarrow> reply_setting \<Rightarrow> reply_tables
   \<Rightarrow> decision" where
  "decide_account_auto_reply low now account_id content conversation_id item_id setting db =
     (let allowlist = load_string_list (se_allowlist_conversation_ids setting);
          blocklist = load_string_list (se_blocklist_conversation_ids setting) in
      if utruthy conversation_id \<and> the conversation_id \<in> set blocklist then no_reply ConversationBlocked
      else if allowlist \<noteq> [] \<and> (\<not> utruthy conversation_id \<or> the conversation_id \<notin> set allowlist)
      then no_reply ConversationNotAllowed
      else if taken_over now (conversation_of account_id conversation_id (rt_conversations db))
      then no_reply ManualTakeover
      else let matched = filter (\<lambda>r. auto_reply_rule_scope_matches r conversation_id item_id
                 \<and> auto_reply_rule_matches low r content)
               (account_rules account_id (se_match_strategy setting) (rt_account_rules db))
           in if matched \<noteq> [] then decide_by_rules now account_id conversation_id setting (rt_logs db) matched
              else decide_without_rules now account_id conversation_id setting (rt_logs db))"

definition decide_auto_reply ::
  "(ustr \<Rightarrow> ustr) \<Rightarrow> (timestamp \<Rightarrow> ustr) \<Rightarrow> timestamp \<Rightarrow> string \<Rightarrow> ustr \<Rightarrow> ustr option \<Rightarrow> ustr option \<Rightarrow> inbound
   \<Rightarrow> reply_tables \<Rightarrow> reply_tables \<times> decision" where
  "decide_auto_reply low isoformat now account_id content conversation_id item_id inb db =
     (if ustrip content = [] then (db, no_reply EmptyMessage)
      else case get_row ac_account_id (rt_accounts db) account_id of
             None \<Rightarrow> (db, no_reply AccountNotFound)
           | Some account \<Rightarrow>
               let (db, setting) = get_or_create_auto_reply_setting now account_id db in
               if \<not> se_enabled setting then (db, no_reply AutoReplyDisabled)
               else if truthy (ac_automation_owner_user_id account)
               then (db, decide_user_auto_reply low isoformat now account content conversation_id item_id inb db)
               else (db, decide_account_auto_reply low now account_id content conversation_id item_id setting db))"

section \<open>Executions and their log\<close>

definition find_log :: "string \<Rightarrow> string \<Rightarrow> reply_log list \<Rightarrow> reply_log option" where
  "find_log account_id pk logs =
     find (\<lambda>l. lg_account_id l = account_id \<and> lg_inbound_message_pk l = Some pk) logs"

text \<open>The primary key and the unique index on account and incoming message, at the commit of a new row.\<close>

definition log_insertable :: "reply_log \<Rightarrow> reply_log list \<Rightarrow> bool" where
  "log_insertable l logs \<longleftrightarrow> get_row lg_log_id logs (lg_log_id l) = None
     \<and> (case lg_inbound_message_pk l of None \<Rightarrow> True | Some pk \<Rightarrow> find_log (lg_account_id l) pk logs = None)"

definition record_auto_reply_log :: "reply_log \<Rightarrow> reply_tables \<Rightarrow> (unit + reply_tables) \<times> reply_log option" where
  "record_auto_reply_log l db =
     (case get_row ac_account_id (rt_accounts db) (lg_account_id l) of
        None \<Rightarrow> (Inr db, None)
      | Some account \<Rightarrow>
          (case (if truthy (lg_inbound_message_pk l)
                 then find_log (lg_account_id l) (the (lg_inbound_message_pk l)) (rt_logs db) else None) of
             Some existing \<Rightarrow> (Inr db, Some existing)
           | None \<Rightarrow> let row = l\<lparr>lg_user_id := ac_automation_owner_user_id account\<rparr> in
               if log_insertable row (rt_logs db)
               then (Inr (db\<lparr>rt_logs := rt_logs db @ [row]\<rparr>), Some row) else (Inl (), None)))"

record claim_request =
  cr_account_id :: string
  cr_conversation_id :: ustr
  cr_inbound_message_pk :: "string option"
  cr_rule_id :: "string option"
  cr_matched_keyword :: "ustr option"
  cr_reply_text :: ustr

definition processing_log :: "timestamp \<Rightarrow> string \<Rightarrow> account_row \<Rightarrow> claim_request \<Rightarrow> reply_log" where
  "processing_log now log_id account r = \<lparr>lg_log_id = log_id, lg_user_id = ac_automation_owner_user_id account,
     lg_account_id = cr_account_id r, lg_conversation_id = cr_conversation_id r,
     lg_inbound_message_pk = cr_inbound_message_pk r, lg_outbound_message_pk = None,
     lg_rule_id = cr_rule_id r, lg_matched_keyword = cr_matched_keyword r, lg_reply_text = cr_reply_text r,
     lg_success = False, lg_error = Some (asc ''processing''), lg_created_at = now\<rparr>"

definition claim_auto_reply_execution ::
  "timestamp \<Rightarrow> string \<Rightarrow> claim_request \<Rightarrow> reply_tables \<Rightarrow> reply_tables \<times> string option" where
  "claim_auto_reply_execution now log_id r db =
     (case (get_row ac_account_id (rt_accounts db) (cr_account_id r),
            get_row se_account_id (rt_settings db) (cr_account_id r)) of
        (Some account, Some setting) \<Rightarrow>
          if \<not> se_enabled setting then (db, None)
          else if taken_over now (find_conversation (cr_account_id r) (cr_conversation_id r) (rt_conversations db))
          then (db, None)
          else if truthy (cr_inbound_message_pk r)
            \<and> find_log (cr_account_id r) (the (cr_inbound_message_pk r)) (rt_logs db) \<noteq> None
          then (db, None)
          else let row = processing_log now log_id account r in
            if log_insertable row (rt_logs db)
            then (db\<lparr>rt_logs := rt_logs db @ [row]\<rparr>, Some log_id) else (db, None)
      | _ \<Rightarrow> (db, None))"

definition finish_auto_reply_execution ::
  "string \<Rightarrow> ustr \<Rightarrow> bool \<Rightarrow> string option \<Rightarrow> ustr option \<Rightarrow> reply_tables \<Rightarrow> reply_tables \<times> reply_log option" where
  "finish_auto_reply_execution log_id reply_text success outbound err db =
     (case get_row lg_log_id (rt_logs db) log_id of
        None \<Rightarrow> (db, None)
      | Some l \<Rightarrow> let row = l\<lparr>lg_reply_text := reply_text, lg_success := success,
                     lg_outbound_message_pk := outbound, lg_error := err\<rparr>
          in (db\<lparr>rt_logs := put_row lg_log_id row (rt_logs db)\<rparr>, Some row))"

definition auto_reply_send_allowed :: "timestamp \<Rightarrow> string \<Rightarrow> ustr \<Rightarrow> string option \<Rightarrow> reply_tables \<Rightarrow> bool" where
  "auto_reply_send_allowed now account_id conversation_id inbound_pk db =
     (case (get_row ac_account_id (rt_accounts db) account_id, get_row se_account_id (rt_settings db) account_id) of
        (Some account, Some setting) \<Rightarrow>
          if \<not> ac_enabled account \<or> \<not> se_enabled setting then False
          else if taken_over now (find_conversation account_id conversation_id (rt_conversations db)) then False
          else if \<not> truthy inbound_pk then True
          else (case get_row mg_message_pk (rt_messages db) (the inbound_pk) of
                  None \<Rightarrow> False
                | Some inb \<Rightarrow> \<not> list_ex (\<lambda>m. mg_account_id m = account_id \<and> mg_conversation_id m = conversation_id
                    \<and> mg_direction m = ''outbound'' \<and> mg_created_at_ms inb < mg_created_at_ms m) (rt_messages db))
      | _ \<Rightarrow> False)"

section \<open>The request to the language model\<close>

definition DEFAULT_AUTO_REPLY_CONTEXT_FIELDS :: "ustr list" where
  "DEFAULT_AUTO_REPLY_CONTEXT_FIELDS = map asc [''account.name'', ''sender.id'', ''sender.name'', ''message.text'',
     ''message.time'', ''item.id'', ''item.title'', ''item.price'', ''order.id'', ''order.status'', ''order.price'',
     ''conversation.id'']"

definition context_fields_of :: "reply_rule \<Rightarrow> ustr list" where
  "context_fields_of rule = (let names = load_string_list (ru_context_fields rule)
     in if names = [] then DEFAULT_AUTO_REPLY_CONTEXT_FIELDS else names)"

record ai_request =
  rq_base_url :: ustr
  rq_api_key :: ustr
  rq_model :: ustr
  rq_instructions :: ustr
  rq_context :: json
  rq_messages :: "json list"
  rq_temperature :: ustr

text \<open>The system prompt of a rule without one. The request keeps the instructions and the selected
  context apart; the code appends the dump of the context to the instructions.\<close>

definition DEFAULT_PROMPT :: ustr where
  "DEFAULT_PROMPT = [0x4F60, 0x662F, 0x95F2, 0x9C7C, 0x5356, 0x5BB6, 0x7684, 0x5BA2, 0x670D, 0x52A9, 0x624B,
     0xFF0C, 0x8BF7, 0x7B80, 0x6D01, 0x3001, 0x51C6, 0x786E, 0x5730, 0x56DE, 0x590D, 0x4E70, 0x5BB6, 0x3002]"

definition chat_message :: "bool \<Rightarrow> message_row \<Rightarrow> json list" where
  "chat_message include_images row =
     (let text_content = ustrip (mg_content row);
          urls = take 3 (map (the \<circ> snd) (filter (\<lambda>(t, u). utruthy u \<and> t = ''image'') (mg_attachments row)));
          role = (asc ''role'', JStr (asc (if mg_direction row = ''outbound'' then ''assistant'' else ''user''))) in
      if include_images \<and> urls \<noteq> []
      then [JObj [role, (asc ''content'', JList (
              (if text_content \<noteq> [] then [JObj [(asc ''type'', JStr (asc ''text'')), (asc ''text'', JStr text_content)]] else [])
              @ map (\<lambda>u. JObj [(asc ''type'', JStr (asc ''image_url'')),
                               (asc ''image_url'', JObj [(asc ''url'', JStr u)])]) urls))]]
      else if text_content \<noteq> [] then [JObj [role, (asc ''content'', JStr text_content)]]
      else [])"

text \<open>The last messages of the conversation, the newest first.\<close>

definition recent_messages :: "string \<Rightarrow> ustr \<Rightarrow> int \<Rightarrow> message_row list \<Rightarrow> message_row list" where
  "recent_messages account_id conversation_id n rows =
     take (nat n) (rev (sort_key (\<lambda>m. (mg_created_at_ms m, mg_message_pk m))
       (filter (\<lambda>m. mg_account_id m = account_id \<and> mg_conversation_id m = conversation_id) rows)))"

definition inbound_of_row :: "message_row \<Rightarrow> inbound" where
  "inbound_of_row m = \<lparr>in_message_pk = Some (mg_message_pk m), in_direction = Some (mg_direction m),
     in_conversation_id = Some (mg_conversation_id m), in_peer_user_id = mg_peer_user_id m,
     in_peer_name = mg_peer_name m, in_message_id = mg_message_id m,
     in_message_type = Some (mg_message_type m), in_content = Some (mg_content m), in_item_id = mg_item_id m,
     in_remote_urls = map snd (mg_attachments m), in_created_at = Some (mg_created_at m)\<rparr>"

definition ai_rule_of :: "account_row \<Rightarrow> string option \<Rightarrow> reply_tables \<Rightarrow> reply_rule option" where
  "ai_rule_of account rule_id db =
     (if \<not> truthy rule_id then None
      else let owner = (if truthy (ac_automation_owner_user_id account)
                        then the (ac_automation_owner_user_id account) else ac_account_id account);
               rules = (if truthy (ac_automation_owner_user_id account) then rt_user_rules db else rt_account_rules db)
           in (case get_row ru_rule_id rules (the rule_id) of
                 None \<Rightarrow> None
               | Some r \<Rightarrow> if ru_owner_id r = owner \<and> ru_action_type r = ''ai'' then Some r else None))"

text \<open>The provider with its decrypted key, when the configuration is complete.\<close>

definition ready_provider :: "(ustr option \<Rightarrow> ustr option) \<Rightarrow> reply_tables \<Rightarrow> (ustr \<times> ustr \<times> ustr) option" where
  "ready_provider decrypt db = (case rt_provider db of
     None \<Rightarrow> None
   | Some p \<Rightarrow> let key = decrypt (ai_api_key_encrypted p) in
       if utruthy (ai_base_url p) \<and> utruthy (ai_model p) \<and> utruthy key
       then Some (the (ai_base_url p), the key, the (ai_model p)) else None)"

definition ai_request_of ::
  "(timestamp \<Rightarrow> ustr) \<Rightarrow> timestamp \<Rightarrow> account_row \<Rightarrow> ustr \<Rightarrow> reply_rule \<Rightarrow> ustr \<times> ustr \<times> ustr \<Rightarrow> reply_tables \<Rightarrow> ai_request" where
  "ai_request_of isoformat now account conversation_id rule provider db =
     (let account_id = ac_account_id account;
          count = max 1 (min (if ru_context_message_count rule = 0 then 10 else ru_context_message_count rule) 50);
          names = context_fields_of rule;
          rows = recent_messages account_id conversation_id count (rt_messages db);
          include_images = (asc ''message.image_urls'' \<in> set names);
          inb = (case rows of [] \<Rightarrow> no_inbound | m # _ \<Rightarrow> inbound_of_row m);
          item = in_item_id inb;
          ctx = build_auto_reply_context isoformat now account
                  (find_conversation account_id conversation_id (rt_conversations db))
                  (latest_auto_reply_order account_id (Some conversation_id) item (rt_orders db))
                  inb (u_text (in_content inb)) item;
          prompt = render_auto_reply_template (u_text (ru_ai_system_prompt rule)) ctx
      in \<lparr>rq_base_url = fst provider, rq_api_key = fst (snd provider), rq_model = snd (snd provider),
           rq_instructions = (if prompt = [] then DEFAULT_PROMPT else prompt),
           rq_context = select_auto_reply_context ctx names,
           rq_messages = concat (map (chat_message include_images) (rev rows)),
           rq_temperature = ru_ai_temperature rule\<rparr>)"

definition get_ai_reply_request ::
  "(ustr option \<Rightarrow> ustr option) \<Rightarrow> (timestamp \<Rightarrow> ustr) \<Rightarrow> timestamp \<Rightarrow> string \<Rightarrow> ustr \<Rightarrow> string option \<Rightarrow> reply_tables
   \<Rightarrow> ai_request option" where
  "get_ai_reply_request decrypt isoformat now account_id conversation_id rule_id db =
     (case get_row ac_account_id (rt_accounts db) account_id of
        None \<Rightarrow> None
      | Some account \<Rightarrow>
          if taken_over now (find_conversation account_id conversation_id (rt_conversations db)) then None
          else (case (get_row se_account_id (rt_settings db) account_id, ready_provider decrypt db,
                      ai_rule_of account rule_id db) of
                  (Some setting, Some provider, Some rule) \<Rightarrow>
                    if se_enabled setting then Some (ai_request_of isoformat now account conversation_id rule provider db)
                    else None
                | _ \<Rightarrow> None))"

section \<open>Handling an incoming message\<close>

text \<open>
  The answer of the provider: the body of the response, or an exception with its message.
  \<open>payload["choices"][0]["message"]["content"]\<close>, or nothing when a step raises.
\<close>

type_synonym provider_call = "ai_request \<Rightarrow> ustr + json"

fun first_item :: "json \<Rightarrow> json option" where
  "first_item (JList (v # vs)) = Some v"
| "first_item v = None"

definition response_content :: "json \<Rightarrow> json option" where
  "response_content payload = (case lookup_path [asc ''choices''] payload of
     None \<Rightarrow> None
   | Some choices \<Rightarrow> (case first_item choices of
       None \<Rightarrow> None
     | Some c \<Rightarrow> lookup_path [asc ''message'', asc ''content''] c))"

definition request_ai_reply :: "provider_call \<Rightarrow> ai_request \<Rightarrow> ustr + ustr" where
  "request_ai_reply post q = (case post q of
     Inl err \<Rightarrow> Inl err
   | Inr payload \<Rightarrow> (case response_content payload of
       None \<Rightarrow> Inl (asc ''AI provider returned an invalid response'')
     | Some content \<Rightarrow> let reply = ustrip (py_str content) in
         if reply = [] then Inl (asc ''AI provider returned an empty reply'') else Inr (take 4000 reply)))"

definition generate_ai_reply ::
  "(ustr option \<Rightarrow> ustr option) \<Rightarrow> (timestamp \<Rightarrow> ustr) \<Rightarrow> provider_call \<Rightarrow> timestamp \<Rightarrow> string \<Rightarrow> ustr \<Rightarrow> string option
   \<Rightarrow> reply_tables \<Rightarrow> ustr + ustr" where
  "generate_ai_reply decrypt isoformat post now account_id conversation_id rule_id db =
     (case get_ai_reply_request decrypt isoformat now account_id conversation_id rule_id db of
        None \<Rightarrow> Inl (asc ''AI reply configuration is incomplete'')
      | Some q \<Rightarrow> request_ai_reply post q)"

datatype reply_outcome =
    NoReply
  | ReplyFailed string
  | SendReply string ustr ustr

definition fail_execution :: "string \<Rightarrow> ustr \<Rightarrow> ustr \<Rightarrow> reply_tables \<Rightarrow> reply_tables \<times> reply_outcome" where
  "fail_execution log_id reply_text err db =
     (fst (finish_auto_reply_execution log_id reply_text False None (Some err) db), ReplyFailed log_id)"

text \<open>After the text is known: the receiver, the runtime, and the last look at the conversation.\<close>

definition deliver_reply ::
  "timestamp \<Rightarrow> bool \<Rightarrow> string \<Rightarrow> inbound \<Rightarrow> string \<Rightarrow> ustr \<Rightarrow> reply_tables \<Rightarrow> reply_tables \<times> reply_outcome" where
  "deliver_reply now running account_id inb log_id reply_text db =
     (if reply_text = [] then fail_execution log_id [] (asc ''empty reply'') db
      else if \<not> utruthy (in_peer_user_id inb)
      then fail_execution log_id reply_text (asc ''missing receiver user id'') db
      else if \<not> running then fail_execution log_id reply_text (asc ''account runtime is not running'') db
      else if \<not> auto_reply_send_allowed now account_id (u_text (in_conversation_id inb)) (in_message_pk inb) db
      then fail_execution log_id reply_text (asc ''cancelled because the conversation changed before send'') db
      else (db, SendReply log_id (the (in_peer_user_id inb)) reply_text))"

definition handle_auto_reply ::
  "(ustr \<Rightarrow> ustr) \<Rightarrow> (timestamp \<Rightarrow> ustr) \<Rightarrow> (ustr option \<Rightarrow> ustr option) \<Rightarrow> provider_call \<Rightarrow> timestamp \<Rightarrow> bool \<Rightarrow> string
   \<Rightarrow> string \<Rightarrow> inbound \<Rightarrow> reply_tables \<Rightarrow> reply_tables \<times> reply_outcome" where
  "handle_auto_reply low isoformat decrypt post now running log_id account_id inb db =
     (if in_direction inb \<noteq> Some ''inbound'' then (db, NoReply)
      else if in_message_type inb \<notin> {Some ''text'', Some ''image''} then (db, NoReply)
      else let content = (if u_text (in_content inb) = [] \<and> in_message_type inb = Some ''image''
                          then [91, 0x56FE, 0x7247, 93] else u_text (in_content inb));
               (db, d) = decide_auto_reply low isoformat now account_id content (in_conversation_id inb) (in_item_id inb) inb db
           in if \<not> dc_should_reply d then (db, NoReply)
              else let r = \<lparr>cr_account_id = account_id, cr_conversation_id = u_text (in_conversation_id inb),
                            cr_inbound_message_pk = in_message_pk inb, cr_rule_id = dc_rule_id d,
                            cr_matched_keyword = u_or (dc_matched_keyword d)
                              (if dc_reason d = Some ByAi then Some (asc ''AI'') else None),
                            cr_reply_text = u_text (dc_reply_text d)\<rparr>
                   in (case claim_auto_reply_execution now log_id r db of
                         (db, None) \<Rightarrow> (db, NoReply)
                       | (db, Some log_id) \<Rightarrow>
                           if dc_reason d = Some ByAi
                           then (case generate_ai_reply decrypt isoformat post now account_id
                                        (u_text (in_conversation_id inb)) (dc_rule_id d) db of
                                   Inl err \<Rightarrow> fail_execution log_id [] err db
                                 | Inr text \<Rightarrow> deliver_reply now running account_id inb log_id text db)
                           else deliver_reply now running account_id inb log_id (u_text (dc_reply_text d)) db))"

section \<open>Preview\<close>

record preview_request =
  pv_account_id :: string
  pv_content :: ustr
  pv_message_type :: string
  pv_sender_user_id :: "ustr option"
  pv_conversation_id :: "ustr option"
  pv_item_id :: "ustr option"

datatype gate = AccountEnabled | ReplyEnabled | NotTakenOver | ProviderReady | NotCoolingDown

datatype rule_trace = TraceDisabled | TraceMismatch scope_mismatch | TraceFallbackWaiting | TraceFallback
  | TraceMatched | TraceNotTriggered

record preview_result =
  pr_executable :: bool
  pr_should_reply :: bool
  pr_action_type :: "string option"
  pr_matched_rule_ids :: "string list"
  pr_reply_preview :: "ustr option"
  pr_ai_context :: json
  pr_gates :: "(gate \<times> bool) list"
  pr_traces :: "(string \<times> rule_trace \<times> bool) list"

definition preview_inbound :: "timestamp \<Rightarrow> preview_request \<Rightarrow> conversation_row option \<Rightarrow> inbound" where
  "preview_inbound now p conv = \<lparr>in_message_pk = None, in_direction = None,
     in_conversation_id = pv_conversation_id p, in_peer_user_id = pv_sender_user_id p,
     in_peer_name = of_conversation cv_peer_name conv, in_message_id = Some (asc ''preview''),
     in_message_type = Some (pv_message_type p), in_content = Some (pv_content p), in_item_id = pv_item_id p,
     in_remote_urls = [], in_created_at = Some now\<rparr>"

definition preview_scope :: "account_row \<Rightarrow> preview_request \<Rightarrow> message_scope" where
  "preview_scope account p = \<lparr>ms_account_id = ac_account_id account, ms_platform = ac_platform account,
     ms_message_type = pv_message_type p, ms_sender_user_id = pv_sender_user_id p,
     ms_conversation_id = pv_conversation_id p, ms_item_id = pv_item_id p\<rparr>"

text \<open>The loop over the rules: the trace of each, and the lists of matched and of fallback rules.\<close>

definition preview_trace :: "(ustr \<Rightarrow> ustr) \<Rightarrow> message_scope \<Rightarrow> ustr \<Rightarrow> reply_rule \<Rightarrow> rule_trace" where
  "preview_trace low m content rule =
     (if \<not> ru_enabled rule then TraceDisabled
      else case auto_reply_preview_scope_mismatch m rule of
             Some mis \<Rightarrow> TraceMismatch mis
           | None \<Rightarrow> if ru_trigger_type rule = ''fallback'' then TraceFallbackWaiting
                     else if auto_reply_rule_matches low rule content then TraceMatched
                     else TraceNotTriggered)"

definition preview_selection :: "(ustr \<Rightarrow> ustr) \<Rightarrow> message_scope \<Rightarrow> ustr \<Rightarrow> reply_rule list \<Rightarrow> reply_rule list" where
  "preview_selection low m content rules =
     (let matched = filter (\<lambda>r. preview_trace low m content r = TraceMatched) rules
      in selected_rules (if matched = []
           then filter (\<lambda>r. preview_trace low m content r = TraceFallbackWaiting) rules else matched))"

definition final_trace :: "(ustr \<Rightarrow> ustr) \<Rightarrow> message_scope \<Rightarrow> ustr \<Rightarrow> reply_rule list \<Rightarrow> reply_rule \<Rightarrow> rule_trace" where
  "final_trace low m content rules r =
     (if preview_trace low m content r = TraceFallbackWaiting
         \<and> filter (\<lambda>r. preview_trace low m content r = TraceMatched) rules = []
      then TraceFallback else preview_trace low m content r)"

definition provider_ready :: "ai_provider option \<Rightarrow> bool" where
  "provider_ready p = (case p of None \<Rightarrow> False
     | Some q \<Rightarrow> utruthy (ai_base_url q) \<and> utruthy (ai_model q) \<and> utruthy (ai_api_key_encrypted q))"

definition preview_user_auto_reply ::
  "(ustr \<Rightarrow> ustr) \<Rightarrow> (timestamp \<Rightarrow> ustr) \<Rightarrow> timestamp \<Rightarrow> string \<Rightarrow> preview_request \<Rightarrow> reply_tables \<Rightarrow> preview_result option" where
  "preview_user_auto_reply low isoformat now user_id p db =
     (case get_row ac_account_id (rt_accounts db) (pv_account_id p) of
        None \<Rightarrow> None
      | Some account \<Rightarrow>
          if ac_automation_owner_user_id account \<noteq> Some user_id then None
          else let account_id = ac_account_id account;
                   conv = conversation_of account_id (pv_conversation_id p) (rt_conversations db);
                   setting = get_row se_account_id (rt_settings db) account_id;
                   gates = [(AccountEnabled, ac_enabled account),
                            (ReplyEnabled, case setting of None \<Rightarrow> False | Some s \<Rightarrow> se_enabled s),
                            (NotTakenOver, \<not> taken_over now conv)];
                   ctx = build_auto_reply_context isoformat now account conv
                     (latest_auto_reply_order account_id (pv_conversation_id p) (pv_item_id p) (rt_orders db))
                     (preview_inbound now p conv) (pv_content p) (pv_item_id p);
                   m = preview_scope account p;
                   rules = ordered_user_rules user_id (rt_user_rules db);
                   sel = preview_selection low m (pv_content p) rules;
                   traces = map (\<lambda>r. (ru_rule_id r, final_trace low m (pv_content p) rules r,
                     ru_rule_id r \<in> set (map ru_rule_id sel))) rules
               in Some (case sel of
                 [] \<Rightarrow> \<lparr>pr_executable = False, pr_should_reply = False, pr_action_type = None,
                         pr_matched_rule_ids = [], pr_reply_preview = None, pr_ai_context = JObj [],
                         pr_gates = gates, pr_traces = traces\<rparr>
               | first # _ \<Rightarrow>
                   let action = ru_action_type first;
                       reply = (if action = ''template'' then u_none (render_rules ctx sel) else None);
                       wants = (if action = ''template'' then reply \<noteq> None else action \<noteq> ''skip'');
                       cooling = auto_reply_in_cooldown now (rt_logs db) account_id (pv_conversation_id p)
                         (max_list (map ru_cooldown_seconds sel));
                       gates = gates
                         @ (if action = ''ai'' then [(ProviderReady, provider_ready (rt_provider db))] else [])
                         @ [(NotCoolingDown, \<not> cooling)]
                   in \<lparr>pr_executable = (wants \<and> list_all snd gates), pr_should_reply = wants,
                        pr_action_type = Some action, pr_matched_rule_ids = map ru_rule_id sel,
                        pr_reply_preview = reply,
                        pr_ai_context = (if action = ''ai''
                          then select_auto_reply_context ctx (context_fields_of first) else JObj []),
                        pr_gates = gates, pr_traces = traces\<rparr>))"

end
