(* ===== verification/AutoReplySafety.thy ===== *)
theory AutoReplySafety
  imports AutoReply
begin

text \<open>
  Properties of automatic replies: an incoming message is answered at most once, only when
  the conversation allows it at the moment of sending; the preview agrees with the decision;
  and two defects.
\<close>

section \<open>Preview and decision\<close>

lemma no_mismatch_iff: "auto_reply_preview_scope_mismatch m rule = None \<longleftrightarrow> rule_in_scope m rule"
  by (auto simp: auto_reply_preview_scope_mismatch_def rule_in_scope_def auto_reply_rule_scope_matches_def
      cond_ok_def Let_def)

lemma preview_trace_iff:
  "preview_trace low m content r = TraceMatched \<longleftrightarrow> ru_enabled r \<and> rule_in_scope m r
     \<and> ru_trigger_type r \<noteq> ''fallback'' \<and> auto_reply_rule_matches low r content"
  "preview_trace low m content r = TraceFallbackWaiting \<longleftrightarrow> ru_enabled r \<and> rule_in_scope m r
     \<and> ru_trigger_type r = ''fallback''"
  unfolding no_mismatch_iff [symmetric] by (auto simp: preview_trace_def split: option.splits)

lemma preview_selection_choose:
  "preview_selection low m content (ordered_user_rules user_id rules) = choose_rules low m content user_id rules"
  by (simp add: preview_selection_def choose_rules_def matched_rules_def preview_trace_iff Let_def conj_assoc)

lemma context_sender:
  "jget ''id'' (jget ''sender'' (build_auto_reply_context isoformat now account conv order inb content item_id))
     = jopt (u_or (in_peer_user_id inb) (of_conversation cv_peer_user_id conv))"
  by (simp add: build_auto_reply_context_def jget_def asc_def of_char_def)

lemma preview_scope_of:
  assumes "pv_sender_user_id p = Some s" "s \<noteq> []" "pv_message_type p \<noteq> []"
  shows "message_scope_of account (build_auto_reply_context isoformat now account conv order
      (preview_inbound now p conv) content item) (str_or (in_message_type (preview_inbound now p conv)) ''text'')
      (pv_conversation_id p) (pv_item_id p) = preview_scope account p"
  using assms by (simp add: message_scope_of_def context_sender preview_scope_def preview_inbound_def
      u_or_def utruthy_def jopt_def str_of_def py_str_def)

lemma decide_owned_account:
  assumes "get_row ac_account_id (rt_accounts db) account_id = Some account"
    and "truthy (ac_automation_owner_user_id account)" and "ustrip content \<noteq> []"
    and "get_row se_account_id (rt_settings db) account_id = Some setting"
  shows "decide_auto_reply low isoformat now account_id content conv_id item inb db =
     (db, if se_enabled setting then decide_user_auto_reply low isoformat now account content conv_id item inb db
          else no_reply AutoReplyDisabled)"
  using assms by (simp add: decide_auto_reply_def get_or_create_auto_reply_setting_def)

lemma choose_rules_set: "r \<in> set (choose_rules low m content user_id rules) \<Longrightarrow> r \<in> set rules"
  using selected_rules_subset by (fastforce simp: choose_rules_def matched_rules_def Let_def split: if_splits)


section \<open>One answer per message\<close>

lemma find_log_append [simp]:
  "find_log a pk (logs @ [l]) = (case find_log a pk logs of Some x \<Rightarrow> Some x
     | None \<Rightarrow> if lg_account_id l = a \<and> lg_inbound_message_pk l = Some pk then Some l else None)"
  by (induction logs) (auto simp: find_log_def)

lemma find_log_None_iff:
  "find_log a pk logs = None \<longleftrightarrow> (\<forall>l\<in>set logs. \<not> (lg_account_id l = a \<and> lg_inbound_message_pk l = Some pk))"
  by (induction logs) (auto simp: find_log_def)

text \<open>What a claim does to the log: a new row, or nothing.\<close>

lemma claim_cases:
  assumes c: "claim_auto_reply_execution now log_id r db = (db', res)"
  shows "res = None \<and> db' = db \<or> (\<exists>account setting. res = Some log_id
     \<and> get_row ac_account_id (rt_accounts db) (cr_account_id r) = Some account
     \<and> get_row se_account_id (rt_settings db) (cr_account_id r) = Some setting
     \<and> log_insertable (processing_log now log_id account r) (rt_logs db)
     \<and> db' = db\<lparr>rt_logs := rt_logs db @ [processing_log now log_id account r]\<rparr>)"
proof (cases "get_row ac_account_id (rt_accounts db) (cr_account_id r)"; cases "get_row se_account_id (rt_settings db) (cr_account_id r)")
  fix account setting
  assume a: "get_row ac_account_id (rt_accounts db) (cr_account_id r) = Some account"
    and s: "get_row se_account_id (rt_settings db) (cr_account_id r) = Some setting"
  show ?thesis
    using c unfolding claim_auto_reply_execution_def a s Let_def option.case prod.case
    by (simp split: if_split_asm)
qed (use c in \<open>simp_all add: claim_auto_reply_execution_def\<close>)

lemma finish_logs:
  assumes "keys_distinct lg_log_id (rt_logs db)"
  shows "keys_distinct lg_log_id (rt_logs (fst (finish_auto_reply_execution log_id t ok out err db)))"
    and "find_log a pk (rt_logs (fst (finish_auto_reply_execution log_id t ok out err db))) = None
      \<longleftrightarrow> find_log a pk (rt_logs db) = None"
proof -
  let ?db = "fst (finish_auto_reply_execution log_id t ok out err db)"
  show "keys_distinct lg_log_id (rt_logs ?db)"
    using assms by (auto simp: finish_auto_reply_execution_def Let_def keys_distinct_put_row split: option.splits)
  show "find_log a pk (rt_logs ?db) = None \<longleftrightarrow> find_log a pk (rt_logs db) = None"
  proof (cases "get_row lg_log_id (rt_logs db) log_id")
    case (Some l)
    let ?l = "l\<lparr>lg_reply_text := t, lg_success := ok, lg_outbound_message_pk := out, lg_error := err\<rparr>"
    have "set_row lg_log_id (rt_logs db) log_id (\<lambda>_. ?l) = map (\<lambda>r. if r = l then ?l else r) (rt_logs db)"
      using get_row_SomeD [OF Some] keys_distinct_eq [OF assms]
      by (auto simp: set_row_update_where update_where_def)
    with Some get_row_SomeD [OF Some] have "rt_logs ?db = map (\<lambda>r. if r = l then ?l else r) (rt_logs db)"
      by (simp add: finish_auto_reply_execution_def put_row_def Let_def)
    moreover have "lg_account_id (if r = l then ?l else r) = lg_account_id r"
      "lg_inbound_message_pk (if r = l then ?l else r) = lg_inbound_message_pk r" for r by simp_all
    ultimately show ?thesis unfolding find_log_None_iff by (simp only: set_map ball_simps)
  qed (simp add: finish_auto_reply_execution_def)
qed

lemma decide_keeps_logs: "decide_auto_reply low isoformat now a content c i inb db = (db', d) \<Longrightarrow> rt_logs db' = rt_logs db"
  by (auto simp: decide_auto_reply_def get_or_create_auto_reply_setting_def Let_def
      split: if_splits option.splits prod.splits)

text \<open>After a reply was claimed the rest of the handler only finishes the row of the claim.\<close>

lemma deliver_logs:
  assumes "deliver_reply now running a inb log_id t db = (db', res)"
  shows "db' = db \<or> (\<exists>text err. db' = fst (finish_auto_reply_execution log_id text False None err db))"
  using assms by (auto simp: deliver_reply_def fail_execution_def split: if_splits)

text \<open>The steps of a handler that got a claim.\<close>

definition claimed_run ::
  "(ustr \<Rightarrow> ustr) \<Rightarrow> (timestamp \<Rightarrow> ustr) \<Rightarrow> timestamp \<Rightarrow> bool \<Rightarrow> string \<Rightarrow> string \<Rightarrow> inbound \<Rightarrow> reply_tables
   \<Rightarrow> reply_tables \<Rightarrow> reply_outcome \<Rightarrow> bool" where
  "claimed_run low isoformat now running log_id a inb db db' res \<longleftrightarrow>
     (\<exists>content db1 d r db2. decide_auto_reply low isoformat now a content (in_conversation_id inb) (in_item_id inb) inb db = (db1, d)
       \<and> dc_should_reply d \<and> cr_account_id r = a \<and> cr_inbound_message_pk r = in_message_pk inb
       \<and> cr_conversation_id r = u_text (in_conversation_id inb)
       \<and> claim_auto_reply_execution now log_id r db1 = (db2, Some log_id)
       \<and> ((\<exists>t. deliver_reply now running a inb log_id t db2 = (db', res))
          \<or> (\<exists>e. fail_execution log_id [] e db2 = (db', res))))"

lemma claim_id: "claim_auto_reply_execution now log_id r db = (db', Some x) \<Longrightarrow> x = log_id"
  using claim_cases by fastforce

lemma handle_cases:
  assumes h: "handle_auto_reply low isoformat decrypt post now running log_id a inb db = (db', res)"
  shows "(res = NoReply \<and> rt_logs db' = rt_logs db) \<or> claimed_run low isoformat now running log_id a inb db db' res"
proof (cases "in_direction inb = Some ''inbound'' \<and> in_message_type inb \<in> {Some ''text'', Some ''image''}")
  case True
  let ?content = "if u_text (in_content inb) = [] \<and> in_message_type inb = Some ''image''
    then [91, 0x56FE, 0x7247, 93] else u_text (in_content inb)"
  obtain db1 d where d: "decide_auto_reply low isoformat now a ?content (in_conversation_id inb) (in_item_id inb) inb db = (db1, d)"
    by (metis surj_pair)
  note lg = decide_keeps_logs [OF d]
  let ?r = "\<lparr>cr_account_id = a, cr_conversation_id = u_text (in_conversation_id inb),
     cr_inbound_message_pk = in_message_pk inb, cr_rule_id = dc_rule_id d,
     cr_matched_keyword = u_or (dc_matched_keyword d) (if dc_reason d = Some ByAi then Some (asc ''AI'') else None),
     cr_reply_text = u_text (dc_reply_text d)\<rparr>"
  obtain db2 x where c: "claim_auto_reply_execution now log_id ?r db1 = (db2, x)" by (metis surj_pair)
  note h' = h [unfolded handle_auto_reply_def Let_def d prod.case]
  show ?thesis
  proof (cases "dc_should_reply d \<and> x \<noteq> None")
    case yes: True
    then have x: "x = Some log_id" using c claim_id by fastforce
    have "(\<exists>t. deliver_reply now running a inb log_id t db2 = (db', res)) \<or> (\<exists>e. fail_execution log_id [] e db2 = (db', res))"
      using h' True yes unfolding c x by (auto split: if_split_asm sum.splits)
    then have "claimed_run low isoformat now running log_id a inb db db' res"
      unfolding claimed_run_def
      by (intro exI [of _ ?content] exI [of _ db1] exI [of _ d] exI [of _ ?r] exI [of _ db2])
        (use d yes c x in simp)
    then show ?thesis ..
  next
    case no: False
    have "rt_logs db2 = rt_logs db1" if "x = None" using claim_cases [OF c] that by auto
    with no h' True c lg show ?thesis by (auto split: if_split_asm)
  qed
next
  case False
  with h show ?thesis
    by (cases "in_direction inb = Some ''inbound''") (simp_all add: handle_auto_reply_def)
qed

text \<open>
  The handlers that may run for one incoming message (the event can be delivered more than
  once, and the handlers run concurrently with others): each with its own time, identifier
  and environment.
\<close>

record handler_call =
  hc_now :: timestamp
  hc_log_id :: string
  hc_running :: bool
  hc_post :: provider_call

definition answer_message ::
  "(ustr \<Rightarrow> ustr) \<Rightarrow> (timestamp \<Rightarrow> ustr) \<Rightarrow> (ustr option \<Rightarrow> ustr option) \<Rightarrow> string \<Rightarrow> inbound \<Rightarrow> handler_call
   \<Rightarrow> reply_tables \<Rightarrow> reply_tables \<times> bool" where
  "answer_message low isoformat decrypt a inb h db =
     (case handle_auto_reply low isoformat decrypt (hc_post h) (hc_now h) (hc_running h) (hc_log_id h) a inb db of
        (db', res) \<Rightarrow> (db', case res of SendReply _ _ _ \<Rightarrow> True | _ \<Rightarrow> False))"

lemma claimed_run_log:
  assumes run: "claimed_run low isoformat now running log_id a inb db db' res"
    and k: "keys_distinct lg_log_id (rt_logs db)" and pk: "in_message_pk inb = Some pk"
  shows "find_log a pk (rt_logs db) = None" "find_log a pk (rt_logs db') \<noteq> None" "keys_distinct lg_log_id (rt_logs db')"
proof -
  obtain content db1 d r db2 where
    d: "decide_auto_reply low isoformat now a content (in_conversation_id inb) (in_item_id inb) inb db = (db1, d)"
    and r: "cr_account_id r = a" "cr_inbound_message_pk r = Some pk"
    and c: "claim_auto_reply_execution now log_id r db1 = (db2, Some log_id)"
    and f: "(\<exists>t. deliver_reply now running a inb log_id t db2 = (db', res)) \<or> (\<exists>e. fail_execution log_id [] e db2 = (db', res))"
    using run unfolding claimed_run_def pk by blast
  obtain account where l: "log_insertable (processing_log now log_id account r) (rt_logs db)"
    and db2: "rt_logs db2 = rt_logs db @ [processing_log now log_id account r]"
    using claim_cases [OF c] decide_keeps_logs [OF d] by auto
  show n: "find_log a pk (rt_logs db) = None" using l r by (simp add: log_insertable_def processing_log_def)
  have k2: "keys_distinct lg_log_id (rt_logs db2)"
    unfolding db2 using k l by (intro keys_distinct_append1) (simp_all add: log_insertable_def)
  have s2: "find_log a pk (rt_logs db2) \<noteq> None" unfolding db2 using n r by (simp add: processing_log_def)
  have "db' = db2 \<or> (\<exists>text err. db' = fst (finish_auto_reply_execution log_id text False None err db2))"
    using f
  proof
    assume "\<exists>e. fail_execution log_id [] e db2 = (db', res)"
    then show ?thesis unfolding fail_execution_def by blast
  qed (blast dest: deliver_logs)
  with k2 s2 finish_logs [OF k2] show "find_log a pk (rt_logs db') \<noteq> None" "keys_distinct lg_log_id (rt_logs db')"
    by (elim disjE exE; simp only: not_False_eq_True)+
qed

lemma answer_cases:
  assumes v: "keys_distinct lg_log_id (rt_logs db)" and pk: "in_message_pk inb = Some pk"
    and r: "answer_message low isoformat decrypt a inb h db = (db', ok)"
  shows "(\<not> ok \<and> rt_logs db' = rt_logs db)
     \<or> (find_log a pk (rt_logs db) = None \<and> find_log a pk (rt_logs db') \<noteq> None \<and> keys_distinct lg_log_id (rt_logs db'))"
proof -
  obtain res where h: "handle_auto_reply low isoformat decrypt (hc_post h) (hc_now h) (hc_running h) (hc_log_id h) a inb db = (db', res)"
    and ok: "ok = (case res of SendReply _ _ _ \<Rightarrow> True | _ \<Rightarrow> False)"
    using r by (auto simp: answer_message_def split: prod.splits)
  from handle_cases [OF h] show ?thesis
  proof
    assume "claimed_run low isoformat (hc_now h) (hc_running h) (hc_log_id h) a inb db db' res"
    from claimed_run_log [OF this v pk] show ?thesis by simp
  qed (use ok in simp)
qed

interpretation answers: one_shot "answer_message low isoformat decrypt a (inb\<lparr>in_message_pk := Some pk\<rparr>)"
  "\<lambda>db. find_log a pk (rt_logs db) = None" "\<lambda>db. keys_distinct lg_log_id (rt_logs db)"
  for low isoformat decrypt a inb pk
proof
  fix db db' :: reply_tables and h ok
  let ?claim = "answer_message low isoformat decrypt a (inb\<lparr>in_message_pk := Some pk\<rparr>)"
  assume v: "keys_distinct lg_log_id (rt_logs db)"
  note cs = answer_cases [OF v, of "inb\<lparr>in_message_pk := Some pk\<rparr>" pk low isoformat decrypt a h db']
  show "find_log a pk (rt_logs db) = None" if "?claim h db = (db', True)" using cs [OF _ that] by simp
  show "\<not> find_log a pk (rt_logs db') = None" if "?claim h db = (db', True)" using cs [OF _ that] by simp
  show "\<not> find_log a pk (rt_logs db') = None" if "\<not> find_log a pk (rt_logs db) = None" "?claim h db = (db', False)"
    using cs [OF _ that(2)] that(1) by simp
  show "keys_distinct lg_log_id (rt_logs db')" if "?claim h db = (db', ok)" using cs [OF _ that] v by auto
qed

text \<open>C3. However often the arrival of one message is handled, and whatever the language model and the
  platform do meanwhile, at most one reply to it is sent.\<close>

theorem message_answered_at_most_once:
  assumes "keys_distinct lg_log_id (rt_logs db)" and "in_message_pk inb = Some pk"
    and "claim_all (answer_message low isoformat decrypt a inb) calls db = (db', oks)"
  shows "winners oks \<le> 1"
proof -
  have "inb\<lparr>in_message_pk := Some pk\<rparr> = inb" using assms(2) by simp
  then show ?thesis using answers.at_most_one_wins [OF assms(1)] assms(3) by metis
qed

section \<open>Sending only where it is allowed\<close>


section \<open>Defects\<close>

lemma decide_by_ai_without_owner:
  assumes "get_row ac_account_id (rt_accounts db) a = Some account" "\<not> truthy (ac_automation_owner_user_id account)"
    and "decide_auto_reply low isoformat now a content c i inb db = (db', d)" "dc_reason d = Some ByAi"
  shows "dc_rule_id d = None" "dc_should_reply d"
  using assms
  by (auto simp: decide_auto_reply_def decide_account_auto_reply_def decide_by_rules_def decide_without_rules_def
      no_reply_def Let_def split: if_splits prod.splits)

text \<open>The language model configured on an account itself is never used: a decision to let it answer
  names no rule, and without one no request is built, so the execution is claimed and then
  always fails.\<close>

theorem account_level_ai_never_answers:
  assumes "get_row ac_account_id (rt_accounts db) a = Some account" "\<not> truthy (ac_automation_owner_user_id account)"
    and "decide_auto_reply low isoformat now a content c i inb db = (db', d)" "dc_reason d = Some ByAi"
  shows "dc_should_reply d
     \<and> generate_ai_reply decrypt isoformat post later a conversation_id (dc_rule_id d) db''
         = Inl (asc ''AI reply configuration is incomplete'')"
  using decide_by_ai_without_owner [OF assms]
  by (simp add: generate_ai_reply_def get_ai_reply_request_def ai_rule_of_def split: option.splits)

text \<open>A provider that answers without content (a null) makes the four letters ``None'' the reply.\<close>

theorem null_content_is_answered_with_None:
  assumes "post q = Inr (JObj [(asc ''choices'', JList [JObj [(asc ''message'', JObj [(asc ''content'', JNull)])]])])"
  shows "request_ai_reply post q = Inr (asc ''None'')"
proof -
  have "response_content (JObj [(asc ''choices'', JList [JObj [(asc ''message'', JObj [(asc ''content'', JNull)])]])]) = Some JNull"
    by (simp add: response_content_def)
  moreover have "ustrip (py_str JNull) = asc ''None''" by code_simp
  moreover have "take 4000 (asc ''None'') = asc ''None''" "asc ''None'' \<noteq> []" by (simp_all add: asc_def)
  ultimately show ?thesis using assms by (simp add: request_ai_reply_def)
qed

section \<open>An example\<close>

definition sample_message :: message_row where
  "sample_message = \<lparr>mg_message_pk = ''m1'', mg_account_id = ''a'', mg_conversation_id = asc ''7'',
     mg_message_id = None, mg_dedupe_key = None, mg_client_request_id = None, mg_direction = ''inbound'',
     mg_message_type = ''text'', mg_content = asc ''hi'', mg_peer_user_id = Some (asc ''9''),
     mg_peer_name = None, mg_item_id = None, mg_send_success = None, mg_send_status = None,
     mg_send_error = None, mg_recalled_at = None, mg_raw_payload = JNull, mg_attachments = [],
     mg_created_at_ms = 5, mg_received_at_ms = None, mg_created_at = 5000, mg_received_at = None\<rparr>"

definition sample_db :: "string option \<Rightarrow> reply_tables" where
  "sample_db owner = \<lparr>
     rt_accounts = [(account_defaults ''a'' 0)\<lparr>ac_automation_owner_user_id := owner\<rparr>],
     rt_settings = [(setting_defaults ''a'' 0)\<lparr>se_enabled := True, se_ai_enabled := True,
        se_ai_base_url := Some (asc ''u''), se_ai_api_key := Some (asc ''k''), se_ai_model := Some (asc ''m'')\<rparr>],
     rt_conversations = [conversation_defaults ''p'' ''a'' (asc ''7'') 0], rt_orders = [],
     rt_messages = [sample_message], rt_account_rules = [], rt_user_rules = sample_rules, rt_logs = [],
     rt_provider = None\<rparr>"

definition sample_preview :: preview_request where
  "sample_preview = \<lparr>pv_account_id = ''a'', pv_content = asc ''hi'', pv_message_type = ''text'',
     pv_sender_user_id = Some (asc ''9''), pv_conversation_id = Some (asc ''7''), pv_item_id = None\<rparr>"

definition sample_call :: "string \<Rightarrow> handler_call" where
  "sample_call log_id = \<lparr>hc_now = 9000, hc_log_id = log_id, hc_running = True, hc_post = (\<lambda>_. Inl [])\<rparr>"

lemma sample_handled:
  "case handle_auto_reply (\<lambda>t. t) (\<lambda>_. []) (\<lambda>t. t) (\<lambda>_. Inl []) 9000 True ''l'' ''a'' (inbound_of_row sample_message) (sample_db (Some ''u'')) of
     (db, SendReply l receiver text) \<Rightarrow> l = ''l'' \<and> receiver = asc ''9'' \<and> text = asc ''hello'' | _ \<Rightarrow> False"
  by code_simp

theorem message_answered_at_most_once_witness:
  "\<exists>db' oks. claim_all (answer_message (\<lambda>t. t) (\<lambda>_. []) (\<lambda>t. t) ''a'' (inbound_of_row sample_message))
        [sample_call ''x'', sample_call ''y'', sample_call ''x''] (sample_db (Some ''u'')) = (db', oks)
     \<and> winners oks \<le> 1 \<and> oks = [True, False, False]"
proof -
  obtain db' oks where c: "claim_all (answer_message (\<lambda>t. t) (\<lambda>_. []) (\<lambda>t. t) ''a'' (inbound_of_row sample_message))
        [sample_call ''x'', sample_call ''y'', sample_call ''x''] (sample_db (Some ''u'')) = (db', oks)"
    by (metis surj_pair)
  moreover have "snd (claim_all (answer_message (\<lambda>t. t) (\<lambda>_. []) (\<lambda>t. t) ''a'' (inbound_of_row sample_message))
        [sample_call ''x'', sample_call ''y'', sample_call ''x''] (sample_db (Some ''u''))) = [True, False, False]"
    by code_simp
  moreover have "winners oks \<le> 1"
    by (rule message_answered_at_most_once [OF _ _ c, of "''m1''"])
      (simp_all add: sample_db_def keys_distinct_def inbound_of_row_def sample_message_def)
  ultimately show ?thesis by auto
qed



theorem account_level_ai_never_answers_witness:
  "\<exists>db' d. decide_auto_reply (\<lambda>t. t) (\<lambda>_. []) 9000 ''a'' (asc ''hi'') (Some (asc ''7'')) None no_inbound (sample_db None) = (db', d)
     \<and> dc_should_reply d
     \<and> generate_ai_reply (\<lambda>t. t) (\<lambda>_. []) (\<lambda>_. Inl []) 9000 ''a'' (asc ''7'') (dc_rule_id d) db'
         = Inl (asc ''AI reply configuration is incomplete'')"
proof -
  obtain db' d where d: "decide_auto_reply (\<lambda>t. t) (\<lambda>_. []) 9000 ''a'' (asc ''hi'') (Some (asc ''7'')) None no_inbound (sample_db None) = (db', d)"
    by (metis surj_pair)
  have "dc_reason (snd (decide_auto_reply (\<lambda>t. t) (\<lambda>_. []) 9000 ''a'' (asc ''hi'') (Some (asc ''7'')) None no_inbound (sample_db None))) = Some ByAi"
    by code_simp
  with d have r: "dc_reason d = Some ByAi" by simp
  have a: "get_row ac_account_id (rt_accounts (sample_db None)) ''a'' = Some ((account_defaults ''a'' 0)\<lparr>ac_automation_owner_user_id := None\<rparr>)"
    by (simp add: sample_db_def account_defaults_def)
  from account_level_ai_never_answers [OF a _ d r, of "\<lambda>t. t" "\<lambda>_. Inl []" 9000 "asc ''7''" db'] d show ?thesis by auto
qed

theorem null_content_is_answered_with_None_witness:
  "request_ai_reply (\<lambda>_. Inr (JObj [(asc ''choices'', JList [JObj [(asc ''message'', JObj [(asc ''content'', JNull)])]])]))
     \<lparr>rq_base_url = [], rq_api_key = [], rq_model = [], rq_instructions = [], rq_context = JNull, rq_messages = [], rq_temperature = []\<rparr>
   = Inr (asc ''None'')"
  by (rule null_content_is_answered_with_None) simp

end
