(* ===== verification/Broker.thy ===== *)
theory Broker
  imports PyText
begin

text \<open>
  The in-process event broker of \<open>realtime.py\<close>: bounded queues of subscribers, where a slow
  subscriber loses its backlog and is told to reload. It is shown to refine a log with
  cursors.
\<close>

section \<open>The broker\<close>

text \<open>
  A queue is identified by a number, its contents are the events still to be read. The set
  of subscribers is a list; the code treats each queue on its own, so their order does not
  matter.
\<close>

record broker =
  br_subscribers :: "(nat \<times> json list) list"
  br_published :: int
  br_resync_required :: int

definition new_broker :: broker where
  "new_broker = \<lparr>br_subscribers = [], br_published = 0, br_resync_required = 0\<rparr>"

definition QUEUE_SIZE :: nat where
  "QUEUE_SIZE = 200"

definition RESYNC :: json where
  "RESYNC = JObj [(asc ''event'', JStr (asc ''resync_required''))]"

definition subscribe :: "nat \<Rightarrow> broker \<Rightarrow> broker" where
  "subscribe q b = b\<lparr>br_subscribers := br_subscribers b @ [(q, [])]\<rparr>"

definition unsubscribe :: "nat \<Rightarrow> broker \<Rightarrow> broker" where
  "unsubscribe q b = b\<lparr>br_subscribers := filter (\<lambda>(p, _). p \<noteq> q) (br_subscribers b)\<rparr>"

definition queue_full :: "json list \<Rightarrow> bool" where
  "queue_full items \<longleftrightarrow> QUEUE_SIZE \<le> length items"

definition offer :: "json \<Rightarrow> json list \<Rightarrow> json list" where
  "offer event items = (if queue_full items then [RESYNC] else items @ [event])"

definition publish :: "json \<Rightarrow> broker \<Rightarrow> broker" where
  "publish event b = b\<lparr>
     br_subscribers := map (\<lambda>(q, items). (q, offer event items)) (br_subscribers b),
     br_published := br_published b + 1,
     br_resync_required := br_resync_required b + int (length (filter (\<lambda>(_, items). queue_full items) (br_subscribers b)))\<rparr>"

text \<open>\<open>queue.get()\<close> of a subscriber.\<close>

definition receive :: "nat \<Rightarrow> broker \<Rightarrow> (json \<times> broker) option" where
  "receive q b = (case map_of (br_subscribers b) q of
     Some (item # items) \<Rightarrow>
       Some (item, b\<lparr>br_subscribers := map (\<lambda>(p, old). (p, if p = q then items else old)) (br_subscribers b)\<rparr>)
   | _ \<Rightarrow> None)"

record broker_health =
  bh_subscribers :: nat
  bh_queued :: nat
  bh_capacity_per_subscriber :: nat
  bh_published :: int
  bh_resync_required :: int

definition health :: "broker \<Rightarrow> broker_health" where
  "health b = \<lparr>bh_subscribers = length (br_subscribers b),
     bh_queued = sum_list (map (length \<circ> snd) (br_subscribers b)), bh_capacity_per_subscriber = 200,
     bh_published = br_published b, bh_resync_required = br_resync_required b\<rparr>"

text \<open>What happens to a broker, with the events that can be observed.\<close>

datatype broker_event = Subscribed nat | Unsubscribed nat | Published json | Received nat json

inductive broker_step :: "broker \<Rightarrow> broker_event \<Rightarrow> broker \<Rightarrow> bool" where
  sub: "q \<notin> fst ` set (br_subscribers b) \<Longrightarrow> broker_step b (Subscribed q) (subscribe q b)"
| unsub: "broker_step b (Unsubscribed q) (unsubscribe q b)"
| pub: "broker_step b (Published e) (publish e b)"
| recv: "receive q b = Some (item, b') \<Longrightarrow> broker_step b (Received q item) b'"

section \<open>Specification: a log with cursors\<close>

text \<open>
  Everything that was published is kept in a log. A subscriber has a cursor into the log and
  reads the next event; one that is far behind may lose its place: its cursor moves to the
  end of the log and it reads a marker first.
\<close>

record hub =
  hb_log :: "json list"
  hb_cursors :: "nat \<Rightarrow> (nat \<times> bool) option"

definition new_hub :: hub where
  "new_hub = \<lparr>hb_log = [], hb_cursors = (\<lambda>_. None)\<rparr>"

definition unread :: "json list \<Rightarrow> nat \<times> bool \<Rightarrow> json list" where
  "unread log c = (if snd c then [RESYNC] else []) @ drop (fst c) log"

inductive hub_step :: "hub \<Rightarrow> broker_event \<Rightarrow> hub \<Rightarrow> bool" where
  hub_sub: "hb_cursors h q = None \<Longrightarrow>
     hub_step h (Subscribed q) (h\<lparr>hb_cursors := (hb_cursors h)(q := Some (length (hb_log h), False))\<rparr>)"
| hub_unsub: "hub_step h (Unsubscribed q) (h\<lparr>hb_cursors := (hb_cursors h)(q := None)\<rparr>)"
| hub_pub: "(\<And>q c. q \<in> lagging \<Longrightarrow> hb_cursors h q = Some c \<Longrightarrow> QUEUE_SIZE \<le> length (unread (hb_log h) c)) \<Longrightarrow>
     hub_step h (Published e) \<lparr>hb_log = hb_log h @ [e],
       hb_cursors = (\<lambda>q. if q \<in> lagging then map_option (\<lambda>_. (Suc (length (hb_log h)), True)) (hb_cursors h q)
                         else hb_cursors h q)\<rparr>"
| hub_resync: "hb_cursors h q = Some (n, True) \<Longrightarrow>
     hub_step h (Received q RESYNC) (h\<lparr>hb_cursors := (hb_cursors h)(q := Some (n, False))\<rparr>)"
| hub_read: "hb_cursors h q = Some (n, False) \<Longrightarrow> n < length (hb_log h) \<Longrightarrow>
     hub_step h (Received q (hb_log h ! n)) (h\<lparr>hb_cursors := (hb_cursors h)(q := Some (Suc n, False))\<rparr>)"

text \<open>Runs of a labelled transition relation.\<close>

inductive run :: "('s \<Rightarrow> 'l \<Rightarrow> 's \<Rightarrow> bool) \<Rightarrow> 's \<Rightarrow> 'l list \<Rightarrow> 's \<Rightarrow> bool" for step where
  run_Nil: "run step s [] s"
| run_Cons: "step s l t \<Longrightarrow> run step t ls u \<Longrightarrow> run step s (l # ls) u"

locale simulation =
  fixes cstep :: "'c \<Rightarrow> 'l \<Rightarrow> 'c \<Rightarrow> bool" and astep :: "'a \<Rightarrow> 'l \<Rightarrow> 'a \<Rightarrow> bool" and sim :: "'c \<Rightarrow> 'a \<Rightarrow> bool"
  assumes sim_step: "sim c a \<Longrightarrow> cstep c l c' \<Longrightarrow> \<exists>a'. astep a l a' \<and> sim c' a'"
begin

lemma run_refines: "run cstep c ls c' \<Longrightarrow> sim c a \<Longrightarrow> \<exists>a'. run astep a ls a' \<and> sim c' a'"
proof (induction arbitrary: a rule: run.induct)
  case (run_Nil c)
  then show ?case by (blast intro: run.run_Nil)
next
  case (run_Cons c l c' ls c'')
  from sim_step [OF run_Cons.prems run_Cons.hyps(1)] obtain a' where "astep a l a'" "sim c' a'" by blast
  with run_Cons.IH show ?case by (blast intro: run.run_Cons)
qed

end

section \<open>The broker refines the log\<close>

definition broker_sim :: "broker \<Rightarrow> hub \<Rightarrow> bool" where
  "broker_sim b h \<longleftrightarrow> distinct (map fst (br_subscribers b))
     \<and> (\<forall>q. map_of (br_subscribers b) q = map_option (unread (hb_log h)) (hb_cursors h q))
     \<and> (\<forall>q n l. hb_cursors h q = Some (n, l) \<longrightarrow> n \<le> length (hb_log h))"

lemma map_of_map_values: "map_of (map (\<lambda>(p, v). (p, f p v)) kvs) q = map_option (f q) (map_of kvs q)"
  by (induction kvs) auto

lemma map_of_filter_key: "map_of (filter (\<lambda>(p, _). p \<noteq> q) kvs) p = (if p = q then None else map_of kvs p)"
  by (induction kvs) auto

lemma unread_append:
  "fst c \<le> length log \<Longrightarrow> unread (log @ [e]) c = unread log c @ [e]"
  "unread (log @ [e]) (Suc (length log), True) = [RESYNC]"
  by (simp_all add: unread_def)

lemma map_of_publish:
  "map_of (br_subscribers (publish e b)) q = map_option (offer e) (map_of (br_subscribers b) q)"
  by (simp add: publish_def map_of_map_values [of "\<lambda>_. offer e"])

lemma sim_publish:
  assumes "broker_sim b h"
  shows "\<exists>h'. hub_step h (Published e) h' \<and> broker_sim (publish e b) h'"
proof -
  define lagging where "lagging = {q. \<exists>c. hb_cursors h q = Some c \<and> QUEUE_SIZE \<le> length (unread (hb_log h) c)}"
  let ?h = "\<lparr>hb_log = hb_log h @ [e],
     hb_cursors = (\<lambda>q. if q \<in> lagging then map_option (\<lambda>_. (Suc (length (hb_log h)), True)) (hb_cursors h q)
                       else hb_cursors h q)\<rparr>"
  have "hub_step h (Published e) ?h" by (rule hub_pub) (auto simp: lagging_def)
  moreover have "map_of (br_subscribers (publish e b)) q = map_option (unread (hb_log ?h)) (hb_cursors ?h q)" for q
  proof (cases "hb_cursors h q")
    case (Some c)
    then have n: "fst c \<le> length (hb_log h)" using assms by (cases c) (auto simp: broker_sim_def)
    have "q \<in> lagging \<longleftrightarrow> queue_full (unread (hb_log h) c)"
      using Some by (cases c) (simp add: lagging_def queue_full_def)
    moreover have "map_of (br_subscribers b) q = Some (unread (hb_log h) c)"
      using assms Some by (simp add: broker_sim_def)
    ultimately show ?thesis using Some n
      unfolding map_of_publish by (simp add: offer_def unread_append)
  qed (use assms in \<open>simp add: broker_sim_def map_of_publish\<close>)
  moreover have "distinct (map fst (br_subscribers (publish e b)))"
    using assms by (simp add: broker_sim_def publish_def o_def case_prod_beta')
  moreover have "n \<le> length (hb_log ?h)" if "hb_cursors ?h q = Some (n, l)" for q n l
    using assms that by (fastforce simp: broker_sim_def split: if_splits)
  ultimately have "broker_sim (publish e b) ?h" unfolding broker_sim_def by blast
  with \<open>hub_step h _ ?h\<close> show ?thesis by blast
qed

lemma sim_receive:
  assumes s: "broker_sim b h" and r: "receive q b = Some (item, b')"
  shows "\<exists>h'. hub_step h (Received q item) h' \<and> broker_sim b' h'"
proof -
  obtain items where m: "map_of (br_subscribers b) q = Some (item # items)"
    and b': "b' = b\<lparr>br_subscribers := map (\<lambda>(p, old). (p, if p = q then items else old)) (br_subscribers b)\<rparr>"
    using r by (auto simp: receive_def split: option.splits list.splits)
  with s obtain n l where c: "hb_cursors h q = Some (n, l)" and u: "unread (hb_log h) (n, l) = item # items"
    and n: "n \<le> length (hb_log h)"
    by (fastforce simp: broker_sim_def)
  obtain c' where st: "hub_step h (Received q item) (h\<lparr>hb_cursors := (hb_cursors h)(q := Some c')\<rparr>)"
    and u': "unread (hb_log h) c' = items" and n': "fst c' \<le> length (hb_log h)"
  proof (cases l)
    case True
    with u have "item = RESYNC" "unread (hb_log h) (n, False) = items" by (auto simp: unread_def)
    with True c n show ?thesis by (intro that [of "(n, False)"]) (auto intro: hub_resync)
  next
    case False
    with u have d: "drop n (hb_log h) = item # items" by (simp add: unread_def)
    then have "n < length (hb_log h)" by (metis drop_all list.discI not_le)
    with d have "item = hb_log h ! n" "unread (hb_log h) (Suc n, False) = items"
      by (auto simp: unread_def Cons_nth_drop_Suc [symmetric])
    with False c \<open>n < _\<close> show ?thesis by (intro that [of "(Suc n, False)"]) (auto intro: hub_read)
  qed
  have di: "map fst (br_subscribers b') = map fst (br_subscribers b)" by (simp add: b' case_prod_beta')
  have mo: "map_of (br_subscribers b') p = (if p = q then Some items else map_of (br_subscribers b) p)" for p
    using m by (cases "map_of (br_subscribers b) p") (auto simp: b' map_of_map_values [of "\<lambda>p old. if p = q then items else old"])
  have "broker_sim b' (h\<lparr>hb_cursors := (hb_cursors h)(q := Some c')\<rparr>)"
    using s u' n' unfolding broker_sim_def di mo by (cases c') (simp split: if_split)
  with st show ?thesis by blast
qed

interpretation broker: simulation broker_step hub_step broker_sim
proof
  fix b h l b'
  assume s: "broker_sim b h" and "broker_step b l b'"
  from this(2) show "\<exists>h'. hub_step h l h' \<and> broker_sim b' h'"
  proof cases
    case (sub q)
    then have "map_of (br_subscribers b) q = None" by (simp add: map_of_eq_None_iff)
    with s have n: "hb_cursors h q = None" by (simp add: broker_sim_def)
    moreover from sub s n have "broker_sim b' (h\<lparr>hb_cursors := (hb_cursors h)(q := Some (length (hb_log h), False))\<rparr>)"
      by (auto simp: broker_sim_def subscribe_def unread_def map_add_def split: option.splits)
    ultimately show ?thesis using sub by (blast intro: hub_sub)
  next
    case (unsub q)
    with s have "broker_sim b' (h\<lparr>hb_cursors := (hb_cursors h)(q := None)\<rparr>)"
      by (auto simp: broker_sim_def unsubscribe_def map_of_filter_key distinct_map_filter)
    then show ?thesis using unsub by (blast intro: hub_unsub)
  qed (use s sim_publish sim_receive in blast)+
qed

text \<open>C10. Every run of the broker is a run of the log with cursors: a subscriber reads the published events
  in order and without a gap, except that one with a full queue of unread events first reads
  the marker that tells it to reload and then continues with what is published afterwards.\<close>

theorem broker_refines_log:
  assumes "run broker_step new_broker events b"
  shows "\<exists>h. run hub_step new_hub events h \<and> broker_sim b h"
  using assms by (rule broker.run_refines) (simp add: broker_sim_def new_broker_def new_hub_def)

theorem broker_refines_log_witness:
  "\<exists>b h. run broker_step new_broker [Subscribed 1, Published (JInt 7), Received 1 (JInt 7)] b
     \<and> run hub_step new_hub [Subscribed 1, Published (JInt 7), Received 1 (JInt 7)] h \<and> broker_sim b h"
proof -
  let ?b = "publish (JInt 7) (subscribe 1 new_broker)"
  obtain b where r: "receive 1 ?b = Some (JInt 7, b)"
    by (simp add: receive_def publish_def subscribe_def new_broker_def offer_def queue_full_def QUEUE_SIZE_def)
  have "run broker_step new_broker [Subscribed 1, Published (JInt 7), Received 1 (JInt 7)] b"
    by (rule run_Cons, rule sub, simp add: new_broker_def, rule run_Cons, rule pub, rule run_Cons, rule recv,
        rule r, rule run_Nil)
  with broker_refines_log [OF this] show ?thesis by blast
qed

text \<open>No queue ever holds more than its 200 places, and what the health report counts as queued is
  bounded by the number of subscribers.\<close>

theorem broker_queues_bounded:
  assumes "run broker_step new_broker events b"
  shows "(\<forall>(q, items)\<in>set (br_subscribers b). length items \<le> QUEUE_SIZE)
     \<and> bh_queued (health b) \<le> bh_capacity_per_subscriber (health b) * bh_subscribers (health b)"
proof -
  let ?ok = "\<lambda>b. \<forall>x\<in>set (br_subscribers b). length (snd x) \<le> QUEUE_SIZE"
  have st: "?ok c \<Longrightarrow> ?ok d" if "broker_step c l d" for c l d
    using that
  proof cases
    case (recv q item)
    then show "?ok c \<Longrightarrow> ?ok d"
      by (fastforce simp: receive_def dest: map_of_SomeD split: option.splits list.splits)
  qed (auto simp: subscribe_def unsubscribe_def publish_def offer_def queue_full_def QUEUE_SIZE_def)
  have "run broker_step c events b \<Longrightarrow> ?ok c \<Longrightarrow> ?ok b" for c
    by (induction rule: run.induct) (blast dest: st)+
  from this [OF assms] have ok: "?ok b" by (simp add: new_broker_def)
  have "sum_list (map (length \<circ> snd) xs) \<le> QUEUE_SIZE * length xs" if "\<forall>x\<in>set xs. length (snd x) \<le> QUEUE_SIZE" for xs :: "(nat \<times> json list) list"
    using that by (induction xs) auto
  with ok show ?thesis by (auto simp: health_def QUEUE_SIZE_def case_prod_beta')
qed

theorem broker_queues_bounded_witness:
  "bh_queued (health (subscribe 1 new_broker)) \<le> 200 * bh_subscribers (health (subscribe 1 new_broker))"
proof -
  have "run broker_step new_broker [Subscribed 1] (subscribe 1 new_broker)"
    by (rule run_Cons, rule sub, simp add: new_broker_def, rule run_Nil)
  from broker_queues_bounded [OF this] show ?thesis by (simp add: health_def)
qed

end
