(* ===== verification/Executors.thy ===== *)
theory Executors
  imports Prelude
begin

text \<open>
  The bounded executors of \<open>executors.py\<close>: admission of a call, its start in a worker thread, its
  end and its cancellation, as the sections that hold the lock, in any order the threads and
  the event loop allow. The counters are shown to be exact and never to leak a place.
\<close>

section \<open>State\<close>

text \<open>
  The life of an admitted call. \<open>cl_queued\<close> is the flag \<open>state["queued"]\<close> of the call;
  \<open>cl_released\<close> records that a cancellation gave its place back although a thread had already
  picked it up.
\<close>

datatype phase = Waiting | Executing | Ended

record call =
  cl_queued :: bool
  cl_phase :: phase
  cl_released :: bool

record executor =
  ex_max_workers :: int
  ex_max_queue :: int
  ex_queued :: int
  ex_active :: int
  ex_submitted :: int
  ex_completed :: int
  ex_failed :: int
  ex_rejected :: int
  ex_calls :: "(nat \<times> call) list"

definition new_executor :: "int \<Rightarrow> int \<Rightarrow> executor" where
  "new_executor max_workers max_queue = \<lparr>ex_max_workers = max 1 max_workers, ex_max_queue = max 0 max_queue,
     ex_queued = 0, ex_active = 0, ex_submitted = 0, ex_completed = 0, ex_failed = 0, ex_rejected = 0,
     ex_calls = []\<rparr>"

definition capacity :: "executor \<Rightarrow> int" where
  "capacity x = ex_max_workers x + ex_max_queue x"

datatype run_error = ExecutorSaturated

section \<open>The sections under the lock\<close>

definition set_call :: "nat \<Rightarrow> call \<Rightarrow> (nat \<times> call) list \<Rightarrow> (nat \<times> call) list" where
  "set_call i c calls = map (\<lambda>(j, d). (j, if j = i then c else d)) calls"

text \<open>The first section of \<open>run\<close>.\<close>

definition admit :: "nat \<Rightarrow> executor \<Rightarrow> executor \<times> run_error option" where
  "admit i x =
     (if capacity x \<le> ex_queued x + ex_active x
      then (x\<lparr>ex_rejected := ex_rejected x + 1\<rparr>, Some ExecutorSaturated)
      else (x\<lparr>ex_queued := ex_queued x + 1, ex_submitted := ex_submitted x + 1,
              ex_calls := ex_calls x @ [(i, \<lparr>cl_queued = True, cl_phase = Waiting, cl_released = False\<rparr>)]\<rparr>, None))"

text \<open>Giving the place in the queue back, once.\<close>

definition release :: "call \<Rightarrow> executor \<Rightarrow> executor" where
  "release c x = (if cl_queued c then x\<lparr>ex_queued := ex_queued x - 1\<rparr> else x)"

text \<open>\<open>invoke\<close> before and after the call of the function.\<close>

definition begin_call :: "nat \<Rightarrow> call \<Rightarrow> executor \<Rightarrow> executor" where
  "begin_call i c x = (let x = release c x in
     x\<lparr>ex_active := ex_active x + 1, ex_calls := set_call i (c\<lparr>cl_queued := False, cl_phase := Executing\<rparr>) (ex_calls x)\<rparr>)"

definition end_call :: "nat \<Rightarrow> call \<Rightarrow> bool \<Rightarrow> executor \<Rightarrow> executor" where
  "end_call i c raised x = x\<lparr>ex_active := ex_active x - 1, ex_completed := ex_completed x + 1,
     ex_failed := ex_failed x + (if raised then 1 else 0),
     ex_calls := set_call i (c\<lparr>cl_phase := Ended\<rparr>) (ex_calls x)\<rparr>"

text \<open>The handler of a submission that fails; the function never runs.\<close>

definition submission_failed :: "nat \<Rightarrow> call \<Rightarrow> executor \<Rightarrow> executor" where
  "submission_failed i c x = (let x = release c x in
     x\<lparr>ex_calls := set_call i (c\<lparr>cl_queued := False, cl_phase := Ended\<rparr>) (ex_calls x)\<rparr>)"

text \<open>
  \<open>release_cancelled\<close>: the future was cancelled. A waiting call that no thread has picked up is
  dropped by the pool; one that was picked up still runs.
\<close>

definition release_cancelled :: "nat \<Rightarrow> call \<Rightarrow> bool \<Rightarrow> executor \<Rightarrow> executor" where
  "release_cancelled i c picked_up x = (let x = release c x in
     x\<lparr>ex_calls := set_call i (c\<lparr>cl_queued := False,
         cl_phase := (if cl_phase c = Waiting \<and> \<not> picked_up then Ended else cl_phase c),
         cl_released := (cl_released c \<or> cl_queued c \<and> picked_up)\<rparr>) (ex_calls x)\<rparr>)"

inductive executor_step :: "executor \<Rightarrow> executor \<Rightarrow> bool" where
  ex_admit: "i \<notin> fst ` set (ex_calls x) \<Longrightarrow> executor_step x (fst (admit i x))"
| ex_begin: "map_of (ex_calls x) i = Some c \<Longrightarrow> cl_phase c = Waiting \<Longrightarrow> ex_active x < ex_max_workers x \<Longrightarrow>
     executor_step x (begin_call i c x)"
| ex_end: "map_of (ex_calls x) i = Some c \<Longrightarrow> cl_phase c = Executing \<Longrightarrow> executor_step x (end_call i c raised x)"
| ex_fail: "map_of (ex_calls x) i = Some c \<Longrightarrow> cl_phase c = Waiting \<Longrightarrow> cl_queued c \<Longrightarrow>
     executor_step x (submission_failed i c x)"
| ex_cancel: "map_of (ex_calls x) i = Some c \<Longrightarrow> executor_step x (release_cancelled i c picked_up x)"

section \<open>Counters\<close>

definition count_calls :: "(call \<Rightarrow> bool) \<Rightarrow> executor \<Rightarrow> int" where
  "count_calls p x = int (length (filter (\<lambda>(_, c). p c) (ex_calls x)))"

text \<open>
  The counters are the numbers of calls in each phase, and no more calls hold a place than
  the executor has, apart from those whose place was given back while they were starting.
\<close>

definition executor_ok :: "executor \<Rightarrow> bool" where
  "executor_ok x \<longleftrightarrow> distinct (map fst (ex_calls x))
     \<and> (\<forall>(i, c)\<in>set (ex_calls x). cl_queued c \<longrightarrow> cl_phase c = Waiting \<and> \<not> cl_released c)
     \<and> (\<forall>(i, c)\<in>set (ex_calls x). cl_phase c = Waiting \<longrightarrow> cl_queued c \<or> cl_released c)
     \<and> ex_queued x = count_calls cl_queued x
     \<and> ex_active x = count_calls (\<lambda>c. cl_phase c = Executing) x
     \<and> ex_submitted x = int (length (ex_calls x))
     \<and> ex_queued x + ex_active x \<le> capacity x + count_calls (\<lambda>c. cl_released c \<and> cl_phase c = Executing) x
     \<and> 1 \<le> ex_max_workers x \<and> 0 \<le> ex_max_queue x \<and> ex_active x \<le> ex_max_workers x"

lemma count_set_call:
  assumes "distinct (map fst calls)" and "map_of calls i = Some c"
  shows "int (length (filter (\<lambda>(_, c). p c) (set_call i d calls)))
       = int (length (filter (\<lambda>(_, c). p c) calls)) - (if p c then 1 else 0) + (if p d then 1 else 0)"
  using assms
proof (induction calls)
  case (Cons e calls)
  obtain j f where e: "e = (j, f)" by fastforce
  show ?case
  proof (cases "j = i")
    case True
    with Cons e have "c = f" and "set_call i d calls = calls"
      by (auto simp: set_call_def intro!: map_idI) force
    with True e show ?thesis by (simp add: set_call_def)
  next
    case False
    with Cons e show ?thesis by (auto simp: set_call_def)
  qed
qed simp

lemma set_call_set:
  assumes "distinct (map fst calls)" and "map_of calls i = Some c"
  shows "set (set_call i d calls) = insert (i, d) (set calls - {(i, c)})"
  using assms
proof (induction calls)
  case (Cons e calls)
  obtain j f where e: "e = (j, f)" by fastforce
  show ?case
  proof (cases "j = i")
    case True
    with Cons e have "c = f" and "set_call i d calls = calls" and "(i, c) \<notin> set calls"
      by (auto simp: set_call_def intro!: map_idI) force+
    with True e show ?thesis by (auto simp: set_call_def)
  next
    case False
    with Cons e show ?thesis by (auto simp: set_call_def)
  qed
qed simp

lemma set_call_keys [simp]: "map fst (set_call i d calls) = map fst calls" "length (set_call i d calls) = length calls"
  by (simp_all add: set_call_def case_prod_beta')

text \<open>The calls after one of them changed.\<close>

lemma executor_ok_update:
  assumes ok: "executor_ok x" and m: "map_of (ex_calls x) i = Some c"
    and calls: "ex_calls y = set_call i d (ex_calls x)"
    and frame: "ex_max_workers y = ex_max_workers x" "ex_max_queue y = ex_max_queue x" "ex_submitted y = ex_submitted x"
    and q: "ex_queued y = ex_queued x - (if cl_queued c then 1 else 0) + (if cl_queued d then 1 else 0)"
    and a: "ex_active y = ex_active x - (if cl_phase c = Executing then 1 else 0) + (if cl_phase d = Executing then 1 else 0)"
    and d: "cl_queued d \<longrightarrow> cl_phase d = Waiting \<and> \<not> cl_released d" "cl_phase d = Waiting \<longrightarrow> cl_queued d \<or> cl_released d"
    and b: "ex_queued y + ex_active y - (if cl_released d \<and> cl_phase d = Executing then 1 else 0)
        \<le> ex_queued x + ex_active x - (if cl_released c \<and> cl_phase c = Executing then 1 else 0)"
    and w: "ex_active y \<le> ex_max_workers x"
  shows "executor_ok y"
proof -
  have dist: "distinct (map fst (ex_calls x))" using ok by (simp add: executor_ok_def)
  have cnt: "count_calls p y = count_calls p x - (if p c then 1 else 0) + (if p d then 1 else 0)" for p
    unfolding count_calls_def calls by (rule count_set_call [OF dist m])
  have st: "set (ex_calls y) = insert (i, d) (set (ex_calls x) - {(i, c)})"
    unfolding calls by (rule set_call_set [OF dist m])
  have "\<forall>(i, c)\<in>set (ex_calls y). (cl_queued c \<longrightarrow> cl_phase c = Waiting \<and> \<not> cl_released c)
      \<and> (cl_phase c = Waiting \<longrightarrow> cl_queued c \<or> cl_released c)"
    unfolding st using ok d by (auto simp: executor_ok_def)
  moreover have "ex_submitted y = int (length (ex_calls y))" "distinct (map fst (ex_calls y))"
    unfolding calls using ok frame by (simp_all add: executor_ok_def)
  ultimately show ?thesis
    using ok q a b w frame unfolding executor_ok_def cnt capacity_def by (auto split: if_splits)
qed

lemma admit_ok: "executor_ok x \<Longrightarrow> i \<notin> fst ` set (ex_calls x) \<Longrightarrow> executor_ok (fst (admit i x))"
  by (auto simp: executor_ok_def admit_def capacity_def count_calls_def)

lemma executor_step_ok: "executor_step x y \<Longrightarrow> executor_ok x \<Longrightarrow> executor_ok y"
proof (induction rule: executor_step.induct)
  case (ex_admit i x)
  then show ?case by (intro admit_ok)
next
  case (ex_begin x i c)
  have "(i, c) \<in> set (ex_calls x)" using ex_begin(1) by (rule map_of_SomeD)
  with ex_begin have r: "cl_queued c \<noteq> cl_released c" by (auto simp: executor_ok_def)
  show ?case
    by (rule executor_ok_update [OF ex_begin(4,1), of _ "c\<lparr>cl_queued := False, cl_phase := Executing\<rparr>"])
      (use ex_begin r in \<open>auto simp: begin_call_def release_def Let_def\<close>)
next
  case (ex_end x i c raised)
  have "(i, c) \<in> set (ex_calls x)" using ex_end(1) by (rule map_of_SomeD)
  with ex_end have r: "\<not> cl_queued c" "ex_active x \<le> ex_max_workers x" by (auto simp: executor_ok_def)
  show ?case
    by (rule executor_ok_update [OF ex_end(3,1), of _ "c\<lparr>cl_phase := Ended\<rparr>"])
      (use ex_end r in \<open>auto simp: end_call_def\<close>)
next
  case (ex_fail x i c)
  then have w: "ex_active x \<le> ex_max_workers x" by (auto simp: executor_ok_def)
  show ?case
    by (rule executor_ok_update [OF ex_fail(4,1), of _ "c\<lparr>cl_queued := False, cl_phase := Ended\<rparr>"])
      (use ex_fail w in \<open>auto simp: submission_failed_def release_def Let_def\<close>)
next
  case (ex_cancel x i c picked_up)
  have "(i, c) \<in> set (ex_calls x)" using ex_cancel(1) by (rule map_of_SomeD)
  with ex_cancel have r: "cl_queued c \<longrightarrow> cl_phase c = Waiting \<and> \<not> cl_released c"
    "cl_phase c = Waiting \<longrightarrow> cl_queued c \<or> cl_released c" "ex_active x \<le> ex_max_workers x"
    by (auto simp: executor_ok_def)
  show ?case
    by (rule executor_ok_update [OF ex_cancel(2,1), of _ "c\<lparr>cl_queued := False,
         cl_phase := (if cl_phase c = Waiting \<and> \<not> picked_up then Ended else cl_phase c),
         cl_released := (cl_released c \<or> cl_queued c \<and> picked_up)\<rparr>"])
      (use r in \<open>auto simp: release_cancelled_def release_def Let_def\<close>)
qed

lemma new_executor_ok: "executor_ok (new_executor w q)"
  by (simp add: executor_ok_def new_executor_def count_calls_def capacity_def)

interpretation executor: invariant_system "\<lambda>x. \<exists>w q. x = new_executor w q" executor_step executor_ok
  by unfold_locales (auto simp: new_executor_ok intro: executor_step_ok)



text \<open>No place is ever leaked: whenever all admitted calls have ended, however they ended, the
  executor counts nothing as queued or active and admits the next call.\<close>

theorem executor_leaks_no_place:
  assumes "executor_step\<^sup>*\<^sup>* (new_executor w q) x" and "\<forall>(i, c)\<in>set (ex_calls x). cl_phase c = Ended"
  shows "ex_queued x = 0 \<and> ex_active x = 0 \<and> snd (admit i x) = None"
proof -
  have ok: "executor_ok x" using executor.reachable_inv [OF _ assms(1)] by blast
  then have "\<forall>(i, c)\<in>set (ex_calls x). \<not> cl_queued c" using assms(2) by (fastforce simp: executor_ok_def)
  then have "count_calls cl_queued x = 0" "count_calls (\<lambda>c. cl_phase c = Executing) x = 0"
    using assms(2) by (auto simp: count_calls_def filter_empty_conv)
  with ok have "ex_queued x = 0" "ex_active x = 0" by (simp_all add: executor_ok_def)
  with ok show ?thesis by (simp add: admit_def capacity_def executor_ok_def)
qed

theorem executor_leaks_no_place_witness:
  "\<exists>x. executor_step\<^sup>*\<^sup>* (new_executor 1 0) x \<and> ex_submitted x = 1 \<and> snd (admit 2 x) = None"
proof -
  let ?x = "fst (admit 1 (new_executor 1 0))"
  let ?c = "\<lparr>cl_queued = True, cl_phase = Waiting, cl_released = False\<rparr>"
  let ?y = "release_cancelled 1 ?c False ?x"
  have "executor_step (new_executor 1 0) ?x" by (rule ex_admit) (simp add: new_executor_def)
  moreover have "executor_step ?x ?y"
    by (rule ex_cancel) (simp add: admit_def new_executor_def capacity_def)
  ultimately have r: "executor_step\<^sup>*\<^sup>* (new_executor 1 0) ?y" by (rule converse_rtranclp_into_rtranclp [OF _ r_into_rtranclp])
  have "\<forall>(i, c)\<in>set (ex_calls ?y). cl_phase c = Ended"
    by (simp add: release_cancelled_def admit_def new_executor_def capacity_def release_def set_call_def)
  from executor_leaks_no_place [OF r this, of 2] r show ?thesis
    by (intro exI [of _ ?y]) (simp add: release_cancelled_def admit_def new_executor_def capacity_def release_def)
qed

end
