(* ===== verification/Deliveries.thy ===== *)
theory Deliveries
  imports OrderPolicy
begin

text \<open>
  Deliveries: templates, delivery records, the check of a record before an automatic delivery,
  the preparation, claim and result of a record (\<open>store.py\<close>), and sending one
  (\<open>send_delivery_record\<close> of \<open>runtime.py\<close>). The platform is an argument.
\<close>

section \<open>Tables\<close>

record delivery_template =
  dt_template_id :: string
  dt_account_id :: string
  dt_name :: ustr
  dt_enabled :: bool
  dt_content :: ustr
  dt_priority :: int
  dt_created_at :: timestamp
  dt_updated_at :: timestamp

record delivery_record =
  dr_record_id :: string
  dr_order_pk :: "string option"
  dr_account_id :: string
  dr_conversation_id :: ustr
  dr_receiver_user_id :: ustr
  dr_template_id :: "string option"
  dr_card_id :: "string option"
  dr_source_message_pk :: "string option"
  dr_send_message_pk :: "string option"
  dr_item_id :: "ustr option"
  dr_order_id :: "ustr option"
  dr_content :: ustr
  dr_status :: string
  dr_send_error :: "ustr option"
  dr_created_at :: timestamp
  dr_updated_at :: timestamp
  dr_sent_at :: "timestamp option"

record delivery_setting =
  ds_account_id :: string
  ds_enabled :: bool
  ds_mode :: string
  ds_require_order_card :: bool
  ds_duplicate_guard_enabled :: bool
  ds_order_status_allowlist :: json
  ds_created_at :: timestamp
  ds_updated_at :: timestamp

record message_card =
  cd_card_id :: string
  cd_account_id :: string
  cd_conversation_id :: ustr
  cd_message_pk :: string
  cd_card_type :: string
  cd_item_id :: "ustr option"
  cd_order_id :: "ustr option"
  cd_title :: "ustr option"
  cd_price :: "ustr option"
  cd_status :: "ustr option"
  cd_image_url :: "ustr option"
  cd_url :: "ustr option"
  cd_raw_summary :: json
  cd_created_at :: timestamp

record delivery_tables =
  dv_accounts :: "string list"
  dv_templates :: "delivery_template list"
  dv_records :: "delivery_record list"
  dv_settings :: "delivery_setting list"
  dv_cards :: "message_card list"

section \<open>Templates\<close>

definition create_delivery_template ::
  "timestamp \<Rightarrow> string \<Rightarrow> string \<Rightarrow> ustr \<Rightarrow> bool \<Rightarrow> ustr \<Rightarrow> int \<Rightarrow> delivery_tables
   \<Rightarrow> delivery_tables \<times> delivery_template option" where
  "create_delivery_template now template_id account_id name enabled content priority db =
     (if account_id \<notin> set (dv_accounts db) then (db, None)
      else let row = \<lparr>dt_template_id = template_id, dt_account_id = account_id, dt_name = name,
                 dt_enabled = enabled, dt_content = content, dt_priority = priority,
                 dt_created_at = now, dt_updated_at = now\<rparr>
           in (db\<lparr>dv_templates := dv_templates db @ [row]\<rparr>, Some row))"

definition given :: "'a option \<Rightarrow> 'a \<Rightarrow> 'a" where
  "given v old = (case v of None \<Rightarrow> old | Some x \<Rightarrow> x)"

definition update_delivery_template ::
  "timestamp \<Rightarrow> string \<Rightarrow> string \<Rightarrow> ustr option \<Rightarrow> bool option \<Rightarrow> ustr option \<Rightarrow> int option \<Rightarrow> delivery_tables
   \<Rightarrow> delivery_tables \<times> delivery_template option" where
  "update_delivery_template now account_id template_id name enabled content priority db =
     (case get_row dt_template_id (dv_templates db) template_id of
        None \<Rightarrow> (db, None)
      | Some t \<Rightarrow>
          if dt_account_id t \<noteq> account_id then (db, None)
          else let row = t\<lparr>dt_name := given name (dt_name t), dt_enabled := given enabled (dt_enabled t),
                     dt_content := given content (dt_content t), dt_priority := given priority (dt_priority t),
                     dt_updated_at := now\<rparr>
               in (db\<lparr>dv_templates := put_row dt_template_id row (dv_templates db)\<rparr>, Some row))"

definition delete_delivery_template :: "string \<Rightarrow> string \<Rightarrow> delivery_tables \<Rightarrow> delivery_tables \<times> bool" where
  "delete_delivery_template account_id template_id db =
     (case get_row dt_template_id (dv_templates db) template_id of
        None \<Rightarrow> (db, False)
      | Some t \<Rightarrow>
          if dt_account_id t \<noteq> account_id then (db, False)
          else (db\<lparr>dv_templates := filter (\<lambda>r. dt_template_id r \<noteq> template_id) (dv_templates db)\<rparr>, True))"

text \<open>\<open>str.replace\<close> for a pattern that is not empty: from the left, without overlaps.\<close>

function replace_all :: "ustr \<Rightarrow> ustr \<Rightarrow> ustr \<Rightarrow> ustr" where
  "replace_all old new t = (case t of
     [] \<Rightarrow> []
   | c # u \<Rightarrow> if old \<noteq> [] \<and> starts_with old t then new @ replace_all old new (drop (length old) t)
             else c # replace_all old new u)"
  by pat_completeness auto
termination
  by (relation "measure (\<lambda>(_, _, t). length t)") auto

declare replace_all.simps [simp del]

definition render_delivery_template ::
  "ustr \<Rightarrow> ustr \<Rightarrow> ustr \<Rightarrow> ustr option \<Rightarrow> ustr option \<Rightarrow> ustr option \<Rightarrow> ustr option \<Rightarrow> ustr option \<Rightarrow> ustr" where
  "render_delivery_template template receiver_user_id conversation_id item_id order_id card_title card_status peer_name =
     ustrip (fold (\<lambda>(key, v) t. replace_all (asc (''{'' @ key @ ''}'')) v t)
       [(''receiver_user_id'', receiver_user_id), (''conversation_id'', conversation_id),
        (''item_id'', u_text item_id), (''order_id'', u_text order_id), (''card_title'', u_text card_title),
        (''card_status'', u_text card_status), (''peer_name'', u_text peer_name)] template)"

section \<open>Which orders and records may be delivered\<close>

definition DELIVERY_ACTIVE_STATES :: "string list" where
  "DELIVERY_ACTIVE_STATES = [''pending'', ''sending'', ''sent'', ''uncertain'']"

definition DELIVERY_ORDER_STATUS_ALLOWLIST :: "ustr list" where
  "DELIVERY_ORDER_STATUS_ALLOWLIST = [asc ''wait_seller_send_goods'', asc ''wait_seller_send'',
     asc ''waiting_seller_send'', [0x5F85, 0x53D1, 0x8D27], [0x5F85, 0x5356, 0x5BB6, 0x53D1, 0x8D27],
     [0x7B49, 0x5F85, 0x5356, 0x5BB6, 0x53D1, 0x8D27]]"

definition status_in_allowlist :: "ustr option \<Rightarrow> ustr list \<Rightarrow> bool" where
  "status_in_allowlist status allowlist \<longleftrightarrow> utruthy status
     \<and> (let normalized = ulower (ustrip (the status));
            tokens = map (\<lambda>i. ulower (ustrip i)) (filter (\<lambda>i. ustrip i \<noteq> []) allowlist)
        in normalized \<in> set tokens \<or> list_ex (\<lambda>token. contains token normalized) tokens)"

definition delivery_automation_allowlist :: "json \<Rightarrow> ustr list" where
  "delivery_automation_allowlist raw =
     (let values = (case raw of JList items \<Rightarrow> filter (\<lambda>t. t \<noteq> []) (map (\<lambda>i. ustrip (py_str i)) items) | _ \<Rightarrow> [])
      in if values \<noteq> [] then values
         else [asc ''WAIT_SELLER_SEND_GOODS'', [0x5F85, 0x53D1, 0x8D27], [0x5F85, 0x5356, 0x5BB6, 0x53D1, 0x8D27]])"

definition has_active_delivery_record ::
  "delivery_record list \<Rightarrow> string \<Rightarrow> ustr \<Rightarrow> string option \<Rightarrow> ustr option \<Rightarrow> ustr option \<Rightarrow> string option \<Rightarrow> bool" where
  "has_active_delivery_record records account_id conversation_id card_id order_id item_id exclude_record_id =
     (let candidates = filter (\<lambda>r. dr_account_id r = account_id \<and> dr_status r \<in> set DELIVERY_ACTIVE_STATES
            \<and> \<not> (truthy exclude_record_id \<and> Some (dr_record_id r) = exclude_record_id)) records in
      if utruthy order_id then list_ex (\<lambda>r. dr_order_id r = order_id) candidates
      else if truthy card_id then list_ex (\<lambda>r. dr_card_id r = card_id) candidates
      else if utruthy item_id
      then list_ex (\<lambda>r. dr_conversation_id r = conversation_id \<and> dr_item_id r = item_id) candidates
      else False)"

definition delivery_setting_defaults :: "string \<Rightarrow> timestamp \<Rightarrow> delivery_setting" where
  "delivery_setting_defaults account_id now = \<lparr>ds_account_id = account_id, ds_enabled = False,
     ds_mode = ''manual_only'', ds_require_order_card = True, ds_duplicate_guard_enabled = True,
     ds_order_status_allowlist = JList (map JStr [asc ''WAIT_SELLER_SEND_GOODS'', [0x5F85, 0x53D1, 0x8D27],
       [0x5F85, 0x5356, 0x5BB6, 0x53D1, 0x8D27]]), ds_created_at = now, ds_updated_at = now\<rparr>"

definition get_or_create_delivery_automation_setting ::
  "timestamp \<Rightarrow> string \<Rightarrow> delivery_tables \<Rightarrow> delivery_tables \<times> delivery_setting" where
  "get_or_create_delivery_automation_setting now account_id db =
     (case get_row ds_account_id (dv_settings db) account_id of
        Some row \<Rightarrow> (db, row)
      | None \<Rightarrow> let row = delivery_setting_defaults account_id now
                in (db\<lparr>dv_settings := dv_settings db @ [row]\<rparr>, row))"

datatype preflight_reason = NotEnabled | ManualOnly | PlatformApiMissing | StatusNotSendable string | NoCard
  | OrderStatusNotAllowed "ustr option" | DuplicateDelivery

definition check_delivery_preflight ::
  "timestamp \<Rightarrow> string \<Rightarrow> string \<Rightarrow> delivery_tables \<Rightarrow> delivery_tables \<times> (bool \<times> preflight_reason list) option" where
  "check_delivery_preflight now account_id record_id db =
     (if account_id \<notin> set (dv_accounts db) then (db, None)
      else case get_row dr_record_id (dv_records db) record_id of
        None \<Rightarrow> (db, None)
      | Some r \<Rightarrow>
          if dr_account_id r \<noteq> account_id then (db, None)
          else let (db, setting) = get_or_create_delivery_automation_setting now account_id db;
                   crd = (if truthy (dr_card_id r) then get_row cd_card_id (dv_cards db) (the (dr_card_id r)) else None);
                   reasons =
                     (if \<not> ds_enabled setting then [NotEnabled] else [])
                     @ (if ds_mode setting = ''manual_only'' then [ManualOnly] else [])
                     @ (if ds_mode setting = ''platform_api'' then [PlatformApiMissing] else [])
                     @ (if dr_status r \<notin> {''pending'', ''failed''} then [StatusNotSendable (dr_status r)] else [])
                     @ (if ds_require_order_card setting \<and> \<not> truthy (dr_card_id r) then [NoCard] else [])
                     @ (case crd of None \<Rightarrow> []
                        | Some c \<Rightarrow> if cd_card_type c = ''order'' \<and> \<not> status_in_allowlist (cd_status c)
                              (delivery_automation_allowlist (ds_order_status_allowlist setting))
                            then [OrderStatusNotAllowed (cd_status c)] else [])
                     @ (if ds_duplicate_guard_enabled setting \<and> has_active_delivery_record (dv_records db) account_id
                            (dr_conversation_id r) (dr_card_id r) (dr_order_id r) (dr_item_id r) (Some (dr_record_id r))
                        then [DuplicateDelivery] else [])
               in (db, Some (reasons = [], reasons)))"

section \<open>Preparing a record\<close>

record prepare_payload =
  pp_receiver_user_id :: ustr
  pp_template_id :: "string option"
  pp_content :: "ustr option"
  pp_card_id :: "string option"
  pp_source_message_pk :: "string option"
  pp_item_id :: "ustr option"
  pp_order_id :: "ustr option"
  pp_peer_name :: "ustr option"

text \<open>The template and the card the payload names; an error when one of them cannot be used.\<close>

definition prepare_template :: "string \<Rightarrow> string option \<Rightarrow> delivery_template list \<Rightarrow> unit + delivery_template option" where
  "prepare_template account_id template_id templates =
     (if \<not> truthy template_id then Inr None
      else case get_row dt_template_id templates (the template_id) of
             None \<Rightarrow> Inl ()
           | Some t \<Rightarrow> if dt_account_id t \<noteq> account_id \<or> \<not> dt_enabled t then Inl () else Inr (Some t))"

definition prepare_card :: "string \<Rightarrow> ustr \<Rightarrow> string option \<Rightarrow> message_card list \<Rightarrow> unit + message_card option" where
  "prepare_card account_id conversation_id card_id cards =
     (if \<not> truthy card_id then Inr None
      else case get_row cd_card_id cards (the card_id) of
             None \<Rightarrow> Inl ()
           | Some c \<Rightarrow>
               if cd_account_id c \<noteq> account_id \<or> cd_conversation_id c \<noteq> conversation_id then Inl ()
               else if cd_card_type c = ''order''
                 \<and> \<not> status_in_allowlist (cd_status c) DELIVERY_ORDER_STATUS_ALLOWLIST then Inl ()
               else Inr (Some c))"

definition of_card :: "(message_card \<Rightarrow> ustr option) \<Rightarrow> message_card option \<Rightarrow> ustr option" where
  "of_card f crd = (case crd of None \<Rightarrow> None | Some c \<Rightarrow> f c)"

definition prepare_content ::
  "prepare_payload \<Rightarrow> ustr \<Rightarrow> delivery_template option \<Rightarrow> message_card option \<Rightarrow> ustr option \<Rightarrow> ustr option \<Rightarrow> ustr" where
  "prepare_content p conversation_id template crd item_id order_id = (case template of
     None \<Rightarrow> u_text (pp_content p)
   | Some t \<Rightarrow> render_delivery_template (dt_content t) (pp_receiver_user_id p) conversation_id item_id order_id
       (of_card cd_title crd) (of_card cd_status crd) (pp_peer_name p))"

definition prepare_delivery_record ::
  "timestamp \<Rightarrow> string \<Rightarrow> string \<Rightarrow> ustr \<Rightarrow> prepare_payload \<Rightarrow> delivery_tables \<Rightarrow> delivery_tables \<times> delivery_record option" where
  "prepare_delivery_record now record_id account_id conversation_id p db =
     (if account_id \<notin> set (dv_accounts db) then (db, None)
      else case (prepare_template account_id (pp_template_id p) (dv_templates db),
                 prepare_card account_id conversation_id (pp_card_id p) (dv_cards db)) of
        (Inr template, Inr crd) \<Rightarrow>
          let card_id = (case crd of None \<Rightarrow> pp_card_id p | Some c \<Rightarrow> Some (cd_card_id c));
              source = (if truthy (pp_source_message_pk p) then pp_source_message_pk p
                        else (case crd of None \<Rightarrow> pp_source_message_pk p | Some c \<Rightarrow> Some (cd_message_pk c)));
              item_id = (case crd of None \<Rightarrow> pp_item_id p | Some c \<Rightarrow> u_or (pp_item_id p) (cd_item_id c));
              order_id = (case crd of None \<Rightarrow> pp_order_id p | Some c \<Rightarrow> u_or (pp_order_id p) (cd_order_id c));
              content = prepare_content p conversation_id template crd item_id order_id in
          if has_active_delivery_record (dv_records db) account_id conversation_id card_id order_id item_id None
          then (db, None)
          else if ustrip content = [] then (db, None)
          else let row = \<lparr>dr_record_id = record_id, dr_order_pk = None, dr_account_id = account_id,
                     dr_conversation_id = conversation_id, dr_receiver_user_id = pp_receiver_user_id p,
                     dr_template_id = (case template of None \<Rightarrow> pp_template_id p | Some t \<Rightarrow> Some (dt_template_id t)),
                     dr_card_id = card_id, dr_source_message_pk = source, dr_send_message_pk = None,
                     dr_item_id = item_id, dr_order_id = order_id, dr_content = content, dr_status = ''pending'',
                     dr_send_error = None, dr_created_at = now, dr_updated_at = now, dr_sent_at = None\<rparr>
               in (db\<lparr>dv_records := dv_records db @ [row]\<rparr>, Some row)
      | _ \<Rightarrow> (db, None))"

section \<open>Preparing the delivery of an order\<close>

text \<open>\<open>OrderDeliveryPreviewRequest\<close>: template and content, stripped and without empty texts.\<close>

record order_delivery_request =
  oq_template_id :: "string option"
  oq_content :: "ustr option"

definition resolve_order_delivery_template :: "string \<Rightarrow> string option \<Rightarrow> delivery_template list \<Rightarrow> delivery_template option" where
  "resolve_order_delivery_template account_id template_id templates =
     (if truthy template_id
      then (case get_row dt_template_id templates (the template_id) of
              None \<Rightarrow> None
            | Some t \<Rightarrow> if dt_account_id t \<noteq> account_id \<or> \<not> dt_enabled t then None else Some t)
      else first_by (\<lambda>t. [dt_priority t, dt_created_at t])
             (filter (\<lambda>t. dt_account_id t = account_id \<and> dt_enabled t) templates))"

definition render_order_delivery_content :: "order_row \<Rightarrow> delivery_template option \<Rightarrow> ustr option \<Rightarrow> ustr" where
  "render_order_delivery_content order template content_override =
     (if utruthy content_override then ustrip (the content_override)
      else case template of
        None \<Rightarrow> []
      | Some t \<Rightarrow> render_delivery_template (dt_content t) (u_text (od_peer_user_id order)) (od_conversation_id order)
          (od_item_id order) (od_platform_order_id order) (od_title order) (od_status_text order) (od_peer_name order))"

datatype delivery_reason = NotWaitingForDelivery | NotConfirmedSale | NoBuyer | NoOrderNumber | NoContent | AlreadyDelivered

definition order_delivery_reasons :: "delivery_record list \<Rightarrow> order_row \<Rightarrow> ustr \<Rightarrow> delivery_reason list" where
  "order_delivery_reasons records order content =
     (if od_status order \<noteq> ''paid_waiting_delivery'' then [NotWaitingForDelivery] else [])
     @ (if od_trade_role order \<noteq> Some ''seller'' \<or> od_data_source order \<noteq> Some ''seller_sold'' then [NotConfirmedSale] else [])
     @ (if \<not> utruthy (od_peer_user_id order) then [NoBuyer] else [])
     @ (if \<not> utruthy (od_platform_order_id order) then [NoOrderNumber] else [])
     @ (if ustrip content = [] then [NoContent] else [])
     @ (if has_active_delivery_record records (od_account_id order) (od_conversation_id order) None
            (od_platform_order_id order) (od_item_id order) None then [AlreadyDelivered] else [])"

definition preview_order_delivery ::
  "string \<Rightarrow> order_delivery_request \<Rightarrow> order_row list \<Rightarrow> delivery_tables
   \<Rightarrow> (order_row \<times> delivery_template option \<times> ustr \<times> delivery_reason list) option" where
  "preview_order_delivery order_pk q orders db =
     (case get_row od_order_pk orders order_pk of
        None \<Rightarrow> None
      | Some order \<Rightarrow>
          let template = resolve_order_delivery_template (od_account_id order) (oq_template_id q) (dv_templates db);
              content = render_order_delivery_content order template (oq_content q) in
          if truthy (oq_template_id q) \<and> template = None then None
          else Some (order, template, content, order_delivery_reasons (dv_records db) order content))"

definition prepare_order_delivery ::
  "timestamp \<Rightarrow> string \<Rightarrow> string \<Rightarrow> order_delivery_request \<Rightarrow> order_row list \<Rightarrow> delivery_tables
   \<Rightarrow> delivery_tables \<times> delivery_record option" where
  "prepare_order_delivery now record_id order_pk q orders db =
     (case get_row od_order_pk orders order_pk of
        None \<Rightarrow> (db, None)
      | Some order \<Rightarrow>
          let template = resolve_order_delivery_template (od_account_id order) (oq_template_id q) (dv_templates db);
              content = render_order_delivery_content order template (oq_content q) in
          if truthy (oq_template_id q) \<and> template = None then (db, None)
          else if order_delivery_reasons (dv_records db) order content \<noteq> [] then (db, None)
          else let row = \<lparr>dr_record_id = record_id, dr_order_pk = Some (od_order_pk order), dr_account_id = od_account_id order,
                     dr_conversation_id = od_conversation_id order, dr_receiver_user_id = u_text (od_peer_user_id order),
                     dr_template_id = map_option dt_template_id template, dr_card_id = None,
                     dr_source_message_pk = od_source_message_pk order, dr_send_message_pk = None,
                     dr_item_id = od_item_id order, dr_order_id = od_platform_order_id order, dr_content = content,
                     dr_status = ''pending'', dr_send_error = None, dr_created_at = now, dr_updated_at = now, dr_sent_at = None\<rparr>
               in (db\<lparr>dv_records := dv_records db @ [row]\<rparr>, Some row))"

section \<open>Sending a record\<close>

definition get_delivery_record :: "string \<Rightarrow> string \<Rightarrow> delivery_tables \<Rightarrow> delivery_record option" where
  "get_delivery_record account_id record_id db = (case get_row dr_record_id (dv_records db) record_id of
     None \<Rightarrow> None | Some r \<Rightarrow> if dr_account_id r = account_id then Some r else None)"

definition claim_delivery_record_for_send ::
  "timestamp \<Rightarrow> string \<Rightarrow> string \<Rightarrow> delivery_tables \<Rightarrow> delivery_tables \<times> delivery_record option" where
  "claim_delivery_record_for_send now account_id record_id db =
     (let p = (\<lambda>r. dr_record_id r = record_id \<and> dr_account_id r = account_id \<and> dr_status r \<in> {''pending'', ''failed''}) in
      if rowcount p (dv_records db) \<noteq> 1 then (db, None)
      else let rows = update_where p (\<lambda>r. r\<lparr>dr_status := ''sending'', dr_send_error := None, dr_updated_at := now\<rparr>) (dv_records db)
           in (db\<lparr>dv_records := rows\<rparr>, get_row dr_record_id rows record_id))"

definition update_delivery_record_after_send ::
  "timestamp \<Rightarrow> string \<Rightarrow> string \<Rightarrow> string \<Rightarrow> string option \<Rightarrow> ustr option \<Rightarrow> delivery_tables
   \<Rightarrow> delivery_tables \<times> delivery_record option" where
  "update_delivery_record_after_send now account_id record_id status send_message_pk send_error db =
     (let normalized = (if status \<in> {''sent'', ''failed'', ''uncertain'', ''cancelled''} then status else ''uncertain'');
          p = (\<lambda>r. dr_record_id r = record_id \<and> dr_account_id r = account_id \<and> dr_status r = ''sending'') in
      if rowcount p (dv_records db) \<noteq> 1 then (db, None)
      else let rows = update_where p (\<lambda>r. r\<lparr>dr_status := normalized, dr_send_message_pk := send_message_pk,
                 dr_send_error := send_error, dr_sent_at := (if normalized = ''sent'' then Some now else None),
                 dr_updated_at := now\<rparr>) (dv_records db)
           in (db\<lparr>dv_records := rows\<rparr>, get_row dr_record_id rows record_id))"

text \<open>
  What became of the call that sends the text: an answer (success, error, whether a request
  was submitted), an exception, or the cancellation of the task.
\<close>

datatype send_answer = Answered bool "ustr option" bool | SendRaised ustr | SendCancelled

definition final_status :: "send_answer \<Rightarrow> string" where
  "final_status a = (case a of
     Answered success _ submitted \<Rightarrow> if success then ''sent'' else if submitted then ''uncertain'' else ''failed''
   | SendRaised _ \<Rightarrow> ''uncertain''
   | SendCancelled \<Rightarrow> ''uncertain'')"

definition answer_error :: "send_answer \<Rightarrow> ustr option" where
  "answer_error a = (case a of
     Answered _ err _ \<Rightarrow> err
   | SendRaised err \<Rightarrow> Some err
   | SendCancelled \<Rightarrow> Some (asc ''delivery request was interrupted; platform result is uncertain''))"

datatype send_result = NotFound | NotSendable string | NotRunning | SentToPlatform send_answer

text \<open>
  \<open>platform\<close> is the core, when the runtime is running. \<open>message_pk\<close> is the row of the outgoing
  message, or nothing when it could not be written.
\<close>

definition send_delivery_record ::
  "(string \<Rightarrow> ustr \<Rightarrow> ustr \<Rightarrow> ustr \<Rightarrow> send_answer) option \<Rightarrow> string option \<Rightarrow> timestamp \<Rightarrow> string \<Rightarrow> string \<Rightarrow> delivery_tables
   \<Rightarrow> delivery_tables \<times> send_result" where
  "send_delivery_record platform message_pk now account_id record_id db =
     (case get_delivery_record account_id record_id db of
        None \<Rightarrow> (db, NotFound)
      | Some _ \<Rightarrow>
          (case claim_delivery_record_for_send now account_id record_id db of
             (db, None) \<Rightarrow> (case get_delivery_record account_id record_id db of
                None \<Rightarrow> (db, NotFound) | Some current \<Rightarrow> (db, NotSendable (dr_status current)))
           | (db, Some r) \<Rightarrow>
               (case platform of
                  None \<Rightarrow> (fst (update_delivery_record_after_send now account_id record_id ''failed'' message_pk
                             (Some (asc ''account runtime is not running'')) db), NotRunning)
                | Some send_text \<Rightarrow>
                    let answer = send_text account_id (dr_conversation_id r) (dr_receiver_user_id r) (dr_content r);
                        pk = (case answer of Answered _ _ _ \<Rightarrow> message_pk | _ \<Rightarrow> None)
                    in (fst (update_delivery_record_after_send now account_id record_id (final_status answer) pk
                          (answer_error answer) db), SentToPlatform answer))))"

section \<open>One delivery per record\<close>

definition sendable :: "string \<Rightarrow> string \<Rightarrow> delivery_tables \<Rightarrow> bool" where
  "sendable account_id record_id db \<longleftrightarrow>
     (\<exists>r. get_delivery_record account_id record_id db = Some r \<and> dr_status r \<in> {''pending'', ''failed''})"

text \<open>The record with the given columns after an attempt to send it.\<close>

definition settled :: "timestamp \<Rightarrow> string \<Rightarrow> string option \<Rightarrow> ustr option \<Rightarrow> delivery_record \<Rightarrow> delivery_record" where
  "settled now status pk err r = r\<lparr>dr_status := status, dr_send_message_pk := pk, dr_send_error := err,
     dr_sent_at := (if status = ''sent'' then Some now else None), dr_updated_at := now\<rparr>"

lemma get_delivery_record_iff:
  "get_delivery_record a i db = Some r \<longleftrightarrow> get_row dr_record_id (dv_records db) i = Some r \<and> dr_account_id r = a"
  by (auto simp: get_delivery_record_def split: option.splits)

lemma claim_delivery:
  assumes d: "keys_distinct dr_record_id (dv_records db)"
  shows "sendable a i db \<Longrightarrow> \<exists>r. get_delivery_record a i db = Some r
       \<and> claim_delivery_record_for_send now a i db
         = (let r' = r\<lparr>dr_status := ''sending'', dr_send_error := None, dr_updated_at := now\<rparr>
            in (db\<lparr>dv_records := put_row dr_record_id r' (dv_records db)\<rparr>, Some r'))"
    and "\<not> sendable a i db \<Longrightarrow> claim_delivery_record_for_send now a i db = (db, None)"
proof -
  let ?p = "\<lambda>r. dr_record_id r = i \<and> dr_account_id r = a \<and> dr_status r \<in> {''pending'', ''failed''}"
  show "\<exists>r. get_delivery_record a i db = Some r
       \<and> claim_delivery_record_for_send now a i db
         = (let r' = r\<lparr>dr_status := ''sending'', dr_send_error := None, dr_updated_at := now\<rparr>
            in (db\<lparr>dv_records := put_row dr_record_id r' (dv_records db)\<rparr>, Some r'))" if "sendable a i db"
  proof -
    from that obtain r where r: "get_delivery_record a i db = Some r" and st: "dr_status r \<in> {''pending'', ''failed''}"
      by (auto simp: sendable_def)
    then have g: "get_row dr_record_id (dv_records db) i = Some r" and "dr_account_id r = a" "dr_record_id r = i"
      by (auto simp: get_delivery_record_iff dest: get_row_SomeD)
    note up = update_one_row [OF d g, of ?p]
    show ?thesis
      using r st up \<open>dr_account_id r = a\<close> \<open>dr_record_id r = i\<close>
      by (simp add: claim_delivery_record_for_send_def Let_def get_put_row)
  qed
  show "claim_delivery_record_for_send now a i db = (db, None)" if "\<not> sendable a i db"
  proof -
    have "\<not> ?p r" if "r \<in> set (dv_records db)" for r
      using that \<open>\<not> sendable a i db\<close> get_row_distinct [OF d that] by (auto simp: sendable_def get_delivery_record_iff)
    then have "rowcount ?p (dv_records db) = 0" by (simp add: rowcount_def filter_empty_conv)
    then show ?thesis by (simp add: claim_delivery_record_for_send_def Let_def)
  qed
qed

lemma settle_delivery:
  assumes d: "keys_distinct dr_record_id (dv_records db)"
    and g: "get_row dr_record_id (dv_records db) i = Some r" "dr_account_id r = a" "dr_status r = ''sending''"
    and s: "status \<in> {''sent'', ''failed'', ''uncertain'', ''cancelled''}"
  shows "fst (update_delivery_record_after_send now a i status pk err db)
     = db\<lparr>dv_records := put_row dr_record_id (settled now status pk err r) (dv_records db)\<rparr>"
proof -
  let ?p = "\<lambda>r. dr_record_id r = i \<and> dr_account_id r = a \<and> dr_status r = ''sending''"
  have i: "dr_record_id r = i" using get_row_SomeD [OF g(1)] by simp
  have "update_where ?p (settled now status pk err) (dv_records db) = put_row dr_record_id (settled now status pk err r) (dv_records db)"
    and "rowcount ?p (dv_records db) = 1"
    using g i by (intro update_one_row [OF d g(1)]; simp add: settled_def)+
  with s show ?thesis by (simp add: update_delivery_record_after_send_def Let_def settled_def [abs_def])
qed

lemma final_status_cases: "final_status x \<in> {''sent'', ''failed'', ''uncertain'', ''cancelled''}"
  by (cases x) (auto simp: final_status_def)

text \<open>The effect of sending: nothing, or the record is settled with the status of the answer.\<close>

lemma send_effect:
  assumes d: "keys_distinct dr_record_id (dv_records db)"
    and s: "send_delivery_record platform pk now a i db = (db', res)"
  shows "(\<not> sendable a i db \<and> db' = db \<and> (\<forall>x. res \<noteq> SentToPlatform x))
     \<or> (sendable a i db \<and> (\<exists>r st pk' err. get_delivery_record a i db = Some r \<and> st \<in> {''sent'', ''failed'', ''uncertain'', ''cancelled''}
          \<and> db' = db\<lparr>dv_records := put_row dr_record_id (settled now st pk' err r) (dv_records db)\<rparr>
          \<and> (case res of SentToPlatform x \<Rightarrow> st = final_status x | NotRunning \<Rightarrow> st = ''failed'' | _ \<Rightarrow> False)))"
proof (cases "sendable a i db")
  case False
  with s claim_delivery(2) [OF d False] show ?thesis
    by (auto simp: send_delivery_record_def split: option.splits)
next
  case True
  from claim_delivery(1) [OF d True, of now] obtain r where g: "get_delivery_record a i db = Some r"
    and c: "claim_delivery_record_for_send now a i db
         = (let r' = r\<lparr>dr_status := ''sending'', dr_send_error := None, dr_updated_at := now\<rparr>
            in (db\<lparr>dv_records := put_row dr_record_id r' (dv_records db)\<rparr>, Some r'))" by blast
  let ?r = "r\<lparr>dr_status := ''sending'', dr_send_error := None, dr_updated_at := now\<rparr>"
  let ?db = "db\<lparr>dv_records := put_row dr_record_id ?r (dv_records db)\<rparr>"
  have id: "dr_record_id r = i" "dr_account_id r = a"
    using g by (auto simp: get_delivery_record_iff dest: get_row_SomeD)
  have d': "keys_distinct dr_record_id (dv_records ?db)" using keys_distinct_put_row [OF d] by simp
  have g': "get_row dr_record_id (dv_records ?db) i = Some ?r" using id by (simp add: get_put_row)
  have st: "fst (update_delivery_record_after_send now a i status x err ?db)
      = db\<lparr>dv_records := put_row dr_record_id (settled now status x err r) (dv_records db)\<rparr>"
    if "status \<in> {''sent'', ''failed'', ''uncertain'', ''cancelled''}" for status x err
  proof -
    have "put_row dr_record_id (settled now status x err ?r) (put_row dr_record_id ?r (dv_records db))
        = put_row dr_record_id (settled now status x err ?r) (dv_records db)"
      by (rule put_row_twice) (simp add: settled_def)
    moreover have "settled now status x err ?r = settled now status x err r" by (simp add: settled_def)
    ultimately show ?thesis using settle_delivery [OF d' g' _ _ that, of a now x err] id by simp
  qed
  show ?thesis
  proof (cases platform)
    case None
    with s g c st [of "''failed''"] True show ?thesis
      by (auto simp: send_delivery_record_def Let_def)
  next
    case (Some send_text)
    let ?x = "send_text a (dr_conversation_id r) (dr_receiver_user_id r) (dr_content r)"
    from Some s g c st [OF final_status_cases [of ?x]] have "res = SentToPlatform ?x"
      and "\<exists>pk' err. db' = db\<lparr>dv_records := put_row dr_record_id (settled now (final_status ?x) pk' err r) (dv_records db)\<rparr>"
      by (auto simp: send_delivery_record_def Let_def)
    with True g final_status_cases [of ?x] show ?thesis by auto
  qed
qed

text \<open>
  Requests to send one record, each with its own platform and time. An attempt counts when the
  text reached the buyer or may have reached him.
\<close>

type_synonym send_attempt = "(string \<Rightarrow> ustr \<Rightarrow> ustr \<Rightarrow> ustr \<Rightarrow> send_answer) option \<times> string option \<times> timestamp"

definition may_have_arrived :: "send_result \<Rightarrow> bool" where
  "may_have_arrived res = (case res of SentToPlatform x \<Rightarrow> final_status x \<noteq> ''failed'' | _ \<Rightarrow> False)"

definition attempt_delivery :: "string \<Rightarrow> string \<Rightarrow> send_attempt \<Rightarrow> delivery_tables \<Rightarrow> delivery_tables \<times> bool" where
  "attempt_delivery a i att db = (case att of (platform, pk, now) \<Rightarrow>
     (case send_delivery_record platform pk now a i db of (db', res) \<Rightarrow> (db', may_have_arrived res)))"

lemma sendable_put:
  "sendable a i (db\<lparr>dv_records := put_row dr_record_id r (dv_records db)\<rparr>) \<longleftrightarrow>
     (if dr_record_id r = i then dr_account_id r = a \<and> dr_status r \<in> {''pending'', ''failed''} else sendable a i db)"
  by (auto simp: sendable_def get_delivery_record_iff get_put_row)

lemma settled_simps [simp]:
  "dr_record_id (settled now st pk err r) = dr_record_id r"
  "dr_account_id (settled now st pk err r) = dr_account_id r"
  "dr_status (settled now st pk err r) = st"
  "dr_order_id (settled now st pk err r) = dr_order_id r"
  by (simp_all add: settled_def)

lemma attempt_cases:
  assumes d: "keys_distinct dr_record_id (dv_records db)" and at: "attempt_delivery a i att db = (db', ok)"
  shows "keys_distinct dr_record_id (dv_records db') \<and> (ok \<longrightarrow> sendable a i db \<and> \<not> sendable a i db')
     \<and> (\<not> sendable a i db \<longrightarrow> db' = db)"
proof -
  obtain platform pk now res where s: "send_delivery_record platform pk now a i db = (db', res)"
    and ok: "ok = may_have_arrived res"
    using at by (auto simp: attempt_delivery_def split: prod.splits)
  from send_effect [OF d s] show ?thesis
  proof
    assume "\<not> sendable a i db \<and> db' = db \<and> (\<forall>x. res \<noteq> SentToPlatform x)"
    then show ?thesis using d ok by (cases res) (auto simp: may_have_arrived_def)
  next
    assume "sendable a i db \<and> (\<exists>r st pk' err. get_delivery_record a i db = Some r \<and> st \<in> {''sent'', ''failed'', ''uncertain'', ''cancelled''}
          \<and> db' = db\<lparr>dv_records := put_row dr_record_id (settled now st pk' err r) (dv_records db)\<rparr>
          \<and> (case res of SentToPlatform x \<Rightarrow> st = final_status x | NotRunning \<Rightarrow> st = ''failed'' | _ \<Rightarrow> False))"
    then obtain r st pk' err where sd: "sendable a i db" and g: "get_delivery_record a i db = Some r"
      and st: "st \<in> {''sent'', ''failed'', ''uncertain'', ''cancelled''}"
      and db': "db' = db\<lparr>dv_records := put_row dr_record_id (settled now st pk' err r) (dv_records db)\<rparr>"
      and res: "case res of SentToPlatform x \<Rightarrow> st = final_status x | NotRunning \<Rightarrow> st = ''failed'' | _ \<Rightarrow> False" by blast
    have "dr_record_id r = i" using g by (auto simp: get_delivery_record_iff dest: get_row_SomeD)
    moreover have "ok \<longrightarrow> st \<notin> {''pending'', ''failed''}"
      using res st ok by (cases res) (auto simp: may_have_arrived_def)
    ultimately show ?thesis using sd keys_distinct_put_row [OF d] unfolding db' sendable_put by simp
  qed
qed

interpretation deliveries: one_shot "attempt_delivery a i" "sendable a i" "\<lambda>db. keys_distinct dr_record_id (dv_records db)"
  for a i
  by unfold_locales (blast dest: attempt_cases)+


section \<open>Two records for one order\<close>

lemma send_succeeds:
  assumes d: "keys_distinct dr_record_id (dv_records db)" and sd: "sendable a i db"
    and ok: "\<And>c u t. send_text a c u t = Answered True None True"
  shows "\<exists>db' r pk' err. send_delivery_record (Some send_text) pk now a i db = (db', SentToPlatform (Answered True None True))
     \<and> get_delivery_record a i db = Some r
     \<and> db' = db\<lparr>dv_records := put_row dr_record_id (settled now ''sent'' pk' err r) (dv_records db)\<rparr>"
proof -
  obtain db' res where s: "send_delivery_record (Some send_text) pk now a i db = (db', res)" by (metis surj_pair)
  from claim_delivery(1) [OF d sd, of now] obtain r where "get_delivery_record a i db = Some r"
    "claim_delivery_record_for_send now a i db
         = (let r' = r\<lparr>dr_status := ''sending'', dr_send_error := None, dr_updated_at := now\<rparr>
            in (db\<lparr>dv_records := put_row dr_record_id r' (dv_records db)\<rparr>, Some r'))" by blast
  with s have "res = SentToPlatform (Answered True None True)"
    by (auto simp: send_delivery_record_def Let_def ok)
  with s send_effect [OF d s] sd show ?thesis by (auto simp: final_status_def)
qed

lemma prepared_row:
  assumes "prepare_delivery_record now i a c p db = (db', Some r)"
  shows "db' = db\<lparr>dv_records := dv_records db @ [r]\<rparr>" "dr_record_id r = i" "dr_account_id r = a" "dr_status r = ''pending''"
  using assms by (auto simp: prepare_delivery_record_def Let_def split: if_splits sum.splits option.splits)

text \<open>The guard against double deliveries does not cover a failed record: while it is failed another
  record can be prepared for the same order and sent, and afterwards the failed one is still
  accepted by the send operation, so the order is delivered twice.\<close>

theorem failed_record_allows_second_delivery:
  assumes d: "keys_distinct dr_record_id (dv_records db)"
    and f: "get_delivery_record a i db = Some failed" "dr_status failed = ''failed''" "dr_order_id failed = Some order"
    and p: "prepare_delivery_record now j a c payload db = (db1, Some fresh)" "dr_order_id fresh = Some order"
    and j: "get_row dr_record_id (dv_records db) j = None"
    and ok: "\<And>c u t. send_text a c u t = Answered True None True"
  shows "\<exists>db2 db3 r s. send_delivery_record (Some send_text) pk t1 a j db1 = (db2, SentToPlatform (Answered True None True))
     \<and> send_delivery_record (Some send_text) pk t2 a i db2 = (db3, SentToPlatform (Answered True None True))
     \<and> get_delivery_record a j db3 = Some r \<and> dr_status r = ''sent'' \<and> dr_order_id r = Some order
     \<and> get_delivery_record a i db3 = Some s \<and> dr_status s = ''sent'' \<and> dr_order_id s = Some order"
proof -
  note new = prepared_row [OF p(1)]
  have fi: "get_row dr_record_id (dv_records db) i = Some failed" "dr_account_id failed = a" "dr_record_id failed = i"
    using f(1) by (auto simp: get_delivery_record_iff dest: get_row_SomeD)
  have ij: "i \<noteq> j" using fi(1) j by auto
  have d1: "keys_distinct dr_record_id (dv_records db1)" unfolding new(1) using d j new(2) by (simp add: keys_distinct_append1)
  have gj: "get_delivery_record a j db1 = Some fresh" using j new by (simp add: get_delivery_record_iff get_row_append)
  then have "sendable a j db1" using new(4) by (simp add: sendable_def)
  from send_succeeds [where send_text = send_text, OF d1 this ok, of pk t1] gj obtain db2 pk' err where
    s1: "send_delivery_record (Some send_text) pk t1 a j db1 = (db2, SentToPlatform (Answered True None True))"
    and db2: "db2 = db1\<lparr>dv_records := put_row dr_record_id (settled t1 ''sent'' pk' err fresh) (dv_records db1)\<rparr>" by auto
  have d2: "keys_distinct dr_record_id (dv_records db2)" unfolding db2 using keys_distinct_put_row [OF d1] by simp
  have gi: "get_delivery_record a i db2 = Some failed"
    using fi ij new by (simp add: db2 get_delivery_record_iff get_put_row get_row_append)
  then have "sendable a i db2" using f(2) by (simp add: sendable_def)
  from send_succeeds [where send_text = send_text, OF d2 this ok, of pk t2] gi obtain db3 pk'' err' where
    s2: "send_delivery_record (Some send_text) pk t2 a i db2 = (db3, SentToPlatform (Answered True None True))"
    and db3: "db3 = db2\<lparr>dv_records := put_row dr_record_id (settled t2 ''sent'' pk'' err' failed) (dv_records db2)\<rparr>" by auto
  have "get_delivery_record a i db3 = Some (settled t2 ''sent'' pk'' err' failed)"
    "get_delivery_record a j db3 = Some (settled t1 ''sent'' pk' err fresh)"
    using fi ij new by (simp_all add: db2 db3 get_delivery_record_iff get_put_row)
  with s1 s2 f(3) p(2) show ?thesis by (metis settled_simps(3,4))
qed

section \<open>One delivery per order\<close>

definition attempt_prepare ::
  "string \<Rightarrow> order_row list \<Rightarrow> timestamp \<times> string \<times> order_delivery_request \<Rightarrow> delivery_tables \<Rightarrow> delivery_tables \<times> bool" where
  "attempt_prepare order_pk orders r db = (case r of (now, record_id, q) \<Rightarrow>
     (case prepare_order_delivery now record_id order_pk q orders db of (db', res) \<Rightarrow> (db', res \<noteq> None)))"

definition undelivered :: "string \<Rightarrow> order_row list \<Rightarrow> delivery_tables \<Rightarrow> bool" where
  "undelivered order_pk orders db = (case get_row od_order_pk orders order_pk of
     None \<Rightarrow> False
   | Some order \<Rightarrow> \<not> has_active_delivery_record (dv_records db) (od_account_id order) (od_conversation_id order) None
       (od_platform_order_id order) (od_item_id order) None)"

lemma prepare_order_effect:
  assumes p: "prepare_order_delivery now i pk q orders db = (db', Some r)"
  obtains order where "get_row od_order_pk orders pk = Some order" "db' = db\<lparr>dv_records := dv_records db @ [r]\<rparr>"
    "order_delivery_reasons (dv_records db) order (dr_content r) = []" "dr_account_id r = od_account_id order"
    "dr_order_id r = od_platform_order_id order" "dr_status r = ''pending''"
proof -
  from p obtain order where "get_row od_order_pk orders pk = Some order" "db' = db\<lparr>dv_records := dv_records db @ [r]\<rparr>"
    "order_delivery_reasons (dv_records db) order (dr_content r) = [] \<and> dr_account_id r = od_account_id order
     \<and> dr_order_id r = od_platform_order_id order \<and> dr_status r = ''pending''"
    by (auto simp: prepare_order_delivery_def Let_def split: option.splits if_splits)
  then show thesis using that by blast
qed

lemma no_reasons_iff:
  "order_delivery_reasons records order content = [] \<longleftrightarrow> od_status order = ''paid_waiting_delivery''
     \<and> od_trade_role order = Some ''seller'' \<and> od_data_source order = Some ''seller_sold'' \<and> utruthy (od_peer_user_id order)
     \<and> utruthy (od_platform_order_id order) \<and> ustrip content \<noteq> []
     \<and> \<not> has_active_delivery_record records (od_account_id order) (od_conversation_id order) None
          (od_platform_order_id order) (od_item_id order) None"
  by (auto simp: order_delivery_reasons_def)

lemma attempt_prepare_cases:
  assumes "attempt_prepare pk orders x db = (db', ok)"
  shows "ok \<longrightarrow> undelivered pk orders db \<and> \<not> undelivered pk orders db'" "\<not> ok \<longrightarrow> db' = db"
proof -
  obtain now i q where x: "x = (now, i, q)" by (cases x)
  obtain res where p: "prepare_order_delivery now i pk q orders db = (db', res)" and ok: "ok \<longleftrightarrow> res \<noteq> None"
    using assms by (auto simp: attempt_prepare_def x split: prod.splits)
  show "\<not> ok \<longrightarrow> db' = db"
    using p ok by (auto simp: prepare_order_delivery_def Let_def split: option.splits if_splits)
  show "ok \<longrightarrow> undelivered pk orders db \<and> \<not> undelivered pk orders db'"
  proof
    assume ok
    then obtain r where "res = Some r" using ok by auto
    from p [unfolded this] obtain order where o: "get_row od_order_pk orders pk = Some order"
      and db': "db' = db\<lparr>dv_records := dv_records db @ [r]\<rparr>" and n: "order_delivery_reasons (dv_records db) order (dr_content r) = []"
      and r: "dr_account_id r = od_account_id order" "dr_order_id r = od_platform_order_id order" "dr_status r = ''pending''"
      by (rule prepare_order_effect)
    from n have "utruthy (od_platform_order_id order)" "\<not> has_active_delivery_record (dv_records db) (od_account_id order)
        (od_conversation_id order) None (od_platform_order_id order) (od_item_id order) None"
      by (simp_all add: no_reasons_iff)
    with o r show "undelivered pk orders db \<and> \<not> undelivered pk orders db'"
      by (simp add: undelivered_def db' has_active_delivery_record_def DELIVERY_ACTIVE_STATES_def Let_def)
  qed
qed

interpretation preparations: exclusive_claim "attempt_prepare pk orders" "undelivered pk orders" "\<lambda>_. True" for pk orders
  by unfold_locales (blast dest: attempt_prepare_cases)+

text \<open>However often the delivery of an order is requested, at most one record is prepared for it as long as that
  record has not failed, and only for a confirmed sale that waits for delivery and names its
  buyer.\<close>

theorem order_prepared_once:
  assumes "claim_all (attempt_prepare pk orders) requests db = (db', prepared)"
  shows "winners prepared \<le> 1
     \<and> (winners prepared = 1 \<longrightarrow> (\<exists>order. get_row od_order_pk orders pk = Some order \<and> od_status order = ''paid_waiting_delivery''
           \<and> od_trade_role order = Some ''seller'' \<and> od_data_source order = Some ''seller_sold'' \<and> utruthy (od_peer_user_id order)))"
proof
  show "winners prepared \<le> 1" using assms by (intro preparations.at_most_one_wins) simp_all
  show "winners prepared = 1 \<longrightarrow> (\<exists>order. get_row od_order_pk orders pk = Some order \<and> od_status order = ''paid_waiting_delivery''
           \<and> od_trade_role order = Some ''seller'' \<and> od_data_source order = Some ''seller_sold'' \<and> utruthy (od_peer_user_id order))"
    (is "_ \<longrightarrow> ?P")
  proof
    assume "winners prepared = 1"
    then have "filter id prepared \<noteq> []" by (auto simp: winners_def)
    then have "True \<in> set prepared" by (auto simp: filter_empty_conv)
    then show ?P using assms
    proof (induction requests arbitrary: db prepared)
      case (Cons x xs)
      obtain d ok where a: "attempt_prepare pk orders x db = (d, ok)" by (metis surj_pair)
      obtain u oks where c: "claim_all (attempt_prepare pk orders) xs d = (u, oks)" by (metis surj_pair)
      show ?case
      proof (cases ok)
        case True
        with a obtain now i q r where "prepare_order_delivery now i pk q orders db = (d, Some r)"
          by (auto simp: attempt_prepare_def split: prod.splits)
        then show ?thesis by (rule prepare_order_effect) (auto simp: no_reasons_iff)
      next
        case False
        with Cons.prems a c have "True \<in> set oks" "u = db'" by auto
        with Cons.IH [of oks d] c show ?thesis by simp
      qed
    qed simp
  qed
qed

section \<open>An example\<close>

definition sample_delivery :: "string \<Rightarrow> string \<Rightarrow> delivery_record" where
  "sample_delivery i status = \<lparr>dr_record_id = i, dr_order_pk = None, dr_account_id = ''a'', dr_conversation_id = asc ''7'',
     dr_receiver_user_id = asc ''9'', dr_template_id = None, dr_card_id = None, dr_source_message_pk = None,
     dr_send_message_pk = None, dr_item_id = None, dr_order_id = Some (asc ''42''), dr_content = asc ''key'',
     dr_status = status, dr_send_error = None, dr_created_at = 0, dr_updated_at = 0, dr_sent_at = None\<rparr>"

definition sample_deliveries :: "string \<Rightarrow> delivery_tables" where
  "sample_deliveries status = \<lparr>dv_accounts = [''a''], dv_templates = [], dv_records = [sample_delivery ''x'' status],
     dv_settings = [], dv_cards = []\<rparr>"

definition sample_payload :: prepare_payload where
  "sample_payload = \<lparr>pp_receiver_user_id = asc ''9'', pp_template_id = None, pp_content = Some (asc ''key''),
     pp_card_id = None, pp_source_message_pk = None, pp_item_id = None, pp_order_id = Some (asc ''42''), pp_peer_name = None\<rparr>"


theorem failed_record_allows_second_delivery_witness:
  "\<exists>db1 db2 db3 fresh r s. prepare_delivery_record 1 ''y'' ''a'' (asc ''7'') sample_payload (sample_deliveries ''failed'') = (db1, Some fresh)
     \<and> send_delivery_record (Some (\<lambda>_ _ _ _. Answered True None True)) None 2 ''a'' ''y'' db1 = (db2, SentToPlatform (Answered True None True))
     \<and> send_delivery_record (Some (\<lambda>_ _ _ _. Answered True None True)) None 3 ''a'' ''x'' db2 = (db3, SentToPlatform (Answered True None True))
     \<and> get_delivery_record ''a'' ''y'' db3 = Some r \<and> dr_status r = ''sent''
     \<and> get_delivery_record ''a'' ''x'' db3 = Some s \<and> dr_status s = ''sent''"
proof -
  let ?db = "sample_deliveries ''failed''"
  have "case prepare_delivery_record 1 ''y'' ''a'' (asc ''7'') sample_payload ?db of (_, Some r) \<Rightarrow> dr_order_id r = Some (asc ''42'') | _ \<Rightarrow> False"
    by code_simp
  then obtain db1 fresh where p: "prepare_delivery_record 1 ''y'' ''a'' (asc ''7'') sample_payload ?db = (db1, Some fresh)"
    and o: "dr_order_id fresh = Some (asc ''42'')" by (auto split: prod.splits option.splits)
  have k: "keys_distinct dr_record_id (dv_records ?db)" "get_row dr_record_id (dv_records ?db) ''y'' = None"
    "get_delivery_record ''a'' ''x'' ?db = Some (sample_delivery ''x'' ''failed'')"
    "dr_status (sample_delivery ''x'' ''failed'') = ''failed''" "dr_order_id (sample_delivery ''x'' ''failed'') = Some (asc ''42'')"
    by (simp_all add: sample_deliveries_def sample_delivery_def keys_distinct_def get_delivery_record_def)
  from failed_record_allows_second_delivery [where send_text = "\<lambda>_ _ _ _. Answered True None True", OF k(1,3,4,5) p o k(2) refl, of None 2 3]
  show ?thesis using p by blast
qed

definition sample_sale :: order_row where
  "sample_sale = (order_defaults ''o1'' ''a'' (asc ''7'') 0)\<lparr>od_status := ''paid_waiting_delivery'', od_trade_role := Some ''seller'',
     od_data_source := Some ''seller_sold'', od_peer_user_id := Some (asc ''9''), od_platform_order_id := Some (asc ''42'')\<rparr>"

theorem order_prepared_once_witness:
  "\<exists>db' prepared. claim_all (attempt_prepare ''o1'' [sample_sale])
       [(1, ''r1'', \<lparr>oq_template_id = None, oq_content = Some (asc ''key'')\<rparr>), (2, ''r2'', \<lparr>oq_template_id = None, oq_content = Some (asc ''key'')\<rparr>)]
       ((sample_deliveries ''failed'')\<lparr>dv_records := []\<rparr>) = (db', prepared)
     \<and> winners prepared \<le> 1 \<and> prepared = [True, False]"
proof -
  let ?rs = "[(1, ''r1'', \<lparr>oq_template_id = None, oq_content = Some (asc ''key'')\<rparr>), (2, ''r2'', \<lparr>oq_template_id = None, oq_content = Some (asc ''key'')\<rparr>)]
     :: (timestamp \<times> string \<times> order_delivery_request) list"
  let ?db = "(sample_deliveries ''failed'')\<lparr>dv_records := []\<rparr>"
  obtain db' prepared where c: "claim_all (attempt_prepare ''o1'' [sample_sale]) ?rs ?db = (db', prepared)" by (metis surj_pair)
  have "snd (claim_all (attempt_prepare ''o1'' [sample_sale]) ?rs ?db) = [True, False]" by code_simp
  then show ?thesis using order_prepared_once [OF c] c by auto
qed

end
