(* ===== verification/CardParser.thy ===== *)
theory CardParser
  imports PyText
begin

text \<open>
  The extraction of item and order cards from the payload of a message (\<open>card_parser.py\<close>).
  \<open>json.loads\<close>, base64, \<open>urlparse\<close>, \<open>parse_qs\<close> and \<open>str.isdigit\<close> are arguments; so is the order in which
  Python iterates over a set of strings, which differs from process to process.
\<close>

section \<open>Library functions\<close>

text \<open>
  \<open>cx_urlparse\<close> gives scheme, host name and query, or nothing when it raises; \<open>cx_b64\<close> decodes base64
  (strictly or not) and UTF-8; \<open>cx_iter\<close> lists the elements of a set in iteration order.
\<close>

record codec =
  cx_loads :: "ustr \<Rightarrow> json option"
  cx_b64 :: "bool \<Rightarrow> ustr \<Rightarrow> ustr option"
  cx_urlparse :: "ustr \<Rightarrow> (ustr \<times> ustr option \<times> ustr) option"
  cx_parse_qs :: "ustr \<Rightarrow> (ustr \<times> ustr list) list"
  cx_isdigit :: "int \<Rightarrow> bool"
  cx_iter :: "ustr list \<Rightarrow> ustr list"

definition ITEM_ID_KEYS :: "ustr list" where
  "ITEM_ID_KEYS = map asc [''itemid'', ''item_id'', ''itemId'', ''itemID'', ''auctionid'', ''auctionId'']"

definition ORDER_ID_KEYS :: "ustr list" where
  "ORDER_ID_KEYS = map asc [''orderid'', ''order_id'', ''orderId'', ''bizorderid'', ''bizOrderId'', ''tradeid'', ''trade_id'', ''tradeId'', ''orderNo'']"

definition TITLE_KEYS :: "ustr list" where
  "TITLE_KEYS = map asc [''title'', ''itemtitle'', ''itemTitle'', ''subject'', ''name'', ''itemName'', ''goodsTitle'']"

definition PRICE_KEYS :: "ustr list" where
  "PRICE_KEYS = map asc [''price'', ''amount'', ''payAmount'', ''actualFee'', ''salePrice'', ''currentPrice'']"

definition STATUS_KEYS :: "ustr list" where
  "STATUS_KEYS = map asc [''status'', ''statusText'', ''orderStatus'', ''tradeStatus'', ''tradeStatusText'']"

definition IMAGE_KEYS :: "ustr list" where
  "IMAGE_KEYS = map asc [''image'', ''imageUrl'', ''picUrl'', ''pictureUrl'', ''mainPic'', ''mainImage'', ''cover'', ''coverUrl'', ''url'']"

definition URL_KEYS :: "ustr list" where
  "URL_KEYS = map asc [''targetUrl'', ''itemUrl'', ''jumpUrl'', ''detailUrl'', ''url'']"

record parsed_card =
  pc_card_type :: string
  pc_item_id :: "ustr option"
  pc_order_id :: "ustr option"
  pc_title :: "ustr option"
  pc_price :: "ustr option"
  pc_status :: "ustr option"
  pc_image_url :: "ustr option"
  pc_url :: "ustr option"
  pc_raw_summary :: json

record item_context =
  ic_item_id :: ustr
  ic_title :: "ustr option"
  ic_price :: "ustr option"
  ic_image_url :: "ustr option"
  ic_url :: "ustr option"
  ic_source :: string

record parsed_order =
  po_event_type :: string
  po_status :: string
  po_status_text :: ustr
  po_order_id :: "ustr option"
  po_item_id :: "ustr option"
  po_title :: "ustr option"
  po_price :: "ustr option"
  po_image_url :: "ustr option"
  po_peer_user_id :: "ustr option"
  po_task_name :: "ustr option"
  po_trade_role :: string
  po_raw_summary :: json

section \<open>Values\<close>

definition normalize_scalar :: "json \<Rightarrow> ustr option" where
  "normalize_scalar v = (case v of
     JInt _ \<Rightarrow> Some (py_str v) | JFloat _ \<Rightarrow> Some (py_str v) | JBool _ \<Rightarrow> Some (py_str v)
   | JStr t \<Rightarrow> u_none (ustrip t) | _ \<Rightarrow> None)"

text \<open>A new value when the text is JSON, nothing when the value stays as it is.\<close>

definition maybe_json :: "codec \<Rightarrow> json \<Rightarrow> json option" where
  "maybe_json cx v = (case v of
     JStr s \<Rightarrow> (case ustrip s of [] \<Rightarrow> None
       | c # t \<Rightarrow> if c = 91 \<or> c = 123 then cx_loads cx (c # t) else None)
   | _ \<Rightarrow> None)"

definition or_same :: "json option \<Rightarrow> json \<Rightarrow> json" where
  "or_same w v = (case w of None \<Rightarrow> v | Some x \<Rightarrow> x)"

definition padded :: "ustr \<Rightarrow> ustr" where
  "padded t = t @ replicate (nat ((- int (length t)) mod 4)) 61"

definition starts_json :: "ustr \<Rightarrow> bool" where
  "starts_json t = (case t of [] \<Rightarrow> False | c # _ \<Rightarrow> c = 91 \<or> c = 123)"

definition decode_embedded_value :: "codec \<Rightarrow> json \<Rightarrow> json" where
  "decode_embedded_value cx v = (case maybe_json cx v of
     Some w \<Rightarrow> w
   | None \<Rightarrow> (case v of
       JStr s \<Rightarrow> let text = ustrip s in
         if length text < 8 \<or> 2000000 < length text then v
         else (case cx_b64 cx True (padded text) of
                 None \<Rightarrow> v
               | Some decoded \<Rightarrow> if starts_json (ustrip decoded) then or_same (cx_loads cx (ustrip decoded)) v else v)
     | _ \<Rightarrow> v))"

text \<open>The values of a payload, down to a depth; embedded texts are decoded on the way.\<close>

fun walk :: "codec \<Rightarrow> nat \<Rightarrow> json \<Rightarrow> json list" where
  "walk cx 0 v = []"
| "walk cx (Suc n) v = (let w = decode_embedded_value cx v in
     w # (case w of
            JObj kvs \<Rightarrow> concat (map (\<lambda>(_, c). walk cx n c) kvs)
          | JList vs \<Rightarrow> concat (map (walk cx n) vs)
          | _ \<Rightarrow> []))"

text \<open>\<open>_walk_payload(value)\<close>: depths 0 to 8.\<close>

definition walk_payload :: "codec \<Rightarrow> json \<Rightarrow> json list" where
  "walk_payload cx v = walk cx 9 v"

fun objects :: "json list \<Rightarrow> (ustr \<times> json) list list" where
  "objects [] = []"
| "objects (JObj kvs # vs) = kvs # objects vs"
| "objects (_ # vs) = objects vs"

definition payload_objects :: "codec \<Rightarrow> json \<Rightarrow> (ustr \<times> json) list list" where
  "payload_objects cx v = objects (walk_payload cx v)"

fun first_some :: "'a option list \<Rightarrow> 'a option" where
  "first_some [] = None"
| "first_some (Some x # xs) = Some x"
| "first_some (None # xs) = first_some xs"

text \<open>The value under the last key with the given lower-case form, when it is a scalar.\<close>

definition key_value :: "(ustr \<times> json) list \<Rightarrow> ustr \<Rightarrow> ustr option" where
  "key_value kvs key = (case find (\<lambda>(k, _). ulower k = ulower key) (rev kvs) of
     None \<Rightarrow> None | Some (_, v) \<Rightarrow> normalize_scalar v)"

definition first_value :: "codec \<Rightarrow> (ustr \<times> json) list \<Rightarrow> ustr list \<Rightarrow> ustr option" where
  "first_value cx kvs keys = first_some (map (key_value kvs) (cx_iter cx keys))"

definition http_text :: "ustr \<Rightarrow> bool" where
  "http_text t \<longleftrightarrow> starts_with (asc ''http://'') t \<or> starts_with (asc ''https://'') t"

definition http_scalar :: "json \<Rightarrow> ustr option" where
  "http_scalar v = (case normalize_scalar v of None \<Rightarrow> None | Some t \<Rightarrow> if http_text t then Some t else None)"

lemma size_kvs: "(k, c) \<in> set kvs \<Longrightarrow> size c < size (JObj kvs)"
  by (induction kvs) auto

lemma size_vs: "i \<in> set vs \<Longrightarrow> size i < size (JList vs)"
  by (induction vs) auto

function first_image :: "codec \<Rightarrow> json \<Rightarrow> ustr option" where
  "first_image cx node = (case node of
     JObj kvs \<Rightarrow>
       (case (case first_value cx kvs IMAGE_KEYS of
                None \<Rightarrow> None | Some t \<Rightarrow> if http_text t then Some t else None) of
          Some t \<Rightarrow> Some t
        | None \<Rightarrow> first_some (map (\<lambda>(_, child). case child of
             JObj _ \<Rightarrow> first_image cx child
           | JList items \<Rightarrow> first_some (map (\<lambda>item. case item of
                 JObj _ \<Rightarrow> first_image cx item | _ \<Rightarrow> http_scalar item) items)
           | _ \<Rightarrow> None) kvs))
   | _ \<Rightarrow> None)"
  by pat_completeness auto
termination
  by (relation "measure (size \<circ> snd)") (auto simp del: json.size dest!: size_kvs size_vs)

declare first_image.simps [simp del]

text \<open>At most 20 scalar entries, in order.\<close>

definition is_scalar :: "json \<Rightarrow> bool" where
  "is_scalar v = (case v of JList _ \<Rightarrow> False | JObj _ \<Rightarrow> False | _ \<Rightarrow> True)"

definition summary :: "(ustr \<times> json) list \<Rightarrow> json" where
  "summary kvs = JObj (take 20 (filter (\<lambda>(_, v). is_scalar v) kvs))"

section \<open>Cards\<close>

definition lower_keys :: "(ustr \<times> json) list \<Rightarrow> ustr list" where
  "lower_keys kvs = map (\<lambda>(k, _). ulower k) kvs"

definition meets :: "ustr list \<Rightarrow> ustr list \<Rightarrow> bool" where
  "meets xs ys = list_ex (\<lambda>x. x \<in> set ys) xs"

definition looks_like_item_card :: "(ustr \<times> json) list \<Rightarrow> bool" where
  "looks_like_item_card kvs \<longleftrightarrow>
     meets (lower_keys kvs) (map asc [''itemcard'', ''itemid'', ''item_id'', ''auctionid''])
     \<and> meets (lower_keys kvs) (map asc [''title'', ''itemtitle'', ''price'', ''mainpic'', ''picurl'', ''imageurl''])"

definition looks_like_order_card :: "(ustr \<times> json) list \<Rightarrow> bool" where
  "looks_like_order_card kvs = meets (lower_keys kvs) (map ulower ORDER_ID_KEYS)"

definition count_truthy :: "ustr option list \<Rightarrow> nat" where
  "count_truthy vs = length (filter utruthy vs)"

definition parse_dict_node :: "codec \<Rightarrow> (ustr \<times> json) list \<Rightarrow> parsed_card option" where
  "parse_dict_node cx kvs =
     (if \<not> looks_like_item_card kvs \<and> \<not> looks_like_order_card kvs then None
      else let item_id = first_value cx kvs ITEM_ID_KEYS; order_id = first_value cx kvs ORDER_ID_KEYS;
               title = first_value cx kvs TITLE_KEYS; price = first_value cx kvs PRICE_KEYS;
               status = first_value cx kvs STATUS_KEYS; image_url = first_image cx (JObj kvs);
               url = first_value cx kvs URL_KEYS;
               c = \<lparr>pc_card_type = ''product'', pc_item_id = item_id, pc_order_id = None, pc_title = title,
                    pc_price = price, pc_status = status, pc_image_url = image_url, pc_url = url,
                    pc_raw_summary = summary kvs\<rparr> in
           if utruthy order_id then Some (c\<lparr>pc_card_type := ''order'', pc_order_id := order_id\<rparr>)
           else if utruthy item_id \<and> 2 \<le> count_truthy [item_id, title, price, image_url] then Some c
           else None)"

section \<open>Items\<close>

definition numeric_item_id :: "codec \<Rightarrow> ustr option \<Rightarrow> ustr option" where
  "numeric_item_id cx v = (case v of None \<Rightarrow> None
     | Some s \<Rightarrow> let t = ustrip s in if t \<noteq> [] \<and> list_all (cx_isdigit cx) t then Some t else None)"

definition rstrip_dot :: "ustr \<Rightarrow> ustr" where
  "rstrip_dot t = rev (dropWhile (\<lambda>c. c = 46) (rev t))"

definition ends_with :: "ustr \<Rightarrow> ustr \<Rightarrow> bool" where
  "ends_with suffix t = starts_with (rev suffix) (rev t)"

definition is_goofish_host :: "ustr option \<Rightarrow> bool" where
  "is_goofish_host hostname \<longleftrightarrow> utruthy hostname
     \<and> (let n = ulower (rstrip_dot (the hostname)) in n = asc ''goofish.com'' \<or> ends_with (asc ''.goofish.com'') n)"

definition query_value :: "(ustr \<times> ustr list) list \<Rightarrow> string list \<Rightarrow> ustr option" where
  "query_value query keys = first_some (map (\<lambda>key.
     case find (\<lambda>(k, _). ulower k = ulower (asc key)) (rev query) of
       None \<Rightarrow> None | Some (_, []) \<Rightarrow> None | Some (_, v # _) \<Rightarrow> u_none (ustrip v)) keys)"

definition parse_url_query :: "codec \<Rightarrow> ustr option \<Rightarrow> (ustr \<times> ustr list) list" where
  "parse_url_query cx v = (if \<not> utruthy v then [] else case cx_urlparse cx (the v) of
     None \<Rightarrow> [] | Some (_, _, q) \<Rightarrow> cx_parse_qs cx q)"

datatype url_error = BadUrl

definition XIANYU_ITEM_URL :: "ustr \<Rightarrow> ustr" where
  "XIANYU_ITEM_URL item_id = asc ''https://h5.m.goofish.com/item?id='' @ item_id"

definition normalize_item_url :: "codec \<Rightarrow> ustr option \<Rightarrow> ustr option \<Rightarrow> url_error + ustr option" where
  "normalize_item_url cx raw_url item_id =
     (let raw = (case raw_url of None \<Rightarrow> None | Some t \<Rightarrow> u_none (ustrip t)); wanted = numeric_item_id cx item_id in
      case raw of
        None \<Rightarrow> Inr (map_option XIANYU_ITEM_URL wanted)
      | Some url \<Rightarrow>
          (case cx_urlparse cx url of
             None \<Rightarrow> Inl BadUrl
           | Some (scheme, host, q) \<Rightarrow>
               let found = numeric_item_id cx (query_value (cx_parse_qs cx q) [''itemId'', ''item_id'', ''itemid'', ''id'']) in
               (case (if wanted \<noteq> None then wanted else found) of
                  None \<Rightarrow> Inr None
                | Some i \<Rightarrow> if scheme = asc ''https'' \<and> is_goofish_host host \<and> found = Some i then Inr raw
                            else Inr (Some (XIANYU_ITEM_URL i)))))"

definition message_extension :: "codec \<Rightarrow> json \<Rightarrow> (ustr \<times> json) list" where
  "message_extension cx v =
     (let candidates = objects (map (jget ''extension'' \<circ> JObj) (payload_objects cx v)) in
      case find (\<lambda>c. list_ex (\<lambda>k. map_of c (asc k) \<noteq> None) [''reminderUrl'', ''bizTag'', ''reminderContent'']) candidates of
        Some c \<Rightarrow> c
      | None \<Rightarrow> (case find (\<lambda>c. c \<noteq> []) candidates of None \<Rightarrow> [] | Some c \<Rightarrow> c))"

definition item_context_of :: "codec \<Rightarrow> (ustr \<times> json) list \<Rightarrow> item_context option" where
  "item_context_of cx kvs = (case first_value cx kvs ITEM_ID_KEYS of
     None \<Rightarrow> None
   | Some i \<Rightarrow> Some \<lparr>ic_item_id = i, ic_title = first_value cx kvs TITLE_KEYS, ic_price = first_value cx kvs PRICE_KEYS,
        ic_image_url = first_image cx (JObj kvs), ic_url = first_value cx kvs URL_KEYS,
        ic_source = (if map_of kvs (asc ''itemCard'') \<noteq> None \<or> looks_like_item_card kvs then ''item_card'' else ''message'')\<rparr>)"

definition context_score :: "item_context \<Rightarrow> nat" where
  "context_score c = count_truthy [ic_title c, ic_price c, ic_image_url c, ic_url c]"

fun best_context :: "codec \<Rightarrow> item_context option \<Rightarrow> (ustr \<times> json) list list \<Rightarrow> item_context option" where
  "best_context cx best [] = best"
| "best_context cx best (kvs # rest) = best_context cx
     (case (item_context_of cx kvs, best) of
        (None, _) \<Rightarrow> best
      | (Some c, None) \<Rightarrow> Some c
      | (Some c, Some b) \<Rightarrow> if context_score b < context_score c then Some c else best) rest"

definition parse_item_context :: "codec \<Rightarrow> json \<Rightarrow> ustr option \<Rightarrow> item_context option" where
  "parse_item_context cx raw fallback_item_id =
     (let reminder_url = normalize_scalar (jget ''reminderUrl'' (JObj (message_extension cx raw)));
          reminder_item = query_value (parse_url_query cx reminder_url) [''itemId'', ''item_id'', ''itemid''] in
      case best_context cx None (payload_objects cx raw) of
        Some b \<Rightarrow> Some (if \<not> utruthy (ic_url b) \<and> utruthy reminder_url then b\<lparr>ic_url := reminder_url\<rparr> else b)
      | None \<Rightarrow> (case u_or reminder_item fallback_item_id of
          None \<Rightarrow> None
        | Some [] \<Rightarrow> None
        | Some i \<Rightarrow> Some \<lparr>ic_item_id = i, ic_title = None, ic_price = None, ic_image_url = None, ic_url = reminder_url,
              ic_source = (if utruthy reminder_item then ''reminder_url'' else ''message'')\<rparr>))"

section \<open>Order events\<close>

definition ORDER_STATE_RULES :: "(ustr list \<times> string \<times> string) list" where
  "ORDER_STATE_RULES = [
     ([[0x5173, 0x95ED, 0x4E86, 0x8BA2, 0x5355], [0x8BA2, 0x5355, 0x5173, 0x95ED], [0x4EA4, 0x6613, 0x5173, 0x95ED]], ''closed'', ''closed''),
     ([[0x4EA4, 0x6613, 0x6210, 0x529F], [0x4F60, 0x5DF2, 0x786E, 0x8BA4, 0x6536, 0x8D27], [0x5DF2, 0x786E, 0x8BA4, 0x6536, 0x8D27], [0x5B8C, 0x6210, 0x4E86, 0x8BC4, 0x4EF7], [0x5DF2, 0x5B8C, 0x6210]], ''completed'', ''completed''),
     ([[0x5356, 0x5BB6, 0x5DF2, 0x53D1, 0x8D27], [0x5DF2, 0x53D1, 0x8D27], [0x63D0, 0x9192, 0x6536, 0x8D27], [0x53CA, 0x65F6, 0x786E, 0x8BA4, 0x6536, 0x8D27], [0x8BB0, 0x5F97, 0x786E, 0x8BA4, 0x6536, 0x8D27]], ''shipped'', ''shipped''),
     ([[0x5DF2, 0x4ED8, 0x6B3E], [0x7B49, 0x5F85, 0x4F60, 0x53D1, 0x8D27], [0x5F85, 0x5356, 0x5BB6, 0x53D1, 0x8D27], [0x5F85, 0x53D1, 0x8D27]], ''paid'', ''paid_waiting_delivery''),
     ([[0x5F85, 0x4ED8, 0x6B3E], [0x7B49, 0x5F85, 0x4F60, 0x4ED8, 0x6B3E], [0x4FEE, 0x6539, 0x4EF7, 0x683C]], ''pending_payment'', ''pending_payment'')]"

definition normalize_order_state :: "ustr \<Rightarrow> string \<times> string" where
  "normalize_order_state v = (let n = ulower (ustrip v) in
     case find (\<lambda>(keywords, _). list_ex (\<lambda>k. contains (ulower k) n) keywords) ORDER_STATE_RULES of
       None \<Rightarrow> (''updated'', ''unknown'') | Some (_, event_type, status) \<Rightarrow> (event_type, status))"

definition TRADE_TIPS :: "ustr list" where
  "TRADE_TIPS = [[0x8BA2, 0x5355], [0x4EA4, 0x6613, 0x6210, 0x529F], [0x786E, 0x8BA4, 0x6536, 0x8D27], [0x5356, 0x5BB6, 0x5DF2, 0x53D1, 0x8D27], [0x7B49, 0x5F85, 0x4F60, 0x53D1, 0x8D27], [0x5F85, 0x4ED8, 0x6B3E], [0x5DF2, 0x4ED8, 0x6B3E], [0x5B8C, 0x6210, 0x4E86, 0x8BC4, 0x4EF7]]"

definition is_trade_tip :: "ustr \<Rightarrow> bool" where
  "is_trade_tip v = (let n = ulower (ustrip v) in list_ex (\<lambda>k. contains k n) TRADE_TIPS)"

text \<open>The pattern of a price, \<^verbatim>\<open>(?:Y|Y)\s*([0-9]+(?:\.[0-9]{1,2})?)\<close> for the two signs of the yen.\<close>

definition digit :: "int \<Rightarrow> bool" where
  "digit c \<longleftrightarrow> 48 \<le> c \<and> c \<le> 57"

definition match_amount :: "ustr \<Rightarrow> ustr option" where
  "match_amount t = (let whole = takeWhile digit t; rest = dropWhile digit t in
     if whole = [] then None
     else case rest of
            c # r \<Rightarrow> if c = 46 \<and> takeWhile digit r \<noteq> [] then Some (whole @ 46 # take 2 (takeWhile digit r)) else Some whole
          | [] \<Rightarrow> Some whole)"

fun extract_price :: "ustr \<Rightarrow> ustr option" where
  "extract_price [] = None"
| "extract_price (c # t) =
     (case (if c = 0xA5 \<or> c = 0xFFE5 then match_amount (dropWhile uspace t) else None) of
        Some a \<Rightarrow> Some a | None \<Rightarrow> extract_price t)"

definition find_custom :: "codec \<Rightarrow> json \<Rightarrow> json" where
  "find_custom cx payload = (case find (\<lambda>v. is_obj v \<and> jtruthy (jget ''data'' v))
       (map (jget ''custom'' \<circ> JObj) (payload_objects cx payload)) of
     None \<Rightarrow> JObj [] | Some v \<Rightarrow> v)"

definition decode_custom_data :: "codec \<Rightarrow> json \<Rightarrow> json" where
  "decode_custom_data cx v = (case v of
     JObj _ \<Rightarrow> v
   | JStr s \<Rightarrow> let text = ustrip s in
       if text = [] then JObj []
       else (case maybe_json cx (JStr text) of
               Some (JObj kvs) \<Rightarrow> JObj kvs
             | _ \<Rightarrow> (case cx_b64 cx False (padded text) of
                 None \<Rightarrow> JObj []
               | Some decoded \<Rightarrow> (case cx_loads cx decoded of Some w \<Rightarrow> obj_or_empty w | None \<Rightarrow> JObj [])))
   | _ \<Rightarrow> JObj [])"

definition nested :: "json \<Rightarrow> string list \<Rightarrow> json" where
  "nested v keys = fold jget keys v"

definition nested_dict :: "json \<Rightarrow> string list \<Rightarrow> json" where
  "nested_dict v keys = obj_or_empty (nested v keys)"

definition nested_scalar :: "json \<Rightarrow> string list \<Rightarrow> ustr option" where
  "nested_scalar v keys = normalize_scalar (nested v keys)"

definition task_name_of :: "codec \<Rightarrow> json \<Rightarrow> json \<Rightarrow> ustr option" where
  "task_name_of cx card_data extension =
     (let name = nested_scalar card_data [''dxCard'', ''item'', ''extension'', ''bizTag'', ''taskName''] in
      if utruthy name then name
      else (let tag = jget ''bizTag'' extension in
            case or_same (maybe_json cx tag) tag of
              JObj kvs \<Rightarrow> normalize_scalar (jget ''taskName'' (JObj kvs)) | _ \<Rightarrow> name))"

definition trade_role_of :: "(ustr \<times> ustr list) list \<Rightarrow> ustr option \<Rightarrow> string" where
  "trade_role_of target task_name =
     (let role = ulower (ustrip (u_text (query_value target [''role'']))); task = ulower (ustrip (u_text task_name)) in
      if role = asc ''seller'' \<or> ends_with [95, 0x5356, 0x5BB6] task \<or> contains (asc ''_seller'') task then ''seller''
      else if role = asc ''buyer'' \<or> ends_with [95, 0x4E70, 0x5BB6] task \<or> contains (asc ''_buyer'') task then ''buyer''
      else ''unknown'')"

definition jopt_text :: "ustr option \<Rightarrow> json" where
  "jopt_text t = (case t of None \<Rightarrow> JNull | Some s \<Rightarrow> JStr s)"

definition order_status_text :: "ustr option \<Rightarrow> ustr option \<Rightarrow> ustr \<Rightarrow> ustr option \<Rightarrow> ustr" where
  "order_status_text title description content task_name =
     take 255 (u_text (u_or title (u_or description (u_or (u_none (ustrip content))
       (u_or task_name (Some [0x8BA2, 0x5355, 0x72B6, 0x6001, 0x66F4, 0x65B0]))))))"

text \<open>The end of \<open>parse_order_event\<close>, once the fields of the card have been read.\<close>

definition order_event_of ::
  "ustr \<Rightarrow> json \<Rightarrow> ustr option \<Rightarrow> (ustr \<times> ustr list) list \<Rightarrow> ustr option \<Rightarrow> ustr option \<Rightarrow> ustr option \<Rightarrow> ustr option
   \<Rightarrow> ustr option \<Rightarrow> ustr option \<Rightarrow> ustr option \<Rightarrow> parsed_order option" where
  "order_event_of content card_main target_url target item_id peer_user_id title description image_url task_name update_key =
     (let order_id = query_value target [''id'', ''orderId'', ''order_id''];
          status_source = join [32] (filter (\<lambda>t. t \<noteq> [])
            [content, u_text title, u_text description, u_text task_name, u_text update_key]);
          state = normalize_order_state status_source;
          trade_role = trade_role_of target task_name;
          is_dx_order = jtruthy card_main \<and> (utruthy order_id \<or> contains (asc ''order'') (ulower (u_text target_url))) in
      if \<not> is_dx_order \<and> \<not> is_trade_tip status_source then None
      else Some \<lparr>po_event_type = fst state, po_status = snd state,
        po_status_text = order_status_text title description content task_name,
        po_order_id = order_id, po_item_id = item_id, po_title = title,
        po_price = extract_price (u_text description), po_image_url = image_url,
        po_peer_user_id = peer_user_id, po_task_name = task_name, po_trade_role = trade_role,
        po_raw_summary = JObj [
          (asc ''source'', JStr (asc (if is_dx_order then ''dx_card'' else ''trade_tip''))),
          (asc ''target_url'', jopt_text target_url), (asc ''task_name'', jopt_text task_name),
          (asc ''update_key'', jopt_text update_key), (asc ''description'', jopt_text description),
          (asc ''trade_role'', JStr (asc trade_role))]\<rparr>)"

definition parse_order_event :: "codec \<Rightarrow> json \<Rightarrow> ustr \<Rightarrow> ustr option \<Rightarrow> ustr option \<Rightarrow> parsed_order option" where
  "parse_order_event cx raw content fallback_item_id fallback_peer_user_id =
     (let payload = or_same (maybe_json cx raw) raw in
      if \<not> is_obj payload then None
      else let card_data = decode_custom_data cx (jget ''data'' (find_custom cx payload));
               card_main = nested_dict card_data [''dxCard'', ''item'', ''main''];
               extension = JObj (message_extension cx payload);
               reminder = parse_url_query cx (normalize_scalar (jget ''reminderUrl'' extension));
               target_url = normalize_scalar (jget ''targetUrl'' card_main);
               ex_content = obj_or_empty (jget ''exContent'' card_main)
           in order_event_of content card_main target_url (parse_url_query cx target_url)
                (u_or (query_value reminder [''itemId'', ''item_id'', ''itemid'']) fallback_item_id)
                (u_or (query_value reminder [''userId'', ''peerUserId'', ''peer_user_id'']) fallback_peer_user_id)
                (normalize_scalar (jget ''title'' ex_content)) (normalize_scalar (jget ''desc'' ex_content))
                (first_image cx ex_content) (task_name_of cx card_data extension)
                (nested_scalar card_data [''dxCard'', ''item'', ''extension'', ''extJson'', ''updateKey'']))"

section \<open>All cards of a message\<close>

definition card_key :: "parsed_card \<Rightarrow> string \<times> ustr option \<times> ustr option \<times> ustr option" where
  "card_key c = (pc_card_type c, pc_item_id c, pc_order_id c, pc_title c)"

fun new_cards :: "(string \<times> ustr option \<times> ustr option \<times> ustr option) list \<Rightarrow> parsed_card list \<Rightarrow> parsed_card list" where
  "new_cards seen [] = []"
| "new_cards seen (c # cs) =
     (if card_key c \<in> set seen then new_cards seen cs else c # new_cards (card_key c # seen) cs)"

definition order_card :: "parsed_order \<Rightarrow> parsed_card" where
  "order_card p = \<lparr>pc_card_type = ''order'', pc_item_id = po_item_id p, pc_order_id = po_order_id p,
     pc_title = po_title p, pc_price = po_price p, pc_status = Some (po_status_text p),
     pc_image_url = po_image_url p,
     pc_url = (case jget ''target_url'' (po_raw_summary p) of JStr t \<Rightarrow> Some t | _ \<Rightarrow> None),
     pc_raw_summary = po_raw_summary p\<rparr>"

definition parse_message_cards :: "codec \<Rightarrow> json \<Rightarrow> ustr \<Rightarrow> ustr option \<Rightarrow> parsed_card list" where
  "parse_message_cards cx raw content fallback_item_id =
     (let cards = new_cards [] (List.map_filter (parse_dict_node cx) (payload_objects cx raw));
          extra = (case parse_order_event cx raw content fallback_item_id None of
            None \<Rightarrow> []
          | Some p \<Rightarrow> if card_key (order_card p) \<in> set (map card_key cards) then [] else [order_card p])
      in take 5 (cards @ extra))"

section \<open>What the parser promises\<close>

lemma new_cards_distinct:
  "distinct (map card_key (new_cards seen cs)) \<and> set (map card_key (new_cards seen cs)) \<inter> set seen = {}"
  by (induction seen cs rule: new_cards.induct) auto

lemma set_new_cards: "set (new_cards seen cs) \<subseteq> set cs"
  by (induction seen cs rule: new_cards.induct) auto

text \<open>A card names its item or its order, unless it was read from the text of a trade message.\<close>

definition card_wf :: "parsed_card \<Rightarrow> bool" where
  "card_wf c \<longleftrightarrow>
     (pc_card_type c = ''product'' \<and> utruthy (pc_item_id c) \<and> pc_order_id c = None
        \<and> 2 \<le> count_truthy [pc_item_id c, pc_title c, pc_price c, pc_image_url c])
     \<or> (pc_card_type c = ''order'' \<and> (utruthy (pc_order_id c) \<or> utruthy (pc_status c)))"

lemma parse_dict_node_wf: "parse_dict_node cx kvs = Some c \<Longrightarrow> card_wf c"
  by (auto simp: parse_dict_node_def card_wf_def Let_def split: if_splits)

lemma u_text_u_or: "u_text (u_or a b) = (if utruthy a then u_text a else u_text b)"
  by (simp add: u_or_def)

lemma order_status_text_nonempty: "order_status_text title description content task_name \<noteq> []"
  by (auto simp: order_status_text_def u_text_u_or u_none_def utruthy_def split: option.splits)

lemma parse_order_event_of:
  "parse_order_event cx raw content item peer = None
   \<or> (\<exists>main url target i p t d im n k.
        parse_order_event cx raw content item peer = order_event_of content main url target i p t d im n k)"
  unfolding parse_order_event_def Let_def by (simp only: split: if_split) blast

lemma order_event_status:
  "order_event_of content main url target i p t d im n k = Some e \<Longrightarrow> po_status_text e = order_status_text t d content n"
  by (auto simp: order_event_of_def Let_def split: if_splits)

lemma order_card_wf:
  assumes "parse_order_event cx raw content item peer = Some p"
  shows "card_wf (order_card p)"
proof -
  have "po_status_text p \<noteq> []"
    using parse_order_event_of [of cx raw content item peer] assms order_event_status order_status_text_nonempty
    by (metis option.distinct(1))
  then show ?thesis by (simp add: card_wf_def order_card_def)
qed

text \<open>C23. A message yields at most five cards, no two of the same kind, item, order and title; a product card
  names its item and at least one more property of it, an order card its order or a status.\<close>

theorem message_cards_well_formed:
  "length (parse_message_cards cx raw content item) \<le> 5
   \<and> distinct (map card_key (parse_message_cards cx raw content item))
   \<and> list_all card_wf (parse_message_cards cx raw content item)"
proof -
  let ?cards = "new_cards [] (List.map_filter (parse_dict_node cx) (payload_objects cx raw))"
  let ?extra = "case parse_order_event cx raw content item None of
            None \<Rightarrow> []
          | Some p \<Rightarrow> if card_key (order_card p) \<in> set (map card_key ?cards) then [] else [order_card p]"
  have eq: "parse_message_cards cx raw content item = take 5 (?cards @ ?extra)"
    by (simp add: parse_message_cards_def Let_def)
  have "distinct (map card_key (?cards @ ?extra))"
    using new_cards_distinct [of "[]"] by (auto split: option.splits)
  then have "distinct (map card_key (take 5 (?cards @ ?extra)))"
    unfolding take_map [symmetric] by (rule distinct_take)
  moreover have "card_wf c" if "c \<in> set ?cards" for c
    using that set_new_cards [of "[]"] parse_dict_node_wf by (fastforce simp: map_filter_def)
  moreover have "card_wf c" if "c \<in> set ?extra" for c
    using that order_card_wf by (cases "parse_order_event cx raw content item None") (simp_all split: if_splits)
  ultimately have "\<forall>c \<in> set (take 5 (?cards @ ?extra)). card_wf c"
    unfolding set_append by (blast dest: in_set_takeD [of _ 5 "?cards @ ?extra", unfolded set_append])
  with \<open>distinct (map card_key (take 5 (?cards @ ?extra)))\<close> show ?thesis
    unfolding eq list_all_iff by (simp del: take_append)
qed

section \<open>Text that looks like a trade message\<close>

lemma contains_ulower: "contains n h \<Longrightarrow> contains (ulower n) (ulower h)"
proof -
  assume "contains n h"
  then obtain a b where "ulower h = ulower a @ ulower n @ ulower b" by (auto simp: contains_iff ulower_def)
  then show ?thesis unfolding contains_iff by blast
qed

lemma dropWhile_contains:
  assumes "h = a @ n @ b" "n \<noteq> []" "\<not> uspace (hd n)"
  shows "\<exists>a'. dropWhile uspace h = a' @ n @ b"
proof (cases "\<forall>x \<in> set a. uspace x")
  case True
  with assms have "dropWhile uspace h = n @ b" by (cases n) (auto simp: dropWhile_append2)
  then show ?thesis by (metis append_Nil)
next
  case False
  with assms(1) show ?thesis by (auto simp: dropWhile_append1)
qed

text \<open>Stripping the ends of a text leaves a word in it that neither begins nor ends with a space.\<close>

lemma contains_ustrip:
  assumes "contains n h" "n \<noteq> []" "\<not> uspace (hd n)" "\<not> uspace (last n)"
  shows "contains n (ustrip h)"
proof -
  from assms(1) obtain a b where "h = a @ n @ b" by (auto simp: contains_iff)
  with dropWhile_contains assms(2,3) obtain a' where "dropWhile uspace h = a' @ n @ b" by blast
  then have "rev (dropWhile uspace h) = rev b @ rev n @ rev a'" by simp
  with dropWhile_contains [of "rev (dropWhile uspace h)" "rev b" "rev n" "rev a'"] assms(2,4)
  obtain b' where "dropWhile uspace (rev (dropWhile uspace h)) = b' @ rev n @ rev a'"
    by (auto simp: hd_rev)
  then have "ustrip h = a' @ n @ rev b'" by (simp add: ustrip_def)
  then show ?thesis by (auto simp: contains_iff)
qed

lemma trade_tips_plain:
  "list_all (\<lambda>k. k \<noteq> [] \<and> \<not> uspace (hd k) \<and> \<not> uspace (last k) \<and> ulower k = k) TRADE_TIPS"
  by code_simp

lemma is_trade_tipI:
  assumes "k \<in> set TRADE_TIPS" "contains k t"
  shows "is_trade_tip t"
proof -
  have "k \<noteq> []" "\<not> uspace (hd k)" "\<not> uspace (last k)" "ulower k = k"
    using trade_tips_plain assms(1) by (auto simp: list_all_iff)
  with contains_ulower [OF contains_ustrip [OF assms(2)]] assms(1) show ?thesis
    by (auto simp: is_trade_tip_def list_ex_iff Let_def)
qed

text \<open>A payload in which the parser finds neither an item or order card nor the data of a trade message.\<close>

definition plain_payload :: "codec \<Rightarrow> json \<Rightarrow> bool" where
  "plain_payload cx raw \<longleftrightarrow>
     list_all (\<lambda>kvs. parse_dict_node cx kvs = None \<and> map_of kvs (asc ''custom'') = None) (payload_objects cx raw)
     \<and> map_of (message_extension cx raw) (asc ''bizTag'') = None"

lemma plain_no_custom:
  assumes "plain_payload cx raw"
  shows "find_custom cx raw = JObj []"
proof -
  have "find (\<lambda>v. is_obj v \<and> jtruthy (jget ''data'' v)) (map (jget ''custom'' \<circ> JObj) (payload_objects cx raw)) = None"
    using assms by (auto simp: find_None_iff plain_payload_def list_all_iff jget_def)
  then show ?thesis by (simp add: find_custom_def)
qed

lemma plain_no_cards:
  assumes "plain_payload cx raw"
  shows "List.map_filter (parse_dict_node cx) (payload_objects cx raw) = []"
  using assms by (simp add: plain_payload_def list_all_iff map_filter_def filter_empty_conv)

lemma empty_object [simp]: "jget k (JObj []) = JNull" "jget k JNull = JNull" "normalize_scalar JNull = None"
  by (simp_all add: jget_def normalize_scalar_def)

lemma first_some_None: "first_some (map (\<lambda>_. None) ks) = None"
  by (induction ks) simp_all

lemma first_image_empty: "first_image cx (JObj []) = None"
proof -
  have "key_value [] = (\<lambda>_. None)" by (simp add: key_value_def fun_eq_iff)
  then show ?thesis by (simp add: first_image.simps first_value_def first_some_None)
qed

lemma nested_empty: "fold jget ks JNull = JNull" "fold jget ks (JObj []) \<in> {JNull, JObj []}"
proof -
  show null: "fold jget ks JNull = JNull" for ks by (induction ks) simp_all
  show "fold jget ks (JObj []) \<in> {JNull, JObj []}" by (cases ks) (simp_all add: null)
qed

lemma no_target [simp]: "parse_url_query cx None = []" "query_value [] ks = None"
  by (simp_all add: parse_url_query_def query_value_def first_some_None)

text \<open>Of such a message only the text counts.\<close>

lemma plain_order_event:
  assumes p: "plain_payload cx (JObj kvs)"
  shows "\<exists>i u. parse_order_event cx (JObj kvs) content item peer = order_event_of content (JObj []) None [] i u None None None None None"
proof -
  let ?raw = "JObj kvs"
  have pay: "or_same (maybe_json cx ?raw) ?raw = ?raw" by (simp add: maybe_json_def or_same_def)
  have dat: "decode_custom_data cx (jget ''data'' (find_custom cx ?raw)) = JObj []"
    by (simp add: plain_no_custom [OF p] decode_custom_data_def)
  have main: "nested_dict (JObj []) ks = JObj []" "nested_scalar (JObj []) ks = None" for ks
    using nested_empty(2) [of ks] by (auto simp: nested_dict_def nested_scalar_def nested_def normalize_scalar_def)
  have tag: "jget ''bizTag'' (JObj (message_extension cx ?raw)) = JNull"
    using p by (simp add: plain_payload_def jget_def)
  have task: "task_name_of cx (JObj []) (JObj (message_extension cx ?raw)) = None"
    unfolding task_name_of_def Let_def main tag by (simp add: maybe_json_def or_same_def)
  show ?thesis
    unfolding parse_order_event_def Let_def pay dat main task
    by (simp only: is_obj.simps simp_thms if_False empty_object obj_or_empty.simps first_image_empty no_target) blast
qed

lemma plain_event:
  assumes "plain_payload cx (JObj kvs)" and "parse_order_event cx (JObj kvs) content item peer = Some e"
  shows "is_trade_tip content" "po_order_id e = None" "po_trade_role e = ''unknown''"
    "(po_event_type e, po_status e) = normalize_order_state content"
proof -
  obtain i u where eq: "parse_order_event cx (JObj kvs) content item peer
      = order_event_of content (JObj []) None [] i u None None None None None"
    using plain_order_event [OF assms(1)] by blast
  have src: "join [32] (filter (\<lambda>t. t \<noteq> []) [content, u_text None, u_text None, u_text None, u_text None]) = content"
    by simp
  have role: "trade_role_of [] None = ''unknown''" by code_simp
  have "\<not> jtruthy (JObj [])" by simp
  with assms(2) eq show "is_trade_tip content" "po_order_id e = None" "po_trade_role e = ''unknown''"
    "(po_event_type e, po_status e) = normalize_order_state content"
    unfolding order_event_of_def Let_def src role by (auto split: if_splits)
qed

lemma plain_trade_tip:
  assumes "plain_payload cx (JObj kvs)" "is_trade_tip content"
  shows "\<exists>e. parse_order_event cx (JObj kvs) content item peer = Some e"
proof -
  obtain i u where eq: "parse_order_event cx (JObj kvs) content item peer
      = order_event_of content (JObj []) None [] i u None None None None None"
    using plain_order_event [OF assms(1)] by blast
  have src: "join [32] (filter (\<lambda>t. t \<noteq> []) [content, u_text None, u_text None, u_text None, u_text None]) = content"
    by simp
  show ?thesis unfolding eq order_event_of_def Let_def src using assms(2) by simp
qed

text \<open>Contrary to what \<open>parse_message_cards\<close> is documented to do, ordinary text yields an order card: if a
  message without any card mentions one of the trade words, it gets an order card without an
  order number.\<close>

theorem chat_text_becomes_order_card:
  assumes p: "plain_payload cx (JObj kvs)" and k: "k \<in> set TRADE_TIPS" "contains k content"
  shows "\<exists>c. parse_message_cards cx (JObj kvs) content item = [c] \<and> pc_card_type c = ''order'' \<and> pc_order_id c = None"
proof -
  obtain e where e: "parse_order_event cx (JObj kvs) content item None = Some e"
    using plain_trade_tip [OF p is_trade_tipI [OF k]] by blast
  from plain_event(2) [OF p e] show ?thesis
    by (simp add: parse_message_cards_def Let_def plain_no_cards [OF p] e order_card_def)
qed

section \<open>The order of a set\<close>

text \<open>The value of a card field is the first one found while iterating over a set of key names. If an
  object has two different values under two of the names, either of them may be chosen: it
  depends on the iteration order, which Python varies between processes.\<close>

theorem field_depends_on_set_order:
  assumes d: "distinct keys" and k: "k1 \<in> set keys" "k2 \<in> set keys"
    and v: "key_value kvs k1 = Some v1" "key_value kvs k2 = Some v2"
  shows "\<exists>o1 o2. distinct o1 \<and> set o1 = set keys \<and> distinct o2 \<and> set o2 = set keys
     \<and> first_value (cx\<lparr>cx_iter := \<lambda>_. o1\<rparr>) kvs keys = Some v1 \<and> first_value (cx\<lparr>cx_iter := \<lambda>_. o2\<rparr>) kvs keys = Some v2"
proof -
  have "first_value (cx\<lparr>cx_iter := \<lambda>_. k # remove1 k keys\<rparr>) kvs keys = Some w"
    if "key_value kvs k = Some w" for k w using that by (simp add: first_value_def)
  moreover have "distinct (k # remove1 k keys) \<and> set (k # remove1 k keys) = set keys" if "k \<in> set keys" for k
    using that d by (auto simp: set_remove1_eq)
  ultimately show ?thesis using v k by metis
qed

section \<open>An example\<close>

definition plain_codec :: codec where
  "plain_codec = \<lparr>cx_loads = (\<lambda>_. None), cx_b64 = (\<lambda>_ _. None), cx_urlparse = (\<lambda>_. None), cx_parse_qs = (\<lambda>_. []),
     cx_isdigit = digit, cx_iter = (\<lambda>ks. ks)\<rparr>"

definition sample_chat :: ustr where
  "sample_chat = [0x6211, 0x5DF2, 0x4ED8, 0x6B3E, 0x4E86, 0x5417]"

definition sample_message :: "(ustr \<times> json) list" where
  "sample_message = [(asc ''text'', JObj [(asc ''text'', JStr sample_chat)]), (asc ''kind'', JInt 1)]"

definition sample_item_node :: "(ustr \<times> json) list" where
  "sample_item_node = [(asc ''itemId'', JStr (asc ''7'')), (asc ''title'', JStr (asc ''Lamp'')), (asc ''subject'', JStr (asc ''Sale''))]"

theorem chat_text_becomes_order_card_witness:
  "plain_payload plain_codec (JObj sample_message)
   \<and> (\<exists>c. parse_message_cards plain_codec (JObj sample_message) sample_chat None = [c]
        \<and> pc_card_type c = ''order'' \<and> pc_order_id c = None)"
proof -
  have p: "plain_payload plain_codec (JObj sample_message)" by code_simp
  have "[0x5DF2, 0x4ED8, 0x6B3E] \<in> set TRADE_TIPS" "contains [0x5DF2, 0x4ED8, 0x6B3E] sample_chat" by code_simp+
  from p chat_text_becomes_order_card [OF p this] show ?thesis by blast
qed

theorem field_depends_on_set_order_witness:
  "\<exists>o1 o2. distinct o1 \<and> set o1 = set TITLE_KEYS \<and> distinct o2 \<and> set o2 = set TITLE_KEYS
     \<and> first_value (plain_codec\<lparr>cx_iter := \<lambda>_. o1\<rparr>) sample_item_node TITLE_KEYS = Some (asc ''Lamp'')
     \<and> first_value (plain_codec\<lparr>cx_iter := \<lambda>_. o2\<rparr>) sample_item_node TITLE_KEYS = Some (asc ''Sale'')"
proof (rule field_depends_on_set_order [of TITLE_KEYS "asc ''title''" "asc ''subject''"])
  show "distinct TITLE_KEYS" "asc ''title'' \<in> set TITLE_KEYS" "asc ''subject'' \<in> set TITLE_KEYS" by code_simp+
  show "key_value sample_item_node (asc ''title'') = Some (asc ''Lamp'')"
    "key_value sample_item_node (asc ''subject'') = Some (asc ''Sale'')" by code_simp+
qed

end
