(* ===== verification/OrderEvents.thy ===== *)
theory OrderEvents
  imports Orders CardParser Conversations
begin

text \<open>
  Orders and order events written from messages (\<open>_upsert_order_event\<close> of \<open>store.py\<close>).
\<close>

section \<open>The order a message is about\<close>

definition event_of_message :: "message_row \<Rightarrow> order_db \<Rightarrow> order_event option" where
  "event_of_message m db = find (\<lambda>e. oe_account_id e = mg_account_id m \<and> oe_message_pk e = mg_message_pk m) (ob_events db)"

definition linked_order :: "order_event option \<Rightarrow> order_db \<Rightarrow> order_row option" where
  "linked_order ev db = (case ev of
     None \<Rightarrow> None
   | Some e \<Rightarrow> if truthy (oe_order_pk e) then get_row od_order_pk (ob_orders db) (the (oe_order_pk e)) else None)"

text \<open>Orders of the conversation, of the item when the message names one; used when there is exactly one.\<close>

definition candidate_orders :: "message_row \<Rightarrow> ustr option \<Rightarrow> order_db \<Rightarrow> order_row list" where
  "candidate_orders m item_id db = filter (\<lambda>r. od_account_id r = mg_account_id m \<and> od_conversation_id r = mg_conversation_id m
     \<and> (utruthy item_id \<longrightarrow> od_item_id r = item_id)) (ob_orders db)"

definition order_of_message :: "message_row \<Rightarrow> parsed_order \<Rightarrow> order_db \<Rightarrow> order_row option" where
  "order_of_message m p db = (case linked_order (event_of_message m db) db of
     Some r \<Rightarrow> Some r
   | None \<Rightarrow>
       if utruthy (po_order_id p)
       then find (\<lambda>r. od_account_id r = mg_account_id m \<and> od_platform_order_id r = po_order_id p) (ob_orders db)
       else (case candidate_orders m (po_item_id p) db of [r] \<Rightarrow> Some r | _ \<Rightarrow> None))"

section \<open>Values\<close>

text \<open>\<open>str(raw_summary.get("source") or default)\<close>; the sources are ASCII.\<close>

definition summary_source :: "json \<Rightarrow> string \<Rightarrow> string" where
  "summary_source raw dflt = (let v = jget ''source'' raw in
     if jtruthy v then map (\<lambda>c. char_of (nat c)) (py_str v) else dflt)"

definition new_event_order :: "string \<Rightarrow> message_row \<Rightarrow> parsed_order \<Rightarrow> order_row" where
  "new_event_order order_pk m p =
     (let source = (if is_obj (po_raw_summary p) then summary_source (po_raw_summary p) ''message'' else ''message'')
      in (order_defaults order_pk (mg_account_id m) (mg_conversation_id m) (mg_created_at m))\<lparr>
        od_platform_order_id := po_order_id p, od_trade_role := Some (po_trade_role p),
        od_data_source := Some source, od_first_seen_source := Some source,
        od_platform_confirmed := False, od_sync_state := ''provisional'',
        od_peer_user_id := u_or (po_peer_user_id p) (mg_peer_user_id m), od_peer_name := mg_peer_name m,
        od_item_id := u_or (po_item_id p) (mg_item_id m), od_title := po_title p, od_price := po_price p,
        od_image_url := po_image_url p, od_status := po_status p, od_status_text := Some (po_status_text p),
        od_source_message_pk := Some (mg_message_pk m), od_last_event_at := Some (mg_created_at m),
        od_raw_summary := po_raw_summary p\<rparr>)"

definition is_refund_status :: "string \<Rightarrow> bool" where
  "is_refund_status s \<longleftrightarrow> s \<in> {''refunding'', ''refunded''}"

definition confirmed_source :: "order_row \<Rightarrow> bool" where
  "confirmed_source r \<longleftrightarrow> od_headinfo_confirmed_at r \<noteq> None
     \<or> od_data_source r \<in> {Some ''seller_sold'', Some ''buyer_bought'', Some ''headinfo''}"

definition event_image :: "parsed_order \<Rightarrow> ustr option \<Rightarrow> ustr option" where
  "event_image p current = (if utruthy (po_image_url p) then po_image_url p
     else if utruthy current \<and> any_marker [asc ''fm-downlaod'', asc ''tradeExperience''] (the current) then None
     else current)"

definition event_status :: "parsed_order \<Rightarrow> order_row \<Rightarrow> string" where
  "event_status p r =
     (if po_status p \<noteq> ''unknown''
         \<and> \<not> (is_refund_status (od_status r) \<and> \<not> is_refund_status (po_status p))
         \<and> (od_data_source r \<noteq> Some ''seller_sold'' \<or> po_trade_role p = ''seller'')
      then po_status p else od_status r)"

definition updated_order :: "(ustr \<Rightarrow> ustr) \<Rightarrow> (ustr \<Rightarrow> ustr) \<Rightarrow> message_row \<Rightarrow> parsed_order \<Rightarrow> order_row \<Rightarrow> order_row" where
  "updated_order nfkc casefold m p r =
     (let keep = confirmed_source r; raw = po_raw_summary p;
          peer = u_or (po_peer_user_id p) (u_or (mg_peer_user_id m) (od_peer_user_id r))
      in r\<lparr>
        od_trade_role := (if \<not> keep \<and> (po_trade_role p \<noteq> ''unknown'' \<or> \<not> truthy (od_trade_role r))
                          then Some (po_trade_role p) else od_trade_role r),
        od_data_source := (if \<not> keep \<and> is_obj raw
                           then Some (summary_source raw (str_or (od_data_source r) ''message'')) else od_data_source r),
        od_peer_user_id := peer,
        od_peer_name := merge_peer_name nfkc casefold (od_peer_name r) (mg_peer_name m) peer,
        od_item_id := u_or (po_item_id p) (u_or (mg_item_id m) (od_item_id r)),
        od_title := u_or (po_title p) (od_title r), od_price := u_or (po_price p) (od_price r),
        od_image_url := event_image p (od_image_url r),
        od_status := event_status p r,
        od_status_text := (if keep then od_status_text r else u_or (Some (po_status_text p)) (od_status_text r)),
        od_source_message_pk := Some (mg_message_pk m), od_last_event_at := Some (mg_created_at m),
        od_raw_summary := (if keep \<or> raw = JNull then od_raw_summary r else raw),
        od_updated_at := mg_created_at m\<rparr>)"

definition event_row :: "string \<Rightarrow> message_row \<Rightarrow> parsed_order \<Rightarrow> order_row option \<Rightarrow> order_event" where
  "event_row event_pk m p order = \<lparr>oe_event_pk = event_pk, oe_order_pk = map_option od_order_pk order,
     oe_account_id = mg_account_id m, oe_conversation_id = mg_conversation_id m, oe_message_pk = mg_message_pk m,
     oe_platform_order_id = po_order_id p, oe_item_id = u_or (po_item_id p) (mg_item_id m),
     oe_event_type = po_event_type p, oe_status = po_status p, oe_status_text = Some (po_status_text p),
     oe_raw_summary = po_raw_summary p, oe_created_at = mg_created_at m\<rparr>"

definition renewed_event :: "message_row \<Rightarrow> parsed_order \<Rightarrow> order_row option \<Rightarrow> order_event \<Rightarrow> order_event" where
  "renewed_event m p order e = e\<lparr>oe_order_pk := map_option od_order_pk order, oe_platform_order_id := po_order_id p,
     oe_item_id := u_or (po_item_id p) (mg_item_id m), oe_event_type := po_event_type p, oe_status := po_status p,
     oe_status_text := Some (po_status_text p), oe_raw_summary := po_raw_summary p\<rparr>"

section \<open>The operation\<close>

definition upsert_order_event ::
  "(ustr \<Rightarrow> ustr) \<Rightarrow> (ustr \<Rightarrow> ustr) \<Rightarrow> string \<Rightarrow> string \<Rightarrow> message_row \<Rightarrow> parsed_order \<Rightarrow> order_db \<Rightarrow> order_db \<times> order_row option" where
  "upsert_order_event nfkc casefold order_pk event_pk m p db =
     (let event = event_of_message m db;
          order = (case order_of_message m p db of
            Some r \<Rightarrow> Some (updated_order nfkc casefold m p r)
          | None \<Rightarrow> if utruthy (po_order_id p) then Some (new_event_order order_pk m p) else None);
          orders = (case order of None \<Rightarrow> ob_orders db | Some r \<Rightarrow> put_row od_order_pk r (ob_orders db));
          events = (case event of
            None \<Rightarrow> ob_events db @ [event_row event_pk m p order]
          | Some e \<Rightarrow> put_row oe_event_pk (renewed_event m p order e) (ob_events db))
      in (db\<lparr>ob_orders := orders, ob_events := events\<rparr>, order))"

section \<open>One order per number, one event per message\<close>

definition order_number :: "order_row \<Rightarrow> string \<times> ustr option" where
  "order_number r = (od_account_id r, od_platform_order_id r)"

definition event_key :: "order_event \<Rightarrow> string \<times> string" where
  "event_key e = (oe_account_id e, oe_message_pk e)"

text \<open>The unique indexes and the foreign key of the two tables.\<close>

definition order_tables_ok :: "order_db \<Rightarrow> bool" where
  "order_tables_ok db \<longleftrightarrow> keys_distinct od_order_pk (ob_orders db)
     \<and> keys_distinct order_number (filter (\<lambda>r. od_platform_order_id r \<noteq> None) (ob_orders db))
     \<and> keys_distinct oe_event_pk (ob_events db) \<and> keys_distinct event_key (ob_events db)
     \<and> list_all (\<lambda>e. case oe_order_pk e of None \<Rightarrow> True | Some pk \<Rightarrow> get_row od_order_pk (ob_orders db) pk \<noteq> None) (ob_events db)"

lemma updated_order_keys [simp]:
  "od_order_pk (updated_order f g m p r) = od_order_pk r"
  "od_account_id (updated_order f g m p r) = od_account_id r"
  "od_platform_order_id (updated_order f g m p r) = od_platform_order_id r"
  "od_status (updated_order f g m p r) = event_status p r"
  by (simp_all add: updated_order_def Let_def)

lemma new_event_order_keys [simp]:
  "od_order_pk (new_event_order pk m p) = pk"
  "od_account_id (new_event_order pk m p) = mg_account_id m"
  "od_platform_order_id (new_event_order pk m p) = po_order_id p"
  by (simp_all add: new_event_order_def order_defaults_def Let_def)

lemma order_of_message_in:
  assumes "order_of_message m p db = Some r"
  shows "r \<in> set (ob_orders db)"
  using assms
  by (auto simp: order_of_message_def linked_order_def candidate_orders_def filter_eq_Cons_iff
      dest: get_row_SomeD find_SomeD split: option.splits if_splits list.splits)

lemma order_of_message_None:
  assumes "order_of_message m p db = None" "utruthy (po_order_id p)" "r \<in> set (ob_orders db)"
  shows "order_number r \<noteq> (mg_account_id m, po_order_id p)"
  using assms by (auto simp: order_of_message_def order_number_def find_None_iff split: option.splits)

text \<open>The orders after the operation: one order changed, one added, or none.\<close>

lemma upsert_orders_cases:
  assumes "upsert_order_event f g opk epk m p db = (db', order)"
  obtains (changed) r where "order_of_message m p db = Some r" "order = Some (updated_order f g m p r)"
      "ob_orders db' = put_row od_order_pk (updated_order f g m p r) (ob_orders db)"
    | (added) "order_of_message m p db = None" "utruthy (po_order_id p)" "order = Some (new_event_order opk m p)"
      "ob_orders db' = put_row od_order_pk (new_event_order opk m p) (ob_orders db)"
    | (none) "order_of_message m p db = None" "order = None" "ob_orders db' = ob_orders db"
proof (cases "order_of_message m p db")
  case (Some r)
  with assms show thesis by (intro changed [of r]) (auto simp: upsert_order_event_def Let_def)
next
  case None
  with assms show thesis
    by (cases "utruthy (po_order_id p)") (auto simp: upsert_order_event_def Let_def intro: added none)
qed

lemma upsert_events:
  assumes "upsert_order_event f g opk epk m p db = (db', order)"
  shows "ob_events db' = (case event_of_message m db of
      None \<Rightarrow> ob_events db @ [event_row epk m p order]
    | Some e \<Rightarrow> put_row oe_event_pk (renewed_event m p order e) (ob_events db))"
  using assms by (auto simp: upsert_order_event_def Let_def split: option.splits)

lemma event_keys [simp]:
  "oe_event_pk (renewed_event m p order e) = oe_event_pk e"
  "event_key (renewed_event m p order e) = event_key e"
  "oe_order_pk (renewed_event m p order e) = map_option od_order_pk order"
  "oe_event_pk (event_row epk m p order) = epk"
  "event_key (event_row epk m p order) = (mg_account_id m, mg_message_pk m)"
  "oe_order_pk (event_row epk m p order) = map_option od_order_pk order"
  by (simp_all add: renewed_event_def event_row_def event_key_def)

lemma upsert_orders_ok:
  assumes u: "upsert_order_event f g opk epk m p db = (db', order)" and ok: "order_tables_ok db"
    and fresh: "get_row od_order_pk (ob_orders db) opk = None"
  shows "keys_distinct od_order_pk (ob_orders db')"
    and "keys_distinct order_number (filter (\<lambda>r. od_platform_order_id r \<noteq> None) (ob_orders db'))"
    and "get_row od_order_pk (ob_orders db) pk \<noteq> None \<Longrightarrow> get_row od_order_pk (ob_orders db') pk \<noteq> None"
    and "order = Some r \<Longrightarrow> get_row od_order_pk (ob_orders db') (od_order_pk r) \<noteq> None"
proof -
  note t = ok [unfolded order_tables_ok_def]
  have d: "keys_distinct od_order_pk (ob_orders db)" using t by simp
  show "keys_distinct od_order_pk (ob_orders db')"
    using u by (cases rule: upsert_orders_cases) (simp_all add: d keys_distinct_put_row)
  show "keys_distinct order_number (filter (\<lambda>r. od_platform_order_id r \<noteq> None) (ob_orders db'))"
    using u
  proof (cases rule: upsert_orders_cases)
    case (changed r)
    then show ?thesis
      using put_row_keeps_distinct [OF d order_of_message_in [OF changed(1)] _ t [THEN conjunct2, THEN conjunct1]]
      by (simp add: order_number_def)
  next
    case added
    have "order_number (new_event_order opk m p) \<notin> order_number ` set (ob_orders db)"
      using order_of_message_None [OF added(1,2)] by (force simp: order_number_def)
    moreover have "ob_orders db' = ob_orders db @ [new_event_order opk m p]"
      using added(4) fresh by (simp add: put_row_new)
    ultimately show ?thesis using t added(2) by (auto simp: keys_distinct_def)
  next
    case none
    then show ?thesis using t by simp
  qed
  show "get_row od_order_pk (ob_orders db') pk \<noteq> None" if "get_row od_order_pk (ob_orders db) pk \<noteq> None"
    using u that by (cases rule: upsert_orders_cases) (simp_all add: get_put_row)
  show "get_row od_order_pk (ob_orders db') (od_order_pk r) \<noteq> None" if "order = Some r"
    using u that by (cases rule: upsert_orders_cases) (auto simp: get_put_row)
qed

lemma upsert_keeps_tables:
  assumes u: "upsert_order_event f g opk epk m p db = (db', order)" and ok: "order_tables_ok db"
    and fresh: "get_row od_order_pk (ob_orders db) opk = None" "get_row oe_event_pk (ob_events db) epk = None"
  shows "order_tables_ok db'"
proof -
  note t = ok [unfolded order_tables_ok_def]
  note orders = upsert_orders_ok [OF u ok fresh(1)]
  let ?linked = "\<lambda>d e. case oe_order_pk e of None \<Rightarrow> True | Some pk \<Rightarrow> get_row od_order_pk (ob_orders d) pk \<noteq> None"
  have old: "?linked db' e" if "e \<in> set (ob_events db)" for e
    using that t orders(3) by (auto simp: list_all_iff split: option.splits)
  have new: "?linked db' e" if "oe_order_pk e = map_option od_order_pk order" for e
    using that orders(4) by (cases order) auto
  have k: "keys_distinct oe_event_pk (ob_events db)" "keys_distinct event_key (ob_events db)" using t by simp_all
  have "keys_distinct oe_event_pk (ob_events db') \<and> keys_distinct event_key (ob_events db')
      \<and> (\<forall>e \<in> set (ob_events db'). ?linked db' e)"
  proof (cases "event_of_message m db")
    case None
    then have "(mg_account_id m, mg_message_pk m) \<notin> event_key ` set (ob_events db)"
      by (auto simp: event_of_message_def find_None_iff event_key_def)
    then show ?thesis
      using None upsert_events [OF u] k fresh(2) old new [of "event_row epk m p order"]
      by (auto simp: keys_distinct_append1 get_row_None_iff)
  next
    case (Some e)
    then have e: "e \<in> set (ob_events db)" by (auto simp: event_of_message_def dest: find_SomeD)
    have ev: "ob_events db' = put_row oe_event_pk (renewed_event m p order e) (ob_events db)"
      using upsert_events [OF u] Some by simp
    have "keys_distinct event_key (ob_events db')"
      unfolding ev using put_row_keeps_distinct [OF k(1) e, of "renewed_event m p order e" event_key "\<lambda>_. True"] k(2) by simp
    moreover have "?linked db' x" if "x \<in> set (ob_events db')" for x
      using in_put_row [OF that [unfolded ev]] old new [of "renewed_event m p order e"] by auto
    ultimately show ?thesis unfolding ev using keys_distinct_put_row [OF k(1)] by blast
  qed
  with orders(1,2) show ?thesis unfolding order_tables_ok_def list_all_iff by blast
qed

section \<open>Chat text and the status of an order\<close>

text \<open>Recording what messages say about orders keeps one order per platform number and account, one
  event per message, and every event refers to an order that exists.\<close>

theorem order_events_keep_tables:
  assumes "order_tables_ok db" and "upsert_order_event f g opk epk m p db = (db', order)"
    and "get_row od_order_pk (ob_orders db) opk = None" and "get_row oe_event_pk (ob_events db) epk = None"
  shows "order_tables_ok db'"
  by (rule upsert_keeps_tables [OF assms(2,1,3,4)])


text \<open>For an order that is known otherwise (from a card, the head information or the list of bought
  items) the text is believed: if the conversation has one such order, already shipped,
  completed or closed, a message that merely contains a phrase like ``paid'' sets it back to waiting
  for delivery.\<close>

theorem chat_text_reopens_order:
  assumes plain: "plain_payload cx (JObj kvs)" and e: "parse_order_event cx (JObj kvs) content item peer = Some p"
    and c: "normalize_order_state content = (''paid'', ''paid_waiting_delivery'')"
    and m: "event_of_message m db = None" "candidate_orders m (po_item_id p) db = [r]"
    and r: "settled_status (od_status r)" "od_data_source r \<noteq> Some ''seller_sold''"
  shows "\<exists>db' r'. upsert_order_event f g opk epk m p db = (db', Some r') \<and> od_order_pk r' = od_order_pk r
     \<and> get_row od_order_pk (ob_orders db') (od_order_pk r) = Some r' \<and> early_status (od_status r')"
proof -
  note ev = plain_event [OF plain e]
  have o: "order_of_message m p db = Some r"
    using m ev(2) by (simp add: order_of_message_def linked_order_def)
  have "od_status (updated_order f g m p r) = ''paid_waiting_delivery''"
    using ev(4) c r by (auto simp: event_status_def is_refund_status_def settled_status_def)
  with o m(1) show ?thesis
    by (simp add: upsert_order_event_def Let_def get_put_row early_status_def)
qed

section \<open>An example\<close>

definition chat_message :: message_row where
  "chat_message = \<lparr>mg_message_pk = ''m1'', mg_account_id = ''a'', mg_conversation_id = asc ''7'', mg_message_id = None,
     mg_dedupe_key = None, mg_client_request_id = None, mg_direction = ''inbound'', mg_message_type = ''text'',
     mg_content = sample_chat, mg_peer_user_id = Some (asc ''9''), mg_peer_name = None, mg_item_id = None,
     mg_send_success = None, mg_send_status = None, mg_send_error = None, mg_recalled_at = None,
     mg_raw_payload = JObj sample_message, mg_attachments = [], mg_created_at_ms = 5, mg_received_at_ms = None,
     mg_created_at = 5000, mg_received_at = None\<rparr>"

definition chat_orders :: "string \<Rightarrow> string \<Rightarrow> order_db" where
  "chat_orders source status = \<lparr>ob_orders = [(order_defaults ''o1'' ''a'' (asc ''7'') 0)\<lparr>od_status := status, od_data_source := Some source\<rparr>],
     ob_events = [], ob_operations = []\<rparr>"

definition sample_event :: parsed_order where
  "sample_event = \<lparr>po_event_type = ''paid'', po_status = ''paid_waiting_delivery'', po_status_text = sample_chat,
     po_order_id = Some (asc ''42''), po_item_id = None, po_title = None, po_price = None, po_image_url = None,
     po_peer_user_id = None, po_task_name = None, po_trade_role = ''seller'', po_raw_summary = JObj []\<rparr>"

theorem order_events_keep_tables_witness:
  "order_tables_ok (fst (upsert_order_event id id ''o2'' ''e1'' chat_message sample_event (chat_orders ''dx_card'' ''shipped'')))"
proof -
  let ?db = "chat_orders ''dx_card'' ''shipped''"
  have ok: "order_tables_ok ?db"
    by (simp add: order_tables_ok_def chat_orders_def keys_distinct_def order_defaults_def)
  have "get_row od_order_pk (ob_orders ?db) ''o2'' = None" "get_row oe_event_pk (ob_events ?db) ''e1'' = None"
    by (simp_all add: chat_orders_def order_defaults_def)
  from order_events_keep_tables [OF ok prod.collapse [symmetric] this] show ?thesis by blast
qed

lemma sample_chat_event:
  "\<exists>p. parse_order_event plain_codec (JObj sample_message) sample_chat None None = Some p \<and> po_item_id p = None"
proof -
  have "case parse_order_event plain_codec (JObj sample_message) sample_chat None None of None \<Rightarrow> False | Some p \<Rightarrow> po_item_id p = None"
    by code_simp
  then show ?thesis by (auto split: option.splits)
qed


theorem chat_text_reopens_order_witness:
  "\<exists>p db' r'. parse_order_event plain_codec (JObj sample_message) sample_chat None None = Some p
     \<and> upsert_order_event id id ''o2'' ''e1'' chat_message p (chat_orders ''headinfo'' ''shipped'') = (db', Some r')
     \<and> get_row od_order_pk (ob_orders db') ''o1'' = Some r' \<and> early_status (od_status r')"
proof -
  obtain p where p: "parse_order_event plain_codec (JObj sample_message) sample_chat None None = Some p" "po_item_id p = None"
    using sample_chat_event by blast
  let ?db = "chat_orders ''headinfo'' ''shipped''"
  have plain: "plain_payload plain_codec (JObj sample_message)" by code_simp
  have c: "normalize_order_state sample_chat = (''paid'', ''paid_waiting_delivery'')" by code_simp
  have m: "event_of_message chat_message ?db = None" by (simp add: event_of_message_def chat_orders_def)
  have r: "candidate_orders chat_message (po_item_id p) ?db = [hd (ob_orders ?db)]"
    unfolding p(2) by (simp add: candidate_orders_def chat_orders_def chat_message_def order_defaults_def)
  have s: "settled_status (od_status (hd (ob_orders ?db)))" "od_data_source (hd (ob_orders ?db)) \<noteq> Some ''seller_sold''"
    "od_order_pk (hd (ob_orders ?db)) = ''o1''"
    by (simp_all add: chat_orders_def order_defaults_def settled_status_def)
  show ?thesis
    using chat_text_reopens_order [OF plain p(1) c m r s(1,2), of id id "''o2''" "''e1''"] p(1) s(3) by auto
qed

end
