(* ===== verification/Messages.thy ===== *)
theory Messages
  imports Deliveries OrderEvents "HOL-Library.Product_Lexorder" "HOL-Library.Char_ord"
begin

text \<open>
  Messages (\<open>store.py\<close>): recording a message that arrived or was sent, with the conversation, the name of
  the other side, the cards, the order event and the read states it changes; outgoing texts
  under a request identifier; marking a conversation as read.
\<close>

section \<open>Tables\<close>

record runtime_row =
  rn_account_id :: string
  rn_state :: string
  rn_message :: "ustr option"
  rn_last_error :: "ustr option"
  rn_last_state_at :: "timestamp option"
  rn_last_online_at :: "timestamp option"
  rn_last_message_at :: "timestamp option"
  rn_message_count :: int
  rn_updated_at :: timestamp

record peer_identity =
  pi_identity_pk :: string
  pi_platform :: string
  pi_account_id :: string
  pi_peer_user_id :: ustr
  pi_display_name :: ustr
  pi_source :: string
  pi_avatar_url :: "ustr option"
  pi_avatar_source :: "string option"
  pi_profile_checked_at :: "timestamp option"
  pi_last_seen_at :: timestamp
  pi_created_at :: timestamp
  pi_updated_at :: timestamp

record read_state =
  rs_state_id :: string
  rs_user_id :: string
  rs_conversation_pk :: string
  rs_unread_count :: int
  rs_last_read_message_id :: "ustr option"
  rs_last_read_at :: "timestamp option"
  rs_created_at :: timestamp
  rs_updated_at :: timestamp

text \<open>\<open>mb_users\<close> lists the users with their \<open>enabled\<close> column.\<close>

record message_db =
  mb_accounts :: "account_row list"
  mb_users :: "(string \<times> bool) list"
  mb_runtimes :: "runtime_row list"
  mb_conversations :: "conversation_row list"
  mb_messages :: "message_row list"
  mb_identities :: "peer_identity list"
  mb_read_states :: "read_state list"
  mb_cards :: "message_card list"
  mb_orders :: order_db

text \<open>Unicode normalisation, case folding and SHA-256 are arguments, as are the identifiers of new rows.\<close>

record message_env =
  me_codec :: codec
  me_nfkc :: "ustr \<Rightarrow> ustr"
  me_casefold :: "ustr \<Rightarrow> ustr"
  me_sha256 :: "ustr \<Rightarrow> string"

record new_ids =
  ni_message :: string
  ni_conversation :: string
  ni_identity :: string
  ni_order :: string
  ni_event :: string
  ni_card :: "nat \<Rightarrow> string"
  ni_state :: "string \<Rightarrow> string"

datatype record_error = ItemUrlError | TimestampRange | NoMessageCount | IntegrityFailure

record recorded_message =
  rm_account_id :: string
  rm_conversation_id :: ustr
  rm_direction :: string
  rm_message_type :: string
  rm_content :: ustr
  rm_message_id :: "ustr option"
  rm_peer_user_id :: "ustr option"
  rm_peer_name :: "ustr option"
  rm_item_id :: "ustr option"
  rm_send_success :: "bool option"
  rm_send_error :: "ustr option"
  rm_raw_payload :: json
  rm_created_at_ms :: "int option"
  rm_attachments :: "(ustr \<times> json) list list"
  rm_count_unread :: bool
  rm_promote_activity :: bool

section \<open>Values\<close>

definition normalize_epoch_milliseconds :: "int option \<Rightarrow> int option" where
  "normalize_epoch_milliseconds v = (case v of
     None \<Rightarrow> None
   | Some t \<Rightarrow> if 0 < \<bar>t\<bar> \<and> \<bar>t\<bar> < 100000000000 then Some (t * 1000) else Some t)"

text \<open>\<open>datetime.fromtimestamp(ms / 1000, UTC)\<close>: the years 1 to 9999.\<close>

definition from_ms :: "int \<Rightarrow> timestamp option" where
  "from_ms ms = (if - 62135596800000 \<le> ms \<and> ms \<le> 253402300799999 then Some (ms * 1000) else None)"

definition normalize_direction :: "string \<Rightarrow> string" where
  "normalize_direction v = (if v \<in> {''inbound'', ''outbound''} then v else ''inbound'')"

definition normalize_message_type :: "string \<Rightarrow> string" where
  "normalize_message_type v =
     (if v \<in> {''text'', ''image'', ''audio'', ''card'', ''system'', ''unknown''} then v else ''unknown'')"

definition message_dedupe_key ::
  "(ustr \<Rightarrow> string) \<Rightarrow> ustr \<Rightarrow> string \<Rightarrow> string \<Rightarrow> ustr \<Rightarrow> ustr option \<Rightarrow> int \<Rightarrow> string option" where
  "message_dedupe_key sha256 conversation_id direction message_type content peer_user_id created_at_ms =
     (if created_at_ms = 0 then None
      else Some (sha256 (join [31] [conversation_id, asc direction, asc message_type, content,
             u_text peer_user_id, ushow created_at_ms])))"

definition at_or_after :: "timestamp \<Rightarrow> timestamp option \<Rightarrow> bool" where
  "at_or_after v reference = (case reference of None \<Rightarrow> True | Some r \<Rightarrow> r \<le> v)"

section \<open>The name of the other side\<close>

definition get_peer_identity :: "account_row \<Rightarrow> ustr option \<Rightarrow> peer_identity list \<Rightarrow> peer_identity option" where
  "get_peer_identity account peer rows = (if \<not> utruthy peer then None
     else find (\<lambda>i. pi_platform i = ac_platform account \<and> pi_account_id i = ac_account_id account
                    \<and> pi_peer_user_id i = the peer) rows)"

definition merge_peer_identity ::
  "message_env \<Rightarrow> string \<Rightarrow> timestamp \<Rightarrow> account_row \<Rightarrow> ustr option \<Rightarrow> ustr option \<Rightarrow> ustr option \<Rightarrow> string \<Rightarrow> timestamp
   \<Rightarrow> peer_identity option \<Rightarrow> peer_identity list \<Rightarrow> ustr option \<times> peer_identity list" where
  "merge_peer_identity env identity_pk now account peer candidate fallback source observed_at identity rows =
     (let norm = (\<lambda>n. normalize_peer_name (me_nfkc env) (me_casefold env) n peer);
          candidate_name = norm candidate; fallback_name = norm fallback;
          current_name = norm (map_option pi_display_name identity) in
      if \<not> utruthy peer then (u_or candidate_name fallback_name, rows)
      else let can_replace = (case identity of None \<Rightarrow> True
                 | Some i \<Rightarrow> \<not> utruthy current_name \<or> pi_last_seen_at i \<le> observed_at);
               replace = utruthy candidate_name \<and> can_replace;
               resolved = u_or (if replace then candidate_name else current_name) (u_or fallback_name candidate_name) in
           if \<not> utruthy resolved then (None, rows)
           else (case identity of
               None \<Rightarrow> (resolved, rows @ [\<lparr>pi_identity_pk = identity_pk, pi_platform = ac_platform account,
                  pi_account_id = ac_account_id account, pi_peer_user_id = the peer, pi_display_name = the resolved,
                  pi_source = source, pi_avatar_url = None, pi_avatar_source = None, pi_profile_checked_at = None,
                  pi_last_seen_at = observed_at, pi_created_at = now, pi_updated_at = now\<rparr>])
             | Some i \<Rightarrow>
                 if replace
                 then (candidate_name, put_row pi_identity_pk (i\<lparr>pi_display_name := the candidate_name, pi_source := source,
                         pi_last_seen_at := observed_at, pi_updated_at := now\<rparr>) rows)
                 else (resolved, rows)))"

section \<open>The state of a conversation\<close>

definition answerable :: "string \<Rightarrow> bool" where
  "answerable message_type \<longleftrightarrow> message_type \<in> {''text'', ''image'', ''audio'', ''unknown''}"

definition apply_conversation_work_state ::
  "string \<Rightarrow> string \<Rightarrow> timestamp \<Rightarrow> bool option \<Rightarrow> conversation_row \<Rightarrow> conversation_row" where
  "apply_conversation_work_state direction message_type created_at send_success c =
     (if direction = [] then c
      else let d = normalize_direction direction in
        if d = ''inbound'' \<and> answerable (normalize_message_type message_type)
        then c\<lparr>cv_last_inbound_at := (if at_or_after created_at (cv_last_inbound_at c) then Some created_at else cv_last_inbound_at c),
               cv_needs_reply := (if at_or_after created_at (cv_last_outbound_at c) then True else cv_needs_reply c)\<rparr>
        else if d = ''outbound'' \<and> send_success \<noteq> Some False
        then c\<lparr>cv_last_outbound_at := (if at_or_after created_at (cv_last_outbound_at c) then Some created_at else cv_last_outbound_at c),
               cv_needs_reply := (if at_or_after created_at (cv_last_inbound_at c) then False else cv_needs_reply c)\<rparr>
        else c)"

definition cut :: "nat \<Rightarrow> ustr option \<Rightarrow> ustr option" where
  "cut n v = (if utruthy v then map_option (take n) v else None)"

definition apply_conversation_item_context ::
  "codec \<Rightarrow> item_context \<Rightarrow> timestamp \<Rightarrow> conversation_row \<Rightarrow> url_error + conversation_row" where
  "apply_conversation_item_context cx ctx observed_at c =
     (if cv_item_context_at c \<noteq> None \<and> \<not> at_or_after observed_at (cv_item_context_at c) then Inr c
      else case normalize_item_url cx (ic_url ctx) (Some (ic_item_id ctx)) of
        Inl e \<Rightarrow> Inl e
      | Inr url \<Rightarrow>
          let other = utruthy (cv_item_id c) \<and> cv_item_id c \<noteq> Some (ic_item_id ctx);
              kept = (\<lambda>f. if other then None else f c) in
          Inr (c\<lparr>cv_item_id := Some (take 128 (ic_item_id ctx)),
            cv_item_context_source := Some (take 32 (ic_source ctx)), cv_item_context_at := Some observed_at,
            cv_item_title := u_or (cut 500 (ic_title ctx)) (kept cv_item_title),
            cv_item_price := u_or (cut 120 (ic_price ctx)) (kept cv_item_price),
            cv_item_image_url := u_or (cut 1000 (ic_image_url ctx)) (kept cv_item_image_url),
            cv_item_url := u_or url (kept cv_item_url)\<rparr>))"

section \<open>Cards and attachments\<close>

type_synonym card_id_key = "string \<times> ustr option \<times> ustr option \<times> ustr option"

definition stored_card_key :: "message_card \<Rightarrow> card_id_key" where
  "stored_card_key c = (cd_card_type c, cd_item_id c, cd_order_id c, cd_title c)"

definition new_message_card :: "string \<Rightarrow> message_row \<Rightarrow> parsed_card \<Rightarrow> message_card" where
  "new_message_card card_id m p = \<lparr>cd_card_id = card_id, cd_account_id = mg_account_id m,
     cd_conversation_id = mg_conversation_id m, cd_message_pk = mg_message_pk m, cd_card_type = pc_card_type p,
     cd_item_id = pc_item_id p, cd_order_id = pc_order_id p, cd_title = None, cd_price = None, cd_status = None,
     cd_image_url = None, cd_url = None, cd_raw_summary = JNull, cd_created_at = mg_created_at m\<rparr>"

definition card_values :: "parsed_card \<Rightarrow> message_card \<Rightarrow> message_card" where
  "card_values p r =
     (let title = u_or (pc_title p) (cd_title r) in
      r\<lparr>cd_title := (if utruthy title then map_option (take 500) title else title),
        cd_price := u_or (cut 120 (pc_price p)) (cd_price r), cd_status := u_or (cut 120 (pc_status p)) (cd_status r),
        cd_image_url := u_or (cut 1000 (pc_image_url p)) (cd_image_url r), cd_url := u_or (cut 1500 (pc_url p)) (cd_url r),
        cd_raw_summary := (if pc_raw_summary p = JNull then cd_raw_summary r else pc_raw_summary p)\<rparr>)"

text \<open>\<open>existing\<close> maps the key of a card to its row, by the identifier of the row.\<close>

fun upsert_cards ::
  "(nat \<Rightarrow> string) \<Rightarrow> nat \<Rightarrow> message_row \<Rightarrow> (card_id_key \<times> string) list \<Rightarrow> parsed_card list \<Rightarrow> message_card list
   \<Rightarrow> message_card list \<times> message_card list" where
  "upsert_cards ids n m existing [] rows = (rows, [])"
| "upsert_cards ids n m existing (p # ps) rows =
     (let found = (case map_of existing (card_key p) of None \<Rightarrow> None | Some i \<Rightarrow> get_row cd_card_id rows i);
          row = card_values p (case found of None \<Rightarrow> new_message_card (ids n) m p | Some r \<Rightarrow> r);
          known = (if found = None then (card_key p, cd_card_id row) # existing else existing);
          (rows', result) = upsert_cards ids (Suc n) m known ps (put_row cd_card_id row rows)
      in (rows', row # result))"

definition upsert_message_cards ::
  "(nat \<Rightarrow> string) \<Rightarrow> message_row \<Rightarrow> parsed_card list \<Rightarrow> message_card list \<Rightarrow> message_card list \<times> message_card list" where
  "upsert_message_cards ids m parsed rows =
     (let existing = rev (map (\<lambda>r. (stored_card_key r, cd_card_id r)) (filter (\<lambda>r. cd_message_pk r = mg_message_pk m) rows))
      in upsert_cards ids 0 m existing parsed rows)"

definition or_text :: "json \<Rightarrow> ustr" where
  "or_text v = (if jtruthy v then ustrip (py_str v) else [])"

text \<open>Received audio attachments by kind and address; size and MIME type are left out.\<close>

fun received_attachments :: "(string \<times> ustr option) list \<Rightarrow> (ustr \<times> json) list list \<Rightarrow> (string \<times> ustr option) list" where
  "received_attachments present [] = present"
| "received_attachments present (item # items) =
     (let kind = ulower (or_text (jget ''attachment_type'' (JObj item)));
          url = or_text (jget ''remote_url'' (JObj item));
          key = (''audio'', Some (take 1500 url))
      in received_attachments
           (if kind \<noteq> asc ''audio'' \<or> url = [] \<or> key \<in> set present then present else present @ [key]) items)"

section \<open>Read states\<close>

definition enabled_users :: "message_db \<Rightarrow> string list" where
  "enabled_users db = map fst (filter snd (mb_users db))"

definition find_read_state :: "string \<Rightarrow> string \<Rightarrow> read_state list \<Rightarrow> read_state option" where
  "find_read_state user_id conversation_pk rows =
     find (\<lambda>s. rs_user_id s = user_id \<and> rs_conversation_pk s = conversation_pk) rows"

definition new_read_state :: "string \<Rightarrow> string \<Rightarrow> string \<Rightarrow> int \<Rightarrow> timestamp \<Rightarrow> read_state" where
  "new_read_state state_id user_id conversation_pk unread now = \<lparr>rs_state_id = state_id, rs_user_id = user_id,
     rs_conversation_pk = conversation_pk, rs_unread_count = unread, rs_last_read_message_id = None,
     rs_last_read_at = None, rs_created_at = now, rs_updated_at = now\<rparr>"

text \<open>The state of one user in one conversation is changed, or a new one is added.\<close>

definition change_read_state ::
  "string \<Rightarrow> string \<Rightarrow> (read_state \<Rightarrow> read_state) \<Rightarrow> read_state \<Rightarrow> read_state list \<Rightarrow> read_state list" where
  "change_read_state user_id conversation_pk f fresh rows =
     (case find_read_state user_id conversation_pk rows of
        None \<Rightarrow> rows @ [fresh]
      | Some _ \<Rightarrow> update_where (\<lambda>s. rs_user_id s = user_id \<and> rs_conversation_pk s = conversation_pk) f rows)"

definition increment_read_states_for_inbound ::
  "(string \<Rightarrow> string) \<Rightarrow> timestamp \<Rightarrow> string list \<Rightarrow> conversation_row \<Rightarrow> read_state list \<Rightarrow> read_state list" where
  "increment_read_states_for_inbound ids now users c rows =
     fold (\<lambda>user_id. change_read_state user_id (cv_conversation_pk c)
        (\<lambda>s. s\<lparr>rs_unread_count := rs_unread_count s + 1, rs_updated_at := now\<rparr>)
        (new_read_state (ids user_id) user_id (cv_conversation_pk c)
           (if cv_unread_count c = 0 then 1 else cv_unread_count c) now)) users rows"

definition latest_message :: "(message_row \<Rightarrow> bool) \<Rightarrow> message_row list \<Rightarrow> message_row option" where
  "latest_message p rows = (case rev (sort_key (\<lambda>m. (mg_created_at_ms m, mg_message_pk m)) (filter p rows)) of
     [] \<Rightarrow> None | m # _ \<Rightarrow> Some m)"

definition mark_conversation_read ::
  "string \<Rightarrow> timestamp \<Rightarrow> string \<Rightarrow> string \<Rightarrow> ustr \<Rightarrow> message_db \<Rightarrow> message_db \<times> bool" where
  "mark_conversation_read state_id now user_id account_id conversation_id db =
     (case (find_conversation account_id conversation_id (mb_conversations db), get_row ac_account_id (mb_accounts db) account_id) of
        (Some c, Some _) \<Rightarrow>
          let latest = latest_message (\<lambda>m. mg_account_id m = account_id \<and> mg_conversation_id m = conversation_id) (mb_messages db);
              f = (\<lambda>s. s\<lparr>rs_unread_count := 0, rs_last_read_message_id := Option.bind latest mg_message_id,
                        rs_last_read_at := Some now, rs_updated_at := now\<rparr>)
          in (db\<lparr>mb_read_states := change_read_state user_id (cv_conversation_pk c) f
                (f (new_read_state state_id user_id (cv_conversation_pk c) 0 now)) (mb_read_states db)\<rparr>, True)
      | _ \<Rightarrow> (db, False))"

text \<open>
  A read receipt of the platform, for all enabled users. It is ignored when a message came in
  after the time it speaks of. \<open>clock\<close> is the time of the update; the result lists the users for
  whom something was unread.
\<close>

definition shared_read_state ::
  "timestamp \<Rightarrow> timestamp \<Rightarrow> message_row option \<Rightarrow> read_state \<Rightarrow> read_state" where
  "shared_read_state clock read_at latest s = s\<lparr>rs_unread_count := 0,
     rs_last_read_message_id := Option.bind latest mg_message_id,
     rs_last_read_at := (case rs_last_read_at s of
        None \<Rightarrow> Some read_at | Some t \<Rightarrow> if t < read_at then Some read_at else Some t),
     rs_updated_at := clock\<rparr>"

definition mark_conversation_read_shared ::
  "(string \<Rightarrow> string) \<Rightarrow> timestamp \<Rightarrow> string \<Rightarrow> ustr \<Rightarrow> timestamp \<Rightarrow> message_db \<Rightarrow> message_db \<times> bool \<times> string list" where
  "mark_conversation_read_shared ids clock account_id conversation_id read_at db =
     (case (find_conversation account_id conversation_id (mb_conversations db), get_row ac_account_id (mb_accounts db) account_id) of
        (Some c, Some _) \<Rightarrow>
          if (case cv_last_inbound_at c of None \<Rightarrow> False | Some t \<Rightarrow> read_at < t) then (db, False, [])
          else let users = enabled_users db; pk = cv_conversation_pk c;
                   latest = latest_message (\<lambda>m. mg_account_id m = account_id \<and> mg_conversation_id m = conversation_id
                      \<and> mg_direction m = ''inbound'' \<and> mg_created_at_ms m \<le> read_at div 1000 + 999) (mb_messages db);
                   unread = (\<lambda>u. case find_read_state u pk (mb_read_states db) of
                      None \<Rightarrow> cv_unread_count c | Some s \<Rightarrow> rs_unread_count s);
                   f = shared_read_state clock read_at latest;
                   states = fold (\<lambda>u. change_read_state u pk f (f (new_read_state (ids u) u pk 0 read_at))) users (mb_read_states db)
               in (db\<lparr>mb_read_states := states\<rparr>, True, filter (\<lambda>u. 0 < unread u) users)
      | _ \<Rightarrow> (db, False, []))"

section \<open>Recording a message\<close>

text \<open>The columns of the unique indexes on messages.\<close>

definition message_clash :: "message_row \<Rightarrow> message_row \<Rightarrow> bool" where
  "message_clash m r \<longleftrightarrow> mg_account_id r = mg_account_id m
     \<and> ((mg_message_id m \<noteq> None \<and> mg_message_id r = mg_message_id m)
        \<or> (mg_dedupe_key m \<noteq> None \<and> mg_dedupe_key r = mg_dedupe_key m)
        \<or> (mg_client_request_id m \<noteq> None \<and> mg_client_request_id r = mg_client_request_id m))"

text \<open>A commit that writes the message is rejected when another row has one of its unique values.\<close>

definition message_storable :: "message_row \<Rightarrow> message_row list \<Rightarrow> bool" where
  "message_storable m rows = list_all (\<lambda>r. mg_message_pk r \<noteq> mg_message_pk m \<longrightarrow> \<not> message_clash m r) rows"

definition find_message :: "string \<Rightarrow> ustr option \<Rightarrow> string option \<Rightarrow> message_row list \<Rightarrow> message_row option" where
  "find_message account_id message_id dedupe_key rows =
     (let by_id = (if utruthy message_id then find (\<lambda>r. mg_account_id r = account_id \<and> mg_message_id r = message_id) rows else None)
      in case by_id of
           Some r \<Rightarrow> Some r
         | None \<Rightarrow> if truthy dedupe_key then find (\<lambda>r. mg_account_id r = account_id \<and> mg_dedupe_key r = dedupe_key) rows else None)"

definition VOICE_MARK :: ustr where
  "VOICE_MARK = [91, 0x8BED, 0x97F3, 93]"

definition upgraded_type :: "message_row \<Rightarrow> string \<Rightarrow> bool" where
  "upgraded_type r message_type \<longleftrightarrow> (mg_message_type r = ''unknown'' \<and> message_type \<noteq> ''unknown'')
     \<or> (mg_message_type r = ''text'' \<and> ustrip (mg_content r) = VOICE_MARK \<and> message_type = ''audio'')"

text \<open>What is known of a message before it is stored: the arguments after normalisation.\<close>

record message_facts =
  mf_direction :: string
  mf_message_type :: string
  mf_peer_user_id :: "ustr option"
  mf_peer_name :: "ustr option"
  mf_canonical_name :: "ustr option"
  mf_item_context :: "item_context option"
  mf_item_id :: "ustr option"
  mf_send_status :: "string option"
  mf_platform_ms :: "int option"
  mf_created_at_ms :: int
  mf_created_at :: timestamp
  mf_dedupe_key :: "string option"
  mf_promote :: bool

definition existing_message :: "message_env \<Rightarrow> recorded_message \<Rightarrow> message_facts \<Rightarrow> message_row \<Rightarrow> message_row" where
  "existing_message env a f r =
     (let peer = u_or (mf_peer_user_id f) (mg_peer_user_id r);
          name = (if mf_direction f = ''inbound'' then mf_canonical_name f else mf_peer_name f);
          retime = truthy_int (mf_platform_ms f) \<and> mg_created_at_ms r \<noteq> mf_created_at_ms f;
          up = upgraded_type r (mf_message_type f)
      in r\<lparr>mg_message_id := u_or (rm_message_id a) (mg_message_id r),
           mg_message_type := (if up then mf_message_type f else mg_message_type r),
           mg_content := (if up then rm_content a else mg_content r),
           mg_peer_user_id := peer,
           mg_peer_name := merge_peer_name (me_nfkc env) (me_casefold env) (mg_peer_name r) name peer,
           mg_item_id := u_or (mf_item_id f) (mg_item_id r),
           mg_send_success := (if rm_send_success a = None then mg_send_success r else rm_send_success a),
           mg_send_status := (if mf_send_status f = None then mg_send_status r else mf_send_status f),
           mg_send_error := u_or (rm_send_error a) (mg_send_error r),
           mg_raw_payload := (if rm_raw_payload a = JNull then mg_raw_payload r else rm_raw_payload a),
           mg_created_at_ms := (if retime then mf_created_at_ms f else mg_created_at_ms r),
           mg_created_at := (if retime then mf_created_at f else mg_created_at r),
           mg_attachments := received_attachments (mg_attachments r) (rm_attachments a)\<rparr>)"

definition new_message :: "string \<Rightarrow> timestamp \<Rightarrow> recorded_message \<Rightarrow> message_facts \<Rightarrow> message_row" where
  "new_message message_pk now a f = \<lparr>mg_message_pk = message_pk, mg_account_id = rm_account_id a,
     mg_conversation_id = rm_conversation_id a, mg_message_id = rm_message_id a, mg_dedupe_key = mf_dedupe_key f,
     mg_client_request_id = None, mg_direction = mf_direction f, mg_message_type = mf_message_type f,
     mg_content = rm_content a, mg_peer_user_id = mf_peer_user_id f,
     mg_peer_name = (if mf_direction f = ''inbound'' then mf_canonical_name f else mf_peer_name f),
     mg_item_id = mf_item_id f, mg_send_success = rm_send_success a, mg_send_status = mf_send_status f,
     mg_send_error = rm_send_error a, mg_recalled_at = None, mg_raw_payload = rm_raw_payload a,
     mg_attachments = received_attachments [] (rm_attachments a), mg_created_at_ms = mf_created_at_ms f,
     mg_received_at_ms = (if mf_promote f then Some (now div 1000) else None), mg_created_at = mf_created_at f,
     mg_received_at = (if mf_promote f then Some now else None)\<rparr>"

text \<open>\<open>onupdate\<close> of the column \<open>updated_at\<close>: a changed row gets the time of the commit.\<close>

definition touched :: "timestamp \<Rightarrow> conversation_row \<Rightarrow> conversation_row \<Rightarrow> conversation_row" where
  "touched now old c = (if c = old then old else c\<lparr>cv_updated_at := now\<rparr>)"

definition with_context :: "codec \<Rightarrow> message_facts \<Rightarrow> conversation_row \<Rightarrow> url_error + conversation_row" where
  "with_context cx f c = (case mf_item_context f of
     None \<Rightarrow> Inr c | Some ctx \<Rightarrow> apply_conversation_item_context cx ctx (mf_created_at f) c)"

text \<open>The conversation of a message that is already stored.\<close>

definition existing_conversation ::
  "message_env \<Rightarrow> recorded_message \<Rightarrow> message_facts \<Rightarrow> conversation_row \<Rightarrow> url_error + conversation_row" where
  "existing_conversation env a f c =
     (let named = c\<lparr>cv_peer_name := u_or (mf_canonical_name f) (cv_peer_name c)\<rparr>;
          worked = (if mf_direction f = ''outbound'' \<and> rm_send_success a = Some True
            then apply_conversation_work_state (mf_direction f) (mf_message_type f) (mf_created_at f) (Some True) named
            else named)
      in with_context (me_codec env) f worked)"

text \<open>The conversation of a new message, before the cards of the message are known.\<close>

definition named_conversation :: "message_env \<Rightarrow> message_facts \<Rightarrow> conversation_row \<Rightarrow> conversation_row" where
  "named_conversation env f c =
     (let peer = u_or (mf_peer_user_id f) (cv_peer_user_id c) in
      c\<lparr>cv_peer_user_id := peer,
        cv_peer_name := u_or (mf_canonical_name f)
          (merge_peer_name (me_nfkc env) (me_casefold env) (cv_peer_name c) (mf_peer_name f) peer)\<rparr>)"

definition counted_conversation :: "timestamp \<Rightarrow> recorded_message \<Rightarrow> message_facts \<Rightarrow> conversation_row \<Rightarrow> conversation_row" where
  "counted_conversation now a f c =
     (let latest = (mf_direction f \<noteq> ''outbound'' \<or> rm_send_success a \<noteq> Some False)
            \<and> at_or_after (mf_created_at f) (cv_last_message_at c);
          lasted = (if latest then c\<lparr>cv_last_message_content := Some (rm_content a), cv_last_message_type := mf_message_type f,
              cv_last_message_direction := Some (mf_direction f), cv_last_message_at := Some (mf_created_at f)\<rparr> else c);
          counted = lasted\<lparr>cv_message_count := cv_message_count lasted + 1,
            cv_unread_count := cv_unread_count lasted + (if mf_direction f = ''inbound'' \<and> rm_count_unread a then 1 else 0)\<rparr>;
          worked = apply_conversation_work_state (mf_direction f) (mf_message_type f) (mf_created_at f) (rm_send_success a) counted;
          active = (if mf_promote f then worked\<lparr>cv_last_activity_at := Some now, cv_last_activity_content := Some (rm_content a),
              cv_last_activity_type := Some (mf_message_type f), cv_last_activity_direction := Some (mf_direction f)\<rparr> else worked)
      in active\<lparr>cv_updated_at := now\<rparr>)"

text \<open>An item that a card or an order names is taken over when the conversation has none.\<close>

definition adopt_item :: "ustr option \<Rightarrow> conversation_row \<Rightarrow> conversation_row" where
  "adopt_item item c = (if utruthy item \<and> \<not> utruthy (cv_item_id c) then c\<lparr>cv_item_id := item\<rparr> else c)"

definition message_facts_of ::
  "message_env \<Rightarrow> string \<Rightarrow> timestamp \<Rightarrow> recorded_message \<Rightarrow> account_row \<Rightarrow> timestamp \<Rightarrow> int \<Rightarrow> message_db
   \<Rightarrow> message_facts \<times> peer_identity list" where
  "message_facts_of env identity_pk now a account created_at created_at_ms db =
     (let ctx = parse_item_context (me_codec env) (rm_raw_payload a) (rm_item_id a);
          direction = normalize_direction (rm_direction a); message_type = normalize_message_type (rm_message_type a);
          peer_name = normalize_peer_name (me_nfkc env) (me_casefold env) (rm_peer_name a) (rm_peer_user_id a);
          cached = find_conversation (rm_account_id a) (rm_conversation_id a) (mb_conversations db);
          peer = u_or (rm_peer_user_id a) (Option.bind cached cv_peer_user_id);
          (canonical, identities) = merge_peer_identity env identity_pk now account peer peer_name
             (Option.bind cached cv_peer_name) ''message'' created_at
             (get_peer_identity account peer (mb_identities db)) (mb_identities db)
      in (\<lparr>mf_direction = direction, mf_message_type = message_type, mf_peer_user_id = peer, mf_peer_name = peer_name,
           mf_canonical_name = canonical, mf_item_context = ctx,
           mf_item_id = (case ctx of None \<Rightarrow> rm_item_id a | Some c \<Rightarrow> Some (ic_item_id c)),
           mf_send_status = (if direction = ''outbound''
              then map_option (\<lambda>ok. if ok then ''sent'' else ''failed'') (rm_send_success a) else None),
           mf_platform_ms = normalize_epoch_milliseconds (rm_created_at_ms a), mf_created_at_ms = created_at_ms,
           mf_created_at = created_at,
           mf_dedupe_key = message_dedupe_key (me_sha256 env) (rm_conversation_id a) direction message_type (rm_content a) peer created_at_ms,
           mf_promote = rm_promote_activity a \<and> (direction \<noteq> ''outbound'' \<or> rm_send_success a \<noteq> Some False)\<rparr>, identities))"

datatype record_result = NoAccount | AlreadyStored message_row bool | Stored message_row

definition update_existing_message ::
  "message_env \<Rightarrow> new_ids \<Rightarrow> timestamp \<Rightarrow> recorded_message \<Rightarrow> message_facts \<Rightarrow> message_row \<Rightarrow> message_db
   \<Rightarrow> record_error + (message_db \<times> record_result)" where
  "update_existing_message env ids now a f old db =
     (let cached = find_conversation (rm_account_id a) (rm_conversation_id a) (mb_conversations db);
          m = existing_message env a f old;
          cards = fst (upsert_message_cards (ni_card ids) m
             (parse_message_cards (me_codec env) (rm_raw_payload a) (rm_content a) (mf_item_id f)) (mb_cards db)) in
      case (case cached of None \<Rightarrow> Inr (mb_conversations db)
            | Some c \<Rightarrow> (case existing_conversation env a f c of
                Inl e \<Rightarrow> Inl e | Inr c' \<Rightarrow> Inr (put_row cv_conversation_pk (touched now c c') (mb_conversations db)))) of
        Inl _ \<Rightarrow> Inl ItemUrlError
      | Inr conversations \<Rightarrow>
          if \<not> message_storable m (mb_messages db) then Inl IntegrityFailure
          else Inr (db\<lparr>mb_messages := put_row mg_message_pk m (mb_messages db), mb_conversations := conversations, mb_cards := cards\<rparr>,
                    AlreadyStored m (mg_attachments m \<noteq> mg_attachments old)))"

text \<open>The conversation of the message; a new row is numbered by \<open>ni_conversation\<close>.\<close>

definition get_or_create_conversation :: "string \<Rightarrow> timestamp \<Rightarrow> string \<Rightarrow> ustr \<Rightarrow> conversation_row list \<Rightarrow> conversation_row" where
  "get_or_create_conversation pk now account_id conversation_id rows =
     (case find_conversation account_id conversation_id rows of
        Some c \<Rightarrow> c | None \<Rightarrow> conversation_defaults pk account_id conversation_id now)"

definition insert_message ::
  "message_env \<Rightarrow> new_ids \<Rightarrow> timestamp \<Rightarrow> recorded_message \<Rightarrow> message_facts \<Rightarrow> account_row \<Rightarrow> message_db
   \<Rightarrow> record_error + (message_db \<times> record_result)" where
  "insert_message env ids now a f account db =
     (let c = named_conversation env f (get_or_create_conversation (ni_conversation ids) now (rm_account_id a) (rm_conversation_id a) (mb_conversations db)) in
      case with_context (me_codec env) f c of
        Inl _ \<Rightarrow> Inl ItemUrlError
      | Inr c \<Rightarrow>
          (case get_row rn_account_id (mb_runtimes db) (rm_account_id a) of
             None \<Rightarrow> Inl NoMessageCount
           | Some rn \<Rightarrow>
               let c = counted_conversation now a f c;
                   states = (if mf_direction f = ''inbound'' \<and> rm_count_unread a
                     then increment_read_states_for_inbound (ni_state ids) now (enabled_users db) c (mb_read_states db)
                     else mb_read_states db);
                   m = new_message (ni_message ids) now a f;
                   (cards, parsed) = upsert_message_cards (ni_card ids) m
                     (parse_message_cards (me_codec env) (rm_raw_payload a) (rm_content a) (mf_item_id f)) (mb_cards db);
                   c = fold (\<lambda>card. adopt_item (cd_item_id card)) parsed c;
                   (orders, order) = (case parse_order_event (me_codec env) (rm_raw_payload a) (rm_content a) (mf_item_id f) (mf_peer_user_id f) of
                     None \<Rightarrow> (mb_orders db, None)
                   | Some p \<Rightarrow> upsert_order_event (me_nfkc env) (me_casefold env) (ni_order ids) (ni_event ids) m p (mb_orders db));
                   c = adopt_item (Option.bind order od_item_id) c in
               if \<not> message_storable m (mb_messages db) then Inl IntegrityFailure
               else Inr (db\<lparr>mb_accounts := put_row ac_account_id (account\<lparr>ac_updated_at := now\<rparr>) (mb_accounts db),
                   mb_runtimes := put_row rn_account_id (rn\<lparr>rn_message_count := rn_message_count rn + 1,
                      rn_last_message_at := Some (mf_created_at f), rn_updated_at := now\<rparr>) (mb_runtimes db),
                   mb_conversations := put_row cv_conversation_pk c (mb_conversations db),
                   mb_messages := mb_messages db @ [m], mb_read_states := states, mb_cards := cards, mb_orders := orders\<rparr>,
                   Stored m)))"

definition record_message ::
  "message_env \<Rightarrow> new_ids \<Rightarrow> int \<Rightarrow> recorded_message \<Rightarrow> message_db \<Rightarrow> record_error + (message_db \<times> record_result)" where
  "record_message env ids now_ms a db =
     (case get_row ac_account_id (mb_accounts db) (rm_account_id a) of
        None \<Rightarrow> Inr (db, NoAccount)
      | Some account \<Rightarrow>
          let platform_ms = normalize_epoch_milliseconds (rm_created_at_ms a); now = now_ms * 1000;
              created_at_ms = (if truthy_int platform_ms then the platform_ms else now_ms) in
          (case (if truthy_int platform_ms then from_ms created_at_ms else Some now) of
             None \<Rightarrow> Inl TimestampRange
           | Some created_at \<Rightarrow>
               let (f, identities) = message_facts_of env (ni_identity ids) now a account created_at created_at_ms db;
                   db = db\<lparr>mb_identities := identities\<rparr> in
               (case find_message (rm_account_id a) (rm_message_id a) (mf_dedupe_key f) (mb_messages db) of
                  Some old \<Rightarrow> update_existing_message env ids now a f old db
                | None \<Rightarrow> insert_message env ids now a f account db)))"

section \<open>Outgoing messages under a request identifier\<close>

definition find_request :: "string \<Rightarrow> string \<Rightarrow> message_row list \<Rightarrow> message_row option" where
  "find_request account_id request_id rows =
     find (\<lambda>r. mg_account_id r = account_id \<and> mg_client_request_id r = Some request_id) rows"

definition outbound_message ::
  "string \<Rightarrow> int \<Rightarrow> string \<Rightarrow> ustr \<Rightarrow> string \<Rightarrow> ustr \<Rightarrow> string \<Rightarrow> ustr \<Rightarrow> string \<Rightarrow> (string \<times> ustr option) list \<Rightarrow> message_row" where
  "outbound_message message_pk now_ms account_id conversation_id request_id peer message_type content status attachments =
     \<lparr>mg_message_pk = message_pk, mg_account_id = account_id, mg_conversation_id = conversation_id, mg_message_id = None,
      mg_dedupe_key = None, mg_client_request_id = Some request_id, mg_direction = ''outbound'',
      mg_message_type = message_type, mg_content = content, mg_peer_user_id = Some peer, mg_peer_name = None,
      mg_item_id = None, mg_send_success = None, mg_send_status = Some status, mg_send_error = None,
      mg_recalled_at = None, mg_raw_payload = JNull, mg_attachments = attachments, mg_created_at_ms = now_ms,
      mg_received_at_ms = Some now_ms, mg_created_at = now_ms * 1000, mg_received_at = Some (now_ms * 1000)\<rparr>"

text \<open>Common to texts and images: the row of the request if there is one, otherwise \<open>m\<close> is added.\<close>

definition begin_outbound ::
  "message_row \<Rightarrow> message_db \<Rightarrow> record_error + (message_db \<times> message_row option \<times> bool)" where
  "begin_outbound m db =
     (case find_request (mg_account_id m) (the (mg_client_request_id m)) (mb_messages db) of
        Some r \<Rightarrow> Inr (db, Some r, False)
      | None \<Rightarrow>
          (case (get_row ac_account_id (mb_accounts db) (mg_account_id m),
                 find_conversation (mg_account_id m) (mg_conversation_id m) (mb_conversations db)) of
             (Some account, Some c) \<Rightarrow>
               (case get_row rn_account_id (mb_runtimes db) (mg_account_id m) of
                  None \<Rightarrow> Inl NoMessageCount
                | Some rn \<Rightarrow>
                    let now = mg_created_at m in
                    if \<not> message_storable m (mb_messages db) then Inl IntegrityFailure
                    else Inr (db\<lparr>mb_accounts := put_row ac_account_id (account\<lparr>ac_updated_at := now\<rparr>) (mb_accounts db),
                      mb_runtimes := put_row rn_account_id (rn\<lparr>rn_message_count := rn_message_count rn + 1,
                         rn_last_message_at := Some now, rn_updated_at := now\<rparr>) (mb_runtimes db),
                      mb_conversations := put_row cv_conversation_pk
                         (c\<lparr>cv_message_count := cv_message_count c + 1, cv_updated_at := now\<rparr>) (mb_conversations db),
                      mb_messages := mb_messages db @ [m]\<rparr>, Some m, True))
           | _ \<Rightarrow> Inr (db, None, False)))"

definition begin_outbound_text ::
  "string \<Rightarrow> int \<Rightarrow> string \<Rightarrow> ustr \<Rightarrow> string \<Rightarrow> ustr \<Rightarrow> ustr \<Rightarrow> message_db
   \<Rightarrow> record_error + (message_db \<times> message_row option \<times> bool)" where
  "begin_outbound_text message_pk now_ms account_id conversation_id request_id peer content =
     begin_outbound (outbound_message message_pk now_ms account_id conversation_id request_id peer ''text'' content ''sending'' [])"

definition begin_outbound_image ::
  "string \<Rightarrow> int \<Rightarrow> string \<Rightarrow> ustr \<Rightarrow> string \<Rightarrow> ustr \<Rightarrow> message_db
   \<Rightarrow> record_error + (message_db \<times> message_row option \<times> bool)" where
  "begin_outbound_image message_pk now_ms account_id conversation_id request_id peer =
     begin_outbound (outbound_message message_pk now_ms account_id conversation_id request_id peer ''image'' [] ''uploading'' [(''image'', None)])"

record send_outcome =
  so_success :: bool
  so_message_id :: "ustr option"
  so_error :: "ustr option"
  so_raw_payload :: json

definition completed_message :: "send_outcome \<Rightarrow> message_row \<Rightarrow> message_row" where
  "completed_message res m = m\<lparr>mg_message_id := u_or (so_message_id res) (mg_message_id m),
     mg_send_success := Some (so_success res), mg_send_status := Some (if so_success res then ''sent'' else ''failed''),
     mg_send_error := so_error res, mg_raw_payload := so_raw_payload res\<rparr>"

definition sent_conversation :: "timestamp \<Rightarrow> string \<Rightarrow> message_row \<Rightarrow> conversation_row \<Rightarrow> conversation_row" where
  "sent_conversation now message_type m c =
     (let lasted = (if at_or_after (mg_created_at m) (cv_last_message_at c)
            then c\<lparr>cv_last_message_content := Some (mg_content m), cv_last_message_type := message_type,
                   cv_last_message_direction := Some ''outbound'', cv_last_message_at := Some (mg_created_at m)\<rparr> else c);
          worked = apply_conversation_work_state ''outbound'' message_type (mg_created_at m) (Some True) lasted
      in worked\<lparr>cv_last_activity_at := Some now, cv_last_activity_content := Some (mg_content m),
           cv_last_activity_type := Some message_type, cv_last_activity_direction := Some ''outbound'', cv_updated_at := now\<rparr>)"

definition complete_outbound ::
  "timestamp \<Rightarrow> string \<Rightarrow> (message_row \<Rightarrow> message_row) \<Rightarrow> bool \<Rightarrow> string \<Rightarrow> string \<Rightarrow> message_db
   \<Rightarrow> record_error + (message_db \<times> message_row option)" where
  "complete_outbound now message_type change success account_id request_id db =
     (case find_request account_id request_id (mb_messages db) of
        None \<Rightarrow> Inr (db, None)
      | Some old \<Rightarrow>
          let m = change old;
              conversations = (case find_conversation account_id (mg_conversation_id m) (mb_conversations db) of
                None \<Rightarrow> mb_conversations db
              | Some c \<Rightarrow> if success then put_row cv_conversation_pk (sent_conversation now message_type m c) (mb_conversations db)
                          else mb_conversations db) in
          if \<not> message_storable m (mb_messages db) then Inl IntegrityFailure
          else Inr (db\<lparr>mb_messages := put_row mg_message_pk m (mb_messages db), mb_conversations := conversations\<rparr>, Some m))"

definition complete_outbound_text ::
  "timestamp \<Rightarrow> string \<Rightarrow> string \<Rightarrow> send_outcome \<Rightarrow> message_db \<Rightarrow> record_error + (message_db \<times> message_row option)" where
  "complete_outbound_text now account_id request_id res =
     complete_outbound now ''text'' (completed_message res) (so_success res) account_id request_id"

text \<open>\<open>url\<close> is the address of the uploaded image, \<open>str(media.get("url") or "").strip()\<close>, empty without media.\<close>

definition with_image :: "ustr \<Rightarrow> message_row \<Rightarrow> message_row" where
  "with_image url m =
     (let present = (if mg_attachments m = [] then [(''image'', None)] else mg_attachments m) in
      if url = [] then m\<lparr>mg_attachments := present\<rparr>
      else m\<lparr>mg_content := url, mg_attachments := (fst (hd present), Some url) # tl present\<rparr>)"

definition complete_outbound_image ::
  "timestamp \<Rightarrow> string \<Rightarrow> string \<Rightarrow> send_outcome \<Rightarrow> ustr \<Rightarrow> message_db \<Rightarrow> record_error + (message_db \<times> message_row option)" where
  "complete_outbound_image now account_id request_id res url =
     complete_outbound now ''image'' (with_image url \<circ> completed_message res) (so_success res) account_id request_id"

definition mark_message_recalled ::
  "timestamp \<Rightarrow> string \<Rightarrow> ustr \<Rightarrow> string \<Rightarrow> message_db \<Rightarrow> message_db \<times> message_row option" where
  "mark_message_recalled now account_id conversation_id message_pk db =
     (case find (\<lambda>r. mg_message_pk r = message_pk \<and> mg_account_id r = account_id \<and> mg_conversation_id r = conversation_id) (mb_messages db) of
        None \<Rightarrow> (db, None)
      | Some r \<Rightarrow> let m = r\<lparr>mg_recalled_at := Some now\<rparr>
                  in (db\<lparr>mb_messages := put_row mg_message_pk m (mb_messages db)\<rparr>, Some m))"

end
