(* ===== verification/MessageSafety.thy ===== *)
theory MessageSafety
  imports Messages
begin

text \<open>
  Properties of the recording of messages: whether a conversation waits for an answer does not
  depend on the order of arrival, a message is stored once, the counters are exact, the
  unique indexes are respected, and what goes wrong when a sent text is seen before its
  answer.
\<close>

section \<open>Waiting for an answer\<close>

text \<open>A message for the work state: direction, kind, time, success of sending.\<close>

type_synonym work_event = "string \<times> string \<times> timestamp \<times> bool option"

definition apply_events :: "work_event list \<Rightarrow> conversation_row \<Rightarrow> conversation_row" where
  "apply_events = fold (\<lambda>(d, t, x, s). apply_conversation_work_state d t x s)"

definition asks :: "work_event \<Rightarrow> bool" where
  "asks e = (case e of (d, t, x, s) \<Rightarrow> d \<noteq> [] \<and> normalize_direction d = ''inbound'' \<and> answerable (normalize_message_type t))"

definition replies :: "work_event \<Rightarrow> bool" where
  "replies e = (case e of (d, t, x, s) \<Rightarrow> normalize_direction d = ''outbound'' \<and> s \<noteq> Some False)"

definition event_time :: "work_event \<Rightarrow> timestamp" where
  "event_time e = (case e of (d, t, x, s) \<Rightarrow> x)"

definition ask_times :: "work_event set \<Rightarrow> timestamp set" where
  "ask_times E = event_time ` {e \<in> E. asks e}"

definition reply_times :: "work_event set \<Rightarrow> timestamp set" where
  "reply_times E = event_time ` {e \<in> E. replies e}"

definition latest :: "timestamp set \<Rightarrow> timestamp option" where
  "latest T = (if T = {} then None else Some (Max T))"

text \<open>What the work state should be after a set of messages.\<close>

definition work_state :: "work_event set \<Rightarrow> conversation_row \<Rightarrow> bool" where
  "work_state E c \<longleftrightarrow> cv_last_inbound_at c = latest (ask_times E) \<and> cv_last_outbound_at c = latest (reply_times E)
     \<and> (cv_needs_reply c \<longleftrightarrow> (\<exists>t \<in> ask_times E. \<forall>u \<in> reply_times E. u < t))"

lemma times_insert:
  "ask_times (insert e E) = (if asks e then insert (event_time e) (ask_times E) else ask_times E)"
  "reply_times (insert e E) = (if replies e then insert (event_time e) (reply_times E) else reply_times E)"
  by (auto simp: ask_times_def reply_times_def)

lemma times_empty: "ask_times {} = {}" "reply_times {} = {}"
  by (simp_all add: ask_times_def reply_times_def)

lemma times_finite: "finite E \<Longrightarrow> finite (ask_times E) \<and> finite (reply_times E)"
  by (simp add: ask_times_def reply_times_def)

lemma at_or_after_latest: "finite T \<Longrightarrow> at_or_after x (latest T) \<longleftrightarrow> (\<forall>t \<in> T. t \<le> x)"
  by (auto simp: at_or_after_def latest_def)

lemma latest_insert:
  assumes "finite T"
  shows "(if at_or_after x (latest T) then Some x else latest T) = latest (insert x T)"
proof (cases "\<forall>t \<in> T. t \<le> x")
  case True
  then have "Max (insert x T) = x" using assms by (intro Max_eqI) auto
  with True assms show ?thesis unfolding at_or_after_latest [OF assms] by (simp add: latest_def)
next
  case False
  then obtain t where "t \<in> T" "x < t" by force
  then have "T \<noteq> {}" "x < Max T" using assms by (auto simp: less_le_trans [OF _ Max_ge])
  then have "Max (insert x T) = Max T" using assms by simp
  with \<open>T \<noteq> {}\<close> show ?thesis unfolding at_or_after_latest [OF assms] if_not_P [OF False] by (simp add: latest_def)
qed

lemma asks_replies: "asks e \<Longrightarrow> \<not> replies e"
  by (auto simp: asks_def replies_def split: prod.splits)

lemma later_than_all:
  fixes A R :: "timestamp set"
  shows "(\<exists>t \<in> A. \<forall>u \<in> insert x R. u < t) \<longleftrightarrow> \<not> (\<forall>t \<in> A. t \<le> x) \<and> (\<exists>t \<in> A. \<forall>u \<in> R. u < t)"
    (is "?L \<longleftrightarrow> ?R")
proof
  assume ?R
  then obtain t1 t2 where t: "t1 \<in> A" "x < t1" "t2 \<in> A" "\<forall>u \<in> R. u < t2" by (auto simp: not_le)
  then have "max t1 t2 \<in> A" "\<forall>u \<in> insert x R. u < max t1 t2" by (auto simp: max_def)
  then show ?L by blast
qed (auto simp: not_le)

lemma work_step:
  assumes fin: "finite E" and ok: "work_state E c" and disj: "ask_times (insert e E) \<inter> reply_times (insert e E) = {}"
  shows "work_state (insert e E) (apply_events [e] c)"
proof -
  obtain d t x s where e: "e = (d, t, x, s)" by (cases e)
  have f: "finite (ask_times E)" "finite (reply_times E)" using times_finite [OF fin] by simp_all
  have last: "cv_last_inbound_at c = latest (ask_times E)" "cv_last_outbound_at c = latest (reply_times E)"
    using ok by (simp_all add: work_state_def)
  have x: "event_time e = x" by (simp add: e event_time_def)
  consider (ask) "asks e" | (reply) "replies e" "\<not> asks e" | (other) "\<not> asks e" "\<not> replies e" by blast
  then show ?thesis
  proof cases
    case ask
    then have c': "apply_events [e] c = c\<lparr>cv_last_inbound_at := (if at_or_after x (cv_last_inbound_at c) then Some x else cv_last_inbound_at c),
        cv_needs_reply := (if at_or_after x (cv_last_outbound_at c) then True else cv_needs_reply c)\<rparr>"
      by (simp add: e apply_events_def apply_conversation_work_state_def asks_def Let_def)
    have out: "x \<notin> reply_times E" using disj ask asks_replies [OF ask] x by (auto simp: times_insert)
    have "cv_last_inbound_at (apply_events [e] c) = latest (insert x (ask_times E))"
      unfolding c' last by (simp add: latest_insert f split del: if_split)
    moreover have "(\<forall>u \<in> reply_times E. u \<le> x) \<longleftrightarrow> (\<forall>u \<in> reply_times E. u < x)" using out by (metis less_le)
    then have "cv_needs_reply (apply_events [e] c) \<longleftrightarrow> (\<exists>t \<in> insert x (ask_times E). \<forall>u \<in> reply_times E. u < t)"
      using ok f by (auto simp: c' work_state_def at_or_after_latest)
    ultimately show ?thesis
      using ok ask asks_replies [OF ask] x by (simp add: work_state_def times_insert c')
  next
    case reply
    then have c': "apply_events [e] c = c\<lparr>cv_last_outbound_at := (if at_or_after x (cv_last_outbound_at c) then Some x else cv_last_outbound_at c),
        cv_needs_reply := (if at_or_after x (cv_last_inbound_at c) then False else cv_needs_reply c)\<rparr>"
      by (auto simp: e apply_events_def apply_conversation_work_state_def replies_def Let_def normalize_direction_def)
    have "(\<exists>t \<in> ask_times E. \<forall>u \<in> insert x (reply_times E). u < t)
        \<longleftrightarrow> \<not> (\<forall>t \<in> ask_times E. t \<le> x) \<and> (\<exists>t \<in> ask_times E. \<forall>u \<in> reply_times E. u < t)"
      by (rule later_than_all)
    then have "cv_needs_reply (apply_events [e] c) \<longleftrightarrow> (\<exists>t \<in> ask_times E. \<forall>u \<in> insert x (reply_times E). u < t)"
      using ok f by (auto simp: c' work_state_def at_or_after_latest)
    moreover have "cv_last_outbound_at (apply_events [e] c) = latest (insert x (reply_times E))"
      unfolding c' last by (simp add: latest_insert f split del: if_split)
    ultimately show ?thesis using ok reply x by (simp add: work_state_def times_insert c')
  next
    case other
    have "apply_conversation_work_state d t x s c = c"
    proof (cases "d = []")
      case False
      with other e have no: "\<not> (normalize_direction d = ''inbound'' \<and> answerable (normalize_message_type t))"
        "\<not> (normalize_direction d = ''outbound'' \<and> s \<noteq> Some False)"
        by (simp_all add: asks_def replies_def)
      show ?thesis unfolding apply_conversation_work_state_def Let_def if_not_P [OF no(1)] if_not_P [OF no(2)] if_cancel by (rule refl)
    qed (simp add: apply_conversation_work_state_def)
    then have "apply_events [e] c = c" by (simp add: e apply_events_def)
    with ok other show ?thesis by (simp add: work_state_def times_insert)
  qed
qed

lemma work_run:
  assumes "finite E" "work_state E c" "ask_times (set es \<union> E) \<inter> reply_times (set es \<union> E) = {}"
  shows "work_state (set es \<union> E) (apply_events es c)"
  using assms
proof (induction es arbitrary: E c)
  case Nil
  then show ?case by (simp add: apply_events_def)
next
  case (Cons e es)
  have sub: "ask_times (insert e E) \<subseteq> ask_times (set (e # es) \<union> E)" "reply_times (insert e E) \<subseteq> reply_times (set (e # es) \<union> E)"
    by (auto simp: ask_times_def reply_times_def)
  then have "work_state (insert e E) (apply_events [e] c)" using Cons.prems by (intro work_step) auto
  from Cons.IH [OF _ this] Cons.prems show ?case by (simp add: apply_events_def)
qed



section \<open>How a recording can end\<close>

lemma record_cases:
  assumes "record_message env ids now_ms a db = Inr (db', res)"
  obtains (no_account) "res = NoAccount" "db' = db"
    | (existing) t ms account f I old where
        "message_facts_of env (ni_identity ids) (now_ms * 1000) a account t ms db = (f, I)"
        "find_message (rm_account_id a) (rm_message_id a) (mf_dedupe_key f) (mb_messages db) = Some old"
        "update_existing_message env ids (now_ms * 1000) a f old (db\<lparr>mb_identities := I\<rparr>) = Inr (db', res)"
    | (new) t ms account f I where
        "message_facts_of env (ni_identity ids) (now_ms * 1000) a account t ms db = (f, I)"
        "find_message (rm_account_id a) (rm_message_id a) (mf_dedupe_key f) (mb_messages db) = None"
        "insert_message env ids (now_ms * 1000) a f account (db\<lparr>mb_identities := I\<rparr>) = Inr (db', res)"
proof -
  let ?pm = "normalize_epoch_milliseconds (rm_created_at_ms a)"
  let ?ms = "if truthy_int ?pm then the ?pm else now_ms"
  show thesis
  proof (cases "get_row ac_account_id (mb_accounts db) (rm_account_id a)")
    case None
    with assms show thesis by (intro no_account) (simp_all add: record_message_def)
  next
    case acc: (Some account)
    show thesis
    proof (cases "if truthy_int ?pm then from_ms ?ms else Some (now_ms * 1000)")
      case None
      with acc assms show thesis by (simp add: record_message_def Let_def)
    next
      case (Some t)
      obtain f I where fi: "message_facts_of env (ni_identity ids) (now_ms * 1000) a account t ?ms db = (f, I)"
        by (metis surj_pair)
      show thesis
      proof (cases "find_message (rm_account_id a) (rm_message_id a) (mf_dedupe_key f) (mb_messages db)")
        case None
        with assms acc Some fi show thesis
          by (intro new [OF fi]) (simp_all add: record_message_def Let_def)
      next
        case old: (Some old)
        with assms acc Some fi show thesis
          by (intro existing [OF fi old]) (simp_all add: record_message_def Let_def)
      qed
    qed
  qed
qed

lemma existing_keys [simp]:
  "mg_message_pk (existing_message env a f r) = mg_message_pk r"
  "mg_account_id (existing_message env a f r) = mg_account_id r"
  "mg_conversation_id (existing_message env a f r) = mg_conversation_id r"
  "mg_dedupe_key (existing_message env a f r) = mg_dedupe_key r"
  "mg_client_request_id (existing_message env a f r) = mg_client_request_id r"
  "mg_message_id (existing_message env a f r) = u_or (rm_message_id a) (mg_message_id r)"
  by (simp_all add: existing_message_def Let_def)

lemma new_message_keys [simp]:
  "mg_message_pk (new_message pk now a f) = pk"
  "mg_account_id (new_message pk now a f) = rm_account_id a"
  "mg_conversation_id (new_message pk now a f) = rm_conversation_id a"
  "mg_dedupe_key (new_message pk now a f) = mf_dedupe_key f"
  "mg_client_request_id (new_message pk now a f) = None"
  "mg_message_id (new_message pk now a f) = rm_message_id a"
  by (simp_all add: new_message_def)

text \<open>What no step on a conversation changes.\<close>

definition conversation_key :: "conversation_row \<Rightarrow> string \<times> string \<times> ustr" where
  "conversation_key c = (cv_conversation_pk c, cv_account_id c, cv_conversation_id c)"

lemma work_state_keys [simp]:
  "conversation_key (apply_conversation_work_state d t x s c) = conversation_key c"
  "cv_message_count (apply_conversation_work_state d t x s c) = cv_message_count c"
  "cv_unread_count (apply_conversation_work_state d t x s c) = cv_unread_count c"
  by (simp_all add: apply_conversation_work_state_def conversation_key_def Let_def)

lemma context_keys:
  assumes "with_context cx f c = Inr c'"
  shows "conversation_key c' = conversation_key c" "cv_message_count c' = cv_message_count c"
    "cv_unread_count c' = cv_unread_count c"
  using assms
  by (auto simp: with_context_def apply_conversation_item_context_def conversation_key_def Let_def
      split: option.splits if_splits sum.splits)

lemma conversation_update_keys [simp]:
  "conversation_key (c\<lparr>cv_peer_name := n\<rparr>) = conversation_key c"
  "conversation_key (c\<lparr>cv_message_count := k\<rparr>) = conversation_key c"
  "conversation_key (c\<lparr>cv_updated_at := t\<rparr>) = conversation_key c"
  "conversation_key (c\<lparr>cv_item_id := i\<rparr>) = conversation_key c"
  by (simp_all add: conversation_key_def)

lemma existing_conversation_keys:
  assumes "existing_conversation env a f c = Inr c'"
  shows "conversation_key (touched now c c') = conversation_key c" "cv_message_count (touched now c c') = cv_message_count c"
proof -
  obtain w where w: "with_context (me_codec env) f w = Inr c'" "conversation_key w = conversation_key c" "cv_message_count w = cv_message_count c"
    using assms by (fastforce simp: existing_conversation_def Let_def split: if_splits)
  with context_keys [OF w(1)] show "conversation_key (touched now c c') = conversation_key c" "cv_message_count (touched now c c') = cv_message_count c"
    by (simp_all add: touched_def)
qed

lemma named_keys [simp]:
  "conversation_key (named_conversation env f c) = conversation_key c"
  "cv_message_count (named_conversation env f c) = cv_message_count c"
  "cv_unread_count (named_conversation env f c) = cv_unread_count c"
  by (simp_all add: named_conversation_def conversation_key_def Let_def)

lemma adopt_keys [simp]:
  "conversation_key (adopt_item i c) = conversation_key c"
  "cv_message_count (adopt_item i c) = cv_message_count c"
  by (simp_all add: adopt_item_def)

lemma adopt_all_keys [simp]:
  "conversation_key (fold (\<lambda>card. adopt_item (cd_item_id card)) cards c) = conversation_key c"
  "cv_message_count (fold (\<lambda>card. adopt_item (cd_item_id card)) cards c) = cv_message_count c"
  by (induction cards arbitrary: c) simp_all

lemma counted_keys [simp]:
  "conversation_key (counted_conversation now a f c) = conversation_key c"
  "cv_message_count (counted_conversation now a f c) = cv_message_count c + 1"
  by (simp_all add: counted_conversation_def Let_def)
     (simp_all add: conversation_key_def apply_conversation_work_state_def Let_def)

lemma update_effect:
  assumes "update_existing_message env ids now a f old db = Inr (db', res)"
  shows "mb_messages db' = put_row mg_message_pk (existing_message env a f old) (mb_messages db)"
    and "message_storable (existing_message env a f old) (mb_messages db)"
    and "\<exists>changed. res = AlreadyStored (existing_message env a f old) changed"
    and "mb_conversations db' = mb_conversations db
       \<or> (\<exists>c c'. find_conversation (rm_account_id a) (rm_conversation_id a) (mb_conversations db) = Some c
            \<and> conversation_key c' = conversation_key c \<and> cv_message_count c' = cv_message_count c
            \<and> mb_conversations db' = put_row cv_conversation_pk c' (mb_conversations db))"
    and "mb_read_states db' = mb_read_states db" "mb_users db' = mb_users db"
proof -
  let ?m = "existing_message env a f old"
  let ?cached = "find_conversation (rm_account_id a) (rm_conversation_id a) (mb_conversations db)"
  obtain convs where convs: "(case ?cached of None \<Rightarrow> Inr (mb_conversations db)
            | Some c \<Rightarrow> (case existing_conversation env a f c of
                Inl e \<Rightarrow> Inl e | Inr c' \<Rightarrow> Inr (put_row cv_conversation_pk (touched now c c') (mb_conversations db)))) = Inr convs"
    using assms by (auto simp: update_existing_message_def Let_def split: sum.splits)
  have st: "message_storable ?m (mb_messages db)"
    using assms convs by (auto simp: update_existing_message_def Let_def split: if_splits)
  then have db': "mb_messages db' = put_row mg_message_pk ?m (mb_messages db) \<and> mb_conversations db' = convs
      \<and> mb_read_states db' = mb_read_states db \<and> mb_users db' = mb_users db \<and> (\<exists>changed. res = AlreadyStored ?m changed)"
    using assms convs by (auto simp: update_existing_message_def Let_def)
  show "message_storable ?m (mb_messages db)" by (rule st)
  from db' show "mb_messages db' = put_row mg_message_pk ?m (mb_messages db)" "\<exists>changed. res = AlreadyStored ?m changed"
    "mb_read_states db' = mb_read_states db" "mb_users db' = mb_users db" by simp_all
  show "mb_conversations db' = mb_conversations db
       \<or> (\<exists>c c'. ?cached = Some c \<and> conversation_key c' = conversation_key c \<and> cv_message_count c' = cv_message_count c
            \<and> mb_conversations db' = put_row cv_conversation_pk c' (mb_conversations db))"
  proof (cases ?cached)
    case None
    with convs db' show ?thesis by simp
  next
    case (Some c)
    with convs obtain c' where "existing_conversation env a f c = Inr c'"
      "convs = put_row cv_conversation_pk (touched now c c') (mb_conversations db)" by (auto split: sum.splits)
    with Some db' existing_conversation_keys show ?thesis by metis
  qed
qed

definition conversation_for :: "new_ids \<Rightarrow> timestamp \<Rightarrow> recorded_message \<Rightarrow> message_db \<Rightarrow> conversation_row" where
  "conversation_for ids now a db =
     get_or_create_conversation (ni_conversation ids) now (rm_account_id a) (rm_conversation_id a) (mb_conversations db)"

lemma insert_effect:
  assumes "insert_message env ids now a f account db = Inr (db', res)"
  shows "mb_messages db' = mb_messages db @ [new_message (ni_message ids) now a f]"
    and "message_storable (new_message (ni_message ids) now a f) (mb_messages db)"
    and "res = Stored (new_message (ni_message ids) now a f)"
    and "\<exists>c'. conversation_key c' = conversation_key (conversation_for ids now a db)
        \<and> cv_message_count c' = cv_message_count (conversation_for ids now a db) + 1
        \<and> mb_conversations db' = put_row cv_conversation_pk c' (mb_conversations db)"
proof -
  let ?m = "new_message (ni_message ids) now a f"
  obtain c rn where c: "with_context (me_codec env) f (named_conversation env f (conversation_for ids now a db)) = Inr c"
    and rn: "get_row rn_account_id (mb_runtimes db) (rm_account_id a) = Some rn"
    using assms unfolding insert_message_def Let_def conversation_for_def by (auto split: sum.splits option.splits)
  note k = context_keys [OF c]
  note eq = assms [unfolded insert_message_def Let_def, folded conversation_for_def, unfolded c rn sum.case option.case]
  from eq show "message_storable ?m (mb_messages db)" by (auto split: if_splits prod.splits)
  with eq show "mb_messages db' = mb_messages db @ [?m]" "res = Stored ?m" by (auto split: prod.splits)
  from eq \<open>message_storable ?m (mb_messages db)\<close> obtain c' where
    "mb_conversations db' = put_row cv_conversation_pk c' (mb_conversations db)"
    "conversation_key c' = conversation_key (counted_conversation now a f c)"
    "cv_message_count c' = cv_message_count (counted_conversation now a f c)"
    by (auto split: prod.splits)
  with k show "\<exists>c'. conversation_key c' = conversation_key (conversation_for ids now a db)
        \<and> cv_message_count c' = cv_message_count (conversation_for ids now a db) + 1
        \<and> mb_conversations db' = put_row cv_conversation_pk c' (mb_conversations db)" by auto
qed

section \<open>The unique indexes\<close>

definition messages_unique :: "message_row list \<Rightarrow> bool" where
  "messages_unique rows \<longleftrightarrow> keys_distinct mg_message_pk rows
     \<and> (\<forall>r \<in> set rows. \<forall>s \<in> set rows. mg_message_pk s \<noteq> mg_message_pk r \<longrightarrow> \<not> message_clash r s)"

lemma clash_sym: "message_clash r s \<longleftrightarrow> message_clash s r"
  by (auto simp: message_clash_def)

lemma storable_iff:
  "message_storable m rows \<longleftrightarrow> (\<forall>r \<in> set rows. mg_message_pk r \<noteq> mg_message_pk m \<longrightarrow> \<not> message_clash m r)"
  by (auto simp: message_storable_def list_all_iff)

lemma storable_put:
  assumes "messages_unique rows" "message_storable m rows"
  shows "messages_unique (put_row mg_message_pk m rows)"
  unfolding messages_unique_def
proof (intro conjI ballI impI)
  show "keys_distinct mg_message_pk (put_row mg_message_pk m rows)"
    using assms(1) by (simp add: messages_unique_def keys_distinct_put_row)
  fix r s assume r: "r \<in> set (put_row mg_message_pk m rows)" and s: "s \<in> set (put_row mg_message_pk m rows)"
    and ne: "mg_message_pk s \<noteq> mg_message_pk r"
  from in_put_row [OF r] in_put_row [OF s] ne show "\<not> message_clash r s"
    using assms by (auto simp: storable_iff messages_unique_def clash_sym [of _ m])
qed

lemma storable_append:
  assumes "messages_unique rows" "message_storable m rows" "mg_message_pk m \<notin> mg_message_pk ` set rows"
  shows "messages_unique (rows @ [m])"
  using storable_put [OF assms(1,2)] assms(3) by (simp add: put_row_new get_row_None_iff)

lemma find_message_cases:
  assumes "find_message account_id message_id key rows = Some r"
  shows "r \<in> set rows" "mg_account_id r = account_id"
    "(utruthy message_id \<and> mg_message_id r = message_id)
       \<or> (\<forall>s \<in> set rows. utruthy message_id \<longrightarrow> \<not> (mg_account_id s = account_id \<and> mg_message_id s = message_id))"
  using assms
  by (auto simp: find_message_def Let_def find_None_iff dest: find_SomeD split: option.splits if_splits)

lemma find_message_None:
  assumes "find_message account_id message_id key rows = None" "s \<in> set rows" "mg_account_id s = account_id"
  shows "utruthy message_id \<Longrightarrow> mg_message_id s \<noteq> message_id" "truthy key \<Longrightarrow> mg_dedupe_key s \<noteq> key"
  using assms by (auto simp: find_message_def Let_def find_None_iff split: option.splits if_splits)

lemma existing_storable:
  assumes u: "messages_unique rows" and f: "find_message (rm_account_id a) (rm_message_id a) key rows = Some old"
  shows "message_storable (existing_message env a f old) rows"
  unfolding storable_iff
proof (intro ballI impI)
  fix r assume r: "r \<in> set rows" and ne: "mg_message_pk r \<noteq> mg_message_pk (existing_message env a f old)"
  note old = find_message_cases [OF f]
  have nc: "\<not> message_clash old r" using u old(1) r ne by (simp add: messages_unique_def)
  show "\<not> message_clash (existing_message env a f old) r"
  proof (cases "utruthy (rm_message_id a) \<and> mg_message_id old \<noteq> rm_message_id a")
    case True
    with old(3) r have "\<not> (mg_account_id r = rm_account_id a \<and> mg_message_id r = rm_message_id a)" by blast
    with nc True old(2) show ?thesis by (auto simp: message_clash_def u_or_def)
  next
    case False
    then have "u_or (rm_message_id a) (mg_message_id old) = mg_message_id old" by (auto simp: u_or_def)
    with nc show ?thesis by (simp add: message_clash_def)
  qed
qed

lemma new_storable:
  assumes f: "find_message (rm_account_id a) (rm_message_id a) (mf_dedupe_key f) rows = None"
    and i: "rm_message_id a \<noteq> Some []" and k: "mf_dedupe_key f \<noteq> Some []"
  shows "message_storable (new_message pk now a f) rows"
  unfolding storable_iff
proof (intro ballI impI notI)
  fix r assume r: "r \<in> set rows" and c: "message_clash (new_message pk now a f) r"
  then have acc: "mg_account_id r = rm_account_id a" by (simp add: message_clash_def)
  from find_message_None [OF f r acc] c i k show False
    by (auto simp: message_clash_def truthy_def utruthy_def split: option.splits)
qed

lemma facts_key:
  assumes "message_facts_of env i now a account t ms db = (f, I)" and "\<And>x. me_sha256 env x \<noteq> []"
  shows "mf_dedupe_key f \<noteq> Some []"
  using assms by (auto simp: message_facts_of_def message_dedupe_key_def Let_def split: prod.splits if_splits)

text \<open>The two lookups before a message is written are enough: if the stored messages respect the unique
  indexes, recording a message is never rejected by them and they are respected afterwards, also
  when a message known under its content is now reported with its identifier.\<close>

theorem recording_respects_unique_indexes:
  assumes u: "messages_unique (mb_messages db)" and pk: "ni_message ids \<notin> mg_message_pk ` set (mb_messages db)"
    and i: "rm_message_id a \<noteq> Some []" and sha: "\<And>x. me_sha256 env x \<noteq> []"
  shows "record_message env ids now_ms a db \<noteq> Inl IntegrityFailure
     \<and> (\<forall>db' res. record_message env ids now_ms a db = Inr (db', res) \<longrightarrow> messages_unique (mb_messages db'))"
proof
  show "record_message env ids now_ms a db \<noteq> Inl IntegrityFailure"
  proof
    assume r: "record_message env ids now_ms a db = Inl IntegrityFailure"
    then obtain account t ms f I where fi: "message_facts_of env (ni_identity ids) (now_ms * 1000) a account t ms db = (f, I)"
      and cases: "case find_message (rm_account_id a) (rm_message_id a) (mf_dedupe_key f) (mb_messages db) of
          Some old \<Rightarrow> update_existing_message env ids (now_ms * 1000) a f old (db\<lparr>mb_identities := I\<rparr>) = Inl IntegrityFailure
        | None \<Rightarrow> insert_message env ids (now_ms * 1000) a f account (db\<lparr>mb_identities := I\<rparr>) = Inl IntegrityFailure"
      unfolding record_message_def Let_def by (auto split: option.splits if_splits prod.splits)
    show False
    proof (cases "find_message (rm_account_id a) (rm_message_id a) (mf_dedupe_key f) (mb_messages db)")
      case None
      with new_storable [OF None i facts_key [OF fi sha]] cases show False
        by (auto simp: insert_message_def Let_def split: sum.splits option.splits prod.splits if_splits)
    next
      case (Some old)
      with existing_storable [OF u Some] cases show False
        by (auto simp: update_existing_message_def Let_def split: sum.splits option.splits)
    qed
  qed
  show "\<forall>db' res. record_message env ids now_ms a db = Inr (db', res) \<longrightarrow> messages_unique (mb_messages db')"
  proof (intro allI impI)
    fix db' res assume "record_message env ids now_ms a db = Inr (db', res)"
    then show "messages_unique (mb_messages db')"
    proof (cases rule: record_cases)
      case (existing t ms account f I old)
      with update_effect(1,2) [OF existing(3)] u show ?thesis by (simp add: storable_put)
    next
      case (new t ms account f I)
      from insert_effect(1,2) [OF new(3)] storable_append [OF u] pk show ?thesis by simp
    qed (use u in simp)
  qed
qed

section \<open>The counter of a conversation\<close>

definition in_conversation :: "conversation_row \<Rightarrow> message_row \<Rightarrow> bool" where
  "in_conversation c m \<longleftrightarrow> mg_account_id m = cv_account_id c \<and> mg_conversation_id m = cv_conversation_id c"

definition conversation_pair :: "conversation_row \<Rightarrow> string \<times> ustr" where
  "conversation_pair c = (cv_account_id c, cv_conversation_id c)"

text \<open>Each message belongs to a conversation, and a conversation counts its messages.\<close>

definition counts_exact :: "message_db \<Rightarrow> bool" where
  "counts_exact db \<longleftrightarrow> keys_distinct mg_message_pk (mb_messages db)
     \<and> keys_distinct cv_conversation_pk (mb_conversations db) \<and> keys_distinct conversation_pair (mb_conversations db)
     \<and> (\<forall>c \<in> set (mb_conversations db). cv_message_count c = int (length (filter (in_conversation c) (mb_messages db))))
     \<and> (\<forall>m \<in> set (mb_messages db). \<exists>c \<in> set (mb_conversations db). in_conversation c m)"

lemma key_in_conversation: "conversation_key c' = conversation_key c \<Longrightarrow> in_conversation c' = in_conversation c"
  by (auto simp: conversation_key_def in_conversation_def fun_eq_iff)

lemma find_conversation_in:
  "find_conversation a i rows = Some c \<Longrightarrow> c \<in> set rows \<and> cv_account_id c = a \<and> cv_conversation_id c = i"
  by (auto simp: find_conversation_def dest: find_SomeD)

lemma length_filter_put:
  assumes d: "keys_distinct key rows" and r: "r \<in> set rows" "key r' = key r" "P r' = P r"
  shows "length (filter P (put_row key r' rows)) = length (filter P rows)"
proof -
  have g: "get_row key rows (key r') = Some r" using get_row_distinct [OF d r(1)] r(2) by simp
  have "put_row key r' rows = map (\<lambda>x. if x = r then r' else x) rows"
    using g keys_distinct_eq [OF d _ r(1)] r(2) by (auto simp: put_row_def set_row_def)
  moreover have "length (filter P (map (\<lambda>x. if x = r then r' else x) xs)) = length (filter P xs)" for xs
    by (induction xs) (auto simp: r(3))
  ultimately show ?thesis by simp
qed

lemma in_put_row_iff:
  "x \<in> set (put_row key r rows) \<longleftrightarrow> x = r \<or> (x \<in> set rows \<and> key x \<noteq> key r)"
proof
  assume "x = r \<or> (x \<in> set rows \<and> key x \<noteq> key r)"
  then show "x \<in> set (put_row key r rows)"
    by (auto simp: put_row_def set_row_def get_row_None_iff image_iff)
next
  assume "x \<in> set (put_row key r rows)"
  then show "x = r \<or> (x \<in> set rows \<and> key x \<noteq> key r)" by (rule in_put_row)
qed

text \<open>Rewriting a message under its own keys, and a conversation with its own count.\<close>

lemma counts_rewrite_message:
  assumes ok: "counts_exact db" and m: "m \<in> set (mb_messages db)" "mg_message_pk m' = mg_message_pk m"
    "mg_account_id m' = mg_account_id m" "mg_conversation_id m' = mg_conversation_id m"
    and db': "mb_messages db' = put_row mg_message_pk m' (mb_messages db)" "mb_conversations db' = mb_conversations db"
  shows "counts_exact db'"
proof -
  have d: "keys_distinct mg_message_pk (mb_messages db)" using ok by (simp add: counts_exact_def)
  have "in_conversation c m' = in_conversation c m" for c using m by (simp add: in_conversation_def)
  with ok m(1) show ?thesis
    using length_filter_put [OF d m(1,2)] keys_distinct_put_row [OF d]
    unfolding counts_exact_def db' by (metis in_put_row)
qed

lemma counts_rewrite_conversation:
  assumes ok: "counts_exact db" and c: "c \<in> set (mb_conversations db)" "conversation_key c' = conversation_key c"
    "cv_message_count c' = cv_message_count c"
    and db': "mb_messages db' = mb_messages db" "mb_conversations db' = put_row cv_conversation_pk c' (mb_conversations db)"
  shows "counts_exact db'"
proof -
  have d: "keys_distinct cv_conversation_pk (mb_conversations db)" "keys_distinct conversation_pair (mb_conversations db)"
    using ok by (simp_all add: counts_exact_def)
  have k: "cv_conversation_pk c' = cv_conversation_pk c" "conversation_pair c' = conversation_pair c"
    using c(2) by (simp_all add: conversation_key_def conversation_pair_def)
  have "keys_distinct conversation_pair (put_row cv_conversation_pk c' (mb_conversations db))"
    using put_row_keeps_distinct [OF d(1) c(1) k(1), of conversation_pair "\<lambda>_. True"] d(2) k(2) by simp
  moreover have "\<exists>x \<in> set (put_row cv_conversation_pk c' (mb_conversations db)). in_conversation x m"
    if "\<exists>x \<in> set (mb_conversations db). in_conversation x m" for m
  proof -
    from that obtain x where x: "x \<in> set (mb_conversations db)" "in_conversation x m" by blast
    show ?thesis
    proof (cases "cv_conversation_pk x = cv_conversation_pk c'")
      case True
      with x c(1) k(1) have "x = c" using keys_distinct_eq [OF d(1)] by metis
      with x key_in_conversation [OF c(2)] have "in_conversation c' m" by simp
      then show ?thesis by (auto simp: in_put_row_iff)
    qed (use x in \<open>auto simp: in_put_row_iff\<close>)
  qed
  ultimately show ?thesis
    using ok c(1,3) key_in_conversation [OF c(2)] keys_distinct_put_row [OF d(1)]
    unfolding counts_exact_def db' by (auto simp: in_put_row_iff)
qed

text \<open>Adding a message to a conversation that exists or is new.\<close>

lemma counts_add:
  assumes ok: "counts_exact db" and pk: "mg_message_pk m \<notin> mg_message_pk ` set (mb_messages db)"
    and c: "c \<in> set (mb_conversations db)
       \<or> (cv_conversation_pk c \<notin> cv_conversation_pk ` set (mb_conversations db)
          \<and> conversation_pair c \<notin> conversation_pair ` set (mb_conversations db) \<and> cv_message_count c = 0)"
    and c': "conversation_key c' = conversation_key c" "cv_message_count c' = cv_message_count c + 1" and m: "in_conversation c m"
    and db': "mb_messages db' = mb_messages db @ [m]" "mb_conversations db' = put_row cv_conversation_pk c' (mb_conversations db)"
  shows "counts_exact db'"
proof -
  let ?cs = "mb_conversations db" and ?ms = "mb_messages db"
  have d: "keys_distinct cv_conversation_pk ?cs" "keys_distinct conversation_pair ?cs" "keys_distinct mg_message_pk ?ms"
    and old: "\<And>x. x \<in> set ?cs \<Longrightarrow> cv_message_count x = int (length (filter (in_conversation x) ?ms))"
    and home: "\<And>x. x \<in> set ?ms \<Longrightarrow> \<exists>y \<in> set ?cs. in_conversation y x"
    using ok by (simp_all add: counts_exact_def)
  have k: "cv_conversation_pk c' = cv_conversation_pk c" "conversation_pair c' = conversation_pair c" "in_conversation c' = in_conversation c"
    using c'(1) key_in_conversation [OF c'(1)] by (simp_all add: conversation_key_def conversation_pair_def)
  have pair: "in_conversation x y \<longleftrightarrow> conversation_pair x = (mg_account_id y, mg_conversation_id y)" for x y
    by (auto simp: in_conversation_def conversation_pair_def)
  have other: "\<not> in_conversation x m" if "x \<in> set ?cs" "cv_conversation_pk x \<noteq> cv_conversation_pk c" for x
  proof
    assume "in_conversation x m"
    then have "conversation_pair x = conversation_pair c" using m by (simp add: pair)
    then have "c \<in> set ?cs" using c that(1) by (metis imageI)
    with keys_distinct_eq [OF d(2) that(1)] \<open>conversation_pair x = conversation_pair c\<close> that(2) show False by blast
  qed
  have count: "cv_message_count c = int (length (filter (in_conversation c) ?ms))"
  proof (cases "c \<in> set ?cs")
    case False
    with c have new: "conversation_pair c \<notin> conversation_pair ` set ?cs" "cv_message_count c = 0" by simp_all
    have "\<not> in_conversation c x" if "x \<in> set ?ms" for x
      using home [OF that] new(1) by (metis imageI pair)
    then have "filter (in_conversation c) ?ms = []" by (simp add: filter_empty_conv)
    with new(2) show ?thesis by simp
  qed (rule old)
  have "keys_distinct conversation_pair (put_row cv_conversation_pk c' ?cs)"
  proof (cases "c \<in> set ?cs")
    case True
    then show ?thesis using put_row_keeps_distinct [OF d(1) True k(1), of conversation_pair "\<lambda>_. True"] d(2) k(2) by simp
  next
    case False
    with c have "put_row cv_conversation_pk c' ?cs = ?cs @ [c']" using k(1) by (simp add: put_row_new get_row_None_iff)
    with False c d(2) k(2) show ?thesis by (auto simp: keys_distinct_def)
  qed
  moreover have "keys_distinct cv_conversation_pk (put_row cv_conversation_pk c' ?cs)" by (rule keys_distinct_put_row [OF d(1)])
  moreover have "keys_distinct mg_message_pk (?ms @ [m])" using d(3) pk by (auto simp: keys_distinct_def)
  moreover have "cv_message_count x = int (length (filter (in_conversation x) (?ms @ [m])))"
    if "x \<in> set (put_row cv_conversation_pk c' ?cs)" for x
    using in_put_row [OF that] old other k c'(2) m count by auto
  moreover have "\<exists>y \<in> set (put_row cv_conversation_pk c' ?cs). in_conversation y x" if x: "x \<in> set (?ms @ [m])" for x
  proof (cases "in_conversation c x")
    case True
    with k(3) have "in_conversation c' x" by simp
    then show ?thesis by (auto simp: in_put_row_iff)
  next
    case False
    with x m home obtain y where y: "y \<in> set ?cs" "in_conversation y x" by auto
    then have "cv_conversation_pk y \<noteq> cv_conversation_pk c'"
      using False c k(1) keys_distinct_eq [OF d(1) y(1)] by (metis imageI)
    with y show ?thesis by (auto simp: in_put_row_iff)
  qed
  ultimately show ?thesis unfolding counts_exact_def db' by blast
qed

lemma record_counts:
  assumes ok: "counts_exact db" and r: "record_message env ids now_ms a db = Inr (db', res)"
    and fresh: "ni_message ids \<notin> mg_message_pk ` set (mb_messages db)"
      "ni_conversation ids \<notin> cv_conversation_pk ` set (mb_conversations db)"
  shows "counts_exact db'"
  using r
proof (cases rule: record_cases)
  case (existing t ms account f I old)
  let ?db = "db\<lparr>mb_identities := I, mb_messages := mb_messages db'\<rparr>"
  note up = update_effect [OF existing(3)]
  have "counts_exact ?db"
    using up(1) find_message_cases(1) [OF existing(2)]
    by (intro counts_rewrite_message [OF ok, of old "existing_message env a f old"]) simp_all
  then show ?thesis using up(4)
  proof (elim disjE exE conjE)
    assume "mb_conversations db' = mb_conversations (db\<lparr>mb_identities := I\<rparr>)"
    with \<open>counts_exact ?db\<close> show ?thesis by (simp add: counts_exact_def)
  next
    fix c c' assume "find_conversation (rm_account_id a) (rm_conversation_id a) (mb_conversations (db\<lparr>mb_identities := I\<rparr>)) = Some c"
      "conversation_key c' = conversation_key c" "cv_message_count c' = cv_message_count c"
      "mb_conversations db' = put_row cv_conversation_pk c' (mb_conversations (db\<lparr>mb_identities := I\<rparr>))"
    then show ?thesis
      using find_conversation_in [of "rm_account_id a" "rm_conversation_id a" "mb_conversations db" c]
      by (intro counts_rewrite_conversation [OF \<open>counts_exact ?db\<close>, of c c']) simp_all
  qed
next
  case (new t ms account f I)
  let ?c = "conversation_for ids (now_ms * 1000) a db"
  note ins = insert_effect [OF new(3)]
  have same: "conversation_for ids (now_ms * 1000) a (db\<lparr>mb_identities := I\<rparr>) = ?c" by (simp add: conversation_for_def)
  have c: "?c \<in> set (mb_conversations db) \<or> (cv_conversation_pk ?c \<notin> cv_conversation_pk ` set (mb_conversations db)
      \<and> conversation_pair ?c \<notin> conversation_pair ` set (mb_conversations db) \<and> cv_message_count ?c = 0)"
  proof (cases "find_conversation (rm_account_id a) (rm_conversation_id a) (mb_conversations db)")
    case None
    then have eq: "?c = conversation_defaults (ni_conversation ids) (rm_account_id a) (rm_conversation_id a) (now_ms * 1000)"
      by (simp add: conversation_for_def get_or_create_conversation_def)
    from None have "conversation_pair ?c \<notin> conversation_pair ` set (mb_conversations db)"
      unfolding eq by (auto simp: conversation_defaults_def conversation_pair_def find_conversation_def find_None_iff)
    with fresh(2) show ?thesis unfolding eq by (simp add: conversation_defaults_def)
  next
    case (Some c)
    with find_conversation_in [OF Some] show ?thesis by (simp add: conversation_for_def get_or_create_conversation_def)
  qed
  have m: "in_conversation ?c (new_message (ni_message ids) (now_ms * 1000) a f)"
    by (auto simp: in_conversation_def conversation_for_def get_or_create_conversation_def conversation_defaults_def
        dest: find_conversation_in split: option.split)
  from ins(4) obtain c' where "conversation_key c' = conversation_key ?c" "cv_message_count c' = cv_message_count ?c + 1"
    "mb_conversations db' = put_row cv_conversation_pk c' (mb_conversations db)" unfolding same by auto
  with ins(1) show ?thesis
    using fresh(1) by (intro counts_add [OF ok _ c _ _ m]) simp_all
qed (use ok in simp)

lemma begin_counts:
  assumes ok: "counts_exact db" and b: "begin_outbound m db = Inr (db', r)"
    and fresh: "mg_message_pk m \<notin> mg_message_pk ` set (mb_messages db)"
  shows "counts_exact db'"
proof (cases "db' = db")
  case False
  then obtain c where c: "find_conversation (mg_account_id m) (mg_conversation_id m) (mb_conversations db) = Some c"
    and db': "mb_messages db' = mb_messages db @ [m]"
      "mb_conversations db' = put_row cv_conversation_pk (c\<lparr>cv_message_count := cv_message_count c + 1, cv_updated_at := mg_created_at m\<rparr>) (mb_conversations db)"
    using b by (auto simp: begin_outbound_def Let_def split: option.splits if_splits)
  show ?thesis
    using find_conversation_in [OF c] db' fresh
    by (intro counts_add [OF ok, of m c]) (simp_all add: in_conversation_def)
qed (use ok in simp)

lemma complete_counts:
  assumes ok: "counts_exact db" and b: "complete_outbound now ty change success a req db = Inr (db', r)"
    and keeps: "\<And>m. mg_message_pk (change m) = mg_message_pk m \<and> mg_account_id (change m) = mg_account_id m
       \<and> mg_conversation_id (change m) = mg_conversation_id m"
  shows "counts_exact db'"
proof (cases "find_request a req (mb_messages db)")
  case None
  with b ok show ?thesis by (simp add: complete_outbound_def)
next
  case (Some old)
  then have old: "old \<in> set (mb_messages db)" by (auto simp: find_request_def dest: find_SomeD)
  let ?m = "change old" and ?db = "db\<lparr>mb_messages := mb_messages db'\<rparr>"
  let ?f = "find_conversation a (mg_conversation_id ?m) (mb_conversations db)"
  from b Some have ms: "mb_messages db' = put_row mg_message_pk ?m (mb_messages db)"
    and cs: "mb_conversations db' = (case ?f of None \<Rightarrow> mb_conversations db
      | Some c \<Rightarrow> if success then put_row cv_conversation_pk (sent_conversation now ty ?m c) (mb_conversations db) else mb_conversations db)"
    by (auto simp: complete_outbound_def Let_def split: if_splits)
  have ok': "counts_exact ?db" using ms keeps old by (intro counts_rewrite_message [OF ok, of old ?m]) simp_all
  show ?thesis
  proof (cases "\<exists>c. ?f = Some c \<and> success")
    case True
    then obtain c where c: "?f = Some c" "success" by blast
    have "conversation_key (sent_conversation now ty ?m c) = conversation_key c"
      "cv_message_count (sent_conversation now ty ?m c) = cv_message_count c"
      by (simp_all add: sent_conversation_def apply_conversation_work_state_def conversation_key_def Let_def)
    with c find_conversation_in [OF c(1)] cs show ?thesis
      by (intro counts_rewrite_conversation [OF ok', of c "sent_conversation now ty ?m c"]) simp_all
  next
    case False
    then have "mb_conversations db' = mb_conversations db" using cs by (auto split: option.splits)
    with ok' show ?thesis by (simp add: counts_exact_def)
  qed
qed

lemma completed_keys [simp]:
  "mg_message_pk (completed_message res m) = mg_message_pk m"
  "mg_account_id (completed_message res m) = mg_account_id m"
  "mg_conversation_id (completed_message res m) = mg_conversation_id m"
  "mg_message_pk (with_image url m) = mg_message_pk m"
  "mg_account_id (with_image url m) = mg_account_id m"
  "mg_conversation_id (with_image url m) = mg_conversation_id m"
  by (simp_all add: completed_message_def with_image_def Let_def)

text \<open>The operations on messages as steps; new rows get identifiers that are not in use.\<close>

inductive message_step :: "message_db \<Rightarrow> message_db \<Rightarrow> bool" where
  recording: "record_message env ids now_ms a db = Inr (db', res)
     \<Longrightarrow> ni_message ids \<notin> mg_message_pk ` set (mb_messages db)
     \<Longrightarrow> ni_conversation ids \<notin> cv_conversation_pk ` set (mb_conversations db) \<Longrightarrow> message_step db db'"
| begin_text: "begin_outbound_text pk now_ms a i req peer content db = Inr (db', res)
     \<Longrightarrow> pk \<notin> mg_message_pk ` set (mb_messages db) \<Longrightarrow> message_step db db'"
| begin_image: "begin_outbound_image pk now_ms a i req peer db = Inr (db', res)
     \<Longrightarrow> pk \<notin> mg_message_pk ` set (mb_messages db) \<Longrightarrow> message_step db db'"
| complete_text: "complete_outbound_text now a req out db = Inr (db', res) \<Longrightarrow> message_step db db'"
| complete_image: "complete_outbound_image now a req out url db = Inr (db', res) \<Longrightarrow> message_step db db'"
| recalled: "mark_message_recalled now a i pk db = (db', res) \<Longrightarrow> message_step db db'"
| read: "mark_conversation_read sid now user a i db = (db', res) \<Longrightarrow> message_step db db'"
| read_shared: "mark_conversation_read_shared sids clock a i t db = (db', res') \<Longrightarrow> message_step db db'"

lemma unchanged_counts:
  "counts_exact db \<Longrightarrow> mb_messages db' = mb_messages db \<Longrightarrow> mb_conversations db' = mb_conversations db \<Longrightarrow> counts_exact db'"
  by (simp add: counts_exact_def)

lemma step_counts: "message_step db db' \<Longrightarrow> counts_exact db \<Longrightarrow> counts_exact db'"
proof (induction rule: message_step.induct)
  case (recording env ids now_ms a db db' res)
  from record_counts [OF recording(4,1,2,3)] show ?case .
next
  case (begin_text pk now_ms a i req peer content db db' res)
  show ?case
    using begin_counts [OF begin_text(3) begin_text(1) [unfolded begin_outbound_text_def]] begin_text(2)
    by (simp add: outbound_message_def)
next
  case (begin_image pk now_ms a i req peer db db' res)
  show ?case
    using begin_counts [OF begin_image(3) begin_image(1) [unfolded begin_outbound_image_def]] begin_image(2)
    by (simp add: outbound_message_def)
next
  case (complete_text now a req out db db' res)
  show ?case by (rule complete_counts [OF complete_text(2) complete_text(1) [unfolded complete_outbound_text_def]]) simp
next
  case (complete_image now a req out url db db' res)
  show ?case by (rule complete_counts [OF complete_image(2) complete_image(1) [unfolded complete_outbound_image_def]]) simp
next
  case (recalled now a i pk db db' res)
  show ?case
  proof (cases "find (\<lambda>r. mg_message_pk r = pk \<and> mg_account_id r = a \<and> mg_conversation_id r = i) (mb_messages db)")
    case None
    with recalled show ?thesis by (simp add: mark_message_recalled_def)
  next
    case (Some r)
    with recalled find_SomeD [OF Some] show ?thesis
      by (intro counts_rewrite_message [OF recalled(2), of r "r\<lparr>mg_recalled_at := Some now\<rparr>"])
         (auto simp: mark_message_recalled_def Let_def)
  qed
next
  case (read sid now user a i db db' res)
  then show ?case
    by (intro unchanged_counts [OF read(2)]) (auto simp: mark_conversation_read_def Let_def split: option.splits)
next
  case (read_shared sids clock a i t db db' res')
  then show ?case
    by (intro unchanged_counts [OF read_shared(2)])
       (auto simp: mark_conversation_read_shared_def Let_def split: option.splits if_splits)
qed

definition empty_messages :: "message_db \<Rightarrow> bool" where
  "empty_messages db \<longleftrightarrow> mb_messages db = [] \<and> mb_conversations db = []"

interpretation messages: invariant_system empty_messages message_step counts_exact
proof
  show "counts_exact db" if "empty_messages db" for db
    using that by (simp add: empty_messages_def counts_exact_def keys_distinct_def)
qed (rule step_counts)

text \<open>C17. Starting from no messages, after any sequence of recordings, outgoing messages, completions, recalls
  and read receipts the counter of a conversation is the number of its stored messages, and
  every message belongs to a conversation.\<close>

theorem message_counters_exact:
  assumes "empty_messages db" and "message_step\<^sup>*\<^sup>* db db'"
  shows "(\<forall>c \<in> set (mb_conversations db'). cv_message_count c = int (length (filter (in_conversation c) (mb_messages db'))))
     \<and> (\<forall>m \<in> set (mb_messages db'). \<exists>c \<in> set (mb_conversations db'). in_conversation c m)"
  using messages.reachable_inv [OF assms] by (simp add: counts_exact_def)

section \<open>A message is stored once\<close>

type_synonym recording = "message_env \<times> new_ids \<times> int \<times> recorded_message"

text \<open>A report of the message with the given identifier, whatever else it says; it succeeds when a row is added.\<close>

definition report_message :: "string \<Rightarrow> ustr \<Rightarrow> recording \<Rightarrow> message_db \<Rightarrow> message_db \<times> bool" where
  "report_message account_id message_id r db = (case r of (env, ids, now_ms, a) \<Rightarrow>
     (case record_message env ids now_ms (a\<lparr>rm_account_id := account_id, rm_message_id := Some message_id\<rparr>) db of
        Inr (db', Stored _) \<Rightarrow> (db', True)
      | Inr (db', _) \<Rightarrow> (db', False)
      | Inl _ \<Rightarrow> (db, False)))"

definition unreported :: "string \<Rightarrow> ustr \<Rightarrow> message_db \<Rightarrow> bool" where
  "unreported account_id message_id db =
     list_all (\<lambda>m. mg_account_id m = account_id \<longrightarrow> mg_message_id m \<noteq> Some message_id) (mb_messages db)"

lemma report_cases:
  assumes i: "i \<noteq> []" and r: "report_message acc i x db = (db', ok)"
  shows "ok \<longrightarrow> unreported acc i db" "db' = db \<or> \<not> unreported acc i db'" "ok \<longrightarrow> db' \<noteq> db"
proof -
  obtain env ids now_ms a0 where x: "x = (env, ids, now_ms, a0)" by (cases x)
  let ?a = "a0\<lparr>rm_account_id := acc, rm_message_id := Some i\<rparr>"
  have "(ok \<longrightarrow> unreported acc i db) \<and> (db' = db \<or> \<not> unreported acc i db') \<and> (ok \<longrightarrow> db' \<noteq> db)"
  proof (cases "record_message env ids now_ms ?a db")
    case (Inl e)
    with r show ?thesis by (simp add: report_message_def x)
  next
    case (Inr p)
    then obtain d res where d: "record_message env ids now_ms ?a db = Inr (d, res)" by (cases p) simp
    then have db': "db' = d" and ok: "ok \<longleftrightarrow> (\<exists>m. res = Stored m)"
      using r by (auto simp: report_message_def x split: record_result.splits)
    from d show ?thesis
    proof (cases rule: record_cases)
      case no_account
      with db' ok show ?thesis by simp
    next
      case (existing t ms account f I old)
      let ?m = "existing_message env ?a f old"
      note up = update_effect [OF existing(3)]
      have "mg_account_id ?m = acc" "mg_message_id ?m = Some i"
        using find_message_cases(2) [OF existing(2)] i by (simp_all add: u_or_def)
      moreover have "?m \<in> set (mb_messages d)" using up(1) by (simp add: in_put_row_iff)
      ultimately have "\<not> unreported acc i d" unfolding unreported_def list_all_iff by blast
      with up(3) db' ok show ?thesis by auto
    next
      case (new t ms account f I)
      note ins = insert_effect [OF new(3)]
      have "unreported acc i db"
        using find_message_None(1) [OF new(2)] i by (auto simp: unreported_def list_all_iff)
      moreover have "\<not> unreported acc i d" using ins(1) by (auto simp: unreported_def list_all_iff)
      ultimately show ?thesis using db' ok by auto
    qed
  qed
  then show "ok \<longrightarrow> unreported acc i db" "db' = db \<or> \<not> unreported acc i db'" "ok \<longrightarrow> db' \<noteq> db" by simp_all
qed

interpretation reports: one_shot "report_message acc i" "unreported acc i" "\<lambda>_. i \<noteq> []" for acc i
  by unfold_locales (blast dest: report_cases)+


section \<open>A sent text that is reported before its answer\<close>

lemma find_append: "find P (xs @ ys) = (case find P xs of None \<Rightarrow> find P ys | Some x \<Rightarrow> Some x)"
  by (induction xs) simp_all

lemma begin_created:
  assumes "begin_outbound m db = Inr (db', r, True)"
  shows "r = Some m" "mb_messages db' = mb_messages db @ [m]"
    "find_request (mg_account_id m) (the (mg_client_request_id m)) (mb_messages db) = None"
  using assms by (auto simp: begin_outbound_def Let_def split: option.splits if_splits)

text \<open>C36. If the platform's own report of a text that is being sent is recorded before the answer to the send
  request (by a push or a synchronisation of the conversation), the report is stored as a second
  message, and the answer, which carries the same identifier, cannot be stored: the commit violates
  the unique index and the request stays in the state ``sending''.\<close>

theorem early_report_blocks_answer:
  assumes b: "begin_outbound_text pk t0 acc conv req peer content db = Inr (db1, Some m, True)"
    and r: "record_message env ids t1 a db1 = Inr (db2, Stored e)"
    and a: "rm_account_id a = acc" "rm_message_id a = Some mid" "mid \<noteq> []" and pk: "ni_message ids \<noteq> pk"
    and out: "so_message_id out = Some mid"
  shows "complete_outbound_text t2 acc req out db2 = Inl IntegrityFailure
     \<and> find_request acc req (mb_messages db2) = Some m \<and> mg_send_status m = Some ''sending''
     \<and> e \<in> set (mb_messages db2) \<and> mg_message_id e = Some mid \<and> e \<noteq> m"
proof -
  let ?m = "outbound_message pk t0 acc conv req peer ''text'' content ''sending'' []"
  note bc = begin_created [OF b [unfolded begin_outbound_text_def]]
  have m: "m = ?m" using bc(1) by simp
  obtain f where e: "e = new_message (ni_message ids) (t1 * 1000) a f" and ms: "mb_messages db2 = mb_messages db1 @ [e]"
    using r
  proof (cases rule: record_cases)
    case (existing t ms account f I old)
    then show ?thesis using update_effect(3) [OF existing(3)] by auto
  next
    case (new t ms account f I)
    then show ?thesis using that [of f] insert_effect(1,3) [OF new(3)] by auto
  qed simp
  have req: "find_request acc req (mb_messages db2) = Some m"
    using bc(2,3) ms unfolding m by (auto simp: find_request_def outbound_message_def find_append split: option.splits)
  have "message_clash (completed_message out m) e"
    using a out unfolding e m by (simp add: message_clash_def completed_message_def outbound_message_def u_or_def)
  moreover have "mg_message_pk e \<noteq> mg_message_pk (completed_message out m)"
    using pk unfolding e m by (simp add: outbound_message_def)
  ultimately have "\<not> message_storable (completed_message out m) (mb_messages db2)"
    using ms by (auto simp: storable_iff)
  with req have "complete_outbound_text t2 acc req out db2 = Inl IntegrityFailure"
    by (simp add: complete_outbound_text_def complete_outbound_def Let_def)
  moreover have "mg_send_status m = Some ''sending''" "e \<noteq> m" "mg_message_id e = Some mid" "e \<in> set (mb_messages db2)"
    using a pk ms unfolding e m by (auto simp: outbound_message_def dest: arg_cong [where f = mg_message_pk])
  ultimately show ?thesis using req by blast
qed

section \<open>An example\<close>

definition sample_env :: message_env where
  "sample_env = \<lparr>me_codec = plain_codec, me_nfkc = id, me_casefold = id, me_sha256 = (\<lambda>t. ''h'' @ map (\<lambda>c. char_of (nat c)) t)\<rparr>"

definition sample_ids :: "string \<Rightarrow> new_ids" where
  "sample_ids x = \<lparr>ni_message = ''m'' @ x, ni_conversation = ''c'' @ x, ni_identity = ''i'' @ x, ni_order = ''o'' @ x,
     ni_event = ''e'' @ x, ni_card = (\<lambda>n. ''k'' @ x @ show_nat n), ni_state = (\<lambda>u. ''s'' @ x @ u)\<rparr>"

definition sample_runtime :: runtime_row where
  "sample_runtime = \<lparr>rn_account_id = ''a'', rn_state = ''online'', rn_message = None, rn_last_error = None, rn_last_state_at = None,
     rn_last_online_at = None, rn_last_message_at = None, rn_message_count = 0, rn_updated_at = 0\<rparr>"

definition sample_db :: message_db where
  "sample_db = \<lparr>mb_accounts = [account_defaults ''a'' 0], mb_users = [(''u'', True)], mb_runtimes = [sample_runtime],
     mb_conversations = [], mb_messages = [], mb_identities = [], mb_read_states = [], mb_cards = [],
     mb_orders = \<lparr>ob_orders = [], ob_events = [], ob_operations = []\<rparr>\<rparr>"

definition sample_report :: "string \<Rightarrow> string \<Rightarrow> string \<Rightarrow> recorded_message" where
  "sample_report direction content mid = \<lparr>rm_account_id = ''a'', rm_conversation_id = asc ''7'', rm_direction = direction,
     rm_message_type = ''text'', rm_content = asc content, rm_message_id = Some (asc mid), rm_peer_user_id = Some (asc ''9''),
     rm_peer_name = None, rm_item_id = None, rm_send_success = None, rm_send_error = None, rm_raw_payload = JNull,
     rm_created_at_ms = None, rm_attachments = [], rm_count_unread = True, rm_promote_activity = True\<rparr>"

theorem recording_respects_unique_indexes_witness:
  "record_message sample_env (sample_ids ''1'') 5 (sample_report ''inbound'' ''hi'' ''x'') sample_db \<noteq> Inl IntegrityFailure"
proof -
  have "messages_unique (mb_messages sample_db)" by (simp add: sample_db_def messages_unique_def keys_distinct_def)
  moreover have "ni_message (sample_ids ''1'') \<notin> mg_message_pk ` set (mb_messages sample_db)" by (simp add: sample_db_def)
  moreover have "rm_message_id (sample_report ''inbound'' ''hi'' ''x'') \<noteq> Some []" by (simp add: sample_report_def asc_def)
  moreover have "\<And>x. me_sha256 sample_env x \<noteq> []" by (simp add: sample_env_def)
  ultimately show ?thesis by (rule recording_respects_unique_indexes [THEN conjunct1])
qed

lemma sample_recorded:
  "\<exists>db1 m. record_message sample_env (sample_ids ''1'') 5 (sample_report ''inbound'' ''hi'' ''x'') sample_db = Inr (db1, Stored m)
     \<and> length (mb_messages db1) = 1"
proof -
  have "case record_message sample_env (sample_ids ''1'') 5 (sample_report ''inbound'' ''hi'' ''x'') sample_db of
      Inr (db1, Stored m) \<Rightarrow> length (mb_messages db1) = 1 | _ \<Rightarrow> False" by code_simp
  then show ?thesis by (auto split: sum.splits prod.splits record_result.splits)
qed

theorem message_counters_exact_witness:
  "\<exists>db1 m. record_message sample_env (sample_ids ''1'') 5 (sample_report ''inbound'' ''hi'' ''x'') sample_db = Inr (db1, Stored m)
     \<and> list_all (\<lambda>c. cv_message_count c = int (length (filter (in_conversation c) (mb_messages db1)))) (mb_conversations db1)"
proof -
  obtain db1 m where r: "record_message sample_env (sample_ids ''1'') 5 (sample_report ''inbound'' ''hi'' ''x'') sample_db = Inr (db1, Stored m)"
    using sample_recorded by blast
  have e: "empty_messages sample_db" by (simp add: empty_messages_def sample_db_def)
  have "message_step sample_db db1" by (rule message_step.recording [OF r]) (simp_all add: sample_db_def)
  with message_counters_exact [OF e r_into_rtranclp] r show ?thesis by (auto simp: list_all_iff)
qed


text \<open>A conversation in which a text is sent and its report arrives first.\<close>

definition sample_chat_db :: message_db where
  "sample_chat_db = sample_db\<lparr>mb_conversations := [conversation_defaults ''c0'' ''a'' (asc ''7'') 0]\<rparr>"

theorem early_report_blocks_answer_witness:
  "\<exists>db1 db2 m e. begin_outbound_text ''p'' 5 ''a'' (asc ''7'') ''req'' (asc ''9'') (asc ''hi'') sample_chat_db = Inr (db1, Some m, True)
     \<and> record_message sample_env (sample_ids ''1'') 6 (sample_report ''outbound'' ''hi'' ''x'') db1 = Inr (db2, Stored e)
     \<and> complete_outbound_text 7 ''a'' ''req'' \<lparr>so_success = True, so_message_id = Some (asc ''x''), so_error = None, so_raw_payload = JNull\<rparr> db2
         = Inl IntegrityFailure"
proof -
  let ?b = "begin_outbound_text ''p'' 5 ''a'' (asc ''7'') ''req'' (asc ''9'') (asc ''hi'') sample_chat_db"
  have "case ?b of Inr (db1, Some m, True) \<Rightarrow>
      (case record_message sample_env (sample_ids ''1'') 6 (sample_report ''outbound'' ''hi'' ''x'') db1 of Inr (db2, Stored e) \<Rightarrow> True | _ \<Rightarrow> False)
      | _ \<Rightarrow> False" by code_simp
  then obtain db1 m db2 e where b: "?b = Inr (db1, Some m, True)"
    and r: "record_message sample_env (sample_ids ''1'') 6 (sample_report ''outbound'' ''hi'' ''x'') db1 = Inr (db2, Stored e)"
    by (auto split: sum.splits prod.splits option.splits bool.splits record_result.splits)
  have a: "rm_account_id (sample_report ''outbound'' ''hi'' ''x'') = ''a''" "rm_message_id (sample_report ''outbound'' ''hi'' ''x'') = Some (asc ''x'')"
    "asc ''x'' \<noteq> []" "ni_message (sample_ids ''1'') \<noteq> ''p''"
    by (simp_all add: sample_report_def sample_ids_def asc_def)
  show ?thesis
    using early_report_blocks_answer [OF b r a, of "\<lparr>so_success = True, so_message_id = Some (asc ''x''), so_error = None, so_raw_payload = JNull\<rparr>" 7] b r
    by auto
qed

end
