(* ===== verification/Access.thy ===== *)
theory Access
  imports PyText "HOL-Library.AList"
begin

text \<open>
  Who may use the administration interface: password hashes and access tokens (\<open>security.py\<close>), users,
  administrator sessions and quick phrases (\<open>store.py\<close>), and the middleware that admits a request
  (\<open>require_jwt\<close> of \<open>main.py\<close>). The key derivation, base64, SHA-256 and the JWT library are arguments.
\<close>

section \<open>Passwords\<close>

type_synonym bytes = "int list"

text \<open>\<open>kd_pbkdf2 password salt iterations\<close> is nothing when the library raises.\<close>

record password_env =
  kd_pbkdf2 :: "string \<Rightarrow> bytes \<Rightarrow> int \<Rightarrow> bytes option"
  kd_b64encode :: "bytes \<Rightarrow> string"
  kd_b64decode :: "string \<Rightarrow> bytes option"

definition PASSWORD_ALGORITHM :: string where
  "PASSWORD_ALGORITHM = ''pbkdf2_sha256''"

definition PASSWORD_ITERATIONS :: int where
  "PASSWORD_ITERATIONS = 260000"

definition dollar :: char where
  "dollar = CHR ''$''"

definition hash_password :: "password_env \<Rightarrow> bytes \<Rightarrow> string \<Rightarrow> string option" where
  "hash_password env salt password =
     (case kd_pbkdf2 env password salt PASSWORD_ITERATIONS of
        None \<Rightarrow> None
      | Some digest \<Rightarrow> Some (PASSWORD_ALGORITHM @ dollar # show_int PASSWORD_ITERATIONS @ dollar #
          kd_b64encode env salt @ dollar # kd_b64encode env digest))"

text \<open>\<open>text.split(sep, n)\<close>.\<close>

fun split_at_most :: "char \<Rightarrow> nat \<Rightarrow> string \<Rightarrow> string list" where
  "split_at_most c 0 t = [t]"
| "split_at_most c (Suc n) t = (case dropWhile (\<lambda>d. d \<noteq> c) t of
     [] \<Rightarrow> [t] | _ # rest \<Rightarrow> takeWhile (\<lambda>d. d \<noteq> c) t # split_at_most c n rest)"

text \<open>An exception of the key derivation is not caught.\<close>

datatype password_error = DerivationFailed

definition verify_password :: "password_env \<Rightarrow> string \<Rightarrow> string \<Rightarrow> password_error + bool" where
  "verify_password env password stored_hash =
     (case split_at_most dollar 3 stored_hash of
        [algorithm, iterations_raw, salt_raw, digest_raw] \<Rightarrow>
          if algorithm \<noteq> PASSWORD_ALGORITHM then Inr False
          else (case (py_int iterations_raw, kd_b64decode env salt_raw, kd_b64decode env digest_raw) of
            (Some iterations, Some salt, Some expected) \<Rightarrow>
              (case kd_pbkdf2 env password salt iterations of
                 None \<Rightarrow> Inl DerivationFailed | Some actual \<Rightarrow> Inr (actual = expected))
          | _ \<Rightarrow> Inr False)
      | _ \<Rightarrow> Inr False)"

section \<open>Tables\<close>

record user_row =
  us_user_id :: string
  us_username :: string
  us_password_hash :: string
  us_role :: string
  us_enabled :: bool
  us_privacy_mask_enabled :: bool
  us_created_at :: timestamp
  us_updated_at :: timestamp
  us_last_login_at :: "timestamp option"
  us_last_login_ip :: "string option"
  us_last_login_source :: "string option"

record admin_session =
  as_session_id :: string
  as_user_id :: string
  as_refresh_token_hash :: string
  as_created_at :: timestamp
  as_updated_at :: timestamp
  as_last_used_at :: timestamp
  as_expires_at :: timestamp
  as_revoked_at :: "timestamp option"
  as_client_ip :: "string option"
  as_login_source :: "string option"

record quick_phrase =
  qp_phrase_id :: string
  qp_user_id :: string
  qp_title :: ustr
  qp_content :: ustr
  qp_group_name :: ustr
  qp_sort_order :: int
  qp_last_used_at :: "timestamp option"
  qp_created_at :: timestamp
  qp_updated_at :: timestamp

record auth_db =
  au_users :: "user_row list"
  au_sessions :: "admin_session list"
  au_phrases :: "quick_phrase list"

text \<open>\<open>ae_hash_token\<close> is \<open>hash_admin_session_token\<close>, \<open>ae_session_days\<close> and \<open>ae_token_minutes\<close> are settings.\<close>

record auth_env =
  ae_password :: password_env
  ae_hash_token :: "string \<Rightarrow> string"
  ae_session_days :: int
  ae_token_minutes :: int

definition days :: "int \<Rightarrow> timedelta" where
  "days n = hours (24 * n)"

section \<open>Sessions\<close>

definition session_over :: "timestamp \<Rightarrow> admin_session \<Rightarrow> bool" where
  "session_over now s \<longleftrightarrow> as_expires_at s \<le> now
     \<or> (case as_revoked_at s of None \<Rightarrow> False | Some t \<Rightarrow> t \<le> now - days 30)"

definition create_admin_session ::
  "auth_env \<Rightarrow> timestamp \<Rightarrow> string \<Rightarrow> string \<Rightarrow> string \<Rightarrow> string option \<Rightarrow> string option \<Rightarrow> auth_db
   \<Rightarrow> auth_db \<times> (string \<times> string) option" where
  "create_admin_session env now session_id refresh_token user_id client_ip login_source db =
     (case get_row us_user_id (au_users db) user_id of
        None \<Rightarrow> (db, None)
      | Some user \<Rightarrow>
          if \<not> us_enabled user then (db, None)
          else let row = \<lparr>as_session_id = session_id, as_user_id = user_id,
                     as_refresh_token_hash = ae_hash_token env refresh_token, as_created_at = now, as_updated_at = now,
                     as_last_used_at = now, as_expires_at = now + days (ae_session_days env), as_revoked_at = None,
                     as_client_ip = client_ip, as_login_source = login_source\<rparr>
               in (db\<lparr>au_sessions := filter (\<lambda>s. \<not> session_over now s) (au_sessions db) @ [row]\<rparr>,
                   Some (session_id, refresh_token)))"

definition revoke :: "timestamp \<Rightarrow> admin_session \<Rightarrow> admin_session" where
  "revoke now s = s\<lparr>as_revoked_at := Some now, as_updated_at := now\<rparr>"

definition refresh_admin_session ::
  "auth_env \<Rightarrow> timestamp \<Rightarrow> string \<Rightarrow> auth_db \<Rightarrow> auth_db \<times> (user_row \<times> string) option" where
  "refresh_admin_session env now refresh_token db =
     (if strip refresh_token = [] then (db, None)
      else case get_row as_refresh_token_hash (au_sessions db) (ae_hash_token env (strip refresh_token)) of
        None \<Rightarrow> (db, None)
      | Some s \<Rightarrow>
          if as_revoked_at s \<noteq> None \<or> as_expires_at s \<le> now then (db, None)
          else (case get_row us_user_id (au_users db) (as_user_id s) of
              Some user \<Rightarrow>
                if us_enabled user
                then (db\<lparr>au_sessions := put_row as_session_id (s\<lparr>as_last_used_at := now, as_updated_at := now,
                        as_expires_at := now + days (ae_session_days env)\<rparr>) (au_sessions db)\<rparr>, Some (user, as_session_id s))
                else (db\<lparr>au_sessions := put_row as_session_id (revoke now s) (au_sessions db)\<rparr>, None)
            | None \<Rightarrow> (db\<lparr>au_sessions := put_row as_session_id (revoke now s) (au_sessions db)\<rparr>, None)))"

definition revoke_admin_session :: "auth_env \<Rightarrow> timestamp \<Rightarrow> string \<Rightarrow> auth_db \<Rightarrow> auth_db \<times> bool" where
  "revoke_admin_session env now refresh_token db =
     (if strip refresh_token = [] then (db, False)
      else case get_row as_refresh_token_hash (au_sessions db) (ae_hash_token env (strip refresh_token)) of
        None \<Rightarrow> (db, False)
      | Some s \<Rightarrow>
          if as_revoked_at s = None
          then (db\<lparr>au_sessions := put_row as_session_id (revoke now s) (au_sessions db)\<rparr>, True)
          else (db, True))"

definition get_user_for_admin_session :: "timestamp \<Rightarrow> string \<Rightarrow> string \<Rightarrow> auth_db \<Rightarrow> user_row option" where
  "get_user_for_admin_session now user_id session_id db =
     (case get_row as_session_id (au_sessions db) session_id of
        None \<Rightarrow> None
      | Some s \<Rightarrow>
          if as_user_id s \<noteq> user_id \<or> as_revoked_at s \<noteq> None \<or> as_expires_at s \<le> now then None
          else (case get_row us_user_id (au_users db) user_id of
              None \<Rightarrow> None | Some user \<Rightarrow> if us_enabled user then Some user else None))"

section \<open>Users\<close>

datatype user_error = UsernameExists | HashFailed

record user_create =
  uc_username :: string
  uc_password :: string
  uc_role :: string
  uc_enabled :: bool

definition create_user ::
  "auth_env \<Rightarrow> timestamp \<Rightarrow> string \<Rightarrow> bytes \<Rightarrow> user_create \<Rightarrow> auth_db \<Rightarrow> user_error + (auth_db \<times> user_row)" where
  "create_user env now user_id salt p db =
     (let username = strip (uc_username p) in
      if get_row us_username (au_users db) username \<noteq> None then Inl UsernameExists
      else case hash_password (ae_password env) salt (uc_password p) of
        None \<Rightarrow> Inl HashFailed
      | Some h \<Rightarrow>
          let row = \<lparr>us_user_id = user_id, us_username = username, us_password_hash = h, us_role = uc_role p,
                us_enabled = uc_enabled p, us_privacy_mask_enabled = False, us_created_at = now, us_updated_at = now,
                us_last_login_at = None, us_last_login_ip = None, us_last_login_source = None\<rparr>
          in Inr (db\<lparr>au_users := au_users db @ [row]\<rparr>, row))"

record user_update =
  uu_password :: "string option"
  uu_role :: "string option"
  uu_enabled :: "bool option"

definition update_user ::
  "auth_env \<Rightarrow> timestamp \<Rightarrow> bytes \<Rightarrow> string \<Rightarrow> user_update \<Rightarrow> auth_db \<Rightarrow> user_error + (auth_db \<times> user_row option)" where
  "update_user env now salt user_id p db =
     (case get_row us_user_id (au_users db) user_id of
        None \<Rightarrow> Inr (db, None)
      | Some user \<Rightarrow>
          (case (case uu_password p of None \<Rightarrow> Some (us_password_hash user)
                 | Some pw \<Rightarrow> hash_password (ae_password env) salt pw) of
             None \<Rightarrow> Inl HashFailed
           | Some h \<Rightarrow>
               let row = user\<lparr>us_password_hash := h,
                     us_role := (case uu_role p of None \<Rightarrow> us_role user | Some r \<Rightarrow> r),
                     us_enabled := (case uu_enabled p of None \<Rightarrow> us_enabled user | Some e \<Rightarrow> e), us_updated_at := now\<rparr>;
                   sessions = (if uu_password p \<noteq> None \<or> uu_enabled p = Some False
                     then update_where (\<lambda>s. as_user_id s = user_id \<and> as_revoked_at s = None) (revoke now) (au_sessions db)
                     else au_sessions db)
               in Inr (db\<lparr>au_users := put_row us_user_id row (au_users db), au_sessions := sessions\<rparr>, Some row)))"

definition update_user_preferences :: "timestamp \<Rightarrow> string \<Rightarrow> bool \<Rightarrow> auth_db \<Rightarrow> auth_db \<times> user_row option" where
  "update_user_preferences now user_id masked db =
     (case get_row us_user_id (au_users db) user_id of
        None \<Rightarrow> (db, None)
      | Some user \<Rightarrow> let row = user\<lparr>us_privacy_mask_enabled := masked, us_updated_at := now\<rparr>
                     in (db\<lparr>au_users := put_row us_user_id row (au_users db)\<rparr>, Some row))"

definition logged_in :: "timestamp \<Rightarrow> string option \<Rightarrow> string option \<Rightarrow> user_row \<Rightarrow> user_row" where
  "logged_in now client_ip login_source user = user\<lparr>us_last_login_at := Some now, us_last_login_ip := client_ip,
     us_last_login_source := login_source, us_updated_at := now\<rparr>"

definition authenticate_user ::
  "auth_env \<Rightarrow> timestamp \<Rightarrow> string \<Rightarrow> string \<Rightarrow> string option \<Rightarrow> string option \<Rightarrow> auth_db
   \<Rightarrow> password_error + (auth_db \<times> user_row option)" where
  "authenticate_user env now username password client_ip login_source db =
     (case get_row us_username (au_users db) (strip username) of
        None \<Rightarrow> Inr (db, None)
      | Some user \<Rightarrow>
          if \<not> us_enabled user then Inr (db, None)
          else (case verify_password (ae_password env) password (us_password_hash user) of
              Inl e \<Rightarrow> Inl e
            | Inr ok \<Rightarrow>
                if \<not> ok then Inr (db, None)
                else let row = logged_in now client_ip login_source user
                     in Inr (db\<lparr>au_users := put_row us_user_id row (au_users db)\<rparr>, Some row)))"

definition record_user_login ::
  "timestamp \<Rightarrow> string \<Rightarrow> string option \<Rightarrow> string option \<Rightarrow> auth_db \<Rightarrow> auth_db \<times> user_row option" where
  "record_user_login now user_id client_ip login_source db =
     (case get_row us_user_id (au_users db) user_id of
        None \<Rightarrow> (db, None)
      | Some user \<Rightarrow> let row = logged_in now client_ip login_source user
                     in (db\<lparr>au_users := put_row us_user_id row (au_users db)\<rparr>, Some row))"

section \<open>Quick phrases\<close>

record phrase_payload =
  pw_title :: ustr
  pw_content :: ustr
  pw_group_name :: ustr
  pw_sort_order :: int

definition find_phrase :: "string \<Rightarrow> string \<Rightarrow> quick_phrase list \<Rightarrow> quick_phrase option" where
  "find_phrase user_id phrase_id rows = find (\<lambda>q. qp_phrase_id q = phrase_id \<and> qp_user_id q = user_id) rows"

definition create_quick_phrase :: "timestamp \<Rightarrow> string \<Rightarrow> string \<Rightarrow> phrase_payload \<Rightarrow> auth_db \<Rightarrow> auth_db \<times> quick_phrase" where
  "create_quick_phrase now phrase_id user_id p db =
     (let row = \<lparr>qp_phrase_id = phrase_id, qp_user_id = user_id, qp_title = pw_title p, qp_content = pw_content p,
        qp_group_name = pw_group_name p, qp_sort_order = pw_sort_order p, qp_last_used_at = None,
        qp_created_at = now, qp_updated_at = now\<rparr>
      in (db\<lparr>au_phrases := au_phrases db @ [row]\<rparr>, row))"

definition update_quick_phrase ::
  "timestamp \<Rightarrow> string \<Rightarrow> string \<Rightarrow> phrase_payload \<Rightarrow> auth_db \<Rightarrow> auth_db \<times> quick_phrase option" where
  "update_quick_phrase now user_id phrase_id p db =
     (case find_phrase user_id phrase_id (au_phrases db) of
        None \<Rightarrow> (db, None)
      | Some q \<Rightarrow> let row = q\<lparr>qp_title := pw_title p, qp_content := pw_content p, qp_group_name := pw_group_name p,
                    qp_sort_order := pw_sort_order p, qp_updated_at := now\<rparr>
                  in (db\<lparr>au_phrases := put_row qp_phrase_id row (au_phrases db)\<rparr>, Some row))"

definition delete_quick_phrase :: "string \<Rightarrow> string \<Rightarrow> auth_db \<Rightarrow> auth_db \<times> bool" where
  "delete_quick_phrase user_id phrase_id db =
     (case find_phrase user_id phrase_id (au_phrases db) of
        None \<Rightarrow> (db, False)
      | Some q \<Rightarrow> (db\<lparr>au_phrases := filter (\<lambda>r. qp_phrase_id r \<noteq> phrase_id) (au_phrases db)\<rparr>, True))"

definition touch_quick_phrase :: "timestamp \<Rightarrow> string \<Rightarrow> string \<Rightarrow> auth_db \<Rightarrow> auth_db \<times> quick_phrase option" where
  "touch_quick_phrase now user_id phrase_id db =
     (case find_phrase user_id phrase_id (au_phrases db) of
        None \<Rightarrow> (db, None)
      | Some q \<Rightarrow> let row = q\<lparr>qp_last_used_at := Some now, qp_updated_at := now\<rparr>
                  in (db\<lparr>au_phrases := put_row qp_phrase_id row (au_phrases db)\<rparr>, Some row))"

section \<open>Access tokens\<close>

datatype jwt_result = JwtPayload json | JwtExpired | JwtError

text \<open>\<open>jw_decode\<close> verifies a token at a time in seconds.\<close>

record jwt_env =
  jw_encode :: "json \<Rightarrow> string"
  jw_decode :: "int \<Rightarrow> string \<Rightarrow> jwt_result"

definition text_json :: "string \<Rightarrow> json" where
  "text_json s = JStr (asc s)"

definition access_claims :: "auth_env \<Rightarrow> int \<Rightarrow> string \<Rightarrow> string \<Rightarrow> string \<Rightarrow> string \<Rightarrow> string option \<Rightarrow> json" where
  "access_claims env now jti user_id username role session_id =
     JObj ([(asc ''sub'', text_json user_id), (asc ''username'', text_json username), (asc ''role'', text_json role),
            (asc ''token_type'', text_json (if truthy session_id then ''admin_access'' else ''internal_service'')),
            (asc ''iat'', JInt now), (asc ''exp'', JInt (now + ae_token_minutes env * 60)), (asc ''jti'', text_json jti)]
           @ (if truthy session_id then [(asc ''sid'', text_json (the session_id))] else []))"

definition create_access_token ::
  "auth_env \<Rightarrow> jwt_env \<Rightarrow> int \<Rightarrow> string \<Rightarrow> string \<Rightarrow> string \<Rightarrow> string \<Rightarrow> string option \<Rightarrow> string \<times> int" where
  "create_access_token env jwt now jti user_id username role session_id =
     (jw_encode jwt (access_claims env now jti user_id username role session_id), ae_token_minutes env * 60)"

fun is_text :: "json \<Rightarrow> bool" where
  "is_text (JStr _) = True"
| "is_text _ = False"

definition verify_access_token :: "jwt_env \<Rightarrow> int \<Rightarrow> string \<Rightarrow> json option" where
  "verify_access_token jwt now token = (case jw_decode jwt now token of
     JwtPayload p \<Rightarrow> if is_text (jget ''sub'' p) then Some p else None | _ \<Rightarrow> None)"

definition access_token_error :: "jwt_env \<Rightarrow> int \<Rightarrow> string \<Rightarrow> string" where
  "access_token_error jwt now token = (case jw_decode jwt now token of
     JwtExpired \<Rightarrow> ''ACCESS_TOKEN_EXPIRED'' | _ \<Rightarrow> ''ACCESS_TOKEN_INVALID'')"

section \<open>Requests\<close>

record request =
  rq_method :: string
  rq_path :: string
  rq_authorization :: string
  rq_client_host :: "string option"
  rq_cf_connecting_ip :: "string option"
  rq_true_client_ip :: "string option"
  rq_x_real_ip :: "string option"
  rq_x_forwarded_for :: "string option"

definition AUTH_EXEMPT_PATHS :: "string list" where
  "AUTH_EXEMPT_PATHS = [''/api/health'', ''/api/ready'', ''/api/auth/setup-status'', ''/api/auth/client-info'',
     ''/api/auth/login'', ''/api/auth/bootstrap'', ''/api/auth/refresh'', ''/api/auth/logout'']"

definition ADMIN_ONLY_PREFIXES :: "string list" where
  "ADMIN_ONLY_PREFIXES = [''/api/internal'', ''/api/users'', ''/api/tasks'', ''/api/audit-logs'', ''/api/settings/ai-provider'',
     ''/api/settings/browser-runtime'', ''/api/settings/message-services'', ''/api/account-migrations'']"

definition prefixed :: "string \<Rightarrow> string \<Rightarrow> bool" where
  "prefixed p t \<longleftrightarrow> take (length p) t = p"

definition suffixed :: "string \<Rightarrow> string \<Rightarrow> bool" where
  "suffixed p t \<longleftrightarrow> prefixed (rev p) (rev t)"

definition has_permission :: "user_row \<Rightarrow> request \<Rightarrow> bool" where
  "has_permission user r =
     (if us_role user = ''admin'' then True
      else if rq_method r = ''POST'' \<and> prefixed ''/api/im/conversations/'' (rq_path r) \<and> suffixed ''/read'' (rq_path r) then True
      else if list_ex (\<lambda>p. prefixed p (rq_path r)) ADMIN_ONLY_PREFIXES then False
      else if us_role user = ''viewer'' then rq_method r \<in> {''GET'', ''HEAD'', ''OPTIONS''}
      else us_role user = ''operator'')"

text \<open>\<open>parse_ip\<close> is \<open>str(ip_address(text))\<close>, nothing when it raises.\<close>

definition first_header_ip :: "(string \<Rightarrow> string option) \<Rightarrow> string option \<Rightarrow> string option" where
  "first_header_ip parse_ip v =
     (if \<not> truthy v then None
      else let first = strip (takeWhile (\<lambda>c. c \<noteq> CHR '','') (the v)) in
        if first = [] then None else parse_ip first)"

record client_access =
  cl_ip :: "string option"
  cl_source :: string
  cl_remote_addr :: "string option"
  cl_cf_connecting_ip :: "string option"
  cl_true_client_ip :: "string option"
  cl_x_real_ip :: "string option"
  cl_x_forwarded_for :: "string option"

definition resolve_client_access :: "(string \<Rightarrow> string option) \<Rightarrow> string list \<Rightarrow> request \<Rightarrow> client_access" where
  "resolve_client_access parse_ip trusted_proxy_ips r =
     (let remote = first_header_ip parse_ip (rq_client_host r);
          trust = (case remote of None \<Rightarrow> False | Some a \<Rightarrow> a \<in> set trusted_proxy_ips);
          header = (\<lambda>h. if trust then first_header_ip parse_ip (h r) else None);
          xff = (if trust then rq_x_forwarded_for r else None);
          candidates = [(''CF-Connecting-IP'', header rq_cf_connecting_ip), (''True-Client-IP'', header rq_true_client_ip),
            (''X-Real-IP'', header rq_x_real_ip), (''X-Forwarded-For'', first_header_ip parse_ip xff), (''remote_addr'', remote)];
          chosen = (case find (\<lambda>(_, ip). truthy ip) candidates of None \<Rightarrow> (''unknown'', None) | Some c \<Rightarrow> c)
      in \<lparr>cl_ip = snd chosen, cl_source = fst chosen, cl_remote_addr = remote, cl_cf_connecting_ip = header rq_cf_connecting_ip,
          cl_true_client_ip = header rq_true_client_ip, cl_x_real_ip = header rq_x_real_ip, cl_x_forwarded_for = xff\<rparr>)"

section \<open>The middleware\<close>

definition needs_login :: "request \<Rightarrow> bool" where
  "needs_login r \<longleftrightarrow> prefixed ''/api'' (rq_path r) \<and> rq_path r \<notin> set AUTH_EXEMPT_PATHS
     \<and> \<not> (rq_method r = ''POST'' \<and> rq_path r = ''/api/integrations/chatwoot/webhook'')"

definition bearer_token :: "request \<Rightarrow> string option" where
  "bearer_token r = (if prefixed ''Bearer '' (rq_authorization r) then Some (strip (drop 7 (rq_authorization r))) else None)"

text \<open>Identifiers of the tables are ASCII; any other text of a claim matches no row.\<close>

definition claim_text :: "json \<Rightarrow> string option" where
  "claim_text v = (case v of
     JStr t \<Rightarrow> if list_all (\<lambda>c. 0 \<le> c \<and> c < 256) t then Some (map (\<lambda>c. char_of (nat c)) t) else None
   | _ \<Rightarrow> None)"

definition token_user :: "timestamp \<Rightarrow> json \<Rightarrow> auth_db \<Rightarrow> user_row option \<times> string" where
  "token_user now p db =
     (if jget ''token_type'' p = text_json ''admin_access'' \<and> is_text (jget ''sid'' p)
      then (case (claim_text (jget ''sub'' p), claim_text (jget ''sid'' p)) of
              (Some user_id, Some sid) \<Rightarrow>
                (case get_user_for_admin_session now user_id sid db of
                   None \<Rightarrow> (None, ''SESSION_EXPIRED'') | Some u \<Rightarrow> (Some u, ''AUTH_REQUIRED''))
            | _ \<Rightarrow> (None, ''SESSION_EXPIRED''))
      else if jget ''token_type'' p = text_json ''internal_service''
      then (Option.bind (claim_text (jget ''sub'' p)) (get_row us_user_id (au_users db)), ''AUTH_REQUIRED'')
      else (None, ''ACCESS_TOKEN_INVALID''))"

datatype admission = Open | Admitted user_row | Unauthorized string | Forbidden user_row

text \<open>\<open>now\<close> is the time in microseconds; tokens are checked by the second.\<close>

definition admit_request :: "jwt_env \<Rightarrow> timestamp \<Rightarrow> request \<Rightarrow> auth_db \<Rightarrow> admission" where
  "admit_request jwt now r db =
     (if \<not> needs_login r then Open
      else let (user, code) = (case bearer_token r of
             None \<Rightarrow> (None, ''AUTH_REQUIRED'')
           | Some token \<Rightarrow>
               if token = [] then (None, ''AUTH_REQUIRED'')
               else (case verify_access_token jwt (now div 1000000) token of
                   None \<Rightarrow> (None, access_token_error jwt (now div 1000000) token)
                 | Some p \<Rightarrow> token_user now p db)) in
        case user of
          None \<Rightarrow> Unauthorized code
        | Some u \<Rightarrow> if \<not> us_enabled u then Unauthorized code
                    else if has_permission u r then Admitted u else Forbidden u)"

record audit_entry =
  ad_action :: string
  ad_target :: string
  ad_success :: bool
  ad_status_code :: int
  ad_actor :: string
  ad_client_ip :: "string option"

definition activity_heartbeat :: "request \<Rightarrow> bool" where
  "activity_heartbeat r \<longleftrightarrow> rq_method r = ''POST'' \<and> prefixed ''/api/browser-sessions/'' (rq_path r) \<and> suffixed ''/activity'' (rq_path r)"

text \<open>
  The middleware around a handler that answers with a status and may name the actor: the
  status of the answer and what is written to the audit log.
\<close>

definition require_jwt ::
  "jwt_env \<Rightarrow> (string \<Rightarrow> string option) \<Rightarrow> string list \<Rightarrow> timestamp \<Rightarrow> request \<Rightarrow> int \<Rightarrow> string option \<Rightarrow> auth_db
   \<Rightarrow> int \<times> audit_entry list" where
  "require_jwt jwt parse_ip trusted now r status audit_actor db =
     (let ip = cl_ip (resolve_client_access parse_ip trusted r);
          answered = (\<lambda>user. (status,
            if prefixed ''/api'' (rq_path r) \<and> rq_method r \<in> {''POST'', ''PUT'', ''DELETE''} \<and> \<not> activity_heartbeat r
            then [\<lparr>ad_action = rq_method r, ad_target = rq_path r, ad_success = status < 400, ad_status_code = status,
                   ad_actor = (if truthy audit_actor then the audit_actor else case user of None \<Rightarrow> ''system'' | Some u \<Rightarrow> us_username u),
                   ad_client_ip = ip\<rparr>]
            else [])) in
      case admit_request jwt now r db of
        Open \<Rightarrow> answered None
      | Admitted u \<Rightarrow> answered (Some u)
      | Unauthorized _ \<Rightarrow> (401, [])
      | Forbidden u \<Rightarrow> (403, [\<lparr>ad_action = rq_method r, ad_target = rq_path r, ad_success = False, ad_status_code = 403,
          ad_actor = us_username u, ad_client_ip = ip\<rparr>]))"

section \<open>Routes\<close>

text \<open>The identifiers and random bytes that a request draws.\<close>

record fresh =
  fr_user_id :: string
  fr_salt :: bytes
  fr_session_id :: string
  fr_refresh_token :: string
  fr_jti :: string

text \<open>What a route answers: the access token, its lifetime, the user and the session cookie.\<close>

record login_answer =
  la_access_token :: string
  la_expires_in :: int
  la_user :: user_row
  la_cookie :: string

text \<open>An answer, a status code, or an exception that no handler catches.\<close>

datatype 'a answer = Answer 'a | Status int | Raised

text \<open>The session and the token at the end of \<open>bootstrap_auth\<close> and \<open>login\<close>.\<close>

definition open_session ::
  "auth_env \<Rightarrow> jwt_env \<Rightarrow> timestamp \<Rightarrow> fresh \<Rightarrow> client_access \<Rightarrow> user_row \<Rightarrow> auth_db \<Rightarrow> auth_db \<times> login_answer answer" where
  "open_session env jwt now f client user db =
     (case create_admin_session env now (fr_session_id f) (fr_refresh_token f) (us_user_id user)
        (cl_ip client) (Some (cl_source client)) db of
        (db', None) \<Rightarrow> (db', Status 401)
      | (db', Some (session_id, refresh_token)) \<Rightarrow>
          let (token, expires_in) = create_access_token env jwt (now div 1000000) (fr_jti f) (us_user_id user)
                (us_username user) (us_role user) (Some session_id)
          in (db', Answer \<lparr>la_access_token = token, la_expires_in = expires_in, la_user = user, la_cookie = refresh_token\<rparr>))"

definition count_users :: "auth_db \<Rightarrow> nat" where
  "count_users db = length (au_users db)"

text \<open>\<open>bootstrap_auth\<close> after its check that there is no user yet.\<close>

definition create_first_admin ::
  "auth_env \<Rightarrow> jwt_env \<Rightarrow> timestamp \<Rightarrow> fresh \<Rightarrow> client_access \<Rightarrow> string \<Rightarrow> string \<Rightarrow> auth_db
   \<Rightarrow> auth_db \<times> login_answer answer" where
  "create_first_admin env jwt now f client username password db =
     (case create_user env now (fr_user_id f) (fr_salt f)
        \<lparr>uc_username = username, uc_password = password, uc_role = ''admin'', uc_enabled = True\<rparr> db of
        Inl _ \<Rightarrow> (db, Raised)
      | Inr (db1, user) \<Rightarrow>
          (case record_user_login now (us_user_id user) (cl_ip client) (Some (cl_source client)) db1 of
            (db2, logged) \<Rightarrow>
              open_session env jwt now f client (case logged of None \<Rightarrow> user | Some u \<Rightarrow> u) db2))"

definition bootstrap_auth ::
  "auth_env \<Rightarrow> jwt_env \<Rightarrow> timestamp \<Rightarrow> fresh \<Rightarrow> client_access \<Rightarrow> string \<Rightarrow> string \<Rightarrow> auth_db
   \<Rightarrow> auth_db \<times> login_answer answer" where
  "bootstrap_auth env jwt now f client username password db =
     (if count_users db > 0 then (db, Status 409)
      else create_first_admin env jwt now f client username password db)"

definition login ::
  "auth_env \<Rightarrow> jwt_env \<Rightarrow> timestamp \<Rightarrow> fresh \<Rightarrow> client_access \<Rightarrow> string \<Rightarrow> string \<Rightarrow> auth_db
   \<Rightarrow> auth_db \<times> login_answer answer" where
  "login env jwt now f client username password db =
     (case authenticate_user env now username password (cl_ip client) (Some (cl_source client)) db of
        Inl _ \<Rightarrow> (db, Raised)
      | Inr (db', None) \<Rightarrow> (db', Status 401)
      | Inr (db', Some user) \<Rightarrow> open_session env jwt now f client user db')"

definition refresh_auth ::
  "auth_env \<Rightarrow> jwt_env \<Rightarrow> timestamp \<Rightarrow> fresh \<Rightarrow> string \<Rightarrow> auth_db \<Rightarrow> auth_db \<times> login_answer answer" where
  "refresh_auth env jwt now f cookie db =
     (case refresh_admin_session env now cookie db of
        (db', None) \<Rightarrow> (db', Status 401)
      | (db', Some (user, session_id)) \<Rightarrow>
          let (token, expires_in) = create_access_token env jwt (now div 1000000) (fr_jti f) (us_user_id user)
                (us_username user) (us_role user) (Some session_id)
          in (db', Answer \<lparr>la_access_token = token, la_expires_in = expires_in, la_user = user, la_cookie = cookie\<rparr>))"

definition logout_auth :: "auth_env \<Rightarrow> timestamp \<Rightarrow> string \<Rightarrow> auth_db \<Rightarrow> auth_db" where
  "logout_auth env now cookie db = (if cookie \<noteq> [] then fst (revoke_admin_session env now cookie db) else db)"

definition update_user_route ::
  "auth_env \<Rightarrow> timestamp \<Rightarrow> bytes \<Rightarrow> string \<Rightarrow> user_update \<Rightarrow> auth_db \<Rightarrow> auth_db \<times> user_row answer" where
  "update_user_route env now salt user_id p db =
     (case update_user env now salt user_id p db of
        Inl _ \<Rightarrow> (db, Raised)
      | Inr (db', None) \<Rightarrow> (db', Status 404)
      | Inr (db', Some user) \<Rightarrow> (db', Answer user))"

section \<open>Tickets of the event stream\<close>

text \<open>
  \<open>realtime_tickets\<close>: the user of a ticket and the end of its validity on the
  monotonic clock. \<open>started\<close> is read before the lock is taken, \<open>now\<close> after.
\<close>

type_synonym tickets = "(string \<times> string \<times> timestamp) list"

definition create_realtime_ticket :: "timestamp \<Rightarrow> timestamp \<Rightarrow> string \<Rightarrow> string \<Rightarrow> tickets \<Rightarrow> tickets" where
  "create_realtime_ticket started now ticket user_id ts =
     AList.update ticket (user_id, started + seconds 30) (filter (\<lambda>(_, _, until). \<not> until \<le> now) ts)"

text \<open>The user whose events the connection receives, or nothing when it is closed with 4401.\<close>

definition redeem_ticket :: "timestamp \<Rightarrow> string \<Rightarrow> auth_db \<Rightarrow> tickets \<Rightarrow> tickets \<times> user_row option" where
  "redeem_ticket now ticket db ts =
     (AList.delete ticket ts,
      case map_of ts ticket of
        None \<Rightarrow> None
      | Some (user_id, until) \<Rightarrow>
          if until \<le> now then None
          else (case get_row us_user_id (au_users db) user_id of
              None \<Rightarrow> None | Some user \<Rightarrow> if us_enabled user then Some user else None))"

end
