(* ===== verification/AccessSafety.thy ===== *)
theory AccessSafety
  imports Access
begin

text \<open>
  What the access control promises: a password is verified by its own hash, an ended session stays
  ended, a request is admitted only with a live session and the permission for its path, a ticket of
  the event stream is used once. The last section has what it does not prevent.
\<close>

section \<open>Passwords\<close>

lemma split_field [simp]:
  assumes "dollar \<notin> set a"
  shows "split_at_most dollar (Suc n) (a @ dollar # t) = a # split_at_most dollar n t"
proof -
  have "dropWhile (\<lambda>d. d \<noteq> dollar) (a @ dollar # t) = dollar # t"
    using assms by (subst dropWhile_append2) auto
  moreover have "takeWhile (\<lambda>d. d \<noteq> dollar) (a @ dollar # t) = a"
    using assms by (subst takeWhile_append2) auto
  ultimately show ?thesis by simp
qed

lemma digit_value_char_of: "d < 10 \<Longrightarrow> digit_value (char_of (48 + d :: nat)) = int d"
proof -
  assume "d < 10"
  then have "(of_char (char_of (48 + d :: nat) :: char) :: nat) = 48 + d" by (simp add: of_char_of)
  then have "(of_char (char_of (48 + d :: nat) :: char) :: int) = int (48 + d)" by (metis of_nat_of_char)
  then show ?thesis unfolding digit_value_def by linarith
qed

lemma digits_value_append:
  "list_all is_digit s \<Longrightarrow> digits_value acc (s @ t) = digits_value (the (digits_value acc s)) t"
  by (induction s arbitrary: acc) auto

lemma digits_value_show_nat: "digits_value 0 (show_nat n) = Some (int n)"
proof (induction n rule: show_nat.induct)
  case (1 n)
  show ?case
  proof (cases "n < 10")
    case True
    then show ?thesis by (simp add: show_nat.simps [of n] is_digit_char_of digit_value_char_of)
  next
    case False
    moreover have "list_all is_digit (show_nat (n div 10))" by (auto simp: list_all_iff dest: show_nat_digits)
    moreover have "10 * int (n div 10) + int (n mod 10) = int n"
      by (metis of_nat_add of_nat_mult of_nat_numeral mult_div_mod_eq)
    ultimately show ?thesis
      using "1.IH" by (simp add: show_nat.simps [of n] digits_value_append is_digit_char_of digit_value_char_of)
  qed
qed

lemma strip_digits:
  assumes "list_all is_digit s"
  shows "strip s = s"
proof -
  have n: "\<not> py_space c" if "c \<in> set s" for c
    using assms that by (auto simp: list_all_iff is_digit_def py_space_def Let_def)
  have "dropWhile py_space t = t" if "set t = set s" for t
    using n that by (cases t) auto
  from this [of s] this [of "rev s"] show ?thesis by (simp add: strip_def)
qed

lemma py_int_show_nat: "py_int (show_nat n) = Some (int n)"
proof -
  have d: "list_all is_digit (show_nat n)" by (auto simp: list_all_iff dest: show_nat_digits)
  obtain c t where ct: "show_nat n = c # t" by (cases "show_nat n") auto
  with d have "is_digit c" by simp
  then have "c \<noteq> CHR ''-''" "c \<noteq> CHR ''+''" by (auto simp: is_digit_def)
  with \<open>is_digit c\<close> digits_value_show_nat [of n] show ?thesis
    unfolding py_int_def strip_digits [OF d] by (simp add: ct unsigned_value_def)
qed

lemma py_int_show_int: "0 \<le> i \<Longrightarrow> py_int (show_int i) = Some i"
  using py_int_show_nat [of "nat i"] by (simp add: show_int_def)

lemma no_dollar: "dollar \<notin> set PASSWORD_ALGORITHM" "dollar \<notin> set (show_nat n)"
  by (auto simp: dollar_def PASSWORD_ALGORITHM_def is_digit_def dest: show_nat_digits)

lemma verify_hashed:
  assumes b64: "\<And>b. kd_b64decode env (kd_b64encode env b) = Some b" and chars: "\<And>b. dollar \<notin> set (kd_b64encode env b)"
    and h: "hash_password env salt password = Some h"
  shows "verify_password env other h =
    (case kd_pbkdf2 env other salt PASSWORD_ITERATIONS of
       None \<Rightarrow> Inl DerivationFailed
     | Some d \<Rightarrow> Inr (Some d = kd_pbkdf2 env password salt PASSWORD_ITERATIONS))"
proof -
  from h obtain d where d: "kd_pbkdf2 env password salt PASSWORD_ITERATIONS = Some d"
    and hd: "h = PASSWORD_ALGORITHM @ dollar # show_int PASSWORD_ITERATIONS @ dollar #
      kd_b64encode env salt @ dollar # kd_b64encode env d"
    by (auto simp: hash_password_def split: option.splits)
  have "split_at_most dollar 3 h =
      [PASSWORD_ALGORITHM, show_int PASSWORD_ITERATIONS, kd_b64encode env salt, kd_b64encode env d]"
    unfolding hd numeral_3_eq_3
    by (simp add: no_dollar chars show_int_def PASSWORD_ITERATIONS_def del: split_at_most.simps(2))
  moreover have "py_int (show_int PASSWORD_ITERATIONS) = Some PASSWORD_ITERATIONS"
    by (rule py_int_show_int) (simp add: PASSWORD_ITERATIONS_def)
  ultimately show ?thesis
    by (simp add: verify_password_def b64 d split: option.split)
qed

text \<open>C25. 
  A stored hash verifies exactly the passwords that derive the same key with its salt: the
  password itself always, any other only when the derivation collides. Base64 decodes what it
  encoded, and its alphabet has no dollar sign.
\<close>

theorem password_round_trip:
  assumes b64: "\<And>b. kd_b64decode env (kd_b64encode env b) = Some b"
    and chars: "\<And>b. CHR ''$'' \<notin> set (kd_b64encode env b)"
    and h: "hash_password env salt password = Some h"
  shows "verify_password env password h = Inr True
    \<and> (verify_password env other h = Inr True \<longleftrightarrow>
        kd_pbkdf2 env other salt PASSWORD_ITERATIONS = kd_pbkdf2 env password salt PASSWORD_ITERATIONS)"
proof -
  have c: "dollar \<notin> set (kd_b64encode env b)" for b using chars by (simp add: dollar_def)
  from h have "kd_pbkdf2 env password salt PASSWORD_ITERATIONS \<noteq> None"
    by (auto simp: hash_password_def split: option.splits)
  then show ?thesis
    using verify_hashed [OF b64 c h, of password] verify_hashed [OF b64 c h, of other]
    by (auto split: option.splits)
qed


text \<open>A derivation and a printable encoding for examples: the key is the password, numbers are written in unary.\<close>

definition show_bytes :: "bytes \<Rightarrow> string" where
  "show_bytes b = concat (map (\<lambda>i. (if i < 0 then ''-'' else []) @ replicate (nat \<bar>i\<bar>) (CHR ''1'') @ '','') b)"

fun read_bytes :: "bool \<Rightarrow> int \<Rightarrow> string \<Rightarrow> bytes" where
  "read_bytes neg n [] = []"
| "read_bytes neg n (c # t) =
     (if c = CHR ''-'' then read_bytes True n t
      else if c = CHR ''1'' then read_bytes neg (n + 1) t
      else (if neg then - n else n) # read_bytes False 0 t)"

definition plain_passwords :: password_env where
  "plain_passwords = \<lparr>kd_pbkdf2 = (\<lambda>p salt n. Some (map of_char p)), kd_b64encode = show_bytes,
     kd_b64decode = (\<lambda>t. Some (read_bytes False 0 t))\<rparr>"

lemma read_ones: "read_bytes neg n (replicate k (CHR ''1'') @ t) = read_bytes neg (n + int k) t"
  by (induction k arbitrary: n) (simp_all add: algebra_simps)

lemma read_show_bytes: "read_bytes False 0 (show_bytes b) = b"
  by (induction b) (simp_all add: show_bytes_def read_ones)

lemma plain_passwords_laws:
  "kd_b64decode plain_passwords (kd_b64encode plain_passwords b) = Some b"
  "CHR ''$'' \<notin> set (kd_b64encode plain_passwords b)"
  by (auto simp: plain_passwords_def read_show_bytes) (auto simp: show_bytes_def split: if_splits)

theorem password_round_trip_witness:
  "\<exists>h. hash_password plain_passwords [7, 8] ''open sesame'' = Some h
     \<and> verify_password plain_passwords ''open sesame'' h = Inr True
     \<and> verify_password plain_passwords ''open says me'' h \<noteq> Inr True"
proof -
  obtain h where h: "hash_password plain_passwords [7, 8] ''open sesame'' = Some h"
    by (simp add: hash_password_def plain_passwords_def)
  have "kd_pbkdf2 plain_passwords ''open says me'' [7, 8] PASSWORD_ITERATIONS \<noteq>
      kd_pbkdf2 plain_passwords ''open sesame'' [7, 8] PASSWORD_ITERATIONS"
    by (simp add: plain_passwords_def)
  with h password_round_trip [OF plain_passwords_laws h, of "''open says me''"] show ?thesis by blast
qed

section \<open>Ended sessions\<close>

text \<open>
  One request that changes the tables, with any clock: the sessions it opens have identifiers
  other than \<open>sid\<close>, which was drawn before.
\<close>

inductive auth_step :: "auth_env \<Rightarrow> jwt_env \<Rightarrow> string \<Rightarrow> auth_db \<Rightarrow> auth_db \<Rightarrow> bool" for env jwt sid where
  bootstrap: "fr_session_id f \<noteq> sid \<Longrightarrow> auth_step env jwt sid db (fst (bootstrap_auth env jwt now f client name pw db))"
| log_in: "fr_session_id f \<noteq> sid \<Longrightarrow> auth_step env jwt sid db (fst (login env jwt now f client name pw db))"
| refresh: "auth_step env jwt sid db (fst (refresh_auth env jwt now f cookie db))"
| log_out: "auth_step env jwt sid db (logout_auth env now cookie db)"
| add_user: "create_user env now user_id salt p db = Inr (db', user) \<Longrightarrow> auth_step env jwt sid db db'"
| change_user: "auth_step env jwt sid db (fst (update_user_route env now salt user_id q db))"
| preferences: "auth_step env jwt sid db (fst (update_user_preferences now user_id masked db))"
| add_phrase: "auth_step env jwt sid db (fst (create_quick_phrase now phrase_id user_id w db))"
| change_phrase: "auth_step env jwt sid db (fst (update_quick_phrase now user_id phrase_id w db))"
| drop_phrase: "auth_step env jwt sid db (fst (delete_quick_phrase user_id phrase_id db))"
| touch_phrase: "auth_step env jwt sid db (fst (touch_quick_phrase now user_id phrase_id db))"

definition session_ended :: "string \<Rightarrow> auth_db \<Rightarrow> bool" where
  "session_ended sid db \<longleftrightarrow>
     list_all (\<lambda>s. as_session_id s = sid \<longrightarrow> as_revoked_at s \<noteq> None) (au_sessions db)"

text \<open>Each operation on the sessions, as what it may do to one of them.\<close>

lemma ended_put_row:
  assumes "session_ended sid db" and "as_session_id s = sid \<longrightarrow> as_revoked_at s \<noteq> None"
  shows "session_ended sid (db\<lparr>au_sessions := put_row as_session_id s (au_sessions db)\<rparr>)"
  using assms by (auto simp: session_ended_def list_all_iff dest: in_put_row)

lemma ended_other_tables [simp]:
  "session_ended sid (db\<lparr>au_users := us\<rparr>) = session_ended sid db"
  "session_ended sid (db\<lparr>au_phrases := ps\<rparr>) = session_ended sid db"
  by (simp_all add: session_ended_def)

lemma create_admin_session_ended:
  assumes "session_ended sid db" and "session_id \<noteq> sid"
  shows "session_ended sid (fst (create_admin_session env now session_id token user_id ip src db))"
  using assms by (auto simp: create_admin_session_def session_ended_def list_all_iff split: option.split)

lemma open_session_sessions:
  "fst (open_session env jwt now f client user db) =
     fst (create_admin_session env now (fr_session_id f) (fr_refresh_token f) (us_user_id user)
       (cl_ip client) (Some (cl_source client)) db)"
  by (auto simp: open_session_def create_access_token_def split: prod.split option.split)

lemma refresh_auth_sessions: "fst (refresh_auth env jwt now f cookie db) = fst (refresh_admin_session env now cookie db)"
  by (auto simp: refresh_auth_def create_access_token_def split: prod.split option.split)

lemma revoked_put [simp]: "as_revoked_at (revoke now s) = Some now" "as_session_id (revoke now s) = as_session_id s"
  by (simp_all add: revoke_def)

lemma refresh_ended:
  assumes "session_ended sid db"
  shows "session_ended sid (fst (refresh_admin_session env now cookie db))"
proof (cases "get_row as_refresh_token_hash (au_sessions db) (ae_hash_token env (strip cookie))")
  case None
  with assms show ?thesis by (simp add: refresh_admin_session_def)
next
  case (Some s)
  then have "s \<in> set (au_sessions db)" by (auto dest: get_row_SomeD)
  with assms have "as_session_id s = sid \<longrightarrow> as_revoked_at s \<noteq> None" by (auto simp: session_ended_def list_all_iff)
  with assms Some show ?thesis
    by (auto simp: refresh_admin_session_def intro!: ended_put_row split: option.split)
qed

lemma revoke_ended: "session_ended sid db \<Longrightarrow> session_ended sid (fst (revoke_admin_session env now cookie db))"
  by (auto simp: revoke_admin_session_def intro!: ended_put_row split: option.split)

lemma update_user_ended:
  "session_ended sid db \<Longrightarrow> session_ended sid (fst (update_user_route env now salt user_id p db))"
  by (auto simp: update_user_route_def update_user_def Let_def session_ended_def list_all_iff
      split: option.splits sum.splits if_splits elim!: in_update_whereE)

lemma bootstrap_ended:
  assumes e: "session_ended sid db" and f: "fr_session_id f \<noteq> sid"
  shows "session_ended sid (fst (bootstrap_auth env jwt now f client name pw db))"
proof -
  define p where "p = \<lparr>uc_username = name, uc_password = pw, uc_role = ''admin'', uc_enabled = True\<rparr>"
  have "session_ended sid (fst (create_first_admin env jwt now f client name pw db))"
  proof (cases "create_user env now (fr_user_id f) (fr_salt f) p db")
    case (Inl x)
    with e show ?thesis by (simp add: create_first_admin_def p_def)
  next
    case (Inr du)
    obtain d u where du: "du = (d, u)" by fastforce
    with Inr e have d: "session_ended sid d"
      by (auto simp: create_user_def Let_def split: if_splits option.splits)
    obtain d' l where r: "record_user_login now (us_user_id u) (cl_ip client) (Some (cl_source client)) d = (d', l)" by fastforce
    with d have "session_ended sid d'" by (auto simp: record_user_login_def Let_def split: option.splits)
    with Inr du r f show ?thesis
      by (simp add: create_first_admin_def p_def open_session_sessions create_admin_session_ended)
  qed
  with e show ?thesis by (simp add: bootstrap_auth_def)
qed

lemma login_ended:
  assumes "session_ended sid db" and "fr_session_id f \<noteq> sid"
  shows "session_ended sid (fst (login env jwt now f client name pw db))"
proof -
  have "session_ended sid d" if "authenticate_user env now n w ip src db = Inr (d, u)" for n w ip src d u
    using that assms(1) by (auto simp: authenticate_user_def Let_def split: if_splits option.splits sum.splits)
  with assms show ?thesis
    by (auto simp: login_def open_session_sessions split: prod.split sum.split option.split
        intro!: create_admin_session_ended)
qed

lemma auth_step_ended: "auth_step env jwt sid db db' \<Longrightarrow> session_ended sid db \<Longrightarrow> session_ended sid db'"
proof (induction rule: auth_step.induct)
  case (log_out db now cookie)
  then show ?case by (simp add: logout_auth_def revoke_ended)
next
  case (add_user now user_id salt p db db' user)
  then show ?case by (auto simp: create_user_def Let_def split: if_splits option.splits)
qed (auto simp: refresh_auth_sessions refresh_ended login_ended bootstrap_ended update_user_ended
    update_user_preferences_def create_quick_phrase_def update_quick_phrase_def delete_quick_phrase_def
    touch_quick_phrase_def Let_def split: option.split)

interpretation ended: invariant_system "session_ended sid" "auth_step env jwt sid" "session_ended sid" for env jwt sid
  by unfold_locales (auto intro: auth_step_ended)

text \<open>The requests that end a session: logging out with its cookie, a new password, disabling its user.\<close>

inductive ends_session :: "auth_env \<Rightarrow> string \<Rightarrow> auth_db \<Rightarrow> auth_db \<Rightarrow> bool" for env sid db where
  logged_out: "get_row as_refresh_token_hash (au_sessions db) (ae_hash_token env (strip cookie)) = Some s \<Longrightarrow>
     as_session_id s = sid \<Longrightarrow> strip cookie \<noteq> [] \<Longrightarrow> ends_session env sid db (logout_auth env now cookie db)"
| password_changed: "get_row as_session_id (au_sessions db) sid = Some s \<Longrightarrow> uu_password q \<noteq> None \<Longrightarrow>
     update_user_route env now salt (as_user_id s) q db = (db', Answer u) \<Longrightarrow> ends_session env sid db db'"
| user_disabled: "get_row as_session_id (au_sessions db) sid = Some s \<Longrightarrow> uu_enabled q = Some False \<Longrightarrow>
     update_user_route env now salt (as_user_id s) q db = (db', Answer u) \<Longrightarrow> ends_session env sid db db'"

lemma put_revoked_ends:
  "session_ended (as_session_id s) (db\<lparr>au_sessions := put_row as_session_id (revoke now s) (au_sessions db)\<rparr>)"
  by (auto simp: session_ended_def list_all_iff dest: in_put_row)

lemma update_user_ends:
  assumes "keys_distinct as_session_id (au_sessions db)" and s: "get_row as_session_id (au_sessions db) sid = Some s"
    and "uu_password q \<noteq> None \<or> uu_enabled q = Some False"
    and "update_user_route env now salt (as_user_id s) q db = (db', Answer u)"
  shows "session_ended sid db'"
proof -
  have "x = s" if "x \<in> set (au_sessions db)" "as_session_id x = sid" for x
    using that s assms(1) by (metis get_row_distinct option.inject)
  moreover have "au_sessions db' =
      update_where (\<lambda>x. as_user_id x = as_user_id s \<and> as_revoked_at x = None) (revoke now) (au_sessions db)"
    using assms(3,4) by (auto simp: update_user_route_def update_user_def Let_def split: option.splits sum.splits if_splits)
  ultimately show ?thesis
    unfolding session_ended_def list_all_iff
    by (metis (mono_tags, lifting) in_update_whereE option.distinct(1) revoked_put)
qed

lemma ends_session_ended:
  assumes d: "keys_distinct as_session_id (au_sessions db)"
  shows "ends_session env sid db db' \<Longrightarrow> session_ended sid db'"
proof (induction rule: ends_session.induct)
  case (logged_out cookie s now)
  then have m: "s \<in> set (au_sessions db)" by (auto dest: get_row_SomeD)
  show ?case
  proof (cases "as_revoked_at s")
    case None
    with logged_out put_revoked_ends [of s now db] show ?thesis
      by (auto simp: logout_auth_def revoke_admin_session_def)
  next
    case (Some t)
    have "x = s" if "x \<in> set (au_sessions db)" "as_session_id x = sid" for x
      using that m logged_out.hyps(2) d keys_distinct_eq by metis
    with Some logged_out show ?thesis
      by (auto simp: logout_auth_def revoke_admin_session_def session_ended_def list_all_iff)
  qed
qed (use update_user_ends [OF d] in blast)+

lemma code_bounds: "0 \<le> (of_char c :: int)" "(of_char c :: int) < 256"
  using of_char_mod_256 [of c, where 'a = int] pos_mod_sign [of 256 "of_char c"] pos_mod_bound [of 256 "of_char c"] by simp_all

lemma claim_text_json [simp]: "claim_text (text_json t) = Some t"
  by (simp add: claim_text_def text_json_def asc_def list_all_iff code_bounds o_def)

lemma is_text_json [simp]: "is_text (text_json t)"
  by (simp add: text_json_def)

lemma ended_session_no_user:
  assumes "session_ended sid db"
  shows "get_user_for_admin_session now user_id sid db = None"
proof (cases "get_row as_session_id (au_sessions db) sid")
  case (Some s)
  with assms have "as_revoked_at s \<noteq> None" by (auto simp: session_ended_def list_all_iff dest: get_row_SomeD)
  with Some show ?thesis by (simp add: get_user_for_admin_session_def)
qed (simp add: get_user_for_admin_session_def)

text \<open>C7. 
  Once a session was logged out, or the password of its user was changed, or the user was disabled,
  no request with a token of that session is admitted again, whatever requests come in between,
  also while the token itself has not expired.
\<close>

theorem ended_session_not_admitted:
  assumes "keys_distinct as_session_id (au_sessions db)" and "ends_session env sid db db1"
    and "(auth_step env jwt sid)\<^sup>*\<^sup>* db1 db2"
    and "needs_login r" and "bearer_token r = Some token" and "token \<noteq> []"
    and p: "verify_access_token jwt (now div 1000000) token = Some p"
    and "jget ''token_type'' p = text_json ''admin_access''" and "jget ''sid'' p = text_json sid"
  shows "admit_request jwt now r db2 = Unauthorized ''SESSION_EXPIRED''"
proof -
  have "session_ended sid db2"
    using ended.steps_inv [OF assms(3)] ends_session_ended [OF assms(1,2)] by blast
  then have "token_user now p db2 = (None, ''SESSION_EXPIRED'')"
    using assms(8,9) by (simp add: token_user_def ended_session_no_user split: option.split)
  with assms(4-7) show ?thesis by (simp add: admit_request_def)
qed

lemma jget_claims:
  assumes "sid \<noteq> []"
  shows "jget ''sub'' (access_claims env n jti uid name role (Some sid)) = text_json uid"
    "jget ''token_type'' (access_claims env n jti uid name role (Some sid)) = text_json ''admin_access''"
    "jget ''sid'' (access_claims env n jti uid name role (Some sid)) = text_json sid"
  using assms by (simp_all add: access_claims_def jget_def asc_def of_char_def)

text \<open>Tables, a token service and requests for examples.\<close>

definition example_auth :: auth_env where
  "example_auth = \<lparr>ae_password = plain_passwords, ae_hash_token = id, ae_session_days = 1, ae_token_minutes = 1\<rparr>"

definition example_user :: user_row where
  "example_user = \<lparr>us_user_id = ''u1'', us_username = ''ann'', us_password_hash = ''x'', us_role = ''admin'', us_enabled = True,
     us_privacy_mask_enabled = False, us_created_at = 0, us_updated_at = 0, us_last_login_at = None, us_last_login_ip = None,
     us_last_login_source = None\<rparr>"

definition example_session :: admin_session where
  "example_session = \<lparr>as_session_id = ''s1'', as_user_id = ''u1'', as_refresh_token_hash = ''cookie'', as_created_at = 0,
     as_updated_at = 0, as_last_used_at = 0, as_expires_at = 99, as_revoked_at = None, as_client_ip = None, as_login_source = None\<rparr>"

definition example_auth_db :: auth_db where
  "example_auth_db = \<lparr>au_users = [example_user], au_sessions = [example_session], au_phrases = []\<rparr>"

definition example_claims :: json where
  "example_claims = access_claims example_auth 0 ''j'' ''u1'' ''ann'' ''admin'' (Some ''s1'')"

definition example_jwt :: jwt_env where
  "example_jwt = \<lparr>jw_encode = (\<lambda>c. ''T''), jw_decode = (\<lambda>n t. if t = ''T'' then JwtPayload example_claims else JwtError)\<rparr>"

definition example_request :: request where
  "example_request = \<lparr>rq_method = ''GET'', rq_path = ''/api/users'', rq_authorization = ''Bearer T'', rq_client_host = Some ''9.9.9.9'',
     rq_cf_connecting_ip = Some ''1.1.1.1'', rq_true_client_ip = None, rq_x_real_ip = None, rq_x_forwarded_for = None\<rparr>"

definition example_fresh :: fresh where
  "example_fresh = \<lparr>fr_user_id = ''u2'', fr_salt = [7], fr_session_id = ''s1'', fr_refresh_token = ''cookie'', fr_jti = ''j''\<rparr>"

definition example_client :: client_access where
  "example_client = resolve_client_access Some [] example_request"

lemmas example_access = example_auth_def example_user_def example_session_def example_auth_db_def example_jwt_def example_request_def

lemma example_bearer: "needs_login example_request" "bearer_token example_request = Some ''T''"
  by code_simp+

lemma example_verified:
  "verify_access_token example_jwt n ''T'' = Some example_claims"
  "jget ''token_type'' example_claims = text_json ''admin_access''" "jget ''sid'' example_claims = text_json ''s1''"
  by (simp_all add: verify_access_token_def example_jwt_def example_claims_def jget_claims)

theorem ended_session_not_admitted_witness:
  "admit_request example_jwt 5 example_request example_auth_db = Admitted example_user
   \<and> admit_request example_jwt 6 example_request
       (fst (update_user_preferences 5 ''u1'' True (logout_auth example_auth 5 ''cookie'' example_auth_db)))
     = Unauthorized ''SESSION_EXPIRED''"
proof
  show "admit_request example_jwt 5 example_request example_auth_db = Admitted example_user" by code_simp
  have d: "keys_distinct as_session_id (au_sessions example_auth_db)" by (simp add: example_access keys_distinct_def)
  have e: "ends_session example_auth ''s1'' example_auth_db (logout_auth example_auth 5 ''cookie'' example_auth_db)"
    by (rule ends_session.logged_out [of _ _ _ example_session]) code_simp+
  show "admit_request example_jwt 6 example_request
       (fst (update_user_preferences 5 ''u1'' True (logout_auth example_auth 5 ''cookie'' example_auth_db)))
     = Unauthorized ''SESSION_EXPIRED''"
    by (rule ended_session_not_admitted [OF d e _ example_bearer _ example_verified])
      (rule r_into_rtranclp, rule auth_step.preferences, simp)
qed

section \<open>Admission\<close>

lemma prefixed_append: "prefixed p t \<longleftrightarrow> (\<exists>u. t = p @ u)"
  by (metis prefixed_def append_take_drop_id append_eq_conv_conj)

lemma read_mark_not_admin_only:
  "prefixed ''/api/im/conversations/'' t \<Longrightarrow> \<not> list_ex (\<lambda>p. prefixed p t) ADMIN_ONLY_PREFIXES"
  by (auto simp: ADMIN_ONLY_PREFIXES_def prefixed_append)

lemma permission_cases:
  assumes "has_permission u r"
  shows "us_role u = ''admin''
    \<or> us_role u = ''operator'' \<and> \<not> list_ex (\<lambda>p. prefixed p (rq_path r)) ADMIN_ONLY_PREFIXES
    \<or> \<not> list_ex (\<lambda>p. prefixed p (rq_path r)) ADMIN_ONLY_PREFIXES
      \<and> (rq_method r \<in> {''GET'', ''HEAD'', ''OPTIONS''} \<or> suffixed ''/read'' (rq_path r))"
  using assms read_mark_not_admin_only [of "rq_path r"] by (auto simp: has_permission_def split: if_splits)

lemma admitted_token:
  assumes "needs_login r" and "admit_request jwt now r db = Admitted u"
  obtains token p where "bearer_token r = Some token" and "verify_access_token jwt (now div 1000000) token = Some p"
    and "fst (token_user now p db) = Some u" and "us_enabled u" and "has_permission u r"
  using assms by (auto simp: admit_request_def Let_def split: option.splits if_splits prod.splits)

text \<open>The rows behind a token: its user, and for a token of a session also the session.\<close>

definition token_grounded :: "timestamp \<Rightarrow> json \<Rightarrow> user_row \<Rightarrow> auth_db \<Rightarrow> bool" where
  "token_grounded now p u db \<longleftrightarrow>
     u \<in> set (au_users db) \<and> claim_text (jget ''sub'' p) = Some (us_user_id u) \<and>
     (jget ''token_type'' p = text_json ''internal_service'' \<or>
      jget ''token_type'' p = text_json ''admin_access'' \<and>
      list_ex (\<lambda>s. claim_text (jget ''sid'' p) = Some (as_session_id s) \<and> as_user_id s = us_user_id u
        \<and> as_revoked_at s = None \<and> now < as_expires_at s) (au_sessions db))"

lemma session_user:
  assumes "get_user_for_admin_session now user_id sid db = Some u"
  shows "u \<in> set (au_users db) \<and> us_user_id u = user_id \<and>
    list_ex (\<lambda>s. as_session_id s = sid \<and> as_user_id s = user_id \<and> as_revoked_at s = None \<and> now < as_expires_at s)
      (au_sessions db)"
  using assms
  by (fastforce simp: get_user_for_admin_session_def list_ex_iff split: option.splits if_splits dest: get_row_SomeD)

lemma token_user_grounded:
  assumes "fst (token_user now p db) = Some u"
  shows "token_grounded now p u db"
proof -
  from assms consider
    (session) user_id sid where "jget ''token_type'' p = text_json ''admin_access''"
      "claim_text (jget ''sub'' p) = Some user_id" "claim_text (jget ''sid'' p) = Some sid"
      "get_user_for_admin_session now user_id sid db = Some u"
  | (service) user_id where "jget ''token_type'' p = text_json ''internal_service''"
      "claim_text (jget ''sub'' p) = Some user_id" "get_row us_user_id (au_users db) user_id = Some u"
    by (auto simp: token_user_def bind_eq_Some_conv split: if_splits option.splits)
  then show ?thesis
  proof cases
    case session
    with session_user [OF session(4)] show ?thesis by (auto simp: token_grounded_def list_ex_iff)
  next
    case service
    then show ?thesis by (auto simp: token_grounded_def dest: get_row_SomeD)
  qed
qed



text \<open>
  The headers that name a client's address count only when the connection comes from a
  trusted proxy: otherwise what is recorded does not depend on them.
\<close>

theorem untrusted_headers_ignored:
  assumes "rq_client_host r = rq_client_host r'"
    and "first_header_ip parse_ip (rq_client_host r) \<notin> Some ` set trusted"
  shows "resolve_client_access parse_ip trusted r = resolve_client_access parse_ip trusted r'"
proof -
  have "(case first_header_ip parse_ip (rq_client_host r) of None \<Rightarrow> False | Some a \<Rightarrow> a \<in> set trusted) = False"
    using assms(2) by (auto split: option.split)
  then show ?thesis by (simp add: resolve_client_access_def Let_def flip: assms(1))
qed

theorem untrusted_headers_ignored_witness:
  "resolve_client_access Some [''10.0.0.1''] example_request =
     resolve_client_access Some [''10.0.0.1''] (example_request\<lparr>rq_cf_connecting_ip := Some ''2.2.2.2''\<rparr>)
   \<and> resolve_client_access Some [''9.9.9.9''] example_request \<noteq>
     resolve_client_access Some [''9.9.9.9''] (example_request\<lparr>rq_cf_connecting_ip := Some ''2.2.2.2''\<rparr>)"
proof
  have "first_header_ip Some (rq_client_host example_request) = Some ''9.9.9.9''" by code_simp
  then show "resolve_client_access Some [''10.0.0.1''] example_request =
      resolve_client_access Some [''10.0.0.1''] (example_request\<lparr>rq_cf_connecting_ip := Some ''2.2.2.2''\<rparr>)"
    by (intro untrusted_headers_ignored) simp_all
  show "resolve_client_access Some [''9.9.9.9''] example_request \<noteq>
      resolve_client_access Some [''9.9.9.9''] (example_request\<lparr>rq_cf_connecting_ip := Some ''2.2.2.2''\<rparr>)"
    by code_simp
qed

section \<open>Logging in\<close>

lemma get_row_filter_None: "get_row key t k = None \<Longrightarrow> get_row key (filter P t) k = None"
  by (auto simp: get_row_None_iff)

lemma open_session_answer:
  assumes "open_session env jwt now f client user db = (db', Answer a)"
  shows "la_user a = user \<and> la_access_token a = jw_encode jwt (access_claims env (now div 1000000) (fr_jti f)
      (us_user_id user) (us_username user) (us_role user) (Some (fr_session_id f)))
    \<and> au_users db' = au_users db
    \<and> (get_row as_session_id (au_sessions db) (fr_session_id f) = None \<longrightarrow>
        (\<exists>s. get_row as_session_id (au_sessions db') (fr_session_id f) = Some s \<and> as_user_id s = us_user_id user
          \<and> as_revoked_at s = None \<and> as_expires_at s = now + days (ae_session_days env)))"
  using assms
  by (auto simp: open_session_def create_admin_session_def create_access_token_def Let_def get_row_append get_row_filter_None
      split: option.splits if_splits prod.splits)

lemma login_answer_of:
  assumes "login env jwt now f client name pw db = (db', Answer a)"
  obtains user db1 where "authenticate_user env now name pw (cl_ip client) (Some (cl_source client)) db = Inr (db1, Some user)"
    and "open_session env jwt now f client user db1 = (db', Answer a)"
  using assms by (auto simp: login_def split: sum.splits prod.splits option.splits)

lemma authenticated:
  assumes "authenticate_user env now name pw ip src db = Inr (db1, Some user)"
  shows "us_enabled user \<and> get_row us_user_id (au_users db1) (us_user_id user) = Some user \<and> au_sessions db1 = au_sessions db"
  using assms
  by (auto simp: authenticate_user_def Let_def logged_in_def get_put_row split: option.splits if_splits sum.splits)



section \<open>Tickets\<close>

text \<open>Requests around one ticket: it is presented, or another one is issued.\<close>

datatype ticket_request = Present timestamp auth_db | Issue timestamp timestamp string string

fun on_ticket :: "string \<Rightarrow> ticket_request \<Rightarrow> tickets \<Rightarrow> tickets \<times> bool" where
  "on_ticket ticket (Present now db) ts = (let (ts', user) = redeem_ticket now ticket db ts in (ts', user \<noteq> None))"
| "on_ticket ticket (Issue started now other user_id) ts =
     (if other = ticket then ts else create_realtime_ticket started now other user_id ts, False)"

lemma issue_keeps_unknown:
  "other \<noteq> ticket \<Longrightarrow> map_of ts ticket = None \<Longrightarrow> map_of (create_realtime_ticket started now other user_id ts) ticket = None"
  by (auto simp: create_realtime_ticket_def update_conv' map_of_eq_None_iff)

interpretation tickets: one_shot "on_ticket ticket" "\<lambda>ts. map_of ts ticket \<noteq> None" "\<lambda>_. True" for ticket
proof
  fix a s t
  show "map_of s ticket \<noteq> None" if "on_ticket ticket a s = (t, True)"
    using that by (cases a) (auto simp: redeem_ticket_def split: option.splits)
  show "\<not> map_of t ticket \<noteq> None" if "on_ticket ticket a s = (t, True)"
    using that by (cases a) (auto simp: redeem_ticket_def delete_conv')
  show "\<not> map_of t ticket \<noteq> None" if u: "\<not> map_of s ticket \<noteq> None" and r: "on_ticket ticket a s = (t, False)"
  proof -
    from u have n: "map_of s ticket = None" by blast
    from r have "t = AList.delete ticket s \<or> t = s
        \<or> (\<exists>started now other user_id. other \<noteq> ticket \<and> t = create_realtime_ticket started now other user_id s)"
      by (cases a) (auto simp: redeem_ticket_def split: if_splits)
    then have "map_of t ticket = None" using n issue_keeps_unknown by (metis delete_conv' fun_upd_same)
    then show ?thesis by blast
  qed
qed simp

text \<open>A ticket opens at most one event stream, however many connections present it and whenever.\<close>

theorem ticket_opens_one_stream:
  "winners (snd (claim_all (on_ticket ticket) requests ts)) \<le> 1"
  using tickets.at_most_one_wins [where s = ts and ticket = ticket and as = requests] by (metis prod.collapse)

section \<open>What is not prevented\<close>

lemma nobody_admitted:
  assumes "list_all (\<lambda>u. \<not> us_enabled u) (au_users db)" and "needs_login r"
  shows "\<exists>code. admit_request jwt now r db = Unauthorized code"
proof -
  have "\<not> us_enabled u" if "token_user now p db = (Some u, code)" for p u code
    using assms(1) token_user_grounded [of now p db u] that by (auto simp: token_grounded_def list_all_iff)
  with assms(2) show ?thesis
    by (auto simp: admit_request_def Let_def split: option.splits prod.splits)
qed

lemma last_user_disabled:
  assumes "au_users db = [u]" and "uu_enabled q = Some False"
    and "update_user_route env now salt (us_user_id u) q db = (db1, Answer u1)"
  shows "au_users db1 = [u1] \<and> \<not> us_enabled u1"
  using assms
  by (auto simp: update_user_route_def update_user_def Let_def put_row_def set_row_def split: option.splits)

text \<open>C37. 
  Nothing protects the only user: when it disables itself, every protected request is refused, no
  one can log in or refresh, and the setup route answers that the system is initialised. Every
  route that could change this needs a login.
\<close>

theorem only_admin_can_lock_everyone_out:
  assumes "au_users db = [u]" and "uu_enabled q = Some False"
    and "update_user_route env now salt (us_user_id u) q db = (db1, Answer u1)"
  shows "(needs_login r \<longrightarrow> (\<exists>code. admit_request jwt later r db1 = Unauthorized code))
    \<and> login env jwt later f client name pw db1 = (db1, Status 401)
    \<and> snd (refresh_auth env jwt later f cookie db1) = Status 401
    \<and> bootstrap_auth env jwt later f client name pw db1 = (db1, Status 409)"
proof (intro conjI)
  note d = last_user_disabled [OF assms]
  then show "needs_login r \<longrightarrow> (\<exists>code. admit_request jwt later r db1 = Unauthorized code)"
    using nobody_admitted [of db1 r jwt later] by simp
  show "login env jwt later f client name pw db1 = (db1, Status 401)"
    using d by (auto simp: login_def authenticate_user_def)
  show "snd (refresh_auth env jwt later f cookie db1) = Status 401"
    using d by (auto simp: refresh_auth_def refresh_admin_session_def split: option.split)
  show "bootstrap_auth env jwt later f client name pw db1 = (db1, Status 409)"
    using d by (simp add: bootstrap_auth_def count_users_def)
qed

theorem only_admin_can_lock_everyone_out_witness:
  "\<exists>db1. fst (update_user_route example_auth 5 [] ''u1'' \<lparr>uu_password = None, uu_role = None, uu_enabled = Some False\<rparr> example_auth_db) = db1
    \<and> login example_auth example_jwt 6 example_fresh example_client ''ann'' ''open sesame'' db1 = (db1, Status 401)
    \<and> bootstrap_auth example_auth example_jwt 6 example_fresh example_client ''ann'' ''open sesame'' db1 = (db1, Status 409)"
proof -
  define q where "q = \<lparr>uu_password = None, uu_role = None, uu_enabled = Some False\<rparr>"
  obtain db1 u1 where u: "update_user_route example_auth 5 [] (us_user_id example_user) q example_auth_db = (db1, Answer u1)"
    by (simp add: q_def update_user_route_def update_user_def example_access Let_def)
  have "au_users example_auth_db = [example_user]" "uu_enabled q = Some False" by (simp_all add: example_auth_db_def q_def)
  from only_admin_can_lock_everyone_out [OF this u] u show ?thesis by (auto simp: q_def example_user_def)
qed

end
