(* ===== verification/OrderLists.thy ===== *)
theory OrderLists
  imports Orders
begin

text \<open>
  The lists of sold and bought orders (\<open>order_operations.py\<close>, \<open>buyer_order_operations.py\<close>): the parsing of
  an order, the retries of a request, the check of an answer (\<open>product_publisher.py\<close>) and the
  pagination. The exchange with the platform is an argument: what each attempt at each page
  returns. \<open>strptime\<close> with the time zone and \<open>int\<close> of a float are arguments too.
\<close>

section \<open>Values\<close>

record list_env =
  le_time :: "ustr \<Rightarrow> timestamp option"
  le_float :: "ustr \<Rightarrow> int option"

definition text_of :: "json \<Rightarrow> ustr" where
  "text_of v = ustrip (str_of v)"

definition as_bool :: "json \<Rightarrow> bool" where
  "as_bool v \<longleftrightarrow> v = JBool True \<or> ulower (text_of v) = asc ''true''"

text \<open>\<open>int(text)\<close> of a Unicode text: only Latin digits count.\<close>

definition text_int :: "ustr \<Rightarrow> int option" where
  "text_int t = (let s = ustrip t in if list_all (\<lambda>c. 0 \<le> c \<and> c < 256) s then py_int (map (\<lambda>c. char_of (nat c)) s) else None)"

definition as_int :: "list_env \<Rightarrow> json \<Rightarrow> int \<Rightarrow> int" where
  "as_int env v d = (case v of
     JInt i \<Rightarrow> i
   | JBool b \<Rightarrow> (if b then 1 else 0)
   | JStr t \<Rightarrow> (case text_int t of None \<Rightarrow> d | Some i \<Rightarrow> i)
   | JFloat t \<Rightarrow> (case le_float env t of None \<Rightarrow> d | Some i \<Rightarrow> i)
   | _ \<Rightarrow> d)"

definition platform_time :: "list_env \<Rightarrow> json \<Rightarrow> timestamp option" where
  "platform_time env v = (let t = text_of v in if t = [] then None else le_time env t)"

definition secure_url :: "ustr \<Rightarrow> ustr" where
  "secure_url t = (if starts_with (asc ''//'') t then asc ''https:'' @ t else t)"

section \<open>Sold orders\<close>

record seller_order =
  so_order_id :: ustr
  so_item_id :: ustr
  so_title :: ustr
  so_image_url :: ustr
  so_buyer_id :: ustr
  so_buyer_name :: ustr
  so_receiver_name :: ustr
  so_receiver_phone :: ustr
  so_receiver_address :: ustr
  so_price :: ustr
  so_quantity :: int
  so_status :: string
  so_status_text :: ustr
  so_platform_status :: ustr
  so_platform_created_at :: "timestamp option"
  so_platform_paid_at :: "timestamp option"
  so_platform_completed_at :: "timestamp option"
  so_is_bargain :: bool
  so_seller_rate_status :: ustr
  so_refund_status :: ustr
  so_raw_summary :: json

definition STATUS_MAP :: "(ustr \<times> string) list" where
  "STATUS_MAP = [
     ([24453, 20184, 27454], ''pending_payment''),
     ([24453, 21457, 36135], ''paid_waiting_delivery''),
     ([24050, 21457, 36135], ''shipped''),
     ([20132, 26131, 25104, 21151], ''completed''),
     ([20132, 26131, 20851, 38381], ''closed''),
     ([36864, 27454, 20013], ''refunding''),
     ([36864, 27454, 25104, 21151], ''refunded''),
     ([24050, 36864, 27454], ''refunded''),
     ([36864, 27454, 20851, 38381], ''closed'')]"

definition unknown_status_text :: ustr where
  "unknown_status_text = [35746, 21333, 29366, 24577, 24453, 30830, 35748]"

text \<open>A refund is kept apart from the status of the order.\<close>

definition split_refund :: "string \<Rightarrow> ustr \<Rightarrow> string \<times> ustr" where
  "split_refund status refund =
     (if status = ''refunding'' then (''unknown'', asc ''pending'')
      else if status = ''refunded'' then (''closed'', asc ''refunded'')
      else (status, refund))"

definition parse_sold_order :: "list_env \<Rightarrow> json \<Rightarrow> seller_order option" where
  "parse_sold_order env raw =
     (let common = obj_or_empty (jget ''commonData'' raw); buyer = obj_or_empty (jget ''buyerInfoVO'' raw);
          price = obj_or_empty (jget ''priceVO'' raw); item = obj_or_empty (jor (jget ''itemInfoVO'' raw) (jget ''itemInfo'' raw));
          right = obj_or_empty (jget ''rightVO'' raw);
          order_id = text_of (jor (jget ''orderId'' common) (jget ''bizOrderId'' common)) in
      if order_id = [] then None
      else let platform_status = text_of (jget ''orderStatus'' common); in_refund = as_bool (jget ''inRefund'' common);
          sr = split_refund (case map_of STATUS_MAP platform_status of None \<Rightarrow> ''unknown'' | Some s \<Rightarrow> s)
            (if in_refund then asc ''pending'' else []);
          bargain = list_ex (\<lambda>b. is_obj b \<and> jget ''tradeAction'' b = JStr (asc ''SKIP_PIN'')) (list_or_empty (jget ''btnList'' right));
          rate = text_of (jget ''sellerRateStatus'' common) in
        Some \<lparr>so_order_id = order_id, so_item_id = text_of (jget ''itemId'' common),
          so_title = text_of (jor (jor (jor (jget ''title'' item) (jget ''itemTitle'' item)) (jget ''itemTitle'' common)) (jget ''itemTitle'' raw)),
          so_image_url = secure_url (text_of (jor (jor (jor (jget ''picUrl'' item) (jget ''imageUrl'' item)) (jget ''picUrl'' common))
            (jget ''picUrl'' raw))),
          so_buyer_id = text_of (jor (jget ''buyerId'' buyer) (jget ''userId'' buyer)),
          so_buyer_name = text_of (jor (jget ''userNick'' buyer) (jget ''nick'' buyer)),
          so_receiver_name = text_of (jget ''name'' buyer), so_receiver_phone = text_of (jget ''phone'' buyer),
          so_receiver_address = text_of (jget ''address'' buyer),
          so_price = text_of (jor (jor (jget ''totalPrice'' price) (jget ''confirmFee'' price)) (jget ''auctionPrice'' price)),
          so_quantity = max 1 (as_int env (jget ''buyNum'' price) 1), so_status = fst sr,
          so_status_text = (if platform_status = [] then unknown_status_text else platform_status),
          so_platform_status = platform_status, so_platform_created_at = platform_time env (jget ''createTime'' common),
          so_platform_paid_at = platform_time env (jget ''paySuccessTime'' common),
          so_platform_completed_at = platform_time env (jget ''finishTime'' common), so_is_bargain = bargain,
          so_seller_rate_status = rate, so_refund_status = snd sr,
          so_raw_summary = jobj [(''source'', JStr (asc ''seller_sold'')), (''orderStatus'', JStr platform_status),
            (''inRefund'', JBool in_refund), (''sellerRateStatus'', JStr rate), (''isBargain'', JBool bargain)]\<rparr>)"

section \<open>Bought orders\<close>

record buyer_order =
  bo_order_id :: ustr
  bo_item_id :: ustr
  bo_title :: ustr
  bo_image_url :: ustr
  bo_seller_id :: ustr
  bo_seller_name :: ustr
  bo_price :: ustr
  bo_quantity :: int
  bo_status :: string
  bo_status_text :: ustr
  bo_platform_status :: ustr
  bo_platform_created_at :: "timestamp option"
  bo_platform_paid_at :: "timestamp option"
  bo_platform_completed_at :: "timestamp option"
  bo_refund_status :: ustr
  bo_raw_summary :: json

definition BUYER_STATUS_MAP :: "(ustr \<times> string) list" where
  "BUYER_STATUS_MAP = [
     (asc ''wait_buyer_pay'', ''pending_payment''),
     (asc ''not_pay'', ''pending_payment''),
     (asc ''pending_payment'', ''pending_payment''),
     (asc ''wait_seller_send_goods'', ''waiting_seller_delivery''),
     (asc ''wait_seller_send'', ''waiting_seller_delivery''),
     (asc ''not_ship'', ''waiting_seller_delivery''),
     (asc ''wait_buyer_confirm_goods'', ''shipped''),
     (asc ''wait_buyer_confirm'', ''shipped''),
     (asc ''shipped'', ''shipped''),
     (asc ''trade_success'', ''completed''),
     (asc ''success'', ''completed''),
     (asc ''refund'', ''refunding''),
     (asc ''refund_in_progress'', ''refunding''),
     (asc ''refunding'', ''refunding''),
     (asc ''refund_success'', ''refunded''),
     (asc ''refunded'', ''refunded''),
     (asc ''close_by_buyer'', ''closed''),
     (asc ''close_by_seller'', ''closed''),
     (asc ''close_by_out'', ''closed''),
     (asc ''trade_closed'', ''closed''),
     (asc ''closed'', ''closed'')]"

definition status_texts :: "(ustr list \<times> string) list" where
  "status_texts = [
     ([[24453, 20184, 27454], [31561, 24453, 20184, 27454]], ''pending_payment''),
     ([[24453, 21457, 36135], [31561, 24453, 21334, 23478, 21457, 36135]], ''waiting_seller_delivery''),
     ([[24453, 25910, 36135], [30830, 35748, 25910, 36135]], ''shipped''),
     ([[20132, 26131, 25104, 21151], [24050, 23436, 25104]], ''completed''),
     ([[36864, 27454, 25104, 21151], [24050, 36864, 27454]], ''refunded''),
     ([[36864, 27454]], ''refunding''),
     ([[20851, 38381], [21462, 28040]], ''closed'')]"

definition status_from_text :: "ustr \<Rightarrow> string" where
  "status_from_text t = (case find (\<lambda>(ms, _). list_ex (\<lambda>m. contains m t) ms) status_texts of
     None \<Rightarrow> ''unknown'' | Some (_, s) \<Rightarrow> s)"

definition parse_bought_order :: "list_env \<Rightarrow> json \<Rightarrow> buyer_order option" where
  "parse_bought_order env raw =
     (let common = obj_or_empty (jget ''commonData'' raw);
          head = obj_or_empty (jget ''data'' (obj_or_empty (jget ''head'' raw)));
          content = obj_or_empty (jget ''data'' (obj_or_empty (jget ''content'' raw)));
          detail = obj_or_empty (jget ''detailInfo'' content); price = obj_or_empty (jget ''priceInfo'' content);
          seller = obj_or_empty (jget ''userInfo'' head);
          order_id = text_of (jor (jget ''orderId'' common) (jget ''orderIdStr'' common)) in
      if order_id = [] then None
      else let platform_status = ulower (text_of (jget ''tradeStatusEnum'' common)); status_text = text_of (jget ''statusViewMsg'' head);
          sr = split_refund (case map_of BUYER_STATUS_MAP platform_status of None \<Rightarrow> status_from_text status_text | Some s \<Rightarrow> s) [] in
        Some \<lparr>bo_order_id = order_id, bo_item_id = text_of (jget ''itemId'' common), bo_title = text_of (jget ''auctionTitle'' detail),
          bo_image_url = secure_url (text_of (jget ''auctionPic'' detail)),
          bo_seller_id = text_of (jor (jget ''peerUserId'' common) (jget ''userId'' seller)),
          bo_seller_name = text_of (jor (jor (jget ''userAliasNick'' seller) (jget ''userNick'' seller)) (jget ''nick'' seller)),
          bo_price = text_of (jor (jget ''price'' price) (jget ''auctionPriceDesc'' price)),
          bo_quantity = max 1 (as_int env (jget ''buyAmount'' price) 1), bo_status = fst sr,
          bo_status_text = (if status_text \<noteq> [] then status_text else if platform_status \<noteq> [] then platform_status else unknown_status_text),
          bo_platform_status = platform_status, bo_platform_created_at = platform_time env (jget ''createTime'' head),
          bo_platform_paid_at = None, bo_platform_completed_at = None, bo_refund_status = snd sr,
          bo_raw_summary = jobj [(''source'', JStr (asc ''buyer_bought'')), (''tradeStatusEnum'', JStr platform_status),
            (''orderDetailUrl'', JStr (text_of (jget ''orderDetailUrl'' common)))]\<rparr>)"

section \<open>Answers of the platform\<close>

text \<open>
  \<open>ProductPublishError\<close> by its kind and the message of the platform in it; the fixed parts of the
  texts contain none of the markers that are searched. \<open>Crashed\<close> is an \<open>AttributeError\<close>.
\<close>

datatype sync_error = SyncError string bool | Crashed

datatype post_reply = Posted json | RequestFailed bool | PublishFailed string

definition TOKEN_ERROR_MARKERS :: "ustr list" where
  "TOKEN_ERROR_MARKERS = [asc ''FAIL_SYS_TOKEN_EXOIRED'', asc ''FAIL_SYS_TOKEN_EXPIRED'', asc ''FAIL_SYS_ILLEGAL_ACCESS'',
     asc ''FAIL_SYS_SESSION_EXPIRED'']"

definition RISK_MARKERS :: "ustr list" where
  "RISK_MARKERS = [asc ''RGV587'', asc ''RISK'', asc ''CAPTCHA'', asc ''VALIDATE'']"

definition CATEGORY_ERROR :: ustr where
  "CATEGORY_ERROR = asc ''FAIL_BIZ_CHANNEL_CAT_ID_PATH_QUERY_ERROR''"

definition is_success :: "json \<Rightarrow> bool" where
  "is_success r \<longleftrightarrow> list_ex (\<lambda>v. starts_with (asc ''SUCCESS::'') (py_str v)) (list_or_empty (jget ''ret'' r))"

definition error_message :: "json \<Rightarrow> ustr option" where
  "error_message r = (case list_or_empty (jget ''ret'' r) of
     v # _ \<Rightarrow> Some (py_str v)
   | [] \<Rightarrow> if \<not> is_obj r then None
     else Some (case find jtruthy [jget ''message'' r, jget ''errorMsg'' r, jget ''msg'' r] of
       Some v \<Rightarrow> py_str v | None \<Rightarrow> [24179, 21488, 36820, 22238, 26410, 30693, 38169, 35823]))"

definition contains_marker :: "json \<Rightarrow> ustr list \<Rightarrow> bool" where
  "contains_marker r markers = list_ex (\<lambda>m. contains m (uupper (dumps r))) markers"

definition ensure_success :: "json \<Rightarrow> (string \<times> ustr) option option" where
  "ensure_success r =
     (if is_success r then None
      else case error_message r of
        None \<Rightarrow> Some None
      | Some message \<Rightarrow>
          Some (Some (if contains CATEGORY_ERROR message then ''category''
            else if contains_marker r RISK_MARKERS then ''risk_control''
            else if contains_marker r TOKEN_ERROR_MARKERS then ''auth'' else ''platform_rejected'',
            if contains CATEGORY_ERROR message then [] else message)))"

text \<open>The error that the list of sold orders reports: lack of permission is told apart.\<close>

definition permission_denied :: "ustr \<Rightarrow> bool" where
  "permission_denied message \<longleftrightarrow> contains [26435, 38480] message \<or> contains (asc ''PERMISSION_EXCEPTION'') message"

definition sold_error :: "(string \<times> ustr) option \<Rightarrow> sync_error" where
  "sold_error e = (case e of None \<Rightarrow> Crashed
     | Some (kind, message) \<Rightarrow> SyncError (if permission_denied message then ''permission'' else kind) False)"

definition bought_error :: "(string \<times> ustr) option \<Rightarrow> sync_error" where
  "bought_error e = (case e of None \<Rightarrow> Crashed | Some (kind, _) \<Rightarrow> SyncError kind False)"

definition REQUEST_ATTEMPTS :: nat where
  "REQUEST_ATTEMPTS = 3"

text \<open>The attempts at one page; a failure of the request is tried again when it is transient.\<close>

function request_page :: "(nat \<Rightarrow> post_reply) \<Rightarrow> nat \<Rightarrow> sync_error + json" where
  "request_page post attempt = (case post attempt of
     Posted r \<Rightarrow> Inr r
   | PublishFailed kind \<Rightarrow> Inl (SyncError kind False)
   | RequestFailed retryable \<Rightarrow>
       if \<not> retryable \<or> attempt \<ge> REQUEST_ATTEMPTS then Inl (SyncError ''network'' retryable)
       else request_page post (attempt + 1))"
  by auto
termination by (relation "measure (\<lambda>(_, attempt). REQUEST_ATTEMPTS - attempt)") auto

declare request_page.simps [simp del]

section \<open>Pagination\<close>

record 'a list_result =
  lr_items :: "'a list"
  lr_pages :: nat
  lr_total_count :: int
  lr_complete :: bool

text \<open>Orders that are not in the list yet are appended.\<close>

definition add_new :: "('a \<Rightarrow> ustr) \<Rightarrow> 'a list \<Rightarrow> 'a list \<Rightarrow> 'a list" where
  "add_new key = foldl (\<lambda>os x. if key x \<in> key ` set os then os else os @ [x])"

definition parsed :: "(json \<Rightarrow> 'a option) \<Rightarrow> json list \<Rightarrow> 'a list" where
  "parsed parse raws = List.map_filter (\<lambda>r. if is_obj r then parse r else None) raws"

text \<open>
  \<open>list_sold_orders\<close> from a page on, with a bound on the number of pages that are requested;
  nothing when the bound is reached.
\<close>

fun sold_pages ::
  "nat \<Rightarrow> list_env \<Rightarrow> (nat \<Rightarrow> nat \<Rightarrow> post_reply) \<Rightarrow> nat option \<Rightarrow> nat \<Rightarrow> seller_order list \<Rightarrow> int
   \<Rightarrow> (sync_error + seller_order list_result) option" where
  "sold_pages 0 env post max_pages page orders count = None"
| "sold_pages (Suc fuel) env post max_pages page orders count =
     (case request_page (post page) 1 of
        Inl e \<Rightarrow> Some (Inl e)
      | Inr r \<Rightarrow>
          (case ensure_success r of
             Some e \<Rightarrow> Some (Inl (sold_error e))
           | None \<Rightarrow>
               let module = obj_or_empty (jget ''module'' (jget ''data'' r)); raws = list_or_empty (jget ''items'' module);
                   count' = as_int env (jget ''totalCount'' module) count;
                   orders' = add_new so_order_id orders (parsed (parse_sold_order env) raws);
                   result = (\<lambda>c. Some (Inr \<lparr>lr_items = orders', lr_pages = page, lr_total_count = count', lr_complete = c\<rparr>)) in
               if \<not> as_bool (jget ''nextPage'' module) \<or> raws = [] then result True
               else if (case max_pages of None \<Rightarrow> False | Some m \<Rightarrow> m \<le> page) then result False
               else sold_pages fuel env post max_pages (page + 1) orders' count'))"

definition cursor_key :: "json \<Rightarrow> ustr" where
  "cursor_key v = (case v of
     JNull \<Rightarrow> []
   | JObj kvs \<Rightarrow> join (asc ''|'') (map (\<lambda>(k, w). k @ asc ''='' @ py_str w) (sort_key fst kvs))
   | _ \<Rightarrow> py_str v)"

text \<open>\<open>list_bought_orders\<close>: a repeated page or cursor ends the list.\<close>

fun bought_pages ::
  "nat \<Rightarrow> list_env \<Rightarrow> (nat \<Rightarrow> json \<Rightarrow> nat \<Rightarrow> post_reply) \<Rightarrow> nat option \<Rightarrow> nat \<Rightarrow> json \<Rightarrow> ustr list \<Rightarrow> ustr list option
   \<Rightarrow> buyer_order list \<Rightarrow> int \<Rightarrow> (sync_error + buyer_order list_result) option" where
  "bought_pages 0 env post max_pages page offset cursors previous orders count = None"
| "bought_pages (Suc fuel) env post max_pages page offset cursors previous orders count =
     (case request_page (post page offset) 1 of
        Inl e \<Rightarrow> Some (Inl e)
      | Inr r \<Rightarrow>
          (case ensure_success r of
             Some e \<Rightarrow> Some (Inl (bought_error e))
           | None \<Rightarrow>
               let data = obj_or_empty (jget ''data'' r); raws = list_or_empty (jget ''items'' data);
                   count' = as_int env (jget ''totalCount'' data) count;
                   found = parsed (parse_bought_order env) raws; signature = map bo_order_id found;
                   orders' = add_new bo_order_id orders found; next = jget ''lastEndRow'' data;
                   result = (\<lambda>c. Some (Inr \<lparr>lr_items = orders', lr_pages = page, lr_total_count = count', lr_complete = c\<rparr>)) in
               if previous = Some signature \<and> signature \<noteq> [] then result False
               else if \<not> as_bool (jget ''nextPage'' data) \<or> raws = [] then result True
               else if (case max_pages of None \<Rightarrow> False | Some m \<Rightarrow> m \<le> page) then result False
               else if cursor_key next = [] \<or> cursor_key next \<in> set cursors then result False
               else bought_pages fuel env post max_pages (page + 1) next (cursor_key next # cursors) (Some signature) orders' count'))"

text \<open>The whole lists; the arguments that are refused with \<open>ValueError\<close> never occur.\<close>

definition list_sold_orders ::
  "nat \<Rightarrow> list_env \<Rightarrow> (nat \<Rightarrow> nat \<Rightarrow> post_reply) \<Rightarrow> nat option \<Rightarrow> (sync_error + seller_order list_result) option" where
  "list_sold_orders fuel env post max_pages = sold_pages fuel env post max_pages 1 [] 0"

definition list_bought_orders ::
  "nat \<Rightarrow> list_env \<Rightarrow> (nat \<Rightarrow> json \<Rightarrow> nat \<Rightarrow> post_reply) \<Rightarrow> nat option \<Rightarrow> (sync_error + buyer_order list_result) option" where
  "list_bought_orders fuel env post max_pages = bought_pages fuel env post max_pages 1 JNull [] None [] 0"

section \<open>Termination\<close>

lemma request_page_posted: "request_page post k = Inr r \<Longrightarrow> \<exists>j. post j = Posted r"
proof (induction post k rule: request_page.induct)
  case (1 post attempt)
  show ?case
  proof (cases "post attempt")
    case (Posted r')
    with "1.prems" show ?thesis by (auto simp: request_page.simps)
  next
    case (RequestFailed retryable)
    with "1" show ?thesis by (auto simp: request_page.simps [of post attempt] split: if_splits)
  next
    case (PublishFailed kind)
    with "1.prems" show ?thesis by (simp add: request_page.simps)
  qed
qed

definition next_cursor :: "json \<Rightarrow> ustr" where
  "next_cursor r = cursor_key (jget ''lastEndRow'' (obj_or_empty (jget ''data'' r)))"

lemma bought_pages_end:
  assumes C: "finite C" and post: "\<And>page offset k r. post page offset k = Posted r \<Longrightarrow> next_cursor r \<in> insert [] C"
  shows "set cursors \<subseteq> C \<Longrightarrow> card (C - set cursors) < fuel \<Longrightarrow>
    \<exists>result. bought_pages fuel env post max_pages page offset cursors previous orders count = Some result"
proof (induction fuel arbitrary: page offset cursors previous orders count)
  case (Suc fuel)
  show ?case
  proof (cases "request_page (post page offset) 1")
    case (Inr r)
    then have c: "next_cursor r \<in> insert [] C" using post by (blast dest: request_page_posted)
    have more: "\<exists>result. bought_pages fuel env post max_pages (page + 1) v (next_cursor r # cursors) sig orders' count' = Some result"
      if "next_cursor r \<noteq> []" "next_cursor r \<notin> set cursors" for v sig orders' count'
    proof (rule Suc.IH)
      show "set (next_cursor r # cursors) \<subseteq> C" using Suc.prems(1) c that(1) by auto
      have "C - set (next_cursor r # cursors) \<subset> C - set cursors" using c that by auto
      then have "card (C - set (next_cursor r # cursors)) < card (C - set cursors)" using C by (intro psubset_card_mono) auto
      with Suc.prems(2) show "card (C - set (next_cursor r # cursors)) < fuel" by simp
    qed
    show ?thesis
      using Inr more by (auto simp: Let_def next_cursor_def split: option.split)
  qed simp
qed simp

text \<open>C21. 
  The list of bought orders always ends: when the platform uses finitely many cursors, at most
  one page more than there are cursors is requested, even when it keeps announcing another page.
\<close>

theorem bought_listing_ends:
  assumes "finite C" and "\<And>page offset k r. post page offset k = Posted r \<Longrightarrow> next_cursor r \<in> insert [] C"
  shows "\<exists>result. list_bought_orders (Suc (card C)) env post max_pages = Some result"
  unfolding list_bought_orders_def by (rule bought_pages_end [OF assms]) simp_all

definition example_lists :: list_env where
  "example_lists = \<lparr>le_time = (\<lambda>_. None), le_float = (\<lambda>_. None)\<rparr>"

text \<open>A platform that gives the same page and cursor for ever, and one page of sold orders.\<close>

definition same_bought_page :: json where
  "same_bought_page = jobj [(''ret'', JList [JStr (asc ''SUCCESS::ok'')]), (''data'', jobj [(''nextPage'', JBool True),
     (''lastEndRow'', JStr (asc ''c'')), (''items'', JList [jobj [(''commonData'', jobj [(''orderId'', JStr (asc ''7''))])]])])]"

definition same_sold_page :: "bool \<Rightarrow> json" where
  "same_sold_page again = jobj [(''ret'', JList [JStr (asc ''SUCCESS::ok'')]), (''data'', jobj [(''module'', jobj [(''nextPage'', JBool again),
     (''items'', JList [jobj [(''commonData'', jobj [(''orderId'', JStr (asc ''7'')), (''inRefund'', JBool True)])]])])])]"

theorem bought_listing_ends_witness:
  "\<exists>result. list_bought_orders 2 example_lists (\<lambda>_ _ _. Posted same_bought_page) None = Some result"
proof -
  have "next_cursor same_bought_page = asc ''c''" by code_simp
  then have "next_cursor r \<in> insert [] {asc ''c''}" if "(\<lambda>_ _ _. Posted same_bought_page) (page :: nat) (offset :: json) (k :: nat) = Posted r"
    for page offset k r using that by simp
  from bought_listing_ends [of "{asc ''c''}" "\<lambda>_ _ _. Posted same_bought_page", OF _ this] show ?thesis by (simp add: numeral_2_eq_2)
qed

text \<open>
  The list of sold orders has no such guard: when every page has orders and announces another
  one, for instance because the page number is ignored, an unlimited listing never returns.
\<close>

theorem sold_listing_may_not_end:
  assumes "\<And>page. \<exists>r. post page 1 = Posted r \<and> is_success r \<and>
      as_bool (jget ''nextPage'' (obj_or_empty (jget ''module'' (jget ''data'' r)))) \<and>
      list_or_empty (jget ''items'' (obj_or_empty (jget ''module'' (jget ''data'' r)))) \<noteq> []"
  shows "list_sold_orders fuel env post None = None"
proof -
  have "sold_pages fuel env post None page orders count = None" for page orders count
  proof (induction fuel arbitrary: page orders count)
    case (Suc fuel)
    obtain r where r: "post page 1 = Posted r" "is_success r"
      "as_bool (jget ''nextPage'' (obj_or_empty (jget ''module'' (jget ''data'' r))))"
      "list_or_empty (jget ''items'' (obj_or_empty (jget ''module'' (jget ''data'' r)))) \<noteq> []" using assms by blast
    then have "request_page (post page) 1 = Inr r" by (simp add: request_page.simps)
    with r Suc.IH show ?case by (simp add: ensure_success_def Let_def)
  qed simp
  then show ?thesis by (simp add: list_sold_orders_def)
qed

section \<open>What is listed\<close>

definition listed_statuses :: "string list" where
  "listed_statuses = [''pending_payment'', ''waiting_seller_delivery'', ''paid_waiting_delivery'', ''shipped'', ''completed'', ''closed'', ''unknown'']"

definition sold_order_ok :: "seller_order \<Rightarrow> bool" where
  "sold_order_ok x \<longleftrightarrow> so_order_id x \<noteq> [] \<and> 1 \<le> so_quantity x \<and> so_status x \<in> set listed_statuses
     \<and> so_refund_status x \<in> {[], asc ''pending'', asc ''refunded''}"

lemma split_refund_listed:
  assumes "s \<in> {''refunding'', ''refunded''} \<union> set listed_statuses" and "f \<in> {[], asc ''pending''}"
  shows "fst (split_refund s f) \<in> set listed_statuses" and "snd (split_refund s f) \<in> {[], asc ''pending'', asc ''refunded''}"
  using assms by (auto simp: split_refund_def listed_statuses_def)

lemma mapped_status: "map_of STATUS_MAP t = Some s \<Longrightarrow> s \<in> {''refunding'', ''refunded''} \<union> set listed_statuses"
  by (drule map_of_SomeD) (auto simp: STATUS_MAP_def listed_statuses_def)

lemma parse_sold_order_ok: "parse_sold_order env raw = Some x \<Longrightarrow> sold_order_ok x"
proof -
  assume p: "parse_sold_order env raw = Some x"
  define sr where "sr = split_refund (case map_of STATUS_MAP (text_of (jget ''orderStatus'' (obj_or_empty (jget ''commonData'' raw)))) of
      None \<Rightarrow> ''unknown'' | Some s \<Rightarrow> s)
    (if as_bool (jget ''inRefund'' (obj_or_empty (jget ''commonData'' raw))) then asc ''pending'' else [])"
  from p have "so_order_id x \<noteq> []" "1 \<le> so_quantity x" "so_status x = fst sr" "so_refund_status x = snd sr"
    by (auto simp: parse_sold_order_def Let_def sr_def split: if_splits)
  moreover have s: "(case map_of STATUS_MAP (text_of (jget ''orderStatus'' (obj_or_empty (jget ''commonData'' raw)))) of
      None \<Rightarrow> ''unknown'' | Some s \<Rightarrow> s) \<in> {''refunding'', ''refunded''} \<union> set listed_statuses"
    using mapped_status by (auto simp: listed_statuses_def split: option.split)
  moreover have f: "(if as_bool (jget ''inRefund'' (obj_or_empty (jget ''commonData'' raw))) then asc ''pending'' else []) \<in> {[], asc ''pending''}"
    by simp
  moreover have "fst sr \<in> set listed_statuses" "snd sr \<in> {[], asc ''pending'', asc ''refunded''}"
    unfolding sr_def using split_refund_listed [OF s f] by blast+
  ultimately show ?thesis by (simp add: sold_order_ok_def)
qed

lemma add_new_simps [simp]:
  "add_new key os [] = os"
  "add_new key os (x # xs) = add_new key (if key x \<in> key ` set os then os else os @ [x]) xs"
  by (simp_all add: add_new_def)

lemma add_new_distinct: "distinct (map key os) \<Longrightarrow> distinct (map key (add_new key os xs))"
  by (induction xs arbitrary: os) simp_all

lemma add_new_set: "x \<in> set (add_new key os xs) \<Longrightarrow> x \<in> set os \<or> x \<in> set xs"
  by (induction xs arbitrary: os) (force split: if_splits)+

lemma parsed_ok: "x \<in> set (parsed (parse_sold_order env) raws) \<Longrightarrow> sold_order_ok x"
  by (auto simp: parsed_def List.map_filter_def intro: parse_sold_order_ok split: if_splits)

lemma sold_pages_ok:
  "sold_pages fuel env post max_pages page orders count = Some (Inr res) \<Longrightarrow> distinct (map so_order_id orders) \<Longrightarrow>
   list_all sold_order_ok orders \<Longrightarrow> distinct (map so_order_id (lr_items res)) \<and> list_all sold_order_ok (lr_items res)"
proof (induction fuel arbitrary: page orders count)
  case (Suc fuel)
  have step: "distinct (map so_order_id (add_new so_order_id orders (parsed (parse_sold_order env) raws)))"
    "list_all sold_order_ok (add_new so_order_id orders (parsed (parse_sold_order env) raws))" for raws
    using Suc.prems(2,3) by (auto simp: list_all_iff add_new_distinct dest!: add_new_set intro: parsed_ok)
  from Suc.prems(1) step Suc.IH show ?case
    by (auto simp: Let_def split: sum.splits option.splits if_splits)
qed simp

text \<open>
  What the list of sold orders returns is well formed: every order has a number and occurs
  once, its quantity is positive and its status is one of seven; a refund never shows in the
  status but in the refund field.
\<close>

theorem sold_list_well_formed:
  assumes "list_sold_orders fuel env post max_pages = Some (Inr res)"
  shows "distinct (map so_order_id (lr_items res)) \<and> list_all sold_order_ok (lr_items res)"
  using sold_pages_ok [OF assms [unfolded list_sold_orders_def]] by simp

theorem sold_list_well_formed_witness:
  "case list_sold_orders 1 example_lists (\<lambda>_ _. Posted (same_sold_page False)) None of
     Some (Inr res) \<Rightarrow> map so_order_id (lr_items res) = [asc ''7''] \<and> list_all sold_order_ok (lr_items res)
   | _ \<Rightarrow> False"
proof -
  define x where "x = list_sold_orders 1 example_lists (\<lambda>_ _. Posted (same_sold_page False)) None"
  have e: "case x of Some (Inr res) \<Rightarrow> map so_order_id (lr_items res) = [asc ''7''] | _ \<Rightarrow> False"
    unfolding x_def by code_simp
  then obtain res where x: "x = Some (Inr res)" by (auto split: option.splits sum.splits)
  from sold_list_well_formed [OF x [unfolded x_def]] e x show ?thesis unfolding x_def [symmetric] by simp
qed

theorem sold_listing_may_not_end_witness:
  "list_sold_orders 5 example_lists (\<lambda>_ _. Posted (same_sold_page True)) None = None"
proof (rule sold_listing_may_not_end)
  have "is_success (same_sold_page True) \<and>
      as_bool (jget ''nextPage'' (obj_or_empty (jget ''module'' (jget ''data'' (same_sold_page True))))) \<and>
      list_or_empty (jget ''items'' (obj_or_empty (jget ''module'' (jget ''data'' (same_sold_page True))))) \<noteq> []"
    by code_simp
  then show "\<exists>r. Posted (same_sold_page True) = Posted r \<and> is_success r \<and>
      as_bool (jget ''nextPage'' (obj_or_empty (jget ''module'' (jget ''data'' r)))) \<and>
      list_or_empty (jget ''items'' (obj_or_empty (jget ''module'' (jget ''data'' r)))) \<noteq> []" for page :: nat
    by blast
qed

end
