(* ===== verification/OrderSync.thy ===== *)
theory OrderSync
  imports OrderLists OrderEvents BackgroundTasks
begin

text \<open>
  The synchronisation of order lists (\<open>order_management_service.py\<close>, \<open>order_management_scheduler.py\<close>): settings
  and due times, runs, the writing of listed orders, the execution of a run and the request of
  one with its background task. The listing itself (\<open>OrderLists\<close>), the lock in Redis, the queue
  and the jitter are arguments.
\<close>

section \<open>Tables\<close>

record sync_setting =
  ys_account_id :: string
  ys_sync_enabled :: bool
  ys_pending_interval_seconds :: int
  ys_full_interval_minutes :: int
  ys_jitter_seconds :: int
  ys_last_sync_at :: "timestamp option"
  ys_last_pending_sync_at :: "timestamp option"
  ys_last_full_sync_at :: "timestamp option"
  ys_last_sync_status :: "string option"
  ys_last_sync_error :: "ustr option"
  ys_next_pending_sync_at :: "timestamp option"
  ys_next_full_sync_at :: "timestamp option"
  ys_bought_sync_enabled :: bool
  ys_bought_full_interval_minutes :: int
  ys_bought_jitter_seconds :: int
  ys_bought_last_sync_at :: "timestamp option"
  ys_bought_last_full_sync_at :: "timestamp option"
  ys_bought_last_sync_status :: "string option"
  ys_bought_last_sync_error :: "ustr option"
  ys_bought_next_full_sync_at :: "timestamp option"
  ys_created_at :: timestamp
  ys_updated_at :: timestamp

record sync_run =
  yr_run_id :: string
  yr_account_id :: string
  yr_scope :: string
  yr_mode :: string
  yr_trigger :: string
  yr_status :: string
  yr_total_count :: int
  yr_inserted_count :: int
  yr_updated_count :: int
  yr_skipped_count :: int
  yr_error :: "ustr option"
  yr_created_at :: timestamp
  yr_updated_at :: timestamp
  yr_started_at :: "timestamp option"
  yr_finished_at :: "timestamp option"

text \<open>Of products only what the orders take from them.\<close>

record product_info =
  pd_account_id :: string
  pd_item_id :: ustr
  pd_title :: "ustr option"
  pd_cover_url :: "ustr option"

record sync_db =
  sy_accounts :: "account_row list"
  sy_products :: "product_info list"
  sy_orders :: order_db
  sy_settings :: "sync_setting list"
  sy_runs :: "sync_run list"
  sy_tasks :: task_table

section \<open>Due times\<close>

text \<open>The number that \<open>random.randint(0, max(0, ...))\<close> gives for an account, a list and a mode.\<close>

type_synonym jitter = "string \<Rightarrow> string \<Rightarrow> string \<Rightarrow> int"

definition schedule :: "string \<Rightarrow> string \<Rightarrow> timestamp \<Rightarrow> jitter \<Rightarrow> sync_setting \<Rightarrow> sync_setting" where
  "schedule scope mode now jitter row =
     (if scope = ''bought'' then row\<lparr>ys_bought_next_full_sync_at := Some (now + minutes (ys_bought_full_interval_minutes row) + seconds (jitter (ys_account_id row) scope mode))\<rparr>
      else if mode = ''full'' then row\<lparr>ys_next_full_sync_at := Some (now + minutes (ys_full_interval_minutes row) + seconds (jitter (ys_account_id row) scope mode))\<rparr>
      else row\<lparr>ys_next_pending_sync_at := Some (now + seconds (ys_pending_interval_seconds row + jitter (ys_account_id row) scope mode))\<rparr>)"

definition new_setting :: "string \<Rightarrow> timestamp \<Rightarrow> jitter \<Rightarrow> sync_setting" where
  "new_setting account_id now jitter =
     schedule ''bought'' ''full'' now jitter (schedule ''sold'' ''full'' now jitter (schedule ''sold'' ''pending'' now jitter
       \<lparr>ys_account_id = account_id, ys_sync_enabled = True, ys_pending_interval_seconds = 90, ys_full_interval_minutes = 15,
        ys_jitter_seconds = 20, ys_last_sync_at = None, ys_last_pending_sync_at = None, ys_last_full_sync_at = None,
        ys_last_sync_status = None, ys_last_sync_error = None, ys_next_pending_sync_at = None, ys_next_full_sync_at = None,
        ys_bought_sync_enabled = True, ys_bought_full_interval_minutes = 15, ys_bought_jitter_seconds = 20,
        ys_bought_last_sync_at = None, ys_bought_last_full_sync_at = None, ys_bought_last_sync_status = None,
        ys_bought_last_sync_error = None, ys_bought_next_full_sync_at = None, ys_created_at = now, ys_updated_at = now\<rparr>))"

definition get_or_create_setting :: "string \<Rightarrow> timestamp \<Rightarrow> jitter \<Rightarrow> sync_setting list \<Rightarrow> sync_setting" where
  "get_or_create_setting account_id now jitter rows =
     (case get_row ys_account_id rows account_id of None \<Rightarrow> new_setting account_id now jitter | Some r \<Rightarrow> r)"

definition ensure_account_settings :: "timestamp \<Rightarrow> jitter \<Rightarrow> string list \<Rightarrow> sync_db \<Rightarrow> sync_db" where
  "ensure_account_settings now jitter ids db =
     db\<lparr>sy_settings := foldl (\<lambda>rows i. if get_row ac_account_id (sy_accounts db) i = None then rows
        else put_row ys_account_id (get_or_create_setting i now jitter rows) rows) (sy_settings db) ids\<rparr>"

record setting_update =
  yu_sync_enabled :: bool
  yu_pending_interval_seconds :: int
  yu_full_interval_minutes :: int
  yu_jitter_seconds :: int

text \<open>What is shown of a setting for one of the lists (\<open>_setting_to_payload\<close>).\<close>

record setting_view =
  yv_account_id :: string
  yv_scope :: string
  yv_sync_enabled :: bool
  yv_pending_interval_seconds :: int
  yv_full_interval_minutes :: int
  yv_jitter_seconds :: int
  yv_last_sync_at :: "timestamp option"
  yv_last_pending_sync_at :: "timestamp option"
  yv_last_full_sync_at :: "timestamp option"
  yv_last_sync_status :: "string option"
  yv_last_sync_error :: "ustr option"
  yv_next_pending_sync_at :: "timestamp option"
  yv_next_full_sync_at :: "timestamp option"
  yv_created_at :: timestamp
  yv_updated_at :: timestamp

definition setting_to_payload :: "sync_setting \<Rightarrow> string \<Rightarrow> setting_view" where
  "setting_to_payload r scope =
     (if scope = ''bought''
      then \<lparr>yv_account_id = ys_account_id r, yv_scope = ''bought'', yv_sync_enabled = ys_bought_sync_enabled r,
        yv_pending_interval_seconds = 90, yv_full_interval_minutes = ys_bought_full_interval_minutes r,
        yv_jitter_seconds = ys_bought_jitter_seconds r, yv_last_sync_at = ys_bought_last_sync_at r, yv_last_pending_sync_at = None,
        yv_last_full_sync_at = ys_bought_last_full_sync_at r, yv_last_sync_status = ys_bought_last_sync_status r,
        yv_last_sync_error = ys_bought_last_sync_error r, yv_next_pending_sync_at = None,
        yv_next_full_sync_at = ys_bought_next_full_sync_at r, yv_created_at = ys_created_at r, yv_updated_at = ys_updated_at r\<rparr>
      else \<lparr>yv_account_id = ys_account_id r, yv_scope = ''sold'', yv_sync_enabled = ys_sync_enabled r,
        yv_pending_interval_seconds = ys_pending_interval_seconds r, yv_full_interval_minutes = ys_full_interval_minutes r,
        yv_jitter_seconds = ys_jitter_seconds r, yv_last_sync_at = ys_last_sync_at r, yv_last_pending_sync_at = ys_last_pending_sync_at r,
        yv_last_full_sync_at = ys_last_full_sync_at r, yv_last_sync_status = ys_last_sync_status r,
        yv_last_sync_error = ys_last_sync_error r, yv_next_pending_sync_at = ys_next_pending_sync_at r,
        yv_next_full_sync_at = ys_next_full_sync_at r, yv_created_at = ys_created_at r, yv_updated_at = ys_updated_at r\<rparr>)"

datatype sync_value_error = UnsupportedScope | UnsupportedMode | BoughtOnlyFull | SyncAccountMissing

definition valid_scope :: "string \<Rightarrow> bool" where
  "valid_scope scope \<longleftrightarrow> scope \<in> {''bought'', ''sold''}"

definition get_setting :: "timestamp \<Rightarrow> jitter \<Rightarrow> string \<Rightarrow> string \<Rightarrow> sync_db \<Rightarrow> sync_value_error + (sync_db \<times> setting_view option)" where
  "get_setting now jitter account_id scope db =
     (if \<not> valid_scope scope then Inl UnsupportedScope
      else if get_row ac_account_id (sy_accounts db) account_id = None then Inr (db, None)
      else let row = get_or_create_setting account_id now jitter (sy_settings db)
           in Inr (db\<lparr>sy_settings := put_row ys_account_id row (sy_settings db)\<rparr>, Some (setting_to_payload row scope)))"

definition update_setting ::
  "timestamp \<Rightarrow> jitter \<Rightarrow> string \<Rightarrow> setting_update \<Rightarrow> string \<Rightarrow> sync_db \<Rightarrow> sync_value_error + (sync_db \<times> setting_view option)" where
  "update_setting now jitter account_id p scope db =
     (if \<not> valid_scope scope then Inl UnsupportedScope
      else if get_row ac_account_id (sy_accounts db) account_id = None then Inr (db, None)
      else let row = (get_or_create_setting account_id now jitter (sy_settings db))\<lparr>ys_updated_at := now\<rparr>;
               new = (if scope = ''bought''
                 then schedule scope ''full'' now jitter (row\<lparr>ys_bought_sync_enabled := yu_sync_enabled p,
                   ys_bought_full_interval_minutes := yu_full_interval_minutes p, ys_bought_jitter_seconds := yu_jitter_seconds p\<rparr>)
                 else schedule scope ''full'' now jitter (schedule scope ''pending'' now jitter (row\<lparr>ys_sync_enabled := yu_sync_enabled p,
                   ys_pending_interval_seconds := yu_pending_interval_seconds p,
                   ys_full_interval_minutes := yu_full_interval_minutes p, ys_jitter_seconds := yu_jitter_seconds p\<rparr>)))
           in Inr (db\<lparr>sy_settings := put_row ys_account_id new (sy_settings db)\<rparr>, Some (setting_to_payload new scope)))"

definition due_at :: "timestamp \<Rightarrow> timestamp option \<Rightarrow> bool" where
  "due_at now t \<longleftrightarrow> (case t of None \<Rightarrow> True | Some u \<Rightarrow> u \<le> now)"

text \<open>The synchronisations that are due: account, scope and mode.\<close>

definition due_modes :: "timestamp \<Rightarrow> sync_setting \<Rightarrow> (string \<times> string \<times> string) list" where
  "due_modes now r =
     (if ys_bought_sync_enabled r \<and> due_at now (ys_bought_next_full_sync_at r) then [(ys_account_id r, ''bought'', ''full'')] else []) @
     (if ys_sync_enabled r
      then if due_at now (ys_next_full_sync_at r) then [(ys_account_id r, ''sold'', ''full'')]
           else if due_at now (ys_next_pending_sync_at r) then [(ys_account_id r, ''sold'', ''pending'')] else []
      else [])"

definition list_due_settings :: "timestamp \<Rightarrow> sync_db \<Rightarrow> (string \<times> string \<times> string) list" where
  "list_due_settings now db = concat (map (due_modes now) (sy_settings db))"

definition reschedule :: "timestamp \<Rightarrow> jitter \<Rightarrow> string \<Rightarrow> string \<Rightarrow> string \<Rightarrow> sync_db \<Rightarrow> sync_db" where
  "reschedule now jitter account_id mode scope db =
     db\<lparr>sy_settings := set_row ys_account_id (sy_settings db) account_id (schedule scope mode now jitter)\<rparr>"

section \<open>Runs\<close>

definition ACTIVE_RUN_STATUSES :: "string list" where
  "ACTIVE_RUN_STATUSES = [''pending'', ''running'']"

definition active_run :: "string \<Rightarrow> string \<Rightarrow> sync_run \<Rightarrow> bool" where
  "active_run account_id scope r \<longleftrightarrow> yr_account_id r = account_id \<and> yr_scope r = scope \<and> yr_status r \<in> set ACTIVE_RUN_STATUSES"

definition new_run :: "string \<Rightarrow> timestamp \<Rightarrow> string \<Rightarrow> string \<Rightarrow> string \<Rightarrow> string \<Rightarrow> sync_run" where
  "new_run run_id now account_id mode trigger scope = \<lparr>yr_run_id = run_id, yr_account_id = account_id, yr_scope = scope, yr_mode = mode,
     yr_trigger = trigger, yr_status = ''pending'', yr_total_count = 0, yr_inserted_count = 0, yr_updated_count = 0,
     yr_skipped_count = 0, yr_error = None, yr_created_at = now, yr_updated_at = now, yr_started_at = None, yr_finished_at = None\<rparr>"

text \<open>The newest active run (\<open>ORDER BY created_at DESC\<close>), or a new one.\<close>

definition create_run ::
  "string \<Rightarrow> timestamp \<Rightarrow> string \<Rightarrow> string \<Rightarrow> string \<Rightarrow> string \<Rightarrow> sync_db \<Rightarrow> sync_value_error + (sync_db \<times> sync_run)" where
  "create_run run_id now account_id mode trigger scope db =
     (if \<not> valid_scope scope then Inl UnsupportedScope
      else if mode \<notin> {''full'', ''pending''} then Inl UnsupportedMode
      else if scope = ''bought'' \<and> mode \<noteq> ''full'' then Inl BoughtOnlyFull
      else case first_by (\<lambda>r. - yr_created_at r) (filter (active_run account_id scope) (sy_runs db)) of
        Some r \<Rightarrow> Inr (db, r)
      | None \<Rightarrow>
          if get_row ac_account_id (sy_accounts db) account_id = None then Inl SyncAccountMissing
          else let r = new_run run_id now account_id mode trigger scope in Inr (db\<lparr>sy_runs := sy_runs db @ [r]\<rparr>, r))"

definition start_run :: "timestamp \<Rightarrow> string \<Rightarrow> sync_db \<Rightarrow> sync_db \<times> sync_run option" where
  "start_run now run_id db =
     (case get_row yr_run_id (sy_runs db) run_id of
        None \<Rightarrow> (db, None)
      | Some r \<Rightarrow>
          if yr_status r = ''pending''
          then let r' = r\<lparr>yr_status := ''running'', yr_started_at := Some now, yr_updated_at := now\<rparr>
               in (db\<lparr>sy_runs := put_row yr_run_id r' (sy_runs db)\<rparr>, Some r')
          else (db, Some r))"

definition finished_setting :: "timestamp \<Rightarrow> jitter \<Rightarrow> sync_run \<Rightarrow> string \<Rightarrow> ustr option \<Rightarrow> sync_setting \<Rightarrow> sync_setting" where
  "finished_setting now jitter r status error s =
     (if yr_scope r = ''bought''
      then schedule ''bought'' ''full'' now jitter (s\<lparr>ys_bought_last_sync_at := Some now, ys_bought_last_sync_status := Some status,
        ys_bought_last_sync_error := error,
        ys_bought_last_full_sync_at := (if status = ''success'' then Some now else ys_bought_last_full_sync_at s)\<rparr>)
      else let t = s\<lparr>ys_last_sync_at := Some now, ys_last_sync_status := Some status, ys_last_sync_error := error,
             ys_last_full_sync_at := (if status = ''success'' \<and> yr_mode r = ''full'' then Some now else ys_last_full_sync_at s),
             ys_last_pending_sync_at := (if status = ''success'' then Some now else ys_last_pending_sync_at s)\<rparr>;
               u = schedule ''sold'' (yr_mode r) now jitter t
           in if yr_mode r = ''full'' then schedule ''sold'' ''pending'' now jitter u else u)"

definition finish_run ::
  "timestamp \<Rightarrow> jitter \<Rightarrow> string \<Rightarrow> string \<Rightarrow> int \<Rightarrow> int \<times> int \<times> int \<Rightarrow> ustr option \<Rightarrow> sync_db \<Rightarrow> sync_db \<times> sync_run option" where
  "finish_run now jitter run_id status count ius error db =
     (case get_row yr_run_id (sy_runs db) run_id of
        None \<Rightarrow> (db, None)
      | Some r \<Rightarrow>
          let r' = r\<lparr>yr_status := status, yr_total_count := count, yr_inserted_count := fst ius, yr_updated_count := fst (snd ius),
                yr_skipped_count := snd (snd ius), yr_error := error, yr_finished_at := Some now, yr_updated_at := now\<rparr>;
              s = get_or_create_setting (yr_account_id r) now jitter (sy_settings db)
          in (db\<lparr>sy_runs := put_row yr_run_id r' (sy_runs db),
                 sy_settings := put_row ys_account_id (finished_setting now jitter r status error s) (sy_settings db)\<rparr>, Some r'))"

definition fail_sync :: "timestamp \<Rightarrow> jitter \<Rightarrow> string \<Rightarrow> ustr \<Rightarrow> string \<Rightarrow> bool \<Rightarrow> sync_db \<Rightarrow> sync_db" where
  "fail_sync now jitter account_id error scope pause db =
     (if get_row ac_account_id (sy_accounts db) account_id = None then db
      else let s = get_or_create_setting account_id now jitter (sy_settings db);
               s' = (if scope = ''bought''
                 then s\<lparr>ys_bought_last_sync_at := Some now, ys_bought_last_sync_status := Some ''failed'', ys_bought_last_sync_error := Some error,
                    ys_bought_sync_enabled := (ys_bought_sync_enabled s \<and> \<not> pause)\<rparr>
                 else s\<lparr>ys_last_sync_at := Some now, ys_last_sync_status := Some ''failed'', ys_last_sync_error := Some error,
                    ys_sync_enabled := (ys_sync_enabled s \<and> \<not> pause)\<rparr>)
           in db\<lparr>sy_settings := put_row ys_account_id s' (sy_settings db)\<rparr>)"

section \<open>Writing the listed orders\<close>

text \<open>The identifiers drawn for one order: the order, its event and the message key of the event.\<close>

type_synonym order_ids = "string \<times> string \<times> string"

definition opt_or :: "'a option \<Rightarrow> 'a option \<Rightarrow> 'a option" where
  "opt_or a b = (case a of None \<Rightarrow> b | Some _ \<Rightarrow> a)"

definition new_listed_order :: "string \<Rightarrow> string \<Rightarrow> timestamp \<Rightarrow> ustr \<Rightarrow> string \<Rightarrow> timestamp option \<Rightarrow> order_row" where
  "new_listed_order order_pk account_id now order_id status created =
     (order_defaults order_pk account_id [] now)\<lparr>od_platform_order_id := Some order_id, od_status := status,
        od_created_at := (case created of None \<Rightarrow> now | Some t \<Rightarrow> t)\<rparr>"

definition last_event :: "timestamp option \<Rightarrow> timestamp option \<Rightarrow> timestamp option \<Rightarrow> timestamp option \<Rightarrow> timestamp option" where
  "last_event completed paid created old = opt_or completed (opt_or paid (opt_or created old))"

definition sold_values :: "timestamp \<Rightarrow> product_info option \<Rightarrow> seller_order \<Rightarrow> order_row \<Rightarrow> order_row" where
  "sold_values now product x row = row\<lparr>od_trade_role := Some ''seller'', od_data_source := Some ''seller_sold'',
     od_first_seen_source := (if truthy (od_first_seen_source row) then od_first_seen_source row else Some ''seller_sold''),
     od_platform_confirmed := True, od_sync_state := ''confirmed'', od_sync_error := None,
     od_peer_user_id := u_keep (so_buyer_id x) (od_peer_user_id row), od_peer_name := u_keep (so_buyer_name x) (od_peer_name row),
     od_buyer_user_id := u_keep (so_buyer_id x) (od_buyer_user_id row), od_buyer_name := u_keep (so_buyer_name x) (od_buyer_name row),
     od_receiver_name := u_keep (so_receiver_name x) (od_receiver_name row),
     od_receiver_phone := u_keep (so_receiver_phone x) (od_receiver_phone row),
     od_receiver_address := u_keep (so_receiver_address x) (od_receiver_address row),
     od_item_id := u_keep (so_item_id x) (od_item_id row),
     od_title := u_keep (so_title x) (u_or (Option.bind product pd_title) (od_title row)),
     od_image_url := u_keep (so_image_url x) (u_or (Option.bind product pd_cover_url) (od_image_url row)),
     od_price := u_keep (so_price x) (od_price row), od_quantity := Some (so_quantity x), od_status := so_status x,
     od_status_text := u_keep (so_status_text x) (od_status_text row),
     od_platform_status := u_keep (so_platform_status x) (od_platform_status row),
     od_platform_created_at := opt_or (so_platform_created_at x) (od_platform_created_at row),
     od_platform_paid_at := opt_or (so_platform_paid_at x) (od_platform_paid_at row),
     od_platform_completed_at := opt_or (so_platform_completed_at x) (od_platform_completed_at row),
     od_is_bargain := (od_is_bargain row \<or> so_is_bargain x),
     od_seller_rate_status := u_keep (so_seller_rate_status x) (od_seller_rate_status row),
     od_refund_status := u_none (so_refund_status x),
     od_last_event_at := last_event (so_platform_completed_at x) (so_platform_paid_at x) (so_platform_created_at x) (od_last_event_at row),
     od_last_synced_at := Some now, od_raw_summary := so_raw_summary x, od_updated_at := now\<rparr>"

definition bought_values :: "timestamp \<Rightarrow> buyer_order \<Rightarrow> order_row \<Rightarrow> order_row" where
  "bought_values now x row = row\<lparr>od_trade_role := Some ''buyer'', od_data_source := Some ''buyer_bought'',
     od_first_seen_source := (if truthy (od_first_seen_source row) then od_first_seen_source row else Some ''buyer_bought''),
     od_platform_confirmed := True, od_sync_state := ''confirmed'', od_sync_error := None,
     od_peer_user_id := u_keep (bo_seller_id x) (od_peer_user_id row), od_peer_name := u_keep (bo_seller_name x) (od_peer_name row),
     od_item_id := u_keep (bo_item_id x) (od_item_id row), od_title := u_keep (bo_title x) (od_title row),
     od_image_url := u_keep (bo_image_url x) (od_image_url row), od_price := u_keep (bo_price x) (od_price row),
     od_quantity := Some (bo_quantity x), od_status := bo_status x, od_status_text := u_keep (bo_status_text x) (od_status_text row),
     od_platform_status := u_keep (bo_platform_status x) (od_platform_status row),
     od_platform_created_at := opt_or (bo_platform_created_at x) (od_platform_created_at row),
     od_platform_paid_at := opt_or (bo_platform_paid_at x) (od_platform_paid_at row),
     od_platform_completed_at := opt_or (bo_platform_completed_at x) (od_platform_completed_at row),
     od_refund_status := u_none (bo_refund_status x),
     od_last_event_at := last_event (bo_platform_completed_at x) (bo_platform_paid_at x) (bo_platform_created_at x) (od_last_event_at row),
     od_last_synced_at := Some now, od_raw_summary := bo_raw_summary x, od_updated_at := now\<rparr>"

text \<open>The unique index leaves at most one order with a number.\<close>

definition find_listed :: "string \<Rightarrow> ustr \<Rightarrow> order_row list \<Rightarrow> order_row option" where
  "find_listed account_id order_id rows = (if order_id = [] then None else get_row order_number rows (account_id, Some order_id))"

definition sync_event :: "order_ids \<Rightarrow> string \<Rightarrow> timestamp \<Rightarrow> order_row \<Rightarrow> ustr \<Rightarrow> ustr \<Rightarrow> string \<Rightarrow> ustr \<Rightarrow> json \<Rightarrow> order_event" where
  "sync_event ids prefix now row order_id item_id status status_text shown = \<lparr>oe_event_pk = fst (snd ids), oe_order_pk = Some (od_order_pk row),
     oe_account_id = od_account_id row, oe_conversation_id = od_conversation_id row, oe_message_pk = prefix @ snd (snd ids),
     oe_platform_order_id = Some order_id, oe_item_id = u_none item_id, oe_event_type = ''platform_sync'', oe_status = status,
     oe_status_text = Some status_text, oe_raw_summary = shown, oe_created_at = now\<rparr>"

text \<open>The tables and the numbers of inserted, updated and skipped orders.\<close>

type_synonym applied_orders = "order_db \<times> int \<times> int \<times> int"

definition write_order :: "bool \<Rightarrow> bool \<Rightarrow> order_row \<Rightarrow> order_event \<Rightarrow> applied_orders \<Rightarrow> applied_orders" where
  "write_order known changed row e st = (case st of (db, i, u, s) \<Rightarrow>
     (db\<lparr>ob_orders := put_row od_order_pk row (ob_orders db), ob_events := (if changed then ob_events db @ [e] else ob_events db)\<rparr>,
      if known then i else i + 1, if known \<and> changed then u + 1 else u, if known \<and> \<not> changed then s + 1 else s))"

definition apply_sold_order :: "timestamp \<Rightarrow> string \<Rightarrow> product_info list \<Rightarrow> order_ids \<times> seller_order \<Rightarrow> applied_orders \<Rightarrow> applied_orders" where
  "apply_sold_order now account_id products ix st = (case ix of (ids, x) \<Rightarrow>
     let found = find_listed account_id (so_order_id x) (ob_orders (fst st));
         product = find (\<lambda>p. pd_account_id p = account_id \<and> pd_item_id p = so_item_id x \<and> so_item_id x \<noteq> []) products;
         row = sold_values now product x (case found of Some r \<Rightarrow> r
           | None \<Rightarrow> new_listed_order (fst ids) account_id now (so_order_id x) (so_status x) (so_platform_created_at x));
         changed = (case found of None \<Rightarrow> True | Some r \<Rightarrow> od_status r \<noteq> so_status x)
     in write_order (found \<noteq> None) changed row
          (sync_event ids ''sold:'' now row (so_order_id x) (so_item_id x) (so_status x) (so_status_text x) (so_raw_summary x)) st)"

definition apply_orders :: "timestamp \<Rightarrow> string \<Rightarrow> product_info list \<Rightarrow> (order_ids \<times> seller_order) list \<Rightarrow> order_db \<Rightarrow> applied_orders" where
  "apply_orders now account_id products xs db = foldl (\<lambda>st ix. apply_sold_order now account_id products ix st) (db, 0, 0, 0) xs"

definition apply_bought_order :: "timestamp \<Rightarrow> string \<Rightarrow> order_ids \<times> buyer_order \<Rightarrow> applied_orders \<Rightarrow> applied_orders" where
  "apply_bought_order now account_id ix st = (case ix of (ids, x) \<Rightarrow>
     let found = find_listed account_id (bo_order_id x) (ob_orders (fst st));
         row = bought_values now x (case found of Some r \<Rightarrow> r
           | None \<Rightarrow> new_listed_order (fst ids) account_id now (bo_order_id x) (bo_status x) (bo_platform_created_at x));
         state = (\<lambda>r. (od_status r, od_trade_role r, od_data_source r));
         changed = (case found of None \<Rightarrow> True | Some r \<Rightarrow> state r \<noteq> state row)
     in write_order (found \<noteq> None) changed row
          (sync_event ids ''bought:'' now row (bo_order_id x) (bo_item_id x) (bo_status x) (bo_status_text x) (bo_raw_summary x)) st)"

definition apply_buyer_orders :: "timestamp \<Rightarrow> string \<Rightarrow> (order_ids \<times> buyer_order) list \<Rightarrow> order_db \<Rightarrow> applied_orders" where
  "apply_buyer_orders now account_id xs db = foldl (\<lambda>st ix. apply_bought_order now account_id ix st) (db, 0, 0, 0) xs"

section \<open>Executing a run\<close>

text \<open>
  What the lock and the platform gave: no lock, an error (with the text that is recorded and
  whether it may be tried again), another exception, or the orders of the account, as the client
  of the list that was asked for returns them.
\<close>

datatype listing =
    LockBusy ustr
  | ListFailed ustr bool
  | ListCrashed ustr
  | ListedSold "(order_ids \<times> seller_order) list"
  | ListedBought "(order_ids \<times> buyer_order) list"

text \<open>The listing functions, as \<open>execute_run\<close> calls them; \<open>ids\<close> are the identifiers drawn for the orders.\<close>

definition listing_of_sold :: "order_ids list \<Rightarrow> (sync_error \<Rightarrow> ustr) \<Rightarrow> sync_error + seller_order list_result \<Rightarrow> listing" where
  "listing_of_sold ids message res = (case res of
     Inl Crashed \<Rightarrow> ListCrashed (message Crashed)
   | Inl (SyncError kind retryable) \<Rightarrow> ListFailed (message (SyncError kind retryable)) retryable
   | Inr r \<Rightarrow> ListedSold (zip ids (lr_items r)))"

datatype run_answer = RunMissing | RunAccountMissing | RunSettled bool | RunDone bool

definition settle_failed :: "timestamp \<Rightarrow> jitter \<Rightarrow> sync_run \<Rightarrow> ustr \<Rightarrow> bool \<Rightarrow> sync_db \<Rightarrow> sync_db" where
  "settle_failed now jitter r error pause db =
     fst (finish_run now jitter (yr_run_id r) ''failed'' 0 (0, 0, 0) (Some error)
       (fail_sync now jitter (yr_account_id r) error (yr_scope r) pause db))"

definition settle_applied :: "timestamp \<Rightarrow> jitter \<Rightarrow> sync_run \<Rightarrow> int \<Rightarrow> applied_orders \<Rightarrow> sync_db \<Rightarrow> sync_db" where
  "settle_applied now jitter r count a db =
     fst (finish_run now jitter (yr_run_id r) ''success'' count (snd a) None (db\<lparr>sy_orders := fst a\<rparr>))"

text \<open>Which list is asked for in a run: the list, the query and the number of pages.\<close>

definition run_query :: "sync_run \<Rightarrow> string \<times> string \<times> nat option" where
  "run_query r = (if yr_scope r = ''bought'' then (''bought'', ''ALL'', None)
     else (''sold'', if yr_mode r = ''full'' then ''ALL'' else ''NOT_SHIP'', if yr_mode r = ''full'' then None else Some 1))"

text \<open>The merge of cookie updates is the guarded replacement of \<open>CookieRenewal\<close> and touches no order.\<close>

definition execute_run :: "timestamp \<Rightarrow> jitter \<Rightarrow> string \<Rightarrow> (string \<times> string \<times> nat option \<Rightarrow> listing) \<Rightarrow> sync_db \<Rightarrow> sync_db \<times> run_answer" where
  "execute_run now jitter run_id platform db0 =
     (case start_run now run_id db0 of
        (db, None) \<Rightarrow> (db, RunMissing)
      | (db, Some r) \<Rightarrow>
          if yr_status r \<noteq> ''running'' then (db, RunSettled (yr_status r = ''success''))
          else if get_row ac_account_id (sy_accounts db) (yr_account_id r) = None then (db, RunAccountMissing)
          else (case platform (run_query r) of
              LockBusy e \<Rightarrow> (settle_failed now jitter r e False db, RunDone False)
            | ListCrashed e \<Rightarrow> (settle_failed now jitter r e False db, RunDone False)
            | ListFailed e retryable \<Rightarrow> (settle_failed now jitter r e (\<not> retryable) db, RunDone False)
            | ListedSold xs \<Rightarrow>
                (settle_applied now jitter r (int (length xs)) (apply_orders now (yr_account_id r) (sy_products db) xs (sy_orders db)) db, RunDone True)
            | ListedBought xs \<Rightarrow>
                (settle_applied now jitter r (int (length xs)) (apply_buyer_orders now (yr_account_id r) xs (sy_orders db)) db, RunDone True)))"

section \<open>Requesting a run\<close>

datatype request_answer = RequestRefused sync_value_error | RequestRaised | Requested sync_run task_row

text \<open>Of the payload the run, which is what the worker reads.\<close>

definition sync_task :: "string \<Rightarrow> string \<Rightarrow> task_create" where
  "sync_task account_id run_id = \<lparr>tc_account_id = Some account_id, tc_task_type = ''order.sync_account'',
     tc_dedupe_key = Some (''order-sync:'' @ run_id), tc_payload = Some run_id, tc_run_after = None\<rparr>"

text \<open>The answer reads the run and the task again.\<close>

definition request_done :: "sync_run \<Rightarrow> task_row \<Rightarrow> sync_db \<Rightarrow> sync_db \<times> request_answer" where
  "request_done r t db = (db, Requested
     (case get_row yr_run_id (sy_runs db) (yr_run_id r) of None \<Rightarrow> r | Some r' \<Rightarrow> r')
     (case get_background_task (tk_task_id t) (sy_tasks db) of None \<Rightarrow> t | Some t' \<Rightarrow> t'))"

text \<open>\<open>refused\<close>: why Redis did not take the task, if it did not.\<close>

definition create_and_enqueue_order_sync ::
  "string \<Rightarrow> string \<Rightarrow> timestamp \<Rightarrow> jitter \<Rightarrow> string option \<Rightarrow> string \<Rightarrow> string \<Rightarrow> string \<Rightarrow> string \<Rightarrow> sync_db \<Rightarrow> sync_db \<times> request_answer" where
  "create_and_enqueue_order_sync run_id task_id now jitter refused account_id scope mode trigger db0 =
     (case create_run run_id now account_id mode trigger scope db0 of
        Inl e \<Rightarrow> (db0, RequestRefused e)
      | Inr (db, r) \<Rightarrow>
          (case create_background_task task_id now (sy_accounts db) (sync_task account_id (yr_run_id r)) (sy_tasks db) of
             (ts, res) \<Rightarrow>
               (case (case res of ExistingTask t \<Rightarrow> Some t | CreatedTask t \<Rightarrow> Some t | _ \<Rightarrow> None) of
                  None \<Rightarrow> (db, RequestRaised)
                | Some t \<Rightarrow>
                    if tk_status t = Pending \<and> tk_queued_at t = None
                    then (case refused of
                        None \<Rightarrow> request_done r t (db\<lparr>sy_tasks := fst (mark_background_task_queued now (tk_task_id t) ts)\<rparr>)
                      | Some e \<Rightarrow> (fst (finish_run now jitter (yr_run_id r) ''failed'' 0 (0, 0, 0) (Some (asc (''queue unavailable: '' @ e)))
                          (db\<lparr>sy_tasks := fst (finish_background_task now (tk_task_id t) ''failed'' None (Some (''queue unavailable: '' @ e)) None ts)\<rparr>)),
                          RequestRaised))
                    else request_done r t (db\<lparr>sy_tasks := ts\<rparr>))))"

section \<open>Summaries\<close>

text \<open>Confirmed orders of an account in one of the lists, by status.\<close>

definition status_count :: "string \<Rightarrow> string \<Rightarrow> order_row list \<Rightarrow> string \<Rightarrow> nat" where
  "status_count scope account_id rows status = length (filter (\<lambda>r. od_account_id r = account_id \<and> od_status r = status
     \<and> od_trade_role r = Some (if scope = ''bought'' then ''buyer'' else ''seller'') \<and> od_platform_confirmed r) rows)"

record account_summary =
  su_account_id :: string
  su_enabled :: bool
  su_runtime_state :: string
  su_total_count :: nat
  su_active_count :: nat
  su_pending_count :: nat
  su_refunding_count :: nat
  su_setting :: setting_view

definition confirmed_statuses :: "string \<Rightarrow> string \<Rightarrow> order_row list \<Rightarrow> string list" where
  "confirmed_statuses scope account_id rows = remdups (map od_status (filter (\<lambda>r. od_account_id r = account_id
     \<and> od_trade_role r = Some (if scope = ''bought'' then ''buyer'' else ''seller'') \<and> od_platform_confirmed r) rows))"

definition summarize :: "(string \<rightharpoonup> string) \<Rightarrow> string \<Rightarrow> order_row list \<Rightarrow> sync_setting \<Rightarrow> account_row \<Rightarrow> account_summary" where
  "summarize runtimes scope rows setting a =
     (let count = status_count scope (ac_account_id a) rows in
      \<lparr>su_account_id = ac_account_id a, su_enabled = ac_enabled a,
       su_runtime_state = (case runtimes (ac_account_id a) of None \<Rightarrow> ''stopped'' | Some st \<Rightarrow> st),
       su_total_count = sum_list (map count (confirmed_statuses scope (ac_account_id a) rows)),
       su_active_count = sum_list (map count (if scope = ''bought''
         then [''pending_payment'', ''waiting_seller_delivery'', ''shipped'', ''refunding'']
         else [''pending_payment'', ''paid_waiting_delivery'', ''refunding''])),
       su_pending_count = count (if scope = ''bought'' then ''waiting_seller_delivery'' else ''paid_waiting_delivery''),
       su_refunding_count = count ''refunding'', su_setting = setting_to_payload setting scope\<rparr>)"

text \<open>The names that are shown are left out.\<close>

definition list_account_summaries ::
  "timestamp \<Rightarrow> jitter \<Rightarrow> (string \<rightharpoonup> string) \<Rightarrow> string \<Rightarrow> sync_db \<Rightarrow> sync_value_error + (sync_db \<times> account_summary list)" where
  "list_account_summaries now jitter runtimes scope db =
     (if \<not> valid_scope scope then Inl UnsupportedScope
      else let accounts = sort_key ac_created_at (filter ac_order_management_visible (sy_accounts db));
               db' = ensure_account_settings now jitter (map ac_account_id accounts) db
           in Inr (db', map (\<lambda>a. summarize runtimes scope (ob_orders (sy_orders db'))
                (get_or_create_setting (ac_account_id a) now jitter (sy_settings db')) a) accounts))"

definition list_runs :: "string \<Rightarrow> int \<Rightarrow> string \<Rightarrow> sync_db \<Rightarrow> sync_value_error + sync_run list" where
  "list_runs account_id limit scope db =
     (if \<not> valid_scope scope then Inl UnsupportedScope
      else Inr (take (nat (max 1 (min limit 200))) (sort_key (\<lambda>r. - yr_created_at r)
        (filter (\<lambda>r. yr_account_id r = account_id \<and> yr_scope r = scope) (sy_runs db)))))"

section \<open>The scheduler\<close>

text \<open>One scan: every due synchronisation is requested and scheduled anew. \<open>ids\<close> draws the identifiers.\<close>

definition scan_due :: "(nat \<Rightarrow> string \<times> string) \<Rightarrow> timestamp \<Rightarrow> jitter \<Rightarrow> string option \<Rightarrow> sync_db \<Rightarrow> sync_db" where
  "scan_due ids now jitter refused db0 =
     (let db = ensure_account_settings now jitter (map ac_account_id (sy_accounts db0)) db0;
          due = list_due_settings now db
      in foldl (\<lambda>d (n, account_id, scope, mode).
           reschedule now jitter account_id mode scope
             (fst (create_and_enqueue_order_sync (fst (ids n)) (snd (ids n)) now jitter refused account_id scope mode ''scheduled'' d)))
         db (zip [0..<length due] due))"

end
