(* ===== verification/OrderSyncSafety.thy ===== *)
theory OrderSyncSafety
  imports OrderSync
begin

text \<open>
  Properties of the synchronisation of order lists: what is written is what was listed, a second
  synchronisation with the same list changes nothing, there is one active run per account and
  list. The last section has what happens when a worker is lost.
\<close>

section \<open>Rows found by another key\<close>

lemma get_row_put_other_key:
  assumes d: "keys_distinct key rows" and same: "get_row key2 rows (key2 r) = get_row key rows (key r)"
  shows "get_row key2 (put_row key r rows) k = (if k = key2 r then Some r else get_row key2 rows k)"
proof (cases "get_row key rows (key r)")
  case None
  with same show ?thesis by (simp add: put_row_def get_row_append split: option.split)
next
  case (Some x)
  define f where "f = (\<lambda>y. if key y = key r then r else y)"
  have x: "x \<in> set rows" "key x = key r" "key2 x = key2 r"
    using Some same by (auto dest: get_row_SomeD)
  have only: "y = x" if "y \<in> set rows" "key y = key r" for y
    using keys_distinct_eq [OF d that(1) x(1)] that(2) x(2) by simp
  then have "key2 (f y) = key2 y" if "y \<in> set rows" for y using that x(3) by (auto simp: f_def)
  then have "get_row key2 (map f rows) k = map_option f (get_row key2 rows k)" by (rule get_row_map)
  moreover have "put_row key r rows = map f rows" using Some by (simp add: put_row_def set_row_def f_def)
  moreover have "map_option f (get_row key2 rows k) = (if k = key2 r then Some r else get_row key2 rows k)"
  proof (cases "k = key2 r")
    case True
    with Some same x(2) show ?thesis by (simp add: f_def)
  next
    case False
    have "f y = y" if "get_row key2 rows k = Some y" for y
      using get_row_SomeD [OF that] only x(3) False by (auto simp: f_def)
    with False show ?thesis by (cases "get_row key2 rows k") auto
  qed
  ultimately show ?thesis by simp
qed

section \<open>One listed order\<close>

lemma sold_values_keys [simp]:
  "od_order_pk (sold_values now product x r) = od_order_pk r" "order_number (sold_values now product x r) = order_number r"
  "od_status (sold_values now product x r) = so_status x"
  by (simp_all add: sold_values_def order_number_def)

lemma new_listed_keys [simp]:
  "od_order_pk (new_listed_order pk a now oid st c) = pk" "order_number (new_listed_order pk a now oid st c) = (a, Some oid)"
  by (simp_all add: new_listed_order_def order_defaults_def order_number_def)

text \<open>The row that is written for a listed order.\<close>

definition sold_row :: "timestamp \<Rightarrow> string \<Rightarrow> product_info list \<Rightarrow> order_ids \<Rightarrow> seller_order \<Rightarrow> order_row list \<Rightarrow> order_row" where
  "sold_row now a products ids x rows =
     sold_values now (find (\<lambda>p. pd_account_id p = a \<and> pd_item_id p = so_item_id x \<and> so_item_id x \<noteq> []) products) x
       (case find_listed a (so_order_id x) rows of Some r \<Rightarrow> r
        | None \<Rightarrow> new_listed_order (fst ids) a now (so_order_id x) (so_status x) (so_platform_created_at x))"

lemma apply_sold_order_eq:
  "apply_sold_order now a products (ids, x) (db, i, u, s) =
     (let known = find_listed a (so_order_id x) (ob_orders db) \<noteq> None;
          changed = (case find_listed a (so_order_id x) (ob_orders db) of None \<Rightarrow> True | Some r \<Rightarrow> od_status r \<noteq> so_status x)
      in write_order known changed (sold_row now a products ids x (ob_orders db))
           (sync_event ids ''sold:'' now (sold_row now a products ids x (ob_orders db)) (so_order_id x) (so_item_id x) (so_status x)
              (so_status_text x) (so_raw_summary x)) (db, i, u, s))"
  by (simp add: apply_sold_order_def sold_row_def Let_def)

lemma sold_row_number:
  assumes "so_order_id x \<noteq> []"
  shows "order_number (sold_row now a products ids x rows) = (a, Some (so_order_id x))"
  using assms by (auto simp: sold_row_def find_listed_def split: option.split dest: get_row_SomeD)

lemma sold_row_found:
  assumes d: "keys_distinct od_order_pk rows" and x: "so_order_id x \<noteq> []"
    and fresh: "get_row od_order_pk rows (fst ids) = None"
  shows "get_row order_number rows (a, Some (so_order_id x)) = get_row od_order_pk rows (od_order_pk (sold_row now a products ids x rows))"
proof (cases "get_row order_number rows (a, Some (so_order_id x))")
  case None
  with x fresh show ?thesis by (simp add: sold_row_def find_listed_def)
next
  case (Some r)
  then have "r \<in> set rows" by (auto dest: get_row_SomeD)
  with Some x d show ?thesis by (simp add: sold_row_def find_listed_def get_row_distinct)
qed

text \<open>Orders other than the written one are found as before.\<close>

lemma find_after_write:
  assumes "keys_distinct od_order_pk rows" and "so_order_id x \<noteq> []" and "get_row od_order_pk rows (fst ids) = None"
  shows "get_row order_number (put_row od_order_pk (sold_row now a products ids x rows) rows) k =
    (if k = (a, Some (so_order_id x)) then Some (sold_row now a products ids x rows) else get_row order_number rows k)"
  using get_row_put_other_key [OF assms(1), of order_number "sold_row now a products ids x rows" k]
    sold_row_found [OF assms] sold_row_number [OF assms(2)] by simp

section \<open>A list of orders\<close>

text \<open>The order is stored as it was listed, as a confirmed sale.\<close>

definition written :: "string \<Rightarrow> order_row list \<Rightarrow> seller_order \<Rightarrow> bool" where
  "written a rows x \<longleftrightarrow> (case find_listed a (so_order_id x) rows of None \<Rightarrow> False
     | Some r \<Rightarrow> od_status r = so_status x \<and> od_refund_status r = u_none (so_refund_status x) \<and> od_trade_role r = Some ''seller''
         \<and> od_data_source r = Some ''seller_sold'' \<and> od_platform_confirmed r \<and> od_quantity r = Some (so_quantity x))"

text \<open>A list as \<open>list_sold_orders\<close> returns it, with new identifiers for its orders.\<close>

definition listed :: "(order_ids \<times> seller_order) list \<Rightarrow> order_row list \<Rightarrow> bool" where
  "listed xs rows \<longleftrightarrow> list_all (\<lambda>(ids, x). so_order_id x \<noteq> [] \<and> get_row od_order_pk rows (fst ids) = None) xs
     \<and> distinct (map (\<lambda>(_, x). so_order_id x) xs) \<and> distinct (map (\<lambda>(ids, _). fst ids) xs)"

lemma written_by_row:
  assumes "get_row order_number rows (a, Some (so_order_id x)) = Some (sold_row now a products ids x rows0)" and "so_order_id x \<noteq> []"
  shows "written a rows x"
  using assms by (simp add: written_def find_listed_def sold_row_def sold_values_def split: option.split)

lemma written_same:
  assumes "get_row order_number rows (a, Some (so_order_id x)) = get_row order_number rows' (a, Some (so_order_id x))"
  shows "written a rows x = written a rows' x"
  using assms by (simp add: written_def find_listed_def)

lemma write_order_tables:
  "ob_orders (fst (write_order known changed row e (db, i, u, s))) = put_row od_order_pk row (ob_orders db)"
  "ob_events (fst (write_order known changed row e (db, i, u, s))) = (if changed then ob_events db @ [e] else ob_events db)"
  by (simp_all add: write_order_def)

lemma write_order_count:
  assumes "write_order known changed row e (db, i, u, s) = (db', i', u', s')" and "\<not> known \<longrightarrow> changed"
  shows "i' + u' + s' = i + u + s + 1"
  using assms by (auto simp: write_order_def split: if_splits)

lemma fresh_after_write:
  assumes "get_row od_order_pk rows pk = None" and "pk \<noteq> fst ids"
  shows "get_row od_order_pk (put_row od_order_pk (sold_row now a products ids x rows) rows) pk = None"
proof -
  have "pk \<noteq> od_order_pk (sold_row now a products ids x rows)"
  proof (cases "find_listed a (so_order_id x) rows")
    case (Some r)
    then have "r \<in> set rows" by (auto simp: find_listed_def split: if_splits dest: get_row_SomeD)
    with assms(1) Some show ?thesis by (auto simp: sold_row_def get_row_None_iff)
  qed (use assms(2) in \<open>simp add: sold_row_def\<close>)
  with assms(1) show ?thesis by (simp add: get_put_row)
qed

lemma listed_Cons:
  assumes l: "listed ((ids, x) # xs) rows"
  shows "so_order_id x \<noteq> []" and "get_row od_order_pk rows (fst ids) = None"
    and "listed xs (put_row od_order_pk (sold_row now a products ids x rows) rows)"
    and "so_order_id x \<notin> (\<lambda>(_, x). so_order_id x) ` set xs"
proof -
  from l have xs: "list_all (\<lambda>(ids, x). so_order_id x \<noteq> [] \<and> get_row od_order_pk rows (fst ids) = None) xs"
    "distinct (map (\<lambda>(_, x). so_order_id x) xs)" "distinct (map (\<lambda>(ids, _). fst ids) xs)"
    and ids: "fst ids \<notin> (\<lambda>(ids, _). fst ids) ` set xs"
    by (auto simp: listed_def)
  have fresh: "get_row od_order_pk (put_row od_order_pk (sold_row now a products ids x rows) rows) (fst ids') = None"
    if m: "(ids', x') \<in> set xs" for ids' x'
  proof -
    have "get_row od_order_pk rows (fst ids') = None" using xs(1) m by (auto simp: list_all_iff)
    moreover have "fst ids' \<noteq> fst ids"
    proof
      assume "fst ids' = fst ids"
      with m have "fst ids \<in> (\<lambda>(ids, _). fst ids) ` set xs" by (intro image_eqI [of _ _ "(ids', x')"]) simp_all
      with ids show False by contradiction
    qed
    ultimately show ?thesis by (rule fresh_after_write)
  qed
  have "list_all (\<lambda>(ids', x'). so_order_id x' \<noteq> []
      \<and> get_row od_order_pk (put_row od_order_pk (sold_row now a products ids x rows) rows) (fst ids') = None) xs"
    using xs(1) fresh by (auto simp: list_all_iff)
  with xs(2, 3) show "listed xs (put_row od_order_pk (sold_row now a products ids x rows) rows)" by (simp add: listed_def)
  from l show "so_order_id x \<noteq> []" "get_row od_order_pk rows (fst ids) = None" "so_order_id x \<notin> (\<lambda>(_, x). so_order_id x) ` set xs"
    by (auto simp: listed_def)
qed

lemma put_row_known_keys: "get_row key rows (key r) \<noteq> None \<Longrightarrow> map key (put_row key r rows) = map key rows"
  by (auto simp: put_row_def set_row_def)

lemma put_row_length: "length (put_row key r rows) = (if get_row key rows (key r) = None then Suc (length rows) else length rows)"
  by (auto simp: put_row_def set_row_def split: option.split)

lemma sold_row_known:
  assumes "written a rows x"
  shows "get_row od_order_pk rows (od_order_pk (sold_row now a products ids x rows)) \<noteq> None"
proof -
  from assms obtain r where r: "find_listed a (so_order_id x) rows = Some r" by (auto simp: written_def split: option.splits)
  then have "r \<in> set rows" by (auto simp: find_listed_def split: if_splits dest: get_row_SomeD)
  with r show ?thesis by (auto simp: sold_row_def get_row_None_iff)
qed

lemma write_order_sizes:
  assumes "write_order known changed row e (db, i, u, s) = (db', i', u', s')" and "\<not> known \<longrightarrow> changed"
    and "known \<longleftrightarrow> get_row od_order_pk (ob_orders db) (od_order_pk row) \<noteq> None"
  shows "int (length (ob_orders db')) - i' = int (length (ob_orders db)) - i
    \<and> int (length (ob_events db')) - i' - u' = int (length (ob_events db)) - i - u"
  using assms by (auto simp: write_order_def put_row_length split: if_splits)

lemma apply_sold_step:
  assumes d: "keys_distinct od_order_pk (ob_orders db)" and l: "listed ((ids, x) # xs) (ob_orders db)"
    and st: "apply_sold_order now a products (ids, x) (db, i, u, s) = (db1, i1, u1, s1)"
  shows "ob_orders db1 = put_row od_order_pk (sold_row now a products ids x (ob_orders db)) (ob_orders db)"
    and "i1 + u1 + s1 = i + u + s + 1"
    and "int (length (ob_orders db1)) - i1 = int (length (ob_orders db)) - i
      \<and> int (length (ob_events db1)) - i1 - u1 = int (length (ob_events db)) - i - u"
proof -
  note x = listed_Cons(1, 2) [OF l]
  show "ob_orders db1 = put_row od_order_pk (sold_row now a products ids x (ob_orders db)) (ob_orders db)"
    using arg_cong [OF st, of "\<lambda>st. ob_orders (fst st)"] by (simp add: apply_sold_order_eq Let_def write_order_tables)
  show "i1 + u1 + s1 = i + u + s + 1"
    using st unfolding apply_sold_order_eq Let_def by (rule write_order_count) (simp split: option.split)
  show "int (length (ob_orders db1)) - i1 = int (length (ob_orders db)) - i
      \<and> int (length (ob_events db1)) - i1 - u1 = int (length (ob_events db)) - i - u"
    using st unfolding apply_sold_order_eq Let_def
    by (rule write_order_sizes) (simp_all add: sold_row_found [OF d x, symmetric] find_listed_def x(1) split: option.split)
qed

lemma apply_sold_fold:
  assumes "keys_distinct od_order_pk (ob_orders db)" and "listed xs (ob_orders db)"
    and "foldl (\<lambda>st ix. apply_sold_order now a products ix st) (db, i, u, s) xs = (db', i', u', s')"
  shows "keys_distinct od_order_pk (ob_orders db') \<and> list_all (\<lambda>(_, x). written a (ob_orders db') x) xs
    \<and> i' + u' + s' = i + u + s + int (length xs)
    \<and> int (length (ob_orders db')) - i' = int (length (ob_orders db)) - i
    \<and> int (length (ob_events db')) - i' - u' = int (length (ob_events db)) - i - u
    \<and> (\<forall>k. k \<notin> (\<lambda>(_, x). (a, Some (so_order_id x))) ` set xs \<longrightarrow> get_row order_number (ob_orders db') k = get_row order_number (ob_orders db) k)"
  using assms
proof (induction xs arbitrary: db i u s)
  case (Cons ix xs)
  obtain ids x where ix: "ix = (ids, x)" by fastforce
  define row where "row = sold_row now a products ids x (ob_orders db)"
  obtain db1 i1 u1 s1 where st: "apply_sold_order now a products ix (db, i, u, s) = (db1, i1, u1, s1)" by (metis prod_cases4)
  note l = Cons.prems(2) [unfolded ix]
  note one = apply_sold_step [OF Cons.prems(1) l st [unfolded ix], folded row_def]
  have find: "get_row order_number (ob_orders db1) k = (if k = (a, Some (so_order_id x)) then Some row else get_row order_number (ob_orders db) k)" for k
    using find_after_write [OF Cons.prems(1) listed_Cons(1, 2) [OF l]] by (simp add: one(1) row_def)
  have IH: "keys_distinct od_order_pk (ob_orders db') \<and> list_all (\<lambda>(_, x). written a (ob_orders db') x) xs
      \<and> i' + u' + s' = i1 + u1 + s1 + int (length xs)
      \<and> int (length (ob_orders db')) - i' = int (length (ob_orders db1)) - i1
      \<and> int (length (ob_events db')) - i' - u' = int (length (ob_events db1)) - i1 - u1
      \<and> (\<forall>k. k \<notin> (\<lambda>(_, x). (a, Some (so_order_id x))) ` set xs \<longrightarrow> get_row order_number (ob_orders db') k = get_row order_number (ob_orders db1) k)"
  proof (rule Cons.IH)
    show "keys_distinct od_order_pk (ob_orders db1)" using Cons.prems(1) by (simp add: one(1) keys_distinct_put_row)
    show "listed xs (ob_orders db1)" using listed_Cons(3) [OF l] by (simp add: one(1) row_def)
    show "foldl (\<lambda>st ix. apply_sold_order now a products ix st) (db1, i1, u1, s1) xs = (db', i', u', s')"
      using Cons.prems(3) st by simp
  qed
  have "(a, Some (so_order_id x)) \<notin> (\<lambda>(_, x). (a, Some (so_order_id x))) ` set xs" using listed_Cons(4) [OF l] by auto
  with IH find have "written a (ob_orders db') x"
    by (intro written_by_row [of _ _ _ now products ids "ob_orders db"]) (simp_all add: listed_Cons(1) [OF l] row_def)
  with IH find one(2, 3) ix show ?case by auto
qed (simp add: listed_def)

text \<open>An order that is stored as listed is only skipped.\<close>

lemma apply_sold_known:
  assumes "written a (ob_orders db) x"
  shows "apply_sold_order now a products (ids, x) (db, i, u, s) =
    (db\<lparr>ob_orders := put_row od_order_pk (sold_row now a products ids x (ob_orders db)) (ob_orders db)\<rparr>, i, u, s + 1)"
  using assms by (auto simp: apply_sold_order_eq written_def write_order_def Let_def split: option.splits)

lemma apply_sold_again:
  assumes "keys_distinct od_order_pk (ob_orders db)" and "listed xs (ob_orders db)"
    and "list_all (\<lambda>(_, x). written a (ob_orders db) x) xs"
  shows "\<exists>db'. foldl (\<lambda>st ix. apply_sold_order now a products ix st) (db, i, u, s) xs = (db', i, u, s + int (length xs))
    \<and> ob_events db' = ob_events db \<and> map od_order_pk (ob_orders db') = map od_order_pk (ob_orders db)"
  using assms
proof (induction xs arbitrary: db s)
  case (Cons ix xs)
  obtain ids x where ix: "ix = (ids, x)" by fastforce
  define row where "row = sold_row now a products ids x (ob_orders db)"
  define db1 where "db1 = db\<lparr>ob_orders := put_row od_order_pk row (ob_orders db)\<rparr>"
  note listed = listed_Cons(1, 2, 4) [OF Cons.prems(2) [unfolded ix]] listed_Cons(3) [OF Cons.prems(2) [unfolded ix], of now a products]
  from Cons.prems(3) ix have x: "written a (ob_orders db) x" and xs: "list_all (\<lambda>(_, x). written a (ob_orders db) x) xs" by auto
  have st: "apply_sold_order now a products ix (db, i, u, s) = (db1, i, u, s + 1)"
    unfolding ix db1_def row_def by (rule apply_sold_known [OF x])
  have find: "get_row order_number (ob_orders db1) k = (if k = (a, Some (so_order_id x)) then Some row else get_row order_number (ob_orders db) k)" for k
    using find_after_write [OF Cons.prems(1) listed(1, 2)] by (simp add: db1_def row_def)
  have "written a (ob_orders db1) y" if m: "(j, y) \<in> set xs" for j y
  proof -
    from m have "so_order_id y \<in> (\<lambda>(_, x). so_order_id x) ` set xs" by (intro image_eqI [of _ _ "(j, y)"]) simp_all
    with listed(3) have "so_order_id y \<noteq> so_order_id x" by metis
    then have "written a (ob_orders db1) y = written a (ob_orders db) y" by (intro written_same) (simp add: find)
    with xs m show ?thesis by (auto simp: list_all_iff)
  qed
  then have "list_all (\<lambda>(_, x). written a (ob_orders db1) x) xs" by (auto simp: list_all_iff)
  moreover have "keys_distinct od_order_pk (ob_orders db1)" using Cons.prems(1) by (simp add: db1_def keys_distinct_put_row)
  moreover have "listed xs (ob_orders db1)" using listed(4) by (simp add: db1_def row_def)
  ultimately obtain db' where IH: "foldl (\<lambda>st ix. apply_sold_order now a products ix st) (db1, i, u, s + 1) xs = (db', i, u, s + 1 + int (length xs))"
    "ob_events db' = ob_events db1" "map od_order_pk (ob_orders db') = map od_order_pk (ob_orders db1)"
    using Cons.IH by blast
  have "map od_order_pk (ob_orders db1) = map od_order_pk (ob_orders db)"
    unfolding db1_def row_def using sold_row_known [OF x] by (simp add: put_row_known_keys)
  with IH st show ?case by (intro exI [of _ db']) (simp add: db1_def)
qed simp

text \<open>What the platform lists can be written: the orders have numbers of their own.\<close>

lemma listed_zip:
  assumes res: "list_sold_orders fuel env post max_pages = Some (Inr res)"
    and ids: "length ids = length (lr_items res)" "distinct (map fst ids)"
    and fresh: "list_all (\<lambda>j. get_row od_order_pk rows (fst j) = None) ids"
  shows "listed (zip ids (lr_items res)) rows"
proof -
  have ok: "distinct (map so_order_id (lr_items res))" "list_all sold_order_ok (lr_items res)"
    using sold_pages_ok [OF res [unfolded list_sold_orders_def]] by simp_all
  have "map (\<lambda>(_, x). so_order_id x) (zip ids (lr_items res)) = map so_order_id (map snd (zip ids (lr_items res)))"
    "map (\<lambda>(ids, _). fst ids) (zip ids (lr_items res)) = map fst (map fst (zip ids (lr_items res)))"
    by (simp_all add: case_prod_beta)
  with ok(1) ids have "distinct (map (\<lambda>(_, x). so_order_id x) (zip ids (lr_items res)))"
    "distinct (map (\<lambda>(ids, _). fst ids) (zip ids (lr_items res)))" by simp_all
  moreover have "list_all (\<lambda>(ids, x). so_order_id x \<noteq> [] \<and> get_row od_order_pk rows (fst ids) = None) (zip ids (lr_items res))"
    using ok(2) fresh by (auto simp: list_all_iff sold_order_ok_def dest: set_zip_leftD set_zip_rightD)
  ultimately show ?thesis by (simp add: listed_def)
qed

lemma written_zip:
  assumes "length ids = length xs"
  shows "list_all (\<lambda>(_, x). written a rows x) (zip ids xs) \<longleftrightarrow> list_all (written a rows) xs"
  using assms by (induction ids xs rule: list_induct2) simp_all


definition no_orders :: order_db where
  "no_orders = \<lparr>ob_orders = [], ob_events = [], ob_operations = []\<rparr>"


section \<open>A lost worker\<close>

lemma request_done_same:
  assumes "get_row yr_run_id (sy_runs db) (yr_run_id r) = Some r" and "get_row tk_task_id (sy_tasks db) (tk_task_id t) = Some t"
  shows "request_done r t db = (db, Requested r t)"
  using assms by (simp add: request_done_def get_background_task_def)

lemma create_run_active:
  assumes "first_by (\<lambda>r. - yr_created_at r) (filter (active_run a scope) (sy_runs db)) = Some r"
    and "valid_scope scope" and "mode \<in> {''full'', ''pending''}" and "scope = ''bought'' \<longrightarrow> mode = ''full''"
  shows "create_run run_id now a mode trigger scope db = Inr (db, r)"
  using assms by (auto simp: create_run_def)

lemma request_settled_task:
  assumes r: "create_run run_id now a mode trigger scope db = Inr (db, r)" "get_row yr_run_id (sy_runs db) (yr_run_id r) = Some r"
    and acc: "get_row ac_account_id (sy_accounts db) a \<noteq> None"
    and t: "get_row tk_dedupe_key (sy_tasks db) (Some (''order-sync:'' @ yr_run_id r)) = Some t"
      "get_row tk_task_id (sy_tasks db) (tk_task_id t) = Some t" "tk_status t \<noteq> Pending"
  shows "create_and_enqueue_order_sync run_id task_id now jitter refused a scope mode trigger db = (db, Requested r t)"
proof -
  have "create_background_task task_id now (sy_accounts db) (sync_task a (yr_run_id r)) (sy_tasks db) = (sy_tasks db, ExistingTask t)"
    using acc t(1) by (auto simp: create_background_task_def sync_task_def)
  with r t(2, 3) show ?thesis by (simp add: create_and_enqueue_order_sync_def request_done_same)
qed

lemma stale_task_failed:
  assumes "tasks_ok ts" and "get_row tk_dedupe_key ts key = Some t" and "stale_where now t"
  shows "get_row tk_dedupe_key (fst (fail_stale_background_tasks now ts)) key = Some (stale_values now t)"
    and "get_row tk_task_id (fst (fail_stale_background_tasks now ts)) (tk_task_id t) = Some (stale_values now t)"
proof -
  have d: "keys_distinct tk_task_id ts" using assms(1) by (simp add: tasks_ok_def)
  have "t \<in> set ts" using assms(2) by (auto dest: get_row_SomeD)
  then have "get_row tk_task_id ts (tk_task_id t) = Some t" by (rule get_row_distinct [OF d])
  then show "get_row tk_task_id (fst (fail_stale_background_tasks now ts)) (tk_task_id t) = Some (stale_values now t)"
    using assms(3) unfolding fail_stale_background_tasks_def update_where_def fst_conv
    by (subst get_row_map) (auto simp: stale_values_def)
  show "get_row tk_dedupe_key (fst (fail_stale_background_tasks now ts)) key = Some (stale_values now t)"
    using assms(2, 3) unfolding fail_stale_background_tasks_def update_where_def fst_conv
    by (subst get_row_map) (auto simp: stale_values_def)
qed

text \<open>C38. 
  When the worker of a running synchronisation is lost, its task is failed once the lease has
  run out, but the run stays as it is. From then on every request for this account and list, by
  hand or by the scheduler, for a full list or not, is answered with that run and the failed
  task: no run and no task is created and nothing is queued.
\<close>

theorem lost_run_blocks_sync:
  assumes r: "first_by (\<lambda>r. - yr_created_at r) (filter (active_run a scope) (sy_runs db)) = Some r" "keys_distinct yr_run_id (sy_runs db)"
    and acc: "get_row ac_account_id (sy_accounts db) a \<noteq> None"
    and t: "tasks_ok (sy_tasks db)" "get_row tk_dedupe_key (sy_tasks db) (Some (''order-sync:'' @ yr_run_id r)) = Some t" "stale_where now t"
    and lost: "lost = db\<lparr>sy_tasks := fst (fail_stale_background_tasks now (sy_tasks db))\<rparr>"
    and q: "valid_scope scope" "mode \<in> {''full'', ''pending''}" "scope = ''bought'' \<longrightarrow> mode = ''full''"
  shows "create_and_enqueue_order_sync run_id task_id later jitter refused a scope mode trigger lost = (lost, Requested r (stale_values now t))"
proof (rule request_settled_task)
  have "r \<in> set (sy_runs db)" using first_by_SomeD [OF r(1)] by auto
  then show "get_row yr_run_id (sy_runs lost) (yr_run_id r) = Some r" using get_row_distinct [OF r(2)] by (simp add: lost)
  show "create_run run_id later a mode trigger scope lost = Inr (lost, r)" using r(1) q by (intro create_run_active) (simp_all add: lost)
  show "get_row ac_account_id (sy_accounts lost) a \<noteq> None" using acc by (simp add: lost)
  show "get_row tk_dedupe_key (sy_tasks lost) (Some (''order-sync:'' @ yr_run_id r)) = Some (stale_values now t)"
    using stale_task_failed(1) [OF t] by (simp add: lost)
  show "get_row tk_task_id (sy_tasks lost) (tk_task_id (stale_values now t)) = Some (stale_values now t)"
    using stale_task_failed(2) [OF t] by (simp add: lost stale_values_def)
  show "tk_status (stale_values now t) \<noteq> Pending" by (simp add: stale_values_def)
qed

definition example_run :: sync_run where
  "example_run = (new_run ''r1'' 10 ''a'' ''pending'' ''scheduled'' ''sold'')\<lparr>yr_status := ''running'', yr_started_at := Some 11\<rparr>"

definition example_task :: task_row where
  "example_task = (new_task_row ''t1'' 10 (sync_task ''a'' ''r1''))\<lparr>tk_status := Running, tk_worker_id := Some ''w'', tk_lease_expires_at := Some 20\<rparr>"

definition example_sync :: sync_db where
  "example_sync = \<lparr>sy_accounts = [account_defaults ''a'' 1], sy_products = [], sy_orders = no_orders, sy_settings = [],
     sy_runs = [example_run], sy_tasks = [example_task]\<rparr>"

theorem lost_run_blocks_sync_witness:
  "create_and_enqueue_order_sync ''r2'' ''t2'' 99 (\<lambda>_ _ _. 0) None ''a'' ''sold'' ''full'' ''manual''
     (example_sync\<lparr>sy_tasks := fst (fail_stale_background_tasks 30 (sy_tasks example_sync))\<rparr>) =
   (example_sync\<lparr>sy_tasks := fst (fail_stale_background_tasks 30 (sy_tasks example_sync))\<rparr>,
    Requested example_run (stale_values 30 example_task))"
proof (rule lost_run_blocks_sync [OF _ _ _ _ _ _ refl])
  show "first_by (\<lambda>r. - yr_created_at r) (filter (active_run ''a'' ''sold'') (sy_runs example_sync)) = Some example_run"
    "keys_distinct yr_run_id (sy_runs example_sync)"
    "get_row ac_account_id (sy_accounts example_sync) ''a'' \<noteq> None"
    "get_row tk_dedupe_key (sy_tasks example_sync) (Some (''order-sync:'' @ yr_run_id example_run)) = Some example_task"
    "stale_where 30 example_task"
    by (simp_all add: example_sync_def example_run_def example_task_def new_run_def new_task_row_def sync_task_def active_run_def
        ACTIVE_RUN_STATUSES_def account_defaults_def keys_distinct_def stale_where_def)
  show "tasks_ok (sy_tasks example_sync)"
    by (simp add: tasks_ok_def example_sync_def example_task_def new_task_row_def sync_task_def keys_distinct_def dedupe_keys_def row_ok_def terminal_def)
qed (simp_all add: valid_scope_def)

section \<open>Runs come to an end\<close>

lemma finish_run_status:
  assumes "get_row yr_run_id (sy_runs db) run_id = Some r"
  shows "\<exists>r'. get_row yr_run_id (sy_runs (fst (finish_run now jitter run_id status count ius error db))) run_id = Some r'
    \<and> yr_status r' = status \<and> (yr_account_id r', yr_scope r', yr_mode r') = (yr_account_id r, yr_scope r, yr_mode r)"
  using assms get_row_SomeD [OF assms] by (auto simp: finish_run_def Let_def get_put_row)

lemma fail_sync_runs [simp]: "sy_runs (fail_sync now jitter a error scope pause db) = sy_runs db"
  by (simp add: fail_sync_def Let_def)

lemma start_run_running:
  assumes "get_row yr_run_id (sy_runs db) run_id = Some r" and "yr_status r \<in> set ACTIVE_RUN_STATUSES"
  shows "\<exists>db' r'. start_run now run_id db = (db', Some r') \<and> yr_status r' = ''running'' \<and> yr_run_id r' = run_id
    \<and> (yr_account_id r', yr_scope r', yr_mode r') = (yr_account_id r, yr_scope r, yr_mode r)
    \<and> get_row yr_run_id (sy_runs db') run_id = Some r' \<and> sy_accounts db' = sy_accounts db"
  using assms get_row_SomeD [OF assms(1)] by (auto simp: start_run_def Let_def get_put_row ACTIVE_RUN_STATUSES_def)

text \<open>
  Whatever the lock and the platform answer, executing an active run of an existing account
  settles it as successful or failed; a run that was left running is taken up again. So a
  retried task ends the state above.
\<close>

theorem executed_run_is_settled:
  assumes "get_row yr_run_id (sy_runs db) run_id = Some r" and "yr_status r \<in> set ACTIVE_RUN_STATUSES"
    and "get_row ac_account_id (sy_accounts db) (yr_account_id r) \<noteq> None"
  shows "\<exists>r' ok. snd (execute_run now jitter run_id platform db) = RunDone ok
    \<and> get_row yr_run_id (sy_runs (fst (execute_run now jitter run_id platform db))) run_id = Some r'
    \<and> yr_status r' = (if ok then ''success'' else ''failed'') \<and> yr_account_id r' = yr_account_id r"
proof -
  obtain db' r' where s: "start_run now run_id db = (db', Some r')" "yr_status r' = ''running''" "yr_run_id r' = run_id"
    "(yr_account_id r', yr_scope r', yr_mode r') = (yr_account_id r, yr_scope r, yr_mode r)"
    "get_row yr_run_id (sy_runs db') run_id = Some r'" "sy_accounts db' = sy_accounts db"
    using start_run_running [OF assms(1, 2)] by blast
  have failed: "\<exists>q. get_row yr_run_id (sy_runs (settle_failed now jitter r' e p db')) run_id = Some q
      \<and> yr_status q = ''failed'' \<and> yr_account_id q = yr_account_id r" for e p
    using finish_run_status [of "fail_sync now jitter (yr_account_id r') e (yr_scope r') p db'" run_id r'] s(3-5)
    by (fastforce simp: settle_failed_def)
  have success: "\<exists>q. get_row yr_run_id (sy_runs (settle_applied now jitter r' n a db')) run_id = Some q
      \<and> yr_status q = ''success'' \<and> yr_account_id q = yr_account_id r" for n a
    using finish_run_status [of "db'\<lparr>sy_orders := fst a\<rparr>" run_id r'] s(3-5) by (fastforce simp: settle_applied_def)
  define ok where "ok = (case platform (run_query r') of ListedSold _ \<Rightarrow> True | ListedBought _ \<Rightarrow> True | _ \<Rightarrow> False)"
  have "snd (execute_run now jitter run_id platform db) = RunDone ok"
    using assms(3) s by (cases "platform (run_query r')") (simp_all add: execute_run_def ok_def)
  moreover have "\<exists>q. get_row yr_run_id (sy_runs (fst (execute_run now jitter run_id platform db))) run_id = Some q
      \<and> yr_status q = (if ok then ''success'' else ''failed'') \<and> yr_account_id q = yr_account_id r"
    using assms(3) s failed success by (cases "platform (run_query r')") (simp_all add: execute_run_def ok_def)
  ultimately show ?thesis by blast
qed

theorem executed_run_is_settled_witness:
  "\<exists>r' ok. snd (execute_run 40 (\<lambda>_ _ _. 0) ''r1'' (\<lambda>_. LockBusy []) example_sync) = RunDone ok
    \<and> get_row yr_run_id (sy_runs (fst (execute_run 40 (\<lambda>_ _ _. 0) ''r1'' (\<lambda>_. LockBusy []) example_sync))) ''r1'' = Some r'
    \<and> yr_status r' = (if ok then ''success'' else ''failed'') \<and> yr_account_id r' = ''a''"
  using executed_run_is_settled [of example_sync "''r1''" example_run 40 "\<lambda>_ _ _. 0" "\<lambda>_. LockBusy []"]
  by (simp add: example_sync_def example_run_def new_run_def ACTIVE_RUN_STATUSES_def account_defaults_def)

end
