(* ===== verification/ProductTasks.thy ===== *)
theory ProductTasks
  imports Accounts Orders
begin

text \<open>
  Product drafts, image assets, address groups and publish tasks as \<open>store.py\<close> keeps them: creation
  of a task from a draft or directly, retries, the list of the attempts of a job, the result of
  an execution, and the removal of images that are no longer needed. A JSON column is the value
  that was stored in it; \<open>secrets.choice\<close> is an index into the candidates.
\<close>

section \<open>Tables\<close>

record image_asset =
  ia_asset_id :: ustr
  ia_account_id :: string
  ia_original_filename :: ustr
  ia_mime_type :: string
  ia_width :: int
  ia_height :: int
  ia_size_bytes :: int
  ia_sha256 :: string
  ia_upload_session_id :: "string option"
  ia_state :: "string option"
  ia_expires_at :: "timestamp option"
  ia_last_referenced_at :: "timestamp option"
  ia_created_at :: timestamp

record product_draft =
  pf_draft_id :: string
  pf_account_id :: string
  pf_title :: ustr
  pf_description :: ustr
  pf_price :: ustr
  pf_original_price :: "ustr option"
  pf_stock :: int
  pf_category_id :: "ustr option"
  pf_category_hint :: "ustr option"
  pf_images :: "ustr list"
  pf_delivery_choice :: "string option"
  pf_post_price :: "ustr option"
  pf_can_self_pickup :: "bool option"
  pf_location_mode :: "string option"
  pf_location :: json
  pf_location_group_id :: "string option"
  pf_status :: string
  pf_created_at :: timestamp
  pf_updated_at :: timestamp

record publish_task =
  pt_task_id :: string
  pt_account_id :: string
  pt_draft_id :: string
  pt_mode :: string
  pt_status :: string
  pt_phase :: "string option"
  pt_unique_code :: ustr
  pt_idempotency_key :: string
  pt_snapshot :: json
  pt_item_id :: "ustr option"
  pt_item_url :: "ustr option"
  pt_failure_kind :: "string option"
  pt_error :: "ustr option"
  pt_raw_result :: json
  pt_retry_of_task_id :: "string option"
  pt_attempt_no :: "int option"
  pt_retryable :: "bool option"
  pt_result_certainty :: "string option"
  pt_catalog_hidden_at :: "timestamp option"
  pt_created_at :: timestamp
  pt_updated_at :: timestamp
  pt_started_at :: "timestamp option"
  pt_finished_at :: "timestamp option"

record task_asset =
  ta_task_id :: string
  ta_asset_id :: ustr
  ta_ordinal :: nat
  ta_retain_until :: "timestamp option"
  ta_created_at :: timestamp

record address_group =
  gp_group_id :: string
  gp_name :: ustr
  gp_enabled :: bool
  gp_avoid_recent_count :: nat

text \<open>Of an address its place (the columns \<open>prov\<close> to \<open>poi_name\<close>) as the object that is copied.\<close>

record publish_address =
  pa_address_id :: string
  pa_group_id :: string
  pa_place :: json
  pa_enabled :: bool
  pa_use_count :: int
  pa_last_used_at :: "timestamp option"
  pa_updated_at :: timestamp

record address_usage =
  us_usage_id :: string
  us_group_id :: string
  us_address_id :: string
  us_account_id :: string
  us_draft_id :: string
  us_task_id :: string
  us_status :: string
  us_selected_at :: timestamp
  us_updated_at :: timestamp

record product_db =
  pb_accounts :: "account_row list"
  pb_assets :: "image_asset list"
  pb_drafts :: "product_draft list"
  pb_tasks :: "publish_task list"
  pb_task_assets :: "task_asset list"
  pb_groups :: "address_group list"
  pb_group_accounts :: "(string \<times> string) list"
  pb_addresses :: "publish_address list"
  pb_usages :: "address_usage list"

text \<open>The errors: the \<open>ValueError\<close>s by what they say, and a commit that a primary key rejects.\<close>

datatype task_error =
    NoGroupChosen | GroupUnavailable | AccountNotBound | NoEnabledAddress
  | AssetMissing ustr | AssetDeleting ustr | OtherUploadSession | AccountDisabled
  | RetryKeyTaken | AlreadyRetried | NotRetryable | SnapshotInvalid | AssetsGone
  | OnlyFailedHidden | ResultUnconfirmed | PrimaryKeyViolated

definition days :: "int \<Rightarrow> timedelta" where
  "days n = hours (24 * n)"

section \<open>Drafts\<close>

record draft_create =
  dc_title :: ustr
  dc_description :: ustr
  dc_price :: ustr
  dc_original_price :: "ustr option"
  dc_stock :: int
  dc_category_id :: "ustr option"
  dc_category_hint :: "ustr option"
  dc_images :: "ustr list"
  dc_delivery_choice :: string
  dc_post_price :: "ustr option"
  dc_can_self_pickup :: bool
  dc_location_mode :: string
  dc_location :: json
  dc_location_group_id :: "string option"
  dc_status :: string

text \<open>\<open>region\<close> is \<open>product_region_catalog.location_for\<close> of the division of a location.\<close>

definition draft_location :: "(json \<Rightarrow> json) \<Rightarrow> string option \<Rightarrow> json \<Rightarrow> json" where
  "draft_location region mode loc = (if mode = Some ''region'' \<and> loc \<noteq> JNull then region loc else loc)"

definition create_product_draft ::
  "(json \<Rightarrow> json) \<Rightarrow> string \<Rightarrow> timestamp \<Rightarrow> string \<Rightarrow> draft_create \<Rightarrow> product_db \<Rightarrow> product_db \<times> product_draft option" where
  "create_product_draft region draft_id now account_id p db =
     (if get_row ac_account_id (pb_accounts db) account_id = None then (db, None)
      else let row = \<lparr>pf_draft_id = draft_id, pf_account_id = account_id, pf_title = dc_title p, pf_description = dc_description p,
                 pf_price = dc_price p, pf_original_price = dc_original_price p, pf_stock = dc_stock p,
                 pf_category_id = dc_category_id p, pf_category_hint = dc_category_hint p, pf_images = dc_images p,
                 pf_delivery_choice = Some (dc_delivery_choice p), pf_post_price = dc_post_price p,
                 pf_can_self_pickup = Some (dc_can_self_pickup p), pf_location_mode = Some (dc_location_mode p),
                 pf_location = draft_location region (Some (dc_location_mode p)) (dc_location p),
                 pf_location_group_id = dc_location_group_id p, pf_status = dc_status p, pf_created_at = now, pf_updated_at = now\<rparr>
           in (db\<lparr>pb_drafts := pb_drafts db @ [row]\<rparr>, Some row))"

text \<open>The fields that are given; location and group are given also when they are \<open>None\<close>.\<close>

record draft_update =
  du_title :: "ustr option"
  du_description :: "ustr option"
  du_price :: "ustr option"
  du_original_price :: "ustr option"
  du_stock :: "int option"
  du_category_id :: "ustr option"
  du_category_hint :: "ustr option"
  du_images :: "ustr list option"
  du_delivery_choice :: "string option"
  du_post_price :: "ustr option"
  du_can_self_pickup :: "bool option"
  du_location_mode :: "string option"
  du_location :: "json option"
  du_location_group_id :: "string option option"
  du_status :: "string option"

definition given :: "'a option \<Rightarrow> 'a \<Rightarrow> 'a" where
  "given v old = (case v of None \<Rightarrow> old | Some w \<Rightarrow> w)"

definition given_some :: "'a option \<Rightarrow> 'a option \<Rightarrow> 'a option" where
  "given_some v old = (case v of None \<Rightarrow> old | Some w \<Rightarrow> Some w)"

definition update_product_draft ::
  "(json \<Rightarrow> json) \<Rightarrow> timestamp \<Rightarrow> string \<Rightarrow> string \<Rightarrow> draft_update \<Rightarrow> product_db \<Rightarrow> product_db \<times> product_draft option" where
  "update_product_draft region now account_id draft_id p db =
     (case get_row pf_draft_id (pb_drafts db) draft_id of
        None \<Rightarrow> (db, None)
      | Some r \<Rightarrow>
          if pf_account_id r \<noteq> account_id then (db, None)
          else let mode = given_some (du_location_mode p) (pf_location_mode r);
                   row = r\<lparr>pf_title := given (du_title p) (pf_title r), pf_description := given (du_description p) (pf_description r),
                     pf_price := given (du_price p) (pf_price r), pf_original_price := given_some (du_original_price p) (pf_original_price r),
                     pf_stock := given (du_stock p) (pf_stock r), pf_category_id := given_some (du_category_id p) (pf_category_id r),
                     pf_category_hint := given_some (du_category_hint p) (pf_category_hint r), pf_images := given (du_images p) (pf_images r),
                     pf_delivery_choice := given_some (du_delivery_choice p) (pf_delivery_choice r),
                     pf_post_price := given_some (du_post_price p) (pf_post_price r),
                     pf_can_self_pickup := given_some (du_can_self_pickup p) (pf_can_self_pickup r), pf_location_mode := mode,
                     pf_location := (case du_location p of None \<Rightarrow> pf_location r | Some l \<Rightarrow> draft_location region mode l),
                     pf_location_group_id := given (du_location_group_id p) (pf_location_group_id r),
                     pf_status := given (du_status p) (pf_status r), pf_updated_at := now\<rparr>
               in (db\<lparr>pb_drafts := put_row pf_draft_id row (pb_drafts db)\<rparr>, Some row))"

definition delete_product_draft :: "string \<Rightarrow> string \<Rightarrow> product_db \<Rightarrow> product_db \<times> bool" where
  "delete_product_draft account_id draft_id db =
     (case get_row pf_draft_id (pb_drafts db) draft_id of
        None \<Rightarrow> (db, False)
      | Some r \<Rightarrow> if pf_account_id r \<noteq> account_id then (db, False)
                 else (db\<lparr>pb_drafts := filter (\<lambda>d. pf_draft_id d \<noteq> draft_id) (pb_drafts db)\<rparr>, True))"

section \<open>The choice of an address\<close>

text \<open>
  The addresses of the group that the account used last are avoided unless there is no other;
  among the rest one of the least used is drawn.
\<close>

definition recent_addresses :: "address_group \<Rightarrow> string \<Rightarrow> address_usage list \<Rightarrow> string list" where
  "recent_addresses g account_id usages = take (gp_avoid_recent_count g) (map us_address_id
     (sort_key (\<lambda>u. - us_selected_at u) (filter (\<lambda>u. us_group_id u = gp_group_id g \<and> us_account_id u = account_id) usages)))"

definition eligible_addresses :: "string list \<Rightarrow> publish_address list \<Rightarrow> publish_address list" where
  "eligible_addresses recent addresses =
     (let fresh = filter (\<lambda>a. pa_address_id a \<notin> set recent) addresses in if fresh = [] then addresses else fresh)"

definition least_used :: "publish_address list \<Rightarrow> publish_address list" where
  "least_used addresses = filter (\<lambda>a. list_all (\<lambda>b. pa_use_count a \<le> pa_use_count b) addresses) addresses"

definition select_address :: "nat \<Rightarrow> string option \<Rightarrow> string \<Rightarrow> product_db \<Rightarrow> task_error + publish_address" where
  "select_address pick group_id account_id db =
     (case (case group_id of None \<Rightarrow> None | Some i \<Rightarrow> get_row gp_group_id (pb_groups db) i) of
        None \<Rightarrow> Inl GroupUnavailable
      | Some g \<Rightarrow>
          if \<not> gp_enabled g then Inl GroupUnavailable
          else if (gp_group_id g, account_id) \<notin> set (pb_group_accounts db) then Inl AccountNotBound
          else let addresses = filter (\<lambda>a. pa_group_id a = gp_group_id g \<and> pa_enabled a) (pb_addresses db) in
            if addresses = [] then Inl NoEnabledAddress
            else let least = least_used (eligible_addresses (recent_addresses g account_id (pb_usages db)) addresses)
                 in Inr (least ! (pick mod length least)))"

definition use_address :: "string \<Rightarrow> timestamp \<Rightarrow> string \<Rightarrow> string \<Rightarrow> string \<Rightarrow> publish_address \<Rightarrow> product_db \<Rightarrow> product_db" where
  "use_address usage_id now account_id draft_id task_id a db =
     db\<lparr>pb_addresses := put_row pa_address_id
          (a\<lparr>pa_use_count := pa_use_count a + 1, pa_last_used_at := Some now, pa_updated_at := now\<rparr>) (pb_addresses db),
        pb_usages := pb_usages db @ [\<lparr>us_usage_id = usage_id, us_group_id = pa_group_id a, us_address_id = pa_address_id a,
          us_account_id = account_id, us_draft_id = draft_id, us_task_id = task_id, us_status = ''selected'',
          us_selected_at = now, us_updated_at = now\<rparr>]\<rparr>"

section \<open>Images of a task\<close>

definition asset_prefix :: ustr where
  "asset_prefix = asc ''asset:''"

definition remove_prefix :: "ustr \<Rightarrow> ustr" where
  "remove_prefix t = (if starts_with asset_prefix t then drop (length asset_prefix) t else t)"

definition find_asset :: "string \<Rightarrow> ustr \<Rightarrow> product_db \<Rightarrow> image_asset option" where
  "find_asset account_id asset_id db = (case get_row ia_asset_id (pb_assets db) asset_id of
     None \<Rightarrow> None | Some a \<Rightarrow> if ia_account_id a = account_id then Some a else None)"

text \<open>An image is kept for the task for thirty days.\<close>

definition retained :: "timestamp \<Rightarrow> image_asset \<Rightarrow> image_asset" where
  "retained now a = (let until = now + days 30 in
     a\<lparr>ia_state := Some ''retained'', ia_last_referenced_at := Some now,
       ia_expires_at := Some (max (case ia_expires_at a of None \<Rightarrow> until | Some e \<Rightarrow> e) until)\<rparr>)"

definition retain_asset :: "timestamp \<Rightarrow> string \<Rightarrow> nat \<times> image_asset \<Rightarrow> product_db \<Rightarrow> product_db" where
  "retain_asset now task_id na db =
     db\<lparr>pb_assets := put_row ia_asset_id (retained now (snd na)) (pb_assets db),
        pb_task_assets := pb_task_assets db @ [\<lparr>ta_task_id = task_id, ta_asset_id = ia_asset_id (snd na), ta_ordinal = fst na,
          ta_retain_until = Some (now + days 30), ta_created_at = now\<rparr>]\<rparr>"

text \<open>The commit fails when an image occurs twice: the task and the image are the primary key.\<close>

definition retain_assets :: "timestamp \<Rightarrow> string \<Rightarrow> (nat \<times> image_asset) list \<Rightarrow> product_db \<Rightarrow> task_error + product_db" where
  "retain_assets now task_id assets db =
     (if distinct (map (\<lambda>na. ia_asset_id (snd na)) assets)
      then Inr (foldl (\<lambda>d na. retain_asset now task_id na d) db assets) else Inl PrimaryKeyViolated)"

section \<open>Creating a task\<close>

definition task_by_key :: "string \<Rightarrow> string \<Rightarrow> publish_task list \<Rightarrow> publish_task option" where
  "task_by_key account_id key rows = find (\<lambda>t. pt_account_id t = account_id \<and> pt_idempotency_key t = key) rows"

definition string_json :: "string option \<Rightarrow> json" where
  "string_json t = (case t of None \<Rightarrow> JNull | Some u \<Rightarrow> JStr (asc u))"

definition new_publish_task :: "string \<Rightarrow> timestamp \<Rightarrow> string \<Rightarrow> string \<Rightarrow> string \<Rightarrow> ustr \<Rightarrow> string \<Rightarrow> json \<Rightarrow> publish_task" where
  "new_publish_task task_id now account_id draft_id mode code key snapshot = \<lparr>pt_task_id = task_id, pt_account_id = account_id,
     pt_draft_id = draft_id, pt_mode = mode, pt_status = ''pending'', pt_phase = Some ''pending'', pt_unique_code = code,
     pt_idempotency_key = key, pt_snapshot = snapshot, pt_item_id = None, pt_item_url = None, pt_failure_kind = None,
     pt_error = None, pt_raw_result = JNull, pt_retry_of_task_id = None, pt_attempt_no = Some 1, pt_retryable = None,
     pt_result_certainty = None, pt_catalog_hidden_at = None, pt_created_at = now, pt_updated_at = now,
     pt_started_at = None, pt_finished_at = None\<rparr>"

text \<open>Identifiers and numbers that a creation draws.\<close>

record task_draw =
  dr_task_id :: string
  dr_unique_code :: ustr
  dr_usage_id :: string
  dr_pick :: nat

definition draft_snapshot :: "ustr \<Rightarrow> json \<Rightarrow> publish_address option \<Rightarrow> product_draft \<Rightarrow> json" where
  "draft_snapshot code loc address d = jobj [(''title'', JStr (pf_title d)), (''description'', JStr (pf_description d)),
     (''price'', JStr (pf_price d)), (''original_price'', jopt (pf_original_price d)), (''stock'', JInt (pf_stock d)),
     (''category_hint'', jopt (pf_category_hint d)), (''images'', JList (map JStr (pf_images d))),
     (''delivery_choice'', JStr (asc (str_or (pf_delivery_choice d) ''free_shipping''))), (''post_price'', jopt (pf_post_price d)),
     (''can_self_pickup'', JBool (pf_can_self_pickup d = Some True)),
     (''location_mode'', JStr (asc (str_or (pf_location_mode d) ''account_default''))), (''location'', loc),
     (''location_group_id'', string_json (pf_location_group_id d)),
     (''selected_address_id'', string_json (map_option pa_address_id address)), (''unique_code'', JStr code)]"

text \<open>The numbered images of a draft that are assets; the first that is missing is an error.\<close>

fun draft_assets :: "string \<Rightarrow> product_db \<Rightarrow> nat \<Rightarrow> ustr list \<Rightarrow> task_error + (nat \<times> image_asset) list" where
  "draft_assets account_id db n [] = Inr []"
| "draft_assets account_id db n (t # ts) =
     (if \<not> starts_with asset_prefix t then draft_assets account_id db (Suc n) ts
      else case find_asset account_id (remove_prefix t) db of
        None \<Rightarrow> Inl (AssetMissing t)
      | Some a \<Rightarrow> map_sum id (\<lambda>as. (n, a) # as) (draft_assets account_id db (Suc n) ts))"

definition draft_address :: "nat \<Rightarrow> string \<Rightarrow> product_draft \<Rightarrow> product_db \<Rightarrow> task_error + publish_address option" where
  "draft_address pick account_id d db =
     (if str_or (pf_location_mode d) ''account_default'' \<noteq> ''group_random'' then Inr None
      else if \<not> truthy (pf_location_group_id d) then Inl NoGroupChosen
      else map_sum id Some (select_address pick (pf_location_group_id d) account_id db))"

definition insert_task ::
  "timestamp \<Rightarrow> task_draw \<Rightarrow> publish_task \<Rightarrow> (nat \<times> image_asset) list \<Rightarrow> publish_address option \<Rightarrow> product_db \<Rightarrow> task_error + product_db" where
  "insert_task now w row assets address db =
     map_sum id (\<lambda>d. case address of None \<Rightarrow> d
         | Some a \<Rightarrow> use_address (dr_usage_id w) now (pt_account_id row) (pt_draft_id row) (pt_task_id row) a d)
       (retain_assets now (pt_task_id row) assets (db\<lparr>pb_tasks := pb_tasks db @ [row]\<rparr>))"

definition create_product_publish_task ::
  "task_draw \<Rightarrow> timestamp \<Rightarrow> string \<Rightarrow> string \<Rightarrow> string \<Rightarrow> string option \<Rightarrow> json \<Rightarrow> product_db
   \<Rightarrow> task_error + (product_db \<times> publish_task option)" where
  "create_product_publish_task w now account_id draft_id mode key resolved db =
     (case (if truthy key then task_by_key account_id (the key) (pb_tasks db) else None) of
        Some t \<Rightarrow> Inr (db, Some t)
      | None \<Rightarrow>
          (case get_row pf_draft_id (pb_drafts db) draft_id of
             None \<Rightarrow> Inr (db, None)
           | Some d \<Rightarrow>
               if pf_account_id d \<noteq> account_id \<or> pf_status d = ''archived'' then Inr (db, None)
               else case draft_address (dr_pick w) account_id d db of
                 Inl e \<Rightarrow> Inl e
               | Inr address \<Rightarrow>
                   let loc = (case address of None \<Rightarrow> jor resolved (pf_location d) | Some a \<Rightarrow> pa_place a);
                       row = new_publish_task (dr_task_id w) now account_id draft_id mode (dr_unique_code w)
                         (str_or key (dr_task_id w)) (draft_snapshot (dr_unique_code w) loc address d)
                   in (case draft_assets account_id db 0 (pf_images d) of
                         Inl e \<Rightarrow> Inl e
                       | Inr assets \<Rightarrow>
                           map_sum id (\<lambda>d'. (d'\<lparr>pb_drafts := put_row pf_draft_id (d\<lparr>pf_status := ''ready'', pf_updated_at := now\<rparr>) (pb_drafts d')\<rparr>, Some row))
                             (insert_task now w row assets address db))))"

section \<open>Creating a task directly\<close>

record publish_job = draft_create +
  pj_upload_session_id :: "string option"
  pj_idempotency_key :: string

definition job_snapshot :: "ustr \<Rightarrow> json \<Rightarrow> publish_address option \<Rightarrow> publish_job \<Rightarrow> json" where
  "job_snapshot code loc address p = jobj [(''title'', JStr (dc_title p)), (''description'', JStr (dc_description p)),
     (''price'', JStr (dc_price p)), (''original_price'', jopt (dc_original_price p)), (''stock'', JInt (dc_stock p)),
     (''category_hint'', jopt (dc_category_hint p)), (''images'', JList (map JStr (dc_images p))),
     (''delivery_choice'', JStr (asc (dc_delivery_choice p))), (''post_price'', jopt (dc_post_price p)),
     (''can_self_pickup'', JBool (dc_can_self_pickup p)), (''location_mode'', JStr (asc (dc_location_mode p))), (''location'', loc),
     (''location_group_id'', string_json (dc_location_group_id p)),
     (''selected_address_id'', string_json (map_option pa_address_id address)), (''unique_code'', JStr code)]"

definition job_asset :: "string \<Rightarrow> string option \<Rightarrow> ustr \<Rightarrow> product_db \<Rightarrow> task_error + image_asset" where
  "job_asset account_id session t db =
     (case find_asset account_id (remove_prefix t) db of
        None \<Rightarrow> Inl (AssetMissing (remove_prefix t))
      | Some a \<Rightarrow>
          if ia_state a = Some ''deleting'' then Inl (AssetDeleting (ia_original_filename a))
          else if truthy session \<and> truthy (ia_upload_session_id a) \<and> ia_upload_session_id a \<noteq> session then Inl OtherUploadSession
          else Inr a)"

fun job_assets :: "string \<Rightarrow> string option \<Rightarrow> product_db \<Rightarrow> nat \<Rightarrow> ustr list \<Rightarrow> task_error + (nat \<times> image_asset) list" where
  "job_assets account_id session db n [] = Inr []"
| "job_assets account_id session db n (t # ts) =
     (case job_asset account_id session t db of
        Inl e \<Rightarrow> Inl e
      | Inr a \<Rightarrow> map_sum id (\<lambda>as. (n, a) # as) (job_assets account_id session db (Suc n) ts))"

definition create_direct_product_publish_task ::
  "task_draw \<Rightarrow> timestamp \<Rightarrow> string \<Rightarrow> publish_job \<Rightarrow> product_db \<Rightarrow> task_error + (product_db \<times> publish_task option)" where
  "create_direct_product_publish_task w now account_id p db =
     (case task_by_key account_id (pj_idempotency_key p) (pb_tasks db) of
        Some t \<Rightarrow> Inr (db, Some t)
      | None \<Rightarrow>
          (case get_row ac_account_id (pb_accounts db) account_id of
             None \<Rightarrow> Inr (db, None)
           | Some acc \<Rightarrow>
               if \<not> ac_enabled acc then Inl AccountDisabled
               else case (if dc_location_mode p = ''group_random''
                          then map_sum id Some (select_address (dr_pick w) (dc_location_group_id p) account_id db) else Inr None) of
                 Inl e \<Rightarrow> Inl e
               | Inr address \<Rightarrow>
                   (case job_assets account_id (pj_upload_session_id p) db 0 (dc_images p) of
                      Inl e \<Rightarrow> Inl e
                    | Inr assets \<Rightarrow>
                        let loc = (case address of None \<Rightarrow> dc_location p | Some a \<Rightarrow> pa_place a);
                            row = new_publish_task (dr_task_id w) now account_id [] ''platform_api'' (dr_unique_code w)
                              (pj_idempotency_key p) (job_snapshot (dr_unique_code w) loc address p)
                        in map_sum id (\<lambda>d. (d, Some row)) (insert_task now w row assets address db))))"

section \<open>Retrying a task\<close>

definition retry_allowed :: "publish_task \<Rightarrow> bool" where
  "retry_allowed t \<longleftrightarrow> pt_status t = ''failed''
     \<and> (pt_retryable t = Some True \<or> (pt_retryable t = None \<and> pt_failure_kind t = Some ''network''))"

definition snapshot_images :: "json \<Rightarrow> ustr list" where
  "snapshot_images snapshot = map py_str (list_or_empty (jget ''images'' snapshot))"

definition task_asset_ids :: "string \<Rightarrow> json \<Rightarrow> product_db \<Rightarrow> ustr list" where
  "task_asset_ids task_id snapshot db =
     (let ids = map ta_asset_id (sort_key ta_ordinal (filter (\<lambda>r. ta_task_id r = task_id) (pb_task_assets db)))
      in if ids = [] then map remove_prefix (filter (starts_with asset_prefix) (snapshot_images snapshot)) else ids)"

fun find_assets :: "string \<Rightarrow> product_db \<Rightarrow> ustr list \<Rightarrow> image_asset list option" where
  "find_assets account_id db [] = Some []"
| "find_assets account_id db (i # is) =
     (case find_asset account_id i db of None \<Rightarrow> None | Some a \<Rightarrow> map_option (\<lambda>as. a # as) (find_assets account_id db is))"

definition retry_task :: "task_draw \<Rightarrow> timestamp \<Rightarrow> string \<Rightarrow> json \<Rightarrow> publish_task \<Rightarrow> publish_task" where
  "retry_task w now key snapshot source =
     (new_publish_task (dr_task_id w) now (pt_account_id source) (pt_draft_id source) (pt_mode source) (dr_unique_code w) key snapshot)
       \<lparr>pt_retry_of_task_id := Some (pt_task_id source),
        pt_attempt_no := Some ((case pt_attempt_no source of None \<Rightarrow> 1 | Some n \<Rightarrow> if n = 0 then 1 else n) + 1)\<rparr>"

definition hidden :: "timestamp \<Rightarrow> publish_task \<Rightarrow> publish_task" where
  "hidden now t = t\<lparr>pt_catalog_hidden_at := Some now, pt_updated_at := now\<rparr>"

definition retry_product_publish_task ::
  "task_draw \<Rightarrow> timestamp \<Rightarrow> string \<Rightarrow> string \<Rightarrow> string \<Rightarrow> product_db \<Rightarrow> task_error + (product_db \<times> publish_task option)" where
  "retry_product_publish_task w now account_id task_id key db =
     (case task_by_key account_id key (pb_tasks db) of
        Some t \<Rightarrow> if pt_retry_of_task_id t \<noteq> Some task_id then Inl RetryKeyTaken else Inr (db, Some t)
      | None \<Rightarrow>
          (case get_row pt_task_id (pb_tasks db) task_id of
             None \<Rightarrow> Inr (db, None)
           | Some source \<Rightarrow>
               if pt_account_id source \<noteq> account_id then Inr (db, None)
               else if pt_catalog_hidden_at source \<noteq> None then Inl AlreadyRetried
               else if \<not> retry_allowed source then Inl NotRetryable
               else (case pt_snapshot source of
                   JObj kvs \<Rightarrow>
                     let snapshot = JObj (dict_set (asc ''unique_code'') (JStr (dr_unique_code w)) kvs)
                     in (case find_assets account_id db (task_asset_ids task_id snapshot db) of
                           None \<Rightarrow> Inl AssetsGone
                         | Some assets \<Rightarrow>
                             let row = retry_task w now key snapshot source;
                                 db1 = db\<lparr>pb_tasks := set_row pt_task_id (pb_tasks db) task_id (hidden now) @ [row]\<rparr>
                             in map_sum id (\<lambda>d. (d, Some row))
                                  (retain_assets now (dr_task_id w) (zip [0..<length assets] assets) db1))
                 | _ \<Rightarrow> Inl SnapshotInvalid)))"

section \<open>The attempts of a job\<close>

text \<open>The task that a task is a retry of, if it is one of the rows.\<close>

definition parent_of :: "publish_task list \<Rightarrow> string \<Rightarrow> string option" where
  "parent_of rows i =
     (case get_row pt_task_id rows i of
        None \<Rightarrow> None
      | Some r \<Rightarrow> if truthy (pt_retry_of_task_id r) \<and> get_row pt_task_id rows (the (pt_retry_of_task_id r)) \<noteq> None
                 then pt_retry_of_task_id r else None)"

lemma parent_of_row: "parent_of rows i = Some p \<Longrightarrow> i \<in> pt_task_id ` set rows"
  by (auto simp: parent_of_def dest!: get_row_SomeD split: option.splits)

text \<open>The first loop: up to the first attempt, or until a task is met again.\<close>

function attempt_root :: "publish_task list \<Rightarrow> string list \<Rightarrow> string \<Rightarrow> string" where
  "attempt_root rows visited i =
     (if i \<in> set visited then i
      else case parent_of rows i of None \<Rightarrow> i | Some p \<Rightarrow> attempt_root rows (i # visited) p)"
  by auto

termination
proof (relation "measure (\<lambda>(rows, visited, i). card (pt_task_id ` set rows - set visited))")
  fix rows visited i p
  assume "i \<notin> set visited" and "parent_of rows i = Some p"
  then have "pt_task_id ` set rows - set (i # visited) \<subset> pt_task_id ` set rows - set visited"
    using parent_of_row [of rows i p] by auto
  then show "((rows, i # visited, p), rows, visited, i) \<in> measure (\<lambda>(rows, visited, i). card (pt_task_id ` set rows - set visited))"
    by (auto intro!: psubset_card_mono)
qed simp

declare attempt_root.simps [simp del]

text \<open>The second loop: rows that retry a collected task are added until nothing changes.\<close>

definition chain_pass :: "publish_task list \<Rightarrow> string list \<Rightarrow> string list" where
  "chain_pass rows chain = foldl (\<lambda>c r. if (case pt_retry_of_task_id r of None \<Rightarrow> False | Some p \<Rightarrow> p \<in> set c) \<and> pt_task_id r \<notin> set c
     then c @ [pt_task_id r] else c) chain rows"

lemma chain_pass_grows: "\<exists>new. chain_pass rows chain = chain @ new \<and> set new \<subseteq> pt_task_id ` set rows \<and> set new \<inter> set chain = {}"
proof (induction rows arbitrary: chain)
  case (Cons r rows)
  define c where "c = (if (case pt_retry_of_task_id r of None \<Rightarrow> False | Some p \<Rightarrow> p \<in> set chain) \<and> pt_task_id r \<notin> set chain
     then chain @ [pt_task_id r] else chain)"
  have step: "chain_pass (r # rows) chain = chain_pass rows c" by (simp add: chain_pass_def c_def)
  obtain new where new: "chain_pass rows c = c @ new" "set new \<subseteq> pt_task_id ` set rows" "set new \<inter> set c = {}"
    using Cons.IH by blast
  show ?case
  proof (cases "c = chain")
    case True
    with step new show ?thesis by auto
  next
    case False
    then have "c = chain @ [pt_task_id r]" "pt_task_id r \<notin> set chain" by (auto simp: c_def split: if_splits)
    with step new show ?thesis by (intro exI [of _ "pt_task_id r # new"]) auto
  qed
qed (simp add: chain_pass_def)

function chain_closure :: "publish_task list \<Rightarrow> string list \<Rightarrow> string list" where
  "chain_closure rows chain = (let c = chain_pass rows chain in if c = chain then chain else chain_closure rows c)"
  by auto
termination
proof (relation "measure (\<lambda>(rows, chain). card (pt_task_id ` set rows - set chain))")
  fix rows chain c
  assume "c = chain_pass rows chain" and "c \<noteq> chain"
  moreover obtain new where "chain_pass rows chain = chain @ new" "set new \<subseteq> pt_task_id ` set rows" "set new \<inter> set chain = {}"
    using chain_pass_grows by blast
  ultimately have "c = chain @ new" "new \<noteq> []" "set new \<subseteq> pt_task_id ` set rows" "set new \<inter> set chain = {}" by auto
  then have "pt_task_id ` set rows - set c \<subset> pt_task_id ` set rows - set chain" by (cases new) auto
  then show "((rows, c), rows, chain) \<in> measure (\<lambda>(rows, chain). card (pt_task_id ` set rows - set chain))"
    by (auto intro!: psubset_card_mono)
qed simp

declare chain_closure.simps [simp del]

text \<open>The order by number of the attempt, time and identifier.\<close>

definition attempt_number :: "publish_task \<Rightarrow> int" where
  "attempt_number t = (case pt_attempt_no t of None \<Rightarrow> 1 | Some n \<Rightarrow> if n = 0 then 1 else n)"

definition list_product_publish_task_attempts :: "string \<Rightarrow> string \<Rightarrow> product_db \<Rightarrow> publish_task list option" where
  "list_product_publish_task_attempts account_id task_id db =
     (case get_row pt_task_id (pb_tasks db) task_id of
        None \<Rightarrow> None
      | Some selected \<Rightarrow>
          if pt_account_id selected \<noteq> account_id then None
          else let rows = sort_key pt_created_at (sort_key (\<lambda>t. map of_char (pt_task_id t) :: int list)
                     (filter (\<lambda>t. pt_account_id t = account_id) (pb_tasks db)));
                   chain = chain_closure rows [attempt_root rows [] task_id]
               in Some (sort_key attempt_number (filter (\<lambda>t. pt_task_id t \<in> set chain) rows)))"

definition list_product_publish_tasks :: "string \<Rightarrow> int \<Rightarrow> product_db \<Rightarrow> publish_task list" where
  "list_product_publish_tasks account_id limit db = take (nat (max 1 (min limit 500)))
     (sort_key (\<lambda>t. - pt_created_at t) (filter (\<lambda>t. pt_account_id t = account_id \<and> pt_catalog_hidden_at t = None) (pb_tasks db)))"

definition get_product_publish_task :: "string \<Rightarrow> string \<Rightarrow> product_db \<Rightarrow> publish_task option" where
  "get_product_publish_task account_id task_id db = (case get_row pt_task_id (pb_tasks db) task_id of
     None \<Rightarrow> None | Some t \<Rightarrow> if pt_account_id t = account_id then Some t else None)"

definition hide_product_publish_task :: "timestamp \<Rightarrow> string \<Rightarrow> string \<Rightarrow> product_db \<Rightarrow> task_error + (product_db \<times> bool option)" where
  "hide_product_publish_task now account_id task_id db =
     (case get_product_publish_task account_id task_id db of
        None \<Rightarrow> Inr (db, None)
      | Some t \<Rightarrow>
          if pt_catalog_hidden_at t \<noteq> None then Inr (db, Some True)
          else if pt_status t \<notin> {''failed'', ''cancelled''} then Inl OnlyFailedHidden
          else if pt_result_certainty t \<in> {Some ''published_unconfirmed'', Some ''result_unknown''} then Inl ResultUnconfirmed
          else Inr (db\<lparr>pb_tasks := set_row pt_task_id (pb_tasks db) task_id (hidden now)\<rparr>, Some True))"

section \<open>The result of an execution\<close>

definition task_statuses :: "string list" where
  "task_statuses = [''pending'', ''running'', ''success'', ''verification_required'', ''failed'', ''cancelled'']"

definition final_statuses :: "string list" where
  "final_statuses = [''success'', ''verification_required'', ''failed'', ''cancelled'']"

text \<open>The arguments of \<open>update_product_publish_task_after_execute\<close> besides the keys.\<close>

record task_result =
  rs_status :: string
  rs_phase :: "string option"
  rs_item_id :: "ustr option"
  rs_item_url :: "ustr option"
  rs_failure_kind :: "string option"
  rs_error :: "ustr option"
  rs_raw_result :: "json option"
  rs_retryable :: "bool option"
  rs_certainty :: "string option"

definition result_values :: "timestamp \<Rightarrow> task_result \<Rightarrow> publish_task \<Rightarrow> publish_task" where
  "result_values now r t =
     (let status = (if rs_status r \<in> set task_statuses then rs_status r else ''failed'') in
      t\<lparr>pt_status := status, pt_phase := (if truthy (rs_phase r) then rs_phase r else pt_phase t),
        pt_item_id := u_or (rs_item_id r) (pt_item_id t), pt_item_url := u_or (rs_item_url r) (pt_item_url t),
        pt_failure_kind := rs_failure_kind r, pt_error := rs_error r, pt_retryable := given_some (rs_retryable r) (pt_retryable t),
        pt_result_certainty := given_some (rs_certainty r) (pt_result_certainty t),
        pt_raw_result := given (rs_raw_result r) (pt_raw_result t), pt_updated_at := now,
        pt_started_at := (if status = ''running'' \<and> pt_started_at t = None then Some now else pt_started_at t),
        pt_finished_at := (if status \<in> set final_statuses then Some now else pt_finished_at t)\<rparr>)"

text \<open>How long the images of a finished task are kept; an image expires with its last task.\<close>

definition retention :: "publish_task \<Rightarrow> timedelta" where
  "retention t = days (if pt_status t = ''verification_required'' \<or> pt_retryable t = Some True then 30 else 7)"

definition latest_retention :: "task_asset list \<Rightarrow> ustr \<Rightarrow> timestamp option" where
  "latest_retention rows i = (case List.map_filter ta_retain_until (filter (\<lambda>r. ta_asset_id r = i) rows) of
     [] \<Rightarrow> None | e # es \<Rightarrow> Some (foldl max e es))"

definition release_images :: "timestamp \<Rightarrow> publish_task \<Rightarrow> product_db \<Rightarrow> product_db" where
  "release_images now t db =
     (let until = now + retention t;
          refs = update_where (\<lambda>r. ta_task_id r = pt_task_id t) (\<lambda>r. r\<lparr>ta_retain_until := Some until\<rparr>) (pb_task_assets db);
          mine = (\<lambda>a. ia_asset_id a \<in> ta_asset_id ` set (filter (\<lambda>r. ta_task_id r = pt_task_id t) refs))
      in db\<lparr>pb_task_assets := refs,
            pb_assets := update_where mine (\<lambda>a. a\<lparr>ia_expires_at := Some (case latest_retention refs (ia_asset_id a) of
              None \<Rightarrow> until | Some e \<Rightarrow> e)\<rparr>) (pb_assets db),
            pb_usages := update_where (\<lambda>u. us_task_id u = pt_task_id t) (\<lambda>u. u\<lparr>us_status := pt_status t, us_updated_at := now\<rparr>) (pb_usages db)\<rparr>)"

definition update_product_publish_task_after_execute ::
  "timestamp \<Rightarrow> string \<Rightarrow> string \<Rightarrow> task_result \<Rightarrow> product_db \<Rightarrow> product_db \<times> publish_task option" where
  "update_product_publish_task_after_execute now account_id task_id r db =
     (case get_product_publish_task account_id task_id db of
        None \<Rightarrow> (db, None)
      | Some t \<Rightarrow>
          let t' = result_values now r t; db' = db\<lparr>pb_tasks := put_row pt_task_id t' (pb_tasks db)\<rparr>
          in (if pt_status t' \<in> set final_statuses then release_images now t' db' else db', Some t'))"

text \<open>
  What the product list does to publish tasks (\<open>product_management_service.py\<close>): a listed item confirms
  its task, and the removal of a deleted item hides it.
\<close>

definition confirm_published :: "timestamp \<Rightarrow> string \<Rightarrow> ustr list \<Rightarrow> product_db \<Rightarrow> product_db" where
  "confirm_published now account_id seen db =
     db\<lparr>pb_tasks := update_where (\<lambda>t. pt_account_id t = account_id \<and> (\<exists>i\<in>set seen. pt_item_id t = Some i)
            \<and> pt_status t \<in> {''success'', ''verification_required''})
        (\<lambda>t. t\<lparr>pt_status := ''success'', pt_phase := Some ''completed'', pt_failure_kind := None, pt_error := None, pt_retryable := Some False,
          pt_result_certainty := Some ''confirmed_success'', pt_finished_at := given_some (pt_finished_at t) (Some now), pt_updated_at := now\<rparr>)
        (pb_tasks db)\<rparr>"

definition hide_item_tasks :: "timestamp \<Rightarrow> string \<Rightarrow> ustr \<Rightarrow> product_db \<Rightarrow> product_db" where
  "hide_item_tasks now account_id item_id db =
     db\<lparr>pb_tasks := update_where (\<lambda>t. pt_account_id t = account_id \<and> pt_item_id t = Some item_id \<and> pt_catalog_hidden_at t = None)
        (hidden now) (pb_tasks db)\<rparr>"

section \<open>Images\<close>

definition create_product_image_asset ::
  "timestamp \<Rightarrow> image_asset \<Rightarrow> product_db \<Rightarrow> product_db \<times> image_asset option" where
  "create_product_image_asset now a db =
     (if get_row ac_account_id (pb_accounts db) (ia_account_id a) = None then (db, None)
      else let name = take 255 (ia_original_filename a);
               row = a\<lparr>ia_original_filename := (if name = [] then asc ''product-image.jpg'' else name), ia_state := Some ''staged'',
                 ia_expires_at := Some (now + hours 24), ia_last_referenced_at := None, ia_created_at := now\<rparr>
           in (db\<lparr>pb_assets := pb_assets db @ [row]\<rparr>, Some row))"

text \<open>Deleting an image deletes its references too (\<open>ON DELETE CASCADE\<close>).\<close>

definition remove_assets :: "(image_asset \<Rightarrow> bool) \<Rightarrow> product_db \<Rightarrow> product_db" where
  "remove_assets p db =
     (let gone = ia_asset_id ` set (filter p (pb_assets db)) in
      db\<lparr>pb_assets := filter (\<lambda>a. \<not> p a) (pb_assets db),
         pb_task_assets := filter (\<lambda>r. ta_asset_id r \<notin> gone) (pb_task_assets db)\<rparr>)"

definition kept_for_task :: "timestamp \<Rightarrow> task_asset list \<Rightarrow> ustr \<Rightarrow> bool" where
  "kept_for_task now rows i \<longleftrightarrow> list_ex (\<lambda>r. ta_asset_id r = i \<and> (case ta_retain_until r of None \<Rightarrow> True | Some e \<Rightarrow> now < e)) rows"

datatype delete_answer = DeleteNotFound | DeleteInUse | Deleted

definition delete_product_image_asset :: "timestamp \<Rightarrow> string \<Rightarrow> ustr \<Rightarrow> product_db \<Rightarrow> product_db \<times> delete_answer" where
  "delete_product_image_asset now account_id asset_id db =
     (if find_asset account_id asset_id db = None then (db, DeleteNotFound)
      else if list_ex (\<lambda>d. pf_account_id d = account_id \<and> asset_prefix @ asset_id \<in> set (pf_images d)) (pb_drafts db)
        \<or> kept_for_task now (pb_task_assets db) asset_id
        \<or> list_ex (\<lambda>t. pt_account_id t = account_id \<and> pt_status t \<in> {''pending'', ''running''} \<and> is_obj (pt_snapshot t)
             \<and> JStr (asset_prefix @ asset_id) \<in> set (list_or_empty (jget ''images'' (pt_snapshot t)))) (pb_tasks db)
      then (db, DeleteInUse)
      else (remove_assets (\<lambda>a. ia_asset_id a = asset_id) db, Deleted))"

text \<open>\<open>images LIKE '%asset:...%'\<close> on the JSON text of a draft; identifiers are hexadecimal.\<close>

definition draft_mentions :: "string \<Rightarrow> ustr \<Rightarrow> product_db \<Rightarrow> bool" where
  "draft_mentions account_id asset_id db \<longleftrightarrow> list_ex (\<lambda>d. pf_account_id d = account_id
     \<and> contains (asset_prefix @ asset_id) (dumps (JList (map JStr (pf_images d))))) (pb_drafts db)"

definition session_leftover :: "string \<Rightarrow> string \<Rightarrow> product_db \<Rightarrow> image_asset \<Rightarrow> bool" where
  "session_leftover account_id session db a \<longleftrightarrow> ia_account_id a = account_id \<and> ia_upload_session_id a = Some session
     \<and> ia_state a = Some ''staged'' \<and> \<not> list_ex (\<lambda>r. ta_asset_id r = ia_asset_id a) (pb_task_assets db)
     \<and> \<not> draft_mentions account_id (ia_asset_id a) db"

definition cleanup_product_upload_session :: "string \<Rightarrow> string \<Rightarrow> product_db \<Rightarrow> product_db \<times> ustr list" where
  "cleanup_product_upload_session account_id session db =
     (remove_assets (session_leftover account_id session db) db,
      map ia_asset_id (filter (session_leftover account_id session db) (pb_assets db)))"

definition expired_images :: "timestamp \<Rightarrow> int \<Rightarrow> product_db \<Rightarrow> image_asset list" where
  "expired_images now limit db = filter (\<lambda>a. \<not> kept_for_task now (pb_task_assets db) (ia_asset_id a)
       \<and> \<not> draft_mentions (ia_account_id a) (ia_asset_id a) db)
     (take (nat (max 1 (min limit 1000))) (sort_key (\<lambda>a. the (ia_expires_at a))
        (filter (\<lambda>a. case ia_expires_at a of None \<Rightarrow> False | Some e \<Rightarrow> e \<le> now) (pb_assets db))))"

definition cleanup_expired_product_images :: "timestamp \<Rightarrow> int \<Rightarrow> product_db \<Rightarrow> product_db \<times> (string \<times> ustr) list" where
  "cleanup_expired_product_images now limit db =
     (let gone = expired_images now limit db in
      (remove_assets (\<lambda>a. ia_asset_id a \<in> ia_asset_id ` set gone) db, map (\<lambda>a. (ia_account_id a, ia_asset_id a)) gone))"

end
