(* ===== verification/ProductPublisher.thy ===== *)
theory ProductPublisher
  imports OrderLists
begin

text \<open>
  The client that publishes a product (\<open>product_publisher.py\<close>, \<open>product_models.py\<close>): validation, location,
  upload of the images, category, the request itself and its verification. A call is a function
  from the trace of what happened so far to its outcome and the longer trace; the answers of the
  platform, of image servers and of the name service are an argument that may depend on the trace.
\<close>

section \<open>Calls\<close>

text \<open>
  \<open>PublishError\<close> is a \<open>ProductPublishError\<close> by its kind, with the flags \<open>retryable\<close> and \<open>uncertain\<close>;
  \<open>RequestError\<close> an exception of \<open>requests\<close>, with the flag whether it is transient;
  \<open>OtherError\<close> every other exception.
\<close>

datatype pub_fail = PublishError string bool bool | RequestError bool | ImageInvalid | OtherError

datatype pub_event = Phase string | Request string json | Upload ustr | Download ustr

type_synonym 'a pub = "pub_event list \<Rightarrow> (pub_fail + 'a) \<times> pub_event list"

definition ok :: "'a \<Rightarrow> 'a pub" where
  "ok x tr = (Inr x, tr)"

definition fail :: "pub_fail \<Rightarrow> 'a pub" where
  "fail e tr = (Inl e, tr)"

definition bind_pub :: "'a pub \<Rightarrow> ('a \<Rightarrow> 'b pub) \<Rightarrow> 'b pub" where
  "bind_pub m f tr = (case m tr of (Inl e, tr') \<Rightarrow> (Inl e, tr') | (Inr x, tr') \<Rightarrow> f x tr')"

definition emit :: "pub_event \<Rightarrow> unit pub" where
  "emit e tr = (Inr (), tr @ [e])"

definition progress :: "string \<Rightarrow> unit pub" where
  "progress phase = emit (Phase phase)"

abbreviation publish_error :: "string \<Rightarrow> 'a pub" where
  "publish_error kind \<equiv> fail (PublishError kind False False)"

definition lift_option :: "pub_fail \<Rightarrow> 'a option \<Rightarrow> 'a pub" where
  "lift_option e v = (case v of None \<Rightarrow> fail e | Some x \<Rightarrow> ok x)"

section \<open>The environment\<close>

text \<open>What an HTTP request gives; \<open>NoToken\<close> when the signature cannot be made and nothing is sent.\<close>

datatype http_reply = NoToken | HttpFailed bool | NotJson | HttpJson json

record image_data =
  im_filename :: ustr
  im_sha256 :: string
  im_width :: int
  im_height :: int

text \<open>What downloading one URL gives: a redirect, a body that is too large or no image, or an image.\<close>

datatype fetch_reply = FetchFailed bool | Redirect "ustr option" | TooLarge | NoImage | Fetched image_data

text \<open>What \<open>urlparse\<close> returns; reading an invalid port raises.\<close>

record parsed_url =
  pu_scheme :: string
  pu_hostname :: "ustr option"
  pu_port_valid :: bool

text \<open>
  The platform, the upload server, image servers and the name service, as functions of the trace;
  \<open>urlparse\<close> (nothing when it raises), \<open>is_global\<close> of an address, \<open>urljoin\<close>, \<open>float\<close>, the comparison of two
  positions with the default one, the digest of a location, and the user of the cookie.
\<close>

record pub_env =
  pe_net :: "pub_event list \<Rightarrow> string \<Rightarrow> json \<Rightarrow> http_reply"
  pe_upload :: "pub_event list \<Rightarrow> image_data \<Rightarrow> http_reply"
  pe_fetch :: "pub_event list \<Rightarrow> ustr \<Rightarrow> fetch_reply"
  pe_urlparse :: "ustr \<Rightarrow> parsed_url option"
  pe_resolve :: "pub_event list \<Rightarrow> ustr \<Rightarrow> ustr list option"
  pe_global :: "ustr \<Rightarrow> bool"
  pe_join :: "ustr \<Rightarrow> ustr \<Rightarrow> ustr"
  pe_float :: "json \<Rightarrow> json option"
  pe_far :: "json \<Rightarrow> json \<Rightarrow> bool"
  pe_digest :: "json \<Rightarrow> ustr"
  pe_unb :: ustr

definition post_once :: "pub_env \<Rightarrow> string \<Rightarrow> json \<Rightarrow> json pub" where
  "post_once env api payload tr = (case pe_net env tr api payload of
     NoToken \<Rightarrow> (Inl (PublishError ''auth'' False False), tr)
   | HttpFailed transient \<Rightarrow> (Inl (RequestError transient), tr @ [Request api payload])
   | NotJson \<Rightarrow> (Inl (PublishError ''platform_response'' False False), tr @ [Request api payload])
   | HttpJson r \<Rightarrow> (Inr r, tr @ [Request api payload]))"

text \<open>An answer that names an expired token is followed by a second request.\<close>

definition post_mtop :: "pub_env \<Rightarrow> string \<Rightarrow> json \<Rightarrow> json pub" where
  "post_mtop env api payload = bind_pub (post_once env api payload) (\<lambda>r.
     if contains_marker r TOKEN_ERROR_MARKERS then post_once env api payload else ok r)"

definition checked :: "json \<Rightarrow> unit pub" where
  "checked r = (case ensure_success r of
     None \<Rightarrow> ok ()
   | Some None \<Rightarrow> fail OtherError
   | Some (Some (kind, _)) \<Rightarrow> publish_error kind)"

section \<open>Locations\<close>

definition is_missing :: "json \<Rightarrow> bool" where
  "is_missing v \<longleftrightarrow> v = JNull \<or> v = JStr []"

definition first_truthy :: "json list \<Rightarrow> json" where
  "first_truthy vs = (case find jtruthy vs of None \<Rightarrow> JNull | Some v \<Rightarrow> v)"

definition place_text :: "json \<Rightarrow> string list \<Rightarrow> ustr" where
  "place_text v keys = ustrip (str_of (first_truthy (map (\<lambda>k. jget k v) keys)))"

definition validate_location :: "pub_env \<Rightarrow> json \<Rightarrow> json option" where
  "validate_location env v =
     (let prov = place_text v [''prov'']; city = place_text v [''city'']; area = place_text v [''area''];
          division = place_text v [''division_id'', ''divisionId'']; poi = place_text v [''poi_id'', ''poiId''];
          name = place_text v [''poi_name'', ''poiName'', ''poi'', ''area'', ''city'']
      in if \<not> is_obj v \<or> prov = [] \<or> city = [] \<or> division = [] \<or> is_missing (jget ''longitude'' v) \<or> is_missing (jget ''latitude'' v) \<or> name = []
         then None
         else (case (pe_float env (jget ''longitude'' v), pe_float env (jget ''latitude'' v)) of
             (Some lon, Some lat) \<Rightarrow> Some (jobj [(''prov'', JStr prov), (''city'', JStr city), (''area'', JStr area),
               (''division_id'', JStr division), (''longitude'', lon), (''latitude'', lat), (''poi_id'', JStr poi), (''poi_name'', JStr name)])
           | _ \<Rightarrow> None))"

definition LOCATION_MAX_ATTEMPTS :: nat where
  "LOCATION_MAX_ATTEMPTS = 3"

definition poi_api :: string where
  "poi_api = ''mtop.taobao.idle.local.poi.get''"

definition position :: "json \<Rightarrow> json \<Rightarrow> json" where
  "position lon lat = jobj [(''longitude'', lon), (''latitude'', lat)]"

text \<open>The attempts that are left, at least one.\<close>

fun request_locations :: "pub_env \<Rightarrow> json \<Rightarrow> nat \<Rightarrow> json pub" where
  "request_locations env at 0 tr = (Inl OtherError, tr)"
| "request_locations env at (Suc n) tr = (case post_mtop env poi_api at tr of
     (Inl (RequestError transient), tr') \<Rightarrow>
       if \<not> transient \<or> n = 0 then (Inl (PublishError ''network'' transient False), tr') else request_locations env at n tr'
   | res \<Rightarrow> res)"

definition location_lists :: "string list" where
  "location_lists = [''commonAddresses'', ''nearbyAddresses'', ''pois'']"

definition put_field :: "string \<Rightarrow> json \<Rightarrow> json \<Rightarrow> json" where
  "put_field k v d = (case d of JObj kvs \<Rightarrow> JObj (dict_set (asc k) v kvs) | _ \<Rightarrow> d)"

definition merged_locations :: "json \<Rightarrow> json \<Rightarrow> json \<Rightarrow> json" where
  "merged_locations data centered selected =
     put_field ''selectedPoi'' (jor (jget ''selectedPoi'' centered) selected)
       (foldl (\<lambda>d k. let vs = list_or_empty (jget k data) @ list_or_empty (jget k centered)
                     in if vs = [] then d else put_field k (JList vs) d) data location_lists)"

text \<open>The second request around the selected place; its failures are only logged.\<close>

definition centered_data :: "pub_env \<Rightarrow> json \<Rightarrow> json pub" where
  "centered_data env data tr =
     (let selected = jget ''selectedPoi'' data in
      if \<not> is_obj selected then (Inr data, tr)
      else case (pe_float env (jget ''longitude'' selected), pe_float env (jget ''latitude'' selected)) of
        (Some lon, Some lat) \<Rightarrow>
          if \<not> pe_far env lon lat then (Inr data, tr)
          else (case bind_pub (post_mtop env poi_api (position lon lat)) (\<lambda>r. bind_pub (checked r) (\<lambda>_. ok r)) tr of
              (Inr r, tr') \<Rightarrow> (Inr (let c = jor (jget ''data'' r) (JObj []) in if is_obj c then merged_locations data c selected else data), tr')
            | (Inl OtherError, tr') \<Rightarrow> (Inl OtherError, tr')
            | (Inl _, tr') \<Rightarrow> (Inr data, tr'))
      | _ \<Rightarrow> (Inr data, tr))"

definition location_sources :: "json \<Rightarrow> (string \<times> json list) list" where
  "location_sources data =
     (if is_obj (jget ''selectedPoi'' data) then [(''platform_selected'', [jget ''selectedPoi'' data])] else []) @
     [(''platform_common'', list_or_empty (jget ''commonAddresses'' data)),
      (''platform_nearby'', list_or_empty (jget ''nearbyAddresses'' data)), (''platform_nearby'', list_or_empty (jget ''pois'' data))]"

definition location_label :: "json \<Rightarrow> ustr" where
  "location_label l = join (asc '' '') (foldl (\<lambda>ps p. if p = [] \<or> p \<in> set ps then ps else ps @ [p]) []
     (map (\<lambda>k. str_of (jget k l)) [''prov'', ''city'', ''area'', ''poi_name'']))"

definition add_candidate :: "pub_env \<Rightarrow> string \<Rightarrow> (ustr \<times> json) list \<Rightarrow> json \<Rightarrow> (ustr \<times> json) list" where
  "add_candidate env source found v =
     (case (if is_obj v then validate_location env v else None) of
        None \<Rightarrow> found
      | Some l \<Rightarrow> let i = pe_digest env l in
          if i \<in> fst ` set found then found
          else found @ [(i, put_field ''source'' (JStr (asc source)) (put_field ''label'' (JStr (location_label l)) (put_field ''location_id'' (JStr i) l)))])"

definition location_candidates :: "pub_env \<Rightarrow> json \<Rightarrow> json list" where
  "location_candidates env data =
     map snd (foldl (\<lambda>found (source, vs). foldl (add_candidate env source) found vs) [] (location_sources data))"

definition list_location_candidates :: "pub_env \<Rightarrow> json \<Rightarrow> json list pub" where
  "list_location_candidates env at =
     bind_pub (request_locations env at LOCATION_MAX_ATTEMPTS) (\<lambda>r. bind_pub (checked r) (\<lambda>_.
       let data = jget ''data'' r in
       if jtruthy data \<and> \<not> is_obj data then fail OtherError
       else bind_pub (centered_data env (obj_or_empty data)) (\<lambda>d.
         case location_candidates env d of [] \<Rightarrow> publish_error ''location'' | cs \<Rightarrow> ok cs)))"

definition drop_fields :: "string list \<Rightarrow> json \<Rightarrow> json" where
  "drop_fields ks v = (case v of JObj kvs \<Rightarrow> JObj (filter (\<lambda>(k, _). k \<notin> asc ` set ks) kvs) | _ \<Rightarrow> v)"

definition default_position :: json where
  "default_position = position (JFloat (asc ''118.78248347393424'')) (JFloat (asc ''31.91629189813543''))"

definition get_default_location :: "pub_env \<Rightarrow> json pub" where
  "get_default_location env = bind_pub (list_location_candidates env default_position)
     (\<lambda>cs. ok (drop_fields [''location_id'', ''label'', ''source''] (hd cs)))"

section \<open>Images\<close>

record published_image =
  pm_url :: ustr
  pm_width :: int
  pm_height :: int

text \<open>\<open>pix.lower().split("x", 1)\<close>, both parts as numbers.\<close>

definition pix_size :: "ustr \<Rightarrow> (int \<times> int) option" where
  "pix_size pix = (let t = ulower pix; w = takeWhile (\<lambda>c. c \<noteq> 120) t in
     if 120 \<notin> set t then None
     else (case (text_int w, text_int (drop (Suc (length w)) t)) of (Some a, Some b) \<Rightarrow> Some (a, b) | _ \<Rightarrow> None))"

definition uploaded_image :: "image_data \<Rightarrow> json \<Rightarrow> published_image pub" where
  "uploaded_image img r =
     (let v = jor (jget ''object'' r) (jor (jget ''data'' r) (jor (jget ''result'' r) (JObj [])));
          url = jor (jget ''url'' v) (jget ''url'' r); size = pix_size (str_of (jget ''pix'' v))
      in if \<not> is_obj r \<or> \<not> is_obj v then fail OtherError
         else if \<not> jtruthy url then publish_error ''image_upload''
         else ok \<lparr>pm_url = py_str url, pm_width = (case size of None \<Rightarrow> im_width img | Some (w, h) \<Rightarrow> w),
                  pm_height = (case size of None \<Rightarrow> im_height img | Some (w, h) \<Rightarrow> h)\<rparr>)"

text \<open>The upload needs no token.\<close>

definition upload_image_data :: "pub_env \<Rightarrow> image_data \<Rightarrow> published_image pub" where
  "upload_image_data env img tr = (case pe_upload env tr img of
     HttpJson r \<Rightarrow> uploaded_image img r (tr @ [Upload (im_filename img)])
   | NotJson \<Rightarrow> (Inl (PublishError ''image_upload'' False False), tr @ [Upload (im_filename img)])
   | HttpFailed transient \<Rightarrow> (Inl (RequestError transient), tr @ [Upload (im_filename img)])
   | NoToken \<Rightarrow> (Inl OtherError, tr))"

text \<open>The error of an address that may not be contacted.\<close>

definition validate_public_url :: "pub_env \<Rightarrow> pub_event list \<Rightarrow> ustr \<Rightarrow> pub_fail option" where
  "validate_public_url env tr url = (case pe_urlparse env url of
     None \<Rightarrow> Some OtherError
   | Some u \<Rightarrow>
       if pu_scheme u \<notin> {''http'', ''https''} \<or> \<not> utruthy (pu_hostname u) then Some (PublishError ''image_url'' False False)
       else if \<not> pu_port_valid u then Some OtherError
       else case pe_resolve env tr (the (pu_hostname u)) of
         None \<Rightarrow> Some (PublishError ''image_url'' False False)
       | Some addresses \<Rightarrow> if list_all (pe_global env) addresses then None else Some (PublishError ''image_url'' False False))"

text \<open>At most four addresses are tried, each of them checked before it is contacted.\<close>

fun download :: "pub_env \<Rightarrow> nat \<Rightarrow> ustr \<Rightarrow> image_data pub" where
  "download env 0 url tr = (Inl (PublishError ''image_download'' False False), tr)"
| "download env (Suc n) url tr =
     (case validate_public_url env tr url of
        Some e \<Rightarrow> (Inl e, tr)
      | None \<Rightarrow>
          (case pe_fetch env tr url of
             FetchFailed transient \<Rightarrow> (Inl (RequestError transient), tr @ [Download url])
           | Redirect None \<Rightarrow> (Inl (PublishError ''image_download'' False False), tr @ [Download url])
           | Redirect (Some target) \<Rightarrow>
               if target = [] then (Inl (PublishError ''image_download'' False False), tr @ [Download url])
               else download env n (pe_join env url target) (tr @ [Download url])
           | TooLarge \<Rightarrow> (Inl (PublishError ''image_invalid'' False False), tr @ [Download url])
           | NoImage \<Rightarrow> (Inl ImageInvalid, tr @ [Download url])
           | Fetched img \<Rightarrow> (Inr img, tr @ [Download url])))"

definition download_and_upload :: "pub_env \<Rightarrow> ustr \<Rightarrow> published_image pub" where
  "download_and_upload env url = bind_pub (download env 4 url) (upload_image_data env)"

section \<open>The request\<close>

text \<open>A \<open>Decimal\<close>: coefficient and exponent, an infinity with its sign, or no number.\<close>

datatype decimal = Dec int int | DecInfinity bool | DecNaN

text \<open>Division rounded half to even, as \<open>quantize\<close> and the context of 28 digits do.\<close>

definition half_even :: "int \<Rightarrow> int \<Rightarrow> int" where
  "half_even n d = (let q = \<bar>n\<bar> div d; r = \<bar>n\<bar> mod d;
     v = (if 2 * r > d \<or> (2 * r = d \<and> odd q) then q + 1 else q) in if n < 0 then - v else v)"

definition digit_count :: "int \<Rightarrow> nat" where
  "digit_count n = length (show_nat (nat \<bar>n\<bar>))"

definition to_precision :: "int \<times> int \<Rightarrow> int \<times> int" where
  "to_precision ce = (case ce of (c, e) \<Rightarrow>
     if digit_count c \<le> 28 then (c, e) else (half_even c (10 ^ (digit_count c - 28)), e + int (digit_count c - 28)))"

definition quantize_int :: "int \<times> int \<Rightarrow> int option" where
  "quantize_int ce = (case ce of (c, e) \<Rightarrow>
     let v = (if 0 \<le> e then c * 10 ^ nat e else half_even c (10 ^ nat (- e))) in if digit_count v \<le> 28 then Some v else None)"

definition to_cents :: "decimal \<Rightarrow> ustr option" where
  "to_cents d = (case d of Dec c e \<Rightarrow> map_option ushow (quantize_int (to_precision (c * 100, e))) | _ \<Rightarrow> None)"

record publish_request =
  pq_title :: ustr
  pq_description :: ustr
  pq_image_urls :: "ustr list"
  pq_price :: "decimal option"
  pq_original_price :: "decimal option"
  pq_stock :: int
  pq_delivery_choice :: ustr
  pq_post_price :: "decimal option"
  pq_can_self_pickup :: bool
  pq_category_hint :: "ustr option"
  pq_unique_code :: ustr
  pq_location :: "json option"
  pq_image_data :: "(ustr \<times> image_data) list"

definition DELIVERY_CHOICES :: "ustr list" where
  "DELIVERY_CHOICES = [asc ''free_shipping'', asc ''distance'', asc ''fixed'', asc ''pickup_only'']"

definition request_valid :: "publish_request \<Rightarrow> bool" where
  "request_valid q \<longleftrightarrow> 1 \<le> length (pq_image_urls q) \<and> length (pq_image_urls q) \<le> 9 \<and> pq_unique_code q \<noteq> [] \<and> 1 \<le> pq_stock q
     \<and> pq_delivery_choice q \<in> set DELIVERY_CHOICES \<and> (if pq_delivery_choice q = asc ''fixed'' then pq_post_price q \<noteq> None else True)"

definition image_payload :: "bool \<Rightarrow> published_image \<Rightarrow> json" where
  "image_payload major i = jobj [(''extraInfo'', jobj [(''isH'', JStr (asc ''false'')), (''isT'', JStr (asc ''false'')), (''raw'', JStr (asc ''false''))]),
     (''isQrCode'', JBool False), (''url'', JStr (pm_url i)), (''heightSize'', JInt (pm_height i)), (''widthSize'', JInt (pm_width i)),
     (''major'', JBool major), (''type'', JInt 0), (''status'', JStr (asc ''done''))]"

definition image_payloads :: "published_image list \<Rightarrow> json" where
  "image_payloads is = JList (map (\<lambda>(n, i). image_payload (n = (0::nat)) i) (zip [0..<length is] is))"

definition category_payload :: "publish_request \<Rightarrow> published_image list \<Rightarrow> json" where
  "category_payload q is =
     (let hint = (if utruthy (pq_category_hint q) then Some (ustrip (u_text (pq_category_hint q))) else None);
          title = (case hint of Some h \<Rightarrow> if h \<noteq> [] \<and> \<not> contains h (pq_title q) then h @ [32] @ pq_title q else pq_title q | None \<Rightarrow> pq_title q);
          description = (case hint of Some h \<Rightarrow> [31867, 30446, 25552, 31034, 65306] @ h @ [10] @ pq_description q | None \<Rightarrow> pq_description q)
      in jobj [(''title'', JStr (take 120 title)), (''lockCpv'', JBool False), (''multiSKU'', JBool False),
           (''publishScene'', JStr (asc ''mainPublish'')), (''scene'', JStr (asc ''newPublishChoice'')),
           (''description'', JStr (take 5000 description)), (''imageInfos'', image_payloads is), (''uniqueCode'', JStr (pq_unique_code q))])"

definition recommend_category :: "pub_env \<Rightarrow> publish_request \<Rightarrow> published_image list \<Rightarrow> json pub" where
  "recommend_category env q is = bind_pub (post_mtop env ''mtop.taobao.idle.kgraph.property.recommend'' (category_payload q is))
     (\<lambda>r. bind_pub (checked r) (\<lambda>_. ok r))"

text \<open>\<open>data or {}\<close>; anything else that is no object has no \<open>get\<close>.\<close>

definition data_object :: "json \<Rightarrow> json option" where
  "data_object r = (let d = jget ''data'' r in if \<not> jtruthy d then Some (JObj []) else if is_obj d then Some d else None)"

definition extract_category :: "json \<Rightarrow> json pub" where
  "extract_category r = (case data_object r of
     None \<Rightarrow> fail OtherError
   | Some d \<Rightarrow>
       let source = jor (jget ''categoryPredictResult'' d) (JObj []);
           value = (\<lambda>a b. str_of (jor (jget a source) (jget b source)));
           category = [(''catId'', value ''catId'' ''cat_id''), (''catName'', value ''catName'' ''cat_name''),
             (''channelCatId'', value ''channelCatId'' ''channel_cat_id''), (''tbCatId'', value ''tbCatId'' ''tb_cat_id'')]
       in if \<not> is_obj source then fail OtherError
          else if list_ex (\<lambda>(_, v). v = []) category then publish_error ''category''
          else ok (jobj (map (\<lambda>(k, v). (k, JStr v)) category)))"

text \<open>The first value that is clicked; an earlier one that is no object has no \<open>get\<close>.\<close>

fun clicked :: "json list \<Rightarrow> json option option" where
  "clicked [] = Some None"
| "clicked (v # vs) = (if \<not> is_obj v then None else if jtruthy (jget ''isClicked'' v) then Some (Some v) else clicked vs)"

definition list_values :: "json \<Rightarrow> json list option" where
  "list_values v = (if \<not> jtruthy v then Some [] else case v of JList vs \<Rightarrow> Some vs | _ \<Rightarrow> None)"

definition label_of :: "json \<Rightarrow> json list option" where
  "label_of entry =
     (let v = jor (jget ''cardData'' entry) (JObj []) in
      if \<not> is_obj entry \<or> \<not> is_obj v then None
      else case Option.bind (list_values (jget ''valuesList'' v)) clicked of
        None \<Rightarrow> None
      | Some None \<Rightarrow> Some []
      | Some (Some c) \<Rightarrow>
          let name = jor (jget ''catName'' c) (jget ''channelCatName'' c); channel = jget ''channelCatId'' c in
          if \<not> jtruthy name \<or> \<not> jtruthy channel then Some []
          else Some [jobj [(''channelCateName'', name), (''channelCateId'', channel), (''tbCatId'', jget ''tbCatId'' c),
            (''labelType'', JStr (asc ''common'')), (''propertyName'', jget ''propertyName'' v), (''isUserClick'', JStr (asc ''1'')),
            (''from'', JStr (asc ''newPublishChoice'')), (''propertyId'', jget ''propertyId'' v), (''labelFrom'', JStr (asc ''newPublish'')),
            (''text'', name), (''properties'', JStr (py_str (jget ''propertyId'' v) @ asc ''##'' @ py_str (jget ''propertyName'' v) @ asc '':''
               @ py_str channel @ asc ''##'' @ py_str name))]])"

fun all_labels :: "json list \<Rightarrow> json list option" where
  "all_labels [] = Some []"
| "all_labels (c # cs) = (case label_of c of None \<Rightarrow> None | Some ls \<Rightarrow> map_option (append ls) (all_labels cs))"

definition build_labels :: "json \<Rightarrow> json list option" where
  "build_labels r = Option.bind (data_object r) (\<lambda>d. Option.bind (list_values (jget ''cardList'' d)) all_labels)"

text \<open>\<open>location.get(key, "")\<close>: the key may be missing.\<close>

definition place_field :: "string \<Rightarrow> json \<Rightarrow> json" where
  "place_field k l = (case l of JObj kvs \<Rightarrow> (case map_of kvs (asc k) of None \<Rightarrow> JStr [] | Some v \<Rightarrow> v) | _ \<Rightarrow> JStr [])"

definition post_fee :: "publish_request \<Rightarrow> json option" where
  "post_fee q =
     (let fee = (\<lambda>free freight self rest. jobj ([(''canFreeShipping'', JBool free), (''supportFreight'', JBool freight), (''onlyTakeSelf'', JBool self)] @ rest));
          c = pq_delivery_choice q
      in if c = asc ''free_shipping'' then Some (fee True True False [])
         else if c = asc ''distance'' then Some (fee False True False [(''templateId'', JStr (asc ''-100''))])
         else if c = asc ''fixed''
           then map_option (\<lambda>p. fee False True False [(''templateId'', JStr (asc ''0'')), (''postPriceInCent'', JStr p)])
             (to_cents (case pq_post_price q of None \<Rightarrow> Dec 0 0 | Some p \<Rightarrow> p))
         else if c = asc ''pickup_only'' then Some (fee False False True [(''templateId'', JStr (asc ''0''))])
         else Some (fee False False False []))"

definition price_fields :: "publish_request \<Rightarrow> (string \<times> json) list option" where
  "price_fields q =
     (let cents = (\<lambda>k d. case d of None \<Rightarrow> Some [] | Some v \<Rightarrow> map_option (\<lambda>p. [(k, JStr p)]) (to_cents v)) in
      Option.bind (cents ''priceInCent'' (pq_price q)) (\<lambda>a. map_option (append a) (cents ''origPriceInCent'' (pq_original_price q))))"

definition build_publish_payload :: "publish_request \<Rightarrow> published_image list \<Rightarrow> json \<Rightarrow> json \<Rightarrow> json \<Rightarrow> json option" where
  "build_publish_payload q is response category l =
     Option.bind (build_labels response) (\<lambda>labels. Option.bind (price_fields q) (\<lambda>prices. map_option (\<lambda>fee.
       jobj ([(''freebies'', JBool False), (''itemTypeStr'', JStr (asc ''b'')), (''quantity'', JStr (ushow (pq_stock q))), (''simpleItem'', JStr (asc ''true'')),
         (''imageInfoDOList'', image_payloads is),
         (''itemTextDTO'', jobj [(''desc'', JStr (pq_description q)), (''title'', JStr (pq_title q)), (''titleDescSeparate'', JBool (pq_description q \<noteq> pq_title q))]),
         (''itemLabelExtList'', JList labels), (''itemPriceDTO'', jobj prices),
         (''userRightsProtocols'', JList [jobj [(''enable'', JBool False), (''serviceCode'', JStr (asc ''SKILL_PLAY_NO_MIND''))]]),
         (''itemPostFeeDTO'', fee),
         (''itemAddrDTO'', jobj [(''area'', place_field ''area'' l), (''city'', place_field ''city'' l), (''divisionId'', place_field ''division_id'' l),
            (''gps'', JStr (py_str (jget ''longitude'' l) @ [44] @ py_str (jget ''latitude'' l))), (''poiId'', place_field ''poi_id'' l),
            (''poiName'', place_field ''poi_name'' l), (''prov'', place_field ''prov'' l)]),
         (''defaultPrice'', JBool (pq_price q = None)), (''itemCatDTO'', category), (''uniqueCode'', JStr (pq_unique_code q)),
         (''sourceId'', JStr (asc ''pcMainPublish'')), (''bizcode'', JStr (asc ''pcMainPublish'')), (''publishScene'', JStr (asc ''pcMainPublish''))]
         @ (if pq_delivery_choice q = asc ''pickup_only'' \<or> pq_can_self_pickup q then [(''onlyTakeSelf'', JBool True)] else [])))
       (post_fee q)))"

section \<open>Publishing\<close>

definition all_digits :: "ustr \<Rightarrow> bool" where
  "all_digits t \<longleftrightarrow> t \<noteq> [] \<and> list_all (\<lambda>c. 48 \<le> c \<and> c \<le> 57) t"

definition id_keys :: "string list" where
  "id_keys = [''itemId'', ''item_id'', ''idleItemId'', ''idleId'']"

definition id_matches :: "ustr option \<Rightarrow> ustr \<Rightarrow> bool" where
  "id_matches expected c \<longleftrightarrow> all_digits c \<and> 6 \<le> length c \<and> (if utruthy expected then expected = Some c else True)"

definition first_found :: "'a option list \<Rightarrow> 'a option" where
  "first_found xs = (case List.map_filter id xs of [] \<Rightarrow> None | x # _ \<Rightarrow> Some x)"

fun find_item_id :: "ustr option \<Rightarrow> json \<Rightarrow> ustr option" where
  "find_item_id expected (JObj kvs) =
     (case find (id_matches expected) (map (\<lambda>k. str_of (jget k (JObj kvs))) id_keys) of
        Some c \<Rightarrow> Some c
      | None \<Rightarrow> first_found (map (\<lambda>kv. find_item_id expected (snd kv)) kvs))"
| "find_item_id expected (JList vs) = first_found (map (find_item_id expected) vs)"
| "find_item_id expected _ = None"

definition verify_payload :: "ustr \<Rightarrow> json" where
  "verify_payload unb = jobj [(''needGroupInfo'', JBool False), (''pageNumber'', JInt 1), (''pageSize'', JInt 20),
     (''groupName'', JStr [22312, 21806]), (''groupId'', JStr (asc ''58877261'')), (''defaultGroup'', JBool True), (''userId'', JStr unb)]"

text \<open>Errors of the verification count as not verified.\<close>

definition verify_item :: "pub_env \<Rightarrow> ustr \<Rightarrow> bool pub" where
  "verify_item env item_id tr = (case post_mtop env ''mtop.idle.web.xyh.item.list'' (verify_payload (pe_unb env)) tr of
     (Inr r, tr') \<Rightarrow> (Inr (is_success r \<and> find_item_id (Some item_id) (jget ''data'' r) = Some item_id), tr')
   | (Inl _, tr') \<Rightarrow> (Inr False, tr'))"

definition publish_api :: string where
  "publish_api = ''mtop.idle.pc.idleitem.publish''"

text \<open>After the request was sent without a clear answer the result is uncertain.\<close>

definition send_publish :: "pub_env \<Rightarrow> json \<Rightarrow> json pub" where
  "send_publish env payload tr = (case post_mtop env publish_api payload tr of
     (Inl (RequestError _), tr') \<Rightarrow> (Inl (PublishError ''publish_result_unknown'' False True), tr')
   | (Inl (PublishError kind retryable uncertain), tr') \<Rightarrow>
       (Inl (if kind = ''platform_response'' then PublishError ''publish_result_unknown'' False True else PublishError kind retryable uncertain), tr')
   | res \<Rightarrow> res)"

record publish_result =
  pr_item_id :: ustr
  pr_verified :: bool
  pr_raw_response :: json

definition request_location :: "pub_env \<Rightarrow> publish_request \<Rightarrow> json pub" where
  "request_location env q = (case pq_location q of
     None \<Rightarrow> get_default_location env
   | Some l \<Rightarrow> (case validate_location env l of None \<Rightarrow> publish_error ''location'' | Some v \<Rightarrow> ok v))"

definition publish_image :: "pub_env \<Rightarrow> publish_request \<Rightarrow> ustr \<Rightarrow> published_image pub" where
  "publish_image env q url = (case map_of (pq_image_data q) url of
     Some img \<Rightarrow> upload_image_data env img | None \<Rightarrow> download_and_upload env url)"

fun publish_images :: "pub_env \<Rightarrow> publish_request \<Rightarrow> nat \<Rightarrow> ustr list \<Rightarrow> published_image list pub" where
  "publish_images env q n [] = ok []"
| "publish_images env q n (url # urls) =
     bind_pub (progress (''uploading_image:'' @ show_nat n @ ''/'' @ show_nat (length (pq_image_urls q)))) (\<lambda>_.
     bind_pub (publish_image env q url) (\<lambda>i. bind_pub (publish_images env q (Suc n) urls) (\<lambda>is. ok (i # is))))"

text \<open>Everything before the request.\<close>

definition prepare_publish :: "pub_env \<Rightarrow> publish_request \<Rightarrow> json pub" where
  "prepare_publish env q =
     bind_pub (progress ''resolving_location'') (\<lambda>_. bind_pub (request_location env q) (\<lambda>l.
     bind_pub (publish_images env q 1 (pq_image_urls q)) (\<lambda>is.
     bind_pub (progress ''resolving_category'') (\<lambda>_. bind_pub (recommend_category env q is) (\<lambda>response.
     bind_pub (extract_category response) (\<lambda>category.
     lift_option OtherError (build_publish_payload q is response category l)))))))"

text \<open>The request and everything after it.\<close>

definition finish_publish :: "pub_env \<Rightarrow> json \<Rightarrow> publish_result pub" where
  "finish_publish env payload =
     bind_pub (progress ''publishing'') (\<lambda>_. bind_pub (send_publish env payload) (\<lambda>r. bind_pub (checked r) (\<lambda>_.
     case find_item_id None (jget ''data'' r) of
       None \<Rightarrow> fail (PublishError ''publish_result_unknown'' False True)
     | Some i \<Rightarrow>
         bind_pub (progress ''verifying'') (\<lambda>_. bind_pub (verify_item env i) (\<lambda>verified.
         bind_pub (progress (if verified then ''completed'' else ''verification_required'')) (\<lambda>_.
         ok \<lparr>pr_item_id = i, pr_verified = verified, pr_raw_response = r\<rparr>))))))"

definition classify :: "pub_fail \<Rightarrow> pub_fail" where
  "classify e = (case e of ImageInvalid \<Rightarrow> PublishError ''image_invalid'' False False
     | RequestError _ \<Rightarrow> PublishError ''network'' True False | _ \<Rightarrow> e)"

definition publish_product :: "pub_env \<Rightarrow> publish_request \<Rightarrow> publish_result pub" where
  "publish_product env q tr =
     (if \<not> request_valid q then (Inl (PublishError ''validation'' False False), tr)
      else case bind_pub (prepare_publish env q) (finish_publish env) tr of
        (Inl e, tr') \<Rightarrow> (Inl (classify e), tr') | res \<Rightarrow> res)"

section \<open>What a call adds to the trace\<close>

text \<open>A call keeps a property of the trace; the rules follow the structure of the calls.\<close>

definition keeps :: "(pub_event list \<Rightarrow> bool) \<Rightarrow> 'a pub \<Rightarrow> bool" where
  "keeps I m \<longleftrightarrow> (\<forall>tr. I tr \<longrightarrow> I (snd (m tr)))"

named_theorems keeps_rules \<open>rules for \<open>keeps\<close>\<close>

lemma keepsI: "(\<And>tr. I tr \<Longrightarrow> I (snd (m tr))) \<Longrightarrow> keeps I m"
  by (simp add: keeps_def)

lemma keepsD: "keeps I m \<Longrightarrow> I tr \<Longrightarrow> I (snd (m tr))"
  by (simp add: keeps_def)

lemma keeps_ok [keeps_rules]: "keeps I (ok x)" "keeps I (fail e)"
  by (simp_all add: keeps_def ok_def fail_def)

lemma keeps_bind_pub [keeps_rules]:
  assumes m: "keeps I m" and f: "\<And>x. keeps I (f x)"
  shows "keeps I (bind_pub m f)"
proof (rule keepsI)
  fix tr assume "I tr"
  then have "I (snd (m tr))" by (rule keepsD [OF m])
  then show "I (snd (bind_pub m f tr))" using keepsD [OF f] by (auto simp: bind_pub_def split: sum.split prod.split)
qed

lemma keeps_if [keeps_rules]: "keeps I m \<Longrightarrow> keeps I m' \<Longrightarrow> keeps I (if b then m else m')"
  by simp

lemma keeps_checked [keeps_rules]: "keeps I (checked r)" "keeps I (lift_option e v)" "keeps I (extract_category r)" "keeps I (uploaded_image img r)"
  by (auto simp: checked_def lift_option_def extract_category_def uploaded_image_def Let_def intro: keeps_ok split: option.split)

text \<open>
  A property that admits every event but a download and a publish request is kept by all other
  calls.
\<close>

locale trace_property =
  fixes I :: "pub_event list \<Rightarrow> bool" and P :: "string \<Rightarrow> bool"
  assumes phase: "I tr \<Longrightarrow> I (tr @ [Phase p])" and upload: "I tr \<Longrightarrow> I (tr @ [Upload f])"
    and request: "I tr \<Longrightarrow> P api \<Longrightarrow> I (tr @ [Request api v])"
begin

lemma keeps_progress [keeps_rules]: "keeps I (progress p)"
  by (simp add: keeps_def progress_def emit_def phase)

lemma keeps_post_once: "P api \<Longrightarrow> keeps I (post_once env api v)"
  by (rule keepsI) (simp add: post_once_def request split: http_reply.split)

lemma keeps_post [keeps_rules]: "P api \<Longrightarrow> keeps I (post_mtop env api v)"
  unfolding post_mtop_def by (intro keeps_rules keeps_post_once)

lemma keeps_request_locations: "P poi_api \<Longrightarrow> keeps I (request_locations env at n)"
proof (induction n)
  case (Suc n)
  show ?case
  proof (rule keepsI)
    fix tr assume "I tr"
    then have "I (snd (post_mtop env poi_api at tr))" by (rule keepsD [OF keeps_post [OF Suc.prems]])
    then show "I (snd (request_locations env at (Suc n) tr))"
      using keepsD [OF Suc.IH [OF Suc.prems]] by (auto split: sum.split pub_fail.split prod.split)
  qed
qed (simp add: keeps_def)

lemma keeps_centered: assumes "P poi_api" shows "keeps I (centered_data env d)"
proof (rule keepsI)
  fix tr assume I: "I tr"
  have "keeps I (bind_pub (post_mtop env poi_api (position lon lat)) (\<lambda>r. bind_pub (checked r) (\<lambda>_. ok r)))" for lon lat
    using assms by (intro keeps_rules)
  then have "I (snd (bind_pub (post_mtop env poi_api (position lon lat)) (\<lambda>r. bind_pub (checked r) (\<lambda>_. ok r)) tr))" for lon lat
    using I by (rule keepsD)
  moreover have "snd (case bind_pub (post_mtop env poi_api (position lon lat)) (\<lambda>r. bind_pub (checked r) (\<lambda>_. ok r)) tr of
        (Inr r, tr') \<Rightarrow> (Inr (g r), tr') | (Inl OtherError, tr') \<Rightarrow> (Inl OtherError, tr') | (Inl _, tr') \<Rightarrow> (Inr d, tr')) =
      snd (bind_pub (post_mtop env poi_api (position lon lat)) (\<lambda>r. bind_pub (checked r) (\<lambda>_. ok r)) tr)" for lon lat and g :: "json \<Rightarrow> json"
    by (simp add: case_prod_beta split: sum.split pub_fail.split)
  ultimately show "I (snd (centered_data env d tr))" using I
    by (simp add: centered_data_def Let_def split: option.split)
qed

lemma keeps_location: assumes "P poi_api" shows "keeps I (request_location env q)"
proof -
  have "keeps I (list_location_candidates env at)" for at
    unfolding list_location_candidates_def Let_def
    by (intro keeps_rules keeps_request_locations keeps_centered assms) (simp add: keeps_ok split: list.split)
  then show ?thesis unfolding request_location_def get_default_location_def by (auto intro!: keeps_rules split: option.split)
qed

lemma keeps_upload: "keeps I (upload_image_data env img)"
proof (rule keepsI)
  fix tr assume I: "I tr"
  then have "I (snd (uploaded_image img r (tr @ [Upload f])))" for r f
    using upload [of tr f] keeps_checked(4) [of I img r] by (simp add: keeps_def)
  with I upload show "I (snd (upload_image_data env img tr))" by (simp add: upload_image_data_def split: http_reply.split)
qed

lemma keeps_category:
  assumes "P ''mtop.taobao.idle.kgraph.property.recommend''"
  shows "keeps I (recommend_category env q is)"
  unfolding recommend_category_def by (intro keeps_rules assms)

lemma keeps_verify:
  assumes "P ''mtop.idle.web.xyh.item.list''"
  shows "keeps I (verify_item env i)"
proof (rule keepsI)
  fix tr assume "I tr"
  then have "I (snd (post_mtop env ''mtop.idle.web.xyh.item.list'' (verify_payload (pe_unb env)) tr))"
    by (rule keepsD [OF keeps_post [OF assms]])
  then show "I (snd (verify_item env i tr))" by (auto simp: verify_item_def split: sum.split prod.split)
qed

lemma keeps_images:
  assumes "\<And>url. keeps I (download_and_upload env url)"
  shows "keeps I (publish_images env q n urls)"
  by (induction urls arbitrary: n) (auto simp: publish_image_def intro!: keeps_rules keeps_upload assms split: option.split)

lemma keeps_prepare:
  assumes "\<And>url. keeps I (download_and_upload env url)" and "P poi_api" and "P ''mtop.taobao.idle.kgraph.property.recommend''"
  shows "keeps I (prepare_publish env q)"
  unfolding prepare_publish_def by (intro keeps_rules keeps_location keeps_images keeps_category assms)

end

section \<open>Nothing is sent before the request\<close>

definition is_publish :: "pub_event \<Rightarrow> bool" where
  "is_publish e = (case e of Request api _ \<Rightarrow> api = publish_api | _ \<Rightarrow> False)"

definition quiet :: "pub_event list \<Rightarrow> bool" where
  "quiet tr \<longleftrightarrow> list_all (\<lambda>e. \<not> is_publish e) tr"

interpretation unsent: trace_property quiet "\<lambda>api. api \<noteq> publish_api"
  by unfold_locales (simp_all add: quiet_def is_publish_def)

lemma download_quiet: "quiet tr \<Longrightarrow> quiet (snd (download env n url tr))"
  by (induction env n url tr rule: download.induct) (auto simp: quiet_def is_publish_def split: fetch_reply.split option.split)

lemma prepare_quiet: "quiet tr \<Longrightarrow> quiet (snd (prepare_publish env q tr))"
proof (rule keepsD, rule unsent.keeps_prepare)
  show "keeps quiet (download_and_upload env url)" for url
    unfolding download_and_upload_def by (intro keeps_rules unsent.keeps_upload) (simp add: keeps_def download_quiet)
qed (simp_all add: poi_api_def publish_api_def)

text \<open>An error of the second part is never one that may be tried again.\<close>

definition conclusive :: "pub_fail \<Rightarrow> bool" where
  "conclusive e = (case e of PublishError _ retryable _ \<Rightarrow> \<not> retryable | OtherError \<Rightarrow> True | _ \<Rightarrow> False)"

lemma bind_fails:
  assumes "bind_pub m f tr = (Inl e, tr')"
  obtains "m tr = (Inl e, tr')" | x tr1 where "m tr = (Inr x, tr1)" "f x tr1 = (Inl e, tr')"
  using assms by (auto simp: bind_pub_def split: sum.splits prod.splits)

lemma post_once_fails: "post_once env api v tr = (Inl e, tr') \<Longrightarrow> (\<exists>b. e = RequestError b) \<or> (\<exists>k. e = PublishError k False False)"
  by (auto simp: post_once_def split: http_reply.splits)

lemma post_mtop_fails:
  assumes "post_mtop env api v tr = (Inl e, tr')"
  shows "(\<exists>b. e = RequestError b) \<or> (\<exists>k. e = PublishError k False False)"
  using assms unfolding post_mtop_def
  by (elim bind_fails) (auto dest: post_once_fails simp: ok_def split: if_splits)

lemma send_publish_fails: "send_publish env v tr = (Inl e, tr') \<Longrightarrow> conclusive e"
  by (auto simp: send_publish_def conclusive_def dest: post_mtop_fails split: sum.splits prod.splits pub_fail.splits if_splits)

lemma checked_fails: "checked r tr = (Inl e, tr') \<Longrightarrow> conclusive e"
  by (auto simp: checked_def conclusive_def ok_def fail_def split: option.splits)

lemma verify_never_fails: "verify_item env i tr \<noteq> (Inl e, tr')"
  by (auto simp: verify_item_def split: sum.splits prod.splits)

lemma finish_fails: "finish_publish env payload tr = (Inl e, tr') \<Longrightarrow> conclusive e"
  unfolding finish_publish_def
  by (elim bind_fails)
     (auto simp: progress_def emit_def ok_def fail_def conclusive_def verify_never_fails
        dest: send_publish_fails checked_fails split: option.splits elim!: bind_fails)

text \<open>A failure that may be tried again happened before anything was sent.\<close>

lemma retryable_not_sent:
  assumes "publish_product env q [] = (Inl (PublishError kind True uncertain), tr)"
  shows "quiet tr"
proof -
  from assms obtain e where e: "bind_pub (prepare_publish env q) (finish_publish env) [] = (Inl e, tr)" "classify e = PublishError kind True uncertain"
    by (auto simp: publish_product_def split: if_splits sum.splits prod.splits)
  then have "\<not> conclusive e" by (auto simp: classify_def conclusive_def split: pub_fail.splits)
  with e(1) have "prepare_publish env q [] = (Inl e, tr)" by (elim bind_fails) (auto dest: finish_fails)
  with prepare_quiet [of "[]" env q] show ?thesis by (simp add: quiet_def)
qed

section \<open>Only public addresses are contacted for images\<close>

fun contact_ok :: "pub_env \<Rightarrow> pub_event list \<Rightarrow> pub_event \<Rightarrow> bool" where
  "contact_ok env earlier (Download url) = (validate_public_url env earlier url = None)"
| "contact_ok env earlier _ = True"

definition guarded :: "pub_env \<Rightarrow> pub_event list \<Rightarrow> bool" where
  "guarded env tr \<longleftrightarrow> list_all (\<lambda>n. contact_ok env (take n tr) (tr ! n)) [0..<length tr]"

lemma guarded_snoc: "guarded env (tr @ [e]) \<longleftrightarrow> guarded env tr \<and> contact_ok env tr e"
proof -
  have "list_all (\<lambda>n. contact_ok env (take n (tr @ [e])) ((tr @ [e]) ! n)) [0..<length tr] = guarded env tr"
    unfolding guarded_def by (rule list_all_cong) (simp_all add: nth_append)
  then show ?thesis by (simp add: guarded_def)
qed

interpretation contacts: trace_property "guarded env" "\<lambda>_. True" for env
  by unfold_locales (simp_all add: guarded_snoc)

lemma download_guarded: "guarded env tr \<Longrightarrow> guarded env (snd (download env n url tr))"
  by (induction env n url tr rule: download.induct) (auto simp: guarded_snoc split: fetch_reply.split option.split)

lemma keeps_send: "keeps (guarded env) (send_publish env v)"
proof (rule keepsI)
  fix tr assume "guarded env tr"
  then have "guarded env (snd (post_mtop env publish_api v tr))" by (rule keepsD [OF contacts.keeps_post [OF TrueI]])
  then show "guarded env (snd (send_publish env v tr))" by (auto simp: send_publish_def split: sum.split prod.split pub_fail.split)
qed

lemma publish_guarded: "guarded env (snd (publish_product env q []))"
proof -
  have d: "keeps (guarded env) (download_and_upload env url)" for url
    unfolding download_and_upload_def by (intro keeps_rules contacts.keeps_upload) (simp add: keeps_def download_guarded)
  have "keeps (guarded env) (finish_publish env v)" for v
    unfolding finish_publish_def
    by (intro keeps_rules keeps_send contacts.keeps_progress contacts.keeps_verify TrueI)
       (auto intro!: keeps_rules contacts.keeps_progress contacts.keeps_verify split: option.split)
  then have "keeps (guarded env) (bind_pub (prepare_publish env q) (finish_publish env))"
    by (intro keeps_rules contacts.keeps_prepare d TrueI)
  then have "guarded env (snd (bind_pub (prepare_publish env q) (finish_publish env) []))"
    by (rule keepsD) (simp add: guarded_def)
  then show ?thesis by (simp add: publish_product_def guarded_def case_prod_beta split: sum.split)
qed

lemma validated_url:
  assumes "validate_public_url env tr url = None"
  shows "\<exists>u host addresses. pe_urlparse env url = Some u \<and> pu_scheme u \<in> {''http'', ''https''} \<and> pu_hostname u = Some host
    \<and> pe_resolve env tr host = Some addresses \<and> list_all (pe_global env) addresses"
  using assms by (cases "pe_urlparse env url") (auto simp: validate_public_url_def utruthy_def split: if_splits option.splits)

text \<open>C15. 
  Publishing contacts an address for an image only when that very address, after a redirect too,
  is an HTTP address whose host resolved to nothing but global addresses right before.
\<close>

theorem images_fetched_from_public_addresses:
  assumes "publish_product env q [] = (res, earlier @ Download url # later)"
  shows "\<exists>u host addresses. pe_urlparse env url = Some u \<and> pu_scheme u \<in> {''http'', ''https''} \<and> pu_hostname u = Some host
    \<and> pe_resolve env earlier host = Some addresses \<and> list_all (pe_global env) addresses"
proof -
  have "guarded env (earlier @ Download url # later)" using publish_guarded [of env q] assms by simp
  then have "contact_ok env (take (length earlier) (earlier @ Download url # later)) ((earlier @ Download url # later) ! length earlier)"
    unfolding guarded_def list_all_iff by (rule bspec) simp
  then show ?thesis by (intro validated_url) simp
qed

definition example_place :: json where
  "example_place = jobj [(''prov'', JStr [1]), (''city'', JStr [2]), (''division_id'', JStr [3]), (''longitude'', JFloat [4]),
     (''latitude'', JFloat [5]), (''poi_name'', JStr [6])]"

definition example_request :: publish_request where
  "example_request = \<lparr>pq_title = [65], pq_description = [], pq_image_urls = [asc ''https://a''], pq_price = Some (Dec 1 0), pq_original_price = None,
     pq_stock = 1, pq_delivery_choice = asc ''free_shipping'', pq_post_price = None, pq_can_self_pickup = False, pq_category_hint = None,
     pq_unique_code = [49], pq_location = Some example_place, pq_image_data = []\<rparr>"

text \<open>A server that redirects to another one; every request fails.\<close>

definition example_env :: pub_env where
  "example_env = \<lparr>pe_net = (\<lambda>_ _ _. HttpFailed True), pe_upload = (\<lambda>_ _. HttpFailed True),
     pe_fetch = (\<lambda>_ url. if url = asc ''https://a'' then Redirect (Some (asc ''https://b'')) else NoImage),
     pe_urlparse = (\<lambda>url. Some \<lparr>pu_scheme = ''https'', pu_hostname = Some (drop 8 url), pu_port_valid = True\<rparr>),
     pe_resolve = (\<lambda>_ host. if host = [98] then Some [asc ''8.8.8.8''] else Some []), pe_global = (\<lambda>a. a = asc ''8.8.8.8''), pe_join = (\<lambda>_ t. t), pe_float = Some, pe_far = (\<lambda>_ _. False),
     pe_digest = dumps, pe_unb = [49]\<rparr>"

theorem images_fetched_from_public_addresses_witness:
  "case publish_product example_env example_request [] of (res, tr) \<Rightarrow>
     tr ! 3 = Download (asc ''https://b'')
     \<and> (\<exists>u host addresses. pe_urlparse example_env (asc ''https://b'') = Some u \<and> pu_scheme u \<in> {''http'', ''https''}
        \<and> pu_hostname u = Some host \<and> pe_resolve example_env (take 3 tr) host = Some addresses \<and> list_all (pe_global example_env) addresses)"
proof -
  define x where "x = publish_product example_env example_request []"
  have e: "case x of (res, tr) \<Rightarrow> length tr = 4 \<and> tr ! 3 = Download (asc ''https://b'')" unfolding x_def by code_simp
  obtain res tr where x: "x = (res, tr)" by fastforce
  with e have l: "length tr = 4" and d: "tr ! 3 = Download (asc ''https://b'')" by simp_all
  have "tr = take 3 tr @ tr ! 3 # drop (Suc 3) tr" by (rule id_take_nth_drop) (simp add: l)
  moreover have "drop (Suc 3) tr = []" by (simp add: l)
  ultimately have "tr = take 3 tr @ Download (asc ''https://b'') # []" unfolding d by simp
  then have "publish_product example_env example_request [] = (res, take 3 tr @ Download (asc ''https://b'') # [])"
    using x unfolding x_def by (rule subst [where P = "\<lambda>t. publish_product example_env example_request [] = (res, t)"])
  note public = images_fetched_from_public_addresses [OF this]
  show ?thesis unfolding x_def [symmetric] x prod.case using d public by (rule conjI)
qed

section \<open>Prices\<close>

lemma show_nat_length: "n < 10 ^ Suc k \<Longrightarrow> length (show_nat n) \<le> Suc k"
proof (induction k arbitrary: n)
  case 0
  then show ?case by (simp add: show_nat.simps [of n])
next
  case (Suc k)
  have "n div 10 < 10 ^ Suc k" using Suc.prems by (simp add: less_mult_imp_div_less mult.commute)
  then have "length (show_nat (n div 10)) \<le> Suc k" by (rule Suc.IH)
  then show ?case by (subst show_nat.simps) simp
qed

lemma digit_count_le: "\<bar>c\<bar> < 10 ^ 28 \<Longrightarrow> digit_count c \<le> 28"
proof -
  assume "\<bar>c\<bar> < 10 ^ 28"
  then have "nat \<bar>c\<bar> < 10 ^ Suc 27" by (simp add: nat_less_iff)
  then show ?thesis unfolding digit_count_def using show_nat_length [of "nat \<bar>c\<bar>" 27] by simp
qed

lemma half_even_nearest:
  assumes "0 < d"
  shows "2 * \<bar>half_even n d * d - n\<bar> \<le> d"
proof -
  define q where "q = \<bar>n\<bar> div d"
  define r where "r = \<bar>n\<bar> mod d"
  define v where "v = (if 2 * r > d \<or> (2 * r = d \<and> odd q) then q + 1 else q)"
  have n: "\<bar>n\<bar> = q * d + r" and r: "0 \<le> r" "r < d" using assms by (simp_all add: q_def r_def)
  have "2 * \<bar>v * d - \<bar>n\<bar>\<bar> \<le> d" unfolding n v_def using r by (auto simp: algebra_simps)
  moreover have "half_even n d = (if n < 0 then - v else v)" by (simp add: half_even_def Let_def q_def r_def v_def)
  ultimately show ?thesis by (cases "n < 0") (simp_all add: abs_if split: if_splits)
qed

lemma half_even_abs: assumes "0 < d" shows "\<bar>half_even n d\<bar> \<le> \<bar>n\<bar>"
proof -
  define q where "q = \<bar>n\<bar> div d"
  define r where "r = \<bar>n\<bar> mod d"
  have n: "\<bar>n\<bar> = q * d + r" and r: "0 \<le> r" "r < d" and q: "0 \<le> q" using assms by (simp_all add: q_def r_def pos_imp_zdiv_nonneg_iff)
  have "q \<le> q * d" using q assms by (simp add: mult_le_cancel_left1)
  then have "(if 2 * r > d \<or> (2 * r = d \<and> odd q) then q + 1 else q) \<le> \<bar>n\<bar>" unfolding n using r by auto
  then show ?thesis using q by (auto simp: half_even_def Let_def q_def [symmetric] r_def [symmetric])
qed

text \<open>C39. 
  A price of at most 26 digits is sent as the nearest number of cents: the text of a whole number
  that differs from a hundred times the price by at most one half. In particular a positive price
  below half a cent is sent as zero.
\<close>

theorem price_sent_in_nearest_cents:
  assumes "\<bar>c\<bar> < 10 ^ 26" and "e \<le> 0"
  shows "\<exists>v. to_cents (Dec c e) = Some (ushow v) \<and> 2 * \<bar>v * 10 ^ nat (- e) - c * 100\<bar> \<le> 10 ^ nat (- e)"
proof -
  have big: "\<bar>c * 100\<bar> < 10 ^ 28" using assms(1) by (simp add: abs_mult)
  then have p: "to_precision (c * 100, e) = (c * 100, e)" by (simp add: to_precision_def digit_count_le)
  define v where "v = half_even (c * 100) (10 ^ nat (- e))"
  have "\<bar>v\<bar> \<le> \<bar>c * 100\<bar>" unfolding v_def by (rule half_even_abs) simp
  then have "digit_count v \<le> 28" using big by (intro digit_count_le) simp
  moreover have "(if 0 \<le> e then c * 100 * 10 ^ nat e else half_even (c * 100) (10 ^ nat (- e))) = v"
  proof (cases "e = 0")
    case True
    then show ?thesis by (simp add: v_def half_even_def Let_def)
  qed (use assms(2) in \<open>simp add: v_def\<close>)
  ultimately have "to_cents (Dec c e) = Some (ushow v)" by (simp add: to_cents_def p quantize_int_def Let_def)
  moreover have "2 * \<bar>v * 10 ^ nat (- e) - c * 100\<bar> \<le> 10 ^ nat (- e)" unfolding v_def by (rule half_even_nearest) simp
  ultimately show ?thesis by blast
qed

theorem price_sent_in_nearest_cents_witness:
  "to_cents (Dec 4 (- 3)) = Some (asc ''0'')
   \<and> (\<exists>v. to_cents (Dec 1999 (- 2)) = Some (ushow v) \<and> 2 * \<bar>v * 10 ^ nat (- (- 2)) - 1999 * 100\<bar> \<le> 10 ^ nat (- (- 2)))"
proof
  show "to_cents (Dec 4 (- 3)) = Some (asc ''0'')" by code_simp
  show "\<exists>v. to_cents (Dec 1999 (- 2)) = Some (ushow v) \<and> 2 * \<bar>v * 10 ^ nat (- (- 2)) - 1999 * 100\<bar> \<le> 10 ^ nat (- (- 2))"
    by (rule price_sent_in_nearest_cents) simp_all
qed

end
