(* ===== verification/ProductPublish.thy ===== *)
theory ProductPublish
  imports ProductTasks ProductPublisher AccountAdmin
begin

text \<open>
  The execution of a publish task (\<open>product_publish_service.py\<close>): the request from the snapshot, the
  merge of cookie updates into the account and the recording of progress and result. Image files,
  the lock and what other processes do to the account meanwhile are arguments.
\<close>

section \<open>Cookies\<close>

text \<open>A dict of texts; an assignment keeps the position of an existing key.\<close>

fun text_dict_set :: "string \<Rightarrow> string \<Rightarrow> (string \<times> string) list \<Rightarrow> (string \<times> string) list" where
  "text_dict_set k v [] = [(k, v)]"
| "text_dict_set k v ((j, w) # d) = (if j = k then (j, v) # d else (j, w) # text_dict_set k v d)"

definition cookie_pair :: "string \<Rightarrow> (string \<times> string) option" where
  "cookie_pair part = (let p = strip part; k = takeWhile (\<lambda>c. c \<noteq> CHR ''='') p in
     if CHR ''='' \<in> set p \<and> k \<noteq> [] then Some (k, drop (Suc (length k)) p) else None)"

definition parse_cookie :: "string \<Rightarrow> (string \<times> string) list" where
  "parse_cookie value = foldl (\<lambda>d part. case cookie_pair part of None \<Rightarrow> d | Some (k, v) \<Rightarrow> text_dict_set k v d) [] (semicolon_parts value)"

definition cookie_text :: "string \<times> string \<Rightarrow> string" where
  "cookie_text kv = fst kv @ ''='' @ snd kv"

fun join_parts :: "string \<Rightarrow> string list \<Rightarrow> string" where
  "join_parts sep [] = []"
| "join_parts sep [t] = t"
| "join_parts sep (t # u # ts) = t @ sep @ join_parts sep (u # ts)"

definition serialize_cookie :: "(string \<times> string) list \<Rightarrow> string" where
  "serialize_cookie d = join_parts ''; '' (map cookie_text (filter (\<lambda>(k, _). k \<noteq> []) d))"

text \<open>The guarded replacement of the cookie, on the accounts alone (no proxy is given).\<close>

definition set_cookie :: "timestamp \<Rightarrow> string \<Rightarrow> string \<Rightarrow> string \<Rightarrow> string \<Rightarrow> account_row list \<Rightarrow> account_row list \<times> bool" where
  "set_cookie now account_id expected new source rows =
     (case get_row ac_account_id rows account_id of
        None \<Rightarrow> (rows, False)
      | Some a \<Rightarrow>
          if ac_cookie a \<noteq> expected then (rows, False)
          else if expected = new then (rows, True)
          else (set_row ac_account_id rows account_id (store_cookie now new source), True))"

datatype merge_error = CookieConflict | MergeAccountGone

definition merged_cookie :: "(string \<times> string) list \<Rightarrow> string \<Rightarrow> (string \<times> string) list" where
  "merged_cookie updates cookie = foldl (\<lambda>d (k, v). text_dict_set k v d) (parse_cookie cookie) updates"

definition unb_differs :: "(string \<times> string) list \<Rightarrow> string \<Rightarrow> bool" where
  "unb_differs updates cookie \<longleftrightarrow> truthy (map_of updates ''unb'') \<and> truthy (map_of (parse_cookie cookie) ''unb'')
     \<and> map_of updates ''unb'' \<noteq> map_of (parse_cookie cookie) ''unb''"

text \<open>One try for each element of \<open>others\<close>: what happens between reading the cookie and replacing it.\<close>

fun merge_tries ::
  "timestamp \<Rightarrow> string \<Rightarrow> string \<Rightarrow> (string \<times> string) list \<Rightarrow> (account_row list \<Rightarrow> account_row list) list \<Rightarrow> account_row list
   \<Rightarrow> account_row list \<times> (merge_error + bool)" where
  "merge_tries now account_id source updates [] rows = (rows, Inl CookieConflict)"
| "merge_tries now account_id source updates (other # others) rows =
     (case get_row ac_account_id rows account_id of
        None \<Rightarrow> (rows, Inl MergeAccountGone)
      | Some a \<Rightarrow>
          if unb_differs updates (ac_cookie a) then (rows, Inl CookieConflict)
          else let new = serialize_cookie (merged_cookie updates (ac_cookie a)) in
            if new = ac_cookie a then (rows, Inr False)
            else (case set_cookie now account_id (ac_cookie a) new source (other rows) of
                (rows', True) \<Rightarrow> (rows', Inr True)
              | (rows', False) \<Rightarrow> merge_tries now account_id source updates others rows'))"

definition merge_account_cookie_updates ::
  "timestamp \<Rightarrow> string \<Rightarrow> string \<Rightarrow> (string \<times> string) list \<Rightarrow> (account_row list \<Rightarrow> account_row list) list \<Rightarrow> account_row list
   \<Rightarrow> account_row list \<times> (merge_error + bool)" where
  "merge_account_cookie_updates now account_id source updates others rows =
     (let clean = filter (\<lambda>(k, v). k \<noteq> [] \<and> v \<noteq> []) updates in
      if clean = [] then (rows, Inr False) else merge_tries now account_id source clean (take 3 others) rows)"

section \<open>The request from the snapshot\<close>

definition digits_int :: "ustr \<Rightarrow> int" where
  "digits_int t = foldl (\<lambda>a c. 10 * a + (c - 48)) 0 t"

definition is_udigit :: "int \<Rightarrow> bool" where
  "is_udigit c \<longleftrightarrow> 48 \<le> c \<and> c \<le> 57"

definition unsigned_digits :: "ustr \<Rightarrow> int option" where
  "unsigned_digits t = (if t \<noteq> [] \<and> list_all is_udigit t then Some (digits_int t) else None)"

definition split_sign :: "ustr \<Rightarrow> bool \<times> ustr" where
  "split_sign t = (case t of c # r \<Rightarrow> if c = 45 then (True, r) else if c = 43 then (False, r) else (False, t) | [] \<Rightarrow> (False, []))"

definition exponent_of :: "ustr \<Rightarrow> int option" where
  "exponent_of t = (case t of
     [] \<Rightarrow> Some 0
   | c # r \<Rightarrow> if c = 101 then (case split_sign r of (neg, d) \<Rightarrow> map_option (\<lambda>n. if neg then - n else n) (unsigned_digits d)) else None)"

text \<open>\<open>Decimal(text)\<close> with Latin digits.\<close>

definition parse_decimal :: "ustr \<Rightarrow> decimal option" where
  "parse_decimal text =
     (case split_sign (ulower (filter (\<lambda>c. c \<noteq> 95) (ustrip text))) of (neg, u) \<Rightarrow>
        if u \<in> {asc ''inf'', asc ''infinity''} then Some (DecInfinity neg)
        else if (starts_with (asc ''nan'') u \<and> list_all is_udigit (drop 3 u)) \<or> (starts_with (asc ''snan'') u \<and> list_all is_udigit (drop 4 u))
          then Some DecNaN
        else let whole = takeWhile is_udigit u; r = dropWhile is_udigit u;
                 frac = (if r \<noteq> [] \<and> hd r = 46 then takeWhile is_udigit (tl r) else []);
                 rest = (if r \<noteq> [] \<and> hd r = 46 then dropWhile is_udigit (tl r) else r)
             in if whole @ frac = [] then None
                else map_option (\<lambda>e. Dec (if neg then - digits_int (whole @ frac) else digits_int (whole @ frac)) (e - int (length frac)))
                  (exponent_of rest))"

definition money :: "bool \<Rightarrow> json \<Rightarrow> pub_fail + decimal option" where
  "money required v =
     (if is_missing v then (if required then Inl (PublishError ''validation'' False False) else Inr None)
      else case parse_decimal (py_str v) of
        None \<Rightarrow> Inl (PublishError ''validation'' False False)
      | Some DecNaN \<Rightarrow> Inl OtherError
      | Some (DecInfinity neg) \<Rightarrow> if neg then Inl (PublishError ''validation'' False False) else Inr (Some (DecInfinity neg))
      | Some (Dec c e) \<Rightarrow> if c < 0 \<or> (required \<and> c \<le> 0) then Inl (PublishError ''validation'' False False) else Inr (Some (Dec c e)))"

text \<open>The size and the digest of a stored file, if it can be read.\<close>

type_synonym image_files = "ustr \<Rightarrow> (int \<times> string) option"

definition snapshot_image :: "image_files \<Rightarrow> string \<Rightarrow> product_db \<Rightarrow> ustr \<Rightarrow> pub_fail + (ustr \<times> image_data) list" where
  "snapshot_image files account_id db t =
     (if \<not> starts_with asset_prefix t then Inr []
      else case find_asset account_id (remove_prefix t) db of
        None \<Rightarrow> Inl (PublishError ''image_missing'' False False)
      | Some a \<Rightarrow>
          (case files (ia_asset_id a) of
             None \<Rightarrow> Inl (PublishError ''image_missing'' False False)
           | Some (n, digest) \<Rightarrow>
               if n \<noteq> ia_size_bytes a \<or> digest \<noteq> ia_sha256 a then Inl (PublishError ''image_invalid'' False False)
               else Inr [(t, \<lparr>im_filename = asc ''product_'' @ ia_asset_id a @ asc ''.jpg'', im_sha256 = ia_sha256 a,
                   im_width = ia_width a, im_height = ia_height a\<rparr>)]))"

fun snapshot_data :: "image_files \<Rightarrow> string \<Rightarrow> product_db \<Rightarrow> ustr list \<Rightarrow> pub_fail + (ustr \<times> image_data) list" where
  "snapshot_data files account_id db [] = Inr []"
| "snapshot_data files account_id db (t # ts) = (case snapshot_image files account_id db t of
     Inl e \<Rightarrow> Inl e | Inr xs \<Rightarrow> map_sum id (append xs) (snapshot_data files account_id db ts))"

definition snapshot_stock :: "json \<Rightarrow> int option" where
  "snapshot_stock v = (case jor v (JInt 1) of JInt i \<Rightarrow> Some i | JBool _ \<Rightarrow> Some 1 | JStr t \<Rightarrow> text_int t | _ \<Rightarrow> None)"

definition request_from_snapshot :: "image_files \<Rightarrow> string \<Rightarrow> product_db \<Rightarrow> json \<Rightarrow> ustr \<Rightarrow> pub_fail + publish_request" where
  "request_from_snapshot files account_id db s code =
     (let refs = filter (\<lambda>t. t \<noteq> []) (map (\<lambda>v. ustrip (py_str v)) (list_or_empty (jget ''images'' s))) in
      case snapshot_data files account_id db refs of
        Inl e \<Rightarrow> Inl e
      | Inr images \<Rightarrow>
          (case money True (jget ''price'' s) of Inl e \<Rightarrow> Inl e | Inr price \<Rightarrow>
          (case money False (jget ''original_price'' s) of Inl e \<Rightarrow> Inl e | Inr original \<Rightarrow>
          (case snapshot_stock (jget ''stock'' s) of None \<Rightarrow> Inl OtherError | Some stock \<Rightarrow>
          (case money False (jget ''post_price'' s) of Inl e \<Rightarrow> Inl e | Inr post \<Rightarrow>
           Inr \<lparr>pq_title = ustrip (str_of (jget ''title'' s)), pq_description = ustrip (str_of (jget ''description'' s)), pq_image_urls = refs,
             pq_price = price, pq_original_price = original, pq_stock = stock,
             pq_delivery_choice = py_str (jor (jget ''delivery_choice'' s) (JStr (asc ''free_shipping''))), pq_post_price = post,
             pq_can_self_pickup = jtruthy (jget ''can_self_pickup'' s), pq_category_hint = u_none (ustrip (str_of (jget ''category_hint'' s))),
             pq_unique_code = py_str (jor (jget ''unique_code'' s) (JStr code)),
             pq_location = (if is_obj (jget ''location'' s) then Some (jget ''location'' s) else None), pq_image_data = images\<rparr>)))))"

section \<open>Execution\<close>

text \<open>
  What an execution meets: image files, whether the route of the account can be built, the
  platform, the cookie updates that come with the outcome, the other processes at the three tries
  of the merge, and the text and the answer that an error carries.
\<close>

record publish_world =
  xw_files :: image_files
  xw_route_ok :: bool
  xw_env :: pub_env
  xw_cookies :: "(pub_fail + publish_result) \<Rightarrow> (string \<times> string) list"
  xw_others :: "(account_row list \<Rightarrow> account_row list) list"
  xw_text :: "pub_fail \<Rightarrow> ustr"
  xw_raw :: "pub_fail \<Rightarrow> json"

definition running_result :: "string \<Rightarrow> task_result" where
  "running_result phase = \<lparr>rs_status = ''running'', rs_phase = Some phase, rs_item_id = None, rs_item_url = None, rs_failure_kind = None,
     rs_error = None, rs_raw_result = None, rs_retryable = None, rs_certainty = None\<rparr>"

definition unverified_text :: ustr where
  "unverified_text = [21830, 21697, 24050, 36820, 22238, 32, 73, 68, 65292, 20294, 21015, 34920, 26680, 39564, 26410, 36890, 36807, 65292,
     35831, 21040, 38386, 40060, 30830, 35748]"

definition published_result :: "publish_result \<Rightarrow> task_result" where
  "published_result r = (let v = pr_verified r in \<lparr>rs_status = (if v then ''success'' else ''verification_required''),
     rs_phase = Some (if v then ''completed'' else ''verification_required''), rs_item_id = Some (pr_item_id r),
     rs_item_url = Some (asc ''https://www.goofish.com/item?id='' @ pr_item_id r),
     rs_failure_kind = (if v then None else Some ''verification_required''), rs_error = (if v then None else Some unverified_text),
     rs_raw_result = Some (pr_raw_response r), rs_retryable = Some False,
     rs_certainty = Some (if v then ''confirmed_success'' else ''published_unconfirmed'')\<rparr>)"

definition failed_result :: "string \<Rightarrow> bool \<Rightarrow> bool \<Rightarrow> ustr \<Rightarrow> json \<Rightarrow> task_result" where
  "failed_result kind retryable uncertain error raw = \<lparr>rs_status = (if uncertain then ''verification_required'' else ''failed''),
     rs_phase = Some (if uncertain then ''verification_required'' else ''failed''), rs_item_id = None, rs_item_url = None,
     rs_failure_kind = Some kind, rs_error = Some error, rs_raw_result = Some raw, rs_retryable = Some (retryable \<and> \<not> uncertain),
     rs_certainty = Some (if uncertain then ''result_unknown'' else ''confirmed_failed'')\<rparr>"

definition internal_result :: "ustr \<Rightarrow> task_result" where
  "internal_result error = (failed_result ''internal'' False False error JNull)\<lparr>rs_raw_result := None\<rparr>"

datatype exec_answer = ExecNoTask | ModeUnsupported | ExecNoAccount | LockTimeout | NotPending publish_task
  | Published publish_task bool | ExecRaised pub_fail

definition write_result :: "timestamp \<Rightarrow> string \<Rightarrow> string \<Rightarrow> task_result \<Rightarrow> product_db \<Rightarrow> product_db" where
  "write_result now account_id task_id r db = fst (update_product_publish_task_after_execute now account_id task_id r db)"

text \<open>The phases that the publisher announced are written one after the other.\<close>

definition write_progress :: "timestamp \<Rightarrow> string \<Rightarrow> string \<Rightarrow> pub_event list \<Rightarrow> product_db \<Rightarrow> product_db" where
  "write_progress now account_id task_id tr db =
     foldl (\<lambda>d e. case e of Phase p \<Rightarrow> write_result now account_id task_id (running_result p) d | _ \<Rightarrow> d) db tr"

text \<open>The publisher itself; without \<open>unb\<close> in the cookie it cannot be made.\<close>

definition run_publisher :: "publish_world \<Rightarrow> account_row \<Rightarrow> publish_task \<Rightarrow> product_db \<Rightarrow> (pub_fail + publish_result) \<times> pub_event list" where
  "run_publisher w a t db =
     (case request_from_snapshot (xw_files w) (pt_account_id t) db (pt_snapshot t) (pt_unique_code t) of
        Inl e \<Rightarrow> (Inl e, [])
      | Inr q \<Rightarrow>
          if \<not> xw_route_ok w then (Inl OtherError, [])
          else if \<not> truthy (map_of (parse_cookie (ac_cookie a)) ''unb'') then (Inl (PublishError ''auth'' False False), [])
          else publish_product (xw_env w) q [])"

definition merge_in :: "timestamp \<Rightarrow> publish_world \<Rightarrow> (pub_fail + publish_result) \<Rightarrow> string \<Rightarrow> product_db \<Rightarrow> product_db \<times> (merge_error + bool)" where
  "merge_in now w res account_id db =
     (case merge_account_cookie_updates now account_id ''product_publish'' (xw_cookies w res) (xw_others w) (pb_accounts db) of
        (rows, m) \<Rightarrow> (db\<lparr>pb_accounts := rows\<rparr>, m))"

text \<open>
  Recording the outcome. An error of the merge after a publication is handled like an error of
  the publication; an error of the merge while a failure is handled leaves the task as it is.
\<close>

definition settle_publish ::
  "timestamp \<Rightarrow> publish_world \<Rightarrow> string \<Rightarrow> string \<Rightarrow> (pub_fail + publish_result) \<Rightarrow> product_db \<Rightarrow> product_db \<times> exec_answer" where
  "settle_publish now w account_id task_id res db0 =
     (case res of
        Inr r \<Rightarrow>
          (case merge_in now w res account_id db0 of
             (db, Inr changed) \<Rightarrow>
               (case update_product_publish_task_after_execute now account_id task_id (published_result r) db of
                  (db', Some t) \<Rightarrow> (db', Published t changed)
                | (db', None) \<Rightarrow> (db', ExecRaised OtherError))
           | (db, Inl CookieConflict) \<Rightarrow>
               (write_result now account_id task_id (failed_result ''cookie_conflict'' False False (xw_text w (PublishError ''cookie_conflict'' False False)) (JObj [])) db,
                ExecRaised (PublishError ''cookie_conflict'' False False))
           | (db, Inl MergeAccountGone) \<Rightarrow>
               (write_result now account_id task_id (internal_result (xw_text w OtherError)) db, ExecRaised OtherError))
      | Inl (PublishError kind retryable uncertain) \<Rightarrow>
          (case merge_in now w res account_id db0 of
             (db, Inr _) \<Rightarrow>
               (write_result now account_id task_id (failed_result kind retryable uncertain (xw_text w (PublishError kind retryable uncertain)) (xw_raw w (PublishError kind retryable uncertain))) db,
                ExecRaised (PublishError kind retryable uncertain))
           | (db, Inl CookieConflict) \<Rightarrow> (db, ExecRaised (PublishError ''cookie_conflict'' False False))
           | (db, Inl MergeAccountGone) \<Rightarrow> (db, ExecRaised OtherError))
      | Inl e \<Rightarrow> (write_result now account_id task_id (internal_result (xw_text w e)) db0, ExecRaised e))"

text \<open>What is done under the lock of the account, with the trace of the publisher.\<close>

definition publish_locked ::
  "timestamp \<Rightarrow> publish_world \<Rightarrow> account_row \<Rightarrow> string \<Rightarrow> string \<Rightarrow> product_db \<Rightarrow> product_db \<times> pub_event list \<times> exec_answer" where
  "publish_locked now w a account_id task_id db =
     (case get_product_publish_task account_id task_id db of
        None \<Rightarrow> (db, [], ExecNoTask)
      | Some t \<Rightarrow>
          if pt_status t \<noteq> ''pending'' then (db, [], NotPending t)
          else let db1 = write_result now account_id task_id (running_result ''starting'') db;
                   (res, tr) = run_publisher w a t db1;
                   (db2, answer) = settle_publish now w account_id task_id res (write_progress now account_id task_id tr db1)
               in (db2, tr, answer))"

text \<open>
  The whole execution. \<open>waited\<close> is what other processes do while the lock is awaited, or nothing
  when it is not obtained in time.
\<close>

definition execute_product_publish ::
  "timestamp \<Rightarrow> publish_world \<Rightarrow> (product_db \<Rightarrow> product_db) option \<Rightarrow> string \<Rightarrow> string \<Rightarrow> product_db \<Rightarrow> product_db \<times> pub_event list \<times> exec_answer" where
  "execute_product_publish now w waited account_id task_id db =
     (case get_product_publish_task account_id task_id db of
        None \<Rightarrow> (db, [], ExecNoTask)
      | Some t \<Rightarrow>
          if pt_status t \<noteq> ''pending'' then (db, [], NotPending t)
          else if pt_mode t \<noteq> ''platform_api'' then (db, [], ModeUnsupported)
          else (case get_row ac_account_id (pb_accounts db) account_id of
              None \<Rightarrow> (db, [], ExecNoAccount)
            | Some a \<Rightarrow> (case waited of None \<Rightarrow> (db, [], LockTimeout) | Some f \<Rightarrow> publish_locked now w a account_id task_id (f db))))"

text \<open>The worker's branch for a task that is only exported (\<open>worker.py\<close>).\<close>

definition exported_result :: task_result where
  "exported_result = \<lparr>rs_status = ''success'', rs_phase = Some ''completed'', rs_item_id = None, rs_item_url = None, rs_failure_kind = None,
     rs_error = None, rs_raw_result = None, rs_retryable = None, rs_certainty = None\<rparr>"

definition execute_publish_task ::
  "timestamp \<Rightarrow> publish_world \<Rightarrow> (product_db \<Rightarrow> product_db) option \<Rightarrow> string \<Rightarrow> string \<Rightarrow> product_db \<Rightarrow> product_db \<times> pub_event list \<times> exec_answer" where
  "execute_publish_task now w waited account_id task_id db =
     (case get_product_publish_task account_id task_id db of
        None \<Rightarrow> (db, [], ExecNoTask)
      | Some t \<Rightarrow>
          if pt_mode t = ''manual_export''
          then (case get_row pf_draft_id (pb_drafts db) (pt_draft_id t) of
              None \<Rightarrow> (db, [], ExecRaised OtherError)
            | Some d \<Rightarrow> if pf_account_id d \<noteq> account_id then (db, [], ExecRaised OtherError)
                else (write_result now account_id task_id exported_result db, [], Published t False))
          else if pt_mode t = ''platform_api'' then execute_product_publish now w waited account_id task_id db
          else (db, [], ModeUnsupported))"

end
