(* ===== verification/ProductSafety.thy ===== *)
theory ProductSafety
  imports ProductPublish
begin

text \<open>
  Properties of product publishing. The attempts of a job form a chain in which at most one
  attempt sends the publish request; and what becomes of a task when its worker is lost or when
  the cookies that came with its result cannot be merged.
\<close>

section \<open>Effects on the table of tasks\<close>

lemma tasks_kept [simp]:
  "pb_tasks (use_address u now a d t x db) = pb_tasks db"
  "pb_tasks (retain_asset now t na db) = pb_tasks db"
  "pb_tasks (release_images now t' db) = pb_tasks db"
  "pb_tasks (remove_assets p db) = pb_tasks db"
  by (simp_all add: use_address_def retain_asset_def release_images_def remove_assets_def Let_def)

lemma retain_assets_tasks: "retain_assets now t as db = Inr db' \<Longrightarrow> pb_tasks db' = pb_tasks db"
proof -
  have "pb_tasks (foldl (\<lambda>d na. retain_asset now t na d) db as) = pb_tasks db" by (induction as arbitrary: db) simp_all
  then show "retain_assets now t as db = Inr db' \<Longrightarrow> pb_tasks db' = pb_tasks db" by (auto simp: retain_assets_def split: if_splits)
qed

lemma insert_task_tasks: "insert_task now w row as address db = Inr db' \<Longrightarrow> pb_tasks db' = pb_tasks db @ [row]"
  by (auto simp: insert_task_def map_sum_def split: sum.splits option.splits dest!: retain_assets_tasks)

lemma map_sum_Inr: "map_sum id f x = Inr y \<longleftrightarrow> (\<exists>z. x = Inr z \<and> y = f z)"
  by (cases x) auto

text \<open>A new task is pending, with attempt number one, and retries nothing.\<close>

definition first_attempt :: "publish_task \<Rightarrow> bool" where
  "first_attempt t \<longleftrightarrow> pt_status t = ''pending'' \<and> pt_retry_of_task_id t = None \<and> attempt_number t = 1"

lemma first_attempt_new: "first_attempt (new_publish_task i now a d m c k s)"
  by (simp add: first_attempt_def new_publish_task_def attempt_number_def)

lemma new_publish_task_id [simp]: "pt_task_id (new_publish_task i now a d m c k s) = i"
  by (simp add: new_publish_task_def)

lemma create_tasks:
  assumes "create_product_publish_task w now a d m k l db = Inr (db', r)"
  shows "pb_tasks db' = pb_tasks db \<or> (\<exists>t. pb_tasks db' = pb_tasks db @ [t] \<and> first_attempt t \<and> pt_task_id t = dr_task_id w)"
  using assms by (auto simp: create_product_publish_task_def Let_def map_sum_Inr first_attempt_new
      split: option.splits if_splits sum.splits dest!: insert_task_tasks)

lemma direct_tasks:
  assumes "create_direct_product_publish_task w now a p db = Inr (db', r)"
  shows "pb_tasks db' = pb_tasks db \<or> (\<exists>t. pb_tasks db' = pb_tasks db @ [t] \<and> first_attempt t \<and> pt_task_id t = dr_task_id w)"
  using assms by (auto simp: create_direct_product_publish_task_def Let_def map_sum_Inr first_attempt_new
      split: option.splits if_splits sum.splits dest!: insert_task_tasks)

lemma retry_tasks:
  assumes "retry_product_publish_task w now a i k db = Inr (db', r)"
  shows "pb_tasks db' = pb_tasks db \<or> (\<exists>source key s. get_row pt_task_id (pb_tasks db) i = Some source \<and> pt_catalog_hidden_at source = None
    \<and> retry_allowed source \<and> pt_account_id source = a
    \<and> pb_tasks db' = set_row pt_task_id (pb_tasks db) i (hidden now) @ [retry_task w now key s source])"
  using assms by (auto simp: retry_product_publish_task_def Let_def map_sum_Inr
      split: option.splits if_splits json.splits dest!: retain_assets_tasks) blast

lemma get_task_SomeD: "get_product_publish_task a i db = Some t \<Longrightarrow> get_row pt_task_id (pb_tasks db) i = Some t \<and> pt_account_id t = a"
  by (auto simp: get_product_publish_task_def split: option.splits if_splits)

lemma write_result_tasks:
  assumes "get_product_publish_task a i db = Some t"
  shows "pb_tasks (write_result now a i r db) = put_row pt_task_id (result_values now r t) (pb_tasks db)"
  using assms by (simp add: write_result_def update_product_publish_task_after_execute_def Let_def)

lemma write_result_none: "get_product_publish_task a i db = None \<Longrightarrow> write_result now a i r db = db"
  by (simp add: write_result_def update_product_publish_task_after_execute_def)

lemma result_values_keys [simp]:
  "pt_task_id (result_values now r t) = pt_task_id t" "pt_account_id (result_values now r t) = pt_account_id t"
  "pt_mode (result_values now r t) = pt_mode t" "pt_retry_of_task_id (result_values now r t) = pt_retry_of_task_id t"
  "attempt_number (result_values now r t) = attempt_number t" "pt_catalog_hidden_at (result_values now r t) = pt_catalog_hidden_at t"
  by (simp_all add: result_values_def Let_def attempt_number_def)

lemma hidden_keys [simp]:
  "pt_task_id (hidden now t) = pt_task_id t" "pt_account_id (hidden now t) = pt_account_id t"
  "pt_mode (hidden now t) = pt_mode t" "pt_retry_of_task_id (hidden now t) = pt_retry_of_task_id t" "pt_status (hidden now t) = pt_status t"
  "attempt_number (hidden now t) = attempt_number t" "retry_allowed (hidden now t) = retry_allowed t"
  by (simp_all add: hidden_def retry_allowed_def attempt_number_def)

section \<open>One execution\<close>

definition same_task :: "publish_task \<Rightarrow> publish_task \<Rightarrow> bool" where
  "same_task t t' \<longleftrightarrow> pt_task_id t' = pt_task_id t \<and> pt_account_id t' = pt_account_id t \<and> pt_mode t' = pt_mode t
     \<and> pt_retry_of_task_id t' = pt_retry_of_task_id t \<and> attempt_number t' = attempt_number t \<and> pt_catalog_hidden_at t' = pt_catalog_hidden_at t"

lemma same_task_simps [simp]: "same_task t t" "same_task t (result_values now r t') = same_task t t'"
  by (simp_all add: same_task_def)

lemma put_row_same:
  assumes "keys_distinct key rows" and "get_row key rows (key r) = Some r"
  shows "put_row key r rows = rows"
proof -
  have "(if key x = key r then r else x) = x" if "x \<in> set rows" for x
    using keys_distinct_eq [OF assms(1) that] get_row_SomeD [OF assms(2)] by auto
  then show ?thesis using assms(2) by (simp add: put_row_def set_row_def map_idI)
qed

text \<open>The row of the task after some of the writes of an execution.\<close>

definition task_row_is :: "string \<Rightarrow> string \<Rightarrow> publish_task list \<Rightarrow> publish_task \<Rightarrow> publish_task \<Rightarrow> product_db \<Rightarrow> bool" where
  "task_row_is a i tasks t t' db \<longleftrightarrow> pb_tasks db = put_row pt_task_id t' tasks \<and> same_task t t' \<and> pt_task_id t = i \<and> pt_account_id t = a"

lemma task_row_is_get: "task_row_is a i tasks t t' db \<Longrightarrow> get_product_publish_task a i db = Some t'"
  by (simp add: task_row_is_def get_product_publish_task_def get_put_row same_task_def)

lemma task_row_is_write:
  assumes "task_row_is a i tasks t t' db"
  shows "task_row_is a i tasks t (result_values now r t') (write_result now a i r db)"
  using assms write_result_tasks [OF task_row_is_get [OF assms], of now r]
  by (simp add: task_row_is_def put_row_twice)

lemma running_status: "pt_status (result_values now (running_result p) t) = ''running''"
  by (simp add: result_values_def running_result_def task_statuses_def Let_def)

lemma progress_row:
  assumes "task_row_is a i tasks t t' db" and "pt_status t' = ''running''"
  shows "\<exists>t''. task_row_is a i tasks t t'' (write_progress now a i tr db) \<and> pt_status t'' = ''running''"
  using assms
proof (induction tr arbitrary: db t')
  case (Cons e tr)
  show ?case
  proof (cases e)
    case (Phase p)
    with Cons.IH [OF task_row_is_write [OF Cons.prems(1)] running_status] show ?thesis by (simp add: write_progress_def)
  qed (use Cons in \<open>simp_all add: write_progress_def\<close>)
qed (auto simp: write_progress_def)

lemma merge_in_tasks: "merge_in now w res a db = (db', m) \<Longrightarrow> pb_tasks db' = pb_tasks db"
  by (auto simp: merge_in_def split: prod.splits)

text \<open>The statuses that recording an outcome can give, and when a retry is allowed afterwards.\<close>

definition settled_ok :: "pub_fail + publish_result \<Rightarrow> publish_task \<Rightarrow> bool" where
  "settled_ok res t \<longleftrightarrow> pt_status t \<noteq> ''pending'' \<and> (retry_allowed t \<longrightarrow> (\<exists>k u. res = Inl (PublishError k True u)))"

lemma result_settled:
  "settled_ok (Inr r) (result_values now (published_result r) t)"
  "settled_ok res (result_values now (failed_result k' False u' e raw) t)"
  "settled_ok res (result_values now (internal_result e) t)"
  "settled_ok (Inl (PublishError k b u)) (result_values now (failed_result k b u e raw) t)"
  by (auto simp: settled_ok_def retry_allowed_def result_values_def published_result_def failed_result_def internal_result_def
      task_statuses_def given_some_def Let_def)

lemma settle_row:
  assumes t: "task_row_is a i tasks t t' db" "pt_status t' = ''running''" and s: "settle_publish now w a i res db = (db', answer)"
  shows "\<exists>t''. task_row_is a i tasks t t'' db' \<and> settled_ok res t''"
proof -
  obtain db1 m where m: "merge_in now w res a db = (db1, m)" by fastforce
  have t1: "task_row_is a i tasks t t' db1" using t(1) merge_in_tasks [OF m] by (simp add: task_row_is_def)
  have w1: "\<exists>t''. task_row_is a i tasks t t'' (write_result now a i r db1) \<and> settled_ok res t''" if "settled_ok res (result_values now r t')" for r
    using task_row_is_write [OF t1] that by blast
  have w0: "\<exists>t''. task_row_is a i tasks t t'' (write_result now a i r db) \<and> settled_ok res t''" if "settled_ok res (result_values now r t')" for r
    using task_row_is_write [OF t(1)] that by blast
  have run: "settled_ok res t'" using t(2) by (simp add: settled_ok_def retry_allowed_def)
  have upd: "update_product_publish_task_after_execute now a i r db1 = (write_result now a i r db1, Some (result_values now r t'))" for r
    using task_row_is_get [OF t1] by (simp add: write_result_def update_product_publish_task_after_execute_def Let_def)
  show ?thesis
  proof (cases res)
    case (Inr r)
    show ?thesis
    proof (cases m)
      case (Inl e)
      with Inr m s show ?thesis by (cases e) (auto simp: settle_publish_def intro!: w1 [unfolded Inr] result_settled)
    next
      case m': (Inr c)
      with Inr m s show ?thesis by (auto simp: settle_publish_def upd intro!: w1 [unfolded Inr] result_settled)
    qed
  next
    case (Inl e)
    show ?thesis
    proof (cases e)
      case (PublishError k b u)
      show ?thesis
      proof (cases m)
        case m': (Inl f)
        with Inl PublishError m s t1 run show ?thesis by (cases f) (auto simp: settle_publish_def)
      next
        case m': (Inr c)
        with Inl PublishError m s show ?thesis by (auto simp: settle_publish_def intro!: w1 [unfolded Inl PublishError] result_settled)
      qed
    qed (use Inl s w0 [OF result_settled(3)] in \<open>auto simp: settle_publish_def\<close>)
  qed
qed

lemma run_publisher_retryable: "run_publisher w acc t db = (Inl (PublishError k True u), tr) \<Longrightarrow> quiet tr"
proof -
  have "request_from_snapshot f a db s c \<noteq> Inl (PublishError k True u)" for f a s c
  proof -
    have i: "snapshot_image f a db t \<noteq> Inl (PublishError k True u)" for t
      by (auto simp: snapshot_image_def split: option.splits prod.splits if_splits)
    have d: "snapshot_data f a db ts \<noteq> Inl (PublishError k True u)" for ts
      by (induction ts) (use i in \<open>auto simp: map_sum_def split: sum.splits\<close>)
    have m: "money b v \<noteq> Inl (PublishError k True u)" for b v
      by (auto simp: money_def split: option.splits decimal.splits if_splits)
    show ?thesis by (auto simp: request_from_snapshot_def Let_def d m split: sum.splits option.splits)
  qed
  then show "run_publisher w acc t db = (Inl (PublishError k True u), tr) \<Longrightarrow> quiet tr"
    by (auto simp: run_publisher_def quiet_def split: sum.splits if_splits dest!: retryable_not_sent)
qed

text \<open>An execution under the lock: nothing happens, or the pending task is taken and settled.\<close>

lemma publish_locked_row:
  assumes d: "keys_distinct pt_task_id (pb_tasks db)" and x: "publish_locked now w acc a i db = (db', tr, answer)"
  shows "(db' = db \<and> tr = []) \<or> (\<exists>t t'. get_product_publish_task a i db = Some t \<and> pt_status t = ''pending''
    \<and> task_row_is a i (pb_tasks db) t t' db' \<and> pt_status t' \<noteq> ''pending'' \<and> (retry_allowed t' \<longrightarrow> quiet tr))"
proof (cases "get_product_publish_task a i db")
  case (Some t)
  show ?thesis
  proof (cases "pt_status t = ''pending''")
    case True
    define db1 where "db1 = write_result now a i (running_result ''starting'') db"
    obtain res tr' where p: "run_publisher w acc t db1 = (res, tr')" by fastforce
    have t0: "task_row_is a i (pb_tasks db) t t db"
      using get_task_SomeD [OF Some] get_row_SomeD put_row_same [OF d] by (force simp: task_row_is_def)
    obtain t2 where t2: "task_row_is a i (pb_tasks db) t t2 (write_progress now a i tr' db1)" "pt_status t2 = ''running''"
      unfolding db1_def using progress_row [OF task_row_is_write [OF t0] running_status] by blast
    obtain db2 answer' where s: "settle_publish now w a i res (write_progress now a i tr' db1) = (db2, answer')" by fastforce
    from settle_row [OF t2 s] obtain t3 where t3: "task_row_is a i (pb_tasks db) t t3 db2" "settled_ok res t3" by blast
    have eq: "db' = db2" "tr = tr'" using x Some True p s by (auto simp: publish_locked_def Let_def db1_def)
    have "retry_allowed t3 \<longrightarrow> quiet tr" using t3(2) run_publisher_retryable p eq(2) by (auto simp: settled_ok_def)
    with Some True t3 eq show ?thesis by (auto simp: settled_ok_def)
  qed (use x Some in \<open>simp add: publish_locked_def\<close>)
qed (use x in \<open>simp add: publish_locked_def\<close>)

section \<open>The attempts of a job\<close>

text \<open>
  The operations on publish tasks, with the log of the tasks whose publish request was sent. An
  execution takes place under the lock of the account; a lost worker leaves behind what it had
  written. Operations on drafts, images and addresses leave the tasks alone.
\<close>

inductive publish_step :: "product_db \<times> string list \<Rightarrow> product_db \<times> string list \<Rightarrow> bool" where
  create: "get_row pt_task_id (pb_tasks db) (dr_task_id w) = None \<Longrightarrow> dr_task_id w \<noteq> [] \<Longrightarrow>
     create_product_publish_task w now a d m k l db = Inr (db', r) \<Longrightarrow> publish_step (db, log) (db', log)"
| direct: "get_row pt_task_id (pb_tasks db) (dr_task_id w) = None \<Longrightarrow> dr_task_id w \<noteq> [] \<Longrightarrow>
     create_direct_product_publish_task w now a p db = Inr (db', r) \<Longrightarrow> publish_step (db, log) (db', log)"
| retry: "get_row pt_task_id (pb_tasks db) (dr_task_id w) = None \<Longrightarrow> dr_task_id w \<noteq> [] \<Longrightarrow>
     retry_product_publish_task w now a i k db = Inr (db', r) \<Longrightarrow> publish_step (db, log) (db', log)"
| execute: "get_product_publish_task a i db = Some t \<Longrightarrow> pt_mode t = ''platform_api'' \<Longrightarrow>
     publish_locked now x acc a i db = (db', tr, answer) \<Longrightarrow> publish_step (db, log) (db', if quiet tr then log else log @ [i])"
| lost: "get_product_publish_task a i db = Some t \<Longrightarrow> pt_mode t = ''platform_api'' \<Longrightarrow> pt_status t = ''pending'' \<Longrightarrow>
     run_publisher x acc t (write_result now a i (running_result ''starting'') db) = (res, tr @ tr') \<Longrightarrow>
     publish_step (db, log) (write_progress now a i tr (write_result now a i (running_result ''starting'') db), if quiet tr then log else log @ [i])"
| export: "get_product_publish_task a i db = Some t \<Longrightarrow> pt_mode t = ''manual_export'' \<Longrightarrow>
     publish_step (db, log) (write_result now a i exported_result db, log)"
| hide: "hide_product_publish_task now a i db = Inr (db', b) \<Longrightarrow> publish_step (db, log) (db', log)"
| confirm: "publish_step (db, log) (confirm_published now a seen db, log)"
| hide_item: "publish_step (db, log) (hide_item_tasks now a item db, log)"
| other: "pb_tasks db' = pb_tasks db \<Longrightarrow> publish_step (db, log) (db', log)"

text \<open>A retry follows a hidden task for which it was allowed, and no task has two retries.\<close>

definition retry_link :: "publish_task list \<Rightarrow> publish_task \<Rightarrow> bool" where
  "retry_link ts r \<longleftrightarrow> (case pt_retry_of_task_id r of
     None \<Rightarrow> attempt_number r = 1
   | Some p \<Rightarrow> (case get_row pt_task_id ts p of
        None \<Rightarrow> False
      | Some q \<Rightarrow> retry_allowed q \<and> pt_catalog_hidden_at q \<noteq> None \<and> pt_account_id q = pt_account_id r
          \<and> attempt_number r = attempt_number q + 1 \<and> p \<noteq> []))"

definition retried :: "publish_task list \<Rightarrow> string list" where
  "retried ts = List.map_filter pt_retry_of_task_id ts"

definition mode_ok :: "publish_task \<Rightarrow> bool" where
  "mode_ok t \<longleftrightarrow> pt_mode t \<noteq> ''manual_export'' \<or> pt_status t \<in> {''pending'', ''success''}"

definition sent_ok :: "publish_task list \<Rightarrow> string \<Rightarrow> bool" where
  "sent_ok ts i \<longleftrightarrow> (case get_row pt_task_id ts i of None \<Rightarrow> False | Some q \<Rightarrow> pt_status q \<noteq> ''pending'' \<and> \<not> retry_allowed q)"

definition jobs_ok :: "publish_task list \<Rightarrow> string list \<Rightarrow> bool" where
  "jobs_ok ts log \<longleftrightarrow> keys_distinct pt_task_id ts \<and> list_all (retry_link ts) ts \<and> distinct (retried ts) \<and> list_all mode_ok ts
     \<and> distinct log \<and> list_all (sent_ok ts) log \<and> list_all (\<lambda>t. pt_task_id t \<noteq> [] \<and> 1 \<le> attempt_number t) ts"

lemma jobs_okD:
  assumes "jobs_ok ts log"
  shows "keys_distinct pt_task_id ts" "list_all (retry_link ts) ts" "distinct (retried ts)" "list_all mode_ok ts" "distinct log"
    "list_all (sent_ok ts) log" "list_all (\<lambda>t. pt_task_id t \<noteq> [] \<and> 1 \<le> attempt_number t) ts"
  using assms by (simp_all add: jobs_ok_def)

text \<open>Changing rows without touching their places in the chains.\<close>

definition stays_linked :: "publish_task \<Rightarrow> publish_task \<Rightarrow> bool" where
  "stays_linked t t' \<longleftrightarrow> pt_task_id t' = pt_task_id t \<and> pt_account_id t' = pt_account_id t
     \<and> pt_retry_of_task_id t' = pt_retry_of_task_id t \<and> attempt_number t' = attempt_number t
     \<and> (if retry_allowed t then retry_allowed t' else True) \<and> (if pt_catalog_hidden_at t = None then True else pt_catalog_hidden_at t' \<noteq> None)"

lemma retry_link_map:
  assumes f: "\<And>x. x \<in> set ts \<Longrightarrow> stays_linked x (f x)" and l: "retry_link ts r" and r: "stays_linked r r'"
  shows "retry_link (map f ts) r'"
proof -
  have g: "get_row pt_task_id (map f ts) p = map_option f (get_row pt_task_id ts p)" for p
    using f by (intro get_row_map) (simp add: stays_linked_def)
  show ?thesis
  proof (cases "pt_retry_of_task_id r")
    case (Some p)
    with l obtain q where q: "get_row pt_task_id ts p = Some q" "retry_allowed q" "pt_catalog_hidden_at q \<noteq> None" "pt_account_id q = pt_account_id r"
        "attempt_number r = attempt_number q + 1" "p \<noteq> []"
      by (auto simp: retry_link_def split: option.splits)
    have "stays_linked q (f q)" using f get_row_SomeD [OF q(1)] by blast
    with q have "retry_allowed (f q)" "pt_catalog_hidden_at (f q) \<noteq> None" "pt_account_id (f q) = pt_account_id r"
        "attempt_number r = attempt_number (f q) + 1"
      by (simp_all add: stays_linked_def split: if_splits)
    with Some q(1, 6) r show ?thesis by (simp add: retry_link_def g stays_linked_def)
  qed (use l r in \<open>simp add: retry_link_def stays_linked_def\<close>)
qed

lemma jobs_map:
  assumes j: "jobs_ok ts log" and f: "\<And>x. x \<in> set ts \<Longrightarrow> stays_linked x (f x) \<and> mode_ok (f x)"
    and log: "distinct log'" "\<And>i. i \<in> set log' \<Longrightarrow> sent_ok (map f ts) i"
  shows "jobs_ok (map f ts) log'"
proof -
  have "map pt_task_id (map f ts) = map pt_task_id ts" using f by (simp add: stays_linked_def)
  then have key: "keys_distinct pt_task_id (map f ts)" using jobs_okD(1) [OF j] unfolding keys_distinct_def by metis
  have "map pt_retry_of_task_id (map f ts) = map pt_retry_of_task_id ts" using f by (simp add: stays_linked_def)
  moreover have "retried xs = List.map_filter id (map pt_retry_of_task_id xs)" for xs by (simp add: retried_def List.map_filter_def comp_def filter_map)
  ultimately have "retried (map f ts) = retried ts" by metis
  moreover have "list_all (retry_link (map f ts)) (map f ts)"
    using jobs_okD(2) [OF j] f retry_link_map [of ts f] by (auto simp: list_all_iff)
  moreover have "list_all (\<lambda>t. pt_task_id t \<noteq> [] \<and> 1 \<le> attempt_number t) (map f ts)"
    using jobs_okD(7) [OF j] f by (auto simp: list_all_iff stays_linked_def)
  ultimately show ?thesis using jobs_okD [OF j] key f log by (simp add: jobs_ok_def list_all_iff)
qed

lemma sent_ok_map:
  assumes "sent_ok ts i" and "\<And>x. pt_task_id (f x) = pt_task_id x"
    and "\<And>x. x \<in> set ts \<Longrightarrow> pt_status x \<noteq> ''pending'' \<Longrightarrow> \<not> retry_allowed x \<Longrightarrow> pt_status (f x) \<noteq> ''pending'' \<and> \<not> retry_allowed (f x)"
  shows "sent_ok (map f ts) i"
  using assms get_row_map [of ts pt_task_id f i] by (auto simp: sent_ok_def split: option.splits dest: get_row_SomeD)

lemma retried_append: "retried (ts @ [r]) = retried ts @ (case pt_retry_of_task_id r of None \<Rightarrow> [] | Some p \<Rightarrow> [p])"
  by (simp add: retried_def List.map_filter_def split: option.split)

lemma retry_link_append: "retry_link ts x \<Longrightarrow> retry_link (ts @ [r]) x"
  by (auto simp: retry_link_def get_row_append split: option.splits)

lemma jobs_append:
  assumes j: "jobs_ok ts log" and fresh: "get_row pt_task_id ts (pt_task_id r) = None" "pt_task_id r \<noteq> []" "1 \<le> attempt_number r"
    and l: "retry_link ts r" and one: "\<And>p. pt_retry_of_task_id r = Some p \<Longrightarrow> p \<notin> set (retried ts)" and m: "mode_ok r"
  shows "jobs_ok (ts @ [r]) log"
proof -
  have "sent_ok (ts @ [r]) i" if "sent_ok ts i" for i using that by (auto simp: sent_ok_def get_row_append split: option.splits)
  with jobs_okD [OF j] retry_link_append [OF l] m one fresh show ?thesis
    by (auto simp: jobs_ok_def keys_distinct_append1 retried_append retry_link_append list_all_iff split: option.splits)
qed

text \<open>One row is replaced.\<close>

lemma jobs_put:
  assumes j: "jobs_ok ts log" and t: "get_row pt_task_id ts (pt_task_id t) = Some t" "stays_linked t t'" "mode_ok t'"
    and log: "distinct log'" "set log' \<subseteq> insert (pt_task_id t) (set log)"
      "pt_task_id t \<in> set log' \<Longrightarrow> pt_status t' \<noteq> ''pending'' \<and> \<not> retry_allowed t'"
  shows "jobs_ok (put_row pt_task_id t' ts) log'"
proof -
  define f where "f = (\<lambda>x. if pt_task_id x = pt_task_id t then t' else x)"
  have put: "put_row pt_task_id t' ts = map f ts" using t by (simp add: put_row_def set_row_def f_def stays_linked_def)
  have x: "x = t" if "x \<in> set ts" "pt_task_id x = pt_task_id t" for x
    using keys_distinct_eq [OF jobs_okD(1) [OF j] that(1)] that(2) get_row_SomeD [OF t(1)] by simp
  have "stays_linked x (f x) \<and> mode_ok (f x)" if "x \<in> set ts" for x
    using x [OF that] t jobs_okD(4) [OF j] that by (auto simp: f_def stays_linked_def list_all_iff)
  moreover have "sent_ok (map f ts) i" if "i \<in> set log'" for i
  proof (cases "i = pt_task_id t")
    case True
    then show ?thesis using log(3) that t get_put_row [of pt_task_id t' ts i] by (simp add: sent_ok_def put [symmetric] stays_linked_def)
  next
    case False
    with that log(2) have "sent_ok ts i" using jobs_okD(6) [OF j] by (auto simp: list_all_iff)
    with False t show ?thesis using get_put_row [of pt_task_id t' ts i] by (simp add: sent_ok_def put [symmetric] stays_linked_def)
  qed
  ultimately show ?thesis unfolding put using log(1) by (intro jobs_map [OF j])
qed

lemma jobs_put_kept:
  assumes "jobs_ok ts log" and "get_row pt_task_id ts (pt_task_id t) = Some t" and "stays_linked t t'" and "mode_ok t'"
    and "pt_status t' = pt_status t \<and> retry_allowed t' = retry_allowed t"
  shows "jobs_ok (put_row pt_task_id t' ts) log"
proof (rule jobs_put [OF assms(1-4) jobs_okD(5) [OF assms(1)]])
  show "pt_status t' \<noteq> ''pending'' \<and> \<not> retry_allowed t'" if "pt_task_id t \<in> set log"
    using jobs_okD(6) [OF assms(1)] that assms(2, 5) by (auto simp: list_all_iff sent_ok_def)
qed auto

text \<open>A pending task that is executed, with or without sending the request.\<close>

lemma jobs_executed:
  assumes j: "jobs_ok (pb_tasks db) log" and t: "get_product_publish_task a i db = Some t" "pt_status t = ''pending''" "pt_mode t = ''platform_api''"
    and r: "task_row_is a i (pb_tasks db) t t' db'" "pt_status t' \<noteq> ''pending''" "retry_allowed t' \<longrightarrow> quiet tr"
  shows "jobs_ok (pb_tasks db') (if quiet tr then log else log @ [i])"
proof -
  note g = get_task_SomeD [OF t(1)]
  have id: "pt_task_id t = i" using g get_row_SomeD by fastforce
  have new: "i \<notin> set log" using jobs_okD(6) [OF j] g t(2) by (auto simp: list_all_iff sent_ok_def)
  have tasks: "pb_tasks db' = put_row pt_task_id t' (pb_tasks db)" and same: "same_task t t'" using r(1) by (simp_all add: task_row_is_def)
  show ?thesis unfolding tasks
  proof (rule jobs_put [OF j])
    show "get_row pt_task_id (pb_tasks db) (pt_task_id t) = Some t" using g id by simp
    show "stays_linked t t'" using same t(2) by (simp add: stays_linked_def same_task_def retry_allowed_def)
    show "mode_ok t'" using same t(3) by (simp add: mode_ok_def same_task_def)
    show "pt_status t' \<noteq> ''pending'' \<and> \<not> retry_allowed t'" if "pt_task_id t \<in> set (if quiet tr then log else log @ [i])"
      using that new r(2, 3) id by (auto split: if_splits)
  qed (use jobs_okD(5) [OF j] new id in auto)
qed

lemma exported_row: "get_product_publish_task a i db = Some t \<Longrightarrow> mode_ok t \<Longrightarrow> pt_mode t = ''manual_export'' \<Longrightarrow>
    stays_linked t (result_values now exported_result t) \<and> mode_ok (result_values now exported_result t)
    \<and> pt_status (result_values now exported_result t) = ''success'' \<and> \<not> retry_allowed (result_values now exported_result t)"
  by (auto simp: stays_linked_def mode_ok_def retry_allowed_def result_values_def exported_result_def task_statuses_def Let_def attempt_number_def)

lemma first_attempt_ok:
  assumes "jobs_ok ts log" and "first_attempt t" and "get_row pt_task_id ts (pt_task_id t) = None" and "pt_task_id t \<noteq> []"
  shows "jobs_ok (ts @ [t]) log"
  using assms by (intro jobs_append) (auto simp: first_attempt_def retry_link_def mode_ok_def)

lemma in_retried: "p \<in> set (retried ts) \<longleftrightarrow> (\<exists>r\<in>set ts. pt_retry_of_task_id r = Some p)"
  by (auto simp: retried_def List.map_filter_def image_iff)

lemma jobs_hidden:
  assumes "jobs_ok ts log"
  shows "jobs_ok (update_where p (hidden now) ts) log"
  unfolding update_where_def
proof (rule jobs_map [OF assms _ jobs_okD(5) [OF assms]])
  show "stays_linked x (if p x then hidden now x else x) \<and> mode_ok (if p x then hidden now x else x)" if "x \<in> set ts" for x
    using jobs_okD(4) [OF assms] that by (auto simp: list_all_iff stays_linked_def mode_ok_def) (simp add: hidden_def)
  show "sent_ok (map (\<lambda>x. if p x then hidden now x else x) ts) i" if "i \<in> set log" for i
    using jobs_okD(6) [OF assms] that by (intro sent_ok_map) (auto simp: list_all_iff)
qed

lemma jobs_confirmed:
  assumes "jobs_ok (pb_tasks db) log"
  shows "jobs_ok (pb_tasks (confirm_published now a seen db)) log"
proof -
  define f where "f = (\<lambda>t :: publish_task. t\<lparr>pt_status := ''success'', pt_phase := Some ''completed'', pt_failure_kind := None, pt_error := None,
    pt_retryable := Some False, pt_result_certainty := Some ''confirmed_success'', pt_finished_at := given_some (pt_finished_at t) (Some now),
    pt_updated_at := now\<rparr>)"
  define p where "p = (\<lambda>t :: publish_task. pt_account_id t = a \<and> (\<exists>i\<in>set seen. pt_item_id t = Some i) \<and> pt_status t \<in> {''success'', ''verification_required''})"
  have "jobs_ok (map (\<lambda>x. if p x then f x else x) (pb_tasks db)) log"
  proof (rule jobs_map [OF assms _ jobs_okD(5) [OF assms]])
    show "stays_linked x (if p x then f x else x) \<and> mode_ok (if p x then f x else x)" if "x \<in> set (pb_tasks db)" for x
      using jobs_okD(4) [OF assms] that
      by (auto simp: list_all_iff stays_linked_def mode_ok_def f_def p_def retry_allowed_def attempt_number_def)
    show "sent_ok (map (\<lambda>x. if p x then f x else x) (pb_tasks db)) i" if "i \<in> set log" for i
      using jobs_okD(6) [OF assms] that by (intro sent_ok_map) (auto simp: list_all_iff f_def retry_allowed_def)
  qed
  moreover have "confirm_published now a seen db = db\<lparr>pb_tasks := update_where p f (pb_tasks db)\<rparr>"
    by (simp only: confirm_published_def p_def f_def)
  ultimately show ?thesis by (simp add: update_where_def)
qed

lemma jobs_retried:
  assumes j: "jobs_ok ts log" and source: "get_row pt_task_id ts i = Some source" "pt_catalog_hidden_at source = None" "retry_allowed source"
    and fresh: "get_row pt_task_id ts (dr_task_id w) = None" "dr_task_id w \<noteq> []"
  shows "jobs_ok (set_row pt_task_id ts i (hidden now) @ [retry_task w now key s source]) log"
proof -
  have id: "pt_task_id source = i" "source \<in> set ts" using get_row_SomeD [OF source(1)] by auto
  have g: "get_row pt_task_id (set_row pt_task_id ts i (hidden now)) k = map_option (\<lambda>x. if pt_task_id x = i then hidden now x else x) (get_row pt_task_id ts k)" for k
    unfolding set_row_def by (rule get_row_map) simp
  have "i \<notin> set (retried ts)"
  proof
    assume "i \<in> set (retried ts)"
    then obtain r where "r \<in> set ts" "pt_retry_of_task_id r = Some i" by (auto simp: in_retried)
    with jobs_okD(2) [OF j] source show False by (auto simp: list_all_iff retry_link_def)
  qed
  then have one: "i \<notin> set (retried (set_row pt_task_id ts i (hidden now)))"
    by (force simp: in_retried set_row_def split: if_splits)
  have "mode_ok source" using jobs_okD(4) [OF j] id by (simp add: list_all_iff)
  then have m: "mode_ok (retry_task w now key s source)" by (simp add: mode_ok_def retry_task_def new_publish_task_def)
  have n: "i \<noteq> []" "1 \<le> attempt_number source" using jobs_okD(7) [OF j] id by (auto simp: list_all_iff)
  then have number: "attempt_number (retry_task w now key s source) = attempt_number source + 1"
    by (simp add: attempt_number_def retry_task_def)
  have keys: "pt_retry_of_task_id (retry_task w now key s source) = Some i" "pt_account_id (retry_task w now key s source) = pt_account_id source"
    using id by (simp_all add: retry_task_def new_publish_task_def)
  from n have l: "retry_link (set_row pt_task_id ts i (hidden now)) (retry_task w now key s source)"
    using source id keys by (simp add: retry_link_def g number) (simp add: hidden_def)
  show ?thesis
  proof (rule jobs_append [OF _ _ _ _ l _ m])
    show "jobs_ok (set_row pt_task_id ts i (hidden now)) log" unfolding set_row_update_where by (rule jobs_hidden [OF j])
    show "1 \<le> attempt_number (retry_task w now key s source)" using n number by simp
  qed (use fresh one id in \<open>simp_all add: retry_task_def new_publish_task_def g\<close>)
qed

lemma hide_tasks:
  assumes "hide_product_publish_task now a i db = Inr (db', b)"
  shows "pb_tasks db' = pb_tasks db \<or> pb_tasks db' = update_where (\<lambda>t. pt_task_id t = i) (hidden now) (pb_tasks db)"
  using assms by (auto simp: hide_product_publish_task_def set_row_update_where split: option.splits if_splits)

lemma publish_step_ok: "publish_step s s' \<Longrightarrow> jobs_ok (pb_tasks (fst s)) (snd s) \<Longrightarrow> jobs_ok (pb_tasks (fst s')) (snd s')"
proof (induction rule: publish_step.induct)
  case (create db w now a d m k l db' r log)
  with create_tasks [OF create(3)] first_attempt_ok show ?case by auto
next
  case (direct db w now a p db' r log)
  with direct_tasks [OF direct(3)] first_attempt_ok show ?case by auto
next
  case (retry db w now a i k db' r log)
  with retry_tasks [OF retry(3)] jobs_retried show ?case by auto
next
  case (execute a i db t now x acc db' tr answer log)
  then have j: "jobs_ok (pb_tasks db) log" by simp
  from publish_locked_row [OF jobs_okD(1) [OF j] execute(3)] show ?case
  proof
    assume "db' = db \<and> tr = []"
    with j show ?thesis by (simp add: quiet_def)
  next
    assume "\<exists>t t'. get_product_publish_task a i db = Some t \<and> pt_status t = ''pending''
      \<and> task_row_is a i (pb_tasks db) t t' db' \<and> pt_status t' \<noteq> ''pending'' \<and> (retry_allowed t' \<longrightarrow> quiet tr)"
    then obtain t' where "pt_status t = ''pending''" "task_row_is a i (pb_tasks db) t t' db'" "pt_status t' \<noteq> ''pending''"
        "retry_allowed t' \<longrightarrow> quiet tr"
      using execute(1) by auto
    from jobs_executed [OF j execute(1) this(1) execute(2) this(2-4)] show ?thesis by simp
  qed
next
  case (lost a i db t x acc now res tr tr' log)
  then have j: "jobs_ok (pb_tasks db) log" by simp
  have t0: "task_row_is a i (pb_tasks db) t t db"
    using get_task_SomeD [OF lost(1)] get_row_SomeD put_row_same [OF jobs_okD(1) [OF j]] by (force simp: task_row_is_def)
  obtain t2 where t2: "task_row_is a i (pb_tasks db) t t2 (write_progress now a i tr (write_result now a i (running_result ''starting'') db))"
      "pt_status t2 = ''running''"
    using progress_row [OF task_row_is_write [OF t0] running_status] by blast
  then show ?case using jobs_executed [OF j lost(1) lost(3) lost(2) t2(1)] by (simp add: retry_allowed_def)
next
  case (export a i db t log now)
  then have j: "jobs_ok (pb_tasks db) log" by simp
  note g = get_task_SomeD [OF export(1)]
  have id: "pt_task_id t = i" "t \<in> set (pb_tasks db)" using g get_row_SomeD by fastforce+
  have m: "mode_ok t" using jobs_okD(4) [OF j] id by (simp add: list_all_iff)
  note x = exported_row [OF export(1) m export(2), of now]
  have "jobs_ok (put_row pt_task_id (result_values now exported_result t) (pb_tasks db)) log"
    by (rule jobs_put [OF j _ _ _ jobs_okD(5) [OF j]]) (use g id x in auto)
  then show ?case by (simp add: write_result_tasks [OF export(1)])
next
  case (hide now a i db db' b log)
  with hide_tasks [OF hide(1)] jobs_hidden show ?case by auto
next
  case (hide_item db log now a item)
  then show ?case by (simp add: hide_item_tasks_def jobs_hidden)
qed (simp_all add: jobs_confirmed)

interpretation publishing: invariant_system "\<lambda>s. pb_tasks (fst s) = [] \<and> snd s = []" publish_step "\<lambda>s. jobs_ok (pb_tasks (fst s)) (snd s)"
proof
  show "jobs_ok (pb_tasks (fst s)) (snd s)" if "pb_tasks (fst s) = [] \<and> snd s = []" for s :: "product_db \<times> string list"
    using that by (simp add: jobs_ok_def keys_distinct_def retried_def List.map_filter_def)
qed (rule publish_step_ok)

section \<open>One publication per job\<close>

text \<open>The attempts of a job follow one another; the last of them is the only one that can have sent.\<close>

definition attempt_edges :: "publish_task list \<Rightarrow> (string \<times> string) set" where
  "attempt_edges ts = {(p, c). parent_of ts c = Some p}"

lemma attempt_root_path: "(attempt_root ts visited i, i) \<in> (attempt_edges ts)\<^sup>*"
proof (induction ts visited i rule: attempt_root.induct)
  case (1 ts visited i)
  show ?case
  proof (cases "i \<in> set visited \<or> parent_of ts i = None")
    case True
    then show ?thesis by (auto simp: attempt_root.simps [of ts visited i])
  next
    case False
    then obtain p where p: "i \<notin> set visited" "parent_of ts i = Some p" by blast
    from 1 [OF p] have "(attempt_root ts (i # visited) p, p) \<in> (attempt_edges ts)\<^sup>*" .
    with p show ?thesis by (auto simp: attempt_root.simps [of ts visited i] attempt_edges_def intro: rtrancl_into_rtrancl)
  qed
qed

lemma parent_of_SomeD:
  "parent_of ts i = Some p \<Longrightarrow> \<exists>r. get_row pt_task_id ts i = Some r \<and> r \<in> set ts \<and> pt_task_id r = i \<and> pt_retry_of_task_id r = Some p"
  by (auto simp: parent_of_def dest: get_row_SomeD split: option.splits if_splits)

lemma retried_once:
  assumes "distinct (retried ts)" and "r \<in> set ts" "r' \<in> set ts" and "pt_retry_of_task_id r = Some p" "pt_retry_of_task_id r' = Some p"
  shows "r = r'"
  using assms
proof (induction ts)
  case (Cons x ts)
  then show ?case by (auto simp: retried_def List.map_filter_def image_iff split: if_splits)
qed simp

lemma attempts_linear: "distinct (retried ts) \<Longrightarrow> single_valued (attempt_edges ts)"
  by (auto simp: single_valued_def attempt_edges_def dest!: parent_of_SomeD dest: retried_once)

lemma sent_is_last:
  assumes j: "jobs_ok ts log" and i: "i \<in> set log" and path: "(i, k) \<in> (attempt_edges ts)\<^sup>*"
  shows "k = i"
  using path
proof (cases rule: converse_rtranclE)
  case (step c)
  then obtain r where r: "r \<in> set ts" "pt_retry_of_task_id r = Some i" by (auto simp: attempt_edges_def dest!: parent_of_SomeD)
  have "retry_link ts r" using jobs_okD(2) [OF j] r(1) by (simp add: list_all_iff)
  moreover have "sent_ok ts i" using jobs_okD(6) [OF j] i by (simp add: list_all_iff)
  ultimately show ?thesis using r(2) by (auto simp: retry_link_def sent_ok_def split: option.splits)
qed simp

lemma sent_same_root:
  assumes j: "jobs_ok ts log" and i: "i \<in> set log" "k \<in> set log" and r: "attempt_root ts [] i = attempt_root ts [] k"
  shows "i = k"
proof -
  have "(i, k) \<in> (attempt_edges ts)\<^sup>* \<or> (k, i) \<in> (attempt_edges ts)\<^sup>*"
    using single_valued_confluent [OF attempts_linear [OF jobs_okD(3) [OF j]]] attempt_root_path [of ts "[]" i] attempt_root_path [of ts "[]" k]
    unfolding r by blast
  then show ?thesis using sent_is_last [OF j] i by blast
qed

text \<open>C4. 
  A job is published at most once. Whatever tasks are created, retried, hidden, executed, lost
  with their worker or confirmed later, among the attempts that have the same first attempt at
  most one execution sends the publish request. (That execution sends it again only when the
  platform answers that the token has expired.)
\<close>

theorem job_published_at_most_once:
  assumes "pb_tasks db0 = []" and "publish_step\<^sup>*\<^sup>* (db0, []) (db, log)"
  shows "length (filter (\<lambda>i. attempt_root (pb_tasks db) [] i = root) log) \<le> 1"
proof -
  have j: "jobs_ok (pb_tasks db) log" using publishing.reachable_inv [OF _ assms(2)] assms(1) by simp
  let ?sent = "filter (\<lambda>i. attempt_root (pb_tasks db) [] i = root) log"
  have "\<exists>k. set ?sent \<subseteq> {k}"
    using sent_same_root [OF j] by (cases "set ?sent = {}") auto
  then have "card (set ?sent) \<le> 1" by (metis card.empty card.insert card_mono empty_iff finite.emptyI finite_insert One_nat_def)
  moreover have "card (set ?sent) = length ?sent" using jobs_okD(5) [OF j] by (intro distinct_card) simp
  ultimately show ?thesis by simp
qed

definition example_seller :: account_row where
  "example_seller = (account_defaults ''a'' 0)\<lparr>ac_cookie := ''unb=1''\<rparr>"

definition example_products :: product_db where
  "example_products = \<lparr>pb_accounts = [example_seller],
     pb_assets = [\<lparr>ia_asset_id = [65], ia_account_id = ''a'', ia_original_filename = [66], ia_mime_type = ''image/jpeg'', ia_width = 1,
       ia_height = 1, ia_size_bytes = 9, ia_sha256 = ''d'', ia_upload_session_id = None, ia_state = None, ia_expires_at = None,
       ia_last_referenced_at = None, ia_created_at = 0\<rparr>],
     pb_drafts = [], pb_tasks = [], pb_task_assets = [], pb_groups = [], pb_group_accounts = [], pb_addresses = [], pb_usages = []\<rparr>"

definition example_job :: publish_job where
  "example_job = \<lparr>dc_title = [65], dc_description = [], dc_price = asc ''1'', dc_original_price = None, dc_stock = 1, dc_category_id = None,
     dc_category_hint = None, dc_images = [asc ''asset:A''], dc_delivery_choice = ''free_shipping'', dc_post_price = None,
     dc_can_self_pickup = False, dc_location_mode = ''manual'', dc_location = example_place, dc_location_group_id = None, dc_status = ''draft'',
     pj_upload_session_id = None, pj_idempotency_key = ''k1''\<rparr>"

text \<open>A first attempt whose upload fails, and a second one whose request gets no answer.\<close>

definition answering_env :: pub_env where
  "answering_env = example_env\<lparr>
     pe_net := (\<lambda>_ api _. if api = publish_api then HttpFailed True
       else HttpJson (jobj [(''ret'', JList [JStr (asc ''SUCCESS::'')]), (''data'', jobj [(''categoryPredictResult'',
         jobj [(''catId'', JStr [49]), (''catName'', JStr [50]), (''channelCatId'', JStr [51]), (''tbCatId'', JStr [52])])])])),
     pe_upload := (\<lambda>_ _. HttpJson (jobj [(''url'', JStr [85])]))\<rparr>"

definition example_world :: "bool \<Rightarrow> publish_world" where
  "example_world up = \<lparr>xw_files = (\<lambda>_. Some (9, ''d'')), xw_route_ok = True, xw_env = (if up then answering_env else example_env),
     xw_cookies = (\<lambda>_. []), xw_others = [], xw_text = (\<lambda>_. []), xw_raw = (\<lambda>_. JObj [])\<rparr>"

definition example_draw :: "string \<Rightarrow> task_draw" where
  "example_draw i = \<lparr>dr_task_id = i, dr_unique_code = asc i, dr_usage_id = i, dr_pick = 0\<rparr>"

definition awaits_execution :: "string \<Rightarrow> product_db \<Rightarrow> bool" where
  "awaits_execution i db \<longleftrightarrow> (case get_product_publish_task ''a'' i db of None \<Rightarrow> False | Some t \<Rightarrow> pt_mode t = ''platform_api'')"

theorem job_published_at_most_once_witness:
  "case create_direct_product_publish_task (example_draw ''t1'') 0 ''a'' example_job example_products of Inl _ \<Rightarrow> False | Inr (db1, _) \<Rightarrow>
   (case publish_locked 1 (example_world False) example_seller ''a'' ''t1'' db1 of (db2, tr2, _) \<Rightarrow>
   (case retry_product_publish_task (example_draw ''t2'') 2 ''a'' ''t1'' ''k2'' db2 of Inl _ \<Rightarrow> False | Inr (db3, _) \<Rightarrow>
   (case publish_locked 3 (example_world True) example_seller ''a'' ''t2'' db3 of (db4, tr4, _) \<Rightarrow>
      quiet tr2 \<and> \<not> quiet tr4 \<and> publish_step\<^sup>*\<^sup>* (example_products, []) (db4, [''t2'']) \<and> attempt_root (pb_tasks db4) [] ''t2'' = ''t1''
      \<and> length (filter (\<lambda>i. attempt_root (pb_tasks db4) [] i = ''t1'') [''t2'']) \<le> 1)))"
proof -
  define x1 where "x1 = create_direct_product_publish_task (example_draw ''t1'') 0 ''a'' example_job example_products"
  have e: "case x1 of Inl _ \<Rightarrow> False | Inr (db1, _) \<Rightarrow> awaits_execution ''t1'' db1 \<and>
   (case publish_locked 1 (example_world False) example_seller ''a'' ''t1'' db1 of (db2, tr2, _) \<Rightarrow>
      quiet tr2 \<and> get_row pt_task_id (pb_tasks db2) ''t2'' = None \<and>
   (case retry_product_publish_task (example_draw ''t2'') 2 ''a'' ''t1'' ''k2'' db2 of Inl _ \<Rightarrow> False | Inr (db3, _) \<Rightarrow> awaits_execution ''t2'' db3 \<and>
   (case publish_locked 3 (example_world True) example_seller ''a'' ''t2'' db3 of (db4, tr4, _) \<Rightarrow>
      \<not> quiet tr4 \<and> attempt_root (pb_tasks db4) [] ''t2'' = ''t1'')))"
    unfolding x1_def by code_simp
  from e obtain db1 t1 where x1: "x1 = Inr (db1, t1)" by (cases x1) auto
  obtain db2 tr2 a2 where x2: "publish_locked 1 (example_world False) example_seller ''a'' ''t1'' db1 = (db2, tr2, a2)" by (rule prod_cases3)
  define x3 where "x3 = retry_product_publish_task (example_draw ''t2'') 2 ''a'' ''t1'' ''k2'' db2"
  note e1 = e [unfolded x1 sum.case prod.case x2 x3_def [symmetric]]
  then obtain db3 t3 where x3: "x3 = Inr (db3, t3)" by (cases x3) auto
  obtain db4 tr4 a4 where x4: "publish_locked 3 (example_world True) example_seller ''a'' ''t2'' db3 = (db4, tr4, a4)" by (rule prod_cases3)
  note e2 = e1 [unfolded x3 sum.case prod.case x4]
  obtain u1 where u1: "get_product_publish_task ''a'' ''t1'' db1 = Some u1" "pt_mode u1 = ''platform_api''"
    using e2 by (auto simp: awaits_execution_def split: option.splits)
  obtain u3 where u3: "get_product_publish_task ''a'' ''t2'' db3 = Some u3" "pt_mode u3 = ''platform_api''"
    using e2 by (auto simp: awaits_execution_def split: option.splits)
  have draw: "dr_task_id (example_draw i) = i" for i by (simp add: example_draw_def)
  have "publish_step (example_products, []) (db1, [])"
    by (rule publish_step.direct [OF _ _ x1 [unfolded x1_def]]) (simp_all add: example_products_def draw)
  moreover have "publish_step (db1, []) (db2, [])" using publish_step.execute [OF u1 x2, of "[]"] e2 by simp
  moreover have "publish_step (db2, []) (db3, [])"
    by (rule publish_step.retry [OF _ _ x3 [unfolded x3_def]]) (use e2 in \<open>simp_all add: draw\<close>)
  moreover have "publish_step (db3, []) (db4, [''t2''])" using publish_step.execute [OF u3 x4, of "[]"] e2 by simp
  ultimately have r: "publish_step\<^sup>*\<^sup>* (example_products, []) (db4, [''t2''])"
    by (meson converse_rtranclp_into_rtranclp rtranclp.rtrancl_refl)
  have "pb_tasks example_products = []" by (simp add: example_products_def)
  note at_most = job_published_at_most_once [OF this r, of "''t1''"]
  show ?thesis unfolding x1_def [symmetric] x1 sum.case prod.case x2 x3_def [symmetric] x3 x4 using e2 r at_most by blast
qed

section \<open>Results that are not recorded\<close>

lemma get_task_other: "pb_tasks db' = pb_tasks db \<Longrightarrow> get_product_publish_task a i db' = get_product_publish_task a i db"
  by (simp add: get_product_publish_task_def)

lemma get_written:
  assumes "get_product_publish_task a i db = Some t"
  shows "get_product_publish_task a i (write_result now a i r db) = Some (result_values now r t)"
proof -
  note g = get_task_SomeD [OF assms]
  have "pt_task_id t = i" using g get_row_SomeD by fastforce
  with g show ?thesis by (simp add: get_product_publish_task_def write_result_tasks [OF assms] get_put_row)
qed

text \<open>
  A publication whose cookies conflict with those of the account is recorded as a certain failure:
  the identifier of the published item is not stored, and the task can be hidden like one that
  never published anything.
\<close>

theorem conflict_hides_publication:
  assumes "get_product_publish_task a i db = Some t" and "pt_catalog_hidden_at t = None"
    and "merge_in now w (Inr r) a db = (db1, Inl CookieConflict)"
  shows "case settle_publish now w a i (Inr r) db of (db', answer) \<Rightarrow>
    answer = ExecRaised (PublishError ''cookie_conflict'' False False)
    \<and> (\<exists>t'. get_product_publish_task a i db' = Some t' \<and> pt_status t' = ''failed'' \<and> pt_result_certainty t' = Some ''confirmed_failed''
         \<and> pt_item_id t' = pt_item_id t)
    \<and> (\<exists>db''. hide_product_publish_task later a i db' = Inr (db'', Some True))"
proof -
  have g: "get_product_publish_task a i db1 = Some t" using get_task_other [OF merge_in_tasks [OF assms(3)]] assms(1) by simp
  define t' where "t' = result_values now (failed_result ''cookie_conflict'' False False (xw_text w (PublishError ''cookie_conflict'' False False)) (JObj [])) t"
  define db' where "db' = write_result now a i (failed_result ''cookie_conflict'' False False (xw_text w (PublishError ''cookie_conflict'' False False)) (JObj [])) db1"
  have s: "settle_publish now w a i (Inr r) db = (db', ExecRaised (PublishError ''cookie_conflict'' False False))"
    by (simp add: settle_publish_def assms(3) db'_def)
  have g': "get_product_publish_task a i db' = Some t'" unfolding db'_def t'_def by (rule get_written [OF g])
  have t': "pt_status t' = ''failed''" "pt_result_certainty t' = Some ''confirmed_failed''" "pt_item_id t' = pt_item_id t" "pt_catalog_hidden_at t' = None"
    using assms(2) by (simp_all add: t'_def result_values_def failed_result_def task_statuses_def given_some_def u_or_def Let_def)
  have "\<exists>db''. hide_product_publish_task later a i db' = Inr (db'', Some True)"
    by (simp add: hide_product_publish_task_def g' t')
  with s g' t' show ?thesis by simp
qed

definition conflict_world :: publish_world where
  "conflict_world = (example_world True)\<lparr>xw_cookies := (\<lambda>_. [(''unb'', ''2'')]), xw_others := [id, id, id]\<rparr>"

definition example_published :: publish_result where
  "example_published = \<lparr>pr_item_id = asc ''123456'', pr_verified = True, pr_raw_response = JObj []\<rparr>"

definition conflict_db :: product_db where
  "conflict_db = example_products\<lparr>pb_tasks := [new_publish_task ''t1'' 0 ''a'' [] ''platform_api'' [] ''k1'' (JObj [])]\<rparr>"

theorem conflict_hides_publication_witness:
  "case settle_publish 1 conflict_world ''a'' ''t1'' (Inr example_published) conflict_db of (db', answer) \<Rightarrow>
    answer = ExecRaised (PublishError ''cookie_conflict'' False False)
    \<and> (\<exists>t'. get_product_publish_task ''a'' ''t1'' db' = Some t' \<and> pt_status t' = ''failed'' \<and> pt_result_certainty t' = Some ''confirmed_failed''
         \<and> pt_item_id t' = None)
    \<and> (\<exists>db''. hide_product_publish_task 2 ''a'' ''t1'' db' = Inr (db'', Some True))"
proof -
  define t where "t = new_publish_task ''t1'' 0 ''a'' [] ''platform_api'' [] ''k1'' (JObj [])"
  have g: "get_product_publish_task ''a'' ''t1'' conflict_db = Some t" unfolding t_def by code_simp
  have t: "pt_catalog_hidden_at t = None" "pt_item_id t = None" by (simp_all add: t_def new_publish_task_def)
  obtain db1 m where m: "merge_in 1 conflict_world (Inr example_published) ''a'' conflict_db = (db1, m)" by fastforce
  have "snd (merge_in 1 conflict_world (Inr example_published) ''a'' conflict_db) = Inl CookieConflict" by code_simp
  with m have "merge_in 1 conflict_world (Inr example_published) ''a'' conflict_db = (db1, Inl CookieConflict)" by simp
  from conflict_hides_publication [OF g t(1) this, of 2] show ?thesis unfolding t(2) .
qed

lemma put_row_members: "x \<in> set (put_row key r rows) \<Longrightarrow> x = r \<or> x \<in> set rows"
  by (auto simp: put_row_def set_row_def split: option.splits if_splits)

text \<open>The task is running, and the key of a retry is not taken.\<close>

definition stuck :: "string \<Rightarrow> string \<Rightarrow> string \<Rightarrow> product_db \<Rightarrow> bool" where
  "stuck a i k db \<longleftrightarrow> (case get_product_publish_task a i db of
     None \<Rightarrow> False | Some t \<Rightarrow> pt_status t = ''running'' \<and> pt_catalog_hidden_at t = None) \<and> task_by_key a k (pb_tasks db) = None"

lemma stuck_written:
  assumes "get_product_publish_task a i db = Some t" and "pt_catalog_hidden_at t = None" and "task_by_key a k (pb_tasks db) = None"
  shows "stuck a i k (write_result now a i (running_result p) db)"
proof -
  have "t \<in> set (pb_tasks db)" using get_task_SomeD [OF assms(1)] get_row_SomeD by fastforce
  then have "\<not> (pt_account_id t = a \<and> pt_idempotency_key t = k)" using assms(3) by (auto simp: task_by_key_def find_None_iff)
  moreover have "pt_idempotency_key (result_values now (running_result p) t) = pt_idempotency_key t" by (simp add: result_values_def Let_def)
  ultimately have "task_by_key a k (pb_tasks (write_result now a i (running_result p) db)) = None"
    using assms(3) by (auto simp: task_by_key_def find_None_iff write_result_tasks [OF assms(1)] dest!: put_row_members)
  then show ?thesis by (simp add: stuck_def get_written [OF assms(1)] running_status assms(2))
qed

lemma stuck_progress: "stuck a i k db \<Longrightarrow> stuck a i k (write_progress now a i tr db)"
proof (induction tr arbitrary: db)
  case (Cons e tr)
  have "stuck a i k (write_result now a i (running_result p) db)" for p
  proof -
    from Cons.prems obtain t where "get_product_publish_task a i db = Some t" "pt_catalog_hidden_at t = None" "task_by_key a k (pb_tasks db) = None"
      by (auto simp: stuck_def split: option.splits)
    then show ?thesis by (rule stuck_written)
  qed
  with Cons.IH Cons.prems show ?case by (cases e) (simp_all add: write_progress_def)
qed (simp add: write_progress_def)

text \<open>
  The task of a worker that is lost while it publishes stays running: it is never executed again,
  a retry is refused, and so is hiding it.
\<close>

theorem lost_publish_stays_running:
  assumes "get_product_publish_task a i db = Some t" and "pt_catalog_hidden_at t = None" and "task_by_key a k (pb_tasks db) = None"
  shows "case write_progress now a i tr (write_result now a i (running_result ''starting'') db) of db' \<Rightarrow>
    (\<exists>t'. publish_locked later w acc a i db' = (db', [], NotPending t') \<and> pt_status t' = ''running'')
    \<and> retry_product_publish_task draw later a i k db' = Inl NotRetryable
    \<and> hide_product_publish_task later a i db' = Inl OnlyFailedHidden"
proof -
  define db' where "db' = write_progress now a i tr (write_result now a i (running_result ''starting'') db)"
  have "stuck a i k db'" unfolding db'_def by (rule stuck_progress [OF stuck_written [OF assms]])
  then obtain t' where t': "get_product_publish_task a i db' = Some t'" "pt_status t' = ''running''" "pt_catalog_hidden_at t' = None"
      "task_by_key a k (pb_tasks db') = None"
    by (auto simp: stuck_def split: option.splits)
  moreover have "get_row pt_task_id (pb_tasks db') i = Some t'" "pt_account_id t' = a" using get_task_SomeD [OF t'(1)] by simp_all
  ultimately show ?thesis unfolding db'_def [symmetric]
    by (simp add: publish_locked_def retry_product_publish_task_def hide_product_publish_task_def retry_allowed_def)
qed

theorem lost_publish_stays_running_witness:
  "case write_progress 1 ''a'' ''t1'' [Phase ''publishing'', Request publish_api (JObj [])]
      (write_result 1 ''a'' ''t1'' (running_result ''starting'') conflict_db) of db' \<Rightarrow>
    (\<exists>t'. publish_locked 9 conflict_world example_seller ''a'' ''t1'' db' = (db', [], NotPending t') \<and> pt_status t' = ''running'')
    \<and> retry_product_publish_task (example_draw ''t2'') 9 ''a'' ''t1'' ''k2'' db' = Inl NotRetryable
    \<and> hide_product_publish_task 9 ''a'' ''t1'' db' = Inl OnlyFailedHidden"
proof -
  define t where "t = new_publish_task ''t1'' 0 ''a'' [] ''platform_api'' [] ''k1'' (JObj [])"
  have g: "get_product_publish_task ''a'' ''t1'' conflict_db = Some t" unfolding t_def by code_simp
  have "pt_catalog_hidden_at t = None" by (simp add: t_def new_publish_task_def)
  moreover have "task_by_key ''a'' ''k2'' (pb_tasks conflict_db) = None" by code_simp
  ultimately show ?thesis by (rule lost_publish_stays_running [OF g])
qed

end
