(* ===== verification/CookieMerge.thy ===== *)
theory CookieMerge
  imports ProductPublish
begin

text \<open>
  The merge of cookie updates (\<open>merge_account_cookie_updates\<close> in \<open>product_publish_service.py\<close>): what
  is read from a cookie can be written and read again, and an update replaces the very cookie that
  it was computed from, whatever other processes do in between.
\<close>

section \<open>Reading what was written\<close>

text \<open>A pair that survives being written into a cookie.\<close>

definition clean_pair :: "string \<times> string \<Rightarrow> bool" where
  "clean_pair kv \<longleftrightarrow> fst kv \<noteq> [] \<and> CHR ''='' \<notin> set (fst kv) \<and> CHR '';'' \<notin> set (fst kv) \<and> \<not> py_space (hd (fst kv))
     \<and> CHR '';'' \<notin> set (snd kv) \<and> (snd kv = [] \<or> \<not> py_space (last (snd kv)))"

definition clean_cookie :: "(string \<times> string) list \<Rightarrow> bool" where
  "clean_cookie d \<longleftrightarrow> list_all clean_pair d \<and> distinct (map fst d)"

lemma strip_kept: "s \<noteq> [] \<Longrightarrow> \<not> py_space (hd s) \<Longrightarrow> \<not> py_space (last s) \<Longrightarrow> strip s = s"
  by (simp add: strip_def dropWhile_eq_self_iff [THEN iffD2] hd_rev)

lemma strip_set: "set (strip s) \<subseteq> set s"
  by (auto simp: strip_def dest!: set_dropWhileD)

lemma strip_hd: "strip s \<noteq> [] \<Longrightarrow> \<not> py_space (hd (strip s))"
proof -
  assume ne: "strip s \<noteq> []"
  obtain w where w: "dropWhile py_space s = strip s @ w"
    unfolding strip_def by (metis rev_append rev_rev_ident takeWhile_dropWhile_id)
  with ne have "dropWhile py_space s \<noteq> []" "hd (strip s) = hd (dropWhile py_space s)" by simp_all
  then show ?thesis using hd_dropWhile by metis
qed

lemma cookie_pair_clean:
  assumes "CHR '';'' \<notin> set part" and "cookie_pair part = Some kv"
  shows "clean_pair kv"
proof -
  define p where "p = strip part"
  define k where "k = takeWhile (\<lambda>c. c \<noteq> CHR ''='') p"
  have eq: "CHR ''='' \<in> set p" "k \<noteq> []" "kv = (k, drop (Suc (length k)) p)"
    using assms(2) by (simp_all add: cookie_pair_def Let_def p_def k_def split: if_splits)
  have semi: "CHR '';'' \<notin> set p" using assms(1) strip_set [of part] by (auto simp: p_def)
  have ne: "p \<noteq> []" using eq(1) by auto
  have "hd k = hd p" using eq(2) ne by (cases p) (auto simp: k_def split: if_splits)
  then have "\<not> py_space (hd k)" using strip_hd [of part] ne by (simp add: p_def)
  moreover have "set k \<subseteq> set p" "CHR ''='' \<notin> set k" unfolding k_def using set_takeWhileD by fastforce+
  moreover have "\<not> py_space (last (drop (Suc (length k)) p))" if "drop (Suc (length k)) p \<noteq> []"
    using that strip_last [of part] ne by (simp add: p_def)
  moreover have "set (drop (Suc (length k)) p) \<subseteq> set p" by (rule set_drop_subset)
  ultimately show ?thesis using eq semi by (auto simp: clean_pair_def)
qed

lemma cookie_pair_text:
  assumes "clean_pair kv"
  shows "cookie_pair (cookie_text kv) = Some kv" and "cookie_pair (CHR '' '' # cookie_text kv) = Some kv"
proof -
  have "py_space CHR '' ''" by code_simp
  then have sp: "strip (CHR '' '' # t) = strip t" for t by (simp add: strip_def)
  have "\<not> py_space CHR ''=''" by code_simp
  then have st: "strip (cookie_text kv) = cookie_text kv"
    using assms by (intro strip_kept) (auto simp: clean_pair_def cookie_text_def)
  have "takeWhile (\<lambda>c. c \<noteq> CHR ''='') (cookie_text kv) = fst kv"
    using assms by (auto simp: clean_pair_def cookie_text_def takeWhile_append)
  then show "cookie_pair (cookie_text kv) = Some kv"
    using assms by (simp add: cookie_pair_def st Let_def clean_pair_def) (simp add: cookie_text_def)
  then show "cookie_pair (CHR '' '' # cookie_text kv) = Some kv" by (simp add: cookie_pair_def sp)
qed

lemma map_of_text_dict_set [simp]: "map_of (text_dict_set k v d) = (map_of d)(k \<mapsto> v)"
  by (induction k v d rule: text_dict_set.induct) auto

lemma keys_text_dict_set: "set (map fst (text_dict_set k v d)) = insert k (set (map fst d))"
  by (induction k v d rule: text_dict_set.induct) auto

lemma clean_text_dict_set: "clean_cookie d \<Longrightarrow> clean_pair (k, v) \<Longrightarrow> clean_cookie (text_dict_set k v d)"
proof (induction k v d rule: text_dict_set.induct)
  case (2 k v j w d)
  then show ?case using keys_text_dict_set [of k v d] by (auto simp: clean_cookie_def clean_pair_def)
qed (simp add: clean_cookie_def)

lemma text_dict_set_new: "k \<notin> set (map fst d) \<Longrightarrow> text_dict_set k v d = d @ [(k, v)]"
  by (induction k v d rule: text_dict_set.induct) auto

lemma parse_cookie_clean: "clean_cookie (parse_cookie c)"
proof -
  have "clean_cookie (foldl (\<lambda>d part. case cookie_pair part of None \<Rightarrow> d | Some (k, v) \<Rightarrow> text_dict_set k v d) d ps)"
    if "clean_cookie d" and "list_all (\<lambda>p. CHR '';'' \<notin> set p) ps" for d ps
    using that
  proof (induction ps arbitrary: d)
    case (Cons p ps)
    show ?case
    proof (cases "cookie_pair p")
      case (Some kv)
      have "clean_pair kv" by (rule cookie_pair_clean [OF _ Some]) (use Cons.prems in simp)
      with Some Cons show ?thesis by (cases kv) (simp add: clean_text_dict_set)
    qed (use Cons in simp)
  qed simp
  from this [of "[]" "semicolon_parts c"] show ?thesis
    unfolding parse_cookie_def using parts_no_semicolon by (simp add: clean_cookie_def list_all_iff)
qed

lemma parts_plain: "CHR '';'' \<notin> set p \<Longrightarrow> semicolon_parts p = [p]"
  by (induction p) auto

lemma parts_append: "CHR '';'' \<notin> set p \<Longrightarrow> semicolon_parts (p @ CHR '';'' # t) = p # semicolon_parts t"
  by (induction p) auto

lemma parts_prefix: "CHR '';'' \<notin> set p \<Longrightarrow> semicolon_parts t = q # qs \<Longrightarrow> semicolon_parts (p @ t) = (p @ q) # qs"
  by (induction p) auto

lemma parts_join:
  "list_all (\<lambda>p. CHR '';'' \<notin> set p) (p # ps) \<Longrightarrow> semicolon_parts (join_parts ''; '' (p # ps)) = p # map (Cons CHR '' '') ps"
proof (induction ps arbitrary: p)
  case (Cons q ps)
  have "semicolon_parts (CHR '' '' # join_parts ''; '' (q # ps)) = (CHR '' '' # q) # map (Cons CHR '' '') ps"
    using Cons.IH [of q] Cons.prems by simp
  then show ?case using Cons.prems parts_append [of p] by simp
qed (simp add: parts_plain)

lemma read_back_pairs:
  assumes "list_all clean_pair d" and "distinct (map fst d)" and "set (map fst acc) \<inter> set (map fst d) = {}"
    and "list_all2 (\<lambda>p kv. cookie_pair p = Some kv) ps d"
  shows "foldl (\<lambda>d part. case cookie_pair part of None \<Rightarrow> d | Some (k, v) \<Rightarrow> text_dict_set k v d) acc ps = acc @ d"
  using assms(4, 1-3)
proof (induction ps d arbitrary: acc rule: list_all2_induct)
  case (Cons p ps kv d)
  have "text_dict_set (fst kv) (snd kv) acc = acc @ [kv]" using Cons.prems by (subst text_dict_set_new) auto
  with Cons.hyps have "foldl (\<lambda>d part. case cookie_pair part of None \<Rightarrow> d | Some (k, v) \<Rightarrow> text_dict_set k v d) acc (p # ps)
      = foldl (\<lambda>d part. case cookie_pair part of None \<Rightarrow> d | Some (k, v) \<Rightarrow> text_dict_set k v d) (acc @ [kv]) ps"
    by (simp add: case_prod_beta)
  also have "\<dots> = (acc @ [kv]) @ d" using Cons.prems by (intro Cons.IH) auto
  finally show ?case by simp
qed simp

lemma cookie_read_back:
  assumes "clean_cookie d"
  shows "parse_cookie (serialize_cookie d) = d"
proof (cases d)
  case Nil
  then show ?thesis by (simp add: parse_cookie_def serialize_cookie_def cookie_pair_def)
next
  case (Cons kv d')
  have c: "list_all clean_pair d" "distinct (map fst d)" using assms by (simp_all add: clean_cookie_def)
  have "filter (\<lambda>(k, _). k \<noteq> []) d = d" using c(1) by (auto simp: filter_id_conv list_all_iff clean_pair_def)
  moreover have "list_all (\<lambda>p. CHR '';'' \<notin> set p) (map cookie_text d)"
    using c(1) by (auto simp: list_all_iff clean_pair_def cookie_text_def)
  ultimately have parts: "semicolon_parts (serialize_cookie d) = cookie_text kv # map (Cons CHR '' '') (map cookie_text d')"
    using parts_join [of "cookie_text kv" "map cookie_text d'"] by (simp add: serialize_cookie_def Cons)
  have "list_all2 (\<lambda>p kv. cookie_pair p = Some kv) (map (Cons CHR '' '') (map cookie_text d')) d'"
    using c(1) cookie_pair_text(2) by (auto simp: Cons list_all_iff list_all2_conv_all_nth)
  moreover have "cookie_pair (cookie_text kv) = Some kv" using c(1) cookie_pair_text(1) by (simp add: Cons)
  ultimately show ?thesis
    using read_back_pairs [OF c, of "[]" "semicolon_parts (serialize_cookie d)"] unfolding parse_cookie_def parts by (simp add: Cons)
qed

section \<open>The merge\<close>

lemma merged_clean: "clean_cookie (merged_cookie updates c)" if "list_all clean_pair updates"
proof -
  have "clean_cookie (foldl (\<lambda>d (k, v). text_dict_set k v d) d updates)" if "clean_cookie d" "list_all clean_pair updates" for d
    using that by (induction updates arbitrary: d) (auto simp: clean_text_dict_set)
  then show ?thesis using parse_cookie_clean that by (simp add: merged_cookie_def)
qed

lemma merged_read: "map_of (merged_cookie updates c) = map_of (parse_cookie c) ++ map_of (rev updates)"
proof -
  have "map_of (foldl (\<lambda>d (k, v). text_dict_set k v d) d updates) = map_of d ++ map_of (rev updates)" for d
    by (induction updates arbitrary: d) (auto simp: map_add_def fun_eq_iff split: option.split)
  then show ?thesis by (simp add: merged_cookie_def)
qed

lemma merge_tries_applied:
  assumes "merge_tries now a source updates others rows = (rows', Inr True)"
  shows "\<exists>n acc. 0 < n \<and> n \<le> length others \<and> get_row ac_account_id (foldl (\<lambda>r f. f r) rows (take n others)) a = Some acc
    \<and> rows' = set_row ac_account_id (foldl (\<lambda>r f. f r) rows (take n others)) a
        (store_cookie now (serialize_cookie (merged_cookie updates (ac_cookie acc))) source)"
  using assms
proof (induction now a source updates others rows rule: merge_tries.induct)
  case (2 now a source updates other others rows)
  then obtain b where b: "get_row ac_account_id rows a = Some b" "\<not> unb_differs updates (ac_cookie b)"
      "serialize_cookie (merged_cookie updates (ac_cookie b)) \<noteq> ac_cookie b"
    by (auto simp: Let_def split: option.splits if_splits)
  define new where "new = serialize_cookie (merged_cookie updates (ac_cookie b))"
  obtain r1 hit where x: "set_cookie now a (ac_cookie b) new source (other rows) = (r1, hit)" by fastforce
  show ?case
  proof (cases hit)
    case True
    with x obtain acc where acc: "get_row ac_account_id (other rows) a = Some acc" "ac_cookie acc = ac_cookie b"
        "r1 = set_row ac_account_id (other rows) a (store_cookie now new source)"
      using b(3) by (auto simp: set_cookie_def new_def split: option.splits if_splits)
    have "rows' = r1" using 2(2) b x True by (simp add: Let_def new_def)
    with acc show ?thesis by (intro exI [of _ "1 :: nat"] exI [of _ acc]) (simp add: new_def)
  next
    case False
    then have r1: "r1 = other rows" using x by (auto simp: set_cookie_def split: option.splits if_splits)
    have "merge_tries now a source updates others r1 = (rows', Inr True)" using 2(2) b x False by (simp add: Let_def new_def)
    from 2(1) [OF b(1, 2) refl b(3) x [unfolded new_def, symmetric] _ this] False obtain n acc where
      "0 < n \<and> n \<le> length others \<and> get_row ac_account_id (foldl (\<lambda>r f. f r) r1 (take n others)) a = Some acc
        \<and> rows' = set_row ac_account_id (foldl (\<lambda>r f. f r) r1 (take n others)) a
          (store_cookie now (serialize_cookie (merged_cookie updates (ac_cookie acc))) source)"
      by auto
    then show ?thesis by (intro exI [of _ "Suc n"] exI [of _ acc]) (simp add: r1)
  qed
qed simp

text \<open>C14. 
  A merge that reports a change loses nothing: it wrote over the accounts as another process had
  left them at that moment, and the stored cookie reads as the cookie that was there, with the
  non-empty updates put over it. Nothing else of the table changed.
\<close>

theorem cookie_merge_loses_nothing:
  assumes "merge_account_cookie_updates now a source updates others rows = (rows', Inr True)"
    and "clean_cookie updates"
  shows "\<exists>n acc cookie. 0 < n \<and> n \<le> 3 \<and> get_row ac_account_id (foldl (\<lambda>r f. f r) rows (take n others)) a = Some acc
    \<and> rows' = set_row ac_account_id (foldl (\<lambda>r f. f r) rows (take n others)) a (store_cookie now cookie source)
    \<and> map_of (parse_cookie cookie) = map_of (parse_cookie (ac_cookie acc)) ++ map_of (filter (\<lambda>(k, v). v \<noteq> []) updates)"
proof -
  define clean where "clean = filter (\<lambda>(k, v). k \<noteq> [] \<and> v \<noteq> []) updates"
  have c: "list_all clean_pair clean" "distinct (map fst clean)"
    using assms(2) by (auto simp: clean_def clean_cookie_def list_all_iff distinct_map_filter)
  have same: "clean = filter (\<lambda>(k, v). v \<noteq> []) updates"
    unfolding clean_def using assms(2) by (intro filter_cong) (auto simp: clean_cookie_def list_all_iff clean_pair_def)
  have "merge_tries now a source clean (take 3 others) rows = (rows', Inr True)"
    using assms(1) by (simp add: merge_account_cookie_updates_def clean_def [symmetric] split: if_splits)
  from merge_tries_applied [OF this] obtain n acc where n: "0 < n" "n \<le> length (take 3 others)"
      "get_row ac_account_id (foldl (\<lambda>r f. f r) rows (take n (take 3 others))) a = Some acc"
      "rows' = set_row ac_account_id (foldl (\<lambda>r f. f r) rows (take n (take 3 others))) a
        (store_cookie now (serialize_cookie (merged_cookie clean (ac_cookie acc))) source)"
    by blast
  have "n \<le> 3" using n(2) by (simp add: min_le_iff_disj split: if_splits)
  moreover from this have "take n (take 3 others) = take n others" by (simp add: min_def)
  moreover have "map_of (rev clean) = map_of clean" using c(2) by (metis map_of_eqI map_of_inject_set distinct_rev rev_map set_rev)
  then have "map_of (parse_cookie (serialize_cookie (merged_cookie clean (ac_cookie acc)))) = map_of (parse_cookie (ac_cookie acc)) ++ map_of clean"
    by (simp add: cookie_read_back [OF merged_clean [OF c(1)]] merged_read)
  ultimately show ?thesis using n unfolding same by (intro exI [of _ n] exI [of _ acc]) auto
qed

text \<open>Another process changes the cookie before the first try replaces it.\<close>

definition raced_account :: account_row where
  "raced_account = (account_defaults ''a'' 0)\<lparr>ac_cookie := ''unb=1; x=1''\<rparr>"

definition racing :: "account_row list \<Rightarrow> account_row list" where
  "racing rows = set_row ac_account_id rows ''a'' (store_cookie 1 ''unb=1; x=2'' ''im'')"

theorem cookie_merge_loses_nothing_witness:
  "case merge_account_cookie_updates 5 ''a'' ''publish'' [(''y'', ''3'')] [racing, id] [raced_account] of (rows', m) \<Rightarrow>
     m = Inr True \<and> map ac_cookie rows' = [''unb=1; x=2; y=3'']
     \<and> (\<exists>n acc cookie. 0 < n \<and> n \<le> 3 \<and> get_row ac_account_id (foldl (\<lambda>r f. f r) [raced_account] (take n [racing, id])) ''a'' = Some acc
        \<and> rows' = set_row ac_account_id (foldl (\<lambda>r f. f r) [raced_account] (take n [racing, id])) ''a'' (store_cookie 5 cookie ''publish'')
        \<and> map_of (parse_cookie cookie) = map_of (parse_cookie (ac_cookie acc)) ++ map_of (filter (\<lambda>(k, v). v \<noteq> []) [(''y'', ''3'')]))"
proof -
  define x where "x = merge_account_cookie_updates 5 ''a'' ''publish'' [(''y'', ''3'')] [racing, id] [raced_account]"
  have e: "case x of (rows', m) \<Rightarrow> m = Inr True \<and> map ac_cookie rows' = [''unb=1; x=2; y=3'']" unfolding x_def by code_simp
  obtain rows' m where x: "x = (rows', m)" by fastforce
  with e have m: "m = Inr True" "map ac_cookie rows' = [''unb=1; x=2; y=3'']" by simp_all
  have "clean_cookie [(''y'', ''3'')]" by code_simp
  from cookie_merge_loses_nothing [OF x [unfolded x_def m(1)] this] m show ?thesis
    unfolding x_def [symmetric] x prod.case by blast
qed

end
