(* ===== verification/ProductOperations.thy ===== *)
theory ProductOperations
  imports ProductPublish
begin

text \<open>
  The client of the list of products (\<open>product_operations.py\<close>): reading the list page by page, renewing
  (polishing), taking offline and deleting one item. Calls work on the trace of
  \<open>ProductPublisher\<close>.
\<close>

section \<open>Errors\<close>

text \<open>
  \<open>OpError\<close> is a \<open>ProductOperationError\<close> by its kind, with the flags \<open>retryable\<close>, \<open>uncertain\<close> and
  \<open>verification_required\<close> and the answer it carries; \<open>OpOther\<close> every other exception, a
  \<open>ProductPublishError\<close> included.
\<close>

datatype op_fail = OpError string bool bool bool json | OpOther

type_synonym 'a op = "pub_event list \<Rightarrow> (op_fail + 'a) \<times> pub_event list"

definition ensure_operation_success :: "json \<Rightarrow> op_fail option" where
  "ensure_operation_success r = (case ensure_success r of
     None \<Rightarrow> None
   | Some None \<Rightarrow> Some OpOther
   | Some (Some (kind, _)) \<Rightarrow> Some (OpError kind False False (kind = ''risk_control'') r))"

section \<open>The number of interested buyers\<close>

definition wanted_text :: ustr where
  "wanted_text = [20154, 24819, 35201]"

text \<open>
  The pattern at the start of a text: digits and commas, an optional fraction, an optional unit of
  ten thousand, an optional plus sign, with white space in between (digits are Latin).
\<close>

definition match_want :: "ustr \<Rightarrow> (ustr \<times> bool) option" where
  "match_want t =
     (let body = takeWhile (\<lambda>c. is_udigit c \<or> c = 44) t; r = drop (length body) t;
          frac = (if r \<noteq> [] \<and> hd r = 46 then takeWhile is_udigit (tl r) else []);
          count = (if frac = [] then body else body @ [46] @ frac);
          u = dropWhile uspace (drop (length count) t); unit = (u \<noteq> [] \<and> hd u = 19975);
          p = dropWhile uspace (if unit then tl u else u);
          rest = dropWhile uspace (if p \<noteq> [] \<and> hd p = 43 then tl p else p)
      in if body \<noteq> [] \<and> starts_with wanted_text rest then Some (count, unit) else None)"

fun search_want :: "ustr \<Rightarrow> (ustr \<times> bool) option" where
  "search_want [] = None"
| "search_want (c # t) = (case match_want (c # t) of None \<Rightarrow> search_want t | Some m \<Rightarrow> Some m)"

definition truncated :: "int \<times> int \<Rightarrow> int" where
  "truncated ce = (case ce of (c, e) \<Rightarrow> if 0 \<le> e then c * 10 ^ nat e else c div 10 ^ nat (- e))"

definition want_metric :: "ustr \<Rightarrow> int option \<times> ustr option" where
  "want_metric content = (case search_want content of
     None \<Rightarrow> (None, Some content)
   | Some (count, unit) \<Rightarrow>
       (case parse_decimal (filter (\<lambda>c. c \<noteq> 44) count) of
          Some (Dec c e) \<Rightarrow> (Some (truncated (if unit then to_precision (c * 10000, e) else (c, e))), Some content)
        | _ \<Rightarrow> (None, Some content)))"

definition tag_content :: "json \<Rightarrow> ustr option" where
  "tag_content tag =
     (let d = jget ''data'' tag; content = ustrip (str_of (jget ''content'' d)); label = ustrip (str_of (jget ''labelId'' d))
      in if is_obj tag \<and> is_obj d \<and> content \<noteq> [] \<and> (label = asc ''9'' \<or> contains wanted_text content) then Some content else None)"

definition json_values :: "json \<Rightarrow> json list" where
  "json_values v = (case v of JObj kvs \<Rightarrow> map snd kvs | _ \<Rightarrow> [])"

definition extract_product_want_metric :: "json \<Rightarrow> int option \<times> ustr option" where
  "extract_product_want_metric d =
     (let groups = filter is_obj (json_values (jget ''labelData'' (jget ''itemLabelDataVO'' d)))
      in case List.map_filter tag_content (concat (map (\<lambda>g. list_or_empty (jget ''tagList'' g)) groups)) of
           [] \<Rightarrow> (None, None) | content # _ \<Rightarrow> want_metric content)"

section \<open>The list of products\<close>

record managed_product =
  mg_item_id :: ustr
  mg_title :: ustr
  mg_price :: ustr
  mg_category_id :: ustr
  mg_cover_url :: ustr
  mg_detail_url :: ustr
  mg_platform_item_status :: ustr
  mg_want_count :: "int option"
  mg_want_text :: "ustr option"
  mg_raw_data :: json

definition parse_product_card :: "json \<Rightarrow> managed_product option" where
  "parse_product_card entry =
     (let v = jget ''cardData'' entry; i = ustrip (str_of (jor (jget ''id'' v) (jget ''itemId'' v)));
          price = jget ''priceInfo'' v; pic = jget ''picInfo'' v; cover = str_of (jor (jget ''picUrl'' pic) (jget ''url'' pic));
          want = extract_product_want_metric v; detail = str_of (jget ''detailUrl'' v)
      in if \<not> is_obj entry \<or> \<not> is_obj v \<or> i = [] then None
         else Some \<lparr>mg_item_id = i, mg_title = str_of (jget ''title'' v), mg_price = str_of (jget ''preText'' price) @ str_of (jget ''price'' price),
           mg_category_id = str_of (jget ''categoryId'' v), mg_cover_url = (if starts_with (asc ''//'') cover then asc ''https:'' @ cover else cover),
           mg_detail_url = (if detail = [] then asc ''https://www.goofish.com/item?id='' @ i else detail),
           mg_platform_item_status = str_of (jget ''itemStatus'' v), mg_want_count = fst want, mg_want_text = snd want, mg_raw_data = v\<rparr>)"

definition parse_product_cards :: "json \<Rightarrow> managed_product list" where
  "parse_product_cards d = List.map_filter parse_product_card (list_or_empty (jget ''cardList'' d))"

definition MAX_CATALOG_PAGES :: nat where
  "MAX_CATALOG_PAGES = 100"

definition page_payload :: "ustr \<Rightarrow> nat \<Rightarrow> nat \<Rightarrow> json" where
  "page_payload unb page psize = jobj [(''needGroupInfo'', JBool False), (''pageNumber'', JInt (int page)), (''pageSize'', JInt (int psize)),
     (''groupName'', JStr [22312, 21806]), (''groupId'', JStr (asc ''58877261'')), (''defaultGroup'', JBool True), (''userId'', JStr unb)]"

record product_list =
  pl_items :: "managed_product list"
  pl_pages :: nat
  pl_complete :: bool

text \<open>The pages that may still be read; \<open>got\<close> is what was read before.\<close>

fun catalog_pages :: "pub_env \<Rightarrow> nat \<Rightarrow> nat \<Rightarrow> nat \<Rightarrow> managed_product list \<Rightarrow> product_list op" where
  "catalog_pages env psize 0 page got tr = (Inr \<lparr>pl_items = got, pl_pages = page - 1, pl_complete = False\<rparr>, tr)"
| "catalog_pages env psize (Suc n) page got tr =
     (case post_mtop env ''mtop.idle.web.xyh.item.list'' (page_payload (pe_unb env) page psize) tr of
        (Inl (RequestError _), tr') \<Rightarrow> (Inl (OpError ''network'' True False False (JObj [])), tr')
      | (Inl _, tr') \<Rightarrow> (Inl OpOther, tr')
      | (Inr r, tr') \<Rightarrow>
          (case ensure_operation_success r of
             Some e \<Rightarrow> (Inl e, tr')
           | None \<Rightarrow>
               let items = parse_product_cards (jget ''data'' r) in
               if length items < psize then (Inr \<lparr>pl_items = got @ items, pl_pages = page, pl_complete = True\<rparr>, tr')
               else catalog_pages env psize n (Suc page) (got @ items) tr'))"

definition list_selling_items :: "pub_env \<Rightarrow> nat \<Rightarrow> nat option \<Rightarrow> product_list op" where
  "list_selling_items env psize max_pages =
     catalog_pages env psize (case max_pages of None \<Rightarrow> MAX_CATALOG_PAGES | Some m \<Rightarrow> min m MAX_CATALOG_PAGES) 1 []"

section \<open>Actions on one item\<close>

record item_action =
  ar_item_id :: ustr
  ar_success :: bool
  ar_skipped :: bool
  ar_message :: ustr
  ar_channel :: ustr
  ar_platform_code :: "ustr option"
  ar_verified :: bool

definition ALREADY_POLISHED_MARKERS :: "ustr list" where
  "ALREADY_POLISHED_MARKERS = [[23453, 36125, 24050, 32463, 25830, 20142, 36807, 20102], asc ''IDLEITEM_POLISH_AGAIN'',
     [19968, 22825, 21482, 33021, 25830, 20142, 19968, 27425], asc ''POLISH_DUPLICATE'']"

definition polish_item :: "pub_env \<Rightarrow> ustr \<Rightarrow> item_action op" where
  "polish_item env item_id tr =
     (let result = (\<lambda>skipped message. \<lparr>ar_item_id = item_id, ar_success = True, ar_skipped = skipped, ar_message = message, ar_channel = [],
            ar_platform_code = None, ar_verified = False\<rparr>) in
      case post_mtop env ''mtop.taobao.idle.item.polish'' (jobj [(''itemId'', JStr item_id)]) tr of
        (Inl (RequestError _), tr') \<Rightarrow> (Inl (OpError ''network'' True False False (JObj [])), tr')
      | (Inl _, tr') \<Rightarrow> (Inl OpOther, tr')
      | (Inr r, tr') \<Rightarrow>
          if is_success r then (Inr (result False []), tr')
          else (case error_message r of
              None \<Rightarrow> (Inl OpOther, tr')
            | Some m \<Rightarrow>
                if list_ex (\<lambda>k. contains k m) ALREADY_POLISHED_MARKERS
                then (Inr (result True [20170, 26085, 24050, 32463, 25830, 20142]), tr')
                else (Inl (case ensure_operation_success r of Some e \<Rightarrow> e | None \<Rightarrow> OpOther), tr')))"

definition personal_write_request :: "pub_env \<Rightarrow> string \<Rightarrow> ustr \<Rightarrow> json op" where
  "personal_write_request env api item_id tr =
     (case post_mtop env api (jobj [(''itemId'', JStr item_id)]) tr of
        (Inl (PublishError kind _ _), tr') \<Rightarrow>
          (Inl (if kind = ''auth'' then OpError kind False False False (JObj [])
                else OpError ''result_unknown'' False True (kind = ''risk_control'') (JObj [])), tr')
      | (Inl (RequestError _), tr') \<Rightarrow> (Inl (OpError ''result_unknown'' False True False (JObj [])), tr')
      | (Inl _, tr') \<Rightarrow> (Inl OpOther, tr')
      | (Inr r, tr') \<Rightarrow> (case ensure_operation_success r of None \<Rightarrow> (Inr r, tr') | Some e \<Rightarrow> (Inl e, tr')))"

text \<open>\<open>str(ret[0]).split("::", 1)[0]\<close>\<close>

fun before_colons :: "ustr \<Rightarrow> ustr" where
  "before_colons [] = []"
| "before_colons (c # t) = (if starts_with (asc ''::'') (c # t) then [] else c # before_colons t)"

definition item_response_code :: "json \<Rightarrow> ustr" where
  "item_response_code r = (case list_or_empty (jget ''ret'' r) of v # _ \<Rightarrow> before_colons (py_str v) | [] \<Rightarrow> asc ''UNKNOWN'')"

definition ITEM_DOWNSHELF_API :: string where
  "ITEM_DOWNSHELF_API = ''mtop.taobao.idle.item.downshelf''"

definition ITEM_DELETE_API :: string where
  "ITEM_DELETE_API = ''com.taobao.idle.item.delete''"

definition ITEM_DELETED_MARKER :: ustr where
  "ITEM_DELETED_MARKER = asc ''FAIL_BIZ_ITEM_DEL_NOT_FOUND''"

definition personal_result :: "ustr \<Rightarrow> bool \<Rightarrow> ustr \<Rightarrow> ustr \<Rightarrow> item_action" where
  "personal_result item_id known message code = \<lparr>ar_item_id = item_id, ar_success = True, ar_skipped = known, ar_message = message,
     ar_channel = asc ''personal_web'', ar_platform_code = Some (asc ''personal_web:'' @ code), ar_verified = known\<rparr>"

definition offline_personal_item :: "pub_env \<Rightarrow> ustr \<Rightarrow> item_action op" where
  "offline_personal_item env item_id tr = (case personal_write_request env ITEM_DOWNSHELF_API (ustrip item_id) tr of
     (Inl e, tr') \<Rightarrow> (Inl e, tr')
   | (Inr r, tr') \<Rightarrow> (Inr (personal_result (ustrip item_id) False
       [24179, 21488, 24050, 21463, 29702, 19979, 26550, 65292, 31561, 24453, 21830, 21697, 21516, 27493, 26657, 27491] (item_response_code r)), tr'))"

definition delete_personal_item :: "pub_env \<Rightarrow> ustr \<Rightarrow> item_action op" where
  "delete_personal_item env item_id tr = (case personal_write_request env ITEM_DELETE_API (ustrip item_id) tr of
     (Inl (OpError kind retryable uncertain verification raw), tr') \<Rightarrow>
       if contains_marker raw [ITEM_DELETED_MARKER]
       then (Inr (personal_result (ustrip item_id) True [24179, 21488, 30830, 35748, 21830, 21697, 24050, 32463, 21024, 38500] ITEM_DELETED_MARKER), tr')
       else (Inl (OpError kind retryable uncertain verification raw), tr')
   | (Inl OpOther, tr') \<Rightarrow> (Inl OpOther, tr')
   | (Inr r, tr') \<Rightarrow> (Inr (personal_result (ustrip item_id) False
       [24179, 21488, 24050, 21463, 29702, 21024, 38500, 65292, 31561, 24453, 21830, 21697, 21516, 27493, 26657, 27491] (item_response_code r)), tr'))"

end
