(* ===== verification/ProductRuns.thy ===== *)
theory ProductRuns
  imports ProductOperations BackgroundTasks
begin

text \<open>
  The management of the products of an account (\<open>product_management_service.py\<close>,
  \<open>product_management_scheduler.py\<close>): the synchronised list of items, settings and due times, runs that
  synchronise, polish, take offline or delete, their execution, their request with a background
  task, and the scan for due runs. The client is \<open>ProductOperations\<close>; random numbers, the lock and the
  queue are arguments.
\<close>

section \<open>Tables\<close>

text \<open>\<open>last_polished_on\<close>, an ISO date in the time zone of Shanghai, is the number of that day.\<close>

record product_item =
  it_account_id :: string
  it_item_id :: ustr
  it_title :: ustr
  it_price :: ustr
  it_category_id :: "ustr option"
  it_cover_url :: "ustr option"
  it_detail_url :: "ustr option"
  it_platform_item_status :: "ustr option"
  it_want_count :: "int option"
  it_want_text :: "ustr option"
  it_platform_status :: string
  it_sync_state :: string
  it_missing_sync_count :: int
  it_last_seen_at :: "timestamp option"
  it_last_synced_at :: "timestamp option"
  it_last_polished_on :: "int option"
  it_last_polished_at :: "timestamp option"
  it_published_at :: "timestamp option"
  it_published_at_source :: string
  it_raw_data :: json
  it_created_at :: timestamp
  it_updated_at :: timestamp

record product_setting =
  tp_account_id :: string
  tp_sync_enabled :: bool
  tp_sync_interval_minutes :: int
  tp_sync_jitter_minutes :: int
  tp_full_sync_interval_hours :: int
  tp_publish_verify_delay_seconds :: int
  tp_auto_polish_enabled :: bool
  tp_polish_hour :: int
  tp_polish_jitter_minutes :: int
  tp_last_sync_at :: "timestamp option"
  tp_last_full_sync_at :: "timestamp option"
  tp_last_sync_status :: "string option"
  tp_last_sync_error :: "ustr option"
  tp_next_sync_at :: "timestamp option"
  tp_last_polish_at :: "timestamp option"
  tp_next_polish_at :: "timestamp option"
  tp_created_at :: timestamp
  tp_updated_at :: timestamp

record product_run =
  rn_run_id :: string
  rn_account_id :: string
  rn_operation :: string
  rn_trigger :: string
  rn_status :: string
  rn_full_sync :: bool
  rn_requested_item_ids :: "ustr list"
  rn_total_count :: int
  rn_success_count :: int
  rn_failed_count :: int
  rn_skipped_count :: int
  rn_error :: "ustr option"
  rn_created_at :: timestamp
  rn_updated_at :: timestamp
  rn_started_at :: "timestamp option"
  rn_finished_at :: "timestamp option"

record run_item =
  ri_result_id :: string
  ri_run_id :: string
  ri_item_id :: ustr
  ri_status :: string
  ri_message :: "ustr option"
  ri_platform_code :: "ustr option"
  ri_created_at :: timestamp

record catalog_db =
  cg_products :: product_db
  cg_items :: "product_item list"
  cg_settings :: "product_setting list"
  cg_runs :: "product_run list"
  cg_run_items :: "run_item list"
  cg_tasks :: task_table

section \<open>Settings and due times\<close>

text \<open>The random numbers of minutes for an account, by what they are drawn for.\<close>

type_synonym catalog_draw = "string \<Rightarrow> string \<Rightarrow> int"

definition next_sync :: "timestamp \<Rightarrow> catalog_draw \<Rightarrow> product_setting \<Rightarrow> timestamp option" where
  "next_sync now draw r = (if \<not> tp_sync_enabled r then None
     else Some (now + minutes (max 5 (tp_sync_interval_minutes r) + draw (tp_account_id r) ''sync'')))"

definition shanghai_day :: "timestamp \<Rightarrow> int" where
  "shanghai_day now = (now + hours 8) div hours 24"

text \<open>The hour of the day in Shanghai, on the next day when it has passed.\<close>

definition next_polish :: "timestamp \<Rightarrow> catalog_draw \<Rightarrow> product_setting \<Rightarrow> timestamp option" where
  "next_polish now draw r = (if \<not> tp_auto_polish_enabled r then None
     else let target = shanghai_day now * hours 24 - hours 8 + hours (max 0 (min 23 (tp_polish_hour r))) + minutes (draw (tp_account_id r) ''polish'')
          in Some (if target \<le> now then target + hours 24 else target))"

definition new_product_setting :: "string \<Rightarrow> timestamp \<Rightarrow> catalog_draw \<Rightarrow> product_setting" where
  "new_product_setting account_id now draw = \<lparr>tp_account_id = account_id, tp_sync_enabled = True, tp_sync_interval_minutes = 20,
     tp_sync_jitter_minutes = 5, tp_full_sync_interval_hours = 6, tp_publish_verify_delay_seconds = 30, tp_auto_polish_enabled = False,
     tp_polish_hour = 8, tp_polish_jitter_minutes = 10, tp_last_sync_at = None, tp_last_full_sync_at = None, tp_last_sync_status = None,
     tp_last_sync_error = None, tp_next_sync_at = Some (now + minutes (draw account_id ''new'')), tp_last_polish_at = None,
     tp_next_polish_at = None, tp_created_at = now, tp_updated_at = now\<rparr>"

definition product_setting_of :: "string \<Rightarrow> timestamp \<Rightarrow> catalog_draw \<Rightarrow> product_setting list \<Rightarrow> product_setting" where
  "product_setting_of account_id now draw rows =
     (case get_row tp_account_id rows account_id of None \<Rightarrow> new_product_setting account_id now draw | Some r \<Rightarrow> r)"

definition account_exists :: "string \<Rightarrow> catalog_db \<Rightarrow> bool" where
  "account_exists account_id db \<longleftrightarrow> get_row ac_account_id (pb_accounts (cg_products db)) account_id \<noteq> None"

definition ensure_product_settings :: "timestamp \<Rightarrow> catalog_draw \<Rightarrow> string list \<Rightarrow> catalog_db \<Rightarrow> catalog_db" where
  "ensure_product_settings now draw ids db =
     db\<lparr>cg_settings := foldl (\<lambda>rows i. if account_exists i db then put_row tp_account_id (product_setting_of i now draw rows) rows else rows)
       (cg_settings db) ids\<rparr>"

definition get_product_setting :: "timestamp \<Rightarrow> catalog_draw \<Rightarrow> string \<Rightarrow> catalog_db \<Rightarrow> catalog_db \<times> product_setting option" where
  "get_product_setting now draw account_id db =
     (if \<not> account_exists account_id db then (db, None)
      else let r = product_setting_of account_id now draw (cg_settings db)
           in (db\<lparr>cg_settings := put_row tp_account_id r (cg_settings db)\<rparr>, Some r))"

record product_setting_update =
  tu_sync_enabled :: "bool option"
  tu_sync_interval_minutes :: "int option"
  tu_sync_jitter_minutes :: "int option"
  tu_full_sync_interval_hours :: "int option"
  tu_publish_verify_delay_seconds :: "int option"
  tu_auto_polish_enabled :: "bool option"
  tu_polish_hour :: "int option"
  tu_polish_jitter_minutes :: "int option"

definition changed_setting :: "timestamp \<Rightarrow> product_setting_update \<Rightarrow> product_setting \<Rightarrow> product_setting" where
  "changed_setting now p r = r\<lparr>tp_sync_enabled := given (tu_sync_enabled p) (tp_sync_enabled r),
     tp_sync_interval_minutes := given (tu_sync_interval_minutes p) (tp_sync_interval_minutes r),
     tp_sync_jitter_minutes := given (tu_sync_jitter_minutes p) (tp_sync_jitter_minutes r),
     tp_full_sync_interval_hours := given (tu_full_sync_interval_hours p) (tp_full_sync_interval_hours r),
     tp_publish_verify_delay_seconds := given (tu_publish_verify_delay_seconds p) (tp_publish_verify_delay_seconds r),
     tp_auto_polish_enabled := given (tu_auto_polish_enabled p) (tp_auto_polish_enabled r),
     tp_polish_hour := given (tu_polish_hour p) (tp_polish_hour r),
     tp_polish_jitter_minutes := given (tu_polish_jitter_minutes p) (tp_polish_jitter_minutes r), tp_updated_at := now\<rparr>"

definition update_product_setting ::
  "timestamp \<Rightarrow> catalog_draw \<Rightarrow> string \<Rightarrow> product_setting_update \<Rightarrow> catalog_db \<Rightarrow> catalog_db \<times> product_setting option" where
  "update_product_setting now draw account_id p db =
     (if \<not> account_exists account_id db then (db, None)
      else let r = changed_setting now p (product_setting_of account_id now draw (cg_settings db));
               r1 = (if tu_sync_enabled p \<noteq> None \<or> tu_sync_interval_minutes p \<noteq> None \<or> tu_sync_jitter_minutes p \<noteq> None
                       \<or> tu_full_sync_interval_hours p \<noteq> None
                     then r\<lparr>tp_next_sync_at := next_sync now draw r\<rparr> else r);
               r2 = (if tu_polish_hour p \<noteq> None \<or> tu_polish_jitter_minutes p \<noteq> None \<or> tu_auto_polish_enabled p \<noteq> None
                     then r1\<lparr>tp_next_polish_at := (if tp_auto_polish_enabled r then next_polish now draw r else None)\<rparr> else r1)
           in (db\<lparr>cg_settings := put_row tp_account_id r2 (cg_settings db)\<rparr>, Some r2))"

definition is_due_at :: "timestamp \<Rightarrow> bool \<Rightarrow> timestamp option \<Rightarrow> bool" where
  "is_due_at now enabled t \<longleftrightarrow> enabled \<and> (case t of None \<Rightarrow> False | Some d \<Rightarrow> d \<le> now)"

definition list_due_product_settings :: "timestamp \<Rightarrow> catalog_db \<Rightarrow> (product_setting \<times> bool \<times> bool) list" where
  "list_due_product_settings now db =
     filter (\<lambda>(_, s, p). s \<or> p) (map (\<lambda>r. (r, is_due_at now (tp_sync_enabled r) (tp_next_sync_at r), is_due_at now (tp_auto_polish_enabled r) (tp_next_polish_at r)))
       (filter (\<lambda>r. case get_row ac_account_id (pb_accounts (cg_products db)) (tp_account_id r) of
          None \<Rightarrow> False | Some a \<Rightarrow> ac_enabled a \<and> ac_cookie a \<noteq> []) (cg_settings db)))"

definition reschedule_product :: "timestamp \<Rightarrow> catalog_draw \<Rightarrow> string \<Rightarrow> bool \<Rightarrow> bool \<Rightarrow> catalog_db \<Rightarrow> catalog_db" where
  "reschedule_product now draw account_id sync polish db =
     db\<lparr>cg_settings := set_row tp_account_id (cg_settings db) account_id (\<lambda>r.
       r\<lparr>tp_next_sync_at := (if sync then next_sync now draw r else tp_next_sync_at r),
         tp_next_polish_at := (if polish then next_polish now draw r else tp_next_polish_at r), tp_updated_at := now\<rparr>)\<rparr>"

section \<open>Items\<close>

definition it_key :: "product_item \<Rightarrow> string \<times> ustr" where
  "it_key r = (it_account_id r, it_item_id r)"

definition new_product_item :: "string \<Rightarrow> ustr \<Rightarrow> timestamp \<Rightarrow> product_item" where
  "new_product_item account_id item_id now = \<lparr>it_account_id = account_id, it_item_id = item_id, it_title = [], it_price = [],
     it_category_id = None, it_cover_url = None, it_detail_url = None, it_platform_item_status = None, it_want_count = None,
     it_want_text = None, it_platform_status = ''selling'', it_sync_state = ''current'', it_missing_sync_count = 0, it_last_seen_at = None,
     it_last_synced_at = None, it_last_polished_on = None, it_last_polished_at = None, it_published_at = None,
     it_published_at_source = ''unknown'', it_raw_data = JNull, it_created_at = now, it_updated_at = now\<rparr>"

definition listed_values :: "timestamp \<Rightarrow> managed_product \<Rightarrow> product_item \<Rightarrow> product_item" where
  "listed_values now m r = r\<lparr>it_title := mg_title m, it_price := mg_price m, it_category_id := u_none (mg_category_id m),
     it_cover_url := u_none (mg_cover_url m), it_detail_url := u_none (mg_detail_url m),
     it_platform_item_status := u_none (mg_platform_item_status m), it_want_count := mg_want_count m, it_want_text := mg_want_text m,
     it_platform_status := ''selling'', it_sync_state := ''current'', it_missing_sync_count := 0, it_last_seen_at := Some now,
     it_last_synced_at := Some now, it_raw_data := mg_raw_data m, it_updated_at := now\<rparr>"

definition apply_listed :: "timestamp \<Rightarrow> string \<Rightarrow> product_item list \<Rightarrow> managed_product \<Rightarrow> product_item list" where
  "apply_listed now account_id rows m = put_row it_key (listed_values now m
     (case get_row it_key rows (account_id, mg_item_id m) of None \<Rightarrow> new_product_item account_id (mg_item_id m) now | Some r \<Rightarrow> r)) rows"

text \<open>The time of publication that a publish task gives.\<close>

definition published_values :: "timestamp option \<Rightarrow> product_item \<Rightarrow> product_item" where
  "published_values finished r =
     (if it_published_at_source r \<noteq> ''platform'' \<and> finished \<noteq> None
         \<and> (case it_published_at r of None \<Rightarrow> True | Some p \<Rightarrow> the finished < p)
      then r\<lparr>it_published_at := finished, it_published_at_source := ''publish_task''\<rparr> else r)"

definition apply_publish_times :: "string \<Rightarrow> ustr list \<Rightarrow> publish_task list \<Rightarrow> product_item list \<Rightarrow> product_item list" where
  "apply_publish_times account_id seen tasks rows =
     foldl (\<lambda>rs t. set_row it_key rs (account_id, the (pt_item_id t)) (published_values (pt_finished_at t))) rows
       (filter (\<lambda>t. pt_account_id t = account_id \<and> (\<exists>i\<in>set seen. pt_item_id t = Some i) \<and> pt_status t = ''success'') tasks)"

text \<open>An item that a complete list does not show.\<close>

definition missing_values :: "timestamp \<Rightarrow> product_item \<Rightarrow> product_item" where
  "missing_values now r =
     (if it_platform_status r \<in> {''offline'', ''deleted''}
      then (if it_sync_state r = ''pending_confirmation''
            then r\<lparr>it_sync_state := ''current'', it_last_synced_at := Some now, it_updated_at := now\<rparr> else r)
      else let n = it_missing_sync_count r + 1
           in r\<lparr>it_missing_sync_count := n, it_sync_state := (if 2 \<le> n then ''missing'' else ''pending_confirmation''),
                it_platform_status := (if 2 \<le> n then ''not_selling'' else it_platform_status r), it_last_synced_at := Some now, it_updated_at := now\<rparr>)"

definition mark_missing :: "timestamp \<Rightarrow> string \<Rightarrow> ustr list \<Rightarrow> product_item list \<Rightarrow> product_item list" where
  "mark_missing now account_id seen rows =
     update_where (\<lambda>r. it_account_id r = account_id \<and> it_item_id r \<notin> set seen) (missing_values now) rows"

definition synced_setting :: "timestamp \<Rightarrow> catalog_draw \<Rightarrow> bool \<Rightarrow> product_setting \<Rightarrow> product_setting" where
  "synced_setting now draw whole r = r\<lparr>tp_last_sync_at := Some now, tp_last_full_sync_at := (if whole then Some now else tp_last_full_sync_at r),
     tp_last_sync_status := Some ''success'', tp_last_sync_error := None, tp_next_sync_at := next_sync now draw r, tp_updated_at := now\<rparr>"

definition apply_sync :: "timestamp \<Rightarrow> catalog_draw \<Rightarrow> string \<Rightarrow> managed_product list \<Rightarrow> bool \<Rightarrow> bool \<Rightarrow> catalog_db \<Rightarrow> catalog_db" where
  "apply_sync now draw account_id ms full complete db =
     (let seen = map mg_item_id ms;
          listed = foldl (apply_listed now account_id) (cg_items db) ms;
          products = confirm_published now account_id seen (cg_products db);
          timed = apply_publish_times account_id seen (pb_tasks products) listed;
          rows = (if full \<and> complete then mark_missing now account_id seen timed else timed);
          setting = synced_setting now draw (full \<and> complete) (product_setting_of account_id now draw (cg_settings db))
      in db\<lparr>cg_products := products, cg_items := rows, cg_settings := put_row tp_account_id setting (cg_settings db)\<rparr>)"

definition fail_product_sync :: "timestamp \<Rightarrow> catalog_draw \<Rightarrow> string \<Rightarrow> ustr \<Rightarrow> catalog_db \<Rightarrow> catalog_db" where
  "fail_product_sync now draw account_id error db =
     (if \<not> account_exists account_id db then db
      else let r = product_setting_of account_id now draw (cg_settings db)
           in db\<lparr>cg_settings := put_row tp_account_id (r\<lparr>tp_last_sync_status := Some ''failed'', tp_last_sync_error := Some error,
                  tp_next_sync_at := next_sync now draw r, tp_updated_at := now\<rparr>) (cg_settings db)\<rparr>)"

datatype cleanup_answer = CleanupMissing | NotDeletedOnPlatform | DeletionUnverified | CleanedUp nat

definition delete_local_item :: "timestamp \<Rightarrow> string \<Rightarrow> ustr \<Rightarrow> catalog_db \<Rightarrow> catalog_db \<times> cleanup_answer" where
  "delete_local_item now account_id item_id db =
     (case get_row it_key (cg_items db) (account_id, item_id) of
        None \<Rightarrow> (db, CleanupMissing)
      | Some r \<Rightarrow>
          if it_platform_status r \<noteq> ''deleted'' then (db, NotDeletedOnPlatform)
          else if it_sync_state r \<noteq> ''current'' then (db, DeletionUnverified)
          else (db\<lparr>cg_products := hide_item_tasks now account_id item_id (cg_products db),
                   cg_items := filter (\<lambda>x. it_key x \<noteq> (account_id, item_id)) (cg_items db)\<rparr>,
                CleanedUp (length (filter (\<lambda>t. pt_account_id t = account_id \<and> pt_item_id t = Some item_id \<and> pt_catalog_hidden_at t = None)
                  (pb_tasks (cg_products db))))))"

definition operation_candidates :: "string \<Rightarrow> ustr list \<Rightarrow> bool \<Rightarrow> catalog_db \<Rightarrow> product_item list" where
  "operation_candidates account_id item_ids all_selling db =
     sort_key (\<lambda>r. case it_last_seen_at r of None \<Rightarrow> 0 | Some t \<Rightarrow> - t)
       (filter (\<lambda>r. it_account_id r = account_id \<and> (if all_selling then it_platform_status r = ''selling'' else it_item_id r \<in> set item_ids)) (cg_items db))"

definition mark_item_status :: "timestamp \<Rightarrow> string \<Rightarrow> ustr \<Rightarrow> string \<Rightarrow> bool \<Rightarrow> catalog_db \<Rightarrow> catalog_db" where
  "mark_item_status now account_id item_id status pending db =
     db\<lparr>cg_items := set_row it_key (cg_items db) (account_id, item_id) (\<lambda>r. r\<lparr>it_platform_status := status,
       it_sync_state := (if pending then ''pending_confirmation'' else ''current''), it_missing_sync_count := 0, it_updated_at := now\<rparr>)\<rparr>"

definition mark_polished :: "timestamp \<Rightarrow> string \<Rightarrow> ustr \<Rightarrow> catalog_db \<Rightarrow> catalog_db" where
  "mark_polished now account_id item_id db =
     db\<lparr>cg_items := set_row it_key (cg_items db) (account_id, item_id) (\<lambda>r. r\<lparr>it_last_polished_at := Some now,
       it_last_polished_on := Some (shanghai_day now), it_updated_at := now\<rparr>)\<rparr>"

definition complete_polish :: "timestamp \<Rightarrow> catalog_draw \<Rightarrow> string \<Rightarrow> catalog_db \<Rightarrow> catalog_db" where
  "complete_polish now draw account_id db =
     db\<lparr>cg_settings := set_row tp_account_id (cg_settings db) account_id (\<lambda>r. r\<lparr>tp_last_polish_at := Some now,
       tp_next_polish_at := next_polish now draw r, tp_updated_at := now\<rparr>)\<rparr>"

section \<open>Runs\<close>

definition is_active_run :: "string \<Rightarrow> string \<Rightarrow> product_run \<Rightarrow> bool" where
  "is_active_run account_id operation r \<longleftrightarrow> rn_account_id r = account_id \<and> rn_operation r = operation \<and> rn_status r \<in> {''pending'', ''running''}"

definition active_product_run :: "string \<Rightarrow> string \<Rightarrow> product_run list \<Rightarrow> product_run option" where
  "active_product_run account_id operation runs =
     (case sort_key (\<lambda>r. - rn_created_at r) (filter (is_active_run account_id operation) runs) of [] \<Rightarrow> None | r # _ \<Rightarrow> Some r)"

definition answered_by_active :: "string \<Rightarrow> ustr list \<Rightarrow> bool \<Rightarrow> product_run \<Rightarrow> bool" where
  "answered_by_active trigger item_ids full r \<longleftrightarrow> trigger \<notin> {''manual'', ''publish''}
     \<or> (trigger = ''manual'' \<and> set (rn_requested_item_ids r) = set item_ids \<and> rn_full_sync r = full)"

definition new_product_run :: "string \<Rightarrow> timestamp \<Rightarrow> string \<Rightarrow> string \<Rightarrow> string \<Rightarrow> ustr list \<Rightarrow> bool \<Rightarrow> product_run" where
  "new_product_run run_id now account_id operation trigger item_ids full = \<lparr>rn_run_id = run_id, rn_account_id = account_id,
     rn_operation = operation, rn_trigger = trigger, rn_status = ''pending'', rn_full_sync = full, rn_requested_item_ids = item_ids,
     rn_total_count = 0, rn_success_count = 0, rn_failed_count = 0, rn_skipped_count = 0, rn_error = None, rn_created_at = now,
     rn_updated_at = now, rn_started_at = None, rn_finished_at = None\<rparr>"

definition create_product_run ::
  "string \<Rightarrow> timestamp \<Rightarrow> string \<Rightarrow> string \<Rightarrow> string \<Rightarrow> ustr list \<Rightarrow> bool \<Rightarrow> catalog_db \<Rightarrow> catalog_db \<times> product_run" where
  "create_product_run run_id now account_id operation trigger item_ids full db =
     (case active_product_run account_id operation (cg_runs db) of
        Some r \<Rightarrow> if answered_by_active trigger item_ids full r then (db, r)
          else let row = new_product_run run_id now account_id operation trigger item_ids full in (db\<lparr>cg_runs := cg_runs db @ [row]\<rparr>, row)
      | None \<Rightarrow> let row = new_product_run run_id now account_id operation trigger item_ids full in (db\<lparr>cg_runs := cg_runs db @ [row]\<rparr>, row))"

definition start_product_run :: "timestamp \<Rightarrow> string \<Rightarrow> catalog_db \<Rightarrow> catalog_db \<times> product_run option" where
  "start_product_run now run_id db =
     (case get_row rn_run_id (cg_runs db) run_id of
        None \<Rightarrow> (db, None)
      | Some r \<Rightarrow> if rn_status r = ''pending''
          then let r' = r\<lparr>rn_status := ''running'', rn_started_at := Some now, rn_updated_at := now\<rparr>
               in (db\<lparr>cg_runs := put_row rn_run_id r' (cg_runs db)\<rparr>, Some r')
          else (db, Some r))"

definition add_run_item :: "timestamp \<Rightarrow> string \<Rightarrow> string \<Rightarrow> ustr \<Rightarrow> string \<Rightarrow> ustr option \<Rightarrow> ustr option \<Rightarrow> catalog_db \<Rightarrow> catalog_db" where
  "add_run_item now result_id run_id item_id status message code db =
     db\<lparr>cg_run_items := cg_run_items db @ [\<lparr>ri_result_id = result_id, ri_run_id = run_id, ri_item_id = item_id, ri_status = status,
       ri_message = message, ri_platform_code = code, ri_created_at = now\<rparr>]\<rparr>"

text \<open>The numbers of a run: successes, failures, skipped items.\<close>

type_synonym run_numbers = "int \<times> int \<times> int"

definition finish_product_run :: "timestamp \<Rightarrow> string \<Rightarrow> string \<Rightarrow> int \<Rightarrow> run_numbers \<Rightarrow> ustr option \<Rightarrow> catalog_db \<Rightarrow> catalog_db" where
  "finish_product_run now run_id status total_count numbers error db =
     (case numbers of (s, f, k) \<Rightarrow>
        db\<lparr>cg_runs := set_row rn_run_id (cg_runs db) run_id (\<lambda>r. r\<lparr>rn_status := status, rn_total_count := total_count, rn_success_count := s,
          rn_failed_count := f, rn_skipped_count := k, rn_error := error, rn_finished_at := Some now, rn_updated_at := now\<rparr>)\<rparr>)"

definition get_product_run :: "string \<Rightarrow> catalog_db \<Rightarrow> product_run option" where
  "get_product_run run_id db = get_row rn_run_id (cg_runs db) run_id"

definition list_product_runs :: "string \<Rightarrow> int \<Rightarrow> catalog_db \<Rightarrow> product_run list" where
  "list_product_runs account_id limit db = take (nat (max 1 (min limit 200)))
     (sort_key (\<lambda>r. - rn_created_at r) (filter (\<lambda>r. rn_account_id r = account_id) (cg_runs db)))"

section \<open>Executing a run\<close>

text \<open>
  What an execution meets: the platform, whether the route of the account can be built, identifiers for the results, random numbers, the cookie
  updates that the answers left behind, the other processes during a merge and the texts of errors.
\<close>

record catalog_world =
  cw_env :: pub_env
  cw_route_ok :: bool
  cw_result_id :: "nat \<Rightarrow> string"
  cw_draw :: catalog_draw
  cw_cookies :: "pub_event list \<Rightarrow> (string \<times> string) list"
  cw_others :: "(account_row list \<Rightarrow> account_row list) list"
  cw_text :: "op_fail \<Rightarrow> ustr"

definition note_result :: "timestamp \<Rightarrow> catalog_world \<Rightarrow> product_run \<Rightarrow> ustr \<Rightarrow> string \<Rightarrow> ustr option \<Rightarrow> ustr option \<Rightarrow> catalog_db \<Rightarrow> catalog_db" where
  "note_result now w r item_id status message code db =
     add_run_item now (cw_result_id w (length (cg_run_items db))) (rn_run_id r) item_id status message code db"

definition record_action :: "timestamp \<Rightarrow> catalog_world \<Rightarrow> product_run \<Rightarrow> item_action \<Rightarrow> catalog_db \<Rightarrow> catalog_db" where
  "record_action now w r a db = note_result now w r (ar_item_id a)
     (if ar_skipped a then ''skipped'' else if ar_success a then ''success'' else ''failed'')
     (u_none (ar_message a)) (u_or (ar_platform_code a) (u_none (ar_channel a))) db"

definition counted :: "item_action \<Rightarrow> run_numbers \<Rightarrow> run_numbers" where
  "counted a n = (case n of (s, f, k) \<Rightarrow>
     if \<not> ar_success a then (s, f + 1, k) else if ar_skipped a then (s, f, k + 1) else (s + 1, f, k))"

definition stop_kinds :: "string list" where
  "stop_kinds = [''auth'', ''risk_control'', ''cookie_conflict'']"

definition not_polished_text :: ustr where
  "not_polished_text = [20170, 26085, 24050, 25830, 20142, 25110, 21830, 21697, 19981, 22312, 21806]"

text \<open>The loop over the candidates; the outcome is an exception, or the numbers and why it stopped early.\<close>

fun polish_loop ::
  "timestamp \<Rightarrow> catalog_world \<Rightarrow> product_run \<Rightarrow> product_item list \<Rightarrow> run_numbers \<Rightarrow> catalog_db \<Rightarrow> pub_event list
   \<Rightarrow> catalog_db \<times> pub_event list \<times> (op_fail + run_numbers \<times> ustr option)" where
  "polish_loop now w r [] n db tr = (db, tr, Inr (n, None))"
| "polish_loop now w r (x # xs) n db tr =
     (if it_platform_status x \<noteq> ''selling'' \<or> it_last_polished_on x = Some (shanghai_day now)
      then polish_loop now w r xs (case n of (s, f, k) \<Rightarrow> (s, f, k + 1))
             (note_result now w r (it_item_id x) ''skipped'' (Some not_polished_text) None db) tr
      else case polish_item (cw_env w) (it_item_id x) tr of
        (Inr a, tr') \<Rightarrow>
          let db1 = record_action now w r a db
          in polish_loop now w r xs (counted a n) (if ar_success a then mark_polished now (rn_account_id r) (it_item_id x) db1 else db1) tr'
      | (Inl OpOther, tr') \<Rightarrow> (db, tr', Inl OpOther)
      | (Inl (OpError kind retryable uncertain verification raw), tr') \<Rightarrow>
          let e = cw_text w (OpError kind retryable uncertain verification raw); n' = (case n of (s, f, k) \<Rightarrow> (s, f + 1, k));
              db1 = note_result now w r (it_item_id x) ''failed'' (Some e) (Some (asc kind)) db
          in if kind \<in> set stop_kinds then (db1, tr', Inr (n', Some e)) else polish_loop now w r xs n' db1 tr')"

definition action_status :: "run_numbers \<Rightarrow> string" where
  "action_status n = (case n of (s, f, k) \<Rightarrow>
     if s \<noteq> 0 \<and> f \<noteq> 0 then ''partial_success'' else if f \<noteq> 0 \<and> s = 0 \<and> k = 0 then ''failed'' else ''success'')"

definition status_ok :: "string \<Rightarrow> bool" where
  "status_ok s \<longleftrightarrow> s \<in> {''success'', ''partial_success''}"

definition execute_polish ::
  "timestamp \<Rightarrow> catalog_world \<Rightarrow> product_run \<Rightarrow> catalog_db \<Rightarrow> pub_event list \<Rightarrow> catalog_db \<times> pub_event list \<times> (op_fail + bool)" where
  "execute_polish now w r db tr =
     (let xs = operation_candidates (rn_account_id r) (rn_requested_item_ids r) (rn_requested_item_ids r = []) db in
      case polish_loop now w r xs (0, 0, 0) db tr of
        (db1, tr', Inl e) \<Rightarrow> (db1, tr', Inl e)
      | (db1, tr', Inr (n, e)) \<Rightarrow>
          let db2 = finish_product_run now (rn_run_id r) (action_status n) (int (length xs)) n e db1
          in (if status_ok (action_status n) then complete_polish now (cw_draw w) (rn_account_id r) db2 else db2, tr', Inr (status_ok (action_status n))))"

text \<open>Taking offline and deleting: the numbers, whether a result is uncertain or needs a verification, and the last error.\<close>

type_synonym write_state = "run_numbers \<times> bool \<times> bool \<times> ustr option"

fun write_loop ::
  "timestamp \<Rightarrow> catalog_world \<Rightarrow> product_run \<Rightarrow> string \<Rightarrow> (ustr \<Rightarrow> item_action op) \<Rightarrow> (ustr \<Rightarrow> item_action \<Rightarrow> ustr) \<Rightarrow> ustr list
   \<Rightarrow> write_state \<Rightarrow> catalog_db \<Rightarrow> pub_event list \<Rightarrow> catalog_db \<times> pub_event list \<times> (op_fail + write_state)" where
  "write_loop now w r status act marked [] st db tr = (db, tr, Inr st)"
| "write_loop now w r status act marked (i # is) st db tr =
     (case st of (n, uncertain, verification, err) \<Rightarrow>
      (case act i tr of
         (Inr a, tr') \<Rightarrow>
           let db1 = record_action now w r a db
           in write_loop now w r status act marked is (counted a n, uncertain, verification, err)
                (if ar_success a then mark_item_status now (rn_account_id r) (marked i a) status (\<not> ar_verified a) db1 else db1) tr'
       | (Inl OpOther, tr') \<Rightarrow> (db, tr', Inl OpOther)
       | (Inl (OpError kind retryable u v raw), tr') \<Rightarrow>
           let e = cw_text w (OpError kind retryable u v raw);
               st' = ((case n of (s, f, k) \<Rightarrow> (s, f + 1, k)), uncertain \<or> u, verification \<or> v, Some e);
               db1 = note_result now w r i (if u \<or> v then ''verification_required'' else ''failed'') (Some e) (Some (asc (''personal_web:'' @ kind))) db
           in if u \<or> v \<or> retryable \<or> kind \<in> set stop_kinds then (db1, tr', Inr st') else write_loop now w r status act marked is st' db1 tr'))"

definition write_status :: "write_state \<Rightarrow> string" where
  "write_status st = (case st of ((s, f, k), uncertain, verification, _) \<Rightarrow>
     if uncertain \<or> verification then ''verification_required'' else if s \<noteq> 0 \<and> f \<noteq> 0 then ''partial_success''
     else if f = 0 then ''success'' else ''failed'')"

definition finish_write :: "timestamp \<Rightarrow> product_run \<Rightarrow> int \<Rightarrow> write_state \<Rightarrow> catalog_db \<Rightarrow> catalog_db" where
  "finish_write now r total_count st db = (case st of ((s, f, k), _, _, e) \<Rightarrow>
     finish_product_run now (rn_run_id r) (write_status st) total_count (s, f, max k (total_count - s - f)) e db)"

definition execute_offline ::
  "timestamp \<Rightarrow> catalog_world \<Rightarrow> product_run \<Rightarrow> catalog_db \<Rightarrow> pub_event list \<Rightarrow> catalog_db \<times> pub_event list \<times> (op_fail + bool)" where
  "execute_offline now w r db tr =
     (let xs = operation_candidates (rn_account_id r) (rn_requested_item_ids r) False db;
          ids = map it_item_id (filter (\<lambda>x. it_platform_status x = ''selling'') xs)
      in case write_loop now w r ''offline'' (offline_personal_item (cw_env w)) (\<lambda>_ a. ar_item_id a) ids
           ((0, 0, int (length xs) - int (length ids)), False, False, None) db tr of
        (db1, tr', Inl e) \<Rightarrow> (db1, tr', Inl e)
      | (db1, tr', Inr st) \<Rightarrow> (finish_write now r (int (length xs)) st db1, tr', Inr (status_ok (write_status st))))"

definition execute_delete ::
  "timestamp \<Rightarrow> catalog_world \<Rightarrow> product_run \<Rightarrow> catalog_db \<Rightarrow> pub_event list \<Rightarrow> catalog_db \<times> pub_event list \<times> (op_fail + bool)" where
  "execute_delete now w r db tr =
     (let xs = operation_candidates (rn_account_id r) (rn_requested_item_ids r) False db
      in case write_loop now w r ''deleted'' (delete_personal_item (cw_env w)) (\<lambda>i _. i) (map it_item_id xs)
           ((0, 0, 0), False, False, None) db tr of
        (db1, tr', Inl e) \<Rightarrow> (db1, tr', Inl e)
      | (db1, tr', Inr st) \<Rightarrow> (finish_write now r (int (length xs)) st db1, tr', Inr (status_ok (write_status st))))"

definition execute_sync ::
  "timestamp \<Rightarrow> catalog_world \<Rightarrow> product_run \<Rightarrow> catalog_db \<Rightarrow> pub_event list \<Rightarrow> catalog_db \<times> pub_event list \<times> (op_fail + bool)" where
  "execute_sync now w r db tr =
     (case list_selling_items (cw_env w) 20 (if rn_full_sync r then None else Some 1) tr of
        (Inl e, tr') \<Rightarrow> (db, tr', Inl e)
      | (Inr l, tr') \<Rightarrow>
          let n = int (length (pl_items l))
          in (finish_product_run now (rn_run_id r) ''success'' n (n, 0, 0) None
                (apply_sync now (cw_draw w) (rn_account_id r) (pl_items l) (rn_full_sync r) (pl_complete l) db), tr', Inr True))"

definition execute_operation ::
  "timestamp \<Rightarrow> catalog_world \<Rightarrow> product_run \<Rightarrow> catalog_db \<Rightarrow> catalog_db \<times> pub_event list \<times> (op_fail + bool)" where
  "execute_operation now w r db =
     (if rn_operation r = ''sync'' then execute_sync now w r db []
      else if rn_operation r = ''polish'' then execute_polish now w r db []
      else if rn_operation r = ''offline'' then execute_offline now w r db []
      else if rn_operation r = ''delete'' then execute_delete now w r db []
      else (db, [], Inl OpOther))"

definition merge_catalog :: "timestamp \<Rightarrow> catalog_world \<Rightarrow> product_run \<Rightarrow> pub_event list \<Rightarrow> catalog_db \<Rightarrow> catalog_db \<times> (merge_error + bool)" where
  "merge_catalog now w r tr db =
     (case merge_account_cookie_updates now (rn_account_id r) ''product_management'' (cw_cookies w tr) (cw_others w) (pb_accounts (cg_products db)) of
        (rows, m) \<Rightarrow> (db\<lparr>cg_products := (cg_products db)\<lparr>pb_accounts := rows\<rparr>\<rparr>, m))"

text \<open>The run is recorded as failed, and a failed synchronisation in the settings too.\<close>

definition record_failure :: "timestamp \<Rightarrow> catalog_world \<Rightarrow> product_run \<Rightarrow> string \<Rightarrow> ustr \<Rightarrow> catalog_db \<Rightarrow> catalog_db" where
  "record_failure now w r status e db =
     (let n = int (length (rn_requested_item_ids r));
          db1 = (if rn_operation r = ''sync'' then fail_product_sync now (cw_draw w) (rn_account_id r) e db else db)
      in finish_product_run now (rn_run_id r) status n (0, n, 0) (Some e) db1)"

datatype catalog_answer = CatalogNoRun | CatalogSettled bool | CatalogNoAccount | CatalogLockBusy | CatalogNoClient
  | CatalogDone bool bool | CatalogFailed bool bool | CatalogRaised

text \<open>
  The outcome of the operation. An exception of the merge after the operation is handled like any
  other exception; one while a \<open>ProductOperationError\<close> is handled leaves the run as it is.
\<close>

definition settle_catalog ::
  "timestamp \<Rightarrow> catalog_world \<Rightarrow> product_run \<Rightarrow> catalog_db \<times> pub_event list \<times> (op_fail + bool) \<Rightarrow> catalog_db \<times> catalog_answer" where
  "settle_catalog now w r outcome = (case outcome of
     (db, tr, Inr fine) \<Rightarrow>
       (case merge_catalog now w r tr db of
          (db1, Inr changed) \<Rightarrow> (db1, CatalogDone fine changed)
        | (db1, Inl _) \<Rightarrow> (record_failure now w r ''failed'' (cw_text w OpOther) db1, CatalogRaised))
   | (db, tr, Inl OpOther) \<Rightarrow> (record_failure now w r ''failed'' (cw_text w OpOther) db, CatalogRaised)
   | (db, tr, Inl (OpError kind retryable uncertain verification raw)) \<Rightarrow>
       (case merge_catalog now w r tr db of
          (db1, Inr _) \<Rightarrow> (record_failure now w r (if uncertain \<or> verification then ''verification_required'' else ''failed'')
             (cw_text w (OpError kind retryable uncertain verification raw)) db1, CatalogFailed uncertain verification)
        | (db1, Inl _) \<Rightarrow> (db1, CatalogRaised)))"

text \<open>
  The whole execution. \<open>waited\<close> is what other processes do while the lock is awaited, or nothing
  when it is not obtained. The account is the one read before the lock; its cookie decides whether
  the client can be made.
\<close>

definition execute_product_run ::
  "timestamp \<Rightarrow> catalog_world \<Rightarrow> (catalog_db \<Rightarrow> catalog_db) option \<Rightarrow> string \<Rightarrow> catalog_db \<Rightarrow> catalog_db \<times> catalog_answer" where
  "execute_product_run now w waited run_id db0 =
     (case start_product_run now run_id db0 of
        (db, None) \<Rightarrow> (db, CatalogNoRun)
      | (db, Some r) \<Rightarrow>
          if rn_status r \<notin> {''running'', ''pending''} then (db, CatalogSettled (status_ok (rn_status r)))
          else (case get_row ac_account_id (pb_accounts (cg_products db)) (rn_account_id r) of
              None \<Rightarrow> (db, CatalogNoAccount)
            | Some a \<Rightarrow>
                (case waited of
                   None \<Rightarrow> (db, CatalogLockBusy)
                 | Some f \<Rightarrow>
                     if \<not> cw_route_ok w \<or> \<not> truthy (map_of (parse_cookie (ac_cookie a)) ''unb'') then (f db, CatalogNoClient)
                     else settle_catalog now w r (execute_operation now w r (f db)))))"

section \<open>Requesting a run\<close>

definition product_task :: "string \<Rightarrow> string \<Rightarrow> string \<Rightarrow> task_create" where
  "product_task account_id operation run_id = \<lparr>tc_account_id = Some account_id,
     tc_task_type = (if operation \<noteq> ''sync'' then ''product.'' @ operation @ ''_items'' else ''product.sync_account''),
     tc_dedupe_key = Some (''product-operation:'' @ run_id), tc_payload = Some run_id, tc_run_after = None\<rparr>"

datatype product_answer = ProductRaised | ProductRequested product_run task_row

definition product_request_done :: "product_run \<Rightarrow> task_row \<Rightarrow> catalog_db \<Rightarrow> catalog_db \<times> product_answer" where
  "product_request_done r t db = (db, ProductRequested
     (case get_product_run (rn_run_id r) db of None \<Rightarrow> r | Some r' \<Rightarrow> r')
     (case get_background_task (tk_task_id t) (cg_tasks db) of None \<Rightarrow> t | Some t' \<Rightarrow> t'))"

text \<open>\<open>refused\<close>: why the queue did not take the task, if it did not.\<close>

definition create_and_enqueue_product_run ::
  "string \<Rightarrow> string \<Rightarrow> timestamp \<Rightarrow> string option \<Rightarrow> string \<Rightarrow> string \<Rightarrow> string \<Rightarrow> ustr list \<Rightarrow> bool \<Rightarrow> catalog_db \<Rightarrow> catalog_db \<times> product_answer" where
  "create_and_enqueue_product_run run_id task_id now refused account_id operation trigger item_ids full db0 =
     (case create_product_run run_id now account_id operation trigger item_ids full db0 of
        (db, r) \<Rightarrow>
          (case create_background_task task_id now (pb_accounts (cg_products db)) (product_task account_id operation (rn_run_id r)) (cg_tasks db) of
             (ts, res) \<Rightarrow>
               (case (case res of ExistingTask t \<Rightarrow> Some t | CreatedTask t \<Rightarrow> Some t | _ \<Rightarrow> None) of
                  None \<Rightarrow> (db, ProductRaised)
                | Some t \<Rightarrow>
                    if tk_status t = Pending \<and> tk_queued_at t = None
                    then (case refused of
                        None \<Rightarrow> product_request_done r t (db\<lparr>cg_tasks := fst (mark_background_task_queued now (tk_task_id t) ts)\<rparr>)
                      | Some e \<Rightarrow>
                          let n = int (length item_ids)
                          in (finish_product_run now (rn_run_id r) ''failed'' n (0, n, 0) (Some (asc (''queue unavailable: '' @ e)))
                                (db\<lparr>cg_tasks := fst (finish_background_task now (tk_task_id t) ''failed'' None (Some (''queue unavailable: '' @ e)) None ts)\<rparr>),
                              ProductRaised))
                    else product_request_done r t (db\<lparr>cg_tasks := ts\<rparr>))))"

section \<open>The scheduler\<close>

definition full_due :: "timestamp \<Rightarrow> product_setting \<Rightarrow> bool" where
  "full_due now r = (case tp_last_full_sync_at r of None \<Rightarrow> True | Some t \<Rightarrow> hours (tp_full_sync_interval_hours r) \<le> now - t)"

text \<open>One due setting; \<open>ids\<close> draws the identifiers of the run and of the task.\<close>

definition request_due ::
  "(string \<Rightarrow> string \<Rightarrow> string \<times> string) \<Rightarrow> timestamp \<Rightarrow> catalog_draw \<Rightarrow> string option \<Rightarrow> product_setting \<times> bool \<times> bool \<Rightarrow> catalog_db \<Rightarrow> catalog_db" where
  "request_due ids now draw refused due db0 = (case due of (r, sync, polish) \<Rightarrow>
     let a = tp_account_id r;
         request = (\<lambda>operation full db. case ids a operation of (run_id, task_id) \<Rightarrow>
           fst (create_and_enqueue_product_run run_id task_id now refused a operation ''scheduled'' [] full db));
         db1 = (if sync then reschedule_product now draw a True False (request ''sync'' (full_due now r) db0) else db0)
     in if polish then reschedule_product now draw a False True (request ''polish'' False db1) else db1)"

definition scan_due_products ::
  "(string \<Rightarrow> string \<Rightarrow> string \<times> string) \<Rightarrow> timestamp \<Rightarrow> catalog_draw \<Rightarrow> string option \<Rightarrow> catalog_db \<Rightarrow> catalog_db" where
  "scan_due_products ids now draw refused db0 =
     (let db = ensure_product_settings now draw (map ac_account_id (pb_accounts (cg_products db0))) db0
      in foldl (\<lambda>d due. request_due ids now draw refused due d) db (list_due_product_settings now db))"

end
