(* ===== verification/ProductRunSafety.thy ===== *)
theory ProductRunSafety
  imports ProductRuns
begin

text \<open>
  Properties of the management of products: what a sequence of synchronisations makes of an item,
  exact numbers of the runs that write to the platform, and two defects.
\<close>

section \<open>Items over a sequence of synchronisations\<close>

text \<open>How many complete lists in a row have not shown the item.\<close>

type_synonym sync_input = "timestamp \<times> managed_product list \<times> bool \<times> bool"

definition missed_lists :: "ustr \<Rightarrow> int \<Rightarrow> sync_input list \<Rightarrow> int" where
  "missed_lists i n syncs = foldl (\<lambda>k (now, ms, full, complete).
     if i \<in> mg_item_id ` set ms then 0 else if full \<and> complete then k + 1 else k) n syncs"

definition sync_all :: "catalog_draw \<Rightarrow> string \<Rightarrow> sync_input list \<Rightarrow> catalog_db \<Rightarrow> catalog_db" where
  "sync_all draw a syncs db = foldl (\<lambda>d (now, ms, full, complete). apply_sync now draw a ms full complete d) db syncs"

text \<open>An item after \<open>n\<close> complete lists in a row that have not shown it.\<close>

definition unseen_for :: "int \<Rightarrow> product_item \<Rightarrow> bool" where
  "unseen_for n r \<longleftrightarrow> 0 \<le> n \<and> it_missing_sync_count r = n \<and> it_platform_status r = (if 2 \<le> n then ''not_selling'' else ''selling'')"

lemma listed_keys [simp]:
  "it_key (listed_values now m r) = it_key r" "it_key (published_values f r) = it_key r" "it_key (missing_values now r) = it_key r"
  "it_key (new_product_item a i now) = (a, i)"
  by (simp_all add: it_key_def listed_values_def published_values_def missing_values_def new_product_item_def Let_def)

lemma apply_listed_get:
  "get_row it_key (apply_listed now a rows m) k =
     (if k = (a, mg_item_id m) then Some (listed_values now m
        (case get_row it_key rows k of None \<Rightarrow> new_product_item a (mg_item_id m) now | Some r \<Rightarrow> r)) else get_row it_key rows k)"
proof -
  have "it_key (case get_row it_key rows (a, mg_item_id m) of None \<Rightarrow> new_product_item a (mg_item_id m) now | Some r \<Rightarrow> r) = (a, mg_item_id m)"
    by (auto dest: get_row_SomeD split: option.split)
  then show ?thesis by (simp add: apply_listed_def get_put_row)
qed

lemma listed_get:
  assumes "get_row it_key rows (a, i) = Some r \<or> i \<in> mg_item_id ` set ms"
  shows "\<exists>r'. get_row it_key (foldl (apply_listed now a) rows ms) (a, i) = Some r'
    \<and> (if i \<in> mg_item_id ` set ms then unseen_for 0 r' else get_row it_key rows (a, i) = Some r')"
  using assms
proof (induction ms arbitrary: rows r)
  case (Cons m ms)
  show ?case
  proof (cases "i = mg_item_id m")
    case True
    define r1 where "r1 = listed_values now m (case get_row it_key rows (a, i) of None \<Rightarrow> new_product_item a (mg_item_id m) now | Some r \<Rightarrow> r)"
    have g: "get_row it_key (apply_listed now a rows m) (a, i) = Some r1" by (simp add: apply_listed_get True r1_def)
    have "unseen_for 0 r1" by (simp add: unseen_for_def r1_def listed_values_def)
    with Cons.IH [of "apply_listed now a rows m" r1] g True show ?thesis by (auto split: if_splits)
  next
    case False
    then have "get_row it_key (apply_listed now a rows m) (a, i) = get_row it_key rows (a, i)" by (simp add: apply_listed_get)
    with Cons.IH [of "apply_listed now a rows m" r] Cons.prems False show ?thesis by auto
  qed
qed auto

lemma published_unseen [simp]: "unseen_for n (published_values f r) = unseen_for n r"
  by (simp add: unseen_for_def published_values_def)

lemma publish_times_get:
  assumes "get_row it_key rows k = Some r" and "unseen_for n r"
  shows "\<exists>r'. get_row it_key (apply_publish_times a seen tasks rows) k = Some r' \<and> unseen_for n r'"
proof -
  have "\<exists>r'. get_row it_key (foldl (\<lambda>rs t. set_row it_key rs (a, the (pt_item_id t)) (published_values (pt_finished_at t))) rows ts) k = Some r' \<and> unseen_for n r'"
    if "get_row it_key rows k = Some r" "unseen_for n r" for ts rows r
    using that
  proof (induction ts arbitrary: rows r)
    case (Cons t ts)
    have "get_row it_key (set_row it_key rows (a, the (pt_item_id t)) (published_values (pt_finished_at t))) k
        = Some (if it_key r = (a, the (pt_item_id t)) then published_values (pt_finished_at t) r else r)"
      unfolding set_row_def using Cons.prems(1) by (subst get_row_map) auto
    with Cons.IH Cons.prems(2) show ?case by auto
  qed auto
  with assms show ?thesis by (simp add: apply_publish_times_def)
qed

lemma missing_get:
  assumes "get_row it_key rows (a, i) = Some r"
  shows "get_row it_key (mark_missing now a seen rows) (a, i) = Some (if i \<in> set seen then r else missing_values now r)"
proof -
  have "it_account_id r = a" "it_item_id r = i" using get_row_SomeD [OF assms] by (simp_all add: it_key_def)
  with assms show ?thesis unfolding mark_missing_def update_where_def by (subst get_row_map) auto
qed

lemma missing_unseen: "unseen_for n r \<Longrightarrow> unseen_for (n + 1) (missing_values now r)"
  by (auto simp: unseen_for_def missing_values_def Let_def)

lemma sync_step:
  assumes "get_row it_key (cg_items db) (a, i) = Some r" and "unseen_for n r"
  shows "\<exists>r'. get_row it_key (cg_items (apply_sync now draw a ms full complete db)) (a, i) = Some r'
    \<and> unseen_for (if i \<in> mg_item_id ` set ms then 0 else if full \<and> complete then n + 1 else n) r'"
proof -
  let ?listed = "foldl (apply_listed now a) (cg_items db) ms"
  obtain r1 where r1: "get_row it_key ?listed (a, i) = Some r1" "unseen_for (if i \<in> mg_item_id ` set ms then 0 else n) r1"
    using listed_get [of "cg_items db" a i r ms now] assms by (auto split: if_splits)
  define products where "products = confirm_published now a (map mg_item_id ms) (cg_products db)"
  obtain r2 where r2: "get_row it_key (apply_publish_times a (map mg_item_id ms) (pb_tasks products) ?listed) (a, i) = Some r2"
      "unseen_for (if i \<in> mg_item_id ` set ms then 0 else n) r2"
    using publish_times_get [OF r1] by blast
  note m = missing_get [OF r2(1), of now "map mg_item_id ms"]
  show ?thesis
  proof (cases "full \<and> complete")
    case True
    then have "get_row it_key (cg_items (apply_sync now draw a ms full complete db)) (a, i) = Some (if i \<in> mg_item_id ` set ms then r2 else missing_values now r2)"
      using m by (simp add: apply_sync_def Let_def products_def)
    with True r2(2) missing_unseen show ?thesis by (auto split: if_splits)
  next
    case False
    then have "get_row it_key (cg_items (apply_sync now draw a ms full complete db)) (a, i) = Some r2"
      using r2(1) by (auto simp: apply_sync_def Let_def products_def)
    with False r2(2) show ?thesis by (auto split: if_splits)
  qed
qed


definition example_product :: "ustr \<Rightarrow> managed_product" where
  "example_product i = \<lparr>mg_item_id = i, mg_title = [], mg_price = [], mg_category_id = [], mg_cover_url = [], mg_detail_url = [],
     mg_platform_item_status = [], mg_want_count = None, mg_want_text = None, mg_raw_data = JObj []\<rparr>"

definition no_products :: product_db where
  "no_products = \<lparr>pb_accounts = [], pb_assets = [], pb_drafts = [], pb_tasks = [], pb_task_assets = [], pb_groups = [],
     pb_group_accounts = [], pb_addresses = [], pb_usages = []\<rparr>"

definition example_catalog :: catalog_db where
  "example_catalog = \<lparr>cg_products = no_products, cg_items = [new_product_item ''a'' [1] 0, new_product_item ''a'' [2] 0], cg_settings = [],
     cg_runs = [], cg_run_items = [], cg_tasks = []\<rparr>"


section \<open>A card that is no item\<close>

lemma post_answered:
  assumes "pe_net env tr api v = HttpJson r" and "\<not> contains_marker r TOKEN_ERROR_MARKERS"
  shows "post_mtop env api v tr = (Inr r, tr @ [Request api v])"
  using assms by (simp add: post_mtop_def bind_pub_def post_once_def ok_def)

lemma success_checked: "is_success r \<Longrightarrow> ensure_operation_success r = None"
  by (simp add: ensure_operation_success_def ensure_success_def)

lemma short_page_is_complete:
  assumes "pe_net env tr ''mtop.idle.web.xyh.item.list'' (page_payload (pe_unb env) 1 20) = HttpJson r"
    and "is_success r" and "\<not> contains_marker r TOKEN_ERROR_MARKERS" and "length (parse_product_cards (jget ''data'' r)) < 20"
  shows "\<exists>tr'. list_selling_items env 20 None tr = (Inr \<lparr>pl_items = parse_product_cards (jget ''data'' r), pl_pages = 1, pl_complete = True\<rparr>, tr')"
proof -
  have step: "catalog_pages env 20 (Suc n) 1 [] tr = (Inr \<lparr>pl_items = parse_product_cards (jget ''data'' r), pl_pages = 1, pl_complete = True\<rparr>,
      tr @ [Request ''mtop.idle.web.xyh.item.list'' (page_payload (pe_unb env) 1 20)])" for n
    using post_answered [OF assms(1, 3)] by (simp add: success_checked [OF assms(2)] assms(4) Let_def)
  have "list_selling_items env 20 None tr = catalog_pages env 20 (Suc 99) 1 [] tr" by (simp add: list_selling_items_def MAX_CATALOG_PAGES_def)
  then show ?thesis unfolding step by blast
qed

text \<open>C40. 
  The end of the list is recognised by a page with fewer than twenty items, and cards that are no
  items are not counted. One such card on a full page therefore makes the list complete, and two
  synchronisations later every item of the following pages is recorded as no longer for sale.
\<close>

theorem odd_card_ends_sale:
  assumes net: "\<And>tr. pe_net (cw_env w) tr ''mtop.idle.web.xyh.item.list'' (page_payload (pe_unb (cw_env w)) 1 20) = HttpJson answer"
    and answer: "is_success answer" "\<not> contains_marker answer TOKEN_ERROR_MARKERS"
    and short: "length (parse_product_cards (jget ''data'' answer)) < 20" and full: "rn_full_sync run"
    and row: "get_row it_key (cg_items db) (rn_account_id run, i) = Some r" "it_platform_status r = ''selling''" "it_missing_sync_count r = 0"
    and other: "i \<notin> mg_item_id ` set (parse_product_cards (jget ''data'' answer))"
  shows "case execute_sync now w run db [] of (db1, _, _) \<Rightarrow> (case execute_sync later w run db1 [] of (db2, _, res) \<Rightarrow>
    res = Inr True \<and> (\<exists>r'. get_row it_key (cg_items db2) (rn_account_id run, i) = Some r' \<and> it_platform_status r' = ''not_selling''))"
proof -
  let ?ms = "parse_product_cards (jget ''data'' answer)"
  have items: "cg_items (finish_product_run t j st n c e d) = cg_items d" for t j st n c e d
    by (simp add: finish_product_run_def split: prod.split)
  have one: "\<exists>db' tr'. execute_sync t w run d [] = (db', tr', Inr True)
      \<and> cg_items db' = cg_items (apply_sync t (cw_draw w) (rn_account_id run) ?ms True True d)" for t d
  proof -
    obtain tr' where "list_selling_items (cw_env w) 20 None [] = (Inr \<lparr>pl_items = ?ms, pl_pages = 1, pl_complete = True\<rparr>, tr')"
      using short_page_is_complete [OF net answer short] by blast
    then show ?thesis by (simp add: execute_sync_def full items Let_def)
  qed
  obtain db1 tr1 where e1: "execute_sync now w run db [] = (db1, tr1, Inr True)"
      "cg_items db1 = cg_items (apply_sync now (cw_draw w) (rn_account_id run) ?ms True True db)" using one by blast
  obtain db2 tr2 where e2: "execute_sync later w run db1 [] = (db2, tr2, Inr True)"
      "cg_items db2 = cg_items (apply_sync later (cw_draw w) (rn_account_id run) ?ms True True db1)" using one by blast
  have "unseen_for 0 r" using row by (simp add: unseen_for_def)
  then obtain r1 where r1: "get_row it_key (cg_items db1) (rn_account_id run, i) = Some r1" "unseen_for 1 r1"
    using sync_step [OF row(1), of 0 now "cw_draw w" ?ms True True] other by (auto simp: e1(2))
  then obtain r2 where "get_row it_key (cg_items db2) (rn_account_id run, i) = Some r2" "unseen_for 2 r2"
    using sync_step [OF r1, of later "cw_draw w" ?ms True True] other by (auto simp: e2(2))
  then show ?thesis by (simp add: e1(1) e2(1) unseen_for_def)
qed

text \<open>Twenty cards, the last of them no item.\<close>

definition example_page :: json where
  "example_page = jobj [(''ret'', JList [JStr (asc ''SUCCESS::'')]), (''data'', jobj [(''cardList'',
     JList (map (\<lambda>n. jobj [(''cardData'', jobj [(''id'', JStr [n])])]) [100..118] @ [JNull]))])]"

definition example_catalog_world :: catalog_world where
  "example_catalog_world = \<lparr>cw_env = example_env\<lparr>pe_net := (\<lambda>_ _ _. HttpJson example_page)\<rparr>, cw_route_ok = True, cw_result_id = (\<lambda>_. ''x''),
     cw_draw = (\<lambda>_ _. 0), cw_cookies = (\<lambda>_. []), cw_others = [], cw_text = (\<lambda>_. [])\<rparr>"

theorem odd_card_ends_sale_witness:
  "length (list_or_empty (jget ''cardList'' (jget ''data'' example_page))) = 20
   \<and> (case execute_sync 1 example_catalog_world (new_product_run ''r'' 0 ''a'' ''sync'' ''manual'' [] True) example_catalog [] of (db1, _, _) \<Rightarrow>
      (case execute_sync 2 example_catalog_world (new_product_run ''r'' 0 ''a'' ''sync'' ''manual'' [] True) db1 [] of (db2, _, res) \<Rightarrow>
       res = Inr True \<and> (\<exists>r'. get_row it_key (cg_items db2) (''a'', [1]) = Some r' \<and> it_platform_status r' = ''not_selling'')))"
proof
  let ?run = "new_product_run ''r'' 0 ''a'' ''sync'' ''manual'' [] True"
  have net: "pe_net (cw_env example_catalog_world) tr ''mtop.idle.web.xyh.item.list'' (page_payload (pe_unb (cw_env example_catalog_world)) 1 20)
      = HttpJson example_page" for tr by (simp add: example_catalog_world_def)
  have s: "is_success example_page" "\<not> contains_marker example_page TOKEN_ERROR_MARKERS" by code_simp+
  have p: "length (parse_product_cards (jget ''data'' example_page)) < 20" "[1] \<notin> mg_item_id ` set (parse_product_cards (jget ''data'' example_page))"
    by code_simp+
  have run: "rn_full_sync ?run" "rn_account_id ?run = ''a''" by (simp_all add: new_product_run_def)
  have row: "get_row it_key (cg_items example_catalog) (rn_account_id ?run, [1]) = Some (new_product_item ''a'' [1] 0)"
      "it_platform_status (new_product_item ''a'' [1] 0) = ''selling''" "it_missing_sync_count (new_product_item ''a'' [1] 0) = 0"
    by (simp_all add: run example_catalog_def) (simp_all add: new_product_item_def)
  show "case execute_sync 1 example_catalog_world ?run example_catalog [] of (db1, _, _) \<Rightarrow>
      (case execute_sync 2 example_catalog_world ?run db1 [] of (db2, _, res) \<Rightarrow>
       res = Inr True \<and> (\<exists>r'. get_row it_key (cg_items db2) (''a'', [1]) = Some r' \<and> it_platform_status r' = ''not_selling''))"
    using odd_card_ends_sale [OF net s p(1) run(1) row p(2), of 2 1] unfolding run(2) .
  show "length (list_or_empty (jget ''cardList'' (jget ''data'' example_page))) = 20" by code_simp
qed

section \<open>The numbers of a run\<close>

text \<open>How many results have one of the statuses.\<close>

definition tally :: "string list \<Rightarrow> run_item list \<Rightarrow> int" where
  "tally statuses rs = int (length (filter (\<lambda>x. ri_status x \<in> set statuses) rs))"

lemma tally_simps [simp]: "tally ss [] = 0" "tally ss (x # rs) = (if ri_status x \<in> set ss then 1 else 0) + tally ss rs"
  by (simp_all add: tally_def)

text \<open>What the loop adds to the results and to the numbers.\<close>

definition noted :: "product_run \<Rightarrow> run_numbers \<Rightarrow> run_numbers \<Rightarrow> run_item list \<Rightarrow> bool" where
  "noted r n n' new \<longleftrightarrow> list_all (\<lambda>x. ri_run_id x = rn_run_id r) new \<and> fst n' = fst n + tally [''success''] new
     \<and> fst (snd n') = fst (snd n) + tally [''failed'', ''verification_required''] new \<and> snd (snd n') = snd (snd n) + tally [''skipped''] new
     \<and> fst n' + fst (snd n') + snd (snd n') = fst n + fst (snd n) + snd (snd n) + int (length new)"

lemma noted_Nil [simp]: "noted r n n []"
  by (simp add: noted_def)

lemma noted_Cons: "noted r n n1 [x] \<Longrightarrow> noted r n1 n' new \<Longrightarrow> noted r n n' (x # new)"
  by (auto simp: noted_def)

lemma note_result_items: "\<exists>x. cg_run_items (note_result now w r i status m c db) = cg_run_items db @ [x] \<and> ri_run_id x = rn_run_id r \<and> ri_status x = status"
  by (simp add: note_result_def add_run_item_def)

lemma record_action_items:
  "ar_success a \<Longrightarrow> \<exists>x. cg_run_items (record_action now w r a db) = cg_run_items db @ [x] \<and> ri_run_id x = rn_run_id r
     \<and> ri_status x = (if ar_skipped a then ''skipped'' else ''success'')"
  by (simp add: record_action_def note_result_def add_run_item_def)

lemma kept_by_loop [simp]:
  "cg_run_items (mark_item_status now a i status b db) = cg_run_items db" "cg_runs (mark_item_status now a i status b db) = cg_runs db"
  "cg_runs (note_result now w r i status m c db) = cg_runs db" "cg_runs (record_action now w r act db) = cg_runs db"
  by (simp_all add: mark_item_status_def note_result_def add_run_item_def record_action_def)

text \<open>An action whose results without an exception are successes.\<close>

definition succeeding :: "(ustr \<Rightarrow> item_action op) \<Rightarrow> bool" where
  "succeeding act \<longleftrightarrow> (\<forall>i tr. case act i tr of (Inl _, _) \<Rightarrow> True | (Inr a, _) \<Rightarrow> ar_success a)"

lemma succeedingD: "succeeding act \<Longrightarrow> act i tr = (Inr a, tr') \<Longrightarrow> ar_success a"
  unfolding succeeding_def by (drule spec [of _ i], drule spec [of _ tr]) simp

lemma write_loop_noted:
  assumes "succeeding act"
    and "write_loop now w r status act marked is st db tr = (db', tr', Inr st')"
  shows "cg_runs db' = cg_runs db \<and> (\<exists>new. cg_run_items db' = cg_run_items db @ new \<and> length new \<le> length is \<and> noted r (fst st) (fst st') new)"
  using assms(2)
proof (induction "is" arbitrary: st db tr)
  case (Cons i "is")
  obtain n u v e where st: "st = (n, u, v, e)" by (cases st) auto
  obtain s f k where n: "n = (s, f, k)" by (cases n) auto
  obtain res tr1 where act: "act i tr = (res, tr1)" by fastforce
  have step: ?case if x: "cg_run_items d = cg_run_items db @ [x]" "noted r n n1 [x]" and d: "cg_runs d = cg_runs db"
      and rest: "cg_runs db' = cg_runs d \<and> (\<exists>new. cg_run_items db' = cg_run_items d @ new \<and> length new \<le> length is \<and> noted r n1 (fst st') new)"
    for d x n1
  proof -
    from rest obtain new where new: "cg_run_items db' = cg_run_items d @ new" "length new \<le> length is" "noted r n1 (fst st') new" by blast
    have "cg_run_items db' = cg_run_items db @ x # new" using new(1) x(1) by simp
    moreover have "noted r (fst st) (fst st') (x # new)" using noted_Cons [OF x(2) new(3)] by (simp add: st)
    ultimately show ?thesis using rest d new(2) by (intro conjI exI [of _ "x # new"]) simp_all
  qed
  show ?case
  proof (cases res)
    case (Inr a)
    define d where "d = mark_item_status now (rn_account_id r) (marked i a) status (\<not> ar_verified a) (record_action now w r a db)"
    have a: "ar_success a" using succeedingD [OF assms(1)] act Inr by blast
    have l: "write_loop now w r status act marked is (counted a n, u, v, e) d tr1 = (db', tr', Inr st')"
      using Cons.prems act Inr a by (simp add: st d_def Let_def)
    obtain x where x: "cg_run_items (record_action now w r a db) = cg_run_items db @ [x]" "ri_run_id x = rn_run_id r"
        "ri_status x = (if ar_skipped a then ''skipped'' else ''success'')"
      using record_action_items [OF a] by blast
    have "noted r n (counted a n) [x]" using x(2, 3) a by (simp add: noted_def counted_def n)
    with x(1) Cons.IH [OF l] show ?thesis by (intro step [of d x "counted a n"]) (simp_all add: d_def)
  next
    case (Inl g)
    show ?thesis
    proof (cases g)
      case (OpError kind retryable u' v' raw)
      define t where "t = (if u' \<or> v' then ''verification_required'' else ''failed'')"
      define d where "d = note_result now w r i t (Some (cw_text w (OpError kind retryable u' v' raw))) (Some (asc (''personal_web:'' @ kind))) db"
      define st1 where "st1 = ((s, f + 1, k), u \<or> u', v \<or> v', Some (cw_text w (OpError kind retryable u' v' raw)))"
      obtain x where x: "cg_run_items d = cg_run_items db @ [x]" "ri_run_id x = rn_run_id r" "ri_status x = t"
        unfolding d_def using note_result_items by blast
      have one: "noted r n (s, f + 1, k) [x]" using x(2, 3) by (simp add: noted_def n t_def)
      have l: "(if u' \<or> v' \<or> retryable \<or> kind \<in> set stop_kinds then (d, tr1, Inr st1) else write_loop now w r status act marked is st1 d tr1)
          = (db', tr', Inr st')"
        using Cons.prems unfolding st n write_loop.simps act Inl OpError d_def st1_def t_def Let_def prod.case sum.case op_fail.case .
      have "cg_runs db' = cg_runs d \<and> (\<exists>new. cg_run_items db' = cg_run_items d @ new \<and> length new \<le> length is \<and> noted r (s, f + 1, k) (fst st') new)"
        using l Cons.IH [of st1 d tr1] by (auto simp: st1_def split: if_splits)
      with x(1) one show ?thesis by (intro step [of d x "(s, f + 1, k)"]) (simp_all add: d_def)
    qed (use Cons.prems act Inl in \<open>simp add: st\<close>)
  qed
qed simp

lemma personal_success: "succeeding (offline_personal_item env)" "succeeding (delete_personal_item env)"
  by (auto simp: succeeding_def offline_personal_item_def delete_personal_item_def personal_result_def
      split: prod.splits sum.splits op_fail.splits if_splits)

lemma finish_write_numbers:
  assumes "get_product_run (rn_run_id r) db = Some row" and "noted r (0, 0, k0) (fst st) new" and "int (length new) + k0 \<le> n"
  shows "\<exists>row'. get_product_run (rn_run_id r) (finish_write now r n st db) = Some row'
    \<and> rn_success_count row' = tally [''success''] new \<and> rn_failed_count row' = tally [''failed'', ''verification_required''] new
    \<and> rn_total_count row' = n \<and> rn_success_count row' + rn_failed_count row' + rn_skipped_count row' = n"
proof -
  obtain s f k u v e where st: "st = ((s, f, k), u, v, e)" by (cases st) auto
  have "get_product_run (rn_run_id r) (finish_product_run now (rn_run_id r) t n (s, f, m) e db) =
      Some (row\<lparr>rn_status := t, rn_total_count := n, rn_success_count := s, rn_failed_count := f, rn_skipped_count := m, rn_error := e,
        rn_finished_at := Some now, rn_updated_at := now\<rparr>)" for t m
    using assms(1) get_row_SomeD [OF assms(1) [unfolded get_product_run_def]]
    unfolding get_product_run_def finish_product_run_def set_row_def by (simp add: get_row_map)
  moreover have "max k (n - s - f) = n - s - f" using assms(2, 3) by (simp add: noted_def st)
  ultimately show ?thesis using assms(2) by (simp add: finish_write_def st noted_def)
qed


text \<open>Three items are taken offline: one is accepted, one gets no answer, and the third is not tried.\<close>

definition three_items :: catalog_db where
  "three_items = example_catalog\<lparr>cg_items := map (\<lambda>i. new_product_item ''a'' [i] 0) [65, 66, 67],
     cg_runs := [new_product_run ''r'' 0 ''a'' ''offline'' ''manual'' [[65], [66], [67]] False]\<rparr>"

definition offline_world :: catalog_world where
  "offline_world = example_catalog_world\<lparr>cw_env := example_env\<lparr>pe_net := (\<lambda>_ _ v. if v = jobj [(''itemId'', JStr [65])]
     then HttpJson (jobj [(''ret'', JList [JStr (asc ''SUCCESS::'')])]) else HttpFailed False)\<rparr>\<rparr>"


section \<open>A run whose client cannot be made\<close>

lemma insort_key_map: "(\<And>x. k (f x) = k x) \<Longrightarrow> insort_key k (f x) (map f xs) = map f (insort_key k x xs)"
  by (induction xs) auto

lemma sort_key_map: "(\<And>x. k (f x) = k x) \<Longrightarrow> sort_key k (map f xs) = map f (sort_key k xs)"
  by (induction xs) (simp_all add: insort_key_map)

lemma active_run_SomeD:
  assumes "active_product_run a op runs = Some r"
  shows "\<exists>rest. sort_key (\<lambda>x. - rn_created_at x) (filter (is_active_run a op) runs) = r # rest" and "r \<in> set runs" and "is_active_run a op r"
proof -
  show s: "\<exists>rest. sort_key (\<lambda>x. - rn_created_at x) (filter (is_active_run a op) runs) = r # rest"
    using assms by (auto simp: active_product_run_def split: list.splits)
  then obtain rest where e: "sort_key (\<lambda>x. - rn_created_at x) (filter (is_active_run a op) runs) = r # rest" by blast
  have "r \<in> set (sort_key (\<lambda>x. - rn_created_at x) (filter (is_active_run a op) runs))" unfolding e by simp
  then show "r \<in> set runs" "is_active_run a op r" by simp_all
qed

lemma active_run_started:
  fixes now :: timestamp
  assumes d: "keys_distinct rn_run_id runs" and a: "active_product_run a op runs = Some r"
  defines "g \<equiv> (\<lambda>x. if rn_run_id x = rn_run_id r then x\<lparr>rn_status := ''running'', rn_started_at := Some now, rn_updated_at := now\<rparr> else x)"
  shows "active_product_run a op (put_row rn_run_id (g r) runs) = Some (g r)"
proof -
  note r = active_run_SomeD(2,3) [OF a]
  obtain rest where s: "sort_key (\<lambda>x. - rn_created_at x) (filter (is_active_run a op) runs) = r # rest" using active_run_SomeD(1) [OF a] by blast
  have one: "x = r" if "x \<in> set runs" "rn_run_id x = rn_run_id r" for x using keys_distinct_eq [OF d that(1) r(1) that(2)] .
  have key: "rn_run_id (g r) = rn_run_id r" by (simp add: g_def)
  have 1: "put_row rn_run_id (g r) runs = map g runs"
    using get_row_distinct [OF d r(1)] one by (auto simp: put_row_def set_row_def key g_def)
  have "is_active_run a op (g x) = is_active_run a op x" if "x \<in> set runs" for x
    using one [OF that] r(2) by (auto simp: g_def is_active_run_def)
  then have 2: "filter (is_active_run a op) (map g runs) = map g (filter (is_active_run a op) runs)"
    unfolding filter_map comp_def by (intro arg_cong [where f = "map g"] filter_cong) simp_all
  have 3: "sort_key (\<lambda>x. - rn_created_at x) (map g xs) = map g (sort_key (\<lambda>x. - rn_created_at x) xs)" for xs
    by (rule sort_key_map) (simp add: g_def)
  show ?thesis unfolding active_product_run_def 1 2 3 s by simp
qed

text \<open>
  The client is made outside the block that records failures. When the cookie of the account has no
  user, the run stays running, and from then on every scheduled request for this operation is
  answered with it: nothing is created any more, also after the cookie was repaired.
\<close>

theorem unmade_client_blocks_schedule:
  assumes "keys_distinct rn_run_id (cg_runs db)" and "active_product_run a op (cg_runs db) = Some r" and "rn_status r = ''pending''"
    and "get_row ac_account_id (pb_accounts (cg_products db)) a = Some acc" and "\<not> truthy (map_of (parse_cookie (ac_cookie acc)) ''unb'')"
  shows "case execute_product_run now w (Some id) (rn_run_id r) db of (db', answer) \<Rightarrow> answer = CatalogNoClient
    \<and> (\<exists>q. get_product_run (rn_run_id r) db' = Some q \<and> rn_status q = ''running''
         \<and> create_product_run new_id later a op ''scheduled'' ids full (db'\<lparr>cg_products := repaired\<rparr>) = (db'\<lparr>cg_products := repaired\<rparr>, q))"
proof -
  define q where "q = r\<lparr>rn_status := ''running'', rn_started_at := Some now, rn_updated_at := now\<rparr>"
  define db' where "db' = db\<lparr>cg_runs := put_row rn_run_id q (cg_runs db)\<rparr>"
  have r: "r \<in> set (cg_runs db)" "rn_account_id r = a" using active_run_SomeD(2,3) [OF assms(2)] by (simp_all add: is_active_run_def)
  have start: "start_product_run now (rn_run_id r) db = (db', Some q)"
    using get_row_distinct [OF assms(1) r(1)] assms(3) by (simp add: start_product_run_def q_def db'_def Let_def)
  have "active_product_run a op (cg_runs db') = Some q"
    using active_run_started [OF assms(1, 2), of now] by (simp add: q_def db'_def)
  then have "create_product_run new_id later a op ''scheduled'' ids full (db'\<lparr>cg_products := repaired\<rparr>) = (db'\<lparr>cg_products := repaired\<rparr>, q)"
    by (simp add: create_product_run_def answered_by_active_def)
  moreover have "get_product_run (rn_run_id r) db' = Some q" by (simp add: get_product_run_def db'_def get_put_row q_def)
  moreover have "execute_product_run now w (Some id) (rn_run_id r) db = (db', CatalogNoClient)"
    using assms(4, 5) r(2) by (simp add: execute_product_run_def start) (simp add: q_def db'_def)
  ultimately show ?thesis by (simp add: q_def)
qed

text \<open>An account without a cookie.\<close>

definition waiting_run :: catalog_db where
  "waiting_run = example_catalog\<lparr>cg_products := no_products\<lparr>pb_accounts := [account_defaults ''a'' 0]\<rparr>,
     cg_runs := [new_product_run ''r'' 0 ''a'' ''sync'' ''scheduled'' [] True]\<rparr>"

definition repaired_products :: product_db where
  "repaired_products = no_products\<lparr>pb_accounts := [(account_defaults ''a'' 0)\<lparr>ac_cookie := ''unb=1''\<rparr>]\<rparr>"

theorem unmade_client_blocks_schedule_witness:
  "case execute_product_run 1 example_catalog_world (Some id) ''r'' waiting_run of (db', answer) \<Rightarrow> answer = CatalogNoClient
    \<and> (\<exists>q. get_product_run ''r'' db' = Some q \<and> rn_status q = ''running''
         \<and> create_product_run ''r2'' 2 ''a'' ''sync'' ''scheduled'' [] True (db'\<lparr>cg_products := repaired_products\<rparr>)
           = (db'\<lparr>cg_products := repaired_products\<rparr>, q))"
proof -
  define r where "r = new_product_run ''r'' 0 ''a'' ''sync'' ''scheduled'' [] True"
  have r: "rn_run_id r = ''r''" "rn_status r = ''pending''" by (simp_all add: r_def new_product_run_def)
  have d: "keys_distinct rn_run_id (cg_runs waiting_run)" by (simp add: waiting_run_def keys_distinct_def)
  have a: "active_product_run ''a'' ''sync'' (cg_runs waiting_run) = Some r" unfolding r_def by code_simp
  have g: "get_row ac_account_id (pb_accounts (cg_products waiting_run)) ''a'' = Some (account_defaults ''a'' 0)"
    by (simp add: waiting_run_def account_defaults_def)
  have "\<not> truthy (map_of (parse_cookie (ac_cookie (account_defaults ''a'' 0))) ''unb'')" by code_simp
  from unmade_client_blocks_schedule [OF d a r(2) g this] show ?thesis unfolding r(1) .
qed

end
