(* ===== verification/Spec2Isabelle.thy ===== *)
theory Spec2Isabelle
  imports AccountSafety BackgroundTasks CookieManager OrderSafety AutoReplySafety Broker Executors MessageSafety AccessSafety
    OrderSyncSafety ProductSafety CookieMerge ProductRunSafety
begin

text \<open>
  A verification development of the backend of a multi-account administration system for
  the Xianyu marketplace.

  \<^bold>\<open>The program.\<close> The backend (\<open>src/apps/api/xianyu_admin_api\<close>) keeps accounts, proxy nodes,
  conversations, orders, products and background work in a relational database
  (\<open>store.py\<close> over the tables of \<open>orm.py\<close>), talks to the platform through
  \<open>src/integrations/xianyu_core\<close>, and runs schedulers and a worker beside its HTTP routes.
  An account carries a login cookie and either no proxy or exactly one node of the proxy
  pool. The cookie is renewed by a scheduler (\<open>cookie_renewal_manager.py\<close>) and may be
  replaced meanwhile by a login or by a response of the platform. Long work is a row of the
  background task table that a worker claims with a lease. A seller action on an order
  (ship, close, rate, refuse a refund) is checked against the freshly read platform state,
  recorded as an operation under an idempotency key, sent to the platform once, and its
  result is stored (\<open>order_action_service.py\<close>, \<open>order_action_policy.py\<close>). An incoming message may
  be answered automatically: rules of the user who owns the account, or of the account,
  choose a template or a language model, the execution is claimed in a log and the reply is
  sent unless the conversation changed meanwhile (\<open>runtime.py\<close>). A product is published by a task that
  a worker executes under a lock of the account (\<open>product_publish_service.py\<close>,
  \<open>product_publisher.py\<close>); a failed attempt may be retried as a new task. Blocking work runs in bounded
  thread pools (\<open>executors.py\<close>) and browsers follow the changes through an event broker
  (\<open>realtime.py\<close>).

  \<^bold>\<open>The theories.\<close>
  \<^item> \<open>Prelude\<close>: time, Python's truth values and string methods, tables as lists of rows, and the
    interfaces: \<open>row_update\<close> (an update that keeps the key), \<open>invariant_system\<close> (a step relation
    with an invariant), \<open>one_shot\<close> and \<open>exclusive_claim\<close> (work that at most one of several racing
    callers gets).
  \<^item> \<open>Network\<close>: \<open>account_network.py\<close> and \<open>proxy.py\<close>, the route of an account and its SOCKS URL.
  \<^item> \<open>Accounts\<close>: the rows of accounts and proxies and what of them decides the route
    (\<open>_row_to_record\<close>).
  \<^item> \<open>ProxyPool\<close>: the operations of \<open>store.py\<close> on proxies, and the replacement of a cookie with
    rebinding. The lemmas show that every operation keeps the keys, the uniqueness of the
    binding and that bound nodes exist and are enabled.
  \<^item> \<open>AccountAdmin\<close>: creation, import with its preview, update, order and identities of accounts
    (\<open>store.py\<close>, \<open>main.py\<close>); \<open>AccountSafety\<close>: accounts keep their own route and fingerprint, a failed import
    leaves nothing, a clean preview is imported, a new order takes effect.
  \<^item> \<open>BackgroundTasks\<close>: the task table of \<open>store.py\<close>: creation with a dedupe key, retry, claim, lease,
    expiry, finish. The lemmas show mutual exclusion of the workers, finality of finished
    tasks and fencing of workers whose lease expired.
  \<^item> \<open>CookieRenewal\<close>: the renewal rows and attempts of \<open>store.py\<close> and the guarded replacement of the
    cookie; \<open>CookieManager\<close>: \<open>cookie_renewal_manager.py\<close>, triggers, due times, back-off, execution
    and scan. The lemmas show that attempts stay consistent, that a renewal never overwrites
    a newer cookie and always settles, and that no account is lost by the scan.
  \<^item> \<open>PyText\<close>: Unicode text and JSON values with \<open>str\<close> and \<open>json.dumps\<close>; \<open>PeerNames\<close>: \<open>peer_names.py\<close>.
  \<^item> \<open>Orders\<close>: the order tables and how the detail, the shipping options, the refund detail and the
    head information are written into them (\<open>_apply_order_...\<close> of \<open>store.py\<close>).
  \<^item> \<open>OrderPolicy\<close>: \<open>order_action_policy.py\<close> and the order payload.
  \<^item> \<open>OrderActions\<close>: \<open>order_action_service.py\<close>: the repository of operations, the refresh, preview and
    execution, as computations on the tables that may raise; the locale \<open>act_frame\<close> gives the
    frame rules. \<open>OrderSafety\<close>: properties across the order theories and three defects.
  \<^item> \<open>Conversations\<close>: the rows of conversations and messages and the manual takeover.
  \<^item> \<open>AutoReplyRules\<close>: the rules of automatic replies (\<open>store.py\<close>, \<open>schemas.py\<close>): matching, scope, selection,
    order, creation, change, warnings. The lemmas show that the selection stops where it
    should, that a reordering takes effect and that the warnings are right.
  \<^item> \<open>ReplyTemplates\<close>: the context of a reply, the choice of its fields and the rendering of templates.
  \<^item> \<open>AutoReply\<close>: decision, preview, claim, log, last check, the request to the language model and the
    handler of a message; \<open>AutoReplySafety\<close>: at most one answer per message, only where allowed,
    preview and decision agree, two defects.
  \<^item> \<open>Deliveries\<close>: delivery templates and records (\<open>store.py\<close>) and sending a record (\<open>runtime.py\<close>): a record is
    delivered at most once, an order is prepared once; one defect.
  \<^item> \<open>CardParser\<close>: \<open>card_parser.py\<close>, the cards and order events found in the payload of a message.
    \<open>OrderEvents\<close>: the order and the event written from a message (\<open>_upsert_order_event\<close>).
  \<^item> \<open>Messages\<close>: recording a message, outgoing texts and images, read marks (\<open>store.py\<close>);
    \<open>MessageSafety\<close>: a message is stored once, the unique indexes are respected, the counters are
    exact, the work state does not depend on the order of arrival; one defect.
  \<^item> \<open>OrderLists\<close>: the lists of sold and bought orders (\<open>order_operations.py\<close>,
    \<open>buyer_order_operations.py\<close>), with parsing, retries and pagination; \<open>OrderSync\<close>: \<open>order_management_service.py\<close>
    and its scheduler; \<open>OrderSyncSafety\<close>: what is listed is written exactly and once, runs come to
    an end when they are executed, and what a lost worker leaves behind.
  \<^item> \<open>ProductTasks\<close>: images, drafts, publish tasks with their attempts, and the choice of an address
    (\<open>store.py\<close>); \<open>ProductPublisher\<close>: \<open>product_publisher.py\<close>, whose calls are functions on a trace of events; the
    locale \<open>trace_property\<close> gives what every call keeps of it, and the prices sent are the nearest
    cents; \<open>ProductPublish\<close>: \<open>product_publish_service.py\<close>. \<open>CookieMerge\<close>: the merge of cookies loses nothing;
    \<open>ProductSafety\<close>: a job is published at most once, and two defects.
  \<^item> \<open>ProductOperations\<close>: \<open>product_operations.py\<close>; \<open>ProductRuns\<close>: \<open>product_management_service.py\<close> and its
    scheduler; \<open>ProductRunSafety\<close>: what a sequence of synchronisations makes of an item, exact
    numbers of runs, and two defects.
  \<^item> \<open>Access\<close>: \<open>security.py\<close>, users, sessions and quick phrases (\<open>store.py\<close>), the middleware \<open>require_jwt\<close>, the
    login routes and the tickets of the event stream (\<open>main.py\<close>); \<open>AccessSafety\<close>: passwords verify, ended
    sessions stay ended, requests are admitted only with a live session and the permission.
  \<^item> \<open>Broker\<close>: \<open>realtime.py\<close>, shown by the locale \<open>simulation\<close> to refine a log with cursors.
  \<^item> \<open>Executors\<close>: \<open>executors.py\<close> as a step relation; its counters are exact and leak nothing.

  \<^bold>\<open>How the code is modelled.\<close> A database session is a function from the tables to the tables and a
  result; exceptions are values of a sum type and leave the writes committed before them.
  Unique indexes and primary keys are checked where the code handles or relies on the
  commit that they reject. The current time, fresh identifiers, random jitter, the platform
  and the runtime are arguments. Concurrent callers are modelled by arbitrary sequences of
  whole transactions (step relations and \<^const>\<open>claim_all\<close>); the store serialises the
  transactions of one row with locks or conditional updates. Message texts that are only
  shown are constructors; texts that are searched are lists of code points. The loops of
  the modelled code are structural or have a measure, except for the two paginations of \<open>OrderLists\<close>,
  which depend on the platform and carry a bound on the number of pages: for bought orders one
  page more than the platform has cursors is enough (\<open>bought_listing_ends\<close>), for sold orders no
  bound is enough for every platform (\<open>sold_listing_may_not_end\<close>).

  \<^bold>\<open>Assumptions.\<close> The hypotheses of the properties are well-formedness of the starting state (unique
  keys), what the payload validators of \<open>schemas.py\<close> guarantee, and freshness of \<open>uuid4\<close>
  identifiers where a new row is inserted. \<open>json.loads\<close> of a nested text field and the Unicode
  normalisation tables are arguments.

  \<^bold>\<open>Not modelled.\<close> Most HTTP routes (\<open>main.py\<close>), the web front end, the browser automation, the
  network exchange with the platform (\<open>client.py\<close>, \<open>order_actions.py\<close>), the Chatwoot bridge, the
  verification flows, the encryption of migration archives; of products the search and the
  summaries, the unused seller-center paths, the administration of addresses and the cache of
  locations; of messages the lists, the synchronisation of conversation summaries and
  the backfills. These are I/O with outside services, browser sessions or plain queries, except for the
  outbox of the Chatwoot bridge, which is next in the plan.
\<close>

end
